(* ===== verification/Prelude.thy ===== *)
theory Prelude
  imports Main "HOL-Library.Word"
begin

text \<open>
  Shared vocabulary of the development: the machine types of the Go sources,
  the error values, programs over a store that may fail, the transaction
  boundary, the step-relation calculus with which every invariant of the
  library is proved, and generic lemmas on tables (lists of rows).
\<close>

section \<open>Machine types\<close>

text \<open>
  Go's \<open>uint64\<close>, \<open>int64\<close> and \<open>uint32\<close> are words (read with \<open>unat\<close> or
  \<open>sint\<close>), a byte slice is a list of 8-bit words (\<open>nil\<close> and the empty slice
  agree under \<open>len\<close>), an \<open>sdkmath.Int\<close> or \<open>big.Int\<close> is an unbounded \<open>int\<close>,
  and a timestamp is an \<open>int\<close> (nanoseconds).
\<close>

type_synonym uint64 = "64 word"
type_synonym int64 = "64 word"
type_synonym uint32 = "32 word"
type_synonym bytes = "8 word list"
type_synonym time = int

section \<open>Errors\<close>

text \<open>
  One constructor per sentinel error of the sources; \<open>%w\<close> wrapping keeps the
  sentinel, so a wrapped error is the sentinel itself and \<open>errors.Is\<close> is
  equality.  Sentinels of the same name in \<open>withdrawals\<close> and \<open>sweeps\<close> share a
  constructor (no caller sees both).  \<open>SignerErr\<close> carries the signer code, \<open>TxErr\<close> the name of the \<open>tx\<close> package's
  sentinel, and \<open>ErrOther\<close> stands for every error that wraps no sentinel.
\<close>

datatype err =
    ErrNotFound | ErrDuplicate | ErrActiveSweepExists | ErrIllegalTransition
  | ErrStatusConflict | ErrInvalidRecord
  | ErrReleasedSlotUnusable
  | ErrInvalidRequest | ErrAwaitingCompliance | ErrBelowMinimum
  | ErrInsufficientSpendable | ErrSimulationUnavailable | ErrFeeExceedsMax
  | ErrPaused | ErrQuarantined | ErrSignerUnavailable
  | ErrSignatureInvalid | ErrWrongSigningKey
  | ErrCreditGateClosed
  | ErrDeferred | ErrFundingPending | ErrNoFeeWallet | ErrNoSigner
  | ClientErrNotFound | ClientErrSimulateUnavailable | ClientErrUnsupported
  | SignerErr string | TxErr string
  | ErrOther string

section \<open>Programs over a store\<close>

type_synonym ('s, 'a) prog = "'s \<Rightarrow> (err + 'a) \<times> 's"

definition ret :: "'a \<Rightarrow> ('s, 'a) prog" where
  "ret x = (\<lambda>s. (Inr x, s))"

definition throw :: "err \<Rightarrow> ('s, 'a) prog" where
  "throw e = (\<lambda>s. (Inl e, s))"

definition gets :: "('s \<Rightarrow> 'a) \<Rightarrow> ('s, 'a) prog" where
  "gets f = (\<lambda>s. (Inr (f s), s))"

definition modify :: "('s \<Rightarrow> 's) \<Rightarrow> ('s, unit) prog" where
  "modify f = (\<lambda>s. (Inr (), f s))"

definition liftR :: "err + 'a \<Rightarrow> ('s, 'a) prog" where
  "liftR r = (\<lambda>s. (r, s))"

definition guardE :: "bool \<Rightarrow> err \<Rightarrow> ('s, unit) prog" where
  "guardE b e = (if b then ret () else throw e)"

definition bindE :: "('s, 'a) prog \<Rightarrow> ('a \<Rightarrow> ('s, 'b) prog) \<Rightarrow> ('s, 'b) prog" where
  "bindE m f = (\<lambda>s. case m s of (Inl e, s') \<Rightarrow> (Inl e, s') | (Inr a, s') \<Rightarrow> f a s')"

definition thenE :: "('s, 'a) prog \<Rightarrow> ('s, 'b) prog \<Rightarrow> ('s, 'b) prog" where
  "thenE m n = bindE m (\<lambda>_. n)"

text \<open>\<open>tryE\<close> turns the error into a value, as \<open>x, err := f()\<close> does.\<close>

definition tryE :: "('s, 'a) prog \<Rightarrow> ('s, err + 'a) prog" where
  "tryE m = (\<lambda>s. case m s of (r, s') \<Rightarrow> (Inr r, s'))"

text \<open>
  The transaction boundary: commit on success, roll the whole store back on
  an error.  A nested call runs inside the open transaction, which for a body
  that fails is the outer rollback.  A body that swallows the error of a failed
  statement goes on in the open transaction: that is SQLite.  PostgreSQL aborts
  the transaction at the failed statement.  Two bodies of the program swallow an
  \<open>ErrDuplicate\<close>: \<open>RecordBlock\<close>, which is modelled for that backend too in the theory
  \<open>Postgres\<close>, and \<open>confirmTx\<close> of the sweeps, where only two jobs with one transaction
  hash could meet it.
\<close>

definition with_tx :: "('s, 'a) prog \<Rightarrow> ('s, 'a) prog" where
  "with_tx m = (\<lambda>s. case m s of (Inl e, s') \<Rightarrow> (Inl e, s) | (Inr a, s') \<Rightarrow> (Inr a, s'))"

primrec forE :: "'a list \<Rightarrow> ('a \<Rightarrow> ('s, unit) prog) \<Rightarrow> ('s, unit) prog" where
  "forE [] f = ret ()"
| "forE (x # xs) f = thenE (f x) (forE xs f)"

primrec foldE :: "('b \<Rightarrow> 'a \<Rightarrow> ('s, 'b) prog) \<Rightarrow> 'a list \<Rightarrow> 'b \<Rightarrow> ('s, 'b) prog" where
  "foldE f [] b = ret b"
| "foldE f (x # xs) b = bindE (f b x) (foldE f xs)"

lemmas prog_defs = ret_def throw_def gets_def modify_def liftR_def guardE_def
  bindE_def thenE_def tryE_def

lemma ret_run [simp]: "ret x s = (Inr x, s)" by (simp add: ret_def)
lemma throw_run [simp]: "throw e s = (Inl e, s)" by (simp add: throw_def)
lemma gets_run [simp]: "gets f s = (Inr (f s), s)" by (simp add: gets_def)
lemma modify_run [simp]: "modify f s = (Inr (), f s)" by (simp add: modify_def)
lemma liftR_run [simp]: "liftR r s = (r, s)" by (simp add: liftR_def)
lemma guardE_run [simp]: "guardE b e s = (if b then (Inr (), s) else (Inl e, s))"
  by (simp add: guardE_def)
lemma tryE_run: "tryE m s = (Inr (fst (m s)), snd (m s))"
  by (simp add: tryE_def split_beta)

lemma bindE_Inr: "m s = (Inr a, s') \<Longrightarrow> bindE m f s = f a s'"
  by (simp add: bindE_def)

lemma bindE_Inl: "m s = (Inl e, s') \<Longrightarrow> bindE m f s = (Inl e, s')"
  by (simp add: bindE_def)

lemma bindE_simps [simp]:
  "bindE (ret a) f = f a"
  "bindE (throw e) f = throw e"
  "bindE (gets g) f s = f (g s) s"
  "bindE (modify h) f' s = f' () (h s)"
  "bindE (liftR (Inr a)) f = f a"
  "bindE (liftR (Inl e)) f = throw e"
  "bindE (guardE b e) f' = (if b then f' () else throw e)"
  by (auto simp: bindE_def fun_eq_iff)

lemma bindE_assoc: "bindE (bindE m f) g = bindE m (\<lambda>x. bindE (f x) g)"
  by (auto simp: bindE_def fun_eq_iff split: prod.splits sum.splits)

lemma bindE_ok_iff:
  "bindE m f s = (Inr b, s'') \<longleftrightarrow> (\<exists>a s'. m s = (Inr a, s') \<and> f a s' = (Inr b, s''))"
  by (auto simp: bindE_def split: prod.splits sum.splits)

lemma thenE_ok_iff:
  "thenE m n s = (Inr b, s'') \<longleftrightarrow> (\<exists>a s'. m s = (Inr a, s') \<and> n s' = (Inr b, s''))"
  by (simp add: thenE_def bindE_ok_iff)

lemma with_tx_ok_iff: "with_tx m s = (Inr a, s') \<longleftrightarrow> m s = (Inr a, s')"
  by (auto simp: with_tx_def split: prod.splits sum.splits)

lemma with_tx_err_iff: "with_tx m s = (Inl e, s') \<longleftrightarrow> fst (m s) = Inl e \<and> s' = s"
  by (auto simp: with_tx_def split: prod.splits sum.splits)

text \<open>Atomicity: a transaction that fails leaves the store as it found it.\<close>

lemma with_tx_atomic: "fst (with_tx m s) = Inl e \<Longrightarrow> snd (with_tx m s) = s"
  by (auto simp: with_tx_def split: prod.splits sum.splits)

lemma with_tx_fst [simp]: "fst (with_tx m s) = fst (m s)"
  by (auto simp: with_tx_def split: prod.splits sum.splits)

lemma with_tx_nested: "with_tx (with_tx m) = with_tx m"
  by (auto simp: with_tx_def fun_eq_iff split: prod.splits sum.splits)

section \<open>Step relations\<close>

text \<open>
  \<open>stays R m\<close>: whatever the program \<open>m\<close> does, the store it leaves is related by
  \<open>R\<close> to the store it was started in.  For \<open>R\<close> a preorder the property is
  compositional; a state invariant \<open>I\<close> is the preorder \<open>I s \<longrightarrow> I t\<close>, and a
  history property under an invariant is \<open>inv_rel I R\<close>.
\<close>

definition stays :: "('s \<Rightarrow> 's \<Rightarrow> bool) \<Rightarrow> ('s, 'a) prog \<Rightarrow> bool" where
  "stays R m \<longleftrightarrow> (\<forall>s. R s (snd (m s)))"

definition inv_rel :: "('s \<Rightarrow> bool) \<Rightarrow> ('s \<Rightarrow> 's \<Rightarrow> bool) \<Rightarrow> 's \<Rightarrow> 's \<Rightarrow> bool" where
  "inv_rel I R s t \<longleftrightarrow> (I s \<longrightarrow> I t \<and> R s t)"

locale step_rel =
  fixes R :: "'s \<Rightarrow> 's \<Rightarrow> bool"
  assumes R_refl: "R s s"
    and R_trans: "R s t \<Longrightarrow> R t u \<Longrightarrow> R s u"
begin

lemma stays_ret: "stays R (ret x)"
  by (simp add: stays_def R_refl)

lemma stays_throw: "stays R (throw e)"
  by (simp add: stays_def R_refl)

lemma stays_gets: "stays R (gets f)"
  by (simp add: stays_def R_refl)

lemma stays_liftR: "stays R (liftR r)"
  by (simp add: stays_def R_refl)

lemma stays_guardE: "stays R (guardE b e)"
  by (simp add: stays_def R_refl)

lemma stays_bindE: "stays R m \<Longrightarrow> (\<And>a. stays R (f a)) \<Longrightarrow> stays R (bindE m f)"
  unfolding stays_def bindE_def
  by (auto split: prod.splits sum.splits) (metis R_trans snd_conv)+

lemma stays_thenE: "stays R m \<Longrightarrow> stays R n \<Longrightarrow> stays R (thenE m n)"
  by (simp add: thenE_def stays_bindE)

lemma stays_tryE: "stays R m \<Longrightarrow> stays R (tryE m)"
  by (simp add: stays_def tryE_run)

lemma stays_with_tx: "stays R m \<Longrightarrow> stays R (with_tx m)"
  unfolding stays_def with_tx_def
  by (auto split: prod.splits sum.splits simp: R_refl) (metis snd_conv)

lemma stays_forE: "(\<And>x. stays R (f x)) \<Longrightarrow> stays R (forE xs f)"
  by (induction xs) (auto intro: stays_ret stays_thenE)

lemma stays_foldE: "(\<And>b x. stays R (f b x)) \<Longrightarrow> stays R (foldE f xs b)"
  by (induction xs arbitrary: b) (auto intro: stays_ret stays_bindE)

lemma stays_if: "(c \<Longrightarrow> stays R m) \<Longrightarrow> (\<not> c \<Longrightarrow> stays R n) \<Longrightarrow> stays R (if c then m else n)"
  by simp

lemma stays_option: "(z = None \<Longrightarrow> stays R m) \<Longrightarrow> (\<And>x. z = Some x \<Longrightarrow> stays R (f x)) \<Longrightarrow>
  stays R (case z of None \<Rightarrow> m | Some x \<Rightarrow> f x)"
  by (simp split: option.split)

lemma stays_sum: "(\<And>e. z = Inl e \<Longrightarrow> stays R (g e)) \<Longrightarrow> (\<And>x. z = Inr x \<Longrightarrow> stays R (f x)) \<Longrightarrow>
  stays R (case z of Inl e \<Rightarrow> g e | Inr x \<Rightarrow> f x)"
  by (simp split: sum.split)

lemma stays_prod: "(\<And>a b. stays R (f a b)) \<Longrightarrow> stays R (case z of (a, b) \<Rightarrow> f a b)"
  by (simp split: prod.split)

lemma stays_let: "(\<And>x. stays R (f x)) \<Longrightarrow> stays R (let x = z in f x)"
  by (simp add: Let_def)

lemma stays_unchanged: "(\<And>s. snd (m s) = s) \<Longrightarrow> stays R m"
  by (simp add: stays_def R_refl)

lemmas stays_rules = stays_ret stays_throw stays_gets stays_liftR stays_guardE
  stays_bindE stays_thenE stays_tryE stays_with_tx stays_forE stays_foldE
  stays_if stays_option stays_sum stays_prod stays_let

text \<open>The same from one known store, where facts about that store may be used.\<close>

lemma from_bindE: "R s (snd (m s)) \<Longrightarrow> (\<And>a. stays R (f a)) \<Longrightarrow> R s (snd (bindE m f s))"
  unfolding bindE_def stays_def
  by (auto split: prod.splits sum.splits) (metis R_trans)

lemma from_tryE: "R s (snd (m s)) \<Longrightarrow> R s (snd (tryE m s))"
  by (simp add: tryE_run)

lemma from_with_tx: "R s (snd (m s)) \<Longrightarrow> R s (snd (with_tx m s))"
  unfolding with_tx_def by (auto split: prod.splits sum.splits simp: R_refl)

lemma from_stays: "stays R m \<Longrightarrow> R s (snd (m s))"
  by (simp add: stays_def)

lemma from_if: "(c \<Longrightarrow> R s (snd (m s))) \<Longrightarrow> (\<not> c \<Longrightarrow> R s (snd (n s))) \<Longrightarrow> R s (snd ((if c then m else n) s))"
  by simp

lemma from_option: "(z = None \<Longrightarrow> R s (snd (m s))) \<Longrightarrow> (\<And>x. z = Some x \<Longrightarrow> R s (snd (f x s))) \<Longrightarrow>
  R s (snd ((case z of None \<Rightarrow> m | Some x \<Rightarrow> f x) s))"
  by (simp split: option.split)

lemma from_sum: "(\<And>e. z = Inl e \<Longrightarrow> R s (snd (g e s))) \<Longrightarrow> (\<And>x. z = Inr x \<Longrightarrow> R s (snd (f x s))) \<Longrightarrow>
  R s (snd ((case z of Inl e \<Rightarrow> g e | Inr x \<Rightarrow> f x) s))"
  by (simp split: sum.split)

lemma from_prod: "(\<And>a b. z = (a, b) \<Longrightarrow> R s (snd (f a b s))) \<Longrightarrow> R s (snd ((case z of (a, b) \<Rightarrow> f a b) s))"
  by (simp split: prod.split)

lemma from_throw: "R s (snd (throw e s))"
  by (simp add: R_refl)

lemmas from_rules = from_if from_option from_sum from_prod from_throw from_tryE from_with_tx

lemma stays_read:
  "(\<And>s. m s = (fst (m s), s)) \<Longrightarrow> (\<And>s a. m s = (Inr a, s) \<Longrightarrow> R s (snd (f a s))) \<Longrightarrow> stays R (bindE m f)"
  unfolding stays_def bindE_def
  by (auto split: prod.splits sum.splits) (metis R_refl prod.inject, metis prod.inject)

end

lemma step_rel_inv: "step_rel (\<lambda>s t. I s \<longrightarrow> I t)"
  by unfold_locales auto

lemma step_rel_inv_rel: "step_rel R \<Longrightarrow> step_rel (inv_rel I R)"
  by (unfold_locales) (auto simp: inv_rel_def step_rel_def)

lemma staysD: "stays R m \<Longrightarrow> m s = (r, t) \<Longrightarrow> R s t"
  by (metis stays_def snd_conv)

section \<open>Tables\<close>

text \<open>
  A table is the list of its rows in insertion order; \<open>map_where\<close> is the SQL
  \<open>UPDATE \<dots> WHERE\<close>, \<open>find\<close> the row a unique key selects, \<open>sort_key\<close> the
  \<open>ORDER BY\<close> and \<open>limit_rows\<close> the optional \<open>LIMIT\<close>.
\<close>

definition map_where :: "('r \<Rightarrow> bool) \<Rightarrow> ('r \<Rightarrow> 'r) \<Rightarrow> 'r list \<Rightarrow> 'r list" where
  "map_where p f rows = map (\<lambda>r. if p r then f r else r) rows"

definition limit_rows :: "int \<Rightarrow> 'r list \<Rightarrow> 'r list" where
  "limit_rows n rows = (if n > 0 then take (nat n) rows else rows)"

lemma set_map_where:
  "set (map_where p f rows) = f ` {r \<in> set rows. p r} \<union> {r \<in> set rows. \<not> p r}"
  by (auto simp: map_where_def)

lemma map_where_in:
  "r \<in> set rows \<Longrightarrow> (if p r then f r else r) \<in> set (map_where p f rows)"
  by (auto simp: map_where_def)

lemma map_where_inE:
  assumes "r' \<in> set (map_where p f rows)"
  obtains r where "r \<in> set rows" "r' = (if p r then f r else r)"
  using assms by (auto simp: map_where_def)

lemma map_where_key [simp]:
  "(\<And>r. p r \<Longrightarrow> k (f r) = k r) \<Longrightarrow> map k (map_where p f rows) = map k rows"
  by (simp add: map_where_def)

lemma length_map_where [simp]: "length (map_where p f rows) = length rows"
  by (simp add: map_where_def)

lemma filter_map_where:
  "(\<And>r. p r \<Longrightarrow> q (f r) = q r) \<Longrightarrow> filter q (map_where p f rows) = map_where p f (filter q rows)"
  by (induction rows) (auto simp: map_where_def)

lemma map_where_id: "(\<And>r. r \<in> set rows \<Longrightarrow> \<not> p r) \<Longrightarrow> map_where p f rows = rows"
  by (simp add: map_where_def map_idI)

lemma find_SomeD: "find p xs = Some x \<Longrightarrow> x \<in> set xs \<and> p x"
  by (induction xs) (auto split: if_splits)

lemma find_NoneD: "find p xs = None \<Longrightarrow> x \<in> set xs \<Longrightarrow> \<not> p x"
  by (induction xs) (auto split: if_splits)

lemma find_key_distinct:
  "distinct (map k rows) \<Longrightarrow> r \<in> set rows \<Longrightarrow> k r = x \<Longrightarrow> find (\<lambda>r. k r = x) rows = Some r"
  by (induction rows) (auto split: if_splits)

lemma distinct_map_inj: "distinct (map k rows) \<Longrightarrow> r \<in> set rows \<Longrightarrow> r' \<in> set rows \<Longrightarrow> k r = k r' \<Longrightarrow> r = r'"
  by (auto simp: distinct_map inj_on_def)

lemma find_map_where_same:
  "(\<And>r. p r \<Longrightarrow> k (f r) = k r) \<Longrightarrow>
   find (\<lambda>r. k r = x) (map_where p f rows) =
     map_option (\<lambda>r. if p r then f r else r) (find (\<lambda>r. k r = x) rows)"
  by (induction rows) (auto simp: map_where_def)

lemma limit_rows_subset: "set (limit_rows n rows) \<subseteq> set rows"
  by (auto simp: limit_rows_def dest: in_set_takeD)

section \<open>Compare-and-swap repositories\<close>

text \<open>
  The contract every \<open>UpdateStatus\<close> of the storage layer keeps, stated once:
  the update validates the pair against the entity's table, requires the
  stored status to be the expected one, rewrites the one row, and changes
  nothing when it fails.  The clients are proved from these laws alone.
\<close>

locale cas_repo =
  fixes rows :: "'s \<Rightarrow> 'r list"
    and key :: "'r \<Rightarrow> 'k"
    and st :: "'r \<Rightarrow> 'st"
    and legal :: "'st \<Rightarrow> 'st \<Rightarrow> bool"
    and app :: "time \<Rightarrow> 'st \<Rightarrow> 'st \<Rightarrow> 'u \<Rightarrow> 'r \<Rightarrow> 'r"
    and upd :: "time \<Rightarrow> 'k \<Rightarrow> 'st \<Rightarrow> 'st \<Rightarrow> 'u \<Rightarrow> ('s, unit) prog"
  assumes upd_ok: "upd now k from to u s = (Inr (), s') \<Longrightarrow>
      legal from to \<and> (\<exists>r \<in> set (rows s). key r = k \<and> st r = from) \<and>
      rows s' = map_where (\<lambda>r. key r = k \<and> st r = from) (app now from to u) (rows s)"
    and upd_err: "upd now k from to u s = (Inl e, s') \<Longrightarrow> s' = s"
    and upd_conflict: "legal from to \<Longrightarrow> find (\<lambda>r. key r = k) (rows s) = Some r \<Longrightarrow> st r \<noteq> from \<Longrightarrow>
      fst (upd now k from to u s) \<noteq> Inr ()"
    and app_key: "key (app now from to u r) = key r"
    and app_st: "st (app now from to u r) = to"
    and legal_irrefl: "\<not> legal x x"
begin

lemma upd_rows_key: "map key (rows (snd (upd now k from to u s))) = map key (rows s)"
proof (cases "upd now k from to u s")
  case (Pair r s')
  then show ?thesis
    using upd_ok upd_err app_key by (cases r) (fastforce intro: map_where_key)+
qed

text \<open>Every row keeps its status or moves along a legal edge.\<close>

lemma upd_legal:
  assumes "upd now k from to u s = (r, s')" "x' \<in> set (rows s')"
  shows "\<exists>x \<in> set (rows s). key x = key x' \<and> (x' = x \<or> (st x = from \<and> st x' = to \<and> legal from to))"
proof (cases r)
  case (Inl e)
  then show ?thesis using assms upd_err by blast
next
  case (Inr y)
  then have ok: "upd now k from to u s = (Inr (), s')" using assms by simp
  from upd_ok [OF ok] assms(2) show ?thesis
    by (auto simp: app_key app_st elim!: map_where_inE split: if_splits)
qed

text \<open>Optimistic concurrency: of two updates that expect the same status, one wins.\<close>

lemma upd_once:
  assumes ok: "upd now k from to u s = (Inr (), s')"
    and dist: "distinct (map key (rows s))"
  shows "fst (upd now' k from to' u' s') \<noteq> Inr ()"
proof
  assume again: "fst (upd now' k from to' u' s') = Inr ()"
  then obtain s'' where ok2: "upd now' k from to' u' s' = (Inr (), s'')"
    by (cases "upd now' k from to' u' s'") simp
  obtain y where y: "y \<in> set (rows s')" "key y = k" "st y = from" and leg2: "legal from to'"
    using upd_ok [OF ok2] by blast
  obtain r where r: "r \<in> set (rows s)" "key r = k" "st r = from" and leg: "legal from to"
    and rs: "rows s' = map_where (\<lambda>r. key r = k \<and> st r = from) (app now from to u) (rows s)"
    using upd_ok [OF ok] by blast
  from y(1) rs obtain x where x: "x \<in> set (rows s)"
    "y = (if key x = k \<and> st x = from then app now from to u x else x)"
    by (auto elim: map_where_inE)
  have "key x = k" using x(2) y(2) by (auto simp: app_key split: if_splits)
  then have "x = r" using dist r x(1) distinct_map_inj by metis
  then have "st y = to" using x(2) r by (simp add: app_st)
  with y(3) leg show False by (simp add: legal_irrefl)
qed

end

end
