(* ===== verification/Decimal.thy ===== *)
theory Decimal
  imports Prelude
begin

text \<open>
  Decimal text as Go's \<open>strconv\<close>, \<open>big.Int\<close> and the digit-class regular
  expressions of the sources see it: printing a natural number or integer,
  reading a digit string, the two digit recognisers, \<open>strconv.ParseInt\<close> for
  64 bits, and the round trips in both directions.
\<close>

definition digit_char :: "nat \<Rightarrow> char" where
  "digit_char d = char_of (48 + d)"

definition digit_val :: "char \<Rightarrow> nat" where
  "digit_val c = of_char c - 48"

text \<open>The class \<open>[0-9]\<close>.\<close>

definition is_digit :: "char \<Rightarrow> bool" where
  "is_digit c \<longleftrightarrow> 48 \<le> (of_char c :: nat) \<and> (of_char c :: nat) \<le> 57"

fun show_nat :: "nat \<Rightarrow> string" where
  "show_nat n = (if n < 10 then [digit_char n] else show_nat (n div 10) @ [digit_char (n mod 10)])"

declare show_nat.simps [simp del]

definition show_int :: "int \<Rightarrow> string" where
  "show_int i = (if i < 0 then CHR ''-'' # show_nat (nat (- i)) else show_nat (nat i))"

definition show_u64 :: "uint64 \<Rightarrow> string" where
  "show_u64 w = show_nat (unat w)"

text \<open>\<open>big.Int.SetString(s, 10)\<close> on a string of digits.\<close>

definition read_nat :: "string \<Rightarrow> nat" where
  "read_nat s = foldl (\<lambda>a c. 10 * a + digit_val c) 0 s"

text \<open>\<open>^[0-9]+$\<close> and \<open>^(0|[1-9][0-9]*)$\<close>.\<close>

definition digits_re :: "string \<Rightarrow> bool" where
  "digits_re s \<longleftrightarrow> s \<noteq> [] \<and> list_all is_digit s"

definition canonical_re :: "string \<Rightarrow> bool" where
  "canonical_re s \<longleftrightarrow> digits_re s \<and> (hd s = CHR ''0'' \<longrightarrow> s = ''0'')"

text \<open>\<open>strconv.ParseInt(s, 10, 64)\<close>: an optional sign, digits, in range.\<close>

definition ParseInt64 :: "string \<Rightarrow> int option" where
  "ParseInt64 s =
     (let (neg, ds) = (case s of [] \<Rightarrow> (False, [])
                       | c # cs \<Rightarrow> if c = CHR ''-'' then (True, cs)
                                   else if c = CHR ''+'' then (False, cs) else (False, s));
          v = (if neg then - int (read_nat ds) else int (read_nat ds))
      in if digits_re ds \<and> - (2 ^ 63) \<le> v \<and> v < 2 ^ 63 then Some v else None)"

section \<open>Digits\<close>

lemma of_char_digit_char: "d < 10 \<Longrightarrow> of_char (digit_char d) = 48 + d"
  by (simp add: digit_char_def of_char_mod_256)

lemma digit_val_char [simp]: "d < 10 \<Longrightarrow> digit_val (digit_char d) = d"
  by (simp add: digit_val_def of_char_digit_char)

lemma is_digit_char [simp]: "d < 10 \<Longrightarrow> is_digit (digit_char d)"
  by (simp add: is_digit_def of_char_digit_char)

lemma digit_char_val: "is_digit c \<Longrightarrow> digit_char (digit_val c) = c"
  by (simp add: digit_char_def digit_val_def is_digit_def)

lemma digit_val_less: "is_digit c \<Longrightarrow> digit_val c < 10"
  unfolding digit_val_def is_digit_def by arith

lemma digit_char_0: "digit_char 0 = CHR ''0''"
  by code_simp

lemma digit_char_zero_iff: "d < 10 \<Longrightarrow> digit_char d = CHR ''0'' \<longleftrightarrow> d = 0"
  by (metis digit_char_0 digit_val_char zero_less_numeral)

section \<open>Printing, then reading\<close>

lemma read_nat_Nil [simp]: "read_nat [] = 0"
  by (simp add: read_nat_def)

lemma read_nat_snoc [simp]: "read_nat (s @ [c]) = 10 * read_nat s + digit_val c"
  by (simp add: read_nat_def)

lemma show_nat_digits: "list_all is_digit (show_nat n)"
  by (induction n rule: show_nat.induct) (subst show_nat.simps, simp)

lemma show_nat_nonempty [simp]: "show_nat n \<noteq> []"
  by (subst show_nat.simps) simp

lemma read_show_nat [simp]: "read_nat (show_nat n) = n"
proof (induction n rule: show_nat.induct)
  case (1 n)
  then show ?case
    by (subst show_nat.simps) (auto simp: read_nat_def)
qed

lemma show_nat_inject: "show_nat m = show_nat n \<longleftrightarrow> m = n"
  by (metis read_show_nat)

lemma show_u64_inject: "show_u64 a = show_u64 b \<longleftrightarrow> a = b"
  by (simp add: show_u64_def show_nat_inject word_unat_eq_iff)

lemma show_nat_hd: "0 < n \<Longrightarrow> hd (show_nat n) \<noteq> CHR ''0''"
proof (induction n rule: show_nat.induct)
  case (1 n)
  show ?case
  proof (cases "n < 10")
    case True
    then show ?thesis using 1(2) by (subst show_nat.simps) (simp add: digit_char_zero_iff)
  next
    case False
    then have "hd (show_nat (n div 10)) \<noteq> CHR ''0''" using 1(1) by simp
    then show ?thesis using False by (subst show_nat.simps) (simp add: hd_append)
  qed
qed

lemma digits_re_show_nat [simp]: "digits_re (show_nat n)"
  by (simp add: digits_re_def show_nat_digits)

lemma show_int_inject: "show_int i = show_int j \<longleftrightarrow> i = j"
proof -
  have "show_nat n \<noteq> CHR ''-'' # x" for n x
    using digits_re_show_nat [of n] by (auto simp: digits_re_def is_digit_def)
  from this this [symmetric] show ?thesis by (auto simp: show_int_def show_nat_inject)
qed

lemma show_nat_0: "show_nat 0 = ''0''"
  by (subst show_nat.simps) (simp add: digit_char_0)

lemma canonical_show_nat [simp]: "canonical_re (show_nat n)"
  using show_nat_hd [of n] show_nat_0 digits_re_show_nat [of n]
  by (cases "n = 0") (auto simp: canonical_re_def)

section \<open>Reading, then printing\<close>

lemma read_nat_pos: "list_all is_digit s \<Longrightarrow> s \<noteq> [] \<Longrightarrow> hd s \<noteq> CHR ''0'' \<Longrightarrow> 0 < read_nat s"
proof (induction s rule: rev_induct)
  case (snoc c s)
  show ?case
  proof (cases "s = []")
    case True
    then have c: "is_digit c" "c \<noteq> CHR ''0''" using snoc by auto
    then have "digit_val c \<noteq> 0" using digit_char_zero_iff [of "digit_val c"] digit_val_less [of c]
        digit_char_val [of c] by metis
    then show ?thesis using True by (simp add: read_nat_def)
  next
    case False
    then show ?thesis using snoc by (simp add: hd_append)
  qed
qed simp

lemma show_read_nat: "canonical_re s \<Longrightarrow> show_nat (read_nat s) = s"
proof (induction s rule: rev_induct)
  case (snoc c s)
  have dg: "list_all is_digit s" "is_digit c" using snoc.prems
    by (auto simp: canonical_re_def digits_re_def)
  show ?case
  proof (cases "s = []")
    case True
    then show ?thesis using dg
      by (subst show_nat.simps) (simp add: read_nat_def digit_val_less digit_char_val)
  next
    case False
    have hd: "hd s \<noteq> CHR ''0''" using snoc.prems False
      by (auto simp: canonical_re_def hd_append)
    have pos: "0 < read_nat s" using read_nat_pos dg False hd by blast
    have IH: "show_nat (read_nat s) = s"
      using snoc.IH hd False dg by (simp add: canonical_re_def digits_re_def)
    have ge: "\<not> 10 * read_nat s + digit_val c < 10" using pos by simp
    show ?thesis
      using IH ge digit_val_less [OF dg(2)] digit_char_val [OF dg(2)]
      by (subst show_nat.simps) simp
  qed
qed (simp add: canonical_re_def digits_re_def)

text \<open>An identifier printed with \<open>%d\<close> is read back by \<open>ParseInt\<close>.\<close>

lemma show_nat_hd_digit: "is_digit (hd (show_nat n))"
  using show_nat_digits [of n] show_nat_nonempty [of n] by (cases "show_nat n") auto

lemma ParseInt64_show_int:
  assumes "0 \<le> i" "i < 2 ^ 63"
  shows "ParseInt64 (show_int i) = Some i"
proof -
  obtain c cs where cs: "show_nat (nat i) = c # cs"
    using show_nat_nonempty [of "nat i"] by (cases "show_nat (nat i)") auto
  have "is_digit c" using show_nat_hd_digit [of "nat i"] cs by simp
  then have "c \<noteq> CHR ''-''" "c \<noteq> CHR ''+''" by (auto simp: is_digit_def)
  then show ?thesis
    using assms cs digits_re_show_nat [of "nat i"] read_show_nat [of "nat i"]
    by (simp add: ParseInt64_def show_int_def Let_def)
qed

end
