(* ===== verification/Sha256.thy ===== *)
theory Sha256
  imports Decimal
begin

text \<open>
  Go's \<open>crypto/sha256\<close> and \<open>encoding/hex\<close> as the sources use them: the
  transaction hash is the upper-case hexadecimal SHA-256 of the signed bytes.
\<close>

unbundle bit_operations_syntax

text \<open>
  The round constants and the initial state, from their definition: the first
  32 bits of the fractional parts of the cube (square) roots of the first 64
  (8) primes.
\<close>

definition small_primes :: "nat list" where
  "small_primes = filter (\<lambda>n. n > 1 \<and> list_all (\<lambda>d. n mod d \<noteq> 0) [2..<min n 18]) [0..<312]"

definition int_root :: "nat \<Rightarrow> nat \<Rightarrow> nat" where
  "int_root k n = fold (\<lambda>i x. if (x + 2 ^ i) ^ k \<le> n then x + 2 ^ i else x) (rev [0..<40]) 0"

definition sha256_K :: "32 word list" where
  "sha256_K = map (\<lambda>p. of_nat (int_root 3 (p * 2 ^ 96))) small_primes"

definition sha256_H0 :: "32 word list" where
  "sha256_H0 = map (\<lambda>p. of_nat (int_root 2 (p * 2 ^ 64))) [2, 3, 5, 7, 11, 13, 17, 19]"

definition rotr :: "nat \<Rightarrow> 32 word \<Rightarrow> 32 word" where
  "rotr n x = (drop_bit n x) OR (push_bit (32 - n) x)"

definition be32 :: "bytes \<Rightarrow> 32 word" where
  "be32 bs = foldl (\<lambda>a b. push_bit 8 a OR ucast b) 0 bs"

definition be_bytes :: "nat \<Rightarrow> 'a::len word \<Rightarrow> bytes" where
  "be_bytes n w = map (\<lambda>i. ucast (drop_bit (8 * i) w)) (rev [0..<n])"

fun chunks :: "nat \<Rightarrow> 'a list \<Rightarrow> 'a list list" where
  "chunks n xs = (if n = 0 \<or> xs = [] then [] else take n xs # chunks n (drop n xs))"

declare chunks.simps [simp del]

definition sha256_pad :: "bytes \<Rightarrow> bytes" where
  "sha256_pad m = m @ [0x80] @ replicate ((119 - length m mod 64) mod 64) 0
     @ be_bytes 8 (of_nat (8 * length m) :: 64 word)"

definition sha256_extend :: "32 word list \<Rightarrow> 32 word list" where
  "sha256_extend w16 = fold (\<lambda>t w.
     let x15 = w ! (t - 15); x2 = w ! (t - 2);
         s0 = rotr 7 x15 XOR rotr 18 x15 XOR drop_bit 3 x15;
         s1 = rotr 17 x2 XOR rotr 19 x2 XOR drop_bit 10 x2
     in w @ [w ! (t - 16) + s0 + w ! (t - 7) + s1]) [16..<64] w16"

fun sha256_round :: "32 word \<times> 32 word \<Rightarrow> 32 word list \<Rightarrow> 32 word list" where
  "sha256_round (k, w) [a, b, c, d, e, f, g, h] =
     (let S1 = rotr 6 e XOR rotr 11 e XOR rotr 25 e;
          ch = (e AND f) XOR (NOT e AND g);
          t1 = h + S1 + ch + k + w;
          S0 = rotr 2 a XOR rotr 13 a XOR rotr 22 a;
          maj = (a AND b) XOR (a AND c) XOR (b AND c);
          t2 = S0 + maj
      in [t1 + t2, a, b, c, d + t1, e, f, g])"
| "sha256_round kw st = st"

definition sha256_block :: "bytes \<Rightarrow> 32 word list \<Rightarrow> 32 word list" where
  "sha256_block blk hs =
     map2 (+) hs (fold sha256_round (zip sha256_K (sha256_extend (map be32 (chunks 4 blk)))) hs)"

definition Sum256 :: "bytes \<Rightarrow> bytes" where
  "Sum256 m = concat (map (be_bytes 4) (fold sha256_block (chunks 64 (sha256_pad m)) sha256_H0))"

definition hex_digit_upper :: "nat \<Rightarrow> char" where
  "hex_digit_upper d = (if d < 10 then char_of (48 + d) else char_of (55 + d))"

text \<open>\<open>strings.ToUpper(hex.EncodeToString(bz))\<close>.\<close>

definition hexUpper :: "bytes \<Rightarrow> string" where
  "hexUpper bs = concat (map (\<lambda>b. [hex_digit_upper (unat b div 16), hex_digit_upper (unat b mod 16)]) bs)"

definition txHashOf :: "bytes \<Rightarrow> string" where
  "txHashOf signedTxBytes = hexUpper (Sum256 signedTxBytes)"

lemma be_bytes_length [simp]: "length (be_bytes n w) = n"
  by (simp add: be_bytes_def)

lemma hexUpper_length: "length (hexUpper bs) = 2 * length bs"
  by (induction bs) (auto simp: hexUpper_def)

lemma sha256_round_length: "length (sha256_round kw st) = length st"
  by (induction kw st rule: sha256_round.induct) (auto simp: Let_def)

lemma fold_round_length: "length (fold sha256_round kws st) = length st"
  by (induction kws arbitrary: st) (auto simp: sha256_round_length)

lemma sha256_block_length: "length (sha256_block blk hs) = length hs"
  by (simp add: sha256_block_def fold_round_length)

lemma fold_block_length: "length (fold sha256_block bs hs) = length hs"
  by (induction bs arbitrary: hs) (auto simp: sha256_block_length)

lemma Sum256_length: "length (Sum256 m) = 32"
proof -
  have "length (concat (map (be_bytes 4) ws)) = 4 * length ws" for ws :: "32 word list"
    by (induction ws) auto
  then show ?thesis by (simp add: Sum256_def fold_block_length sha256_H0_def)
qed

lemma txHashOf_nonempty: "txHashOf b \<noteq> []"
proof -
  have "length (txHashOf b) = 64" by (simp add: txHashOf_def hexUpper_length Sum256_length)
  then show ?thesis by auto
qed

end
