(* ===== verification/Storage_Types.thy ===== *)
theory Storage_Types
  imports Prelude
begin

text \<open>
  The persistence contract's data (\<open>go/storage/repo.go\<close>): every enum with the
  source's constructors, the domain records and the partial updates.  An enum
  is a string type in Go, so each datatype has one more constructor that holds
  any other string; \<open>Valid\<close> tells them apart.
\<close>

section \<open>Enums\<close>

fun enumValid :: "'a \<Rightarrow> 'a list \<Rightarrow> bool" where
  "enumValid v [] = False"
| "enumValid v (a # as) = (if v = a then True else enumValid v as)"

lemma enumValid_iff: "enumValid v as \<longleftrightarrow> v \<in> set as"
  by (induction as) auto

definition BaseDenom :: string where "BaseDenom = ''usovr''"

definition SignModeDirect :: string where "SignModeDirect = ''SIGN_MODE_DIRECT''"

datatype LedgerEntryKind = LedgerKindTx | LedgerKindBlockEvent | LedgerEntryKindOther string

definition AllLedgerEntryKinds :: "LedgerEntryKind list" where
  "AllLedgerEntryKinds = [LedgerKindTx, LedgerKindBlockEvent]"

datatype LedgerDirection = DirectionIn | DirectionOut | LedgerDirectionOther string

definition AllLedgerDirections :: "LedgerDirection list" where
  "AllLedgerDirections = [DirectionIn, DirectionOut]"

datatype Classification = ClassExternalDeposit | ClassInternalTransfer | ClassFeeFunding
  | ClassSweep | ClassWithdrawal | ClassFeeDeduction | ClassUnattributedReview
  | ClassificationOther string

definition AllClassifications :: "Classification list" where
  "AllClassifications = [ClassExternalDeposit, ClassInternalTransfer, ClassFeeFunding,
     ClassSweep, ClassWithdrawal, ClassFeeDeduction, ClassUnattributedReview]"

datatype DepositStatus = DepositDiscovered | DepositValidated | DepositAwaitingConfirmations
  | DepositCreditable | DepositCredited | DepositSweepPending | DepositSwept
  | DepositRejected | DepositReviewRequired | DepositOrphaned | DepositDuplicate
  | DepositBelowMinimum | DepositSuspended | DepositStatusOther string

definition AllDepositStatuses :: "DepositStatus list" where
  "AllDepositStatuses = [DepositDiscovered, DepositValidated, DepositAwaitingConfirmations,
     DepositCreditable, DepositCredited, DepositSweepPending, DepositSwept,
     DepositRejected, DepositReviewRequired, DepositOrphaned,
     DepositDuplicate, DepositBelowMinimum, DepositSuspended]"

datatype WithdrawalStatus = WithdrawalRequested | WithdrawalAddressValidated
  | WithdrawalComplianceApproved | WithdrawalFundsReserved | WithdrawalSequenceReserved
  | WithdrawalTransactionBuilt | WithdrawalTransactionSimulated | WithdrawalSigned
  | WithdrawalBroadcast | WithdrawalIncluded | WithdrawalConfirmed | WithdrawalFailed
  | WithdrawalCancelled | WithdrawalReviewRequired | WithdrawalStatusOther string

definition AllWithdrawalStatuses :: "WithdrawalStatus list" where
  "AllWithdrawalStatuses = [WithdrawalRequested, WithdrawalAddressValidated,
     WithdrawalComplianceApproved, WithdrawalFundsReserved, WithdrawalSequenceReserved,
     WithdrawalTransactionBuilt, WithdrawalTransactionSimulated, WithdrawalSigned,
     WithdrawalBroadcast, WithdrawalIncluded, WithdrawalConfirmed, WithdrawalFailed,
     WithdrawalCancelled, WithdrawalReviewRequired]"

datatype SweepStatus = SweepPending | SweepBuilt | SweepSigned | SweepBroadcast
  | SweepConfirmed | SweepDeferred | SweepFailed | SweepCancelled | SweepStatusOther string

definition AllSweepStatuses :: "SweepStatus list" where
  "AllSweepStatuses = [SweepPending, SweepBuilt, SweepSigned, SweepBroadcast,
     SweepConfirmed, SweepDeferred, SweepFailed, SweepCancelled]"

definition TerminalSweepStatuses :: "SweepStatus list" where
  "TerminalSweepStatuses = [SweepConfirmed, SweepFailed, SweepCancelled]"

definition SweepTerminal :: "SweepStatus \<Rightarrow> bool" where
  "SweepTerminal s = enumValid s TerminalSweepStatuses"

datatype SequenceReservationStatus = SequenceReserved | SequenceSigned | SequenceBroadcast
  | SequenceConsumed | SequenceReleased | SequenceReconciliationRequired
  | SequenceReservationStatusOther string

definition AllSequenceReservationStatuses :: "SequenceReservationStatus list" where
  "AllSequenceReservationStatuses = [SequenceReserved, SequenceSigned, SequenceBroadcast,
     SequenceConsumed, SequenceReleased, SequenceReconciliationRequired]"

datatype WorkKind = WorkWithdrawal | WorkSweep | WorkKindOther string

definition AllWorkKinds :: "WorkKind list" where
  "AllWorkKinds = [WorkWithdrawal, WorkSweep]"

datatype WorkRef = WorkRef (wr_Kind: WorkKind) (wr_ID: string)

datatype SweepStrategy = StrategyFeeReserve | StrategyFeeFund | StrategyThresholdOnly
  | StrategyCustodyAbstract | SweepStrategyOther string

definition AllSweepStrategies :: "SweepStrategy list" where
  "AllSweepStrategies = [StrategyFeeReserve, StrategyFeeFund, StrategyThresholdOnly,
     StrategyCustodyAbstract]"

datatype WatchedAddressKind = WatchCustomerDeposit | WatchHotWallet | WatchColdWallet
  | WatchFeeWallet | WatchOmnibus | WatchedAddressKindOther string

definition AllWatchedAddressKinds :: "WatchedAddressKind list" where
  "AllWatchedAddressKinds = [WatchCustomerDeposit, WatchHotWallet, WatchColdWallet,
     WatchFeeWallet, WatchOmnibus]"

datatype ChainReviewTrigger = TriggerBlockHashMismatch | TriggerQueryResultMismatch
  | TriggerHeightDivergence | TriggerChainHalt | TriggerWrongChainID | TriggerUpgradeWindow
  | ChainReviewTriggerOther string

definition AllChainReviewTriggers :: "ChainReviewTrigger list" where
  "AllChainReviewTriggers = [TriggerBlockHashMismatch, TriggerQueryResultMismatch,
     TriggerHeightDivergence, TriggerChainHalt, TriggerWrongChainID, TriggerUpgradeWindow]"

datatype ReconciliationKind = ReconTxNearRealTime | ReconWalletHourly | ReconAddressDaily
  | ReconManual | ReconciliationKindOther string

definition AllReconciliationKinds :: "ReconciliationKind list" where
  "AllReconciliationKinds = [ReconTxNearRealTime, ReconWalletHourly, ReconAddressDaily,
     ReconManual]"

datatype ReviewItemKind = ReviewKindDeposit | ReviewKindWithdrawal | ReviewKindLedgerEntry
  | ReviewItemKindOther string

definition AllReviewItemKinds :: "ReviewItemKind list" where
  "AllReviewItemKinds = [ReviewKindDeposit, ReviewKindWithdrawal, ReviewKindLedgerEntry]"

lemmas enum_defs = enumValid_iff AllLedgerEntryKinds_def AllLedgerDirections_def
  AllClassifications_def AllDepositStatuses_def AllWithdrawalStatuses_def
  AllSweepStatuses_def TerminalSweepStatuses_def SweepTerminal_def
  AllSequenceReservationStatuses_def AllWorkKinds_def AllSweepStrategies_def
  AllWatchedAddressKinds_def AllChainReviewTriggers_def AllReconciliationKinds_def
  AllReviewItemKinds_def

section \<open>Domain records\<close>

record LedgerEntry =
  le_ID :: int
  le_ChainID :: string
  le_Kind :: LedgerEntryKind
  le_TxHash :: string
  le_MessageIndex :: uint32
  le_OpIndex :: uint32
  le_BlockHeight :: uint64
  le_EventIndex :: uint32
  le_Direction :: LedgerDirection
  le_Address :: string
  le_CounterpartySet :: "string list"
  le_AmountBaseUnits :: int
  le_Denom :: string
  le_TxCode :: uint32
  le_Classification :: Classification
  le_CreatedAt :: time

record FeeOutflow =
  fo_ID :: int
  fo_ChainID :: string
  fo_TxHash :: string
  fo_PayerAddress :: string
  fo_FeeBaseUnits :: int
  fo_TxCode :: uint32
  fo_BlockHeight :: uint64
  fo_CreatedAt :: time

record FeeFundingSpend =
  fs_ID :: int
  fs_ChainID :: string
  fs_TxHash :: string
  fs_FeeWalletAddress :: string
  fs_AmountBaseUnits :: int
  fs_BlockHeight :: uint64
  fs_CreatedAt :: time

record DepositRecord =
  d_ID :: int
  d_ChainID :: string
  d_TxHash :: string
  d_MessageIndex :: uint32
  d_CoinIndex :: uint32
  d_BlockHeight :: uint64
  d_BlockTimestamp :: time
  d_SenderAddress :: "string option"
  d_RecipientAddress :: string
  d_Denom :: string
  d_AmountBaseUnits :: int
  d_Memo :: string
  d_TxCode :: uint32
  d_TxLog :: string
  d_Status :: DepositStatus
  d_PriorStatus :: "DepositStatus option"
  d_CreditedAt :: "time option"
  d_SweepTxHash :: "string option"
  d_CreatedAt :: time
  d_UpdatedAt :: time

record ScannerCheckpoint =
  cp_ChainID :: string
  cp_LastFullyProcessedHeight :: uint64
  cp_LastObservedBlockHash :: string
  cp_UpdatedAt :: time

record WithdrawalRecord =
  w_WithdrawalID :: string
  w_IdempotencyKey :: string
  w_ChainID :: string
  w_SourceAddress :: string
  w_DestinationAddress :: string
  w_Denom :: string
  w_AmountBaseUnits :: int
  w_Memo :: string
  w_AccountNumber :: "uint64 option"
  w_Sequence :: "uint64 option"
  w_GasWanted :: "uint64 option"
  w_GasLimit :: "uint64 option"
  w_FeeAmountBaseUnits :: "int option"
  w_SignMode :: string
  w_SignedTxBytes :: bytes
  w_TxHash :: "string option"
  w_BlockHeight :: "uint64 option"
  w_TxCode :: "uint32 option"
  w_RawLog :: string
  w_Status :: WithdrawalStatus
  w_CreatedAt :: time
  w_UpdatedAt :: time

record SequenceReservation =
  r_ID :: int
  r_ChainID :: string
  r_SourceAddress :: string
  r_AccountNumber :: uint64
  r_Sequence :: uint64
  r_WorkRef :: WorkRef
  r_Status :: SequenceReservationStatus
  r_CreatedAt :: time
  r_UpdatedAt :: time

record SweepJob =
  j_SweepID :: string
  j_IdempotencyKey :: string
  j_ChainID :: string
  j_SourceAddress :: string
  j_HotWalletAddress :: string
  j_Strategy :: SweepStrategy
  j_AmountBaseUnits :: int
  j_FeeReserveBaseUnits :: int
  j_DepositIDs :: "int list"
  j_SignedTxBytes :: bytes
  j_TxHash :: "string option"
  j_TxCode :: "uint32 option"
  j_Status :: SweepStatus
  j_CreatedAt :: time
  j_UpdatedAt :: time

record WatchedAddress =
  wa_ChainID :: string
  wa_Address :: string
  wa_Kind :: WatchedAddressKind
  wa_CustomerRef :: string
  wa_MemoRequired :: bool
  wa_Active :: bool

record OperationalControls =
  oc_ChainID :: string
  oc_CreditPaused :: bool
  oc_SigningPaused :: bool
  oc_BroadcastPaused :: bool
  oc_SweepPaused :: bool
  oc_ScanWithoutCredit :: bool
  oc_ResumeFromHeight :: "uint64 option"
  oc_UpdatedAt :: time

record ControlsAuditEntry =
  ca_ID :: int
  ca_ChainID :: string
  ca_Field :: string
  ca_OldValue :: string
  ca_NewValue :: string
  ca_Actor :: string
  ca_Reason :: string
  ca_At :: time

record ControlsUpdate =
  cu_CreditPaused :: "bool option"
  cu_SigningPaused :: "bool option"
  cu_BroadcastPaused :: "bool option"
  cu_SweepPaused :: "bool option"
  cu_ScanWithoutCredit :: "bool option"
  cu_ResumeFromHeight :: "uint64 option"
  cu_ClearResumeFromHeight :: bool

record NodeObservation =
  no_Endpoint :: string
  no_Height :: uint64
  no_Value :: string

record ChainReviewCondition =
  cr_ConditionID :: string
  cr_ChainID :: string
  cr_Trigger :: ChainReviewTrigger
  cr_NodeA :: NodeObservation
  cr_NodeB :: NodeObservation
  cr_OpenedAt :: time
  cr_ResolvedAt :: "time option"
  cr_Resolution :: string

record ReviewItem =
  ri_ID :: int
  ri_ChainID :: string
  ri_Kind :: ReviewItemKind
  ri_RefID :: string
  ri_Reason :: string
  ri_OpenedAt :: time
  ri_ResolvedAt :: "time option"
  ri_Resolution :: string

record ReconciliationEntry =
  re_Address :: string
  re_ExpectedBaseUnits :: int
  re_ObservedBaseUnits :: int
  re_Difference :: int
  re_EarliestSuspectedHeight :: uint64
  re_RelatedTxHashes :: "string list"
  re_RecommendedRescanHeight :: uint64

record ReconciliationReport =
  rr_ReportID :: string
  rr_ChainID :: string
  rr_Kind :: ReconciliationKind
  rr_PeriodStart :: time
  rr_PeriodEnd :: time
  rr_GeneratedAt :: time
  rr_Entries :: "ReconciliationEntry list"
  rr_DiscrepancyCount :: int

record OutboxEvent =
  ob_ID :: int
  ob_ChainID :: string
  ob_Topic :: string
  ob_DedupKey :: string
  ob_Payload :: bytes
  ob_CreatedAt :: time
  ob_DispatchedAt :: "time option"

section \<open>Partial updates\<close>

text \<open>A \<open>nil\<close> pointer or slice of the source is \<open>None\<close>: the column is left unchanged.\<close>

record DepositUpdate =
  du_CreditedAt :: "time option"
  du_SweepTxHash :: "string option"
  du_TxLog :: "string option"

definition noDepositUpdate :: DepositUpdate where
  "noDepositUpdate = \<lparr>du_CreditedAt = None, du_SweepTxHash = None, du_TxLog = None\<rparr>"

record WithdrawalUpdate =
  wu_AccountNumber :: "uint64 option"
  wu_Sequence :: "uint64 option"
  wu_GasWanted :: "uint64 option"
  wu_GasLimit :: "uint64 option"
  wu_FeeAmountBaseUnits :: "int option"
  wu_SignedTxBytes :: "bytes option"
  wu_TxHash :: "string option"
  wu_BlockHeight :: "uint64 option"
  wu_TxCode :: "uint32 option"
  wu_RawLog :: "string option"

definition noWithdrawalUpdate :: WithdrawalUpdate where
  "noWithdrawalUpdate = \<lparr>wu_AccountNumber = None, wu_Sequence = None, wu_GasWanted = None,
     wu_GasLimit = None, wu_FeeAmountBaseUnits = None, wu_SignedTxBytes = None,
     wu_TxHash = None, wu_BlockHeight = None, wu_TxCode = None, wu_RawLog = None\<rparr>"

record SweepUpdate =
  su_SignedTxBytes :: "bytes option"
  su_TxHash :: "string option"
  su_TxCode :: "uint32 option"
  su_DepositIDs :: "int list option"

definition noSweepUpdate :: SweepUpdate where
  "noSweepUpdate = \<lparr>su_SignedTxBytes = None, su_TxHash = None, su_TxCode = None,
     su_DepositIDs = None\<rparr>"

record LedgerQuery =
  lq_ChainID :: string
  lq_Address :: string
  lq_FromHeight :: uint64
  lq_ToHeight :: uint64
  lq_AfterID :: int
  lq_Limit :: int

text \<open>\<open>if set.F != nil\<close>: the column takes the new value, else keeps the old one.\<close>

definition set_if :: "'a option \<Rightarrow> 'a \<Rightarrow> 'a" where
  "set_if new old = (case new of None \<Rightarrow> old | Some v \<Rightarrow> v)"

definition set_ptr :: "'a option \<Rightarrow> 'a option \<Rightarrow> 'a option" where
  "set_ptr new old = (case new of None \<Rightarrow> old | Some v \<Rightarrow> Some v)"

lemma set_if_simps [simp]: "set_if None x = x" "set_if (Some v) x = v"
  by (simp_all add: set_if_def)

lemma set_ptr_simps [simp]: "set_ptr None x = x" "set_ptr (Some v) x = Some v"
  by (simp_all add: set_ptr_def)

lemma noWithdrawalUpdate_simps [simp]:
  "wu_AccountNumber noWithdrawalUpdate = None" "wu_Sequence noWithdrawalUpdate = None"
  "wu_GasWanted noWithdrawalUpdate = None" "wu_GasLimit noWithdrawalUpdate = None"
  "wu_FeeAmountBaseUnits noWithdrawalUpdate = None"
  "wu_SignedTxBytes noWithdrawalUpdate = None" "wu_TxHash noWithdrawalUpdate = None"
  "wu_BlockHeight noWithdrawalUpdate = None" "wu_TxCode noWithdrawalUpdate = None"
  "wu_RawLog noWithdrawalUpdate = None"
  by (simp_all add: noWithdrawalUpdate_def)

lemma noDepositUpdate_simps [simp]:
  "du_CreditedAt noDepositUpdate = None" "du_SweepTxHash noDepositUpdate = None"
  "du_TxLog noDepositUpdate = None"
  by (simp_all add: noDepositUpdate_def)

lemma noSweepUpdate_simps [simp]:
  "su_SignedTxBytes noSweepUpdate = None" "su_TxHash noSweepUpdate = None"
  "su_TxCode noSweepUpdate = None" "su_DepositIDs noSweepUpdate = None"
  by (simp_all add: noSweepUpdate_def)

end
