(* ===== verification/Deposits_Parse.thy ===== *)
theory Deposits_Parse
  imports Sha256 Storage_Types
begin

text \<open>
  \<open>go/deposits/parse.go\<close> and \<open>watch.go\<close>: the tolerant decoding of a block and
  the classification of every movement against the watched addresses.  A
  parser method that appends to the output is a function that returns the rows
  it appends.  The protobuf codec and the coin-string parser are the fields of
  \<open>codec\<close>; a decoded coin carries an amount (a coin with no amount field is
  outside the model).
\<close>

section \<open>Blocks and events (\<open>go/client/client.go\<close>)\<close>

record EventAttribute =
  at_Key :: string
  at_Value :: string

record Event =
  ev_Type :: string
  ev_Attributes :: "EventAttribute list"

record TxExecResult =
  te_Code :: uint32
  te_Log :: string
  te_Events :: "Event list"

record Block =
  bk_ChainID :: string
  bk_Height :: int64
  bk_Hash :: bytes
  bk_Time :: time
  bk_LastBlockHash :: bytes
  bk_Txs :: "bytes list"

record BlockResults =
  bs_Height :: int64
  bs_TxResults :: "TxExecResult list"
  bs_FinalizeBlockEvents :: "Event list"

section \<open>Third-party codec\<close>

record RawCoin =
  rc_Denom :: string
  rc_Amount :: int

record RawSend =
  sn_FromAddress :: string
  sn_ToAddress :: string
  sn_Amount :: "RawCoin list"

record RawParty =
  io_Address :: string
  io_Coins :: "RawCoin list"

record RawMultiSend =
  mu_Inputs :: "RawParty list"
  mu_Outputs :: "RawParty list"

record RawBody =
  rb_Messages :: "(string \<times> bytes) option list"
  rb_Memo :: string

text \<open>
  \<open>ParseCoinsNormalized\<close> yields the denomination-indexed amounts of a coin
  string; \<open>UnmarshalFeePayer\<close> the payer of a decoded auth info's fee, \<open>None\<close> when
  it has no fee.
\<close>

record codec =
  UnmarshalTxRaw :: "bytes \<Rightarrow> (bytes \<times> bytes) option"
  UnmarshalTxBody :: "bytes \<Rightarrow> RawBody option"
  UnmarshalFeePayer :: "bytes \<Rightarrow> string option option"
  UnmarshalSend :: "bytes \<Rightarrow> RawSend option"
  UnmarshalMultiSend :: "bytes \<Rightarrow> RawMultiSend option"
  ParseCoinsNormalized :: "string \<Rightarrow> (string \<Rightarrow> int) option"

section \<open>The watch set\<close>

record WatchSet =
  ws_entries :: "string \<Rightarrow> WatchedAddress option"
  ws_memoRecognizer :: "(string \<Rightarrow> bool) option"

definition NewWatchSet :: "WatchedAddress list \<Rightarrow> WatchSet" where
  "NewWatchSet addrs =
     \<lparr>ws_entries = foldl (\<lambda>m a. if wa_Active a then m(wa_Address a \<mapsto> a) else m) Map.empty addrs,
      ws_memoRecognizer = None\<rparr>"

definition WithMemoRecognizer :: "WatchSet \<Rightarrow> (string \<Rightarrow> bool) option \<Rightarrow> WatchSet" where
  "WithMemoRecognizer w fn = w\<lparr>ws_memoRecognizer := fn\<rparr>"

definition Contains :: "WatchSet \<Rightarrow> string \<Rightarrow> bool" where
  "Contains w addr = (ws_entries w addr \<noteq> None)"

definition memoRecognized :: "WatchSet \<Rightarrow> string \<Rightarrow> bool" where
  "memoRecognized w memo = (if memo = [] then False
     else case ws_memoRecognizer w of Some fn \<Rightarrow> fn memo | None \<Rightarrow> True)"

definition watchStats :: "WatchSet \<Rightarrow> string list \<Rightarrow> bool \<times> bool" where
  "watchStats w addrs = foldl (\<lambda>(anyW, allW) a. if Contains w a then (True, allW) else (anyW, False))
     (False, length addrs > 0) addrs"

section \<open>Parse output\<close>

definition TypeURLMsgSend :: string where "TypeURLMsgSend = ''/cosmos.bank.v1beta1.MsgSend''"
definition TypeURLMsgMultiSend :: string where
  "TypeURLMsgMultiSend = ''/cosmos.bank.v1beta1.MsgMultiSend''"

definition ReviewOpIndexBase :: uint32 where "ReviewOpIndexBase = 65536"

record TransferCandidate =
  tc_TxHash :: string
  tc_MessageIndex :: uint32
  tc_CoinIndex :: uint32
  tc_OpIndex :: uint32
  tc_Direction :: LedgerDirection
  tc_Address :: string
  tc_CounterpartySet :: "string list"
  tc_SenderAddress :: "string option"
  tc_Denom :: string
  tc_AmountBaseUnits :: int
  tc_Memo :: string
  tc_TxCode :: uint32
  tc_TxLog :: string
  tc_Classification :: Classification
  tc_ReviewReason :: string

record FeeDeduction =
  fd_TxHash :: string
  fd_PayerAddress :: string
  fd_FeeBaseUnits :: int
  fd_TxCode :: uint32
  fd_FeeGranterUsed :: bool
  fd_GranterAddress :: string

record ReviewCandidate =
  rv_TxHash :: string
  rv_MessageIndex :: uint32
  rv_EventIndex :: uint32
  rv_OpIndex :: uint32
  rv_Direction :: LedgerDirection
  rv_Address :: string
  rv_CounterpartySet :: "string list"
  rv_AmountBaseUnits :: int
  rv_TxCode :: uint32
  rv_Reason :: string

record BlockEventEntry =
  be_EventIndex :: uint32
  be_Direction :: LedgerDirection
  be_Address :: string
  be_CounterpartySet :: "string list"
  be_AmountBaseUnits :: int
  be_Reason :: string

record BlockParse =
  bp_ChainID :: string
  bp_Height :: uint64
  bp_BlockHash :: string
  bp_LastBlockHash :: string
  bp_Time :: time
  bp_Transfers :: "TransferCandidate list"
  bp_FeeDeductions :: "FeeDeduction list"
  bp_ReviewCandidates :: "ReviewCandidate list"
  bp_BlockEvents :: "BlockEventEntry list"

definition TransferCandidate_LedgerEntry :: "TransferCandidate \<Rightarrow> string \<Rightarrow> uint64 \<Rightarrow> time \<Rightarrow> LedgerEntry" where
  "TransferCandidate_LedgerEntry c chainID blockHeight now =
     \<lparr>le_ID = 0, le_ChainID = chainID, le_Kind = LedgerKindTx, le_TxHash = tc_TxHash c,
      le_MessageIndex = tc_MessageIndex c, le_OpIndex = tc_OpIndex c, le_BlockHeight = blockHeight,
      le_EventIndex = 0, le_Direction = tc_Direction c, le_Address = tc_Address c,
      le_CounterpartySet = tc_CounterpartySet c, le_AmountBaseUnits = tc_AmountBaseUnits c,
      le_Denom = tc_Denom c, le_TxCode = tc_TxCode c, le_Classification = tc_Classification c,
      le_CreatedAt = now\<rparr>"

definition ReviewCandidate_LedgerEntry :: "ReviewCandidate \<Rightarrow> string \<Rightarrow> uint64 \<Rightarrow> time \<Rightarrow> LedgerEntry" where
  "ReviewCandidate_LedgerEntry c chainID blockHeight now =
     \<lparr>le_ID = 0, le_ChainID = chainID, le_Kind = LedgerKindTx, le_TxHash = rv_TxHash c,
      le_MessageIndex = rv_MessageIndex c, le_OpIndex = rv_OpIndex c, le_BlockHeight = blockHeight,
      le_EventIndex = 0, le_Direction = rv_Direction c, le_Address = rv_Address c,
      le_CounterpartySet = rv_CounterpartySet c, le_AmountBaseUnits = rv_AmountBaseUnits c,
      le_Denom = BaseDenom, le_TxCode = rv_TxCode c, le_Classification = ClassUnattributedReview,
      le_CreatedAt = now\<rparr>"

definition BlockEventEntry_LedgerEntry :: "BlockEventEntry \<Rightarrow> string \<Rightarrow> uint64 \<Rightarrow> time \<Rightarrow> LedgerEntry" where
  "BlockEventEntry_LedgerEntry b chainID blockHeight now =
     \<lparr>le_ID = 0, le_ChainID = chainID, le_Kind = LedgerKindBlockEvent, le_TxHash = [],
      le_MessageIndex = 0, le_OpIndex = 0, le_BlockHeight = blockHeight,
      le_EventIndex = be_EventIndex b, le_Direction = be_Direction b, le_Address = be_Address b,
      le_CounterpartySet = be_CounterpartySet b, le_AmountBaseUnits = be_AmountBaseUnits b,
      le_Denom = BaseDenom, le_TxCode = 0, le_Classification = ClassUnattributedReview,
      le_CreatedAt = now\<rparr>"

definition TxHashHex :: "bytes \<Rightarrow> string" where
  "TxHashHex txBytes = txHashOf txBytes"

section \<open>Events\<close>

fun attr_in :: "EventAttribute list \<Rightarrow> string \<Rightarrow> string" where
  "attr_in [] key = []"
| "attr_in (a # as) key = (if at_Key a = key then at_Value a else attr_in as key)"

definition attr :: "Event \<Rightarrow> string \<Rightarrow> string" where
  "attr ev key = attr_in (ev_Attributes ev) key"

text \<open>\<open>strconv.ParseUint(v, 10, 32)\<close>: digits only, in range.\<close>

definition attrUint32 :: "Event \<Rightarrow> string \<Rightarrow> uint32 option" where
  "attrUint32 ev key = (let v = attr ev key in
     if v = [] then None
     else if digits_re v \<and> read_nat v < 2 ^ 32 then Some (of_nat (read_nat v)) else None)"

definition usovrAmount :: "codec \<Rightarrow> string \<Rightarrow> int" where
  "usovrAmount K coins = (if coins = [] then 0
     else case ParseCoinsNormalized K coins of None \<Rightarrow> 0 | Some amountOf \<Rightarrow> amountOf BaseDenom)"

definition transferEventParties :: "Event \<Rightarrow> string \<times> string \<times> string list" where
  "transferEventParties ev =
     (if ev_Type ev = ''transfer'' then
        (let inAddr = attr ev ''recipient''; outAddr = attr ev ''sender'' in
         (inAddr, outAddr, if outAddr \<noteq> [] then [outAddr] else if inAddr \<noteq> [] then [inAddr] else []))
      else if ev_Type ev = ''coin_received'' then (attr ev ''receiver'', [], [])
      else if ev_Type ev = ''coin_spent'' then ([], attr ev ''spender'', [])
      else ([], [], []))"

definition feeAttributes :: "EventAttribute list \<Rightarrow> string option \<times> string" where
  "feeAttributes as = foldl (\<lambda>(f, p) a.
     if at_Key a = ''fee'' then (Some (at_Value a), p)
     else if at_Key a = ''fee_payer'' then (f, at_Value a) else (f, p)) (None, []) as"

fun findFeeEvent :: "Event list \<Rightarrow> (string \<times> string) option" where
  "findFeeEvent [] = None"
| "findFeeEvent (ev # evs) =
     (if ev_Type ev \<noteq> ''tx'' then findFeeEvent evs
      else case feeAttributes (ev_Attributes ev) of
        (Some f, p) \<Rightarrow> Some (f, p)
      | (None, p) \<Rightarrow> findFeeEvent evs)"

fun findFeeGrantUse :: "Event list \<Rightarrow> string \<times> bool" where
  "findFeeGrantUse [] = ([], False)"
| "findFeeGrantUse (ev # evs) =
     (if ev_Type ev = ''use_feegrant'' then (attr ev ''granter'', True) else findFeeGrantUse evs)"

definition dirText :: "LedgerDirection \<Rightarrow> string" where
  "dirText d = (case d of DirectionIn \<Rightarrow> ''IN'' | DirectionOut \<Rightarrow> ''OUT'' | LedgerDirectionOther x \<Rightarrow> x)"

definition reviewKey :: "uint32 \<Rightarrow> LedgerDirection \<Rightarrow> string \<Rightarrow> int \<Rightarrow> string" where
  "reviewKey msgIdx dir addr amt =
     show_nat (unat msgIdx) @ ''|'' @ dirText dir @ ''|'' @ addr @ ''|'' @ show_int amt"

definition blockKey :: "LedgerDirection \<Rightarrow> string \<Rightarrow> int \<Rightarrow> string" where
  "blockKey dir addr amt = dirText dir @ ''|'' @ addr @ ''|'' @ show_int amt"

text \<open>The keys a map holds are the members of a list.\<close>

definition selectEventFamily :: "bool \<Rightarrow> string list \<Rightarrow> string \<Rightarrow> bool" where
  "selectEventFamily fromTransfer transferKeys key \<longleftrightarrow> fromTransfer \<or> key \<notin> set transferKeys"

section \<open>Classification\<close>

fun feeWalletInput :: "WatchSet \<Rightarrow> string list \<Rightarrow> bool" where
  "feeWalletInput w [] = False"
| "feeWalletInput w (a # as) = (case ws_entries w a of
      Some e \<Rightarrow> if wa_Kind e = WatchFeeWallet then True else feeWalletInput w as
    | None \<Rightarrow> feeWalletInput w as)"

definition custodyKind :: "WatchedAddressKind \<Rightarrow> bool" where
  "custodyKind k \<longleftrightarrow> k = WatchHotWallet \<or> k = WatchColdWallet"

definition internalInSubtype :: "WatchSet \<Rightarrow> WatchedAddress \<Rightarrow> string list \<Rightarrow> Classification" where
  "internalInSubtype w recipient inputs =
     (if feeWalletInput w inputs then ClassFeeFunding
      else if custodyKind (wa_Kind recipient) then ClassSweep
      else ClassInternalTransfer)"

definition classifyIn :: "WatchSet \<Rightarrow> WatchedAddress \<Rightarrow> string list \<Rightarrow> Classification \<times> string" where
  "classifyIn w recipient inputs = (case watchStats w inputs of (anyW, allW) \<Rightarrow>
     if \<not> anyW then (ClassExternalDeposit, [])
     else if allW then (internalInSubtype w recipient inputs, [])
     else (ClassUnattributedReview, ''mixed watched/external input set''))"

fun custodyOutput :: "WatchSet \<Rightarrow> string list \<Rightarrow> bool" where
  "custodyOutput w [] = False"
| "custodyOutput w (a # as) = (case ws_entries w a of
      Some e \<Rightarrow> if custodyKind (wa_Kind e) then True else custodyOutput w as
    | None \<Rightarrow> custodyOutput w as)"

definition classifyOut :: "WatchSet \<Rightarrow> WatchedAddress \<Rightarrow> string list \<Rightarrow> Classification" where
  "classifyOut w sender outputs = (case watchStats w outputs of (anyW, allW) \<Rightarrow>
     if \<not> allW then ClassWithdrawal
     else if wa_Kind sender = WatchFeeWallet then ClassFeeFunding
     else if custodyOutput w outputs then ClassSweep
     else ClassInternalTransfer)"

text \<open>The class and review reason of an inflow, the omnibus memo policy included.\<close>

definition inflowClass :: "WatchSet \<Rightarrow> WatchedAddress \<Rightarrow> string list \<Rightarrow> string \<Rightarrow> Classification \<times> string" where
  "inflowClass w entry inputs memo = (case classifyIn w entry inputs of (cls, reason) \<Rightarrow>
     if cls = ClassExternalDeposit \<and> wa_MemoRequired entry \<and> \<not> memoRecognized w memo
     then (cls, ''omnibus memo required but missing or unrecognized (FR-016)'')
     else (cls, reason))"

section \<open>Messages\<close>

definition movesBase :: "RawCoin \<Rightarrow> bool" where
  "movesBase coin \<longleftrightarrow> rc_Denom coin = BaseDenom \<and> rc_Amount coin > 0"

definition inRow ::
    "WatchSet \<Rightarrow> string \<Rightarrow> uint32 \<Rightarrow> string \<Rightarrow> TxExecResult \<Rightarrow> string list \<Rightarrow> string option \<Rightarrow> uint32 \<Rightarrow> string \<Rightarrow> RawCoin \<Rightarrow>
     TransferCandidate list" where
  "inRow w txHash mi memo res inputSet sender ci addr coin = (case ws_entries w addr of
     None \<Rightarrow> []
   | Some entry \<Rightarrow> (case inflowClass w entry inputSet memo of (cls, reason) \<Rightarrow>
       [\<lparr>tc_TxHash = txHash, tc_MessageIndex = mi, tc_CoinIndex = ci, tc_OpIndex = ci,
         tc_Direction = DirectionIn, tc_Address = addr, tc_CounterpartySet = inputSet,
         tc_SenderAddress = sender, tc_Denom = rc_Denom coin, tc_AmountBaseUnits = rc_Amount coin,
         tc_Memo = memo, tc_TxCode = te_Code res, tc_TxLog = te_Log res,
         tc_Classification = cls, tc_ReviewReason = reason\<rparr>]))"

definition outRow ::
    "WatchSet \<Rightarrow> string \<Rightarrow> uint32 \<Rightarrow> string \<Rightarrow> TxExecResult \<Rightarrow> string list \<Rightarrow> uint32 \<Rightarrow> uint32 \<Rightarrow> string \<Rightarrow> RawCoin \<Rightarrow>
     TransferCandidate list" where
  "outRow w txHash mi memo res outputSet ci op addr coin = (case ws_entries w addr of
     None \<Rightarrow> []
   | Some entry \<Rightarrow>
       [\<lparr>tc_TxHash = txHash, tc_MessageIndex = mi, tc_CoinIndex = ci, tc_OpIndex = op,
         tc_Direction = DirectionOut, tc_Address = addr, tc_CounterpartySet = outputSet,
         tc_SenderAddress = None, tc_Denom = rc_Denom coin, tc_AmountBaseUnits = rc_Amount coin,
         tc_Memo = memo, tc_TxCode = te_Code res, tc_TxLog = te_Log res,
         tc_Classification = classifyOut w entry outputSet, tc_ReviewReason = []\<rparr>])"

definition send :: "WatchSet \<Rightarrow> string \<Rightarrow> uint32 \<Rightarrow> RawSend \<Rightarrow> string \<Rightarrow> TxExecResult \<Rightarrow> TransferCandidate list" where
  "send w txHash mi m memo res =
     (let inputSet = [sn_FromAddress m]; outputSet = [sn_ToAddress m];
          nOut = of_nat (length (sn_Amount m)) :: uint32
      in concat (map (\<lambda>(k, coin).
           let ci = of_nat k :: uint32 in
           if \<not> movesBase coin then []
           else inRow w txHash mi memo res inputSet (Some (sn_FromAddress m)) ci (sn_ToAddress m) coin
              @ outRow w txHash mi memo res outputSet ci (nOut + ci) (sn_FromAddress m) coin)
         (List.enumerate 0 (sn_Amount m))))"

text \<open>The coins of the parties, flattened in wire order and numbered.\<close>

definition flatCoins :: "RawParty list \<Rightarrow> (nat \<times> string \<times> RawCoin) list" where
  "flatCoins ps = List.enumerate 0 (concat (map (\<lambda>p. map (Pair (io_Address p)) (io_Coins p)) ps))"

definition multiSend :: "WatchSet \<Rightarrow> string \<Rightarrow> uint32 \<Rightarrow> RawMultiSend \<Rightarrow> string \<Rightarrow> TxExecResult \<Rightarrow> TransferCandidate list" where
  "multiSend w txHash mi m memo res =
     (let inputSet = map io_Address (mu_Inputs m);
          outputSet = map io_Address (mu_Outputs m);
          nOut = foldl (\<lambda>n p. n + of_nat (length (io_Coins p))) (0 :: uint32) (mu_Outputs m);
          singleSender = (case inputSet of [a] \<Rightarrow> Some a | _ \<Rightarrow> None)
      in concat (map (\<lambda>(k, addr, coin).
             if \<not> movesBase coin then []
             else inRow w txHash mi memo res inputSet singleSender (of_nat k) addr coin)
           (flatCoins (mu_Outputs m)))
       @ concat (map (\<lambda>(j, addr, coin).
             let op = nOut + of_nat j in
             if \<not> movesBase coin then []
             else outRow w txHash mi memo res outputSet (op - nOut) op addr coin)
           (flatCoins (mu_Inputs m))))"

section \<open>Transactions and blocks\<close>

text \<open>What one message contributes: its rows, or \<open>None\<close> when it stays unattributed.\<close>

definition messageRows ::
    "codec \<Rightarrow> WatchSet \<Rightarrow> string \<Rightarrow> string \<Rightarrow> TxExecResult \<Rightarrow> uint32 \<Rightarrow> (string \<times> bytes) option \<Rightarrow> TransferCandidate list option" where
  "messageRows K w txHash memo res mi anyMsg = (case anyMsg of
     None \<Rightarrow> None
   | Some (typeUrl, value) \<Rightarrow>
       if typeUrl = TypeURLMsgSend then
         (case UnmarshalSend K value of None \<Rightarrow> None | Some m \<Rightarrow> Some (send w txHash mi m memo res))
       else if typeUrl = TypeURLMsgMultiSend then
         (case UnmarshalMultiSend K value of None \<Rightarrow> None | Some m \<Rightarrow> Some (multiSend w txHash mi m memo res))
       else None)"

definition feeDeduction ::
    "codec \<Rightarrow> WatchSet \<Rightarrow> string \<Rightarrow> string option \<Rightarrow> TxExecResult \<Rightarrow> FeeDeduction list" where
  "feeDeduction K w txHash authPayer res = (case findFeeEvent (te_Events res) of
     None \<Rightarrow> []
   | Some (feeStr, payerAttr) \<Rightarrow>
       (let (granter, grantUsed) = findFeeGrantUse (te_Events res);
            payer = (if grantUsed \<and> granter \<noteq> [] then granter
                     else case authPayer of
                       Some p \<Rightarrow> if p \<noteq> [] then p else payerAttr
                     | None \<Rightarrow> payerAttr);
            amt = usovrAmount K feeStr
        in if payer = [] \<or> \<not> Contains w payer then []
           else if \<not> amt > 0 then []
           else [\<lparr>fd_TxHash = txHash, fd_PayerAddress = payer, fd_FeeBaseUnits = amt,
                  fd_TxCode = te_Code res, fd_FeeGranterUsed = grantUsed, fd_GranterAddress = granter\<rparr>]))"

text \<open>The movement views of the transfer events, for the suppression of their aliases.\<close>

definition reviewTransferKeys :: "codec \<Rightarrow> uint32 list \<Rightarrow> Event list \<Rightarrow> string list" where
  "reviewTransferKeys K attributed events = concat (map (\<lambda>ev.
     if ev_Type ev \<noteq> ''transfer'' then []
     else case attrUint32 ev ''msg_index'' of None \<Rightarrow> [] | Some msgIdx \<Rightarrow>
       if msgIdx \<in> set attributed then []
       else let amt = usovrAmount K (attr ev ''amount'') in
       if \<not> amt > 0 then []
       else case transferEventParties ev of (inAddr, outAddr, _) \<Rightarrow>
         (if inAddr \<noteq> [] then [reviewKey msgIdx DirectionIn inAddr amt] else [])
         @ (if outAddr \<noteq> [] then [reviewKey msgIdx DirectionOut outAddr amt] else [])) events)"

definition reviewRows ::
    "codec \<Rightarrow> WatchSet \<Rightarrow> string \<Rightarrow> TxExecResult \<Rightarrow> uint32 list \<Rightarrow> string list \<Rightarrow> nat \<times> Event \<Rightarrow> ReviewCandidate list" where
  "reviewRows K w txHash res attributed keys p = (case p of (evIdx, ev) \<Rightarrow>
     case attrUint32 ev ''msg_index'' of None \<Rightarrow> [] | Some msgIdx \<Rightarrow>
     if msgIdx \<in> set attributed then []
     else case transferEventParties ev of (inAddr, outAddr, counter) \<Rightarrow>
     let amt = usovrAmount K (attr ev ''amount'');
         fromTransfer = (ev_Type ev = ''transfer'');
         base = ReviewOpIndexBase + 2 * of_nat evIdx
     in if \<not> amt > 0 then []
     else (if inAddr \<noteq> [] \<and> Contains w inAddr
              \<and> selectEventFamily fromTransfer keys (reviewKey msgIdx DirectionIn inAddr amt)
           then [\<lparr>rv_TxHash = txHash, rv_MessageIndex = msgIdx, rv_EventIndex = of_nat evIdx, rv_OpIndex = base,
                  rv_Direction = DirectionIn, rv_Address = inAddr, rv_CounterpartySet = counter,
                  rv_AmountBaseUnits = amt, rv_TxCode = te_Code res,
                  rv_Reason = ''unattributed transfer activity to watched address''\<rparr>] else [])
        @ (if outAddr \<noteq> [] \<and> Contains w outAddr
              \<and> selectEventFamily fromTransfer keys (reviewKey msgIdx DirectionOut outAddr amt)
           then [\<lparr>rv_TxHash = txHash, rv_MessageIndex = msgIdx, rv_EventIndex = of_nat evIdx, rv_OpIndex = base + 1,
                  rv_Direction = DirectionOut, rv_Address = outAddr, rv_CounterpartySet = counter,
                  rv_AmountBaseUnits = amt, rv_TxCode = te_Code res,
                  rv_Reason = ''unattributed outflow from watched address''\<rparr>] else []))"

definition eventReview :: "codec \<Rightarrow> WatchSet \<Rightarrow> string \<Rightarrow> TxExecResult \<Rightarrow> uint32 list \<Rightarrow> ReviewCandidate list" where
  "eventReview K w txHash res attributed =
     (let keys = reviewTransferKeys K attributed (te_Events res)
      in concat (map (reviewRows K w txHash res attributed keys) (List.enumerate 0 (te_Events res))))"

definition blockTransferKeys :: "codec \<Rightarrow> Event list \<Rightarrow> string list" where
  "blockTransferKeys K events = concat (map (\<lambda>ev.
     if ev_Type ev \<noteq> ''transfer'' then []
     else let amt = usovrAmount K (attr ev ''amount'') in
       if \<not> amt > 0 then []
       else case transferEventParties ev of (inAddr, outAddr, _) \<Rightarrow>
         (if inAddr \<noteq> [] then [blockKey DirectionIn inAddr amt] else [])
         @ (if outAddr \<noteq> [] then [blockKey DirectionOut outAddr amt] else [])) events)"

definition blockEventRows :: "codec \<Rightarrow> WatchSet \<Rightarrow> string list \<Rightarrow> nat \<times> Event \<Rightarrow> BlockEventEntry list" where
  "blockEventRows K w keys p = (case p of (evIdx, ev) \<Rightarrow>
     case transferEventParties ev of (inAddr, outAddr, counter) \<Rightarrow>
     let amt = usovrAmount K (attr ev ''amount'');
         fromTransfer = (ev_Type ev = ''transfer'');
         base = 2 * of_nat evIdx
     in if \<not> amt > 0 then []
     else (if inAddr \<noteq> [] \<and> Contains w inAddr
              \<and> selectEventFamily fromTransfer keys (blockKey DirectionIn inAddr amt)
           then [\<lparr>be_EventIndex = base, be_Direction = DirectionIn, be_Address = inAddr,
                  be_CounterpartySet = counter, be_AmountBaseUnits = amt,
                  be_Reason = ''block-scoped transfer activity to watched address''\<rparr>] else [])
        @ (if outAddr \<noteq> [] \<and> Contains w outAddr
              \<and> selectEventFamily fromTransfer keys (blockKey DirectionOut outAddr amt)
           then [\<lparr>be_EventIndex = base + 1, be_Direction = DirectionOut, be_Address = outAddr,
                  be_CounterpartySet = counter, be_AmountBaseUnits = amt,
                  be_Reason = ''block-scoped outflow from watched address''\<rparr>] else []))"

definition blockEvents :: "codec \<Rightarrow> WatchSet \<Rightarrow> Event list \<Rightarrow> BlockEventEntry list" where
  "blockEvents K w events =
     concat (map (blockEventRows K w (blockTransferKeys K events)) (List.enumerate 0 events))"

record txRows =
  tr_Transfers :: "TransferCandidate list"
  tr_Fees :: "FeeDeduction list"
  tr_Reviews :: "ReviewCandidate list"

text \<open>The decoded body, and per message its index and its rows (\<open>None\<close>: not attributed).\<close>

definition txBody :: "codec \<Rightarrow> bytes \<Rightarrow> RawBody option" where
  "txBody K txBytes = (case UnmarshalTxRaw K txBytes of None \<Rightarrow> None | Some (b, a) \<Rightarrow> UnmarshalTxBody K b)"

definition txFeePayer :: "codec \<Rightarrow> bytes \<Rightarrow> string option" where
  "txFeePayer K txBytes = (case UnmarshalTxRaw K txBytes of None \<Rightarrow> None
     | Some (b, a) \<Rightarrow> (case UnmarshalFeePayer K a of None \<Rightarrow> None | Some payer \<Rightarrow> payer))"

definition txMessages ::
    "codec \<Rightarrow> WatchSet \<Rightarrow> bytes \<Rightarrow> TxExecResult \<Rightarrow> (uint32 \<times> TransferCandidate list option) list" where
  "txMessages K w txBytes res = (case txBody K txBytes of None \<Rightarrow> []
     | Some body \<Rightarrow>
         map (\<lambda>(mi, m). (of_nat mi, messageRows K w (TxHashHex txBytes) (rb_Memo body) res (of_nat mi) m))
           (List.enumerate 0 (rb_Messages body)))"

definition parser_tx :: "codec \<Rightarrow> WatchSet \<Rightarrow> bytes \<times> TxExecResult \<Rightarrow> txRows" where
  "parser_tx K w p = (case p of (txBytes, res) \<Rightarrow>
     let txHash = TxHashHex txBytes;
         msgs = txMessages K w txBytes res;
         fullyAttributed = (txBody K txBytes \<noteq> None \<and> list_all (\<lambda>(mi, rows). rows \<noteq> None) msgs);
         attributed = map fst (filter (\<lambda>(mi, rows). rows \<noteq> None) msgs)
     in \<lparr>tr_Transfers = concat (map (\<lambda>(mi, rows). case rows of None \<Rightarrow> [] | Some r \<Rightarrow> r) msgs),
         tr_Fees = feeDeduction K w txHash (txFeePayer K txBytes) res,
         tr_Reviews = (if \<not> fullyAttributed \<and> te_Code res = 0 then eventReview K w txHash res attributed else [])\<rparr>)"

definition ParseBlockTransfers :: "codec \<Rightarrow> Block \<Rightarrow> BlockResults \<Rightarrow> WatchSet \<Rightarrow> err + BlockParse" where
  "ParseBlockTransfers K block results w =
     (if bk_Height block \<noteq> bs_Height results then Inl (ErrOther ''block height does not match results height'')
      else if length (bk_Txs block) \<noteq> length (bs_TxResults results)
        then Inl (ErrOther ''block txs do not match results'')
      else if sint (bk_Height block) < 0 then Inl (ErrOther ''negative block height'')
      else let txs = map (parser_tx K w) (zip (bk_Txs block) (bs_TxResults results)) in
        Inr \<lparr>bp_ChainID = bk_ChainID block, bp_Height = bk_Height block,
             bp_BlockHash = hexUpper (bk_Hash block), bp_LastBlockHash = hexUpper (bk_LastBlockHash block),
             bp_Time = bk_Time block,
             bp_Transfers = concat (map tr_Transfers txs),
             bp_FeeDeductions = concat (map tr_Fees txs),
             bp_ReviewCandidates = concat (map tr_Reviews txs),
             bp_BlockEvents = blockEvents K w (bs_FinalizeBlockEvents results)\<rparr>)"

end
