(* ===== verification/Transitions.thy ===== *)
theory Transitions
  imports Storage_Types
begin

text \<open>
  The legal state machines of \<open>go/storage/transitions.go\<close>: one table per
  entity, the generic check, and what the tables guarantee (which statuses are
  terminal, which can never be left for a re-issue, which lead to a signature).
\<close>

fun depositTransitions :: "DepositStatus \<Rightarrow> DepositStatus list" where
  "depositTransitions DepositDiscovered =
     [DepositValidated, DepositRejected, DepositReviewRequired, DepositOrphaned, DepositSuspended]"
| "depositTransitions DepositValidated =
     [DepositAwaitingConfirmations, DepositRejected, DepositBelowMinimum, DepositReviewRequired,
      DepositOrphaned, DepositSuspended]"
| "depositTransitions DepositAwaitingConfirmations =
     [DepositCreditable, DepositReviewRequired, DepositOrphaned, DepositSuspended]"
| "depositTransitions DepositCreditable =
     [DepositCredited, DepositReviewRequired, DepositOrphaned, DepositSuspended]"
| "depositTransitions DepositCredited = [DepositSweepPending]"
| "depositTransitions DepositSweepPending = [DepositSwept]"
| "depositTransitions DepositSwept = []"
| "depositTransitions DepositRejected = []"
| "depositTransitions DepositBelowMinimum =
     [DepositAwaitingConfirmations, DepositReviewRequired, DepositOrphaned, DepositSuspended]"
| "depositTransitions DepositReviewRequired = [DepositValidated, DepositRejected]"
| "depositTransitions DepositOrphaned = [DepositDiscovered]"
| "depositTransitions DepositDuplicate = []"
| "depositTransitions DepositSuspended =
     [DepositDiscovered, DepositValidated, DepositAwaitingConfirmations, DepositCreditable,
      DepositBelowMinimum]"
| "depositTransitions (DepositStatusOther x) = []"

fun withdrawalTransitions :: "WithdrawalStatus \<Rightarrow> WithdrawalStatus list" where
  "withdrawalTransitions WithdrawalRequested =
     [WithdrawalAddressValidated, WithdrawalCancelled, WithdrawalReviewRequired]"
| "withdrawalTransitions WithdrawalAddressValidated =
     [WithdrawalComplianceApproved, WithdrawalCancelled, WithdrawalReviewRequired]"
| "withdrawalTransitions WithdrawalComplianceApproved =
     [WithdrawalFundsReserved, WithdrawalCancelled, WithdrawalReviewRequired]"
| "withdrawalTransitions WithdrawalFundsReserved =
     [WithdrawalSequenceReserved, WithdrawalCancelled, WithdrawalReviewRequired]"
| "withdrawalTransitions WithdrawalSequenceReserved =
     [WithdrawalTransactionBuilt, WithdrawalCancelled, WithdrawalReviewRequired]"
| "withdrawalTransitions WithdrawalTransactionBuilt =
     [WithdrawalTransactionSimulated, WithdrawalCancelled, WithdrawalReviewRequired]"
| "withdrawalTransitions WithdrawalTransactionSimulated =
     [WithdrawalSigned, WithdrawalCancelled, WithdrawalReviewRequired]"
| "withdrawalTransitions WithdrawalSigned = [WithdrawalBroadcast, WithdrawalReviewRequired]"
| "withdrawalTransitions WithdrawalBroadcast =
     [WithdrawalIncluded, WithdrawalFailed, WithdrawalReviewRequired]"
| "withdrawalTransitions WithdrawalIncluded =
     [WithdrawalConfirmed, WithdrawalFailed, WithdrawalReviewRequired]"
| "withdrawalTransitions WithdrawalConfirmed = [WithdrawalReviewRequired]"
| "withdrawalTransitions WithdrawalFailed = [WithdrawalReviewRequired]"
| "withdrawalTransitions WithdrawalCancelled = [WithdrawalReviewRequired]"
| "withdrawalTransitions WithdrawalReviewRequired =
     [WithdrawalBroadcast, WithdrawalIncluded, WithdrawalConfirmed, WithdrawalFailed,
      WithdrawalCancelled]"
| "withdrawalTransitions (WithdrawalStatusOther x) = []"

fun sweepTransitions :: "SweepStatus \<Rightarrow> SweepStatus list" where
  "sweepTransitions SweepPending = [SweepBuilt, SweepDeferred, SweepCancelled]"
| "sweepTransitions SweepBuilt = [SweepSigned, SweepCancelled]"
| "sweepTransitions SweepDeferred = [SweepPending, SweepCancelled]"
| "sweepTransitions SweepSigned = [SweepBroadcast]"
| "sweepTransitions SweepBroadcast = [SweepConfirmed, SweepFailed]"
| "sweepTransitions SweepConfirmed = []"
| "sweepTransitions SweepFailed = []"
| "sweepTransitions SweepCancelled = []"
| "sweepTransitions (SweepStatusOther x) = []"

fun sequenceTransitions :: "SequenceReservationStatus \<Rightarrow> SequenceReservationStatus list" where
  "sequenceTransitions SequenceReserved =
     [SequenceSigned, SequenceReleased, SequenceReconciliationRequired]"
| "sequenceTransitions SequenceSigned =
     [SequenceBroadcast, SequenceConsumed, SequenceReconciliationRequired]"
| "sequenceTransitions SequenceBroadcast = [SequenceConsumed, SequenceReconciliationRequired]"
| "sequenceTransitions SequenceReconciliationRequired = [SequenceConsumed, SequenceReleased]"
| "sequenceTransitions SequenceConsumed = []"
| "sequenceTransitions SequenceReleased = []"
| "sequenceTransitions (SequenceReservationStatusOther x) = []"

definition validateTransition ::
    "('t \<Rightarrow> bool) \<Rightarrow> ('t \<Rightarrow> 't list) \<Rightarrow> 't \<Rightarrow> 't \<Rightarrow> err + unit" where
  "validateTransition valid table from to =
     (if \<not> valid from then Inl ErrInvalidRecord
      else if \<not> valid to then Inl ErrInvalidRecord
      else if enumValid to (table from) then Inr ()
      else Inl ErrIllegalTransition)"

definition ValidateDepositTransition :: "DepositStatus \<Rightarrow> DepositStatus \<Rightarrow> err + unit" where
  "ValidateDepositTransition =
     validateTransition (\<lambda>s. enumValid s AllDepositStatuses) depositTransitions"

definition ValidateWithdrawalTransition ::
    "WithdrawalStatus \<Rightarrow> WithdrawalStatus \<Rightarrow> err + unit" where
  "ValidateWithdrawalTransition =
     validateTransition (\<lambda>s. enumValid s AllWithdrawalStatuses) withdrawalTransitions"

definition ValidateSweepTransition :: "SweepStatus \<Rightarrow> SweepStatus \<Rightarrow> err + unit" where
  "ValidateSweepTransition =
     validateTransition (\<lambda>s. enumValid s AllSweepStatuses) sweepTransitions"

definition ValidateSequenceTransition ::
    "SequenceReservationStatus \<Rightarrow> SequenceReservationStatus \<Rightarrow> err + unit" where
  "ValidateSequenceTransition =
     validateTransition (\<lambda>s. enumValid s AllSequenceReservationStatuses) sequenceTransitions"

section \<open>A table as a relation\<close>

text \<open>
  The interface a transition table offers: a validity test and successor lists
  that stay inside the valid statuses and never hold the status itself.  Under
  it the check accepts exactly the edges of the table.
\<close>

locale transition_table =
  fixes valid :: "'t \<Rightarrow> bool" and table :: "'t \<Rightarrow> 't list"
  assumes closed: "to \<in> set (table from) \<Longrightarrow> valid from \<and> valid to"
    and irreflexive: "from \<notin> set (table from)"
begin

lemma validate_ok_iff: "validateTransition valid table from to = Inr u \<longleftrightarrow> to \<in> set (table from)"
  using closed by (auto simp: validateTransition_def enumValid_iff)

lemma validate_illegal_iff:
  "validateTransition valid table from to = Inl ErrIllegalTransition \<longleftrightarrow>
     valid from \<and> valid to \<and> to \<notin> set (table from)"
  by (auto simp: validateTransition_def enumValid_iff)

lemma validate_self: "validateTransition valid table x x \<noteq> Inr ()"
  using irreflexive validate_ok_iff by blast

lemma validate_total:
  "validateTransition valid table from to \<in> {Inr (), Inl ErrIllegalTransition, Inl ErrInvalidRecord}"
  by (auto simp: validateTransition_def)

end

interpretation dep_tab: transition_table "\<lambda>s. enumValid s AllDepositStatuses" depositTransitions
  by unfold_locales (case_tac "from"; auto simp: enum_defs)+

interpretation wd_tab: transition_table "\<lambda>s. enumValid s AllWithdrawalStatuses" withdrawalTransitions
  by unfold_locales (case_tac "from"; auto simp: enum_defs)+

interpretation sw_tab: transition_table "\<lambda>s. enumValid s AllSweepStatuses" sweepTransitions
  by unfold_locales (case_tac "from"; auto simp: enum_defs)+

interpretation seq_tab: transition_table "\<lambda>s. enumValid s AllSequenceReservationStatuses" sequenceTransitions
  by unfold_locales (case_tac "from"; auto simp: enum_defs)+

lemmas validate_ok = dep_tab.validate_ok_iff [folded ValidateDepositTransition_def]
  wd_tab.validate_ok_iff [folded ValidateWithdrawalTransition_def]
  sw_tab.validate_ok_iff [folded ValidateSweepTransition_def]
  seq_tab.validate_ok_iff [folded ValidateSequenceTransition_def]

abbreviation wd_edge :: "WithdrawalStatus \<Rightarrow> WithdrawalStatus \<Rightarrow> bool" where
  "wd_edge from to \<equiv> to \<in> set (withdrawalTransitions from)"

abbreviation seq_edge :: "SequenceReservationStatus \<Rightarrow> SequenceReservationStatus \<Rightarrow> bool" where
  "seq_edge from to \<equiv> to \<in> set (sequenceTransitions from)"

abbreviation dep_edge :: "DepositStatus \<Rightarrow> DepositStatus \<Rightarrow> bool" where
  "dep_edge from to \<equiv> to \<in> set (depositTransitions from)"

abbreviation sw_edge :: "SweepStatus \<Rightarrow> SweepStatus \<Rightarrow> bool" where
  "sw_edge from to \<equiv> to \<in> set (sweepTransitions from)"

section \<open>What the tables guarantee\<close>

definition pre_sign_status :: "WithdrawalStatus \<Rightarrow> bool" where
  "pre_sign_status s \<longleftrightarrow> s \<in> {WithdrawalRequested, WithdrawalAddressValidated,
     WithdrawalComplianceApproved, WithdrawalFundsReserved, WithdrawalSequenceReserved,
     WithdrawalTransactionBuilt, WithdrawalTransactionSimulated}"

text \<open>The pre-sign statuses can be entered from pre-sign statuses only.\<close>

lemma pre_sign_only_from_pre_sign: "wd_edge from to \<Longrightarrow> pre_sign_status to \<Longrightarrow> pre_sign_status from"
  by (cases "from") (auto simp: pre_sign_status_def)

lemma signed_only_from_simulated: "wd_edge from WithdrawalSigned \<Longrightarrow> from = WithdrawalTransactionSimulated"
  by (cases "from") auto

text \<open>A credited deposit never becomes creditable again.\<close>

lemma credited_edges: "dep_edge DepositCredited to \<Longrightarrow> to = DepositSweepPending"
  by simp

lemma credited_only_from_creditable: "dep_edge from DepositCredited \<Longrightarrow> from = DepositCreditable"
  by (cases "from") auto

lemma dep_no_way_back:
  assumes "dep_edge\<^sup>*\<^sup>* from to" "from \<in> {DepositCredited, DepositSweepPending, DepositSwept}"
  shows "to \<in> {DepositCredited, DepositSweepPending, DepositSwept}"
  using assms by (induction rule: rtranclp_induct) auto

end
