(* ===== verification/Sqlstore.thy ===== *)
theory Sqlstore
  imports Transitions Decimal "HOL-Library.Char_ord" "HOL-Library.List_Lexorder"
    "HOL-Library.Product_Lexorder"
begin

text \<open>
  The shared store of \<open>go/storage/internal/sqlstore\<close>.  A store holds one list
  of rows per table, in insertion order; the schema's \<open>UNIQUE\<close> constraints are checked by the inserts.
  A repository method is a program over the store.  The clock is the argument
  \<open>now\<close>; the zero time is \<open>0\<close>.  Amount columns hold the integer itself
  (its text form reads back to the same integer), and driver failures are not
  modelled: a call returns the contract's own errors only.
\<close>

section \<open>The store\<close>

record store =
  t_withdrawals :: "WithdrawalRecord list"
  t_sequences :: "SequenceReservation list"
  t_sweeps :: "SweepJob list"
  t_deposits :: "DepositRecord list"
  t_checkpoints :: "ScannerCheckpoint list"
  t_ledger :: "LedgerEntry list"
  t_fee_outflows :: "FeeOutflow list"
  t_fee_spends :: "FeeFundingSpend list"
  t_watched :: "WatchedAddress list"
  t_controls :: "OperationalControls list"
  t_audit :: "ControlsAuditEntry list"
  t_chain_reviews :: "ChainReviewCondition list"
  t_reviews :: "ReviewItem list"
  t_reports :: "ReconciliationReport list"
  t_outbox :: "OutboxEvent list"

definition empty_store :: store where
  "empty_store = \<lparr>t_withdrawals = [], t_sequences = [], t_sweeps = [], t_deposits = [],
     t_checkpoints = [], t_ledger = [], t_fee_outflows = [], t_fee_spends = [], t_watched = [],
     t_controls = [], t_audit = [], t_chain_reviews = [], t_reviews = [], t_reports = [],
     t_outbox = []\<rparr>"

section \<open>Statement helpers\<close>

text \<open>\<open>WithTx\<close> and \<open>withWrite\<close> are \<open>with_tx\<close> of the prelude.\<close>

definition fmtTime :: "time \<Rightarrow> time \<Rightarrow> time" where
  "fmtTime now t = (if t = 0 then now else t)"

definition amountText :: "int \<Rightarrow> bool \<Rightarrow> err + int" where
  "amountText v requirePositive =
     (if v < 0 then Inl ErrInvalidRecord
      else if requirePositive \<and> v = 0 then Inl ErrInvalidRecord
      else Inr v)"

definition amountPtrText :: "int option \<Rightarrow> err + int option" where
  "amountPtrText v = (case v of None \<Rightarrow> Inr None
     | Some a \<Rightarrow> (case amountText a False of Inl e \<Rightarrow> Inl e | Inr b \<Rightarrow> Inr (Some b)))"

definition queryRow :: "(store \<Rightarrow> 'r option) \<Rightarrow> (store, 'r) prog" where
  "queryRow q = bindE (gets q) (\<lambda>row. case row of None \<Rightarrow> throw ErrNotFound | Some r \<Rightarrow> ret r)"

definition execUpdate ::
    "(store \<Rightarrow> 'r list) \<Rightarrow> (('r list \<Rightarrow> 'r list) \<Rightarrow> store \<Rightarrow> store) \<Rightarrow> ('r \<Rightarrow> bool) \<Rightarrow> ('r \<Rightarrow> 'r) \<Rightarrow> (store, nat) prog" where
  "execUpdate get upd p f =
     (\<lambda>s. (Inr (length (filter p (get s))), upd (map_where p f) s))"

definition requireOneRow :: "nat \<Rightarrow> (store, unit) prog" where
  "requireOneRow n = guardE (n \<noteq> 0) ErrStatusConflict"

text \<open>
  The identifier an auto-increment column gives the next row: one above every
  identifier handed out so far (rows are never deleted).
\<close>

definition nextRowID :: "int list \<Rightarrow> int" where
  "nextRowID ids = foldr max ids 0 + 1"

definition nextID :: "(store \<Rightarrow> int list) \<Rightarrow> (store, int) prog" where
  "nextID ids = gets (\<lambda>s. nextRowID (ids s))"

text \<open>An insert: the row is added unless a unique index already holds its key.\<close>

definition insertRow :: "(store \<Rightarrow> bool) \<Rightarrow> err \<Rightarrow> (store \<Rightarrow> store) \<Rightarrow> (store, unit) prog" where
  "insertRow clash e add = (\<lambda>s. if clash s then (Inl e, s) else (Inr (), add s))"

section \<open>Withdrawals\<close>

definition committedWithdrawalStatuses :: "WithdrawalStatus list" where
  "committedWithdrawalStatuses = [WithdrawalFundsReserved, WithdrawalSequenceReserved,
     WithdrawalTransactionBuilt, WithdrawalTransactionSimulated, WithdrawalSigned,
     WithdrawalBroadcast, WithdrawalReviewRequired]"

definition withdrawalRepo_Create :: "time \<Rightarrow> WithdrawalRecord \<Rightarrow> (store, WithdrawalRecord) prog" where
  "withdrawalRepo_Create now w0 =
     (if w_WithdrawalID w0 = [] \<or> w_IdempotencyKey w0 = [] then throw ErrInvalidRecord
      else if w_ChainID w0 = [] \<or> w_SourceAddress w0 = [] \<or> w_DestinationAddress w0 = []
        then throw ErrInvalidRecord
      else if w_Denom w0 \<noteq> BaseDenom then throw ErrInvalidRecord
      else let w1 = (if w_Status w0 = WithdrawalStatusOther [] then w0\<lparr>w_Status := WithdrawalRequested\<rparr> else w0)
      in if \<not> enumValid (w_Status w1) AllWithdrawalStatuses then throw ErrInvalidRecord
      else let w2 = (if w_SignMode w1 = [] then w1\<lparr>w_SignMode := SignModeDirect\<rparr> else w1)
      in if w_SignMode w2 \<noteq> SignModeDirect then throw ErrInvalidRecord
      else bindE (liftR (amountText (w_AmountBaseUnits w2) True)) (\<lambda>_.
           bindE (liftR (amountPtrText (w_FeeAmountBaseUnits w2))) (\<lambda>_.
           let w3 = w2\<lparr>w_CreatedAt := fmtTime now (w_CreatedAt w2),
                      w_UpdatedAt := fmtTime now (w_UpdatedAt w2)\<rparr>
           in thenE (insertRow
                (\<lambda>s. \<exists>x \<in> set (t_withdrawals s). w_WithdrawalID x = w_WithdrawalID w3
                      \<or> w_IdempotencyKey x = w_IdempotencyKey w3)
                ErrDuplicate (t_withdrawals_update (\<lambda>rows. rows @ [w3])))
              (ret w3))))"

definition withdrawalRepo_Get :: "string \<Rightarrow> (store, WithdrawalRecord) prog" where
  "withdrawalRepo_Get withdrawalID =
     queryRow (\<lambda>s. find (\<lambda>w. w_WithdrawalID w = withdrawalID) (t_withdrawals s))"

definition withdrawalRepo_GetByIdempotencyKey :: "string \<Rightarrow> (store, WithdrawalRecord) prog" where
  "withdrawalRepo_GetByIdempotencyKey k =
     queryRow (\<lambda>s. find (\<lambda>w. w_IdempotencyKey w = k) (t_withdrawals s))"

definition withdrawalRepo_ListByStatus ::
    "string \<Rightarrow> WithdrawalStatus \<Rightarrow> int \<Rightarrow> (store, WithdrawalRecord list) prog" where
  "withdrawalRepo_ListByStatus chainID status limit =
     gets (\<lambda>s. limit_rows limit
       (sort_key (\<lambda>w. (w_CreatedAt w, w_WithdrawalID w))
         (filter (\<lambda>w. w_ChainID w = chainID \<and> w_Status w = status) (t_withdrawals s))))"

definition applyWithdrawalUpdate ::
    "time \<Rightarrow> WithdrawalStatus \<Rightarrow> WithdrawalUpdate \<Rightarrow> WithdrawalRecord \<Rightarrow> WithdrawalRecord" where
  "applyWithdrawalUpdate now to u w = w\<lparr>
     w_Status := to, w_UpdatedAt := now,
     w_AccountNumber := set_ptr (wu_AccountNumber u) (w_AccountNumber w),
     w_Sequence := set_ptr (wu_Sequence u) (w_Sequence w),
     w_GasWanted := set_ptr (wu_GasWanted u) (w_GasWanted w),
     w_GasLimit := set_ptr (wu_GasLimit u) (w_GasLimit w),
     w_FeeAmountBaseUnits := set_ptr (wu_FeeAmountBaseUnits u) (w_FeeAmountBaseUnits w),
     w_SignedTxBytes := set_if (wu_SignedTxBytes u) (w_SignedTxBytes w),
     w_TxHash := set_ptr (wu_TxHash u) (w_TxHash w),
     w_BlockHeight := set_ptr (wu_BlockHeight u) (w_BlockHeight w),
     w_TxCode := set_ptr (wu_TxCode u) (w_TxCode w),
     w_RawLog := set_if (wu_RawLog u) (w_RawLog w)\<rparr>"

definition withdrawalRepo_UpdateStatus ::
    "time \<Rightarrow> string \<Rightarrow> WithdrawalStatus \<Rightarrow> WithdrawalStatus \<Rightarrow> WithdrawalUpdate \<Rightarrow> (store, unit) prog" where
  "withdrawalRepo_UpdateStatus now withdrawalID from to u =
     thenE (liftR (ValidateWithdrawalTransition from to))
     (bindE (liftR (amountPtrText (wu_FeeAmountBaseUnits u))) (\<lambda>_.
      with_tx
        (bindE (queryRow (\<lambda>s. find (\<lambda>w. w_WithdrawalID w = withdrawalID) (t_withdrawals s))) (\<lambda>row.
         if w_Status row \<noteq> from then throw ErrStatusConflict
         else bindE (execUpdate t_withdrawals t_withdrawals_update
                       (\<lambda>w. w_WithdrawalID w = withdrawalID \<and> w_Status w = from)
                       (applyWithdrawalUpdate now to u))
              requireOneRow))))"

text \<open>
  \<open>SumCommittedBySource\<close>: the left join yields one pair per reservation bound
  to the withdrawal and the pair with \<open>NULL\<close> when there is none.
\<close>

definition preSignReservationStatus :: "SequenceReservationStatus option \<Rightarrow> bool" where
  "preSignReservationStatus res = (case res of None \<Rightarrow> True
     | Some st \<Rightarrow> st = SequenceReserved \<or> st = SequenceReleased)"

definition leftJoinReservation ::
    "SequenceReservation list \<Rightarrow> WithdrawalRecord \<Rightarrow> (WithdrawalRecord \<times> SequenceReservationStatus option) list" where
  "leftJoinReservation seqs w =
     (case filter (\<lambda>r. r_WorkRef r = WorkRef WorkWithdrawal (w_WithdrawalID w)) seqs of
        [] \<Rightarrow> [(w, None)]
      | rs \<Rightarrow> map (\<lambda>r. (w, Some (r_Status r))) rs)"

definition countsAsCommitted :: "WithdrawalRecord \<times> SequenceReservationStatus option \<Rightarrow> bool" where
  "countsAsCommitted p = (case p of (w, res) \<Rightarrow>
     \<not> (w_Status w = WithdrawalReviewRequired \<and> w_SignedTxBytes w = [] \<and> preSignReservationStatus res))"

definition committedRows :: "string \<Rightarrow> string \<Rightarrow> store \<Rightarrow> (WithdrawalRecord \<times> SequenceReservationStatus option) list" where
  "committedRows chainID source s =
     filter countsAsCommitted
       (concat (map (leftJoinReservation (t_sequences s))
         (filter (\<lambda>w. w_ChainID w = chainID \<and> w_SourceAddress w = source
                    \<and> enumValid (w_Status w) committedWithdrawalStatuses) (t_withdrawals s))))"

definition withdrawalRepo_SumCommittedBySource :: "string \<Rightarrow> string \<Rightarrow> (store, int \<times> int) prog" where
  "withdrawalRepo_SumCommittedBySource chainID source =
     gets (\<lambda>s. fold (\<lambda>p (count, sum). (count + 1, sum + w_AmountBaseUnits (fst p)))
                   (committedRows chainID source s) (0, 0))"

section \<open>Sequence reservations\<close>

definition sequenceRepo_Reserve :: "time \<Rightarrow> SequenceReservation \<Rightarrow> (store, SequenceReservation) prog" where
  "sequenceRepo_Reserve now res0 =
     (if r_ChainID res0 = [] \<or> r_SourceAddress res0 = [] then throw ErrInvalidRecord
      else if \<not> enumValid (wr_Kind (r_WorkRef res0)) AllWorkKinds \<or> wr_ID (r_WorkRef res0) = []
        then throw ErrInvalidRecord
      else let res = res0\<lparr>r_Status := SequenceReserved\<rparr> in
      with_tx (bindE (gets (\<lambda>s. find (\<lambda>r. r_ChainID r = r_ChainID res
                 \<and> r_SourceAddress r = r_SourceAddress res \<and> r_Sequence r = r_Sequence res) (t_sequences s)))
        (\<lambda>row. case row of
           Some ex \<Rightarrow>
             if r_Status ex \<noteq> SequenceReleased then throw ErrDuplicate
             else bindE (gets (\<lambda>s. \<exists>r \<in> set (t_sequences s). r_ID r \<noteq> r_ID ex \<and> r_WorkRef r = r_WorkRef res))
               (\<lambda>clash. if clash then throw ErrDuplicate
                 else thenE (bindE (execUpdate t_sequences t_sequences_update
                               (\<lambda>r. r_ID r = r_ID ex \<and> r_Status r = SequenceReleased)
                               (\<lambda>r. r\<lparr>r_AccountNumber := r_AccountNumber res, r_WorkRef := r_WorkRef res,
                                     r_Status := SequenceReserved, r_UpdatedAt := now\<rparr>)) requireOneRow)
                      (ret (res\<lparr>r_ID := r_ID ex, r_CreatedAt := r_CreatedAt ex, r_UpdatedAt := now\<rparr>)))
         | None \<Rightarrow>
             bindE (nextID (\<lambda>s. map r_ID (t_sequences s))) (\<lambda>i.
             let row = res\<lparr>r_ID := i, r_CreatedAt := fmtTime now (r_CreatedAt res),
                           r_UpdatedAt := fmtTime now (r_UpdatedAt res)\<rparr>
             in thenE (insertRow (\<lambda>s. \<exists>r \<in> set (t_sequences s). r_WorkRef r = r_WorkRef res)
                         ErrDuplicate (t_sequences_update (\<lambda>rows. rows @ [row])))
                  (ret row)))))"

definition sequenceRepo_GetByWorkRef :: "WorkRef \<Rightarrow> (store, SequenceReservation) prog" where
  "sequenceRepo_GetByWorkRef ref = queryRow (\<lambda>s. find (\<lambda>r. r_WorkRef r = ref) (t_sequences s))"

definition openReservation :: "string \<Rightarrow> string \<Rightarrow> SequenceReservation \<Rightarrow> bool" where
  "openReservation chainID source r \<longleftrightarrow> r_ChainID r = chainID \<and> r_SourceAddress r = source
     \<and> \<not> enumValid (r_Status r) [SequenceConsumed, SequenceReleased]"

definition sequenceRepo_ListUnconsumed :: "string \<Rightarrow> string \<Rightarrow> (store, SequenceReservation list) prog" where
  "sequenceRepo_ListUnconsumed chainID source =
     gets (\<lambda>s. sort_key (\<lambda>r. sint (r_Sequence r)) (filter (openReservation chainID source) (t_sequences s)))"

definition sequenceRepo_UpdateStatus ::
    "time \<Rightarrow> int \<Rightarrow> SequenceReservationStatus \<Rightarrow> SequenceReservationStatus \<Rightarrow> (store, unit) prog" where
  "sequenceRepo_UpdateStatus now i from to =
     thenE (liftR (ValidateSequenceTransition from to))
     (with_tx
       (bindE (queryRow (\<lambda>s. find (\<lambda>r. r_ID r = i) (t_sequences s))) (\<lambda>row.
        if r_Status row \<noteq> from then throw ErrStatusConflict
        else bindE (execUpdate t_sequences t_sequences_update
                      (\<lambda>r. r_ID r = i \<and> r_Status r = from)
                      (\<lambda>r. r\<lparr>r_Status := to, r_UpdatedAt := now\<rparr>))
             requireOneRow)))"

section \<open>Sweeps\<close>

definition sweepRepo_Create :: "time \<Rightarrow> SweepJob \<Rightarrow> (store, SweepJob) prog" where
  "sweepRepo_Create now j0 =
     (if j_SweepID j0 = [] \<or> j_IdempotencyKey j0 = [] then throw ErrInvalidRecord
      else if j_ChainID j0 = [] \<or> j_SourceAddress j0 = [] \<or> j_HotWalletAddress j0 = []
        then throw ErrInvalidRecord
      else if \<not> enumValid (j_Strategy j0) AllSweepStrategies then throw ErrInvalidRecord
      else bindE (liftR (amountText (j_AmountBaseUnits j0) False)) (\<lambda>_.
           bindE (liftR (amountText (j_FeeReserveBaseUnits j0) False)) (\<lambda>_.
           let j = j0\<lparr>j_Status := SweepPending, j_CreatedAt := fmtTime now (j_CreatedAt j0),
                      j_UpdatedAt := fmtTime now (j_UpdatedAt j0)\<rparr>
           in thenE (insertRow (\<lambda>s. \<exists>x \<in> set (t_sweeps s). j_SweepID x = j_SweepID j
                         \<or> j_IdempotencyKey x = j_IdempotencyKey j) ErrDuplicate id)
             (thenE (insertRow (\<lambda>s. \<exists>x \<in> set (t_sweeps s). \<not> SweepTerminal (j_Status x)
                         \<and> j_ChainID x = j_ChainID j \<and> j_SourceAddress x = j_SourceAddress j)
                     ErrActiveSweepExists (t_sweeps_update (\<lambda>rows. rows @ [j])))
              (ret j)))))"

definition sweepRepo_Get :: "string \<Rightarrow> (store, SweepJob) prog" where
  "sweepRepo_Get sweepID = queryRow (\<lambda>s. find (\<lambda>j. j_SweepID j = sweepID) (t_sweeps s))"

definition sweepRepo_GetByIdempotencyKey :: "string \<Rightarrow> (store, SweepJob) prog" where
  "sweepRepo_GetByIdempotencyKey k = queryRow (\<lambda>s. find (\<lambda>j. j_IdempotencyKey j = k) (t_sweeps s))"

definition sweepRepo_GetActive :: "string \<Rightarrow> string \<Rightarrow> (store, SweepJob) prog" where
  "sweepRepo_GetActive chainID source =
     queryRow (\<lambda>s. find (\<lambda>j. j_ChainID j = chainID \<and> j_SourceAddress j = source
                          \<and> \<not> SweepTerminal (j_Status j)) (t_sweeps s))"

definition sweepRepo_ListByStatus :: "string \<Rightarrow> SweepStatus \<Rightarrow> int \<Rightarrow> (store, SweepJob list) prog" where
  "sweepRepo_ListByStatus chainID status limit =
     gets (\<lambda>s. limit_rows limit (sort_key (\<lambda>j. (j_CreatedAt j, j_SweepID j))
       (filter (\<lambda>j. j_ChainID j = chainID \<and> j_Status j = status) (t_sweeps s))))"

definition applySweepUpdate :: "time \<Rightarrow> SweepStatus \<Rightarrow> SweepUpdate \<Rightarrow> SweepJob \<Rightarrow> SweepJob" where
  "applySweepUpdate now to u j = j\<lparr>
     j_Status := to, j_UpdatedAt := now,
     j_SignedTxBytes := set_if (su_SignedTxBytes u) (j_SignedTxBytes j),
     j_TxHash := set_ptr (su_TxHash u) (j_TxHash j),
     j_TxCode := set_ptr (su_TxCode u) (j_TxCode j),
     j_DepositIDs := set_if (su_DepositIDs u) (j_DepositIDs j)\<rparr>"

definition sweepRepo_UpdateStatus ::
    "time \<Rightarrow> string \<Rightarrow> SweepStatus \<Rightarrow> SweepStatus \<Rightarrow> SweepUpdate \<Rightarrow> (store, unit) prog" where
  "sweepRepo_UpdateStatus now sweepID from to u =
     thenE (liftR (ValidateSweepTransition from to))
     (with_tx
       (bindE (queryRow (\<lambda>s. find (\<lambda>j. j_SweepID j = sweepID) (t_sweeps s))) (\<lambda>row.
        if j_Status row \<noteq> from then throw ErrStatusConflict
        else bindE (execUpdate t_sweeps t_sweeps_update
                      (\<lambda>j. j_SweepID j = sweepID \<and> j_Status j = from)
                      (applySweepUpdate now to u))
             requireOneRow)))"

section \<open>Deposits and checkpoints\<close>

definition depositRepo_Insert :: "time \<Rightarrow> DepositRecord \<Rightarrow> (store, DepositRecord) prog" where
  "depositRepo_Insert now d =
     (if d_ChainID d = [] \<or> d_TxHash d = [] \<or> d_RecipientAddress d = [] then throw ErrInvalidRecord
      else if d_Denom d \<noteq> BaseDenom then throw ErrInvalidRecord
      else if \<not> enumValid (d_Status d) AllDepositStatuses then throw ErrInvalidRecord
      else if (d_Status d = DepositSuspended) \<noteq> (d_PriorStatus d \<noteq> None) then throw ErrInvalidRecord
      else if (case d_PriorStatus d of None \<Rightarrow> False | Some p \<Rightarrow> \<not> enumValid p AllDepositStatuses)
        then throw ErrInvalidRecord
      else bindE (liftR (amountText (d_AmountBaseUnits d) True)) (\<lambda>_.
        bindE (nextID (\<lambda>s. map d_ID (t_deposits s))) (\<lambda>i.
        let row = d\<lparr>d_ID := i, d_BlockTimestamp := fmtTime now (d_BlockTimestamp d),
                    d_CreatedAt := fmtTime now (d_CreatedAt d), d_UpdatedAt := fmtTime now (d_UpdatedAt d)\<rparr>
        in thenE (insertRow (\<lambda>s. \<exists>x \<in> set (t_deposits s). d_ChainID x = d_ChainID d \<and> d_TxHash x = d_TxHash d
                      \<and> d_MessageIndex x = d_MessageIndex d \<and> d_CoinIndex x = d_CoinIndex d
                      \<and> d_RecipientAddress x = d_RecipientAddress d)
                   ErrDuplicate (t_deposits_update (\<lambda>rows. rows @ [row])))
           (ret (row\<lparr>d_BlockTimestamp := d_BlockTimestamp d\<rparr>)))))"

definition depositRepo_Get ::
    "string \<Rightarrow> string \<Rightarrow> uint32 \<Rightarrow> uint32 \<Rightarrow> string \<Rightarrow> (store, DepositRecord) prog" where
  "depositRepo_Get chainID txHash messageIndex coinIndex recipient =
     queryRow (\<lambda>s. find (\<lambda>x. d_ChainID x = chainID \<and> d_TxHash x = txHash
        \<and> d_MessageIndex x = messageIndex \<and> d_CoinIndex x = coinIndex
        \<and> d_RecipientAddress x = recipient) (t_deposits s))"

definition depositRepo_GetByID :: "int \<Rightarrow> (store, DepositRecord) prog" where
  "depositRepo_GetByID i = queryRow (\<lambda>s. find (\<lambda>d. d_ID d = i) (t_deposits s))"

definition depositRepo_ListByStatus :: "string \<Rightarrow> DepositStatus \<Rightarrow> int \<Rightarrow> (store, DepositRecord list) prog" where
  "depositRepo_ListByStatus chainID status limit =
     gets (\<lambda>s. limit_rows limit (sort_key d_ID
       (filter (\<lambda>d. d_ChainID d = chainID \<and> d_Status d = status) (t_deposits s))))"

definition applyDepositUpdate ::
    "time \<Rightarrow> DepositStatus \<Rightarrow> DepositStatus \<Rightarrow> DepositUpdate \<Rightarrow> DepositRecord \<Rightarrow> DepositRecord" where
  "applyDepositUpdate now from to u d = d\<lparr>
     d_Status := to,
     d_PriorStatus := (if to = DepositSuspended then Some from else None),
     d_UpdatedAt := now,
     d_CreditedAt := set_ptr (du_CreditedAt u) (d_CreditedAt d),
     d_SweepTxHash := set_ptr (du_SweepTxHash u) (d_SweepTxHash d),
     d_TxLog := set_if (du_TxLog u) (d_TxLog d)\<rparr>"

definition depositRepo_UpdateStatus ::
    "time \<Rightarrow> int \<Rightarrow> DepositStatus \<Rightarrow> DepositStatus \<Rightarrow> DepositUpdate \<Rightarrow> (store, unit) prog" where
  "depositRepo_UpdateStatus now i from to u =
     thenE (liftR (ValidateDepositTransition from to))
     (with_tx
       (bindE (queryRow (\<lambda>s. find (\<lambda>d. d_ID d = i) (t_deposits s))) (\<lambda>row.
        if d_Status row \<noteq> from then throw ErrStatusConflict
        else if from = DepositSuspended \<and> d_PriorStatus row = None then throw ErrStatusConflict
        else if from = DepositSuspended \<and> d_PriorStatus row \<noteq> Some to then throw ErrIllegalTransition
        else bindE (execUpdate t_deposits t_deposits_update
                      (\<lambda>d. d_ID d = i \<and> d_Status d = from)
                      (applyDepositUpdate now from to u))
             requireOneRow)))"

definition checkpointRepo_Get :: "string \<Rightarrow> (store, ScannerCheckpoint) prog" where
  "checkpointRepo_Get chainID = queryRow (\<lambda>s. find (\<lambda>c. cp_ChainID c = chainID) (t_checkpoints s))"

definition checkpointRepo_Set :: "time \<Rightarrow> ScannerCheckpoint \<Rightarrow> (store, unit) prog" where
  "checkpointRepo_Set now cp0 =
     (if cp_ChainID cp0 = [] then throw ErrInvalidRecord
      else let cp = cp0\<lparr>cp_UpdatedAt := fmtTime now (cp_UpdatedAt cp0)\<rparr>
      in modify (t_checkpoints_update (\<lambda>rows.
           if \<exists>c \<in> set rows. cp_ChainID c = cp_ChainID cp
           then map_where (\<lambda>c. cp_ChainID c = cp_ChainID cp) (\<lambda>_. cp) rows
           else rows @ [cp])))"

section \<open>Review queue and chain-review conditions\<close>

definition reviewRepo_Open :: "time \<Rightarrow> ReviewItem \<Rightarrow> (store, ReviewItem) prog" where
  "reviewRepo_Open now item =
     (if ri_ChainID item = [] \<or> ri_RefID item = [] then throw ErrInvalidRecord
      else if \<not> enumValid (ri_Kind item) AllReviewItemKinds then throw ErrInvalidRecord
      else bindE (nextID (\<lambda>s. map ri_ID (t_reviews s))) (\<lambda>i.
        let row = item\<lparr>ri_ID := i, ri_OpenedAt := fmtTime now (ri_OpenedAt item)\<rparr>
        in thenE (modify (t_reviews_update (\<lambda>rows. rows @ [row]))) (ret row)))"

definition reviewRepo_Get :: "int \<Rightarrow> (store, ReviewItem) prog" where
  "reviewRepo_Get i = queryRow (\<lambda>s. find (\<lambda>x. ri_ID x = i) (t_reviews s))"

definition reviewRepo_ListOpen :: "string \<Rightarrow> int \<Rightarrow> (store, ReviewItem list) prog" where
  "reviewRepo_ListOpen chainID limit =
     gets (\<lambda>s. limit_rows limit (sort_key ri_ID
       (filter (\<lambda>x. ri_ChainID x = chainID \<and> ri_ResolvedAt x = None) (t_reviews s))))"

definition reviewRepo_Resolve :: "time \<Rightarrow> int \<Rightarrow> string \<Rightarrow> time \<Rightarrow> (store, unit) prog" where
  "reviewRepo_Resolve now i resolution at =
     bindE (execUpdate t_reviews t_reviews_update
              (\<lambda>x. ri_ID x = i \<and> ri_ResolvedAt x = None)
              (\<lambda>x. x\<lparr>ri_ResolvedAt := Some (fmtTime now at), ri_Resolution := resolution\<rparr>))
       (\<lambda>n. if n = 1 then ret ()
            else thenE (reviewRepo_Get i) (throw ErrStatusConflict))"

definition chainReviewRepo_Open :: "time \<Rightarrow> ChainReviewCondition \<Rightarrow> (store, ChainReviewCondition) prog" where
  "chainReviewRepo_Open now c0 =
     (if cr_ConditionID c0 = [] \<or> cr_ChainID c0 = [] then throw ErrInvalidRecord
      else if \<not> enumValid (cr_Trigger c0) AllChainReviewTriggers then throw ErrInvalidRecord
      else let c = c0\<lparr>cr_OpenedAt := fmtTime now (cr_OpenedAt c0)\<rparr>
      in thenE (with_tx (insertRow (\<lambda>s. \<exists>x \<in> set (t_chain_reviews s). cr_ConditionID x = cr_ConditionID c)
                  ErrDuplicate (t_chain_reviews_update (\<lambda>rows. rows @ [c])))) (ret c))"

definition chainReviewRepo_Get :: "string \<Rightarrow> (store, ChainReviewCondition) prog" where
  "chainReviewRepo_Get conditionID =
     queryRow (\<lambda>s. find (\<lambda>c. cr_ConditionID c = conditionID) (t_chain_reviews s))"

definition chainReviewRepo_HasOpen :: "string \<Rightarrow> (store, bool) prog" where
  "chainReviewRepo_HasOpen chainID =
     gets (\<lambda>s. length (filter (\<lambda>c. cr_ChainID c = chainID \<and> cr_ResolvedAt c = None) (t_chain_reviews s)) > 0)"

definition chainReviewRepo_ListOpen :: "string \<Rightarrow> (store, ChainReviewCondition list) prog" where
  "chainReviewRepo_ListOpen chainID =
     gets (\<lambda>s. sort_key (\<lambda>c. (cr_OpenedAt c, cr_ConditionID c))
       (filter (\<lambda>c. cr_ChainID c = chainID \<and> cr_ResolvedAt c = None) (t_chain_reviews s)))"

definition chainReviewRepo_Resolve :: "time \<Rightarrow> string \<Rightarrow> string \<Rightarrow> time \<Rightarrow> (store, unit) prog" where
  "chainReviewRepo_Resolve now conditionID resolution at =
     bindE (execUpdate t_chain_reviews t_chain_reviews_update
              (\<lambda>c. cr_ConditionID c = conditionID \<and> cr_ResolvedAt c = None)
              (\<lambda>c. c\<lparr>cr_ResolvedAt := Some (fmtTime now at), cr_Resolution := resolution\<rparr>))
       (\<lambda>n. if n = 1 then ret ()
            else thenE (chainReviewRepo_Get conditionID) (throw ErrStatusConflict))"

section \<open>Watched addresses and operational controls\<close>

definition watchRepo_Upsert :: "WatchedAddress \<Rightarrow> (store, unit) prog" where
  "watchRepo_Upsert w =
     (if wa_ChainID w = [] \<or> wa_Address w = [] then throw ErrInvalidRecord
      else if \<not> enumValid (wa_Kind w) AllWatchedAddressKinds then throw ErrInvalidRecord
      else modify (t_watched_update (\<lambda>rows.
        if \<exists>x \<in> set rows. wa_ChainID x = wa_ChainID w \<and> wa_Address x = wa_Address w
        then map_where (\<lambda>x. wa_ChainID x = wa_ChainID w \<and> wa_Address x = wa_Address w) (\<lambda>_. w) rows
        else rows @ [w])))"

definition watchRepo_Get :: "string \<Rightarrow> string \<Rightarrow> (store, WatchedAddress) prog" where
  "watchRepo_Get chainID addr =
     queryRow (\<lambda>s. find (\<lambda>x. wa_ChainID x = chainID \<and> wa_Address x = addr) (t_watched s))"

definition watchRepo_ListActive :: "string \<Rightarrow> (store, WatchedAddress list) prog" where
  "watchRepo_ListActive chainID =
     gets (\<lambda>s. sort_key wa_Address (filter (\<lambda>x. wa_ChainID x = chainID \<and> wa_Active x) (t_watched s)))"

definition watchRepo_SetActive :: "string \<Rightarrow> string \<Rightarrow> bool \<Rightarrow> (store, unit) prog" where
  "watchRepo_SetActive chainID addr active =
     bindE (execUpdate t_watched t_watched_update
              (\<lambda>x. wa_ChainID x = chainID \<and> wa_Address x = addr) (\<lambda>x. x\<lparr>wa_Active := active\<rparr>))
       (\<lambda>n. guardE (n \<noteq> 0) ErrNotFound)"

definition zeroControls :: "string \<Rightarrow> OperationalControls" where
  "zeroControls chainID = \<lparr>oc_ChainID = chainID, oc_CreditPaused = False, oc_SigningPaused = False,
     oc_BroadcastPaused = False, oc_SweepPaused = False, oc_ScanWithoutCredit = False,
     oc_ResumeFromHeight = None, oc_UpdatedAt = 0\<rparr>"

definition getControls :: "string \<Rightarrow> (store, OperationalControls) prog" where
  "getControls chainID = queryRow (\<lambda>s. find (\<lambda>c. oc_ChainID c = chainID) (t_controls s))"

definition controlsRepo_Get :: "string \<Rightarrow> (store, OperationalControls) prog" where
  "controlsRepo_Get chainID = bindE (tryE (getControls chainID)) (\<lambda>r. case r of
      Inl e \<Rightarrow> if e = ErrNotFound then ret (zeroControls chainID) else throw e
    | Inr c \<Rightarrow> ret c)"

datatype controlChange = ControlChange (cc_field: string) (cc_old: string) (cc_new: string)

definition formatBool :: "bool \<Rightarrow> string" where
  "formatBool b = (if b then ''true'' else ''false'')"

definition heightStr :: "uint64 option \<Rightarrow> string" where
  "heightStr v = (case v of None \<Rightarrow> [] | Some h \<Rightarrow> show_u64 h)"

definition applyBool :: "string \<Rightarrow> bool \<Rightarrow> bool option \<Rightarrow> bool \<times> controlChange list" where
  "applyBool field dst src = (case src of None \<Rightarrow> (dst, [])
     | Some b \<Rightarrow> if b \<noteq> dst then (b, [ControlChange field (formatBool dst) (formatBool b)]) else (dst, []))"

definition applyResume :: "ControlsUpdate \<Rightarrow> uint64 option \<Rightarrow> uint64 option \<times> controlChange list" where
  "applyResume u cur =
     (let target = (if cu_ClearResumeFromHeight u then None else cu_ResumeFromHeight u);
          hasTarget = (cu_ClearResumeFromHeight u \<or> cu_ResumeFromHeight u \<noteq> None)
      in if hasTarget \<and> heightStr target \<noteq> heightStr cur
         then (target, [ControlChange ''resume_from_height'' (heightStr cur) (heightStr target)])
         else (cur, []))"

definition applyControls :: "ControlsUpdate \<Rightarrow> OperationalControls \<Rightarrow> OperationalControls \<times> controlChange list" where
  "applyControls u cur =
     (let (cp, c1) = applyBool ''credit_paused'' (oc_CreditPaused cur) (cu_CreditPaused u);
          (sp, c2) = applyBool ''signing_paused'' (oc_SigningPaused cur) (cu_SigningPaused u);
          (bp, c3) = applyBool ''broadcast_paused'' (oc_BroadcastPaused cur) (cu_BroadcastPaused u);
          (wp, c4) = applyBool ''sweep_paused'' (oc_SweepPaused cur) (cu_SweepPaused u);
          (sc, c5) = applyBool ''scan_without_credit'' (oc_ScanWithoutCredit cur) (cu_ScanWithoutCredit u);
          (rh, c6) = applyResume u (oc_ResumeFromHeight cur)
      in (cur\<lparr>oc_CreditPaused := cp, oc_SigningPaused := sp, oc_BroadcastPaused := bp,
             oc_SweepPaused := wp, oc_ScanWithoutCredit := sc, oc_ResumeFromHeight := rh\<rparr>,
          c1 @ c2 @ c3 @ c4 @ c5 @ c6))"

definition insertAudit :: "time \<Rightarrow> string \<Rightarrow> string \<Rightarrow> string \<Rightarrow> controlChange \<Rightarrow> (store, unit) prog" where
  "insertAudit now chainID actor reason ch = bindE (nextID (\<lambda>s. map ca_ID (t_audit s))) (\<lambda>i.
     modify (t_audit_update (\<lambda>rows. rows @ [\<lparr>ca_ID = i, ca_ChainID = chainID, ca_Field = cc_field ch,
       ca_OldValue = cc_old ch, ca_NewValue = cc_new ch, ca_Actor = actor, ca_Reason = reason, ca_At = now\<rparr>])))"

definition controlsRepo_Apply ::
    "time \<Rightarrow> string \<Rightarrow> ControlsUpdate \<Rightarrow> string \<Rightarrow> string \<Rightarrow> (store, OperationalControls) prog" where
  "controlsRepo_Apply now chainID u actor reason =
     (if chainID = [] then throw ErrInvalidRecord
      else with_tx (bindE (controlsRepo_Get chainID) (\<lambda>cur.
        let (cur1, changes) = applyControls u cur in
        if changes = [] then ret cur1
        else let cur2 = cur1\<lparr>oc_ChainID := chainID, oc_UpdatedAt := now\<rparr> in
          thenE (modify (t_controls_update (\<lambda>rows.
                   if \<exists>c \<in> set rows. oc_ChainID c = chainID
                   then map_where (\<lambda>c. oc_ChainID c = chainID) (\<lambda>_. cur2) rows
                   else rows @ [cur2])))
          (thenE (forE changes (insertAudit now chainID actor reason))
                 (ret cur2)))))"

definition controlsRepo_ListAudit :: "string \<Rightarrow> int \<Rightarrow> (store, ControlsAuditEntry list) prog" where
  "controlsRepo_ListAudit chainID limit =
     gets (\<lambda>s. limit_rows limit (rev (sort_key ca_ID (filter (\<lambda>e. ca_ChainID e = chainID) (t_audit s)))))"

section \<open>Ledger, fee outflows and fee-funding spends\<close>

definition ledgerClash :: "LedgerEntry \<Rightarrow> LedgerEntry \<Rightarrow> bool" where
  "ledgerClash e x \<longleftrightarrow> le_Kind x = le_Kind e \<and> le_ChainID x = le_ChainID e \<and>
     (if le_Kind e = LedgerKindTx
      then le_TxHash x = le_TxHash e \<and> le_MessageIndex x = le_MessageIndex e \<and> le_OpIndex x = le_OpIndex e
      else le_BlockHeight x = le_BlockHeight e \<and> le_EventIndex x = le_EventIndex e)"

definition ledgerRepo_Append :: "time \<Rightarrow> LedgerEntry \<Rightarrow> (store, LedgerEntry) prog" where
  "ledgerRepo_Append now e =
     (if le_ChainID e = [] then throw ErrInvalidRecord
      else if \<not> enumValid (le_Kind e) AllLedgerEntryKinds then throw ErrInvalidRecord
      else if \<not> enumValid (le_Direction e) AllLedgerDirections then throw ErrInvalidRecord
      else if \<not> enumValid (le_Classification e) AllClassifications then throw ErrInvalidRecord
      else if le_Address e = [] then throw ErrInvalidRecord
      else if le_Denom e = [] then throw ErrInvalidRecord
      else if le_Kind e = LedgerKindTx \<and> le_TxHash e = [] then throw ErrInvalidRecord
      else if le_Kind e = LedgerKindBlockEvent \<and> le_TxHash e \<noteq> [] then throw ErrInvalidRecord
      else bindE (liftR (amountText (le_AmountBaseUnits e) False)) (\<lambda>_.
        bindE (nextID (\<lambda>s. map le_ID (t_ledger s))) (\<lambda>i.
        let e1 = e\<lparr>le_ID := i, le_CreatedAt := fmtTime now (le_CreatedAt e)\<rparr>;
            row = (if le_Kind e = LedgerKindTx then e1\<lparr>le_EventIndex := 0\<rparr>
                   else e1\<lparr>le_TxHash := [], le_MessageIndex := 0, le_OpIndex := 0\<rparr>)
        in thenE (insertRow (\<lambda>s. \<exists>x \<in> set (t_ledger s). ledgerClash row x) ErrDuplicate
                    (t_ledger_update (\<lambda>rows. rows @ [row])))
             (ret e1))))"

definition ledgerRepo_GetTxEntry :: "string \<Rightarrow> string \<Rightarrow> uint32 \<Rightarrow> uint32 \<Rightarrow> (store, LedgerEntry) prog" where
  "ledgerRepo_GetTxEntry chainID txHash messageIndex opIndex =
     queryRow (\<lambda>s. find (\<lambda>x. le_ChainID x = chainID \<and> le_Kind x = LedgerKindTx \<and> le_TxHash x = txHash
        \<and> le_MessageIndex x = messageIndex \<and> le_OpIndex x = opIndex) (t_ledger s))"

definition ledgerRepo_GetBlockEventEntry :: "string \<Rightarrow> uint64 \<Rightarrow> uint32 \<Rightarrow> (store, LedgerEntry) prog" where
  "ledgerRepo_GetBlockEventEntry chainID blockHeight eventIndex =
     queryRow (\<lambda>s. find (\<lambda>x. le_ChainID x = chainID \<and> le_Kind x = LedgerKindBlockEvent
        \<and> le_BlockHeight x = blockHeight \<and> le_EventIndex x = eventIndex) (t_ledger s))"

text \<open>Heights live in signed columns, so range predicates compare signed.\<close>

definition inHeightRange :: "uint64 \<Rightarrow> uint64 \<Rightarrow> uint64 \<Rightarrow> bool" where
  "inHeightRange from to h \<longleftrightarrow> sint from \<le> sint h \<and> (to \<noteq> 0 \<longrightarrow> sint h \<le> sint to)"

definition ledgerRepo_List :: "LedgerQuery \<Rightarrow> (store, LedgerEntry list) prog" where
  "ledgerRepo_List q = gets (\<lambda>s. limit_rows (lq_Limit q) (sort_key le_ID
     (filter (\<lambda>x. le_ChainID x = lq_ChainID q \<and> le_Address x = lq_Address q
        \<and> inHeightRange (lq_FromHeight q) (lq_ToHeight q) (le_BlockHeight x)
        \<and> le_ID x > lq_AfterID q) (t_ledger s))))"

definition ledgerRepo_AppendFeeOutflow :: "time \<Rightarrow> FeeOutflow \<Rightarrow> (store, FeeOutflow) prog" where
  "ledgerRepo_AppendFeeOutflow now f =
     (if fo_ChainID f = [] \<or> fo_TxHash f = [] then throw ErrInvalidRecord
      else if fo_PayerAddress f = [] then throw ErrInvalidRecord
      else bindE (liftR (amountText (fo_FeeBaseUnits f) False)) (\<lambda>_.
        bindE (nextID (\<lambda>s. map fo_ID (t_fee_outflows s))) (\<lambda>i.
        let row = f\<lparr>fo_ID := i, fo_CreatedAt := fmtTime now (fo_CreatedAt f)\<rparr>
        in thenE (insertRow (\<lambda>s. \<exists>x \<in> set (t_fee_outflows s). fo_ChainID x = fo_ChainID f \<and> fo_TxHash x = fo_TxHash f)
                    ErrDuplicate (t_fee_outflows_update (\<lambda>rows. rows @ [row])))
             (ret row))))"

definition ledgerRepo_ListFeeOutflows :: "string \<Rightarrow> string \<Rightarrow> uint64 \<Rightarrow> uint64 \<Rightarrow> (store, FeeOutflow list) prog" where
  "ledgerRepo_ListFeeOutflows chainID payer fromHeight toHeight =
     gets (\<lambda>s. sort_key (\<lambda>f. (sint (fo_BlockHeight f), fo_ID f))
       (filter (\<lambda>f. fo_ChainID f = chainID \<and> fo_PayerAddress f = payer
          \<and> inHeightRange fromHeight toHeight (fo_BlockHeight f)) (t_fee_outflows s)))"

definition ledgerRepo_AppendFeeFundingSpend :: "time \<Rightarrow> FeeFundingSpend \<Rightarrow> (store, FeeFundingSpend) prog" where
  "ledgerRepo_AppendFeeFundingSpend now f =
     (if fs_ChainID f = [] \<or> fs_TxHash f = [] then throw ErrInvalidRecord
      else if fs_FeeWalletAddress f = [] then throw ErrInvalidRecord
      else bindE (liftR (amountText (fs_AmountBaseUnits f) False)) (\<lambda>_.
        bindE (nextID (\<lambda>s. map fs_ID (t_fee_spends s))) (\<lambda>i.
        let row = f\<lparr>fs_ID := i, fs_CreatedAt := fmtTime now (fs_CreatedAt f)\<rparr>
        in thenE (insertRow (\<lambda>s. \<exists>x \<in> set (t_fee_spends s). fs_ChainID x = fs_ChainID f \<and> fs_TxHash x = fs_TxHash f)
                    ErrDuplicate (t_fee_spends_update (\<lambda>rows. rows @ [row])))
             (ret row))))"

definition ledgerRepo_SumFeeFundingSpend :: "string \<Rightarrow> string \<Rightarrow> uint64 \<Rightarrow> uint64 \<Rightarrow> (store, int) prog" where
  "ledgerRepo_SumFeeFundingSpend chainID feeWallet fromHeight toHeight =
     gets (\<lambda>s. fold (\<lambda>f sum. sum + fs_AmountBaseUnits f)
       (filter (\<lambda>f. fs_ChainID f = chainID \<and> fs_FeeWalletAddress f = feeWallet
          \<and> inHeightRange fromHeight toHeight (fs_BlockHeight f)) (t_fee_spends s)) 0)"

section \<open>Reconciliation reports and the outbox\<close>

definition saveEntry :: "string \<Rightarrow> ReconciliationEntry \<Rightarrow> (store, unit) prog" where
  "saveEntry reportID e =
     bindE (liftR (amountText (re_ExpectedBaseUnits e) False)) (\<lambda>_.
     bindE (liftR (amountText (re_ObservedBaseUnits e) False)) (\<lambda>_.
       modify (t_reports_update (map_where (\<lambda>r. rr_ReportID r = reportID)
                 (\<lambda>r. r\<lparr>rr_Entries := rr_Entries r @ [e]\<rparr>)))))"

definition reconRepo_SaveReport :: "time \<Rightarrow> ReconciliationReport \<Rightarrow> (store, unit) prog" where
  "reconRepo_SaveReport now rep =
     (if rr_ReportID rep = [] \<or> rr_ChainID rep = [] then throw ErrInvalidRecord
      else if \<not> enumValid (rr_Kind rep) AllReconciliationKinds then throw ErrInvalidRecord
      else with_tx
        (thenE (insertRow (\<lambda>s. \<exists>x \<in> set (t_reports s). rr_ReportID x = rr_ReportID rep) ErrDuplicate
                 (t_reports_update (\<lambda>rows. rows @ [rep\<lparr>rr_Entries := [],
                    rr_PeriodStart := fmtTime now (rr_PeriodStart rep),
                    rr_PeriodEnd := fmtTime now (rr_PeriodEnd rep),
                    rr_GeneratedAt := fmtTime now (rr_GeneratedAt rep)\<rparr>])))
         (forE (rr_Entries rep) (saveEntry (rr_ReportID rep)))))"

definition reconRepo_GetReport :: "string \<Rightarrow> (store, ReconciliationReport) prog" where
  "reconRepo_GetReport reportID = queryRow (\<lambda>s. find (\<lambda>r. rr_ReportID r = reportID) (t_reports s))"

definition reconRepo_ListReports :: "string \<Rightarrow> ReconciliationKind \<Rightarrow> int \<Rightarrow> (store, ReconciliationReport list) prog" where
  "reconRepo_ListReports chainID kind limit =
     gets (\<lambda>s. limit_rows limit (sort_key (\<lambda>r. (- rr_GeneratedAt r, rr_ReportID r))
       (filter (\<lambda>r. rr_ChainID r = chainID \<and> rr_Kind r = kind) (t_reports s))))"

definition outboxRepo_Enqueue :: "time \<Rightarrow> OutboxEvent \<Rightarrow> (store, OutboxEvent) prog" where
  "outboxRepo_Enqueue now ev =
     (if ob_ChainID ev = [] \<or> ob_Topic ev = [] then throw ErrInvalidRecord
      else bindE (nextID (\<lambda>s. map ob_ID (t_outbox s))) (\<lambda>i.
        let row = ev\<lparr>ob_ID := i, ob_CreatedAt := fmtTime now (ob_CreatedAt ev)\<rparr>
        in thenE (insertRow (\<lambda>s. ob_DedupKey ev \<noteq> [] \<and> (\<exists>x \<in> set (t_outbox s). ob_DedupKey x = ob_DedupKey ev))
                    ErrDuplicate (t_outbox_update (\<lambda>rows. rows @ [row])))
             (ret row)))"

definition outboxRepo_ListPending :: "int \<Rightarrow> (store, OutboxEvent list) prog" where
  "outboxRepo_ListPending limit =
     gets (\<lambda>s. limit_rows limit (sort_key ob_ID (filter (\<lambda>x. ob_DispatchedAt x = None) (t_outbox s))))"

definition outboxRepo_MarkDispatched :: "time \<Rightarrow> int \<Rightarrow> time \<Rightarrow> (store, unit) prog" where
  "outboxRepo_MarkDispatched now i at =
     bindE (execUpdate t_outbox t_outbox_update
              (\<lambda>x. ob_ID x = i \<and> ob_DispatchedAt x = None) (\<lambda>x. x\<lparr>ob_DispatchedAt := Some (fmtTime now at)\<rparr>))
       (\<lambda>n. if n = 1 then ret ()
            else bindE (gets (\<lambda>s. length (filter (\<lambda>x. ob_ID x = i) (t_outbox s))))
              (\<lambda>ex. if ex = 0 then throw ErrNotFound else throw ErrStatusConflict))"

end
