(* ===== verification/Store_Laws.thy ===== *)
theory Store_Laws
  imports Sqlstore
begin

text \<open>
  What the repository methods promise: the exact effect of every status
  update, the compare-and-swap contract they share, the uniqueness
  constraints of the schema as an invariant that every method keeps, and the
  facts about reservations, inserts and sums the workflows rely on.
\<close>

section \<open>Running the statement helpers\<close>

lemma queryRow_ok_iff [simp]: "queryRow q s = (Inr r, s') \<longleftrightarrow> q s = Some r \<and> s' = s"
  by (auto simp: queryRow_def split: option.splits)

lemma queryRow_err_iff: "queryRow q s = (Inl e, s') \<longleftrightarrow> q s = None \<and> e = ErrNotFound \<and> s' = s"
  by (auto simp: queryRow_def split: option.splits)

lemma queryRow_run: "queryRow q s = (case q s of None \<Rightarrow> (Inl ErrNotFound, s) | Some r \<Rightarrow> (Inr r, s))"
  by (simp add: queryRow_def split: option.splits)

lemma execUpdate_run: "execUpdate get upd p f s = (Inr (length (filter p (get s))), upd (map_where p f) s)"
  by (simp add: execUpdate_def)

lemma insertRow_run: "insertRow clash e add s = (if clash s then (Inl e, s) else (Inr (), add s))"
  by (simp add: insertRow_def)

lemma requireOneRow_run: "requireOneRow n s = (if n \<noteq> 0 then (Inr (), s) else (Inl ErrStatusConflict, s))"
  by (simp add: requireOneRow_def)

lemmas run_defs = bindE_def thenE_def queryRow_run execUpdate_run insertRow_run requireOneRow_run
  with_tx_def nextID_def

lemma amountText_ok_iff: "amountText v b = Inr v' \<longleftrightarrow> v' = v \<and> 0 \<le> v \<and> (b \<longrightarrow> 0 < v)"
  by (auto simp: amountText_def)

lemma amountText_cases: "amountText v b = (if 0 \<le> v \<and> (b \<longrightarrow> 0 < v) then Inr v else Inl ErrInvalidRecord)"
  by (auto simp: amountText_def)

lemma nextRowID_fresh: "i \<in> set ids \<Longrightarrow> i < nextRowID ids"
  by (induction ids) (auto simp: nextRowID_def)

lemma nextRowID_pos: "0 < nextRowID ids"
  by (induction ids) (auto simp: nextRowID_def)

lemma nextRowID_notin [simp]: "nextRowID ids \<notin> set ids"
  using nextRowID_fresh by blast

section \<open>Status updates\<close>

definition feeTextOk :: "WithdrawalUpdate \<Rightarrow> bool" where
  "feeTextOk u \<longleftrightarrow> (case wu_FeeAmountBaseUnits u of None \<Rightarrow> True | Some f \<Rightarrow> 0 \<le> f)"

lemma feeTextOk_none [simp]: "wu_FeeAmountBaseUnits u = None \<Longrightarrow> feeTextOk u"
  by (simp add: feeTextOk_def)

lemma amountPtrText_ok: "(\<exists>v. amountPtrText (wu_FeeAmountBaseUnits u) = Inr v) \<longleftrightarrow> feeTextOk u"
  by (auto simp: amountPtrText_def amountText_def feeTextOk_def split: option.splits)

lemma found_filter: "filter (\<lambda>y. p y \<and> q y) xs = [] \<Longrightarrow> find p xs = Some x \<Longrightarrow> \<not> q x"
  by (auto simp: filter_empty_conv dest!: find_SomeD)

lemma wd_update_ok_iff:
  "withdrawalRepo_UpdateStatus now k from to u s = (Inr (), s') \<longleftrightarrow>
     wd_edge from to \<and> feeTextOk u \<and>
     (\<exists>w. find (\<lambda>w. w_WithdrawalID w = k) (t_withdrawals s) = Some w \<and> w_Status w = from) \<and>
     s' = t_withdrawals_update (map_where (\<lambda>w. w_WithdrawalID w = k \<and> w_Status w = from)
            (applyWithdrawalUpdate now to u)) s"
  unfolding withdrawalRepo_UpdateStatus_def
  by (auto simp: thenE_ok_iff bindE_ok_iff with_tx_ok_iff validate_ok execUpdate_run
        requireOneRow_run amountPtrText_ok [symmetric] dest: found_filter split: if_splits)

lemma seq_update_ok_iff:
  "sequenceRepo_UpdateStatus now k from to s = (Inr (), s') \<longleftrightarrow>
     seq_edge from to \<and>
     (\<exists>w. find (\<lambda>w. r_ID w = k) (t_sequences s) = Some w \<and> r_Status w = from) \<and>
     s' = t_sequences_update (map_where (\<lambda>r. r_ID r = k \<and> r_Status r = from)
            (\<lambda>r. r\<lparr>r_Status := to, r_UpdatedAt := now\<rparr>)) s"
  unfolding sequenceRepo_UpdateStatus_def
  by (auto simp: thenE_ok_iff bindE_ok_iff with_tx_ok_iff validate_ok execUpdate_run
        requireOneRow_run dest: found_filter split: if_splits)

lemma sw_update_ok_iff:
  "sweepRepo_UpdateStatus now k from to u s = (Inr (), s') \<longleftrightarrow>
     sw_edge from to \<and>
     (\<exists>w. find (\<lambda>w. j_SweepID w = k) (t_sweeps s) = Some w \<and> j_Status w = from) \<and>
     s' = t_sweeps_update (map_where (\<lambda>r. j_SweepID r = k \<and> j_Status r = from)
            (applySweepUpdate now to u)) s"
  unfolding sweepRepo_UpdateStatus_def
  by (auto simp: thenE_ok_iff bindE_ok_iff with_tx_ok_iff validate_ok execUpdate_run
        requireOneRow_run dest: found_filter split: if_splits)

lemma dep_update_ok_iff:
  "depositRepo_UpdateStatus now k from to u s = (Inr (), s') \<longleftrightarrow>
     dep_edge from to \<and>
     (\<exists>d. find (\<lambda>d. d_ID d = k) (t_deposits s) = Some d \<and> d_Status d = from \<and>
          (from = DepositSuspended \<longrightarrow> d_PriorStatus d = Some to)) \<and>
     s' = t_deposits_update (map_where (\<lambda>d. d_ID d = k \<and> d_Status d = from)
            (applyDepositUpdate now from to u)) s"
  unfolding depositRepo_UpdateStatus_def
  by (auto simp: thenE_ok_iff bindE_ok_iff with_tx_ok_iff validate_ok execUpdate_run
        requireOneRow_run dest: found_filter split: if_splits)

lemma wd_update_err: "withdrawalRepo_UpdateStatus now k from to u s = (Inl e, s') \<Longrightarrow> s' = s"
  unfolding withdrawalRepo_UpdateStatus_def
  by (auto simp: run_defs split: sum.splits prod.splits if_splits option.splits)

lemma seq_update_err: "sequenceRepo_UpdateStatus now k from to s = (Inl e, s') \<Longrightarrow> s' = s"
  unfolding sequenceRepo_UpdateStatus_def
  by (auto simp: run_defs split: sum.splits prod.splits if_splits option.splits)

lemma sw_update_err: "sweepRepo_UpdateStatus now k from to u s = (Inl e, s') \<Longrightarrow> s' = s"
  unfolding sweepRepo_UpdateStatus_def
  by (auto simp: run_defs split: sum.splits prod.splits if_splits option.splits)

lemma dep_update_err: "depositRepo_UpdateStatus now k from to u s = (Inl e, s') \<Longrightarrow> s' = s"
  unfolding depositRepo_UpdateStatus_def
  by (auto simp: run_defs split: sum.splits prod.splits if_splits option.splits)

lemma applyWithdrawalUpdate_id [simp]:
  "w_WithdrawalID (applyWithdrawalUpdate now to u w) = w_WithdrawalID w"
  "w_IdempotencyKey (applyWithdrawalUpdate now to u w) = w_IdempotencyKey w"
  "w_ChainID (applyWithdrawalUpdate now to u w) = w_ChainID w"
  "w_SourceAddress (applyWithdrawalUpdate now to u w) = w_SourceAddress w"
  "w_DestinationAddress (applyWithdrawalUpdate now to u w) = w_DestinationAddress w"
  "w_Denom (applyWithdrawalUpdate now to u w) = w_Denom w"
  "w_AmountBaseUnits (applyWithdrawalUpdate now to u w) = w_AmountBaseUnits w"
  "w_Memo (applyWithdrawalUpdate now to u w) = w_Memo w"
  "w_Status (applyWithdrawalUpdate now to u w) = to"
  "w_SignedTxBytes (applyWithdrawalUpdate now to u w) = set_if (wu_SignedTxBytes u) (w_SignedTxBytes w)"
  "w_TxHash (applyWithdrawalUpdate now to u w) = set_ptr (wu_TxHash u) (w_TxHash w)"
  "w_Sequence (applyWithdrawalUpdate now to u w) = set_ptr (wu_Sequence u) (w_Sequence w)"
  "w_AccountNumber (applyWithdrawalUpdate now to u w) = set_ptr (wu_AccountNumber u) (w_AccountNumber w)"
  "w_FeeAmountBaseUnits (applyWithdrawalUpdate now to u w) = set_ptr (wu_FeeAmountBaseUnits u) (w_FeeAmountBaseUnits w)"
  "w_GasLimit (applyWithdrawalUpdate now to u w) = set_ptr (wu_GasLimit u) (w_GasLimit w)"
  by (simp_all add: applyWithdrawalUpdate_def)

lemma applySweepUpdate_id [simp]:
  "j_SweepID (applySweepUpdate now to u j) = j_SweepID j"
  "j_IdempotencyKey (applySweepUpdate now to u j) = j_IdempotencyKey j"
  "j_ChainID (applySweepUpdate now to u j) = j_ChainID j"
  "j_SourceAddress (applySweepUpdate now to u j) = j_SourceAddress j"
  "j_Status (applySweepUpdate now to u j) = to"
  "j_SignedTxBytes (applySweepUpdate now to u j) = set_if (su_SignedTxBytes u) (j_SignedTxBytes j)"
  "j_TxHash (applySweepUpdate now to u j) = set_ptr (su_TxHash u) (j_TxHash j)"
  by (simp_all add: applySweepUpdate_def)

lemma applyDepositUpdate_id [simp]:
  "d_ID (applyDepositUpdate now from to u d) = d_ID d"
  "d_ChainID (applyDepositUpdate now from to u d) = d_ChainID d"
  "d_TxHash (applyDepositUpdate now from to u d) = d_TxHash d"
  "d_MessageIndex (applyDepositUpdate now from to u d) = d_MessageIndex d"
  "d_CoinIndex (applyDepositUpdate now from to u d) = d_CoinIndex d"
  "d_RecipientAddress (applyDepositUpdate now from to u d) = d_RecipientAddress d"
  "d_Status (applyDepositUpdate now from to u d) = to"
  "d_PriorStatus (applyDepositUpdate now from to u d) = (if to = DepositSuspended then Some from else None)"
  "d_AmountBaseUnits (applyDepositUpdate now from to u d) = d_AmountBaseUnits d"
  "d_BlockHeight (applyDepositUpdate now from to u d) = d_BlockHeight d"
  by (simp_all add: applyDepositUpdate_def)

section \<open>The compare-and-swap contract, four times\<close>

lemma find_key_member: "find (\<lambda>r. k r = x) rows = Some r \<Longrightarrow> r \<in> set rows \<and> k r = x"
  by (rule find_SomeD)

interpretation wd_cas: cas_repo t_withdrawals w_WithdrawalID w_Status wd_edge
  "\<lambda>now from to u. applyWithdrawalUpdate now to u" withdrawalRepo_UpdateStatus
proof unfold_locales
  fix now k "from" to u and s s' :: store
  assume "withdrawalRepo_UpdateStatus now k from to u s = (Inr (), s')"
  then show "wd_edge from to \<and> (\<exists>r\<in>set (t_withdrawals s). w_WithdrawalID r = k \<and> w_Status r = from) \<and>
      t_withdrawals s' = map_where (\<lambda>r. w_WithdrawalID r = k \<and> w_Status r = from)
        (applyWithdrawalUpdate now to u) (t_withdrawals s)"
    by (auto simp: wd_update_ok_iff dest: find_key_member)
next
  fix now k "from" to u r and s :: store
  assume "find (\<lambda>r. w_WithdrawalID r = k) (t_withdrawals s) = Some r" "w_Status r \<noteq> from"
  then show "fst (withdrawalRepo_UpdateStatus now k from to u s) \<noteq> Inr ()"
    by (metis option.inject prod.collapse wd_update_ok_iff)
qed (auto dest: wd_update_err simp: wd_tab.irreflexive)

interpretation seq_cas: cas_repo t_sequences r_ID r_Status seq_edge
  "\<lambda>now from to u r. r\<lparr>r_Status := to, r_UpdatedAt := now\<rparr>"
  "\<lambda>now k from to (u::unit). sequenceRepo_UpdateStatus now k from to"
proof unfold_locales
  fix now k "from" to and u :: unit and s s' :: store
  assume "sequenceRepo_UpdateStatus now k from to s = (Inr (), s')"
  then show "seq_edge from to \<and> (\<exists>r\<in>set (t_sequences s). r_ID r = k \<and> r_Status r = from) \<and>
      t_sequences s' = map_where (\<lambda>r. r_ID r = k \<and> r_Status r = from)
        (\<lambda>r. r\<lparr>r_Status := to, r_UpdatedAt := now\<rparr>) (t_sequences s)"
    by (auto simp: seq_update_ok_iff dest: find_key_member)
next
  fix now k "from" to and u :: unit and r and s :: store
  assume "find (\<lambda>r. r_ID r = k) (t_sequences s) = Some r" "r_Status r \<noteq> from"
  then show "fst (sequenceRepo_UpdateStatus now k from to s) \<noteq> Inr ()"
    by (metis option.inject prod.collapse seq_update_ok_iff)
qed (auto dest: seq_update_err simp: seq_tab.irreflexive)

interpretation sw_cas: cas_repo t_sweeps j_SweepID j_Status sw_edge
  "\<lambda>now from to u. applySweepUpdate now to u" sweepRepo_UpdateStatus
proof unfold_locales
  fix now k "from" to u and s s' :: store
  assume "sweepRepo_UpdateStatus now k from to u s = (Inr (), s')"
  then show "sw_edge from to \<and> (\<exists>r\<in>set (t_sweeps s). j_SweepID r = k \<and> j_Status r = from) \<and>
      t_sweeps s' = map_where (\<lambda>r. j_SweepID r = k \<and> j_Status r = from)
        (applySweepUpdate now to u) (t_sweeps s)"
    by (auto simp: sw_update_ok_iff dest: find_key_member)
next
  fix now k "from" to u r and s :: store
  assume "find (\<lambda>r. j_SweepID r = k) (t_sweeps s) = Some r" "j_Status r \<noteq> from"
  then show "fst (sweepRepo_UpdateStatus now k from to u s) \<noteq> Inr ()"
    by (metis option.inject prod.collapse sw_update_ok_iff)
qed (auto dest: sw_update_err simp: sw_tab.irreflexive)

interpretation dep_cas: cas_repo t_deposits d_ID d_Status dep_edge
  applyDepositUpdate depositRepo_UpdateStatus
proof unfold_locales
  fix now k "from" to u and s s' :: store
  assume "depositRepo_UpdateStatus now k from to u s = (Inr (), s')"
  then show "dep_edge from to \<and> (\<exists>r\<in>set (t_deposits s). d_ID r = k \<and> d_Status r = from) \<and>
      t_deposits s' = map_where (\<lambda>r. d_ID r = k \<and> d_Status r = from)
        (applyDepositUpdate now from to u) (t_deposits s)"
    by (auto simp: dep_update_ok_iff dest: find_key_member)
next
  fix now k "from" to u r and s :: store
  assume "find (\<lambda>r. d_ID r = k) (t_deposits s) = Some r" "d_Status r \<noteq> from"
  then show "fst (depositRepo_UpdateStatus now k from to u s) \<noteq> Inr ()"
    by (metis option.inject prod.collapse dep_update_ok_iff)
qed (auto dest: dep_update_err simp: dep_tab.irreflexive)

section \<open>Uniqueness\<close>

text \<open>The schema's primary keys and unique indexes, as an invariant of the store.\<close>

definition slotOf :: "SequenceReservation \<Rightarrow> string \<times> string \<times> uint64" where
  "slotOf r = (r_ChainID r, r_SourceAddress r, r_Sequence r)"

definition depositKey :: "DepositRecord \<Rightarrow> string \<times> string \<times> uint32 \<times> uint32 \<times> string" where
  "depositKey d = (d_ChainID d, d_TxHash d, d_MessageIndex d, d_CoinIndex d, d_RecipientAddress d)"

definition uniq_withdrawals :: "WithdrawalRecord list \<Rightarrow> bool" where
  "uniq_withdrawals ws \<longleftrightarrow> distinct (map w_WithdrawalID ws) \<and> distinct (map w_IdempotencyKey ws)"

definition uniq_sequences :: "SequenceReservation list \<Rightarrow> bool" where
  "uniq_sequences rs \<longleftrightarrow> distinct (map r_ID rs) \<and> distinct (map slotOf rs) \<and> distinct (map r_WorkRef rs)"

definition activeSweeps :: "SweepJob list \<Rightarrow> SweepJob list" where
  "activeSweeps js = filter (\<lambda>j. \<not> SweepTerminal (j_Status j)) js"

definition uniq_sweeps :: "SweepJob list \<Rightarrow> bool" where
  "uniq_sweeps js \<longleftrightarrow> distinct (map j_SweepID js) \<and> distinct (map j_IdempotencyKey js) \<and>
     distinct (map (\<lambda>j. (j_ChainID j, j_SourceAddress j)) (activeSweeps js))"

definition uniq_deposits :: "DepositRecord list \<Rightarrow> bool" where
  "uniq_deposits ds \<longleftrightarrow> distinct (map d_ID ds) \<and> distinct (map depositKey ds)"

definition uniq_ledger :: "LedgerEntry list \<Rightarrow> bool" where
  "uniq_ledger es \<longleftrightarrow> distinct (map le_ID es) \<and> sorted (map le_ID es) \<and> (\<forall>e \<in> set es. 0 < le_ID e) \<and>
     pairwise (\<lambda>e x. \<not> ledgerClash e x) (set es)"

definition uniq_outbox :: "OutboxEvent list \<Rightarrow> bool" where
  "uniq_outbox es \<longleftrightarrow> distinct (map ob_ID es) \<and>
     distinct (map ob_DedupKey (filter (\<lambda>e. ob_DedupKey e \<noteq> []) es))"

definition store_uniq :: "store \<Rightarrow> bool" where
  "store_uniq s \<longleftrightarrow> uniq_withdrawals (t_withdrawals s) \<and> uniq_sequences (t_sequences s)
     \<and> uniq_sweeps (t_sweeps s) \<and> uniq_deposits (t_deposits s) \<and> uniq_ledger (t_ledger s)
     \<and> uniq_outbox (t_outbox s)
     \<and> distinct (map (\<lambda>f. (fo_ChainID f, fo_TxHash f)) (t_fee_outflows s))
     \<and> distinct (map (\<lambda>f. (fs_ChainID f, fs_TxHash f)) (t_fee_spends s))
     \<and> distinct (map cp_ChainID (t_checkpoints s))
     \<and> distinct (map (\<lambda>w. (wa_ChainID w, wa_Address w)) (t_watched s))
     \<and> distinct (map oc_ChainID (t_controls s))
     \<and> distinct (map cr_ConditionID (t_chain_reviews s))
     \<and> distinct (map ri_ID (t_reviews s))
     \<and> distinct (map rr_ReportID (t_reports s))"

definition uniq_rel :: "store \<Rightarrow> store \<Rightarrow> bool" where
  "uniq_rel s t \<longleftrightarrow> (store_uniq s \<longrightarrow> store_uniq t)"

interpretation uq: step_rel uniq_rel
  by unfold_locales (auto simp: uniq_rel_def)

lemma uniq_withdrawals_map_where:
  "uniq_withdrawals ws \<Longrightarrow> uniq_withdrawals (map_where p (applyWithdrawalUpdate now to u) ws)"
  by (simp add: uniq_withdrawals_def)

lemma uniq_withdrawals_append:
  "uniq_withdrawals ws \<Longrightarrow>
   \<not> (\<exists>x \<in> set ws. w_WithdrawalID x = w_WithdrawalID w \<or> w_IdempotencyKey x = w_IdempotencyKey w) \<Longrightarrow>
   uniq_withdrawals (ws @ [w])"
  by (auto simp: uniq_withdrawals_def)

lemma uniq_sequences_status:
  "uniq_sequences rs \<Longrightarrow> uniq_sequences (map_where p (\<lambda>r. r\<lparr>r_Status := to, r_UpdatedAt := now\<rparr>) rs)"
  by (simp add: uniq_sequences_def slotOf_def)

text \<open>Reclaiming a released slot re-binds one row and keeps its slot.\<close>

lemma distinct_map_where_fresh:
  assumes "distinct (map ident rs)" "distinct (map g rs)"
    and "\<forall>r \<in> set rs. ident r \<noteq> i \<longrightarrow> g r \<noteq> v" and "\<And>r. g (f r) = v" and "\<And>r. p r \<Longrightarrow> ident r = i"
  shows "distinct (map g (map_where p f rs))"
  using assms(1-3)
proof (induction rs)
  case (Cons a rs)
  then have IH: "distinct (map g (map_where p f rs))" by simp
  have rest: "\<forall>r \<in> set rs. ident r \<noteq> ident a" using Cons.prems(1) by (auto simp: rev_image_eqI)
  show ?case
  proof (cases "p a")
    case True
    then have "\<forall>r \<in> set rs. \<not> p r" using rest assms(5) by metis
    then have same: "map_where p f rs = rs" by (simp add: map_where_id)
    have "\<forall>r \<in> set rs. g r \<noteq> v" using Cons.prems(3) rest True assms(5) by force
    moreover have "map_where p f (a # rs) = f a # rs" using True same by (simp add: map_where_def)
    ultimately show ?thesis using Cons.prems(2) assms(4) by auto
  next
    case False
    have "g a \<notin> g ` set (map_where p f rs)"
    proof
      assume "g a \<in> g ` set (map_where p f rs)"
      then obtain x where x: "x \<in> set rs" "g a = g (if p x then f x else x)"
        by (auto elim: map_where_inE)
      show False
      proof (cases "p x")
        case True
        then have "g a = v" "ident x = i" using x assms(4,5) by auto
        then have "ident a = i" using Cons.prems(3) by auto
        then show False using rest x(1) \<open>ident x = i\<close> by auto
      next
        case False
        then show False using x Cons.prems(2) by auto
      qed
    qed
    moreover have "map_where p f (a # rs) = a # map_where p f rs" using False by (simp add: map_where_def)
    ultimately show ?thesis using IH by simp
  qed
qed (simp add: map_where_def)

lemma uniq_sequences_reclaim:
  assumes "uniq_sequences rs" "\<not> (\<exists>r \<in> set rs. r_ID r \<noteq> i \<and> r_WorkRef r = ref)"
  shows "uniq_sequences (map_where (\<lambda>r. r_ID r = i \<and> r_Status r = SequenceReleased)
     (\<lambda>r. r\<lparr>r_AccountNumber := an, r_WorkRef := ref, r_Status := SequenceReserved, r_UpdatedAt := now\<rparr>) rs)"
proof -
  let ?f = "\<lambda>r. r\<lparr>r_AccountNumber := an, r_WorkRef := ref, r_Status := SequenceReserved, r_UpdatedAt := now\<rparr>"
  let ?p = "\<lambda>r. r_ID r = i \<and> r_Status r = SequenceReleased"
  have "distinct (map r_WorkRef (map_where ?p ?f rs))"
    by (rule distinct_map_where_fresh [where ident = r_ID and i = i and v = ref])
       (use assms in \<open>auto simp: uniq_sequences_def\<close>)
  then show ?thesis using assms(1) by (simp add: uniq_sequences_def slotOf_def)
qed

lemma uniq_sequences_append:
  assumes "uniq_sequences rs"
    and "find (\<lambda>x. r_ChainID x = r_ChainID r \<and> r_SourceAddress x = r_SourceAddress r \<and> r_Sequence x = r_Sequence r) rs = None"
    and "\<not> (\<exists>x \<in> set rs. r_WorkRef x = r_WorkRef r)" and "r_ID r = nextRowID (map r_ID rs)"
  shows "uniq_sequences (rs @ [r])"
proof -
  have "slotOf r \<notin> slotOf ` set rs"
    using assms(2) by (auto simp: slotOf_def find_None_iff)
  moreover have "r_ID r \<notin> r_ID ` set rs"
    using assms(4) nextRowID_notin [of "map r_ID rs"] by simp
  ultimately show ?thesis using assms(1,3) by (auto simp: uniq_sequences_def)
qed

lemma sw_terminal_stays: "sw_edge from to \<Longrightarrow> SweepTerminal from \<Longrightarrow> False"
  by (cases "from") (auto simp: enum_defs)

lemma distinct_map_filter_sub:
  "distinct (map g (filter p xs)) \<Longrightarrow> (\<And>x. q x \<Longrightarrow> p x) \<Longrightarrow> distinct (map g (filter q xs))"
  by (induction xs) (auto split: if_splits)

lemma uniq_sweeps_update:
  assumes "uniq_sweeps js" "sw_edge from to"
  shows "uniq_sweeps (map_where (\<lambda>j. j_SweepID j = k \<and> j_Status j = from) (applySweepUpdate now to u) js)"
proof -
  let ?p = "\<lambda>j. j_SweepID j = k \<and> j_Status j = from"
  let ?F = "map_where ?p (applySweepUpdate now to u)"
  have "map (\<lambda>j. (j_ChainID j, j_SourceAddress j)) (activeSweeps (?F xs)) =
        map (\<lambda>j. (j_ChainID j, j_SourceAddress j))
          (filter (\<lambda>j. \<not> SweepTerminal (if ?p j then to else j_Status j)) xs)" for xs
    by (induction xs) (auto simp: activeSweeps_def map_where_def)
  moreover have sub: "\<not> SweepTerminal (j_Status j)"
    if "\<not> SweepTerminal (if ?p j then to else j_Status j)" for j
    using sw_terminal_stays [OF assms(2)] that by (auto split: if_splits)
  have d: "distinct (map (\<lambda>j. (j_ChainID j, j_SourceAddress j)) (filter (\<lambda>j. \<not> SweepTerminal (j_Status j)) js))"
    using assms(1) by (simp add: uniq_sweeps_def activeSweeps_def)
  have "distinct (map (\<lambda>j. (j_ChainID j, j_SourceAddress j))
      (filter (\<lambda>j. \<not> SweepTerminal (if ?p j then to else j_Status j)) js))"
    by (rule distinct_map_filter_sub [OF d sub])
  ultimately show ?thesis using assms(1) by (simp add: uniq_sweeps_def)
qed

lemma uniq_sweeps_append:
  assumes "uniq_sweeps js"
    and "\<not> (\<exists>x \<in> set js. j_SweepID x = j_SweepID j \<or> j_IdempotencyKey x = j_IdempotencyKey j)"
    and "\<forall>x \<in> set js. j_ChainID x = j_ChainID j \<longrightarrow> SweepTerminal (j_Status x) \<or> j_SourceAddress x \<noteq> j_SourceAddress j"
  shows "uniq_sweeps (js @ [j])"
  using assms by (fastforce simp: uniq_sweeps_def activeSweeps_def)

lemma uniq_deposits_update:
  "uniq_deposits ds \<Longrightarrow> uniq_deposits (map_where p (applyDepositUpdate now from to u) ds)"
  by (simp add: uniq_deposits_def depositKey_def)

lemma uniq_deposits_append:
  assumes "uniq_deposits ds" "d_ID d = nextRowID (map d_ID ds)"
    and "\<not> (\<exists>x \<in> set ds. d_ChainID x = d_ChainID d \<and> d_TxHash x = d_TxHash d
      \<and> d_MessageIndex x = d_MessageIndex d \<and> d_CoinIndex x = d_CoinIndex d
      \<and> d_RecipientAddress x = d_RecipientAddress d)"
  shows "uniq_deposits (ds @ [d])"
proof -
  have "depositKey d \<notin> depositKey ` set ds" using assms(3) by (auto simp: depositKey_def)
  then show ?thesis using assms nextRowID_notin [of "map d_ID ds"] by (auto simp: uniq_deposits_def)
qed

lemma ledgerClash_sym: "ledgerClash e x \<longleftrightarrow> ledgerClash x e"
  by (auto simp: ledgerClash_def)

lemma uniq_ledger_append:
  assumes "uniq_ledger es" "\<not> (\<exists>x \<in> set es. ledgerClash e x)" "le_ID e = nextRowID (map le_ID es)"
  shows "uniq_ledger (es @ [e])"
proof -
  have "\<forall>i \<in> set (map le_ID es). i < le_ID e" using assms(3) nextRowID_fresh by metis
  then have "sorted (map le_ID (es @ [e]))" "distinct (map le_ID (es @ [e]))"
    using assms(1) by (auto simp: uniq_ledger_def sorted_append less_imp_le)
  moreover have "pairwise (\<lambda>e x. \<not> ledgerClash e x) (set (es @ [e]))"
    using assms(1,2) by (auto simp: uniq_ledger_def pairwise_insert ledgerClash_sym)
  moreover have "\<forall>x \<in> set (es @ [e]). 0 < le_ID x" using assms(1,3) nextRowID_pos by (auto simp: uniq_ledger_def)
  ultimately show ?thesis by (simp add: uniq_ledger_def)
qed

lemma uniq_outbox_append:
  assumes "uniq_outbox es"
    and "\<not> (ob_DedupKey e \<noteq> [] \<and> (\<exists>x \<in> set es. ob_DedupKey x = ob_DedupKey e))"
    and "ob_ID e = nextRowID (map ob_ID es)"
  shows "uniq_outbox (es @ [e])"
  using assms nextRowID_notin [of "map ob_ID es"] by (auto simp: uniq_outbox_def)

lemma uniq_outbox_dispatch:
  "uniq_outbox es \<Longrightarrow> uniq_outbox (map_where p (\<lambda>x. x\<lparr>ob_DispatchedAt := t\<rparr>) es)"
proof -
  have "map ob_DedupKey (filter (\<lambda>e. ob_DedupKey e \<noteq> []) (map_where p (\<lambda>x. x\<lparr>ob_DispatchedAt := t\<rparr>) es)) =
        map ob_DedupKey (filter (\<lambda>e. ob_DedupKey e \<noteq> []) es)"
    by (induction es) (auto simp: map_where_def)
  then show "uniq_outbox es \<Longrightarrow> ?thesis" by (simp add: uniq_outbox_def)
qed

lemma distinct_upsert:
  "distinct (map k rows) \<Longrightarrow> (\<And>r. p r \<longleftrightarrow> k r = k v) \<Longrightarrow>
   distinct (map k (if \<exists>r \<in> set rows. p r then map_where p (\<lambda>_. v) rows else rows @ [v]))"
  by (auto simp: map_where_def o_def if_distrib cong: map_cong if_cong)

subsection \<open>Every method keeps the constraints\<close>

lemma stays_execUpdate:
  "(\<And>s. R s (upd (map_where p f) s)) \<Longrightarrow> stays R (execUpdate get upd p f)"
  by (simp add: stays_def execUpdate_run)

lemma stays_insertRow:
  "(\<And>s. R s s) \<Longrightarrow> (\<And>s. \<not> clash s \<Longrightarrow> R s (add s)) \<Longrightarrow> stays R (insertRow clash e add)"
  by (simp add: stays_def insertRow_run)

lemma stays_modify: "(\<And>s. R s (f s)) \<Longrightarrow> stays R (modify f)"
  by (simp add: stays_def)

text \<open>The methods that only read leave the store as it is.\<close>

lemma reads_unchanged:
  "snd (queryRow q s) = s" "snd (withdrawalRepo_Get k s) = s"
  "snd (withdrawalRepo_GetByIdempotencyKey k s) = s"
  "snd (withdrawalRepo_ListByStatus c st n s) = s"
  "snd (withdrawalRepo_SumCommittedBySource c a s) = s"
  "snd (sequenceRepo_GetByWorkRef ref s) = s" "snd (sequenceRepo_ListUnconsumed c a s) = s"
  "snd (sweepRepo_Get k s) = s" "snd (sweepRepo_GetByIdempotencyKey k s) = s"
  "snd (sweepRepo_GetActive c a s) = s" "snd (sweepRepo_ListByStatus c sst n s) = s"
  "snd (depositRepo_Get c t m i a s) = s" "snd (depositRepo_GetByID j s) = s"
  "snd (depositRepo_ListByStatus c dst n s) = s" "snd (checkpointRepo_Get c s) = s"
  "snd (reviewRepo_Get j s) = s" "snd (reviewRepo_ListOpen c n s) = s"
  "snd (chainReviewRepo_Get k s) = s" "snd (chainReviewRepo_HasOpen c s) = s"
  "snd (chainReviewRepo_ListOpen c s) = s" "snd (watchRepo_Get c a s) = s"
  "snd (watchRepo_ListActive c s) = s" "snd (getControls c s) = s"
  "snd (controlsRepo_Get c s) = s" "snd (controlsRepo_ListAudit c n s) = s"
  "snd (ledgerRepo_GetTxEntry c t m i s) = s" "snd (ledgerRepo_GetBlockEventEntry c h i s) = s"
  "snd (ledgerRepo_List q' s) = s" "snd (ledgerRepo_ListFeeOutflows c a h h' s) = s"
  "snd (ledgerRepo_SumFeeFundingSpend c a h h' s) = s" "snd (reconRepo_GetReport k s) = s"
  "snd (reconRepo_ListReports c rk n s) = s" "snd (outboxRepo_ListPending n s) = s"
  by (auto simp: queryRow_run withdrawalRepo_Get_def withdrawalRepo_GetByIdempotencyKey_def
      withdrawalRepo_ListByStatus_def withdrawalRepo_SumCommittedBySource_def
      sequenceRepo_GetByWorkRef_def sequenceRepo_ListUnconsumed_def sweepRepo_Get_def
      sweepRepo_GetByIdempotencyKey_def sweepRepo_GetActive_def sweepRepo_ListByStatus_def
      depositRepo_Get_def depositRepo_GetByID_def depositRepo_ListByStatus_def checkpointRepo_Get_def
      reviewRepo_Get_def reviewRepo_ListOpen_def chainReviewRepo_Get_def chainReviewRepo_HasOpen_def
      chainReviewRepo_ListOpen_def watchRepo_Get_def watchRepo_ListActive_def getControls_def
      controlsRepo_Get_def controlsRepo_ListAudit_def ledgerRepo_GetTxEntry_def
      ledgerRepo_GetBlockEventEntry_def ledgerRepo_List_def ledgerRepo_ListFeeOutflows_def
      ledgerRepo_SumFeeFundingSpend_def reconRepo_GetReport_def reconRepo_ListReports_def
      outboxRepo_ListPending_def bindE_def tryE_run split: option.splits)

lemma stays_cases:
  "(\<And>s a s'. m s = (Inr a, s') \<Longrightarrow> R s s') \<Longrightarrow> (\<And>s e s'. m s = (Inl e, s') \<Longrightarrow> R s s') \<Longrightarrow> stays R m"
  unfolding stays_def by (metis prod.collapse sum.exhaust)

lemma uniq_rel_refl: "uniq_rel s s"
  by (simp add: uniq_rel_def)

named_theorems uniq_ops

lemma uniq_wd_update [uniq_ops]: "stays uniq_rel (withdrawalRepo_UpdateStatus now k from to u)"
  by (rule stays_cases)
     (auto simp: wd_update_ok_iff uniq_rel_def store_uniq_def uniq_withdrawals_map_where dest: wd_update_err)

lemma uniq_seq_update [uniq_ops]: "stays uniq_rel (sequenceRepo_UpdateStatus now k from to)"
  by (rule stays_cases)
     (auto simp: seq_update_ok_iff uniq_rel_def store_uniq_def uniq_sequences_status dest: seq_update_err)

lemma uniq_sw_update [uniq_ops]: "stays uniq_rel (sweepRepo_UpdateStatus now k from to u)"
  by (rule stays_cases)
     (auto simp: sw_update_ok_iff uniq_rel_def store_uniq_def uniq_sweeps_update dest: sw_update_err)

lemma uniq_dep_update [uniq_ops]: "stays uniq_rel (depositRepo_UpdateStatus now k from to u)"
  by (rule stays_cases)
     (auto simp: dep_update_ok_iff uniq_rel_def store_uniq_def uniq_deposits_update dest: dep_update_err)

lemma uniq_wd_create [uniq_ops]: "stays uniq_rel (withdrawalRepo_Create now w)"
  unfolding withdrawalRepo_Create_def
  by (intro uq.stays_rules stays_insertRow uniq_rel_refl)
     (auto simp: uniq_rel_def store_uniq_def intro!: uniq_withdrawals_append)

lemma uniq_seq_reserve [uniq_ops]: "stays uniq_rel (sequenceRepo_Reserve now r)"
proof -
  have "uniq_rel s s'" if "sequenceRepo_Reserve now r s = (x, s')" for s x s'
    using that unfolding sequenceRepo_Reserve_def
    by (auto simp: run_defs Let_def uniq_rel_def store_uniq_def split: if_splits option.splits
        intro!: uniq_sequences_reclaim uniq_sequences_append)
  then show ?thesis by (metis prod.collapse stays_def)
qed

lemma uniq_sw_create [uniq_ops]: "stays uniq_rel (sweepRepo_Create now j)"
proof -
  have "uniq_rel s s'" if "sweepRepo_Create now j s = (x, s')" for s x s'
    using that unfolding sweepRepo_Create_def
    by (auto simp: run_defs Let_def uniq_rel_def store_uniq_def amountText_cases split: if_splits
        intro!: uniq_sweeps_append) blast
  then show ?thesis by (metis prod.collapse stays_def)
qed

lemma uniq_dep_insert [uniq_ops]: "stays uniq_rel (depositRepo_Insert now d)"
proof -
  have "uniq_rel s s'" if "depositRepo_Insert now d s = (x, s')" for s x s'
    using that unfolding depositRepo_Insert_def
    by (auto simp: run_defs Let_def uniq_rel_def store_uniq_def amountText_cases
        split: if_splits option.splits intro!: uniq_deposits_append)
  then show ?thesis by (metis prod.collapse stays_def)
qed

lemma uniq_checkpoint_set [uniq_ops]: "stays uniq_rel (checkpointRepo_Set now cp)"
  unfolding checkpointRepo_Set_def
  by (intro uq.stays_rules stays_modify)
     (auto simp: uniq_rel_def store_uniq_def intro!: distinct_upsert split del: if_split)

lemma uniq_review_open [uniq_ops]: "stays uniq_rel (reviewRepo_Open now item)"
proof -
  have "uniq_rel s s'" if "reviewRepo_Open now item s = (x, s')" for s x s'
    using that nextRowID_notin [of "map ri_ID (t_reviews s)"] unfolding reviewRepo_Open_def
    by (auto simp: run_defs Let_def uniq_rel_def store_uniq_def split: if_splits)
  then show ?thesis by (metis prod.collapse stays_def)
qed

lemma uniq_review_resolve [uniq_ops]: "stays uniq_rel (reviewRepo_Resolve now i res at)"
  unfolding reviewRepo_Resolve_def
  by (intro uq.stays_rules stays_execUpdate uq.stays_unchanged)
     (auto simp: uniq_rel_def store_uniq_def reads_unchanged)

lemma uniq_chain_review_open [uniq_ops]: "stays uniq_rel (chainReviewRepo_Open now c)"
  unfolding chainReviewRepo_Open_def
  by (intro uq.stays_rules stays_insertRow uniq_rel_refl)
     (auto simp: uniq_rel_def store_uniq_def)

lemma uniq_chain_review_resolve [uniq_ops]: "stays uniq_rel (chainReviewRepo_Resolve now i res at)"
  unfolding chainReviewRepo_Resolve_def
  by (intro uq.stays_rules stays_execUpdate uq.stays_unchanged)
     (auto simp: uniq_rel_def store_uniq_def reads_unchanged)

lemma uniq_watch_upsert [uniq_ops]: "stays uniq_rel (watchRepo_Upsert w)"
  unfolding watchRepo_Upsert_def
  by (intro uq.stays_rules stays_modify)
     (auto simp: uniq_rel_def store_uniq_def intro!: distinct_upsert split del: if_split)

lemma uniq_watch_set_active [uniq_ops]: "stays uniq_rel (watchRepo_SetActive c a b)"
  unfolding watchRepo_SetActive_def
  by (intro uq.stays_rules stays_execUpdate) (auto simp: uniq_rel_def store_uniq_def)

lemma uniq_audit: "stays uniq_rel (insertAudit now c a r ch)"
  by (auto simp: stays_def insertAudit_def nextID_def uniq_rel_def store_uniq_def)

lemma uniq_controls_apply [uniq_ops]: "stays uniq_rel (controlsRepo_Apply now c u a r)"
  unfolding controlsRepo_Apply_def Let_def
  by (intro uq.stays_rules stays_modify uniq_audit)
     (auto simp: uniq_rel_def store_uniq_def reads_unchanged intro!: uq.stays_unchanged distinct_upsert split del: if_split)

lemma uniq_ledger_ops [uniq_ops]:
  "stays uniq_rel (ledgerRepo_Append now e)"
  "stays uniq_rel (ledgerRepo_AppendFeeOutflow now f)"
  "stays uniq_rel (ledgerRepo_AppendFeeFundingSpend now g)"
proof -
  have "uniq_rel s s'" if "ledgerRepo_Append now e s = (x, s')" for s x s'
    using that unfolding ledgerRepo_Append_def
    by (auto simp: run_defs Let_def uniq_rel_def store_uniq_def amountText_cases split: if_splits
        intro!: uniq_ledger_append)
  then show "stays uniq_rel (ledgerRepo_Append now e)" by (metis prod.collapse stays_def)
  have "uniq_rel s s'" if "ledgerRepo_AppendFeeOutflow now f s = (x, s')" for s x s'
    using that unfolding ledgerRepo_AppendFeeOutflow_def
    by (auto simp: run_defs Let_def uniq_rel_def store_uniq_def amountText_cases split: if_splits) blast
  then show "stays uniq_rel (ledgerRepo_AppendFeeOutflow now f)" by (metis prod.collapse stays_def)
  have "uniq_rel s s'" if "ledgerRepo_AppendFeeFundingSpend now g s = (x, s')" for s x s'
    using that unfolding ledgerRepo_AppendFeeFundingSpend_def
    by (auto simp: run_defs Let_def uniq_rel_def store_uniq_def amountText_cases split: if_splits) blast
  then show "stays uniq_rel (ledgerRepo_AppendFeeFundingSpend now g)" by (metis prod.collapse stays_def)
qed

lemma uniq_save_entry: "stays uniq_rel (saveEntry i e)"
  unfolding saveEntry_def
  by (intro uq.stays_rules stays_modify) (auto simp: uniq_rel_def store_uniq_def)

lemma uniq_save_report [uniq_ops]: "stays uniq_rel (reconRepo_SaveReport now rep)"
  unfolding reconRepo_SaveReport_def
  by (intro uq.stays_rules stays_insertRow uniq_rel_refl uniq_save_entry)
     (auto simp: uniq_rel_def store_uniq_def)

lemma uniq_outbox_ops [uniq_ops]:
  "stays uniq_rel (outboxRepo_Enqueue now ev)" "stays uniq_rel (outboxRepo_MarkDispatched now i at)"
proof -
  have "uniq_rel s s'" if "outboxRepo_Enqueue now ev s = (x, s')" for s x s'
    using that unfolding outboxRepo_Enqueue_def
    by (auto simp: run_defs Let_def uniq_rel_def store_uniq_def split: if_splits intro!: uniq_outbox_append)
  then show "stays uniq_rel (outboxRepo_Enqueue now ev)" by (metis prod.collapse stays_def)
  show "stays uniq_rel (outboxRepo_MarkDispatched now i at)"
    unfolding outboxRepo_MarkDispatched_def
    by (intro uq.stays_rules stays_execUpdate) (auto simp: uniq_rel_def store_uniq_def uniq_outbox_dispatch)
qed

end
