(* ===== verification/Deposits_State.thy ===== *)
theory Deposits_State
  imports Deposits_Parse Store_Laws
begin

text \<open>
  \<open>go/deposits/state.go\<close>: the transactional write of one parsed block, the
  credit conditions and the credit transaction with its outbox event.  The JSON
  encoding of the outbox payload and the RFC 3339 text of its timestamp are the
  fields of \<open>encoder\<close>.  The credit-gate lock serialises writers of the gate with
  the credit transaction; a transaction of the model is one step, so the lock
  is implicit.
\<close>

definition OutboxTopicDepositCredited :: string where
  "OutboxTopicDepositCredited = ''deposit.credited''"

record RecordPolicy =
  rp_Chain :: string
  rp_MinimumDepositUsovr :: "int option"

definition minimumSet :: "RecordPolicy \<Rightarrow> bool" where
  "minimumSet p = (case rp_MinimumDepositUsovr p of None \<Rightarrow> False | Some m \<Rightarrow> m > 0)"

text \<open>\<open>pol.minimumSet() && amount.LT(pol.MinimumDepositUsovr)\<close>\<close>

definition belowMinimum :: "RecordPolicy \<Rightarrow> int \<Rightarrow> bool" where
  "belowMinimum p amount = (minimumSet p \<and>
     (case rp_MinimumDepositUsovr p of None \<Rightarrow> False | Some m \<Rightarrow> amount < m))"

record RecordOutcome =
  ro_LedgerAppends :: int
  ro_FeeOutflows :: int
  ro_DepositsInserted :: int
  ro_DepositsRevived :: int
  ro_Duplicates :: int
  ro_ReviewItemsOpened :: int

definition noOutcome :: RecordOutcome where
  "noOutcome = \<lparr>ro_LedgerAppends = 0, ro_FeeOutflows = 0, ro_DepositsInserted = 0,
     ro_DepositsRevived = 0, ro_Duplicates = 0, ro_ReviewItemsOpened = 0\<rparr>"

section \<open>Recording a block\<close>

definition openLedgerReview :: "time \<Rightarrow> string \<Rightarrow> int \<Rightarrow> string \<Rightarrow> (store, unit) prog" where
  "openLedgerReview now chainID ledgerID reason =
     thenE (reviewRepo_Open now
        \<lparr>ri_ID = 0, ri_ChainID = chainID, ri_Kind = ReviewKindLedgerEntry, ri_RefID = show_int ledgerID,
         ri_Reason = (if reason = [] then ''unattributed ledger activity'' else reason),
         ri_OpenedAt = now, ri_ResolvedAt = None, ri_Resolution = []\<rparr>)
     (ret ())"

definition depositOf :: "BlockParse \<Rightarrow> TransferCandidate \<Rightarrow> RecordPolicy \<Rightarrow> time \<Rightarrow> DepositRecord" where
  "depositOf bp c pol now =
     \<lparr>d_ID = 0, d_ChainID = rp_Chain pol, d_TxHash = tc_TxHash c, d_MessageIndex = tc_MessageIndex c,
      d_CoinIndex = tc_CoinIndex c, d_BlockHeight = bp_Height bp, d_BlockTimestamp = bp_Time bp,
      d_SenderAddress = tc_SenderAddress c, d_RecipientAddress = tc_Address c, d_Denom = tc_Denom c,
      d_AmountBaseUnits = tc_AmountBaseUnits c, d_Memo = tc_Memo c, d_TxCode = tc_TxCode c,
      d_TxLog = tc_TxLog c, d_Status = DepositDiscovered, d_PriorStatus = None, d_CreditedAt = None,
      d_SweepTxHash = None, d_CreatedAt = now, d_UpdatedAt = now\<rparr>"

record depositOutcome =
  do_inserted :: int
  do_revived :: int
  do_duplicates :: int
  do_reviews :: int

definition noDepositOutcome :: depositOutcome where
  "noDepositOutcome = \<lparr>do_inserted = 0, do_revived = 0, do_duplicates = 0, do_reviews = 0\<rparr>"

text \<open>The second switch: where a discovered deposit goes.\<close>

definition routeDeposit ::
    "time \<Rightarrow> TransferCandidate \<Rightarrow> RecordPolicy \<Rightarrow> int \<Rightarrow> depositOutcome \<Rightarrow> (store, depositOutcome) prog" where
  "routeDeposit now c pol i out =
     (let move = (\<lambda>from to. depositRepo_UpdateStatus now i from to noDepositUpdate) in
      if tc_TxCode c \<noteq> 0 then thenE (move DepositDiscovered DepositRejected) (ret out)
      else if tc_ReviewReason c \<noteq> [] then
        thenE (move DepositDiscovered DepositReviewRequired)
        (thenE (reviewRepo_Open now
            \<lparr>ri_ID = 0, ri_ChainID = rp_Chain pol, ri_Kind = ReviewKindDeposit, ri_RefID = show_int i,
             ri_Reason = tc_ReviewReason c, ri_OpenedAt = now, ri_ResolvedAt = None, ri_Resolution = []\<rparr>)
          (ret (out\<lparr>do_reviews := 1\<rparr>)))
      else thenE (move DepositDiscovered DepositValidated)
        (if belowMinimum pol (tc_AmountBaseUnits c)
         then thenE (move DepositValidated DepositBelowMinimum) (ret out)
         else thenE (move DepositValidated DepositAwaitingConfirmations) (ret out)))"

definition recordDeposit ::
    "time \<Rightarrow> BlockParse \<Rightarrow> TransferCandidate \<Rightarrow> RecordPolicy \<Rightarrow> (store, depositOutcome) prog" where
  "recordDeposit now bp c pol =
     (let d = depositOf bp c pol now in
      bindE (tryE (depositRepo_Insert now d)) (\<lambda>r. case r of
        Inr ins \<Rightarrow> routeDeposit now c pol (d_ID ins) (noDepositOutcome\<lparr>do_inserted := 1\<rparr>)
      | Inl e \<Rightarrow>
          if e = ErrDuplicate then
            bindE (depositRepo_Get (d_ChainID d) (d_TxHash d) (d_MessageIndex d) (d_CoinIndex d) (d_RecipientAddress d))
              (\<lambda>existing.
                if d_Status existing \<noteq> DepositOrphaned then ret (noDepositOutcome\<lparr>do_duplicates := 1\<rparr>)
                else thenE (depositRepo_UpdateStatus now (d_ID existing) DepositOrphaned DepositDiscovered noDepositUpdate)
                       (routeDeposit now c pol (d_ID existing) (noDepositOutcome\<lparr>do_revived := 1\<rparr>)))
          else throw e))"

definition addDeposit :: "RecordOutcome \<Rightarrow> depositOutcome \<Rightarrow> RecordOutcome" where
  "addDeposit out n = out\<lparr>ro_DepositsInserted := ro_DepositsInserted out + do_inserted n,
     ro_DepositsRevived := ro_DepositsRevived out + do_revived n,
     ro_Duplicates := ro_Duplicates out + do_duplicates n,
     ro_ReviewItemsOpened := ro_ReviewItemsOpened out + do_reviews n\<rparr>"

text \<open>An append that tolerates the unique-key hit: the entry when it is fresh.\<close>

definition appendFresh :: "time \<Rightarrow> LedgerEntry \<Rightarrow> (store, LedgerEntry option) prog" where
  "appendFresh now e = bindE (tryE (ledgerRepo_Append now e)) (\<lambda>r. case r of
      Inr entry \<Rightarrow> ret (Some entry)
    | Inl x \<Rightarrow> if x = ErrDuplicate then ret None else throw x)"

definition recordTransfer ::
    "time \<Rightarrow> BlockParse \<Rightarrow> RecordPolicy \<Rightarrow> RecordOutcome \<Rightarrow> TransferCandidate \<Rightarrow> (store, RecordOutcome) prog" where
  "recordTransfer now bp pol out c =
     bindE (appendFresh now (TransferCandidate_LedgerEntry c (rp_Chain pol) (bp_Height bp) now)) (\<lambda>entry.
     bindE (case entry of
         None \<Rightarrow> ret out
       | Some e \<Rightarrow>
           let out1 = out\<lparr>ro_LedgerAppends := ro_LedgerAppends out + 1\<rparr> in
           if tc_Classification c = ClassUnattributedReview
           then thenE (openLedgerReview now (rp_Chain pol) (le_ID e) (tc_ReviewReason c))
                  (ret (out1\<lparr>ro_ReviewItemsOpened := ro_ReviewItemsOpened out1 + 1\<rparr>))
           else ret out1) (\<lambda>out2.
     if tc_Direction c = DirectionIn \<and> tc_Classification c = ClassExternalDeposit
     then bindE (recordDeposit now bp c pol) (\<lambda>n. ret (addDeposit out2 n))
     else ret out2))"

definition recordFee ::
    "time \<Rightarrow> BlockParse \<Rightarrow> RecordPolicy \<Rightarrow> RecordOutcome \<Rightarrow> FeeDeduction \<Rightarrow> (store, RecordOutcome) prog" where
  "recordFee now bp pol out f =
     bindE (tryE (ledgerRepo_AppendFeeOutflow now
        \<lparr>fo_ID = 0, fo_ChainID = rp_Chain pol, fo_TxHash = fd_TxHash f, fo_PayerAddress = fd_PayerAddress f,
         fo_FeeBaseUnits = fd_FeeBaseUnits f, fo_TxCode = fd_TxCode f, fo_BlockHeight = bp_Height bp,
         fo_CreatedAt = now\<rparr>)) (\<lambda>r. case r of
       Inr _ \<Rightarrow> ret (out\<lparr>ro_FeeOutflows := ro_FeeOutflows out + 1\<rparr>)
     | Inl e \<Rightarrow> if e = ErrDuplicate then ret out else throw e)"

definition recordUnattributed ::
    "time \<Rightarrow> RecordPolicy \<Rightarrow> RecordOutcome \<Rightarrow> LedgerEntry \<times> string \<Rightarrow> (store, RecordOutcome) prog" where
  "recordUnattributed now pol out p = (case p of (e, reason) \<Rightarrow>
     bindE (appendFresh now e) (\<lambda>entry. case entry of
       None \<Rightarrow> ret out
     | Some row \<Rightarrow>
         thenE (openLedgerReview now (rp_Chain pol) (le_ID row) reason)
           (ret (out\<lparr>ro_LedgerAppends := ro_LedgerAppends out + 1,
                     ro_ReviewItemsOpened := ro_ReviewItemsOpened out + 1\<rparr>))))"

definition RecordBlock :: "time \<Rightarrow> BlockParse \<Rightarrow> RecordPolicy \<Rightarrow> (store, RecordOutcome) prog" where
  "RecordBlock now bp pol =
     (if rp_Chain pol = [] then throw (ErrOther ''RecordPolicy.ChainID must be set'')
      else with_tx
        (bindE (foldE (recordTransfer now bp pol) (bp_Transfers bp) noOutcome) (\<lambda>o1.
         bindE (foldE (recordFee now bp pol) (bp_FeeDeductions bp) o1) (\<lambda>o2.
         bindE (foldE (recordUnattributed now pol)
                  (map (\<lambda>rc. (ReviewCandidate_LedgerEntry rc (rp_Chain pol) (bp_Height bp) now, rv_Reason rc))
                     (bp_ReviewCandidates bp)) o2) (\<lambda>o3.
         bindE (foldE (recordUnattributed now pol)
                  (map (\<lambda>be. (BlockEventEntry_LedgerEntry be (rp_Chain pol) (bp_Height bp) now, be_Reason be))
                     (bp_BlockEvents bp)) o3) (\<lambda>o4.
         thenE (checkpointRepo_Set now
            \<lparr>cp_ChainID = rp_Chain pol, cp_LastFullyProcessedHeight = bp_Height bp,
             cp_LastObservedBlockHash = bp_BlockHash bp, cp_UpdatedAt = now\<rparr>)
         (ret o4)))))))"

section \<open>Crediting\<close>

record CreditGate =
  cg_CreditPaused :: bool
  cg_ScanWithoutCredit :: bool
  cg_ChainReviewOpen :: bool

definition LoadCreditGate :: "string \<Rightarrow> (store, CreditGate) prog" where
  "LoadCreditGate chainID =
     bindE (controlsRepo_Get chainID) (\<lambda>controls.
     bindE (chainReviewRepo_HasOpen chainID) (\<lambda>opn.
     ret \<lparr>cg_CreditPaused = oc_CreditPaused controls,
          cg_ScanWithoutCredit = oc_ScanWithoutCredit controls, cg_ChainReviewOpen = opn\<rparr>))"

datatype CreditDecision = DecisionCredit | DecisionHold | DecisionSuspend | DecisionNever

definition ConfirmationCount :: "uint64 \<Rightarrow> uint64 \<Rightarrow> uint64" where
  "ConfirmationCount latestHeight blockHeight =
     (if latestHeight < blockHeight then 0 else latestHeight - blockHeight + 1)"

definition EvaluateCreditConditions :: "DepositRecord \<Rightarrow> uint64 \<Rightarrow> uint64 \<Rightarrow> CreditGate \<Rightarrow> CreditDecision" where
  "EvaluateCreditConditions d latestHeight confirmations gate =
     (if d_TxCode d \<noteq> 0 then DecisionNever
      else if d_Denom d \<noteq> BaseDenom then DecisionNever
      else if \<not> d_AmountBaseUnits d > 0 then DecisionNever
      else if d_Status d = DepositCredited \<or> d_Status d = DepositSweepPending \<or> d_Status d = DepositSwept
              \<or> d_CreditedAt d \<noteq> None then DecisionNever
      else if d_Status d \<noteq> DepositCreditable then DecisionHold
      else if ConfirmationCount latestHeight (d_BlockHeight d) < confirmations then DecisionHold
      else if cg_ScanWithoutCredit gate then DecisionSuspend
      else if cg_CreditPaused gate then DecisionHold
      else if cg_ChainReviewOpen gate then DecisionHold
      else DecisionCredit)"

definition DepositDedupKey :: "DepositRecord \<Rightarrow> string" where
  "DepositDedupKey d = OutboxTopicDepositCredited @ '':'' @ d_ChainID d @ '':'' @ d_TxHash d @ '':''
     @ show_nat (unat (d_MessageIndex d)) @ '':'' @ show_nat (unat (d_CoinIndex d)) @ '':'' @ d_RecipientAddress d"

record creditedEvent =
  ce_ChainID :: string
  ce_TxHash :: string
  ce_MessageIndex :: uint32
  ce_CoinIndex :: uint32
  ce_RecipientAddress :: string
  ce_SenderAddress :: string
  ce_Denom :: string
  ce_AmountBaseUnits :: string
  ce_Memo :: string
  ce_BlockHeight :: string
  ce_CreditedAt :: string

record encoder =
  MarshalJSON :: "creditedEvent \<Rightarrow> bytes option"
  FormatRFC3339 :: "time \<Rightarrow> string"

definition creditedEventOf :: "encoder \<Rightarrow> DepositRecord \<Rightarrow> time \<Rightarrow> creditedEvent" where
  "creditedEventOf E d now =
     \<lparr>ce_ChainID = d_ChainID d, ce_TxHash = d_TxHash d, ce_MessageIndex = d_MessageIndex d,
      ce_CoinIndex = d_CoinIndex d, ce_RecipientAddress = d_RecipientAddress d,
      ce_SenderAddress = (case d_SenderAddress d of None \<Rightarrow> [] | Some a \<Rightarrow> a),
      ce_Denom = d_Denom d, ce_AmountBaseUnits = show_int (d_AmountBaseUnits d), ce_Memo = d_Memo d,
      ce_BlockHeight = show_u64 (d_BlockHeight d), ce_CreditedAt = FormatRFC3339 E now\<rparr>"

definition CreditDeposit :: "encoder \<Rightarrow> time \<Rightarrow> DepositRecord \<Rightarrow> (store, unit) prog" where
  "CreditDeposit E now d = (case MarshalJSON E (creditedEventOf E d now) of
     None \<Rightarrow> throw (ErrOther ''json'')
   | Some payload \<Rightarrow>
     with_tx
       (bindE (LoadCreditGate (d_ChainID d)) (\<lambda>gate.
        if cg_CreditPaused gate \<or> cg_ScanWithoutCredit gate \<or> cg_ChainReviewOpen gate
        then throw ErrCreditGateClosed
        else thenE (depositRepo_UpdateStatus now (d_ID d) DepositCreditable DepositCredited
                      (noDepositUpdate\<lparr>du_CreditedAt := Some now\<rparr>))
             (thenE (outboxRepo_Enqueue now
                 \<lparr>ob_ID = 0, ob_ChainID = d_ChainID d, ob_Topic = OutboxTopicDepositCredited,
                  ob_DedupKey = DepositDedupKey d, ob_Payload = payload, ob_CreatedAt = now,
                  ob_DispatchedAt = None\<rparr>)
               (ret ())))))"

end
