(* ===== verification/Deposits_Scanner.thy ===== *)
theory Deposits_Scanner
  imports Deposits_State
begin

text \<open>
  \<open>go/deposits/scanner.go\<close>: the checkpointed block walker.  The node's answers
  during one cycle are the record \<open>feed\<close>; the clock, the fresh identifier of a
  chain-review condition and the codec are arguments.  \<open>forcedBase\<close>, the one
  field of the scanner that a cycle changes in memory, is an argument of \<open>Cycle\<close>
  and part of its result.  Context cancellation, log lines and metrics are not
  modelled.
\<close>

record feed =
  fe_LatestBlock :: "err + Block"
  fe_BlockByHeight :: "int64 \<Rightarrow> err + Block"
  fe_BlockResults :: "int64 \<Rightarrow> err + BlockResults"

definition DefaultConfirmations :: uint64 where "DefaultConfirmations = 2"

record ScannerConfig =
  sc_ChainID :: string
  sc_Confirmations :: uint64
  sc_PollInterval :: time
  sc_StartHeight :: uint64
  sc_MinimumDepositUsovr :: "int option"
  sc_DisableHashChainVerification :: bool
  sc_MemoRecognizer :: "(string \<Rightarrow> bool) option"
  sc_PendingBatchLimit :: int

text \<open>The configuration a new scanner runs with and its first forced base.\<close>

definition NewScanner :: "ScannerConfig \<Rightarrow> err + (ScannerConfig \<times> uint64)" where
  "NewScanner cfg0 =
     (if sc_ChainID cfg0 = [] then Inl (ErrOther ''ScannerConfig.ChainID must be set'')
      else let cfg1 = (if sc_Confirmations cfg0 = 0 then cfg0\<lparr>sc_Confirmations := DefaultConfirmations\<rparr> else cfg0)
      in if sc_Confirmations cfg1 > 12 then Inl (ErrOther ''Confirmations must be between 1 and 12'')
      else let cfg2 = (if sc_PollInterval cfg1 \<le> 0 then cfg1\<lparr>sc_PollInterval := 2 * 10 ^ 9\<rparr> else cfg1);
               cfg3 = (if sc_PendingBatchLimit cfg2 \<le> 0 then cfg2\<lparr>sc_PendingBatchLimit := 500\<rparr> else cfg2)
      in Inr (cfg3, sc_StartHeight cfg3))"

definition recordPolicy :: "ScannerConfig \<Rightarrow> RecordPolicy" where
  "recordPolicy cfg = \<lparr>rp_Chain = sc_ChainID cfg, rp_MinimumDepositUsovr = sc_MinimumDepositUsovr cfg\<rparr>"

definition loadWatch :: "ScannerConfig \<Rightarrow> (store, WatchSet) prog" where
  "loadWatch cfg = bindE (watchRepo_ListActive (sc_ChainID cfg)) (\<lambda>addrs.
     ret (WithMemoRecognizer (NewWatchSet addrs) (sc_MemoRecognizer cfg)))"

definition noControlsUpdate :: ControlsUpdate where
  "noControlsUpdate = \<lparr>cu_CreditPaused = None, cu_SigningPaused = None, cu_BroadcastPaused = None,
     cu_SweepPaused = None, cu_ScanWithoutCredit = None, cu_ResumeFromHeight = None,
     cu_ClearResumeFromHeight = False\<rparr>"

definition RescanFrom :: "time \<Rightarrow> ScannerConfig \<Rightarrow> uint64 \<Rightarrow> string \<Rightarrow> string \<Rightarrow> (store, unit) prog" where
  "RescanFrom now cfg height actor reason =
     thenE (controlsRepo_Apply now (sc_ChainID cfg) (noControlsUpdate\<lparr>cu_ResumeFromHeight := Some height\<rparr>) actor reason)
       (ret ())"

definition parentHash :: "feed \<Rightarrow> uint64 \<Rightarrow> err + string" where
  "parentHash F base = (if base \<le> 1 then Inr []
     else case fe_BlockByHeight F (base - 1) of Inl e \<Rightarrow> Inl e | Inr parent \<Rightarrow> Inr (hexUpper (bk_Hash parent)))"

text \<open>The new forced base, and the cursor or the error.\<close>

definition resolveCursor ::
    "time \<Rightarrow> ScannerConfig \<Rightarrow> feed \<Rightarrow> uint64 \<Rightarrow> uint64 \<Rightarrow> (store, uint64 \<times> (err + uint64 \<times> string)) prog" where
  "resolveCursor now cfg F forcedBase latestHeight =
     bindE (tryE (controlsRepo_Get (sc_ChainID cfg))) (\<lambda>g. case g of
       Inl e \<Rightarrow> ret (forcedBase, Inl e)
     | Inr controls \<Rightarrow>
       bindE (case oc_ResumeFromHeight controls of
           None \<Rightarrow> ret (Inr forcedBase)
         | Some h \<Rightarrow> bindE (tryE (controlsRepo_Apply now (sc_ChainID cfg)
               (noControlsUpdate\<lparr>cu_ClearResumeFromHeight := True\<rparr>) ''scanner''
               (''rescan base '' @ show_u64 h @ '' applied''))) (\<lambda>a. case a of
             Inl e \<Rightarrow> ret (Inl e)
           | Inr _ \<Rightarrow> ret (Inr h))) (\<lambda>b. case b of
         Inl e \<Rightarrow> ret (forcedBase, Inl e)
       | Inr base \<Rightarrow>
         if base > 0 then
           ret (0, case parentHash F base of Inl e \<Rightarrow> Inl e | Inr hash \<Rightarrow> Inr (base, hash))
         else bindE (tryE (checkpointRepo_Get (sc_ChainID cfg))) (\<lambda>c. case c of
             Inr cp \<Rightarrow> ret (forcedBase, Inr (cp_LastFullyProcessedHeight cp + 1, cp_LastObservedBlockHash cp))
           | Inl e \<Rightarrow> if e = ErrNotFound then ret (forcedBase, Inr (latestHeight, []))
                      else ret (forcedBase, Inl e))))"

definition openChainReviewOnce ::
    "time \<Rightarrow> ScannerConfig \<Rightarrow> string \<Rightarrow> ChainReviewTrigger \<Rightarrow> NodeObservation \<Rightarrow> NodeObservation \<Rightarrow> (store, unit) prog" where
  "openChainReviewOnce now cfg freshID trigger a b =
     bindE (chainReviewRepo_ListOpen (sc_ChainID cfg)) (\<lambda>opn.
     if list_ex (\<lambda>c. cr_Trigger c = trigger) opn then ret ()
     else thenE (chainReviewRepo_Open now
         \<lparr>cr_ConditionID = freshID, cr_ChainID = sc_ChainID cfg, cr_Trigger = trigger, cr_NodeA = a, cr_NodeB = b,
          cr_OpenedAt = now, cr_ResolvedAt = None, cr_Resolution = []\<rparr>) (ret ()))"

definition orphanedStatuses :: "DepositStatus list" where
  "orphanedStatuses = [DepositDiscovered, DepositValidated, DepositAwaitingConfirmations,
     DepositCreditable, DepositBelowMinimum]"

definition orphanFlow ::
    "time \<Rightarrow> ScannerConfig \<Rightarrow> feed \<Rightarrow> string \<Rightarrow> uint64 \<Rightarrow> string \<Rightarrow> string \<Rightarrow> (store, unit) prog" where
  "orphanFlow now cfg F freshID height expected got =
     thenE (openChainReviewOnce now cfg freshID TriggerBlockHashMismatch
        \<lparr>no_Endpoint = ''scanner-checkpoint'', no_Height = height - 1, no_Value = expected\<rparr>
        \<lparr>no_Endpoint = ''node'', no_Height = height - 1, no_Value = got\<rparr>)
     (let replacedHeight = height - 1 in
      thenE (forE orphanedStatuses (\<lambda>st.
         bindE (depositRepo_ListByStatus (sc_ChainID cfg) st 0) (\<lambda>ds.
         forE ds (\<lambda>d. if d_BlockHeight d < replacedHeight then ret ()
           else depositRepo_UpdateStatus now (d_ID d) st DepositOrphaned noDepositUpdate))))
      (bindE (if replacedHeight > 1
              then case fe_BlockByHeight F (replacedHeight - 1) of
                     Inl e \<Rightarrow> throw e
                   | Inr parent \<Rightarrow> ret (replacedHeight - 1, hexUpper (bk_Hash parent))
              else ret (0, [])) (\<lambda>(newHeight, newHash).
       checkpointRepo_Set now
         \<lparr>cp_ChainID = sc_ChainID cfg, cp_LastFullyProcessedHeight = newHeight,
          cp_LastObservedBlockHash = newHash, cp_UpdatedAt = now\<rparr>)))"

definition wrongChain :: "time \<Rightarrow> ScannerConfig \<Rightarrow> string \<Rightarrow> Block \<Rightarrow> (store, unit) prog" where
  "wrongChain now cfg freshID latest =
     thenE (openChainReviewOnce now cfg freshID TriggerWrongChainID
        \<lparr>no_Endpoint = ''config'', no_Height = 0, no_Value = sc_ChainID cfg\<rparr>
        \<lparr>no_Endpoint = ''node'', no_Height = bk_Height latest, no_Value = bk_ChainID latest\<rparr>)
     (throw (ErrOther ''node reports another chain_id''))"

section \<open>Pending deposits\<close>

definition resumeSuspended :: "time \<Rightarrow> DepositRecord \<Rightarrow> (store, unit) prog" where
  "resumeSuspended now d = (case d_PriorStatus d of
     None \<Rightarrow> ret ()
   | Some prior \<Rightarrow> depositRepo_UpdateStatus now (d_ID d) DepositSuspended prior noDepositUpdate)"

definition unpark :: "time \<Rightarrow> RecordPolicy \<Rightarrow> DepositRecord \<Rightarrow> (store, unit) prog" where
  "unpark now pol d = (if belowMinimum pol (d_AmountBaseUnits d) then ret ()
     else depositRepo_UpdateStatus now (d_ID d) DepositBelowMinimum DepositAwaitingConfirmations noDepositUpdate)"

definition confirmDeposit :: "time \<Rightarrow> ScannerConfig \<Rightarrow> uint64 \<Rightarrow> DepositRecord \<Rightarrow> (store, unit) prog" where
  "confirmDeposit now cfg latestHeight d =
     (if ConfirmationCount latestHeight (d_BlockHeight d) < sc_Confirmations cfg then ret ()
      else depositRepo_UpdateStatus now (d_ID d) DepositAwaitingConfirmations DepositCreditable noDepositUpdate)"

text \<open>The credit pass stops, without an error, when the gate closes under it.\<close>

primrec creditPass ::
    "encoder \<Rightarrow> time \<Rightarrow> ScannerConfig \<Rightarrow> uint64 \<Rightarrow> CreditGate \<Rightarrow> DepositRecord list \<Rightarrow> (store, unit) prog" where
  "creditPass E now cfg latestHeight gate [] = ret ()"
| "creditPass E now cfg latestHeight gate (d # ds) =
     (case EvaluateCreditConditions d latestHeight (sc_Confirmations cfg) gate of
        DecisionCredit \<Rightarrow> bindE (tryE (CreditDeposit E now d)) (\<lambda>r. case r of
            Inl e \<Rightarrow> if e = ErrCreditGateClosed then ret () else throw e
          | Inr _ \<Rightarrow> creditPass E now cfg latestHeight gate ds)
      | DecisionSuspend \<Rightarrow>
          thenE (depositRepo_UpdateStatus now (d_ID d) DepositCreditable DepositSuspended noDepositUpdate)
            (creditPass E now cfg latestHeight gate ds)
      | _ \<Rightarrow> creditPass E now cfg latestHeight gate ds)"

definition processPending :: "encoder \<Rightarrow> time \<Rightarrow> ScannerConfig \<Rightarrow> uint64 \<Rightarrow> (store, unit) prog" where
  "processPending E now cfg latestHeight =
     bindE (LoadCreditGate (sc_ChainID cfg)) (\<lambda>gate.
     let limit = sc_PendingBatchLimit cfg; list = (\<lambda>st. depositRepo_ListByStatus (sc_ChainID cfg) st limit) in
     thenE (if \<not> cg_ScanWithoutCredit gate \<and> \<not> cg_CreditPaused gate
            then bindE (list DepositSuspended) (\<lambda>suspended. forE suspended (resumeSuspended now))
            else ret ())
     (thenE (bindE (list DepositBelowMinimum) (\<lambda>parked. forE parked (unpark now (recordPolicy cfg))))
     (thenE (bindE (list DepositAwaitingConfirmations) (\<lambda>awaiting. forE awaiting (confirmDeposit now cfg latestHeight)))
     (bindE (list DepositCreditable) (\<lambda>creditable. creditPass E now cfg latestHeight gate creditable)))))"

section \<open>The cycle\<close>

text \<open>One block of the walk: its parse, or the early return through the orphan flow.\<close>

definition fetchParse :: "codec \<Rightarrow> ScannerConfig \<Rightarrow> feed \<Rightarrow> uint64 \<Rightarrow> (store, BlockParse) prog" where
  "fetchParse K cfg F h =
     bindE (liftR (fe_BlockByHeight F h)) (\<lambda>block.
     bindE (liftR (fe_BlockResults F h)) (\<lambda>results.
     bindE (loadWatch cfg) (\<lambda>watch.
     liftR (ParseBlockTransfers K block results watch))))"

definition chainBroken :: "ScannerConfig \<Rightarrow> string \<Rightarrow> BlockParse \<Rightarrow> bool" where
  "chainBroken cfg expectedHash bp \<longleftrightarrow> \<not> sc_DisableHashChainVerification cfg \<and> expectedHash \<noteq> []
     \<and> bp_LastBlockHash bp \<noteq> expectedHash"

text \<open>
  \<open>for h := next; h <= latestHeight; h++\<close>.  The result tells whether the walk
  reached the tip (\<open>True\<close>) or returned through the orphan flow.  \<open>scanRounds n\<close> is
  the loop observed for \<open>n\<close> tests of its condition: \<open>None\<close> while it has not
  returned.  \<open>scanLoop\<close> is the same walk as a program with fuel; that the fuel
  \<open>Cycle\<close> gives it never runs out, unless \<open>latestHeight\<close> is the greatest \<open>uint64\<close>
  where \<open>h++\<close> wraps and the condition never fails, is \<open>scan_terminates\<close>.
\<close>

primrec scanRounds ::
    "nat \<Rightarrow> codec \<Rightarrow> time \<Rightarrow> ScannerConfig \<Rightarrow> feed \<Rightarrow> string \<Rightarrow> uint64 \<Rightarrow> uint64 \<Rightarrow> string \<Rightarrow> store
       \<Rightarrow> ((err + bool) \<times> store) option" where
  "scanRounds 0 K now cfg F freshID latestHeight h expectedHash s = None"
| "scanRounds (Suc n) K now cfg F freshID latestHeight h expectedHash s =
     (if h \<le> latestHeight then
        case fetchParse K cfg F h s of
          (Inl e, s1) \<Rightarrow> Some (Inl e, s1)
        | (Inr bp, s1) \<Rightarrow>
          if chainBroken cfg expectedHash bp
          then Some (thenE (orphanFlow now cfg F freshID h expectedHash (bp_LastBlockHash bp)) (ret False) s1)
          else case RecordBlock now bp (recordPolicy cfg) s1 of
            (Inl e, s2) \<Rightarrow> Some (Inl e, s2)
          | (Inr _, s2) \<Rightarrow> scanRounds n K now cfg F freshID latestHeight (h + 1) (bp_BlockHash bp) s2
      else Some (Inr True, s))"

primrec scanLoop ::
    "nat \<Rightarrow> codec \<Rightarrow> time \<Rightarrow> ScannerConfig \<Rightarrow> feed \<Rightarrow> string \<Rightarrow> uint64 \<Rightarrow> uint64 \<Rightarrow> string \<Rightarrow> (store, bool) prog" where
  "scanLoop 0 K now cfg F freshID latestHeight h expectedHash = throw (ErrOther ''the loop does not end'')"
| "scanLoop (Suc n) K now cfg F freshID latestHeight h expectedHash =
     (if h \<le> latestHeight then
        bindE (fetchParse K cfg F h) (\<lambda>bp.
        if chainBroken cfg expectedHash bp
        then thenE (orphanFlow now cfg F freshID h expectedHash (bp_LastBlockHash bp)) (ret False)
        else bindE (RecordBlock now bp (recordPolicy cfg)) (\<lambda>_.
             scanLoop n K now cfg F freshID latestHeight (h + 1) (bp_BlockHash bp)))
      else ret True)"

definition scanFuel :: "uint64 \<Rightarrow> nat" where
  "scanFuel latestHeight = unat latestHeight + 2"

definition Cycle ::
    "codec \<Rightarrow> encoder \<Rightarrow> time \<Rightarrow> ScannerConfig \<Rightarrow> feed \<Rightarrow> string \<Rightarrow> uint64 \<Rightarrow> (store, uint64 \<times> (err + unit)) prog" where
  "Cycle K E now cfg F freshID forcedBase = (case fe_LatestBlock F of
     Inl e \<Rightarrow> ret (forcedBase, Inl e)
   | Inr latest \<Rightarrow>
     if bk_ChainID latest \<noteq> [] \<and> bk_ChainID latest \<noteq> sc_ChainID cfg
     then bindE (tryE (wrongChain now cfg freshID latest)) (\<lambda>r. ret (forcedBase, r))
     else bindE (resolveCursor now cfg F forcedBase (bk_Height latest)) (\<lambda>(fb, cur). case cur of
       Inl e \<Rightarrow> ret (fb, Inl e)
     | Inr (nxt, expectedHash) \<Rightarrow>
         bindE (tryE (bindE (scanLoop (scanFuel (bk_Height latest)) K now cfg F freshID (bk_Height latest) nxt expectedHash)
           (\<lambda>tip. if tip then processPending E now cfg (bk_Height latest) else ret ())))
         (\<lambda>r. ret (fb, r))))"

end
