(* ===== verification/Deposit_Rows.thy ===== *)
theory Deposit_Rows
  imports Deposits_Parse
begin

text \<open>
  What the block parser guarantees: its rows carry exactly the base-unit
  amounts the decoded messages move, an inflow is an external deposit exactly
  when no sender is watched, and no two rows of a block share the key under
  which the ledger stores them.
\<close>

section \<open>The watch set\<close>

lemma watchStats_fold:
  "foldl (\<lambda>(anyW, allW) a. if Contains w a then (True, allW) else (anyW, False)) (b, c) addrs =
     (b \<or> (\<exists>a \<in> set addrs. Contains w a), c \<and> (\<forall>a \<in> set addrs. Contains w a))"
  by (induction addrs arbitrary: b c) auto

lemma watchStats_iff:
  "watchStats w addrs = ((\<exists>a \<in> set addrs. Contains w a), addrs \<noteq> [] \<and> (\<forall>a \<in> set addrs. Contains w a))"
  by (simp add: watchStats_def watchStats_fold)

lemma classifyIn_external:
  "fst (classifyIn w entry inputs) = ClassExternalDeposit \<longleftrightarrow> (\<forall>a \<in> set inputs. \<not> Contains w a)"
  by (auto simp: classifyIn_def watchStats_iff internalInSubtype_def)

lemma inflowClass_external:
  "fst (inflowClass w entry inputs memo) = ClassExternalDeposit \<longleftrightarrow> (\<forall>a \<in> set inputs. \<not> Contains w a)"
  using classifyIn_external [of w entry inputs]
  by (auto simp: inflowClass_def split: prod.splits)

lemma classifyOut_internal: "classifyOut w entry outputs \<noteq> ClassExternalDeposit"
  by (auto simp: classifyOut_def watchStats_iff)

section \<open>Rows of one message\<close>

definition row_ok :: "WatchSet \<Rightarrow> TransferCandidate \<Rightarrow> bool" where
  "row_ok w r \<longleftrightarrow> tc_Denom r = BaseDenom \<and> tc_AmountBaseUnits r > 0 \<and> Contains w (tc_Address r) \<and>
     (tc_Direction r = DirectionIn \<and>
        (tc_Classification r = ClassExternalDeposit \<longleftrightarrow> (\<forall>a \<in> set (tc_CounterpartySet r). \<not> Contains w a))
      \<or> tc_Direction r = DirectionOut \<and> tc_Classification r \<noteq> ClassExternalDeposit)"

lemma inRow_ok: "r \<in> set (inRow w h mi memo res ins sender ci a coin) \<Longrightarrow> movesBase coin \<Longrightarrow> row_ok w r"
  using inflowClass_external [of w _ ins memo]
  by (auto simp: inRow_def row_ok_def movesBase_def Contains_def split: option.splits prod.splits) (metis fst_conv)+

lemma outRow_ok: "r \<in> set (outRow w h mi memo res outs ci op a coin) \<Longrightarrow> movesBase coin \<Longrightarrow> row_ok w r"
  by (cases "ws_entries w a") (auto simp: outRow_def row_ok_def movesBase_def Contains_def classifyOut_internal)

lemma send_ok: "r \<in> set (send w h mi m memo res) \<Longrightarrow> row_ok w r"
  by (auto simp: send_def Let_def split: if_splits dest: inRow_ok outRow_ok)

lemma multiSend_ok: "r \<in> set (multiSend w h mi m memo res) \<Longrightarrow> row_ok w r"
  by (auto simp: multiSend_def Let_def split: if_splits dest: inRow_ok outRow_ok)

lemma messageRows_ok: "messageRows K w h memo res mi m = Some rows \<Longrightarrow> r \<in> set rows \<Longrightarrow> row_ok w r"
  by (auto simp: messageRows_def dest: send_ok multiSend_ok split: option.splits if_splits)

subsection \<open>Amounts\<close>

definition flow :: "LedgerDirection \<Rightarrow> string \<Rightarrow> TransferCandidate list \<Rightarrow> int" where
  "flow dir a rows = sum_list (map tc_AmountBaseUnits (filter (\<lambda>r. tc_Direction r = dir \<and> tc_Address r = a) rows))"

text \<open>The base units a list of parties pays out of, or into, an address.\<close>

definition baseUnits :: "RawCoin list \<Rightarrow> int" where
  "baseUnits coins = sum_list (map rc_Amount (filter movesBase coins))"

definition partyUnits :: "string \<Rightarrow> RawParty list \<Rightarrow> int" where
  "partyUnits a ps = sum_list (map (\<lambda>p. baseUnits (io_Coins p)) (filter (\<lambda>p. io_Address p = a) ps))"

definition messageMoves :: "codec \<Rightarrow> LedgerDirection \<Rightarrow> string \<Rightarrow> (string \<times> bytes) option \<Rightarrow> int" where
  "messageMoves K dir a m = (case m of None \<Rightarrow> 0 | Some (typeUrl, value) \<Rightarrow>
     if typeUrl = TypeURLMsgSend then (case UnmarshalSend K value of None \<Rightarrow> 0
       | Some x \<Rightarrow> if a = (if dir = DirectionIn then sn_ToAddress x else sn_FromAddress x)
                   then baseUnits (sn_Amount x) else 0)
     else if typeUrl = TypeURLMsgMultiSend then (case UnmarshalMultiSend K value of None \<Rightarrow> 0
       | Some x \<Rightarrow> partyUnits a (if dir = DirectionIn then mu_Outputs x else mu_Inputs x))
     else 0)"

lemma flow_append [simp]: "flow dir a (xs @ ys) = flow dir a xs + flow dir a ys"
  by (simp add: flow_def)

lemma flow_Nil [simp]: "flow dir a [] = 0"
  by (simp add: flow_def)

lemma flow_inRow:
  "flow dir a (inRow w h mi memo res ins sender ci b coin) =
     (if dir = DirectionIn \<and> a = b \<and> Contains w a then rc_Amount coin else 0)"
  by (auto simp: inRow_def flow_def Contains_def split: option.splits prod.splits)

lemma flow_outRow:
  "flow dir a (outRow w h mi memo res outs ci op b coin) =
     (if dir = DirectionOut \<and> a = b \<and> Contains w a then rc_Amount coin else 0)"
  by (auto simp: outRow_def flow_def Contains_def split: option.splits)

lemma flow_concat: "flow dir a (concat (map f xs)) = sum_list (map (\<lambda>x. flow dir a (f x)) xs)"
  by (induction xs) auto

lemma sum_enumerate: "sum_list (map (\<lambda>p. g (snd p)) (List.enumerate n xs)) = sum_list (map g xs)"
  by (induction xs arbitrary: n) auto

lemma partyUnits_flat:
  "sum_list (map (\<lambda>p. if fst p = a \<and> movesBase (snd p) then rc_Amount (snd p) else 0)
     (concat (map (\<lambda>p. map (Pair (io_Address p)) (io_Coins p)) ps))) = partyUnits a ps"
proof (induction ps)
  case (Cons p ps)
  have "sum_list (map (\<lambda>q. if fst q = a \<and> movesBase (snd q) then rc_Amount (snd q) else 0)
      (map (Pair (io_Address p)) cs)) = (if io_Address p = a then baseUnits cs else 0)" for cs
    by (induction cs) (auto simp: baseUnits_def)
  then show ?case using Cons by (simp add: partyUnits_def)
qed (simp add: partyUnits_def)

lemma flow_flatCoins:
  assumes "\<And>p. flow dir a (f p) =
      (if b \<and> fst (snd p) = a \<and> movesBase (snd (snd p)) then rc_Amount (snd (snd p)) else 0)"
  shows "flow dir a (concat (map f (flatCoins ps))) = (if b then partyUnits a ps else 0)"
proof -
  let ?g = "\<lambda>q. if b \<and> fst q = a \<and> movesBase (snd q) then rc_Amount (snd q) else 0"
  have "flow dir a (concat (map f (flatCoins ps))) = sum_list (map (\<lambda>p. ?g (snd p)) (flatCoins ps))"
    by (simp add: flow_concat assms)
  also have "\<dots> = sum_list (map ?g (concat (map (\<lambda>p. map (Pair (io_Address p)) (io_Coins p)) ps)))"
    unfolding flatCoins_def by (rule sum_enumerate)
  also have "\<dots> = (if b then partyUnits a ps else 0)"
    by (cases b) (simp_all add: partyUnits_flat)
  finally show ?thesis .
qed

lemma multiSend_flow:
  "flow DirectionIn a (multiSend w h mi m memo res) = (if Contains w a then partyUnits a (mu_Outputs m) else 0)"
  "flow DirectionOut a (multiSend w h mi m memo res) = (if Contains w a then partyUnits a (mu_Inputs m) else 0)"
  unfolding multiSend_def Let_def flow_append
  by (subst flow_flatCoins [where b = "Contains w a"], force simp: flow_inRow,
      subst flow_flatCoins [where b = False], force simp: flow_outRow, simp)
     (subst flow_flatCoins [where b = False], force simp: flow_inRow,
      subst flow_flatCoins [where b = "Contains w a"], force simp: flow_outRow, simp)

lemma send_flow:
  "flow dir a (send w h mi m memo res) =
     (if Contains w a \<and> (dir = DirectionIn \<and> a = sn_ToAddress m \<or> dir = DirectionOut \<and> a = sn_FromAddress m)
      then baseUnits (sn_Amount m) else 0)"
proof -
  have base: "sum_list (map (\<lambda>c. if movesBase c then rc_Amount c else 0) cs) = baseUnits cs" for cs
    by (induction cs) (auto simp: baseUnits_def)
  let ?b = "Contains w a \<and> (dir = DirectionIn \<and> a = sn_ToAddress m \<or> dir = DirectionOut \<and> a = sn_FromAddress m)"
  let ?g = "\<lambda>c. if ?b then if movesBase c then rc_Amount c else 0 else 0"
  have "flow dir a (send w h mi m memo res) = sum_list (map (\<lambda>p. ?g (snd p)) (List.enumerate 0 (sn_Amount m)))"
    unfolding send_def Let_def flow_concat
    by (intro arg_cong [where f = sum_list] map_cong) (auto simp: flow_inRow flow_outRow)
  also have "\<dots> = sum_list (map ?g (sn_Amount m))" by (rule sum_enumerate)
  also have "\<dots> = (if ?b then baseUnits (sn_Amount m) else 0)" by (cases ?b) (simp add: base, simp only: if_False, simp)
  finally show ?thesis .
qed

section \<open>Keys\<close>

lemma u32_inj: "a < 2 ^ 32 \<Longrightarrow> b < 2 ^ 32 \<Longrightarrow> (of_nat a :: uint32) = of_nat b \<Longrightarrow> a = b"
  by (simp add: word_of_nat_eq_iff take_bit_nat_eq_self)

lemma distinct_concat_keys:
  assumes "distinct xs" and "\<And>x. x \<in> set xs \<Longrightarrow> distinct (map k (f x))"
    and "\<And>x y r q. x \<in> set xs \<Longrightarrow> y \<in> set xs \<Longrightarrow> r \<in> set (f x) \<Longrightarrow> q \<in> set (f y) \<Longrightarrow> k r = k q \<Longrightarrow> x = y"
  shows "distinct (map k (concat (map f xs)))"
  using assms
proof (induction xs)
  case (Cons x xs)
  have "distinct (map k (concat (map f xs)))"
    using Cons.prems by (intro Cons.IH) auto
  moreover have "k r \<noteq> k q" if "r \<in> set (f x)" "y \<in> set xs" "q \<in> set (f y)" for r y q
    using Cons.prems(1) Cons.prems(3) [of x y r q] that by auto
  ultimately show ?case using Cons.prems(2) [of x] by auto
qed simp

lemma in_concatE:
  assumes "r \<in> set (concat (map f xs))"
  obtains x where "x \<in> set xs" "r \<in> set (f x)"
  using assms by auto

lemma disjoint_keys: "(\<And>r q. r \<in> set A \<Longrightarrow> q \<in> set B \<Longrightarrow> k r \<noteq> k' q) \<Longrightarrow> set (map k A) \<inter> set (map k' B) = {}"
  by fastforce

lemma enumerate_inj: "p \<in> set (List.enumerate n xs) \<Longrightarrow> q \<in> set (List.enumerate n xs) \<Longrightarrow> fst p = fst q \<Longrightarrow> p = q"
  by (simp add: in_set_enumerate_eq prod_eq_iff)

definition opKey :: "TransferCandidate \<Rightarrow> string \<times> uint32 \<times> uint32" where
  "opKey c = (tc_TxHash c, tc_MessageIndex c, tc_OpIndex c)"

definition rvKey :: "ReviewCandidate \<Rightarrow> string \<times> uint32 \<times> uint32" where
  "rvKey c = (rv_TxHash c, rv_MessageIndex c, rv_OpIndex c)"

lemma inRow_key: "r \<in> set (inRow w h mi memo res ins sender ci a coin) \<Longrightarrow> opKey r = (h, mi, ci)"
  by (auto simp: inRow_def opKey_def split: option.splits prod.splits)

lemma outRow_key: "r \<in> set (outRow w h mi memo res outs ci op a coin) \<Longrightarrow> opKey r = (h, mi, op)"
  by (auto simp: outRow_def opKey_def split: option.splits)

lemma inRow_distinct: "distinct (map k (inRow w h mi memo res ins sender ci a coin))"
  by (auto simp: inRow_def split: option.splits prod.splits)

lemma outRow_distinct: "distinct (map k (outRow w h mi memo res outs ci op a coin))"
  by (auto simp: outRow_def split: option.splits)

lemma send_keys:
  assumes "2 * length (sn_Amount m) \<le> 2 ^ 32"
  shows "distinct (map opKey (send w h mi m memo res))"
  unfolding send_def Let_def
proof (rule distinct_concat_keys)
  let ?n = "length (sn_Amount m)"
  fix x assume x: "x \<in> set (List.enumerate 0 (sn_Amount m))"
  have "fst x < ?n" using x by (simp add: in_set_enumerate_eq)
  then obtain k coin where k: "x = (k, coin)" "k < ?n" by (cases x) simp
  have "(of_nat k :: uint32) \<noteq> of_nat (?n + k)" using u32_inj [of k "?n + k"] k assms by auto
  then show "distinct (map opKey (case x of (k, coin) \<Rightarrow>
      if \<not> movesBase coin then []
      else inRow w h mi memo res [sn_FromAddress m] (Some (sn_FromAddress m)) (of_nat k) (sn_ToAddress m) coin @
           outRow w h mi memo res [sn_ToAddress m] (of_nat k) (of_nat ?n + of_nat k) (sn_FromAddress m) coin))"
    using k by (auto simp: inRow_distinct outRow_distinct dest!: inRow_key outRow_key)
next
  let ?n = "length (sn_Amount m)"
  let ?f = "\<lambda>(k, coin). if \<not> movesBase coin then []
      else inRow w h mi memo res [sn_FromAddress m] (Some (sn_FromAddress m)) (of_nat k) (sn_ToAddress m) coin @
           outRow w h mi memo res [sn_ToAddress m] (of_nat k) (of_nat ?n + of_nat k) (sn_FromAddress m) coin"
  have key: "\<exists>j. opKey r = (h, mi, of_nat j) \<and> j < 2 ^ 32 \<and> (j = fst p \<or> j = ?n + fst p) \<and> fst p < ?n"
    if "p \<in> set (List.enumerate 0 (sn_Amount m))" "r \<in> set (?f p)" for p r
  proof -
    have p: "fst p < ?n" using that(1) by (auto simp: in_set_enumerate_eq)
    have "opKey r = (h, mi, of_nat (fst p)) \<or> opKey r = (h, mi, of_nat (?n + fst p))"
      using that(2) by (auto split: prod.splits if_splits dest!: inRow_key outRow_key)
    then show ?thesis
    proof
      assume "opKey r = (h, mi, of_nat (fst p))"
      then show ?thesis using p assms by (intro exI [of _ "fst p"]) simp
    next
      assume "opKey r = (h, mi, of_nat (?n + fst p))"
      then show ?thesis using p assms by (intro exI [of _ "?n + fst p"]) simp
    qed
  qed
  fix x y r q
  assume x: "x \<in> set (List.enumerate 0 (sn_Amount m))" and y: "y \<in> set (List.enumerate 0 (sn_Amount m))"
    and r: "r \<in> set (?f x)" and q: "q \<in> set (?f y)" and eq: "opKey r = opKey q"
  obtain i where i: "opKey r = (h, mi, of_nat i)" "i < 2 ^ 32" "i = fst x \<or> i = ?n + fst x" "fst x < ?n"
    using key [OF x r] by blast
  obtain j where j: "opKey q = (h, mi, of_nat j)" "j < 2 ^ 32" "j = fst y \<or> j = ?n + fst y" "fst y < ?n"
    using key [OF y q] by blast
  have "i = j" using u32_inj [OF i(2) j(2)] i(1) j(1) eq by simp
  then have "fst x = fst y" using i(3,4) j(3,4) by auto
  then show "x = y" using enumerate_inj [OF x y] by simp
qed simp

text \<open>Rows numbered in consecutive blocks of \<open>c\<close> from \<open>off\<close> on.\<close>

lemma numbered_distinct:
  assumes bound: "off + c * length xs \<le> 2 ^ 32"
    and dist: "\<And>p. p \<in> set (List.enumerate 0 xs) \<Longrightarrow> distinct (map k (f p))"
    and num: "\<And>p r. p \<in> set (List.enumerate 0 xs) \<Longrightarrow> r \<in> set (f p) \<Longrightarrow>
      \<exists>b < c. num (k r) = (of_nat (off + c * fst p + b) :: uint32)"
  shows "distinct (map k (concat (map f (List.enumerate 0 xs))))"
proof (rule distinct_concat_keys [OF _ dist])
  fix x y r q
  assume x: "x \<in> set (List.enumerate 0 xs)" and y: "y \<in> set (List.enumerate 0 xs)"
    and r: "r \<in> set (f x)" and q: "q \<in> set (f y)" and eq: "k r = k q"
  obtain b where b: "b < c" "num (k r) = (of_nat (off + c * fst x + b) :: uint32)" using num [OF x r] by blast
  obtain d where d: "d < c" "num (k q) = (of_nat (off + c * fst y + d) :: uint32)" using num [OF y q] by blast
  have small: "off + c * fst z + e < 2 ^ 32" if "z \<in> set (List.enumerate 0 xs)" "e < c" for z e
  proof -
    have "Suc (fst z) \<le> length xs" using that(1) by (simp add: in_set_enumerate_eq)
    then have "c * Suc (fst z) \<le> c * length xs" by (rule mult_le_mono2)
    then show ?thesis using that(2) bound by simp
  qed
  have "off + c * fst x + b = off + c * fst y + d"
    using u32_inj [OF small [OF x b(1)] small [OF y d(1)]] b(2) d(2) eq by simp
  then have "(c * fst x + b) div c = (c * fst y + d) div c" by simp
  then have "fst x = fst y" using b(1) d(1) by simp
  then show "x = y" using enumerate_inj [OF x y] by simp
qed simp

lemma nOut_flat:
  "foldl (\<lambda>n p. n + of_nat (length (io_Coins p))) (of_nat a :: uint32) ps =
     of_nat (a + length (concat (map (\<lambda>p. map (Pair (io_Address p)) (io_Coins p)) ps)))"
proof (induction ps arbitrary: a)
  case (Cons p ps)
  show ?case using Cons [of "a + length (io_Coins p)"] by (simp add: add.assoc)
qed simp

definition coinCount :: "RawParty list \<Rightarrow> nat" where
  "coinCount ps = length (concat (map (\<lambda>p. map (Pair (io_Address p)) (io_Coins p)) ps))"

lemma flat_index: "p \<in> set (flatCoins ps) \<Longrightarrow> fst p < coinCount ps"
  by (simp add: flatCoins_def coinCount_def in_set_enumerate_eq)

lemma multiSend_keys:
  assumes "coinCount (mu_Outputs m) + coinCount (mu_Inputs m) \<le> 2 ^ 32"
  shows "distinct (map opKey (multiSend w h mi m memo res))"
proof -
  let ?n = "coinCount (mu_Outputs m)"
  let ?ins = "map io_Address (mu_Inputs m)" and ?outs = "map io_Address (mu_Outputs m)"
  let ?ss = "case ?ins of [a] \<Rightarrow> Some a | _ \<Rightarrow> None"
  let ?f = "\<lambda>(k, addr, coin). if \<not> movesBase coin then []
      else inRow w h mi memo res ?ins ?ss (of_nat k) addr coin"
  let ?g = "\<lambda>(j, addr, coin). if \<not> movesBase coin then []
      else outRow w h mi memo res ?outs (of_nat ?n + of_nat j - of_nat ?n) (of_nat ?n + of_nat j) addr coin"
  have nOut: "foldl (\<lambda>n p. n + of_nat (length (io_Coins p))) (0 :: uint32) (mu_Outputs m) = of_nat ?n"
    using nOut_flat [of 0 "mu_Outputs m"] by (simp add: coinCount_def)
  have keyF: "opKey r = (h, mi, of_nat (fst p))" if "r \<in> set (?f p)" for p r
    using that by (auto split: prod.splits if_splits dest!: inRow_key)
  have keyG: "opKey r = (h, mi, of_nat (?n + fst p))" if "r \<in> set (?g p)" for p r
    using that by (auto split: prod.splits if_splits dest!: outRow_key)
  have F: "distinct (map opKey (concat (map ?f (flatCoins (mu_Outputs m)))))"
    unfolding flatCoins_def
  proof (rule numbered_distinct [where off = 0 and c = 1 and num = "\<lambda>k. snd (snd k)"])
    show "\<exists>b<1. snd (snd (opKey r)) = of_nat (0 + 1 * fst p + b)" if "r \<in> set (?f p)" for p r
      using keyF [OF that] by simp
  qed (use assms in \<open>auto simp: coinCount_def inRow_distinct split: prod.splits\<close>)
  have G: "distinct (map opKey (concat (map ?g (flatCoins (mu_Inputs m)))))"
    unfolding flatCoins_def
  proof (rule numbered_distinct [where off = "?n" and c = 1 and num = "\<lambda>k. snd (snd k)"])
    show "\<exists>b<1. snd (snd (opKey r)) = of_nat (?n + 1 * fst p + b)" if "r \<in> set (?g p)" for p r
      using keyG [OF that] by simp
  qed (use assms in \<open>auto simp: coinCount_def outRow_distinct split: prod.splits\<close>)
  have apart: "opKey r \<noteq> opKey q" if p: "p \<in> set (flatCoins (mu_Outputs m))" "r \<in> set (?f p)"
    and p': "p' \<in> set (flatCoins (mu_Inputs m))" "q \<in> set (?g p')" for p r p' q
  proof -
    have "fst p \<noteq> ?n + fst p'" "fst p < 2 ^ 32" "?n + fst p' < 2 ^ 32"
      using flat_index [OF p(1)] flat_index [OF p'(1)] assms by auto
    then show ?thesis using keyF [OF p(2)] keyG [OF p'(2)] u32_inj [of "fst p" "?n + fst p'"] by auto
  qed
  have "set (map opKey (concat (map ?f (flatCoins (mu_Outputs m))))) \<inter>
    set (map opKey (concat (map ?g (flatCoins (mu_Inputs m))))) = {}"
  proof (rule disjoint_keys)
    fix r q
    assume "r \<in> set (concat (map ?f (flatCoins (mu_Outputs m))))" "q \<in> set (concat (map ?g (flatCoins (mu_Inputs m))))"
    then obtain p p' where "p \<in> set (flatCoins (mu_Outputs m))" "r \<in> set (?f p)"
      "p' \<in> set (flatCoins (mu_Inputs m))" "q \<in> set (?g p')"
      by (elim in_concatE)
    then show "opKey r \<noteq> opKey q" by (rule apart)
  qed
  with F G show ?thesis unfolding multiSend_def Let_def nOut map_append distinct_append by blast
qed

subsection \<open>Keys across a transaction and a block\<close>

text \<open>The number of op indexes a decoded message numbers.\<close>

definition messageOps :: "codec \<Rightarrow> (string \<times> bytes) option \<Rightarrow> nat" where
  "messageOps K m = (case m of None \<Rightarrow> 0 | Some (typeUrl, value) \<Rightarrow>
     if typeUrl = TypeURLMsgSend then (case UnmarshalSend K value of None \<Rightarrow> 0 | Some x \<Rightarrow> 2 * length (sn_Amount x))
     else if typeUrl = TypeURLMsgMultiSend then (case UnmarshalMultiSend K value of None \<Rightarrow> 0
       | Some x \<Rightarrow> coinCount (mu_Outputs x) + coinCount (mu_Inputs x))
     else 0)"

text \<open>The transaction stays within the 32-bit numbering of messages, coins and events.\<close>

definition fits32 :: "codec \<Rightarrow> bytes \<times> TxExecResult \<Rightarrow> bool" where
  "fits32 K p = (case p of (txBytes, res) \<Rightarrow>
     2 ^ 16 + 2 * length (te_Events res) \<le> 2 ^ 32 \<and>
     (case txBody K txBytes of None \<Rightarrow> True | Some body \<Rightarrow>
        length (rb_Messages body) \<le> 2 ^ 32 \<and> list_all (\<lambda>m. messageOps K m \<le> 2 ^ 32) (rb_Messages body)))"

lemma send_tags: "r \<in> set (send w h mi m memo res) \<Longrightarrow> tc_TxHash r = h \<and> tc_MessageIndex r = mi"
  by (auto simp: send_def Let_def opKey_def split: if_splits dest!: inRow_key outRow_key)

lemma multiSend_tags: "r \<in> set (multiSend w h mi m memo res) \<Longrightarrow> tc_TxHash r = h \<and> tc_MessageIndex r = mi"
  by (auto simp: multiSend_def Let_def opKey_def split: if_splits dest!: inRow_key outRow_key)

lemma messageRows_tags:
  "messageRows K w h memo res mi m = Some rows \<Longrightarrow> r \<in> set rows \<Longrightarrow> tc_TxHash r = h \<and> tc_MessageIndex r = mi"
  by (auto simp: messageRows_def dest: send_tags multiSend_tags split: option.splits if_splits)

lemma messageRows_keys:
  "messageRows K w h memo res mi m = Some rows \<Longrightarrow> messageOps K m \<le> 2 ^ 32 \<Longrightarrow> distinct (map opKey rows)"
  by (auto simp: messageRows_def messageOps_def simp del: power_numeral split: option.splits if_splits
      intro!: send_keys multiSend_keys)

lemma txMessages_entry:
  assumes "x \<in> set (txMessages K w txBytes res)" "fits32 K (txBytes, res)"
  shows "\<exists>body i. txBody K txBytes = Some body \<and> i < length (rb_Messages body) \<and> i < 2 ^ 32 \<and> fst x = of_nat i \<and>
     snd x = messageRows K w (TxHashHex txBytes) (rb_Memo body) res (of_nat i) (rb_Messages body ! i) \<and>
     messageOps K (rb_Messages body ! i) \<le> 2 ^ 32"
proof -
  obtain body where body: "txBody K txBytes = Some body"
    using assms(1) by (cases "txBody K txBytes") (auto simp: txMessages_def)
  then obtain i where "i < length (rb_Messages body)" "x = (of_nat i,
      messageRows K w (TxHashHex txBytes) (rb_Memo body) res (of_nat i) (rb_Messages body ! i))"
    using assms(1) by (auto simp: txMessages_def in_set_enumerate_eq)
  then show ?thesis using assms(2) body
    by (intro exI [of _ body] exI [of _ i]) (auto simp: fits32_def list_all_length simp del: power_numeral)
qed

lemma txMessages_distinct:
  assumes "fits32 K (txBytes, res)"
  shows "distinct (map fst (txMessages K w txBytes res))"
proof (cases "txBody K txBytes")
  case (Some body)
  then have "map fst (txMessages K w txBytes res) = map of_nat (map fst (List.enumerate 0 (rb_Messages body)))"
    by (simp only: txMessages_def option.case map_map case_prod_unfold o_def fst_conv)
  then have "map fst (txMessages K w txBytes res) = map of_nat [0..<length (rb_Messages body)]"
    by (simp add: map_fst_enumerate del: map_map)
  moreover have "inj_on (of_nat :: nat \<Rightarrow> uint32) {0..<length (rb_Messages body)}"
    using assms Some by (auto simp: fits32_def simp del: power_numeral intro!: inj_onI dest!: u32_inj [rotated 2])
  ultimately show ?thesis by (simp add: distinct_map)
qed (simp add: txMessages_def)

lemma txMessages_inj:
  "fits32 K (txBytes, res) \<Longrightarrow> x \<in> set (txMessages K w txBytes res) \<Longrightarrow> y \<in> set (txMessages K w txBytes res) \<Longrightarrow>
   fst x = fst y \<Longrightarrow> x = y"
  by (rule distinct_map_inj [OF txMessages_distinct])

lemma tx_transfer_tags:
  assumes "r \<in> set (tr_Transfers (parser_tx K w (txBytes, res)))"
  shows "tc_TxHash r = TxHashHex txBytes \<and> row_ok w r \<and>
    (\<exists>rows. (tc_MessageIndex r, Some rows) \<in> set (txMessages K w txBytes res) \<and> r \<in> set rows)"
proof -
  obtain mi rows where x: "(mi, Some rows) \<in> set (txMessages K w txBytes res)" and r: "r \<in> set rows"
    using assms by (auto simp: parser_tx_def Let_def split: option.splits)
  then obtain body where body: "txBody K txBytes = Some body"
    by (cases "txBody K txBytes") (simp_all add: txMessages_def)
  with x have "\<exists>m. messageRows K w (TxHashHex txBytes) (rb_Memo body) res mi m = Some rows"
    by (auto simp: txMessages_def eq_commute [of "Some rows"])
  then obtain m where m: "messageRows K w (TxHashHex txBytes) (rb_Memo body) res mi m = Some rows" ..
  then show ?thesis using messageRows_tags [OF m r] messageRows_ok [OF m r] x r by auto
qed

lemma tx_transfer_keys:
  assumes fits: "fits32 K (txBytes, res)"
  shows "distinct (map opKey (tr_Transfers (parser_tx K w (txBytes, res))))"
proof -
  let ?f = "\<lambda>(mi :: uint32, rows). case rows of None \<Rightarrow> [] | Some r \<Rightarrow> (r :: TransferCandidate list)"
  have tag: "snd (opKey r) = (fst x, tc_OpIndex r)" if "x \<in> set (txMessages K w txBytes res)" "r \<in> set (?f x)" for x r
    using txMessages_entry [OF that(1) fits] that(2) messageRows_tags
    by (auto simp: opKey_def split: prod.splits option.splits) metis
  have "distinct (map opKey (concat (map ?f (txMessages K w txBytes res))))"
  proof (rule distinct_concat_keys)
    show "distinct (txMessages K w txBytes res)" using txMessages_distinct [OF fits] by (simp add: distinct_map)
    fix x assume x: "x \<in> set (txMessages K w txBytes res)"
    show "distinct (map opKey (?f x))"
      using txMessages_entry [OF x fits] messageRows_keys
      by (cases x) (auto simp del: power_numeral split: option.splits)
  next
    fix x y r q
    assume "x \<in> set (txMessages K w txBytes res)" "y \<in> set (txMessages K w txBytes res)"
      "r \<in> set (?f x)" "q \<in> set (?f y)" "opKey r = opKey q"
    then show "x = y" using tag txMessages_inj [OF fits] by (metis prod.inject)
  qed
  then show ?thesis by (simp add: parser_tx_def Let_def)
qed

lemma two_cases: "P 0 \<or> P 1 \<Longrightarrow> \<exists>b < (2 :: nat). P b"
  by (metis one_less_numeral_iff semiring_norm(76) zero_less_numeral)

lemma reviewRows_tags:
  assumes "r \<in> set (reviewRows K w h res attributed keys p)"
  shows "rv_TxHash r = h \<and> rv_MessageIndex r \<notin> set attributed \<and>
    (\<exists>b < 2. rv_OpIndex r = of_nat (2 ^ 16 + 2 * fst p + b))"
proof -
  have "rv_OpIndex r = of_nat (2 ^ 16 + 2 * fst p + 0) \<or> rv_OpIndex r = of_nat (2 ^ 16 + 2 * fst p + 1)"
    using assms
    by (cases p; cases "attrUint32 (snd p) ''msg_index''"; cases "transferEventParties (snd p)")
       (auto simp: reviewRows_def Let_def ReviewOpIndexBase_def split: if_splits)
  then have "\<exists>b < 2. rv_OpIndex r = of_nat (2 ^ 16 + 2 * fst p + b)" by (rule two_cases)
  then show ?thesis
    using assms
    by (cases p; cases "attrUint32 (snd p) ''msg_index''"; cases "transferEventParties (snd p)")
       (auto simp: reviewRows_def Let_def split: if_splits)
qed

lemma reviewRows_distinct: "distinct (map rvKey (reviewRows K w h res attributed keys p))"
  by (auto simp: reviewRows_def Let_def rvKey_def split: prod.splits option.splits)

lemma tx_review_tags:
  assumes "r \<in> set (tr_Reviews (parser_tx K w (txBytes, res)))"
  shows "rv_TxHash r = TxHashHex txBytes \<and> (rv_MessageIndex r, Some rows) \<notin> set (txMessages K w txBytes res)"
proof -
  let ?att = "map fst (filter (\<lambda>(mi, rows). rows \<noteq> None) (txMessages K w txBytes res))"
  have "r \<in> set (eventReview K w (TxHashHex txBytes) res ?att)"
    using assms by (simp add: parser_tx_def Let_def split: if_splits)
  then have "rv_TxHash r = TxHashHex txBytes" "rv_MessageIndex r \<notin> set ?att"
    unfolding eventReview_def Let_def by (blast elim!: in_concatE dest: reviewRows_tags)+
  moreover have "mi \<in> set ?att" if "(mi, Some rows) \<in> set (txMessages K w txBytes res)" for mi
    using that by force
  ultimately show ?thesis by blast
qed

lemma tx_review_keys:
  assumes "fits32 K (txBytes, res)"
  shows "distinct (map rvKey (tr_Reviews (parser_tx K w (txBytes, res))))"
proof -
  have "distinct (map rvKey (eventReview K w h res att))" for h att
    unfolding eventReview_def Let_def
  proof (rule numbered_distinct [where off = "2 ^ 16" and c = 2 and num = "\<lambda>k. snd (snd k)"])
    show "2 ^ 16 + 2 * length (te_Events res) \<le> 2 ^ 32" using assms by (simp add: fits32_def)
  qed (use reviewRows_tags reviewRows_distinct in \<open>auto simp: rvKey_def\<close>)
  then show ?thesis by (simp add: parser_tx_def Let_def)
qed

lemma blockEvents_distinct:
  assumes "2 * length events \<le> 2 ^ 32"
  shows "distinct (map be_EventIndex (blockEvents K w events))"
  unfolding blockEvents_def
proof (rule numbered_distinct [where off = 0 and c = 2 and num = id])
  fix p r
  assume "r \<in> set (blockEventRows K w (blockTransferKeys K events) p)"
  then have "be_EventIndex r = of_nat (2 * fst p + 0) \<or> be_EventIndex r = of_nat (2 * fst p + 1)"
    by (auto simp: blockEventRows_def Let_def split: prod.splits if_splits)
  then show "\<exists>b<2. id (be_EventIndex r) = of_nat (0 + 2 * fst p + b)"
    using two_cases [of "\<lambda>b. be_EventIndex r = of_nat (2 * fst p + b)"] by simp
qed (use assms in \<open>auto simp: blockEventRows_def Let_def split: prod.splits\<close>)

lemma parse_rows:
  assumes "ParseBlockTransfers K block results w = Inr bp"
  shows "length (bk_Txs block) = length (bs_TxResults results) \<and> bp_Height bp = bk_Height block \<and>
    bp_BlockHash bp = hexUpper (bk_Hash block) \<and>
    bp_Transfers bp = concat (map (\<lambda>p. tr_Transfers (parser_tx K w p)) (zip (bk_Txs block) (bs_TxResults results))) \<and>
    bp_ReviewCandidates bp = concat (map (\<lambda>p. tr_Reviews (parser_tx K w p)) (zip (bk_Txs block) (bs_TxResults results))) \<and>
    bp_BlockEvents bp = blockEvents K w (bs_FinalizeBlockEvents results)"
  using assms by (auto simp: ParseBlockTransfers_def Let_def o_def split: if_splits)

section \<open>Concrete values\<close>

text \<open>A block with one transfer of 5 base units from an outside address to a customer address.\<close>

definition dx_codec :: codec where
  "dx_codec = \<lparr>UnmarshalTxRaw = (\<lambda>b. Some (b, [])),
     UnmarshalTxBody = (\<lambda>b. Some \<lparr>rb_Messages = [Some (TypeURLMsgSend, [])], rb_Memo = ''memo''\<rparr>),
     UnmarshalFeePayer = (\<lambda>b. None),
     UnmarshalSend = (\<lambda>b. Some \<lparr>sn_FromAddress = ''ext'', sn_ToAddress = ''cust'',
        sn_Amount = [\<lparr>rc_Denom = ''usovr'', rc_Amount = 5\<rparr>]\<rparr>),
     UnmarshalMultiSend = (\<lambda>b. None), ParseCoinsNormalized = (\<lambda>x. None)\<rparr>"

definition dx_watched :: WatchedAddress where
  "dx_watched = \<lparr>wa_ChainID = ''sovr-1'', wa_Address = ''cust'', wa_Kind = WatchCustomerDeposit,
     wa_CustomerRef = [], wa_MemoRequired = False, wa_Active = True\<rparr>"

definition dx_watch :: WatchSet where
  "dx_watch = NewWatchSet [dx_watched]"

definition dx_result :: TxExecResult where
  "dx_result = \<lparr>te_Code = 0, te_Log = [], te_Events = []\<rparr>"

definition dx_block :: "uint64 \<Rightarrow> Block" where
  "dx_block h = \<lparr>bk_ChainID = ''sovr-1'', bk_Height = h, bk_Hash = [ucast h], bk_Time = 40,
     bk_LastBlockHash = [ucast (h - 1)], bk_Txs = [[ucast h]]\<rparr>"

definition dx_results :: "uint64 \<Rightarrow> BlockResults" where
  "dx_results h = \<lparr>bs_Height = h, bs_TxResults = [dx_result], bs_FinalizeBlockEvents = []\<rparr>"

definition dx_row :: "uint64 \<Rightarrow> TransferCandidate" where
  "dx_row h = \<lparr>tc_TxHash = TxHashHex [ucast h], tc_MessageIndex = 0, tc_CoinIndex = 0, tc_OpIndex = 0,
     tc_Direction = DirectionIn, tc_Address = ''cust'', tc_CounterpartySet = [''ext''],
     tc_SenderAddress = Some ''ext'', tc_Denom = ''usovr'', tc_AmountBaseUnits = 5, tc_Memo = ''memo'',
     tc_TxCode = 0, tc_TxLog = [], tc_Classification = ClassExternalDeposit, tc_ReviewReason = []\<rparr>"

definition dx_parse :: "uint64 \<Rightarrow> BlockParse" where
  "dx_parse h = \<lparr>bp_ChainID = ''sovr-1'', bp_Height = h, bp_BlockHash = hexUpper [ucast h],
     bp_LastBlockHash = hexUpper [ucast (h - 1)], bp_Time = 40, bp_Transfers = [dx_row h],
     bp_FeeDeductions = [], bp_ReviewCandidates = [], bp_BlockEvents = []\<rparr>"

lemmas dx_defs = dx_codec_def dx_watched_def dx_watch_def dx_result_def dx_block_def dx_results_def
  dx_row_def dx_parse_def

lemma dx_rows: "parser_tx dx_codec dx_watch ([ucast h], dx_result) =
    \<lparr>tr_Transfers = [dx_row h], tr_Fees = [], tr_Reviews = []\<rparr>"
  by (simp add: parser_tx_def txMessages_def txBody_def messageRows_def send_def inRow_def outRow_def movesBase_def
      inflowClass_def classifyIn_def watchStats_iff Contains_def NewWatchSet_def dx_defs BaseDenom_def
      TypeURLMsgSend_def feeDeduction_def)

lemma dx_parse_ok:
  "0 \<le> sint h \<Longrightarrow> ParseBlockTransfers dx_codec (dx_block h) (dx_results h) dx_watch = Inr (dx_parse h)"
  using dx_rows [of h]
  by (simp add: ParseBlockTransfers_def dx_block_def dx_results_def dx_parse_def blockEvents_def Let_def)

lemma dx_fits: "fits32 dx_codec ([b], dx_result)"
  by (simp add: fits32_def dx_defs txBody_def messageOps_def TypeURLMsgSend_def)

section \<open>Properties\<close>

text \<open>
  C24.  Within the 32-bit numbering no two rows of a parsed block share the key
  under which the ledger stores them: the body-decoded and the event-derived
  rows of all transactions are pairwise distinct in transaction hash, message
  index and op index, and the block-scoped rows in their event index.  So no
  row of a first scan can be mistaken for a replay.
\<close>

theorem block_rows_collision_free:
  assumes parse: "ParseBlockTransfers K block results w = Inr bp"
    and hashes: "distinct (map TxHashHex (bk_Txs block))"
    and fits: "\<forall>p \<in> set (zip (bk_Txs block) (bs_TxResults results)). fits32 K p"
    and events: "2 * length (bs_FinalizeBlockEvents results) \<le> 2 ^ 32"
  shows "distinct (map opKey (bp_Transfers bp) @ map rvKey (bp_ReviewCandidates bp)) \<and>
    distinct (map be_EventIndex (bp_BlockEvents bp))"
proof -
  let ?txs = "zip (bk_Txs block) (bs_TxResults results)"
  note rows = parse_rows [OF parse]
  have "map (TxHashHex \<circ> fst) ?txs = map TxHashHex (bk_Txs block)"
    using rows by (simp flip: map_map)
  then have dist: "distinct (map (TxHashHex \<circ> fst) ?txs)" using hashes by simp
  have inj: "p = q" if "p \<in> set ?txs" "q \<in> set ?txs" "TxHashHex (fst p) = TxHashHex (fst q)" for p q
    using distinct_map_inj [OF dist] that by simp
  have T: "tc_TxHash r = TxHashHex (fst p) \<and>
      (\<exists>x. (tc_MessageIndex r, Some x) \<in> set (txMessages K w (fst p) (snd p)))"
    if "r \<in> set (tr_Transfers (parser_tx K w p))" for p r
    using tx_transfer_tags [of r K w "fst p" "snd p"] that by auto
  have V: "rv_TxHash r = TxHashHex (fst p) \<and> (rv_MessageIndex r, Some x) \<notin> set (txMessages K w (fst p) (snd p))"
    if "r \<in> set (tr_Reviews (parser_tx K w p))" for p r x
    using tx_review_tags [of r K w "fst p" "snd p"] that by auto
  have "distinct (map opKey (bp_Transfers bp))"
    unfolding rows [THEN conjunct2, THEN conjunct2, THEN conjunct2, THEN conjunct1]
  proof (rule distinct_concat_keys)
    show "distinct ?txs" using dist by (simp add: distinct_map)
    show "distinct (map opKey (tr_Transfers (parser_tx K w p)))" if "p \<in> set ?txs" for p
      using tx_transfer_keys [of K "fst p" "snd p" w] fits that by auto
    fix x y r q
    assume "x \<in> set ?txs" "y \<in> set ?txs" "r \<in> set (tr_Transfers (parser_tx K w x))"
      "q \<in> set (tr_Transfers (parser_tx K w y))" "opKey r = opKey q"
    then show "x = y" using inj T by (metis opKey_def prod.inject)
  qed
  moreover have "distinct (map rvKey (bp_ReviewCandidates bp))"
    unfolding rows [THEN conjunct2, THEN conjunct2, THEN conjunct2, THEN conjunct2, THEN conjunct1]
  proof (rule distinct_concat_keys)
    show "distinct ?txs" using dist by (simp add: distinct_map)
    show "distinct (map rvKey (tr_Reviews (parser_tx K w p)))" if "p \<in> set ?txs" for p
      using tx_review_keys [of K "fst p" "snd p" w] fits that by auto
    fix x y r q
    assume "x \<in> set ?txs" "y \<in> set ?txs" "r \<in> set (tr_Reviews (parser_tx K w x))"
      "q \<in> set (tr_Reviews (parser_tx K w y))" "rvKey r = rvKey q"
    then show "x = y" using inj V by (metis rvKey_def prod.inject)
  qed
  moreover have "set (map opKey (bp_Transfers bp)) \<inter> set (map rvKey (bp_ReviewCandidates bp)) = {}"
  proof (rule disjoint_keys)
    fix r q
    assume "r \<in> set (bp_Transfers bp)" "q \<in> set (bp_ReviewCandidates bp)"
    then obtain p p' where p: "p \<in> set ?txs" "r \<in> set (tr_Transfers (parser_tx K w p))"
      and p': "p' \<in> set ?txs" "q \<in> set (tr_Reviews (parser_tx K w p'))"
      using rows by auto
    show "opKey r \<noteq> rvKey q"
    proof
      assume "opKey r = rvKey q"
      then have same: "tc_TxHash r = rv_TxHash q" "tc_MessageIndex r = rv_MessageIndex q"
        by (simp_all add: opKey_def rvKey_def)
      then have "p = p'" using inj [OF p(1) p'(1)] T [OF p(2)] V [OF p'(2)] by metis
      then show False using T [OF p(2)] V [OF p'(2)] same(2) by metis
    qed
  qed
  moreover have "distinct (map be_EventIndex (bp_BlockEvents bp))"
    using rows blockEvents_distinct [OF events] by simp
  ultimately show ?thesis by simp
qed

theorem block_rows_collision_free_witness:
  "ParseBlockTransfers dx_codec (dx_block 7) (dx_results 7) dx_watch = Inr (dx_parse 7) \<and>
   distinct (map opKey (bp_Transfers (dx_parse 7)) @ map rvKey (bp_ReviewCandidates (dx_parse 7)))"
  using block_rows_collision_free [OF dx_parse_ok [of 7]] dx_fits dx_parse_ok [of 7]
  by (simp add: dx_block_def dx_results_def)

text \<open>
  Every decoded row is a positive movement of base units at a watched
  address, and an inflow is classified as an external deposit, the only source
  of a customer credit, exactly when none of its senders is watched; an
  outflow never is.
\<close>

theorem external_deposits_exact:
  assumes "ParseBlockTransfers K block results w = Inr bp" and "r \<in> set (bp_Transfers bp)"
  shows "tc_Denom r = BaseDenom \<and> tc_AmountBaseUnits r > 0 \<and> Contains w (tc_Address r) \<and>
    (tc_Direction r = DirectionIn \<and>
       (tc_Classification r = ClassExternalDeposit \<longleftrightarrow> (\<forall>a \<in> set (tc_CounterpartySet r). \<not> Contains w a))
     \<or> tc_Direction r = DirectionOut \<and> tc_Classification r \<noteq> ClassExternalDeposit)"
proof -
  obtain p where "r \<in> set (tr_Transfers (parser_tx K w (fst p, snd p)))"
    using assms(2) parse_rows [OF assms(1)] by auto
  then show ?thesis using tx_transfer_tags by (fastforce simp: row_ok_def)
qed

theorem external_deposits_exact_witness:
  "dx_row 7 \<in> set (bp_Transfers (dx_parse 7)) \<and> tc_AmountBaseUnits (dx_row 7) > 0 \<and>
   tc_Classification (dx_row 7) = ClassExternalDeposit \<and> \<not> Contains dx_watch ''ext''"
proof -
  have mem: "dx_row 7 \<in> set (bp_Transfers (dx_parse 7))" by (simp add: dx_parse_def)
  show ?thesis using external_deposits_exact [OF dx_parse_ok mem] mem by (simp add: dx_row_def)
qed

text \<open>
  The decoded rows carry exactly what the decoded messages move: for every
  watched address the inflows (outflows) of a transaction add up to the
  positive base-unit coins its messages send to (from) the address, and for
  every other address there are none.
\<close>

theorem transfer_amounts_exact:
  assumes "dir = DirectionIn \<or> dir = DirectionOut" and "txBody K txBytes = Some body"
  shows "flow dir a (tr_Transfers (parser_tx K w (txBytes, res))) =
    (if Contains w a then sum_list (map (messageMoves K dir a) (rb_Messages body)) else 0)"
proof -
  let ?rows = "\<lambda>mi m. case messageRows K w (TxHashHex txBytes) (rb_Memo body) res mi m of None \<Rightarrow> [] | Some r \<Rightarrow> r"
  have one: "flow dir a (?rows mi m) = (if Contains w a then messageMoves K dir a m else 0)" for mi m
    using assms(1)
    by (elim disjE) (auto simp: messageRows_def messageMoves_def send_flow multiSend_flow TypeURLMsgSend_def
        TypeURLMsgMultiSend_def split: option.splits)
  have "tr_Transfers (parser_tx K w (txBytes, res)) =
      concat (map (\<lambda>p. ?rows (of_nat (fst p)) (snd p)) (List.enumerate 0 (rb_Messages body)))"
    using assms(2) by (simp add: parser_tx_def txMessages_def Let_def o_def case_prod_unfold)
  then have "flow dir a (tr_Transfers (parser_tx K w (txBytes, res))) =
      sum_list (map (\<lambda>p. (\<lambda>m. if Contains w a then messageMoves K dir a m else 0) (snd p))
        (List.enumerate 0 (rb_Messages body)))"
    by (simp add: flow_concat one)
  also have "\<dots> = sum_list (map (\<lambda>m. if Contains w a then messageMoves K dir a m else 0) (rb_Messages body))"
    by (rule sum_enumerate)
  finally show ?thesis by (cases "Contains w a") simp_all
qed

theorem transfer_amounts_exact_witness:
  "flow DirectionIn ''cust'' (tr_Transfers (parser_tx dx_codec dx_watch ([7], dx_result))) = 5"
proof -
  have "txBody dx_codec [7] = Some \<lparr>rb_Messages = [Some (TypeURLMsgSend, [])], rb_Memo = ''memo''\<rparr>"
    by (simp add: txBody_def dx_codec_def)
  from transfer_amounts_exact [OF _ this, of DirectionIn "''cust''" dx_watch dx_result] show ?thesis
    by (simp add: dx_defs messageMoves_def baseUnits_def movesBase_def BaseDenom_def Contains_def NewWatchSet_def)
qed

end
