(* ===== verification/Address.thy ===== *)
theory Address
  imports Sha256
begin

text \<open>
  \<open>go/address/address.go\<close>: validation of account addresses.  The bech32 and
  key libraries are not part of the repository; they are the fields of the
  record \<open>lib\<close>, an argument of every definition that calls them.  Strings are
  byte strings, so the case tests are the ASCII ones; a string with other bytes
  fails the bech32 decoding with the same code.
\<close>

section \<open>Third-party library functions\<close>

record Coin =
  c_Denom :: string
  c_Amount :: "int option"

record AnyMsg =
  any_TypeUrl :: string
  any_Value :: bytes

record SignDocMsg =
  sd_BodyBytes :: bytes
  sd_AuthInfoBytes :: bytes
  sd_ChainId :: string
  sd_AccountNumber :: uint64

record TxBody =
  tb_Messages :: "AnyMsg list"
  tb_Memo :: string
  tb_TimeoutHeight :: uint64
  tb_Unordered :: bool
  tb_TimeoutTimestamp :: "time option"
  tb_ExtensionOptions :: "AnyMsg list"
  tb_NonCriticalExtensionOptions :: "AnyMsg list"

record FeeMsg =
  f_Amount :: "Coin list"
  f_GasLimit :: uint64
  f_Payer :: string
  f_Granter :: string

datatype ModeInfo = ModeSingle string | ModeMulti

record SignerInfo =
  si_PublicKey :: "AnyMsg option"
  si_ModeInfo :: "ModeInfo option"
  si_Sequence :: uint64

record AuthInfo =
  ai_SignerInfos :: "SignerInfo list"
  ai_Fee :: "FeeMsg option"
  ai_Tip :: bool

record MsgSend =
  ms_FromAddress :: string
  ms_ToAddress :: string
  ms_Amount :: "Coin list"

record lib =
  DecodeAndConvert :: "string \<Rightarrow> (string \<times> bytes) option"
  ConvertAndEncode :: "string \<Rightarrow> bytes \<Rightarrow> string option"
  ModuleAddr :: "string \<Rightarrow> bytes"
  VerifySignature :: "bytes \<Rightarrow> bytes \<Rightarrow> bytes \<Rightarrow> bool"
  PubKeyAddress :: "bytes \<Rightarrow> bytes"
  NewIntFromString :: "string \<Rightarrow> int option"
  StringToBytes :: "string \<Rightarrow> bytes option"
  BytesToString :: "bytes \<Rightarrow> string option"
  StrictSignDoc :: "bytes \<Rightarrow> SignDocMsg option"
  UnmarshalSignDoc :: "bytes \<Rightarrow> SignDocMsg option"
  StrictTxBody :: "bytes \<Rightarrow> TxBody option"
  StrictAuthInfo :: "bytes \<Rightarrow> AuthInfo option"
  UnmarshalMsgSend :: "bytes \<Rightarrow> MsgSend option"
  UnmarshalPubKey :: "bytes \<Rightarrow> bytes option"
  EncodeTx :: "MsgSend \<Rightarrow> string \<Rightarrow> uint64 \<Rightarrow> Coin list \<Rightarrow> bytes \<Rightarrow> uint64 \<Rightarrow> (bytes \<times> bytes) option"
  GetSignBytes :: "string \<Rightarrow> uint64 \<Rightarrow> bytes \<Rightarrow> bytes \<Rightarrow> bytes option"
  MarshalTxRaw :: "bytes \<Rightarrow> bytes \<Rightarrow> bytes list \<Rightarrow> bytes option"

section \<open>Validation\<close>

record ValidationResult =
  vr_Valid :: bool
  vr_NormalizedAddress :: string
  vr_ErrorCode :: string

definition invalid :: "string \<Rightarrow> ValidationResult" where
  "invalid code = \<lparr>vr_Valid = False, vr_NormalizedAddress = [], vr_ErrorCode = code\<rparr>"

definition asciiWhitespace :: string where
  "asciiWhitespace = map char_of [32, 9, 10, 13, 11, 12 :: nat]"

definition is_lower :: "char \<Rightarrow> bool" where
  "is_lower c \<longleftrightarrow> 97 \<le> (of_char c :: nat) \<and> (of_char c :: nat) \<le> 122"

definition is_upper :: "char \<Rightarrow> bool" where
  "is_upper c \<longleftrightarrow> 65 \<le> (of_char c :: nat) \<and> (of_char c :: nat) \<le> 90"

definition is_hex :: "char \<Rightarrow> bool" where
  "is_hex c \<longleftrightarrow> is_digit c \<or> (97 \<le> (of_char c :: nat) \<and> (of_char c :: nat) \<le> 102)
     \<or> (65 \<le> (of_char c :: nat) \<and> (of_char c :: nat) \<le> 70)"

definition bareHex20 :: "string \<Rightarrow> bool" where
  "bareHex20 s \<longleftrightarrow> length s = 40 \<and> list_all is_hex s"

definition hasPrefix :: "string \<Rightarrow> string \<Rightarrow> bool" where
  "hasPrefix s p \<longleftrightarrow> take (length p) s = p"

definition mixedCase :: "string \<Rightarrow> bool" where
  "mixedCase s \<longleftrightarrow> list_ex is_upper s \<and> list_ex is_lower s"

definition ValidateAccountAddress :: "lib \<Rightarrow> string \<Rightarrow> ValidationResult" where
  "ValidateAccountAddress L addr =
     (if addr = [] then invalid ''ADDRESS_EMPTY''
      else if list_ex (\<lambda>c. c \<in> set asciiWhitespace) addr then invalid ''ADDRESS_WHITESPACE''
      else if hasPrefix addr ''0x'' \<or> hasPrefix addr ''0X'' \<or> bareHex20 addr then invalid ''ADDRESS_WRONG_PREFIX''
      else if mixedCase addr then invalid ''ADDRESS_INVALID_BECH32''
      else case DecodeAndConvert L addr of
        None \<Rightarrow> invalid ''ADDRESS_INVALID_BECH32''
      | Some (hrp, payload) \<Rightarrow>
          if hrp = ''sovrvaloper'' \<or> hrp = ''sovrvalcons'' then invalid ''ADDRESS_NOT_ACCOUNT_TYPE''
          else if hrp \<noteq> ''sovr'' then invalid ''ADDRESS_WRONG_PREFIX''
          else if length payload \<noteq> 20 then invalid ''ADDRESS_WRONG_LENGTH''
          else case ConvertAndEncode L ''sovr'' payload of
            None \<Rightarrow> invalid ''ADDRESS_INVALID_BECH32''
          | Some normalized \<Rightarrow> \<lparr>vr_Valid = True, vr_NormalizedAddress = normalized, vr_ErrorCode = []\<rparr>)"

type_synonym PSet = "string list"

definition ValidateAccountAddressStrict :: "lib \<Rightarrow> string \<Rightarrow> PSet \<Rightarrow> ValidationResult" where
  "ValidateAccountAddressStrict L addr prohibited =
     (let res = ValidateAccountAddress L addr in
      if \<not> vr_Valid res then res
      else if vr_NormalizedAddress res \<in> set prohibited then invalid ''ADDRESS_PROHIBITED''
      else res)"

definition ModuleAccountAddress :: "lib \<Rightarrow> string \<Rightarrow> string option" where
  "ModuleAccountAddress L name = (if name = [] then None else ConvertAndEncode L ''sovr'' (ModuleAddr L name))"

definition legacyRenamedModuleAccountAddress :: string where
  "legacyRenamedModuleAccountAddress = ''sovr1evp0da9u6kzn5c3j745qyj379grxhhzwrp5fh8''"

definition prohibitedModuleNames :: "string list" where
  "prohibitedModuleNames = [''auction'', ''auction_bond_escrow'', ''bandwidth'', ''bonded_tokens_pool'',
     ''bootstrap'', ''bridge'', ''compute'', ''disputebonds'', ''distribution'', ''distro'',
     ''evmbridge'', ''exchange_allocation'', ''fee_collector'', ''gateway'', ''gov'', ''hyperlane'',
     ''identity'', ''inference'', ''interchainaccounts'', ''lockup'', ''nft'', ''nodelicense'',
     ''not_bonded_tokens_pool'', ''oracle'', ''payments'', ''policy'', ''settlement'',
     ''settlement_rewards'', ''storage'', ''supply'', ''track_a'', ''transfer'', ''vectordb'',
     ''warp'', ''wasm'']"

definition DefaultProhibitedModuleAccounts :: "lib \<Rightarrow> PSet" where
  "DefaultProhibitedModuleAccounts L =
     concat (map (\<lambda>n. case ModuleAccountAddress L n of None \<Rightarrow> [] | Some a \<Rightarrow> [a]) prohibitedModuleNames)
     @ [legacyRenamedModuleAccountAddress]"

section \<open>Facts\<close>

lemma invalid_simps [simp]: "\<not> vr_Valid (invalid code)" "vr_ErrorCode (invalid code) = code"
  by (simp_all add: invalid_def)

lemma valid_address_iff:
  "vr_Valid (ValidateAccountAddress L addr) \<longleftrightarrow>
     addr \<noteq> [] \<and> \<not> list_ex (\<lambda>c. c \<in> set asciiWhitespace) addr \<and>
     \<not> (hasPrefix addr ''0x'' \<or> hasPrefix addr ''0X'' \<or> bareHex20 addr) \<and> \<not> mixedCase addr \<and>
     (\<exists>payload n. DecodeAndConvert L addr = Some (''sovr'', payload) \<and> length payload = 20 \<and>
        ConvertAndEncode L ''sovr'' payload = Some n)"
  by (auto simp: ValidateAccountAddress_def split: option.splits)

lemma valid_normalized:
  "vr_Valid (ValidateAccountAddress L addr) \<Longrightarrow>
   \<exists>payload. DecodeAndConvert L addr = Some (''sovr'', payload) \<and> length payload = 20 \<and>
     ConvertAndEncode L ''sovr'' payload = Some (vr_NormalizedAddress (ValidateAccountAddress L addr))"
  by (auto simp: ValidateAccountAddress_def split: option.splits if_splits)

text \<open>
  Documented behaviour of the bech32 library the validator relies on: what it
  encodes it decodes, and an encoding is the prefix, the separator and
  lower-case alphanumeric characters.
\<close>

definition bech32_ok :: "lib \<Rightarrow> bool" where
  "bech32_ok L \<longleftrightarrow> (\<forall>p a. ConvertAndEncode L ''sovr'' p = Some a \<longrightarrow>
     DecodeAndConvert L a = Some (''sovr'', p) \<and> hasPrefix a ''sovr1'' \<and>
     list_all (\<lambda>c. is_digit c \<or> is_lower c) a)"

lemma bech32_ok_valid:
  assumes ok: "bech32_ok L" and enc: "ConvertAndEncode L ''sovr'' p = Some a" and len: "length p = 20"
  shows "ValidateAccountAddress L a = \<lparr>vr_Valid = True, vr_NormalizedAddress = a, vr_ErrorCode = []\<rparr>"
proof -
  have dec: "DecodeAndConvert L a = Some (''sovr'', p)" and pre: "hasPrefix a ''sovr1''"
    and chars: "list_all (\<lambda>c. is_digit c \<or> is_lower c) a"
    using ok enc by (auto simp: bech32_ok_def)
  obtain r where a: "a = ''sovr1'' @ r"
    using pre by (metis append_take_drop_id hasPrefix_def)
  have nows: "\<not> list_ex (\<lambda>c. c \<in> set asciiWhitespace) a"
    using chars by (auto simp: list_ex_iff list_all_iff asciiWhitespace_def is_digit_def is_lower_def)
  have nomix: "\<not> mixedCase a"
    using chars by (auto simp: mixedCase_def list_ex_iff list_all_iff is_digit_def is_lower_def is_upper_def)
  have nohex: "\<not> (hasPrefix a ''0x'' \<or> hasPrefix a ''0X'' \<or> bareHex20 a)"
    using a by (auto simp: hasPrefix_def bareHex20_def is_hex_def is_digit_def)
  show ?thesis
    using dec enc len nows nomix nohex a by (simp add: ValidateAccountAddress_def)
qed

end
