(* ===== verification/Tx.thy ===== *)
theory Tx
  imports Address
begin

text \<open>
  \<open>go/tx\<close>: building the one-message transaction, the sign doc with the
  summary decoded back out of it, and the assembly of the signed bytes.  The
  protobuf codec, bech32 and secp256k1 are the fields of \<open>lib\<close>.
\<close>

definition MsgSendTypeURL :: string where "MsgSendTypeURL = ''/cosmos.bank.v1beta1.MsgSend''"
definition secp256k1PubKeyTypeURL :: string where
  "secp256k1PubKeyTypeURL = ''/cosmos.crypto.secp256k1.PubKey''"
definition Denom :: string where "Denom = ''usovr''"

record Fee =
  fee_AmountBaseUnits :: string
  fee_GasLimit :: uint64

record SigningSummary =
  ss_ChainID :: string
  ss_AccountNumber :: string
  ss_Sequence :: string
  ss_MessageType :: string
  ss_SenderAddress :: string
  ss_RecipientAddress :: string
  ss_AmountBaseUnits :: string
  ss_Denom :: string
  ss_FeeBaseUnits :: string
  ss_GasLimit :: string
  ss_Memo :: string

record SignatureResponse =
  sr_Signature :: bytes
  sr_PubKeyCompressed :: bytes

record UnsignedTx =
  u_from :: string
  u_to :: string
  u_fromBytes :: bytes
  u_amount :: int
  u_memo :: string
  u_pubKeyCompressed :: bytes
  u_bodyBytes :: bytes
  u_authInfoBytes :: bytes
  u_signDocBytes :: bytes

definition parseBaseUnits_tx :: "lib \<Rightarrow> string \<Rightarrow> bool \<Rightarrow> err + int" where
  "parseBaseUnits_tx L s allowZero =
     (if s = [] then Inl (TxErr ''ErrInvalidAmount'')
      else if \<not> digits_re s then
        (if length s > 1 \<and> hd s = CHR ''-'' \<and> digits_re (tl s) then Inl (TxErr ''ErrAmountNotPositive'')
         else Inl (TxErr ''ErrInvalidAmount''))
      else case NewIntFromString L s of
        None \<Rightarrow> Inl (TxErr ''ErrAmountTooLarge'')
      | Some n \<Rightarrow> if \<not> allowZero \<and> n = 0 then Inl (TxErr ''ErrAmountNotPositive'') else Inr n)"

definition decodeAccountAddress :: "lib \<Rightarrow> string \<Rightarrow> err + bytes" where
  "decodeAccountAddress L addr = (case StringToBytes L addr of
      None \<Rightarrow> Inl (TxErr ''ErrInvalidAddress'')
    | Some bz \<Rightarrow>
        if length bz \<noteq> 20 then Inl (TxErr ''ErrInvalidAddress'')
        else if BytesToString L bz \<noteq> Some addr then Inl (TxErr ''ErrInvalidAddress'')
        else Inr bz)"

definition BuildMsgSend :: "lib \<Rightarrow> string \<Rightarrow> string \<Rightarrow> string \<Rightarrow> string \<Rightarrow> err + UnsignedTx" where
  "BuildMsgSend L from to amountBaseUnits memo =
     (case decodeAccountAddress L from of Inl e \<Rightarrow> Inl e | Inr fromBytes \<Rightarrow>
      case decodeAccountAddress L to of Inl e \<Rightarrow> Inl e | Inr _ \<Rightarrow>
      case parseBaseUnits_tx L amountBaseUnits False of Inl e \<Rightarrow> Inl e | Inr amount \<Rightarrow>
      Inr \<lparr>u_from = from, u_to = to, u_fromBytes = fromBytes, u_amount = amount, u_memo = memo,
           u_pubKeyCompressed = [], u_bodyBytes = [], u_authInfoBytes = [], u_signDocBytes = []\<rparr>)"

definition compressedKey :: "bytes \<Rightarrow> bool" where
  "compressedKey k \<longleftrightarrow> length k = 33 \<and> (hd k = 2 \<or> hd k = 3)"

definition malformed :: "err + 'a" where
  "malformed = Inl (TxErr ''ErrMalformedSignDoc'')"

definition summaryFee :: "AuthInfo \<Rightarrow> string option" where
  "summaryFee ai = (case ai_Fee ai of None \<Rightarrow> None | Some f \<Rightarrow>
     if f_Payer f \<noteq> [] \<or> f_Granter f \<noteq> [] \<or> ai_Tip ai then None
     else case f_Amount f of
       [] \<Rightarrow> Some ''0''
     | [coin] \<Rightarrow> (case c_Amount coin of None \<Rightarrow> None
          | Some v \<Rightarrow> if c_Denom coin \<noteq> Denom \<or> v < 0 then None else Some (show_int v))
     | _ \<Rightarrow> None)"

definition summarySigner :: "lib \<Rightarrow> string \<Rightarrow> AuthInfo \<Rightarrow> SignerInfo option" where
  "summarySigner L sender ai = (case ai_SignerInfos ai of
     [si] \<Rightarrow> (case si_PublicKey si of None \<Rightarrow> None | Some pk \<Rightarrow>
       if any_TypeUrl pk \<noteq> secp256k1PubKeyTypeURL then None
       else case UnmarshalPubKey L (any_Value pk) of None \<Rightarrow> None | Some key \<Rightarrow>
         if \<not> compressedKey key then None
         else if BytesToString L (PubKeyAddress L key) \<noteq> Some sender then None
         else if si_ModeInfo si \<noteq> Some (ModeSingle ''SIGN_MODE_DIRECT'') then None
         else Some si)
   | _ \<Rightarrow> None)"

definition bodyOptions :: "TxBody \<Rightarrow> bool" where
  "bodyOptions body \<longleftrightarrow> tb_TimeoutHeight body \<noteq> 0 \<or> tb_Unordered body \<or> tb_TimeoutTimestamp body \<noteq> None
     \<or> tb_ExtensionOptions body \<noteq> [] \<or> tb_NonCriticalExtensionOptions body \<noteq> []"

definition summaryMessage :: "lib \<Rightarrow> TxBody \<Rightarrow> (MsgSend \<times> int) option" where
  "summaryMessage L body =
     (if bodyOptions body then None
      else case tb_Messages body of
        [m] \<Rightarrow> if any_TypeUrl m \<noteq> MsgSendTypeURL then None
               else (case UnmarshalMsgSend L (any_Value m) of None \<Rightarrow> None
                 | Some send \<Rightarrow> (case ms_Amount send of
                     [coin] \<Rightarrow> if c_Denom coin \<noteq> Denom then None
                        else (case c_Amount coin of None \<Rightarrow> None
                              | Some v \<Rightarrow> if v \<le> 0 then None else Some (send, v))
                   | _ \<Rightarrow> None))
      | _ \<Rightarrow> None)"

definition DeriveSummary :: "lib \<Rightarrow> bytes \<Rightarrow> err + SigningSummary" where
  "DeriveSummary L signDocBytes =
     (case StrictSignDoc L signDocBytes of None \<Rightarrow> malformed | Some doc \<Rightarrow>
      case StrictTxBody L (sd_BodyBytes doc) of None \<Rightarrow> malformed | Some body \<Rightarrow>
      case StrictAuthInfo L (sd_AuthInfoBytes doc) of None \<Rightarrow> malformed | Some ai \<Rightarrow>
      case summaryMessage L body of None \<Rightarrow> malformed | Some (send, amount) \<Rightarrow>
      case summaryFee ai of None \<Rightarrow> malformed | Some fee \<Rightarrow>
      case summarySigner L (ms_FromAddress send) ai of None \<Rightarrow> malformed | Some si \<Rightarrow>
      case ai_Fee ai of None \<Rightarrow> malformed | Some f \<Rightarrow>
      Inr \<lparr>ss_ChainID = sd_ChainId doc,
           ss_AccountNumber = show_u64 (sd_AccountNumber doc),
           ss_Sequence = show_u64 (si_Sequence si),
           ss_MessageType = MsgSendTypeURL,
           ss_SenderAddress = ms_FromAddress send,
           ss_RecipientAddress = ms_ToAddress send,
           ss_AmountBaseUnits = show_int amount,
           ss_Denom = Denom,
           ss_FeeBaseUnits = fee,
           ss_GasLimit = show_u64 (f_GasLimit f),
           ss_Memo = tb_Memo body\<rparr>)"

definition VerifySummary :: "lib \<Rightarrow> bytes \<Rightarrow> SigningSummary \<Rightarrow> err + unit" where
  "VerifySummary L signDocBytes summary = (case DeriveSummary L signDocBytes of Inl e \<Rightarrow> Inl e
     | Inr derived \<Rightarrow> if derived = summary then Inr () else Inl (TxErr ''ErrSummaryMismatch''))"

definition SignDoc ::
    "lib \<Rightarrow> UnsignedTx \<Rightarrow> string \<Rightarrow> uint64 \<Rightarrow> uint64 \<Rightarrow> Fee \<Rightarrow> bytes \<Rightarrow> err + (bytes \<times> SigningSummary \<times> UnsignedTx)" where
  "SignDoc L u chainID accountNumber sequence fee pubKey =
     (if u_fromBytes u = [] then Inl (TxErr ''ErrNotBuilt'')
      else if chainID = [] then Inl (TxErr ''ErrEmptyChainID'')
      else if fee_GasLimit fee = 0 then Inl (TxErr ''ErrInvalidGasLimit'')
      else case parseBaseUnits_tx L (fee_AmountBaseUnits fee) True of
        Inl e \<Rightarrow> Inl (TxErr ''ErrInvalidFee'')
      | Inr feeAmount \<Rightarrow>
        if \<not> compressedKey pubKey then Inl (TxErr ''ErrInvalidPubKey'')
        else if PubKeyAddress L pubKey \<noteq> u_fromBytes u then Inl (TxErr ''ErrPubKeyMismatch'')
        else case EncodeTx L
               \<lparr>ms_FromAddress = u_from u, ms_ToAddress = u_to u,
                ms_Amount = [\<lparr>c_Denom = Denom, c_Amount = Some (u_amount u)\<rparr>]\<rparr>
               (u_memo u) (fee_GasLimit fee)
               (if feeAmount = 0 then [] else [\<lparr>c_Denom = Denom, c_Amount = Some feeAmount\<rparr>])
               pubKey sequence of
          None \<Rightarrow> Inl (ErrOther ''encode'')
        | Some (bodyBytes, authInfoBytes) \<Rightarrow>
          case GetSignBytes L chainID accountNumber bodyBytes authInfoBytes of
            None \<Rightarrow> Inl (ErrOther ''sign bytes'')
          | Some signDocBytes \<Rightarrow>
            case DeriveSummary L signDocBytes of
              Inl e \<Rightarrow> Inl e
            | Inr summary \<Rightarrow>
              Inr (signDocBytes, summary, u\<lparr>u_pubKeyCompressed := pubKey, u_bodyBytes := bodyBytes,
                     u_authInfoBytes := authInfoBytes, u_signDocBytes := signDocBytes\<rparr>))"

definition Assemble :: "lib \<Rightarrow> UnsignedTx \<Rightarrow> SignatureResponse \<Rightarrow> err + (bytes \<times> string)" where
  "Assemble L u sig =
     (if u_fromBytes u = [] then Inl (TxErr ''ErrNotBuilt'')
      else if u_signDocBytes u = [] then Inl (TxErr ''ErrNoSignDoc'')
      else if \<not> compressedKey (sr_PubKeyCompressed sig) then Inl (TxErr ''ErrInvalidPubKey'')
      else if sr_PubKeyCompressed sig \<noteq> u_pubKeyCompressed u then Inl (TxErr ''ErrPubKeyMismatch'')
      else if length (sr_Signature sig) \<noteq> 64 then Inl (TxErr ''ErrInvalidSignature'')
      else if \<not> VerifySignature L (sr_PubKeyCompressed sig) (u_signDocBytes u) (sr_Signature sig)
        then Inl (TxErr ''ErrInvalidSignature'')
      else if PubKeyAddress L (sr_PubKeyCompressed sig) \<noteq> u_fromBytes u then Inl (TxErr ''ErrPubKeyMismatch'')
      else case MarshalTxRaw L (u_bodyBytes u) (u_authInfoBytes u) [sr_Signature sig] of
        None \<Rightarrow> Inl (ErrOther ''marshal'')
      | Some signedTxBytes \<Rightarrow> Inr (signedTxBytes, txHashOf signedTxBytes))"

section \<open>Facts\<close>

text \<open>
  Documented behaviour of the codec: the body and auth info it encodes decode
  to what was put in, and the sign bytes decode to their parts.
\<close>

definition codec_ok :: "lib \<Rightarrow> bool" where
  "codec_ok L \<longleftrightarrow>
     (\<forall>send memo gas feeCoins key seq b a. EncodeTx L send memo gas feeCoins key seq = Some (b, a) \<longrightarrow>
        (\<exists>v pkv. StrictTxBody L b = Some \<lparr>tb_Messages = [\<lparr>any_TypeUrl = MsgSendTypeURL, any_Value = v\<rparr>],
            tb_Memo = memo, tb_TimeoutHeight = 0, tb_Unordered = False, tb_TimeoutTimestamp = None,
            tb_ExtensionOptions = [], tb_NonCriticalExtensionOptions = []\<rparr> \<and>
          UnmarshalMsgSend L v = Some send \<and>
          StrictAuthInfo L a = Some \<lparr>ai_SignerInfos = [\<lparr>si_PublicKey = Some \<lparr>any_TypeUrl = secp256k1PubKeyTypeURL,
              any_Value = pkv\<rparr>, si_ModeInfo = Some (ModeSingle ''SIGN_MODE_DIRECT''), si_Sequence = seq\<rparr>],
            ai_Fee = Some \<lparr>f_Amount = feeCoins, f_GasLimit = gas, f_Payer = [], f_Granter = []\<rparr>, ai_Tip = False\<rparr> \<and>
          UnmarshalPubKey L pkv = Some key)) \<and>
     (\<forall>c n b a d. GetSignBytes L c n b a = Some d \<longrightarrow>
        StrictSignDoc L d = Some \<lparr>sd_BodyBytes = b, sd_AuthInfoBytes = a, sd_ChainId = c, sd_AccountNumber = n\<rparr>)"

text \<open>
  The account codec inverts itself on canonical addresses and \<open>NewIntFromString\<close>
  reads a digit string in its 256-bit range as its value.
\<close>

definition account_codec_ok :: "lib \<Rightarrow> bool" where
  "account_codec_ok L \<longleftrightarrow>
     (\<forall>s n. NewIntFromString L s = Some n \<longrightarrow> digits_re s \<longrightarrow> n = int (read_nat s))"

lemma BuildMsgSend_ok:
  "BuildMsgSend L from to amt memo = Inr u \<Longrightarrow>
     u_from u = from \<and> u_to u = to \<and> u_memo u = memo \<and> u_amount u \<noteq> 0 \<and>
     StringToBytes L from = Some (u_fromBytes u) \<and> BytesToString L (u_fromBytes u) = Some from \<and>
     length (u_fromBytes u) = 20 \<and> digits_re amt \<and> NewIntFromString L amt = Some (u_amount u)"
  by (auto simp: BuildMsgSend_def decodeAccountAddress_def parseBaseUnits_tx_def
      split: sum.splits option.splits if_splits)

lemma SignDoc_ok:
  "SignDoc L u c n q fee pk = Inr (d, sm, u') \<Longrightarrow>
     DeriveSummary L d = Inr sm \<and> u_signDocBytes u' = d \<and> u_pubKeyCompressed u' = pk \<and>
     u_fromBytes u' = u_fromBytes u \<and> PubKeyAddress L pk = u_fromBytes u \<and> compressedKey pk \<and>
     GetSignBytes L c n (u_bodyBytes u') (u_authInfoBytes u') = Some d \<and> c \<noteq> []"
  by (auto simp: SignDoc_def split: sum.splits option.splits if_splits prod.splits)

lemma Assemble_ok:
  "Assemble L u sig = Inr (b, h) \<Longrightarrow>
     h = txHashOf b \<and> MarshalTxRaw L (u_bodyBytes u) (u_authInfoBytes u) [sr_Signature sig] = Some b \<and>
     VerifySignature L (sr_PubKeyCompressed sig) (u_signDocBytes u) (sr_Signature sig) \<and>
     PubKeyAddress L (sr_PubKeyCompressed sig) = u_fromBytes u \<and> u_signDocBytes u \<noteq> [] \<and>
     sr_PubKeyCompressed sig = u_pubKeyCompressed u"
  by (auto simp: Assemble_def split: option.splits if_splits)

lemma summaryMessage_pos: "summaryMessage L body = Some (send, a) \<Longrightarrow> 0 < a"
  by (auto simp: summaryMessage_def split: if_splits list.splits option.splits)

lemma DeriveSummary_sound:
  "DeriveSummary L d = Inr sm \<Longrightarrow>
     \<exists>doc body ai send amount si f.
       StrictSignDoc L d = Some doc \<and> StrictTxBody L (sd_BodyBytes doc) = Some body \<and>
       StrictAuthInfo L (sd_AuthInfoBytes doc) = Some ai \<and> summaryMessage L body = Some (send, amount) \<and>
       ai_Fee ai = Some f \<and> summarySigner L (ms_FromAddress send) ai = Some si \<and>
       summaryFee ai = Some (ss_FeeBaseUnits sm) \<and>
       ss_ChainID sm = sd_ChainId doc \<and> ss_AccountNumber sm = show_u64 (sd_AccountNumber doc) \<and>
       ss_Sequence sm = show_u64 (si_Sequence si) \<and> ss_SenderAddress sm = ms_FromAddress send \<and>
       ss_RecipientAddress sm = ms_ToAddress send \<and> ss_AmountBaseUnits sm = show_int amount \<and> 0 < amount \<and>
       ss_Memo sm = tb_Memo body \<and> ss_GasLimit sm = show_u64 (f_GasLimit f) \<and>
       ss_Denom sm = Denom \<and> ss_MessageType sm = MsgSendTypeURL"
  by (auto simp: DeriveSummary_def malformed_def dest: summaryMessage_pos split: option.splits)

end
