(* ===== verification/Chain.thy ===== *)
theory Chain
  imports Store_Laws Tx
begin

text \<open>
  The boundary types of \<open>go/client\<close> and \<open>go/signer\<close>.  A node and a signer are
  environments: a record of the answers they give during one call of an
  operation.  Different calls get different records, so nothing is assumed of
  how the chain evolves between them.
\<close>

record TxInfo =
  ti_Height :: int64
  ti_Code :: uint32
  ti_RawLog :: string

record NodeStatus =
  ns_LatestHeight :: int64
  ns_CatchingUp :: bool

record SimulateResult =
  sm_GasWanted :: uint64
  sm_GasUsed :: uint64

record BroadcastResult =
  br_TxHash :: string
  br_Code :: uint32
  br_RawLog :: string
  br_Accepted :: bool

record chain =
  ch_Account :: "string \<Rightarrow> err + (uint64 \<times> uint64)"
  ch_Balance :: "string \<Rightarrow> string \<Rightarrow> err + int"
  ch_Tx :: "string \<Rightarrow> err + TxInfo option"
  ch_NodeStatus :: "err + NodeStatus"
  ch_Simulate :: "bytes \<Rightarrow> err + SimulateResult"
  ch_Broadcast :: "bytes \<Rightarrow> err + BroadcastResult"

record SigningRequest =
  sq_KeyRef :: string
  sq_SignMode :: string
  sq_SignDocBytes :: bytes
  sq_Summary :: SigningSummary

record signer =
  sg_GetPublicKey :: "string \<Rightarrow> err + bytes"
  sg_Sign :: "SigningRequest \<Rightarrow> err + SignatureResponse"

text \<open>\<open>info != nil && info.Height > 0\<close>\<close>

definition included :: "TxInfo option \<Rightarrow> bool" where
  "included info = (case info of None \<Rightarrow> False | Some i \<Rightarrow> sint (ti_Height i) > 0)"

end
