(* ===== verification/Fixtures.thy ===== *)
theory Fixtures
  imports Chain
begin

text \<open>
  Concrete values on which the properties are exercised: a withdrawal, its
  sequence reservation, a store that holds both, and a node that answers every
  query.  Nothing here models code.
\<close>

definition ex_wd :: "WithdrawalStatus \<Rightarrow> bytes \<Rightarrow> WithdrawalRecord" where
  "ex_wd st bz = \<lparr>w_WithdrawalID = ''w1'', w_IdempotencyKey = ''k1'', w_ChainID = ''sovr-1'',
     w_SourceAddress = ''hot'', w_DestinationAddress = ''dest'', w_Denom = ''usovr'',
     w_AmountBaseUnits = 100, w_Memo = ''m'', w_AccountNumber = Some 7, w_Sequence = Some 5,
     w_GasWanted = Some 10, w_GasLimit = Some 13, w_FeeAmountBaseUnits = Some 33,
     w_SignMode = ''SIGN_MODE_DIRECT'', w_SignedTxBytes = bz,
     w_TxHash = (if bz = [] then None else Some (txHashOf bz)),
     w_BlockHeight = None, w_TxCode = None, w_RawLog = [], w_Status = st,
     w_CreatedAt = 10, w_UpdatedAt = 20\<rparr>"

definition ex_res :: "SequenceReservationStatus \<Rightarrow> SequenceReservation" where
  "ex_res st = \<lparr>r_ID = 1, r_ChainID = ''sovr-1'', r_SourceAddress = ''hot'', r_AccountNumber = 7,
     r_Sequence = 5, r_WorkRef = WorkRef WorkWithdrawal ''w1'', r_Status = st,
     r_CreatedAt = 10, r_UpdatedAt = 20\<rparr>"

definition ex_store :: "WithdrawalStatus \<Rightarrow> bytes \<Rightarrow> SequenceReservationStatus \<Rightarrow> store" where
  "ex_store wst bz rst = empty_store\<lparr>t_withdrawals := [ex_wd wst bz], t_sequences := [ex_res rst]\<rparr>"

definition ex_chain :: "(string \<Rightarrow> err + TxInfo option) \<Rightarrow> chain" where
  "ex_chain txs = \<lparr>ch_Account = (\<lambda>a. Inr (7, 5)), ch_Balance = (\<lambda>a d. Inr 1000), ch_Tx = txs,
     ch_NodeStatus = Inr \<lparr>ns_LatestHeight = 50, ns_CatchingUp = False\<rparr>,
     ch_Simulate = (\<lambda>b. Inr \<lparr>sm_GasWanted = 0, sm_GasUsed = 10\<rparr>),
     ch_Broadcast = (\<lambda>b. Inr \<lparr>br_TxHash = ''HASH'', br_Code = 0, br_RawLog = [], br_Accepted = True\<rparr>)\<rparr>"

lemmas ex_defs = ex_wd_def ex_res_def ex_store_def ex_chain_def empty_store_def

lemma ex_store_uniq [simp]: "store_uniq (ex_store wst bz rst)"
  by (simp add: ex_defs store_uniq_def uniq_withdrawals_def uniq_sequences_def uniq_sweeps_def
      activeSweeps_def uniq_deposits_def uniq_ledger_def uniq_outbox_def)

end
