(* ===== verification/Sequences_Manager.thy ===== *)
theory Sequences_Manager
  imports Fixtures
begin

text \<open>
  \<open>go/sequences/manager.go\<close>: the durable sequence manager.  \<open>Reserve\<close> binds one
  slot to one work item, \<open>ReconcileAccount\<close> re-derives open reservations from
  chain truth, \<open>RebroadcastPersisted\<close> is the recovery path.  The theorems: a
  reservation is at or above the chain's sequence and distinct from every open
  one, reserving is idempotent per work item, a slot that a signature may
  redeem is never re-issued, and reconciliation cannot fail on a legal store.
\<close>

section \<open>Reserve\<close>

definition nextSequence :: "uint64 \<Rightarrow> SequenceReservation list \<Rightarrow> uint64" where
  "nextSequence chainSeq opn =
     foldl (\<lambda>nxt r. if r_Sequence r \<ge> nxt then r_Sequence r + 1 else nxt) chainSeq opn"

definition newReservation :: "string \<Rightarrow> string \<Rightarrow> uint64 \<Rightarrow> uint64 \<Rightarrow> WorkRef \<Rightarrow> SequenceReservation" where
  "newReservation chainID source accountNumber sequence ref =
     \<lparr>r_ID = 0, r_ChainID = chainID, r_SourceAddress = source, r_AccountNumber = accountNumber,
      r_Sequence = sequence, r_WorkRef = ref, r_Status = SequenceReservationStatusOther [],
      r_CreatedAt = 0, r_UpdatedAt = 0\<rparr>"

definition reserveTx ::
    "time \<Rightarrow> string \<Rightarrow> string \<Rightarrow> WorkRef \<Rightarrow> uint64 \<Rightarrow> uint64 \<Rightarrow> SequenceReservation option \<Rightarrow>
     (store, SequenceReservation) prog" where
  "reserveTx now chainID source ref accountNumber chainSeq existing =
     with_tx (bindE (sequenceRepo_ListUnconsumed chainID source) (\<lambda>opn.
       let nxt = nextSequence chainSeq opn in
       case existing of
         Some ex \<Rightarrow> if r_Sequence ex < chainSeq then throw ErrReleasedSlotUnusable
                    else sequenceRepo_Reserve now (newReservation chainID source accountNumber (r_Sequence ex) ref)
       | None \<Rightarrow> sequenceRepo_Reserve now (newReservation chainID source accountNumber nxt ref)))"

definition reserveNew ::
    "time \<Rightarrow> chain \<Rightarrow> string \<Rightarrow> string \<Rightarrow> WorkRef \<Rightarrow> SequenceReservation option \<Rightarrow>
     (store, SequenceReservation) prog" where
  "reserveNew now ch chainID source ref existing =
     bindE (liftR (ch_Account ch source)) (\<lambda>(accountNumber, chainSeq).
     bindE (tryE (reserveTx now chainID source ref accountNumber chainSeq existing)) (\<lambda>r. case r of
       Inr out \<Rightarrow> ret out
     | Inl e \<Rightarrow>
         if e = ErrDuplicate then
           bindE (tryE (sequenceRepo_GetByWorkRef ref)) (\<lambda>g. case g of
             Inr raced \<Rightarrow> ret raced
           | Inl _ \<Rightarrow> throw e)
         else throw e))"

definition Manager_Reserve ::
    "time \<Rightarrow> chain \<Rightarrow> string \<Rightarrow> string \<Rightarrow> WorkRef \<Rightarrow> (store, SequenceReservation) prog" where
  "Manager_Reserve now ch chainID source ref =
     (if \<not> enumValid (wr_Kind ref) AllWorkKinds \<or> wr_ID ref = [] then throw ErrInvalidRecord
      else bindE (tryE (sequenceRepo_GetByWorkRef ref)) (\<lambda>g. case g of
        Inr existing \<Rightarrow>
          if r_Status existing \<noteq> SequenceReleased then ret existing
          else reserveNew now ch chainID source ref (Some existing)
      | Inl e \<Rightarrow>
          if e \<noteq> ErrNotFound then throw e
          else reserveNew now ch chainID source ref None))"

section \<open>Reconciliation\<close>

record Action =
  a_ReservationID :: int
  a_WorkRef :: WorkRef
  a_Sequence :: uint64
  a_From :: SequenceReservationStatus
  a_To :: SequenceReservationStatus

record Report =
  rp_ChainID :: string
  rp_SourceAddress :: string
  rp_ChainSequence :: uint64
  rp_Actions :: "Action list"
  rp_Quarantined :: int
  rp_Released :: int
  rp_Consumed :: int

definition workFacts :: "WorkRef \<Rightarrow> (store, string \<times> bool) prog" where
  "workFacts ref = (case wr_Kind ref of
     WorkWithdrawal \<Rightarrow> bindE (withdrawalRepo_Get (wr_ID ref)) (\<lambda>w.
       ret (case w_TxHash w of None \<Rightarrow> [] | Some h \<Rightarrow> h, w_SignedTxBytes w \<noteq> []))
   | WorkSweep \<Rightarrow> bindE (sweepRepo_Get (wr_ID ref)) (\<lambda>j.
       ret (case j_TxHash j of None \<Rightarrow> [] | Some h \<Rightarrow> h, j_SignedTxBytes j \<noteq> []))
   | WorkKindOther _ \<Rightarrow> throw ErrInvalidRecord)"

text \<open>The answer of the transaction lookup, as the three cases \<open>resolve\<close> tells apart.\<close>

datatype lookup = LookupIncluded | LookupFailed | LookupAbsent

definition txLookup :: "chain \<Rightarrow> string \<Rightarrow> lookup" where
  "txLookup ch txHash =
     (if txHash = [] then LookupAbsent
      else case ch_Tx ch txHash of
        Inr info \<Rightarrow> if included info then LookupIncluded else LookupAbsent
      | Inl e \<Rightarrow> if e \<noteq> ClientErrNotFound then LookupFailed else LookupAbsent)"

definition resolve :: "chain \<Rightarrow> SequenceReservation \<Rightarrow> (store, SequenceReservationStatus) prog" where
  "resolve ch r =
     bindE (tryE (workFacts (r_WorkRef r))) (\<lambda>f. ret (case f of
       Inl e \<Rightarrow> SequenceReconciliationRequired
     | Inr (txHash, hasSigned) \<Rightarrow>
         (case txLookup ch txHash of
            LookupIncluded \<Rightarrow> SequenceConsumed
          | LookupFailed \<Rightarrow> SequenceReconciliationRequired
          | LookupAbsent \<Rightarrow>
              (case r_Status r of
                 SequenceReserved \<Rightarrow> if hasSigned then SequenceReconciliationRequired else SequenceReleased
               | SequenceSigned \<Rightarrow> SequenceReconciliationRequired
               | SequenceBroadcast \<Rightarrow> SequenceReconciliationRequired
               | st \<Rightarrow> st))))"

definition countAction :: "SequenceReservationStatus \<Rightarrow> Report \<Rightarrow> Report" where
  "countAction to rep = (case to of
      SequenceConsumed \<Rightarrow> rep\<lparr>rp_Consumed := rp_Consumed rep + 1\<rparr>
    | SequenceReleased \<Rightarrow> rep\<lparr>rp_Released := rp_Released rep + 1\<rparr>
    | SequenceReconciliationRequired \<Rightarrow> rep\<lparr>rp_Quarantined := rp_Quarantined rep + 1\<rparr>
    | _ \<Rightarrow> rep)"

definition reconcileOne :: "time \<Rightarrow> chain \<Rightarrow> Report \<Rightarrow> SequenceReservation \<Rightarrow> (store, Report) prog" where
  "reconcileOne now ch rep r =
     bindE (resolve ch r) (\<lambda>to.
     if to = r_Status r then ret rep
     else bindE (tryE (sequenceRepo_UpdateStatus now (r_ID r) (r_Status r) to)) (\<lambda>u. case u of
       Inl e \<Rightarrow> if e = ErrStatusConflict then ret rep else throw e
     | Inr _ \<Rightarrow> ret (countAction to (rep\<lparr>rp_Actions := rp_Actions rep @
         [\<lparr>a_ReservationID = r_ID r, a_WorkRef = r_WorkRef r, a_Sequence = r_Sequence r,
           a_From = r_Status r, a_To = to\<rparr>]\<rparr>))))"

definition Manager_ReconcileAccount :: "time \<Rightarrow> chain \<Rightarrow> string \<Rightarrow> string \<Rightarrow> (store, Report) prog" where
  "Manager_ReconcileAccount now ch chainID source =
     bindE (liftR (ch_Account ch source)) (\<lambda>(_, chainSeq).
     bindE (sequenceRepo_ListUnconsumed chainID source) (\<lambda>opn.
     foldE (reconcileOne now ch) opn
       \<lparr>rp_ChainID = chainID, rp_SourceAddress = source, rp_ChainSequence = chainSeq,
        rp_Actions = [], rp_Quarantined = 0, rp_Released = 0, rp_Consumed = 0\<rparr>))"

section \<open>Rebroadcast\<close>

record RebroadcastResult =
  rb_TxHash :: string
  rb_AlreadyIncluded :: bool
  rb_Height :: int64
  rb_Code :: uint32
  rb_RawLog :: string
  rb_Accepted :: bool

definition RebroadcastPersisted :: "chain \<Rightarrow> bytes \<Rightarrow> err + RebroadcastResult" where
  "RebroadcastPersisted ch signedTxBytes =
     (if signedTxBytes = [] then Inl ErrInvalidRecord
      else let hash = txHashOf signedTxBytes;
               push = (case ch_Broadcast ch signedTxBytes of
                   Inl e \<Rightarrow> Inl e
                 | Inr res \<Rightarrow> Inr \<lparr>rb_TxHash = br_TxHash res, rb_AlreadyIncluded = False, rb_Height = 0,
                     rb_Code = br_Code res, rb_RawLog = br_RawLog res, rb_Accepted = br_Accepted res\<rparr>)
      in case ch_Tx ch hash of
           Inr (Some info) \<Rightarrow>
             if sint (ti_Height info) > 0 then
               Inr \<lparr>rb_TxHash = hash, rb_AlreadyIncluded = True, rb_Height = ti_Height info,
                    rb_Code = ti_Code info, rb_RawLog = ti_RawLog info, rb_Accepted = False\<rparr>
             else push
         | Inr None \<Rightarrow> push
         | Inl e \<Rightarrow> if e \<noteq> ClientErrNotFound then Inl e else push)"

section \<open>The next sequence\<close>

lemma nextSequence_ge:
  assumes "\<forall>r \<in> set opn. r_Sequence r \<noteq> - 1"
  shows "c \<le> nextSequence c opn \<and> (\<forall>r \<in> set opn. r_Sequence r < nextSequence c opn)"
  using assms
proof (induction opn arbitrary: c)
  case (Cons r opn)
  let ?c = "if r_Sequence r \<ge> c then r_Sequence r + 1 else c"
  have step: "c \<le> ?c \<and> r_Sequence r < ?c"
  proof (cases "r_Sequence r \<ge> c")
    case True
    have "r_Sequence r \<noteq> - 1" using Cons.prems by simp
    then have "1 + r_Sequence r \<noteq> 0" by (metis add.commute eq_neg_iff_add_eq_0)
    then have "r_Sequence r < r_Sequence r + 1"
      using unatSuc [of "r_Sequence r"] by (simp add: word_less_nat_alt add.commute)
    then show ?thesis using True by simp
  next
    case False
    then show ?thesis by simp
  qed
  have IH: "?c \<le> nextSequence ?c opn \<and> (\<forall>x \<in> set opn. r_Sequence x < nextSequence ?c opn)"
    using Cons by simp
  have eq: "nextSequence c (r # opn) = nextSequence ?c opn" by (simp add: nextSequence_def)
  show ?case unfolding eq using step IH by (auto intro: less_le_trans order_trans)
qed (simp add: nextSequence_def)

section \<open>What a reservation is\<close>

definition reclaimed :: "time \<Rightarrow> SequenceReservation \<Rightarrow> SequenceReservation \<Rightarrow> SequenceReservation" where
  "reclaimed now r0 x = x\<lparr>r_AccountNumber := r_AccountNumber r0, r_WorkRef := r_WorkRef r0,
     r_Status := SequenceReserved, r_UpdatedAt := now\<rparr>"

lemma seq_reserve_cases:
  assumes "sequenceRepo_Reserve now r0 s = (Inr r, s')"
  obtains (reclaim) ex where "ex \<in> set (t_sequences s)" "slotOf ex = slotOf r0" "r_Status ex = SequenceReleased"
      "\<forall>x \<in> set (t_sequences s). r_WorkRef x = r_WorkRef r0 \<longrightarrow> r_ID x = r_ID ex"
      "r = reclaimed now r0 ex"
      "s' = t_sequences_update (map_where (\<lambda>x. r_ID x = r_ID ex \<and> r_Status x = SequenceReleased) (reclaimed now r0)) s"
    | (fresh) "\<forall>x \<in> set (t_sequences s). slotOf x \<noteq> slotOf r0"
      "\<forall>x \<in> set (t_sequences s). r_WorkRef x \<noteq> r_WorkRef r0"
      "r = r0\<lparr>r_Status := SequenceReserved, r_ID := nextRowID (map r_ID (t_sequences s)),
             r_CreatedAt := fmtTime now (r_CreatedAt r0), r_UpdatedAt := fmtTime now (r_UpdatedAt r0)\<rparr>"
      "s' = t_sequences_update (\<lambda>rows. rows @ [r]) s"
proof -
  let ?slot = "\<lambda>x. r_ChainID x = r_ChainID r0 \<and> r_SourceAddress x = r_SourceAddress r0 \<and> r_Sequence x = r_Sequence r0"
  have F: "reclaimed now r0 = (\<lambda>r. r\<lparr>r_AccountNumber := r_AccountNumber r0, r_WorkRef := r_WorkRef r0,
      r_Status := SequenceReserved, r_UpdatedAt := now\<rparr>)" by (simp add: reclaimed_def fun_eq_iff)
  show thesis
  proof (cases "find ?slot (t_sequences s)")
    case None
    then have free: "\<forall>x \<in> set (t_sequences s). slotOf x \<noteq> slotOf r0"
      using find_NoneD by (fastforce simp: slotOf_def)
    with None assms show thesis
      by (intro fresh)
        (auto simp: sequenceRepo_Reserve_def with_tx_ok_iff bindE_ok_iff thenE_ok_iff nextID_def
          insertRow_run Let_def split: if_splits)
  next
    case (Some ex)
    then have ex: "ex \<in> set (t_sequences s)" "?slot ex" using find_SomeD by fast+
    with assms Some show thesis
      by (intro reclaim [of ex])
        (auto simp: sequenceRepo_Reserve_def with_tx_ok_iff bindE_ok_iff thenE_ok_iff nextID_def
          execUpdate_run requireOneRow_run slotOf_def F Let_def split: if_splits)
  qed
qed

lemma seq_reserve_ok:
  assumes "sequenceRepo_Reserve now r0 s = (Inr r, s')"
  shows "r_Status r = SequenceReserved \<and> slotOf r = slotOf r0 \<and> r_WorkRef r = r_WorkRef r0 \<and>
    r_AccountNumber r = r_AccountNumber r0 \<and> r \<in> set (t_sequences s') \<and>
    (\<exists>f. s' = t_sequences_update f s)"
  using assms
proof (cases rule: seq_reserve_cases)
  case (reclaim ex)
  then show ?thesis by (auto simp: reclaimed_def slotOf_def set_map_where)
next
  case fresh
  then show ?thesis by (auto simp: slotOf_def)
qed

lemma seq_reserve_err: "sequenceRepo_Reserve now r0 s = (Inl e, s') \<Longrightarrow> s' = s"
  by (auto simp: sequenceRepo_Reserve_def run_defs Let_def split: if_splits option.splits)

lemma reserveTx_ok:
  assumes "reserveTx now c a ref an q ex s = (Inr r, s')"
  shows "r_Status r = SequenceReserved \<and> r_WorkRef r = ref \<and> r \<in> set (t_sequences s') \<and>
    r_ChainID r = c \<and> r_SourceAddress r = a \<and> r_AccountNumber r = an \<and>
    (\<exists>f. s' = t_sequences_update f s) \<and>
    r_Sequence r = (case ex of Some x \<Rightarrow> r_Sequence x | None \<Rightarrow>
      nextSequence q (sort_key (\<lambda>r. sint (r_Sequence r)) (filter (openReservation c a) (t_sequences s)))) \<and>
    (\<forall>x. ex = Some x \<longrightarrow> q \<le> r_Sequence x)"
  using assms
  by (auto simp: reserveTx_def with_tx_ok_iff bindE_ok_iff sequenceRepo_ListUnconsumed_def
      newReservation_def slotOf_def split: option.splits if_splits dest!: seq_reserve_ok)

lemma reserveTx_err: "reserveTx now c a ref an q ex s = (Inl e, s') \<Longrightarrow> s' = s"
  by (auto simp: reserveTx_def with_tx_err_iff)

lemma uniq_reads:
  "stays uniq_rel (withdrawalRepo_Get k)" "stays uniq_rel (sweepRepo_Get k)"
  "stays uniq_rel (sequenceRepo_GetByWorkRef ref)" "stays uniq_rel (sequenceRepo_ListUnconsumed c a)"
  "stays uniq_rel (withdrawalRepo_GetByIdempotencyKey k)" "stays uniq_rel (controlsRepo_Get c)"
  "stays uniq_rel (withdrawalRepo_SumCommittedBySource c a)"
  by (rule uq.stays_unchanged, simp add: reads_unchanged)+

lemma uniq_reserve_manager [uniq_ops]: "stays uniq_rel (Manager_Reserve now ch c a ref)"
  unfolding Manager_Reserve_def reserveNew_def reserveTx_def
  by (intro uq.stays_rules uniq_reads uniq_seq_reserve)

lemma reserveNew_ok:
  assumes "reserveNew now ch c a ref ex s = (Inr r, s')"
  obtains (tx) an q where "ch_Account ch a = Inr (an, q)" "reserveTx now c a ref an q ex s = (Inr r, s')"
    | (raced) "s' = s" "find (\<lambda>r. r_WorkRef r = ref) (t_sequences s) = Some r"
        "\<exists>an q. fst (reserveTx now c a ref an q ex s) = Inl ErrDuplicate"
proof -
  from assms obtain an q where acc: "ch_Account ch a = Inr (an, q)"
    by (auto simp: reserveNew_def bindE_ok_iff split: prod.splits)
  show thesis
  proof (cases "reserveTx now c a ref an q ex s")
    case (Pair res t)
    show thesis
    proof (cases res)
      case (Inr out)
      then show thesis using assms acc Pair
        by (intro tx [of an q]) (auto simp: reserveNew_def bindE_ok_iff tryE_run)
    next
      case (Inl e)
      then have "t = s" using Pair reserveTx_err by blast
      then have "s' = s" "find (\<lambda>r. r_WorkRef r = ref) (t_sequences s) = Some r" "e = ErrDuplicate"
        using assms acc Pair Inl
        by (auto simp: reserveNew_def bindE_ok_iff tryE_run sequenceRepo_GetByWorkRef_def queryRow_run
            split: if_splits option.splits)
      then show thesis using Pair Inl by (intro raced) (simp_all, metis fst_conv)
    qed
  qed
qed

lemma GetByWorkRef_run:
  "sequenceRepo_GetByWorkRef ref s = (case find (\<lambda>r. r_WorkRef r = ref) (t_sequences s) of
     None \<Rightarrow> (Inl ErrNotFound, s) | Some r \<Rightarrow> (Inr r, s))"
  by (simp add: sequenceRepo_GetByWorkRef_def queryRow_run)

lemma Manager_Reserve_run:
  assumes "enumValid (wr_Kind ref) AllWorkKinds" "wr_ID ref \<noteq> []"
  shows "Manager_Reserve now ch c a ref s = (case find (\<lambda>r. r_WorkRef r = ref) (t_sequences s) of
     None \<Rightarrow> reserveNew now ch c a ref None s
   | Some ex \<Rightarrow> if r_Status ex \<noteq> SequenceReleased then (Inr ex, s) else reserveNew now ch c a ref (Some ex) s)"
  using assms by (auto simp: Manager_Reserve_def bindE_def tryE_run GetByWorkRef_run split: option.splits)

lemma Manager_Reserve_guard:
  "Manager_Reserve now ch c a ref s = (Inr r, s') \<Longrightarrow> enumValid (wr_Kind ref) AllWorkKinds \<and> wr_ID ref \<noteq> []"
  by (auto simp: Manager_Reserve_def split: if_splits)

text \<open>
  \<open>Reserve\<close> for a work item that has no reservation yet binds it to a slot at
  or above the sequence the chain reports and above every open reservation of
  the account, in status \<open>RESERVED\<close>, and the row is in the store.  (The chain
  sequence and the stored ones are below the last 64-bit number.)
\<close>

theorem reserve_fresh_slot:
  assumes ok: "Manager_Reserve now ch c a ref s = (Inr r, s')"
    and acc: "ch_Account ch a = Inr (an, q)"
    and new: "\<forall>x \<in> set (t_sequences s). r_WorkRef x \<noteq> ref"
    and small: "\<forall>x \<in> set (t_sequences s). r_Sequence x \<noteq> - 1"
  shows "r_WorkRef r = ref \<and> r_Status r = SequenceReserved \<and> r \<in> set (t_sequences s') \<and>
    r_AccountNumber r = an \<and> q \<le> r_Sequence r \<and>
    (\<forall>x \<in> set (t_sequences s). openReservation c a x \<longrightarrow> r_Sequence x < r_Sequence r)"
proof -
  have none: "find (\<lambda>r. r_WorkRef r = ref) (t_sequences s) = None"
    using new by (simp add: find_None_iff)
  have "reserveNew now ch c a ref None s = (Inr r, s')"
    using ok none Manager_Reserve_run [of ref] Manager_Reserve_guard [OF ok] by simp
  then have tx: "reserveTx now c a ref an q None s = (Inr r, s')"
    using acc none by (cases rule: reserveNew_ok) auto
  let ?opn = "sort_key (\<lambda>r. sint (r_Sequence r)) (filter (openReservation c a) (t_sequences s))"
  have "q \<le> nextSequence q ?opn \<and> (\<forall>x \<in> set ?opn. r_Sequence x < nextSequence q ?opn)"
    by (rule nextSequence_ge) (use small in auto)
  then show ?thesis using reserveTx_ok [OF tx] by auto
qed

theorem reserve_fresh_slot_witness:
  "Manager_Reserve 30 (ex_chain (\<lambda>h. Inr None)) ''sovr-1'' ''hot'' (WorkRef WorkWithdrawal ''w2'')
     (ex_store WithdrawalSequenceReserved [] SequenceReserved) =
     (Inr \<lparr>r_ID = 2, r_ChainID = ''sovr-1'', r_SourceAddress = ''hot'', r_AccountNumber = 7, r_Sequence = 6,
        r_WorkRef = WorkRef WorkWithdrawal ''w2'', r_Status = SequenceReserved, r_CreatedAt = 30, r_UpdatedAt = 30\<rparr>,
      (ex_store WithdrawalSequenceReserved [] SequenceReserved)\<lparr>t_sequences := [ex_res SequenceReserved,
        \<lparr>r_ID = 2, r_ChainID = ''sovr-1'', r_SourceAddress = ''hot'', r_AccountNumber = 7, r_Sequence = 6,
        r_WorkRef = WorkRef WorkWithdrawal ''w2'', r_Status = SequenceReserved, r_CreatedAt = 30, r_UpdatedAt = 30\<rparr>]\<rparr>)
   \<and> (5 :: uint64) \<le> 6" (is "?run \<and> _")
proof -
  have run: ?run by code_simp
  show ?thesis using run reserve_fresh_slot [OF run] by (simp add: ex_defs)
qed

lemma released_slot_rebinds:
  assumes uq: "store_uniq s" and ex: "ex \<in> set (t_sequences s)" "r_WorkRef ex = ref"
    and acc: "r_ChainID ex = c" "r_SourceAddress ex = a" and rel: "r_Status ex = SequenceReleased"
  shows "fst (reserveTx now c a ref an q (Some ex) s) \<noteq> Inl ErrDuplicate"
proof -
  have one: "x = ex" if "x \<in> set (t_sequences s)" "r_WorkRef x = ref" for x
    using that ex uq by (auto simp: store_uniq_def uniq_sequences_def dest: distinct_map_inj)
  have same: "x = ex" if "x \<in> set (t_sequences s)" "slotOf x = slotOf ex" for x
    using that ex uq by (auto simp: store_uniq_def uniq_sequences_def dest: distinct_map_inj)
  have "find (\<lambda>r. r_ChainID r = c \<and> r_SourceAddress r = a \<and> r_Sequence r = r_Sequence ex) (t_sequences s) = Some ex"
    using find_key_distinct [of slotOf "t_sequences s" ex "slotOf ex"] uq ex(1) acc
    by (simp add: store_uniq_def uniq_sequences_def slotOf_def)
  moreover have "\<not> (\<exists>r \<in> set (t_sequences s). r_ID r \<noteq> r_ID ex \<and> r_WorkRef r = ref)"
    using one by auto
  ultimately show ?thesis using rel
    by (auto simp: reserveTx_def run_defs sequenceRepo_ListUnconsumed_def newReservation_def
        sequenceRepo_Reserve_def Let_def split: if_splits)
qed

text \<open>
  Reserving is idempotent per work item: after a call that returned a
  reservation, every later call for the same work item returns that very
  reservation and changes nothing, whatever the chain answers by then.
\<close>

theorem reserve_again:
  assumes uq: "store_uniq s" and ok: "Manager_Reserve now ch c a ref s = (Inr r, s')"
    and same: "\<forall>x \<in> set (t_sequences s). r_WorkRef x = ref \<longrightarrow> r_ChainID x = c \<and> r_SourceAddress x = a"
  shows "Manager_Reserve now' ch' c a ref s' = (Inr r, s')"
proof -
  note g = Manager_Reserve_guard [OF ok]
  have done_: "Manager_Reserve now' ch' c a ref t = (Inr x, t)"
    if "x \<in> set (t_sequences t)" "store_uniq t" "r_WorkRef x = ref" "r_Status x \<noteq> SequenceReleased" for x t
    using that find_key_distinct [of r_WorkRef "t_sequences t" x ref] g Manager_Reserve_run [of ref]
    by (simp add: store_uniq_def uniq_sequences_def)
  have step: "store_uniq s'"
    using uq staysD [OF uniq_reserve_manager ok] by (simp add: uniq_rel_def)
  have bound: ?thesis if "reserveTx now c a ref an q e s = (Inr r, s')" for an q e
    by (rule done_) (use reserveTx_ok [OF that] step in auto)
  show ?thesis
  proof (cases "find (\<lambda>r. r_WorkRef r = ref) (t_sequences s)")
    case None
    then have "reserveNew now ch c a ref None s = (Inr r, s')" using ok g Manager_Reserve_run [of ref] by simp
    then show ?thesis
    proof (cases rule: reserveNew_ok)
      case (tx an q)
      then show ?thesis using bound by blast
    qed (use None in simp)
  next
    case (Some ex)
    then have ex: "ex \<in> set (t_sequences s)" "r_WorkRef ex = ref" using find_SomeD by fast+
    show ?thesis
    proof (cases "r_Status ex = SequenceReleased")
      case True
      then have "reserveNew now ch c a ref (Some ex) s = (Inr r, s')"
        using ok g Manager_Reserve_run [of ref] Some by simp
      then show ?thesis
      proof (cases rule: reserveNew_ok)
        case (tx an q)
        then show ?thesis using bound by blast
      next
        case raced
        then show ?thesis using released_slot_rebinds [OF uq ex] same ex True by auto
      qed
    next
      case False
      then show ?thesis using ok g Manager_Reserve_run [of ref] Some done_ [OF ex(1) uq ex(2)] by simp
    qed
  qed
qed

section \<open>Redeemable slots are never re-issued\<close>

text \<open>
  A slot is redeemable when a signature for it may exist: its reservation has
  left \<open>RESERVED\<close> other than by a release.  \<open>slot_rel\<close> says that such a slot keeps
  its row, its work item and its account for ever.
\<close>

definition redeemable :: "SequenceReservationStatus \<Rightarrow> bool" where
  "redeemable st \<longleftrightarrow> st \<in> {SequenceSigned, SequenceBroadcast, SequenceReconciliationRequired, SequenceConsumed}"

definition same_binding :: "SequenceReservation \<Rightarrow> SequenceReservation \<Rightarrow> bool" where
  "same_binding r r' \<longleftrightarrow> r_ID r' = r_ID r \<and> slotOf r' = slotOf r \<and> r_WorkRef r' = r_WorkRef r \<and>
     r_AccountNumber r' = r_AccountNumber r"

definition slot_rel :: "store \<Rightarrow> store \<Rightarrow> bool" where
  "slot_rel s t \<longleftrightarrow> (\<forall>r \<in> set (t_sequences s). redeemable (r_Status r) \<longrightarrow>
     (\<exists>r' \<in> set (t_sequences t). same_binding r r' \<and> redeemable (r_Status r')))"

interpretation sl: step_rel slot_rel
proof unfold_locales
  fix s t u
  assume st: "slot_rel s t" and tu: "slot_rel t u"
  show "slot_rel s u" unfolding slot_rel_def
  proof (intro ballI impI)
    fix r assume "r \<in> set (t_sequences s)" "redeemable (r_Status r)"
    then obtain r' where "r' \<in> set (t_sequences t)" "same_binding r r'" "redeemable (r_Status r')"
      using st by (auto simp: slot_rel_def)
    moreover from this obtain r'' where "r'' \<in> set (t_sequences u)" "same_binding r' r''" "redeemable (r_Status r'')"
      using tu by (auto simp: slot_rel_def)
    ultimately show "\<exists>x \<in> set (t_sequences u). same_binding r x \<and> redeemable (r_Status x)"
      by (auto simp: same_binding_def intro!: bexI [of _ r''])
  qed
qed (auto simp: slot_rel_def same_binding_def)

lemma slot_rel_other: "t_sequences t = t_sequences s \<Longrightarrow> slot_rel s t"
  by (auto simp: slot_rel_def same_binding_def)

lemma slot_rel_map_where:
  assumes "\<And>r. p r \<Longrightarrow> redeemable (r_Status r) \<Longrightarrow> same_binding r (f r) \<and> redeemable (r_Status (f r))"
  shows "slot_rel s (t_sequences_update (map_where p f) s)"
  unfolding slot_rel_def
proof (intro ballI impI)
  fix r assume r: "r \<in> set (t_sequences s)" "redeemable (r_Status r)"
  let ?r = "if p r then f r else r"
  have "same_binding r ?r \<and> redeemable (r_Status ?r)"
    using assms r(2) by (auto simp: same_binding_def)
  moreover have "?r \<in> set (map_where p f (t_sequences s))" using r(1) by (rule map_where_in)
  ultimately show "\<exists>r' \<in> set (t_sequences (t_sequences_update (map_where p f) s)).
      same_binding r r' \<and> redeemable (r_Status r')" by auto
qed

lemma redeemable_stays: "seq_edge from to \<Longrightarrow> redeemable from \<Longrightarrow> to \<noteq> SequenceReleased \<Longrightarrow> redeemable to"
  by (cases "from") (auto simp: redeemable_def)

named_theorems slot_ops

lemma slot_seq_update_s:
  assumes "sequenceRepo_UpdateStatus now k from to s = (r, s')"
    and "to = SequenceReleased \<Longrightarrow> from = SequenceReserved"
  shows "slot_rel s s'"
proof (cases r)
  case (Inl e)
  then show ?thesis using assms seq_update_err sl.R_refl by blast
next
  case (Inr u)
  then have e: "seq_edge from to" and s': "s' = t_sequences_update (map_where (\<lambda>r. r_ID r = k \<and> r_Status r = from)
            (\<lambda>r. r\<lparr>r_Status := to, r_UpdatedAt := now\<rparr>)) s"
    using assms seq_update_ok_iff by auto
  show ?thesis unfolding s'
  proof (rule slot_rel_map_where)
    fix r :: SequenceReservation assume r: "r_ID r = k \<and> r_Status r = from" "redeemable (r_Status r)"
    then have "to \<noteq> SequenceReleased" using assms(2) by (auto simp: redeemable_def)
    then have "redeemable to" using redeemable_stays [OF e] r by simp
    then show "same_binding r (r\<lparr>r_Status := to, r_UpdatedAt := now\<rparr>) \<and>
        redeemable (r_Status (r\<lparr>r_Status := to, r_UpdatedAt := now\<rparr>))"
      by (simp add: same_binding_def slotOf_def)
  qed
qed

lemma slot_seq_update [slot_ops]:
  "(to = SequenceReleased \<Longrightarrow> from = SequenceReserved) \<Longrightarrow> stays slot_rel (sequenceRepo_UpdateStatus now k from to)"
  unfolding stays_def using slot_seq_update_s by (metis prod.collapse)

lemma slot_seq_reserve [slot_ops]: "stays slot_rel (sequenceRepo_Reserve now r0)"
proof (rule stays_cases)
  fix s r s'
  assume "sequenceRepo_Reserve now r0 s = (Inr r, s')"
  then show "slot_rel s s'"
  proof (cases rule: seq_reserve_cases)
    case (reclaim ex)
    then show ?thesis by (auto intro!: slot_rel_map_where simp: redeemable_def)
  next
    case fresh
    then show ?thesis by (auto simp: slot_rel_def same_binding_def)
  qed
next
  fix s e s'
  assume "sequenceRepo_Reserve now r0 s = (Inl e, s')"
  then show "slot_rel s s'" using seq_reserve_err sl.R_refl by blast
qed

lemma slot_reads:
  "stays slot_rel (withdrawalRepo_Get k)" "stays slot_rel (sweepRepo_Get k)"
  "stays slot_rel (sequenceRepo_GetByWorkRef ref)" "stays slot_rel (sequenceRepo_ListUnconsumed c a)"
  "stays slot_rel (withdrawalRepo_GetByIdempotencyKey k)" "stays slot_rel (controlsRepo_Get c)"
  "stays slot_rel (withdrawalRepo_SumCommittedBySource c a)" "stays slot_rel (reviewRepo_Get i)"
  "stays slot_rel (depositRepo_GetByID i)"
  by (rule sl.stays_unchanged, simp add: reads_unchanged)+

lemma slot_manager_reserve [slot_ops]: "stays slot_rel (Manager_Reserve now ch c a ref)"
  unfolding Manager_Reserve_def reserveNew_def reserveTx_def
  by (intro sl.stays_rules slot_reads slot_seq_reserve)

section \<open>Reconciliation acts on facts\<close>

lemma workFacts_unchanged [simp]: "snd (workFacts ref s) = s"
  by (auto simp: workFacts_def bindE_def withdrawalRepo_Get_def sweepRepo_Get_def queryRow_run
      split: WorkKind.splits option.splits)

definition workState :: "store \<Rightarrow> WorkRef \<Rightarrow> err + (string \<times> bool)" where
  "workState s ref = fst (workFacts ref s)"

lemma workState_sequences: "workState (t_sequences_update f s) ref = workState s ref"
  by (auto simp: workState_def workFacts_def bindE_def withdrawalRepo_Get_def sweepRepo_Get_def queryRow_run
      split: WorkKind.splits option.splits)

definition resolveTo :: "chain \<Rightarrow> SequenceReservationStatus \<Rightarrow> err + (string \<times> bool) \<Rightarrow> SequenceReservationStatus" where
  "resolveTo ch st f = (case f of
       Inl e \<Rightarrow> SequenceReconciliationRequired
     | Inr (txHash, hasSigned) \<Rightarrow>
         (case txLookup ch txHash of
            LookupIncluded \<Rightarrow> SequenceConsumed
          | LookupFailed \<Rightarrow> SequenceReconciliationRequired
          | LookupAbsent \<Rightarrow>
              (case st of
                 SequenceReserved \<Rightarrow> if hasSigned then SequenceReconciliationRequired else SequenceReleased
               | SequenceSigned \<Rightarrow> SequenceReconciliationRequired
               | SequenceBroadcast \<Rightarrow> SequenceReconciliationRequired
               | st \<Rightarrow> st)))"

lemma resolve_run: "resolve ch r s = (Inr (resolveTo ch (r_Status r) (workState s (r_WorkRef r))), s)"
  by (simp add: resolve_def bindE_def tryE_run resolveTo_def workState_def)

lemma resolveTo_released:
  "resolveTo ch st f = SequenceReleased \<Longrightarrow> st \<noteq> SequenceReleased \<Longrightarrow>
   st = SequenceReserved \<and> (\<exists>h. f = Inr (h, False) \<and> txLookup ch h = LookupAbsent)"
  by (auto simp: resolveTo_def split: sum.splits lookup.splits SequenceReservationStatus.splits if_splits)

lemma resolveTo_consumed:
  "resolveTo ch st f = SequenceConsumed \<Longrightarrow> st \<noteq> SequenceConsumed \<Longrightarrow>
   \<exists>h b. f = Inr (h, b) \<and> txLookup ch h = LookupIncluded"
  by (auto simp: resolveTo_def split: sum.splits lookup.splits SequenceReservationStatus.splits if_splits)

lemma txLookup_included: "txLookup ch h = LookupIncluded \<longleftrightarrow> h \<noteq> [] \<and> (\<exists>i. ch_Tx ch h = Inr i \<and> included i)"
  by (auto simp: txLookup_def split: sum.splits if_splits)

lemma reconcileOne_snd:
  "snd (reconcileOne now ch rep r s) =
     (let to = resolveTo ch (r_Status r) (workState s (r_WorkRef r)) in
      if to = r_Status r then s else snd (sequenceRepo_UpdateStatus now (r_ID r) (r_Status r) to s))"
  by (auto simp: reconcileOne_def resolve_run bindE_def tryE_run Let_def split: sum.splits)

lemma slot_reconcileOne: "stays slot_rel (reconcileOne now ch rep r)"
  unfolding stays_def
proof
  fix s
  let ?to = "resolveTo ch (r_Status r) (workState s (r_WorkRef r))"
  have "slot_rel s (snd (sequenceRepo_UpdateStatus now (r_ID r) (r_Status r) ?to s))" if "?to \<noteq> r_Status r"
    by (rule slot_seq_update_s [OF surjective_pairing]) (use resolveTo_released that in metis)
  then show "slot_rel s (snd (reconcileOne now ch rep r s))"
    by (simp add: reconcileOne_snd Let_def sl.R_refl)
qed

lemma slot_manager_reconcile [slot_ops]: "stays slot_rel (Manager_ReconcileAccount now ch c a)"
  unfolding Manager_ReconcileAccount_def
  by (intro sl.stays_rules slot_reads slot_reconcileOne)

lemma uniq_manager_reconcile [uniq_ops]: "stays uniq_rel (Manager_ReconcileAccount now ch c a)"
proof -
  have "stays uniq_rel (resolve ch r)" for r by (rule uq.stays_unchanged) (simp add: resolve_run)
  then have "stays uniq_rel (reconcileOne now ch rep r)" for rep r
    unfolding reconcileOne_def by (intro uq.stays_rules uniq_seq_update)
  then show ?thesis unfolding Manager_ReconcileAccount_def
    by (intro uq.stays_rules uniq_reads)
qed

text \<open>When an action of a reconciliation pass is justified by what the store and the chain say.\<close>

definition justified :: "chain \<Rightarrow> store \<Rightarrow> Action \<Rightarrow> bool" where
  "justified ch s act \<longleftrightarrow>
     a_To act \<in> {SequenceConsumed, SequenceReleased, SequenceReconciliationRequired} \<and>
     (a_To act = SequenceReleased \<longrightarrow> a_From act = SequenceReserved \<and>
        (\<exists>h. workState s (a_WorkRef act) = Inr (h, False))) \<and>
     (a_To act = SequenceConsumed \<longrightarrow>
        (\<exists>h b i. workState s (a_WorkRef act) = Inr (h, b) \<and> h \<noteq> [] \<and> ch_Tx ch h = Inr i \<and> included i))"

abbreviation open_status :: "SequenceReservationStatus \<Rightarrow> bool" where
  "open_status st \<equiv> st \<in> {SequenceReserved, SequenceSigned, SequenceBroadcast, SequenceReconciliationRequired}"

lemma resolveTo_justified:
  assumes "resolveTo ch st (workState s ref) = to" "to \<noteq> st" "open_status st"
  shows "justified ch s \<lparr>a_ReservationID = i, a_WorkRef = ref, a_Sequence = q, a_From = st, a_To = to\<rparr>"
proof -
  have "to \<in> {SequenceConsumed, SequenceReleased, SequenceReconciliationRequired}"
    using assms by (auto simp: resolveTo_def split: sum.splits lookup.splits if_splits)
  then show ?thesis
    using assms resolveTo_released [of ch st "workState s ref"] resolveTo_consumed [of ch st "workState s ref"]
    by (auto simp: justified_def txLookup_included)
qed

lemma reconcileOne_ok:
  assumes "reconcileOne now ch rep r t = (Inr rep', t')"
  shows "(rep' = rep \<and> t' = t) \<or> (\<exists>to. to = resolveTo ch (r_Status r) (workState t (r_WorkRef r)) \<and> to \<noteq> r_Status r \<and>
     sequenceRepo_UpdateStatus now (r_ID r) (r_Status r) to t = (Inr (), t') \<and>
     rp_Actions rep' = rp_Actions rep @ [\<lparr>a_ReservationID = r_ID r, a_WorkRef = r_WorkRef r,
       a_Sequence = r_Sequence r, a_From = r_Status r, a_To = to\<rparr>])"
proof -
  let ?to = "resolveTo ch (r_Status r) (workState t (r_WorkRef r))"
  have count: "rp_Actions (countAction to x) = rp_Actions x" for to x
    by (simp add: countAction_def split: SequenceReservationStatus.splits)
  show ?thesis
  proof (cases "sequenceRepo_UpdateStatus now (r_ID r) (r_Status r) ?to t")
    case (Pair u t'')
    then show ?thesis using assms seq_update_err [of now "r_ID r" "r_Status r" ?to t]
      by (cases u) (auto simp: reconcileOne_def resolve_run bindE_def tryE_run count split: if_splits)
  qed
qed

lemma reconcile_fold_justified:
  assumes "foldE (reconcileOne now ch) opn rep t = (Inr rep', t')"
    and "\<forall>ref. workState t ref = workState s ref" "\<forall>r \<in> set opn. open_status (r_Status r)"
    and "\<forall>act \<in> set (rp_Actions rep). justified ch s act"
  shows "\<forall>act \<in> set (rp_Actions rep'). justified ch s act"
  using assms
proof (induction opn arbitrary: rep t)
  case (Cons r opn)
  then obtain rep1 t1 where one: "reconcileOne now ch rep r t = (Inr rep1, t1)"
    and rest: "foldE (reconcileOne now ch) opn rep1 t1 = (Inr rep', t')"
    by (auto simp: bindE_ok_iff)
  have "(\<forall>ref. workState t1 ref = workState s ref) \<and> (\<forall>act \<in> set (rp_Actions rep1). justified ch s act)"
    using reconcileOne_ok [OF one] Cons.prems(2-4)
    by (auto simp: seq_update_ok_iff workState_sequences intro!: resolveTo_justified)
  then show ?case using Cons.IH [OF rest] Cons.prems(3) by simp
qed simp

lemma open_valid:
  assumes "openReservation c a r" "enumValid (r_Status r) AllSequenceReservationStatuses"
  shows "open_status (r_Status r)"
  using assms by (auto simp: openReservation_def enum_defs)

text \<open>
  The shape of a store in which a pass cannot fail: known statuses (the schema's
  \<open>CHECK\<close>) and no transaction hash on the work item of an unsigned reservation.
\<close>

definition seq_wf :: "store \<Rightarrow> bool" where
  "seq_wf s \<longleftrightarrow> (\<forall>r \<in> set (t_sequences s). enumValid (r_Status r) AllSequenceReservationStatuses \<and>
     (r_Status r = SequenceReserved \<longrightarrow> (\<forall>h b. workState s (r_WorkRef r) = Inr (h, b) \<longrightarrow> h = [])))"

abbreviation settled :: "SequenceReservationStatus \<Rightarrow> bool" where
  "settled st \<equiv> st \<in> {SequenceConsumed, SequenceReleased, SequenceReconciliationRequired}"

lemma resolveTo_legal:
  assumes "open_status st" "st = SequenceReserved \<longrightarrow> (\<forall>h b. f = Inr (h, b) \<longrightarrow> h = [])"
  shows "settled (resolveTo ch st f) \<and> (resolveTo ch st f = st \<or> seq_edge st (resolveTo ch st f))"
  using assms by (auto simp: resolveTo_def txLookup_def split: sum.splits lookup.splits if_splits)

lemma reconcileOne_settles:
  assumes r: "r \<in> set (t_sequences s)" and uq: "distinct (map r_ID (t_sequences s))"
    and st: "open_status (r_Status r)"
    and nohash: "r_Status r = SequenceReserved \<longrightarrow> (\<forall>h b. workState s (r_WorkRef r) = Inr (h, b) \<longrightarrow> h = [])"
  shows "\<exists>rep' s' f. reconcileOne now ch rep r s = (Inr rep', s') \<and>
    t_sequences s' = map_where (\<lambda>x. r_ID x = r_ID r) f (t_sequences s) \<and>
    (\<forall>ref. workState s' ref = workState s ref) \<and>
    (\<forall>x. r_ID (f x) = r_ID x \<and> slotOf (f x) = slotOf x) \<and> settled (r_Status (f r))"
proof -
  let ?to = "resolveTo ch (r_Status r) (workState s (r_WorkRef r))"
  note leg = resolveTo_legal [OF st nohash, of ch]
  show ?thesis
  proof (cases "?to = r_Status r")
    case True
    then have "reconcileOne now ch rep r s = (Inr rep, s)"
      by (simp add: reconcileOne_def resolve_run bindE_def)
    moreover have "t_sequences s = map_where (\<lambda>x. r_ID x = r_ID r) id (t_sequences s)"
      by (simp add: map_where_def map_idI)
    ultimately show ?thesis using leg True by (metis id_apply)
  next
    case False
    let ?f = "\<lambda>x. x\<lparr>r_Status := ?to, r_UpdatedAt := now\<rparr>"
    let ?s' = "t_sequences_update (map_where (\<lambda>x. r_ID x = r_ID r \<and> r_Status x = r_Status r) ?f) s"
    have fd: "find (\<lambda>x. r_ID x = r_ID r) (t_sequences s) = Some r"
      using r uq by (simp add: find_key_distinct)
    have rows: "t_sequences ?s' = map_where (\<lambda>x. r_ID x = r_ID r) ?f (t_sequences s)"
      unfolding map_where_def using uq r by (auto dest: distinct_map_inj)
    have "sequenceRepo_UpdateStatus now (r_ID r) (r_Status r) ?to s = (Inr (), ?s')"
      using seq_update_ok_iff [of now "r_ID r" "r_Status r" ?to s] fd leg False by simp
    then obtain rep' where "reconcileOne now ch rep r s = (Inr rep', ?s')"
      using False by (simp add: reconcileOne_def resolve_run bindE_def tryE_run)
    moreover have "\<forall>x. r_ID (?f x) = r_ID x \<and> slotOf (?f x) = slotOf x" by (simp add: slotOf_def)
    moreover have "settled (r_Status (?f r))" using leg by simp
    ultimately show ?thesis using rows workState_sequences by blast
  qed
qed

lemma reconcile_fold_settles:
  assumes "distinct (map r_ID opn)" "\<forall>r \<in> set opn. r \<in> set (t_sequences s) \<and> open_status (r_Status r) \<and>
      (r_Status r = SequenceReserved \<longrightarrow> (\<forall>h b. workState s (r_WorkRef r) = Inr (h, b) \<longrightarrow> h = []))"
    and "distinct (map r_ID (t_sequences s))"
  shows "\<exists>rep' s'. foldE (reconcileOne now ch) opn rep s = (Inr rep', s') \<and> (\<forall>ref. workState s' ref = workState s ref) \<and>
    (\<forall>x' \<in> set (t_sequences s'). \<exists>x \<in> set (t_sequences s). r_ID x' = r_ID x \<and> slotOf x' = slotOf x \<and>
       (if r_ID x \<in> r_ID ` set opn then settled (r_Status x') else x' = x))"
  using assms
proof (induction opn arbitrary: rep s)
  case (Cons r opn)
  obtain rep1 s1 f where one: "reconcileOne now ch rep r s = (Inr rep1, s1)"
    and rows: "t_sequences s1 = map_where (\<lambda>x. r_ID x = r_ID r) f (t_sequences s)"
    and ws: "\<forall>ref. workState s1 ref = workState s ref"
    and f: "\<forall>x. r_ID (f x) = r_ID x \<and> slotOf (f x) = slotOf x" "settled (r_Status (f r))"
    using reconcileOne_settles [of r s now ch rep] Cons.prems by auto
  have keep: "x \<in> set (t_sequences s1)" if "x \<in> set opn" for x
    using that Cons.prems rows map_where_in [of x "t_sequences s" "\<lambda>x. r_ID x = r_ID r" f]
    by (auto simp: image_iff split: if_splits)
  have d1: "distinct (map r_ID (t_sequences s1))" using rows f(1) Cons.prems(3) by simp
  obtain rep' s' where rest: "foldE (reconcileOne now ch) opn rep1 s1 = (Inr rep', s')"
    and ws': "\<forall>ref. workState s' ref = workState s1 ref"
    and IH: "\<forall>x' \<in> set (t_sequences s'). \<exists>x \<in> set (t_sequences s1). r_ID x' = r_ID x \<and> slotOf x' = slotOf x \<and>
       (if r_ID x \<in> r_ID ` set opn then settled (r_Status x') else x' = x)"
    using Cons.IH [of s1 rep1] keep d1 Cons.prems ws by auto
  have "\<exists>x \<in> set (t_sequences s). r_ID x' = r_ID x \<and> slotOf x' = slotOf x \<and>
       (if r_ID x \<in> r_ID ` set (r # opn) then settled (r_Status x') else x' = x)"
    if "x' \<in> set (t_sequences s')" for x'
  proof -
    obtain y where y: "y \<in> set (t_sequences s1)" "r_ID x' = r_ID y" "slotOf x' = slotOf y"
      "if r_ID y \<in> r_ID ` set opn then settled (r_Status x') else x' = y" using IH \<open>x' \<in> _\<close> by blast
    obtain x where x: "x \<in> set (t_sequences s)" "y = (if r_ID x = r_ID r then f x else x)"
      using y(1) rows by (auto elim: map_where_inE)
    have "r_ID x = r_ID r \<Longrightarrow> x = r" using x(1) Cons.prems by (auto dest: distinct_map_inj)
    then show ?thesis using x y f by (intro bexI [of _ x]) (auto split: if_splits)
  qed
  then show ?case using one rest ws ws' by (auto simp: bindE_def)
qed auto

text \<open>What one pass leaves: the account's reservations settled, every other row as it was.\<close>

lemma reconcile_account:
  assumes "store_uniq s" "seq_wf s" "ch_Account ch a = Inr (an, q)"
  obtains rep s' where "Manager_ReconcileAccount now ch c a s = (Inr rep, s')"
    "\<forall>ref. workState s' ref = workState s ref"
    "\<forall>x' \<in> set (t_sequences s'). \<exists>x \<in> set (t_sequences s). slotOf x' = slotOf x \<and>
       (if r_ChainID x = c \<and> r_SourceAddress x = a then settled (r_Status x') else x' = x)"
proof -
  let ?opn = "sort_key (\<lambda>r. sint (r_Sequence r)) (filter (openReservation c a) (t_sequences s))"
  have dist: "distinct (map r_ID (t_sequences s))"
    using assms(1) by (simp add: store_uniq_def uniq_sequences_def)
  then have "distinct (map r_ID (filter (openReservation c a) (t_sequences s)))"
    by (rule distinct_map_filter)
  then have "distinct (map r_ID ?opn)" by (auto simp: distinct_map)
  moreover have "\<forall>r \<in> set ?opn. r \<in> set (t_sequences s) \<and> open_status (r_Status r) \<and>
      (r_Status r = SequenceReserved \<longrightarrow> (\<forall>h b. workState s (r_WorkRef r) = Inr (h, b) \<longrightarrow> h = []))"
    using assms(2) unfolding seq_wf_def by (auto dest: open_valid)
  ultimately obtain rep' s' where
    run: "foldE (reconcileOne now ch) ?opn \<lparr>rp_ChainID = c, rp_SourceAddress = a, rp_ChainSequence = q,
        rp_Actions = [], rp_Quarantined = 0, rp_Released = 0, rp_Consumed = 0\<rparr> s = (Inr rep', s')"
    and ws: "\<forall>ref. workState s' ref = workState s ref"
    and post: "\<forall>x' \<in> set (t_sequences s'). \<exists>x \<in> set (t_sequences s). r_ID x' = r_ID x \<and> slotOf x' = slotOf x \<and>
       (if r_ID x \<in> r_ID ` set ?opn then settled (r_Status x') else x' = x)"
    using reconcile_fold_settles [OF _ _ dist] by blast
  have "Manager_ReconcileAccount now ch c a s = (Inr rep', s')"
    using run assms(3) by (simp add: Manager_ReconcileAccount_def sequenceRepo_ListUnconsumed_def)
  moreover have "\<exists>x \<in> set (t_sequences s). slotOf x' = slotOf x \<and>
       (if r_ChainID x = c \<and> r_SourceAddress x = a then settled (r_Status x') else x' = x)"
    if x': "x' \<in> set (t_sequences s')" for x'
  proof -
    obtain x where x: "x \<in> set (t_sequences s)" "slotOf x' = slotOf x"
      "if r_ID x \<in> r_ID ` set ?opn then settled (r_Status x') else x' = x" using post x' by blast
    have "r_ID x \<in> r_ID ` set ?opn \<longleftrightarrow> openReservation c a x"
      using x(1) dist by (auto dest: distinct_map_inj)
    then show ?thesis using x by (intro bexI [OF _ x(1)]) (auto simp: openReservation_def enumValid_iff split: if_splits)
  qed
  ultimately show ?thesis using ws that by blast
qed

text \<open>
  A pass of \<open>ReconcileAccount\<close> over a well-formed store always completes once
  the account query answers, and leaves no reservation of the account in
  \<open>RESERVED\<close>, \<open>SIGNED\<close> or \<open>BROADCAST\<close>: each is consumed, released or quarantined.
\<close>

theorem reconcile_completes:
  assumes "store_uniq s" "seq_wf s" "ch_Account ch a = Inr (an, q)"
  shows "\<exists>rep s'. Manager_ReconcileAccount now ch c a s = (Inr rep, s') \<and>
    (\<forall>x \<in> set (t_sequences s'). r_ChainID x = c \<and> r_SourceAddress x = a \<longrightarrow> settled (r_Status x))"
proof -
  obtain rep s' where "Manager_ReconcileAccount now ch c a s = (Inr rep, s')"
    and "\<forall>x' \<in> set (t_sequences s'). \<exists>x \<in> set (t_sequences s). slotOf x' = slotOf x \<and>
       (if r_ChainID x = c \<and> r_SourceAddress x = a then settled (r_Status x') else x' = x)"
    using reconcile_account [OF assms] by metis
  then show ?thesis unfolding slotOf_def prod.inject by metis
qed

theorem reserve_again_witness:
  "Manager_Reserve 99 (ex_chain (\<lambda>h. Inl ClientErrNotFound)) ''sovr-1'' ''hot'' (WorkRef WorkWithdrawal ''w1'')
     (ex_store WithdrawalFundsReserved [] SequenceReserved) =
   (Inr (ex_res SequenceReserved), ex_store WithdrawalFundsReserved [] SequenceReserved)"
proof -
  let ?s = "ex_store WithdrawalFundsReserved [] SequenceReserved"
  have run: "Manager_Reserve 30 (ex_chain (\<lambda>h. Inr None)) ''sovr-1'' ''hot'' (WorkRef WorkWithdrawal ''w1'') ?s =
      (Inr (ex_res SequenceReserved), ?s)" by code_simp
  show ?thesis by (rule reserve_again [OF ex_store_uniq run]) (simp add: ex_defs)
qed

theorem reconcile_completes_witness:
  "\<exists>rep s'. Manager_ReconcileAccount 30 (ex_chain (\<lambda>h. Inr None)) ''sovr-1'' ''hot''
       (ex_store WithdrawalSigned [1, 2] SequenceSigned) = (Inr rep, s') \<and>
     (\<forall>x \<in> set (t_sequences s'). r_ChainID x = ''sovr-1'' \<and> r_SourceAddress x = ''hot'' \<longrightarrow> settled (r_Status x))"
  by (rule reconcile_completes [OF ex_store_uniq, where an = 7 and q = 5])
     (simp_all add: seq_wf_def ex_defs enum_defs)

text \<open>
  C34.  Every action a reconciliation pass reports is justified by the store it
  started from and by the chain: a slot is released only from \<open>RESERVED\<close> and only
  when its work item is readable and holds no signed bytes, and consumed only
  when the chain returned the work item's transaction as included.
\<close>

theorem reconcile_justified:
  assumes "\<forall>r \<in> set (t_sequences s). enumValid (r_Status r) AllSequenceReservationStatuses"
    and "Manager_ReconcileAccount now ch c a s = (Inr rep, s')"
  shows "\<forall>act \<in> set (rp_Actions rep).
      (a_To act = SequenceReleased \<longrightarrow> a_From act = SequenceReserved \<and>
         (\<exists>h. fst (workFacts (a_WorkRef act) s) = Inr (h, False))) \<and>
      (a_To act = SequenceConsumed \<longrightarrow> (\<exists>h b i. fst (workFacts (a_WorkRef act) s) = Inr (h, b) \<and> h \<noteq> [] \<and>
         ch_Tx ch h = Inr i \<and> included i)) \<and>
      a_To act \<in> {SequenceConsumed, SequenceReleased, SequenceReconciliationRequired}"
proof -
  let ?opn = "sort_key (\<lambda>r. sint (r_Sequence r)) (filter (openReservation c a) (t_sequences s))"
  obtain q where run: "foldE (reconcileOne now ch) ?opn \<lparr>rp_ChainID = c, rp_SourceAddress = a, rp_ChainSequence = q,
        rp_Actions = [], rp_Quarantined = 0, rp_Released = 0, rp_Consumed = 0\<rparr> s = (Inr rep, s')"
    using assms(2) by (auto simp: Manager_ReconcileAccount_def bindE_ok_iff sequenceRepo_ListUnconsumed_def)
  have "\<forall>r \<in> set ?opn. open_status (r_Status r)" using assms(1) by (auto dest: open_valid)
  then have "\<forall>act \<in> set (rp_Actions rep). justified ch s act"
    using reconcile_fold_justified [OF run, of s] by simp
  then show ?thesis by (auto simp: justified_def workState_def)
qed

theorem reconcile_justified_witness:
  "Manager_ReconcileAccount 30 (ex_chain (\<lambda>h. Inr None)) ''sovr-1'' ''hot''
       (ex_store WithdrawalFundsReserved [] SequenceReserved) =
     (Inr \<lparr>rp_ChainID = ''sovr-1'', rp_SourceAddress = ''hot'', rp_ChainSequence = 5,
        rp_Actions = [\<lparr>a_ReservationID = 1, a_WorkRef = WorkRef WorkWithdrawal ''w1'', a_Sequence = 5,
           a_From = SequenceReserved, a_To = SequenceReleased\<rparr>],
        rp_Quarantined = 0, rp_Released = 1, rp_Consumed = 0\<rparr>,
      (ex_store WithdrawalFundsReserved [] SequenceReserved)
        \<lparr>t_sequences := [(ex_res SequenceReleased)\<lparr>r_UpdatedAt := 30\<rparr>]\<rparr>)
   \<and> (\<exists>h. fst (workFacts (WorkRef WorkWithdrawal ''w1'') (ex_store WithdrawalFundsReserved [] SequenceReserved)) = Inr (h, False))"
    (is "?run \<and> _")
proof -
  have run: ?run by code_simp
  show ?thesis using run reconcile_justified [OF _ run] by (simp add: ex_defs enum_defs)
qed

end
