(* ===== verification/Fees.thy ===== *)
theory Fees
  imports Decimal
begin

text \<open>
  \<open>go/withdrawals/fees.go\<close>: exact decimal arithmetic for gas adjustment and gas
  price, with ceiling rounding.  The numerator and denominator are \<open>big.Int\<close>
  values; both are non-negative, where Go's truncated \<open>Quo\<close> is \<open>div\<close>.
\<close>

record decimal =
  dec_num :: int
  dec_den :: int

text \<open>\<open>^[0-9]+(\.[0-9]+)?$\<close>, and the split at the first dot.\<close>

definition wholePart :: "string \<Rightarrow> string" where
  "wholePart s = takeWhile (\<lambda>c. c \<noteq> CHR ''.'') s"

definition fracPart :: "string \<Rightarrow> string" where
  "fracPart s = tl (dropWhile (\<lambda>c. c \<noteq> CHR ''.'') s)"

definition dec_re :: "string \<Rightarrow> bool" where
  "dec_re s \<longleftrightarrow> digits_re (wholePart s) \<and>
     (dropWhile (\<lambda>c. c \<noteq> CHR ''.'') s = [] \<or> digits_re (fracPart s))"

definition parseDecimal :: "string \<Rightarrow> err + decimal" where
  "parseDecimal s =
     (if \<not> dec_re s then Inl (ErrOther ''invalid decimal'')
      else let whole = wholePart s; frac = fracPart s
           in Inr \<lparr>dec_num = int (read_nat (whole @ frac)), dec_den = 10 ^ length frac\<rparr>)"

definition decimal_isZero :: "decimal \<Rightarrow> bool" where
  "decimal_isZero d \<longleftrightarrow> dec_num d = 0"

definition ceilMulBig :: "decimal \<Rightarrow> int \<Rightarrow> int" where
  "ceilMulBig d n = (n * dec_num d + (dec_den d - 1)) div dec_den d"

definition ceilMulU64 :: "decimal \<Rightarrow> uint64 \<Rightarrow> err + uint64" where
  "ceilMulU64 d n = (let v = ceilMulBig d (uint n) in
     if \<not> (0 \<le> v \<and> v < 2 ^ 64) then Inl (ErrOther ''exceeds uint64'') else Inr (of_int v))"

definition gasLimitFor :: "uint64 \<Rightarrow> decimal \<Rightarrow> err + uint64" where
  "gasLimitFor gasUsed adjustment =
     (if gasUsed = 0 then Inl (ErrOther ''simulation returned zero gas'')
      else case ceilMulU64 adjustment gasUsed of
        Inl e \<Rightarrow> Inl e
      | Inr limit \<Rightarrow> if limit = 0 \<or> limit = - 1 then Inl (ErrOther ''adjusted gas limit out of range'')
                    else Inr limit)"

definition feeFor :: "uint64 \<Rightarrow> decimal \<Rightarrow> int" where
  "feeFor gasLimit gasPrice = ceilMulBig gasPrice (uint gasLimit)"

section \<open>Ceiling\<close>

lemma ceil_div_bounds:
  fixes a b :: int
  assumes "0 < b"
  shows "a \<le> ((a + (b - 1)) div b) * b \<and> ((a + (b - 1)) div b - 1) * b < a"
proof -
  define q r where "q = (a + (b - 1)) div b" and "r = (a + (b - 1)) mod b"
  have "q * b + r = a + (b - 1)" unfolding q_def r_def by (rule div_mult_mod_eq)
  moreover have "0 \<le> r" "r < b" using assms unfolding r_def by auto
  ultimately have "a \<le> q * b" "q * b - b < a" by linarith+
  then show ?thesis unfolding q_def by (simp add: left_diff_distrib)
qed

lemma parseDecimal_ok:
  "parseDecimal s = Inr d \<Longrightarrow> 0 \<le> dec_num d \<and> 0 < dec_den d"
  by (auto simp: parseDecimal_def Let_def split: if_splits)

lemma ceilMulBig_bounds:
  "0 < dec_den d \<Longrightarrow> n * dec_num d \<le> ceilMulBig d n * dec_den d \<and> (ceilMulBig d n - 1) * dec_den d < n * dec_num d"
  unfolding ceilMulBig_def by (rule ceil_div_bounds)

lemma ceilMulBig_nonneg: "0 < dec_den d \<Longrightarrow> 0 \<le> n \<Longrightarrow> 0 \<le> dec_num d \<Longrightarrow> 0 \<le> ceilMulBig d n"
  unfolding ceilMulBig_def by (simp add: pos_imp_zdiv_nonneg_iff)

lemma ceilMulBig_least:
  assumes "0 < dec_den d" "n * dec_num d \<le> v * dec_den d"
  shows "ceilMulBig d n \<le> v"
proof (rule ccontr)
  assume "\<not> ceilMulBig d n \<le> v"
  then have "v \<le> ceilMulBig d n - 1" by simp
  then have "v * dec_den d \<le> (ceilMulBig d n - 1) * dec_den d"
    using assms(1) by (simp add: mult_right_mono)
  then show False using ceilMulBig_bounds [OF assms(1), of n] assms(2) by simp
qed

text \<open>
  The gas limit is the exact ceiling of gas used times the adjustment: it is
  the least integer at or above the product, it is neither zero nor the largest
  64-bit number, and no wrap-around happened on the way to 64 bits.
\<close>

theorem gasLimitFor_exact:
  assumes "parseDecimal s = Inr d" "gasLimitFor gasUsed d = Inr limit"
  shows "uint gasUsed * dec_num d \<le> uint limit * dec_den d \<and>
    (uint limit - 1) * dec_den d < uint gasUsed * dec_num d \<and> 0 < uint limit \<and> uint limit < 2 ^ 64 - 1"
proof -
  note d = parseDecimal_ok [OF assms(1)]
  let ?v = "ceilMulBig d (uint gasUsed)"
  have v: "0 \<le> ?v" "?v < 2 ^ 64" and lim: "limit = of_int ?v" "limit \<noteq> 0" "limit \<noteq> - 1"
    using assms(2) by (auto simp: gasLimitFor_def ceilMulU64_def Let_def split: if_splits)
  have u: "uint limit = ?v" using v lim(1) by (simp add: uint_word_of_int take_bit_int_eq_self)
  have "uint limit \<noteq> 2 ^ 64 - 1"
  proof
    assume "uint limit = 2 ^ 64 - 1"
    then have "limit = word_of_int (2 ^ 64 - 1)" by (metis word_of_int_uint)
    then show False using lim(3) by simp
  qed
  moreover have "uint limit \<noteq> 0" using lim(2) by (simp add: uint_0_iff)
  ultimately show ?thesis using u v ceilMulBig_bounds [of d "uint gasUsed"] d by auto
qed

theorem gasLimitFor_exact_witness:
  "gasLimitFor 1001 \<lparr>dec_num = 13, dec_den = 10\<rparr> = Inr 1302 \<and> 1001 * 13 \<le> (1302 :: int) * 10"
proof -
  have p: "parseDecimal ''1.3'' = Inr \<lparr>dec_num = 13, dec_den = 10\<rparr>" by code_simp
  have g: "gasLimitFor 1001 \<lparr>dec_num = 13, dec_den = 10\<rparr> = Inr 1302" by code_simp
  show ?thesis using g gasLimitFor_exact [OF p g] by simp
qed

section \<open>Parsing\<close>

lemma foldl_digits:
  "foldl (\<lambda>a c. 10 * a + digit_val c) x s = x * 10 ^ length s + foldl (\<lambda>a c. 10 * a + digit_val c) 0 s"
proof (induction s rule: rev_induct)
  case (snoc c s)
  then show ?case by (simp add: algebra_simps)
qed simp

lemma read_nat_append: "read_nat (a @ b) = read_nat a * 10 ^ length b + read_nat b"
  unfolding read_nat_def by (subst foldl_append, subst foldl_digits) (simp add: read_nat_def)

text \<open>
  \<open>parseDecimal\<close> accepts a digit string with an optional fraction and its
  value is exactly the decimal it denotes: for whole part \<open>a\<close> and \<open>n\<close> fraction
  digits \<open>b\<close> the result is \<open>(a * 10^n + b) / 10^n\<close>.
\<close>

theorem parseDecimal_exact:
  assumes "digits_re a" "digits_re b"
  shows "parseDecimal (a @ ''.'' @ b) =
      Inr \<lparr>dec_num = int (read_nat a) * 10 ^ length b + int (read_nat b), dec_den = 10 ^ length b\<rparr> \<and>
    parseDecimal a = Inr \<lparr>dec_num = int (read_nat a), dec_den = 1\<rparr>"
proof -
  have nodot: "\<forall>c \<in> set a. c \<noteq> CHR ''.''"
    using assms(1) by (auto simp: digits_re_def list_all_iff is_digit_def)
  have w: "wholePart (a @ ''.'' @ b) = a" "fracPart (a @ ''.'' @ b) = b"
    using nodot by (simp_all add: wholePart_def fracPart_def takeWhile_append dropWhile_append)
  have d: "dropWhile (\<lambda>c. c \<noteq> CHR ''.'') a = []" using nodot by simp
  have w': "wholePart a = a" "fracPart a = []"
    using nodot by (simp add: wholePart_def takeWhile_eq_all_conv, simp only: fracPart_def d list.sel)
  show ?thesis using assms w w' d
    by (simp add: parseDecimal_def dec_re_def Let_def read_nat_append)
qed

theorem parseDecimal_exact_witness:
  "parseDecimal ''0.025'' = Inr \<lparr>dec_num = 25, dec_den = 1000\<rparr>"
proof -
  have "digits_re ''0''" "digits_re ''025''" by code_simp+
  moreover have "read_nat ''0'' = 0" "read_nat ''025'' = 25" by code_simp+
  ultimately show ?thesis using parseDecimal_exact [of "''0''" "''025''"] by simp
qed

end
