(* ===== verification/Withdrawals.thy ===== *)
theory Withdrawals
  imports Sequences_Manager Fees
begin

text \<open>
  \<open>go/withdrawals\<close>: the withdrawal state machine (\<open>workflow.go\<close>), the adapter-side
  check of a signer response (\<open>verify.go\<close>) and the broadcaster
  (\<open>broadcast.go\<close>).  One definition per method, over the store; the node, the
  signer, the libraries and the clock are arguments.  Log lines and metrics are
  not modelled, and a review item's reason is its literal prefix.
\<close>

section \<open>Configuration\<close>

datatype SimulatePolicy = SimulateQueue | SimulateStatic | SimulatePolicyOther string

record Config =
  cfg_ChainID :: string
  cfg_MinimumWithdrawalUsovr :: string
  cfg_MaxFeeUsovr :: string
  cfg_GasAdjustment :: string
  cfg_GasPriceUsovr :: string
  cfg_SimulateUnavailable :: SimulatePolicy
  cfg_StaticGasLimit :: uint64
  cfg_BroadcastTimeout :: time
  cfg_Confirmations :: uint64
  cfg_ProhibitedDestinations :: "string list"
  cfg_KeyRefForSource :: "(string \<Rightarrow> string) option"

record parsedConfig =
  pc_minWithdrawal :: int
  pc_maxFee :: int
  pc_gasAdjustment :: decimal
  pc_gasPrice :: decimal

definition parseBaseUnits :: "lib \<Rightarrow> string \<Rightarrow> err + int" where
  "parseBaseUnits L s =
     (if s = [] \<or> \<not> digits_re s then Inl (ErrOther ''expected a base-10 integer string'')
      else case NewIntFromString L s of None \<Rightarrow> Inl (ErrOther ''integer out of range'') | Some n \<Rightarrow> Inr n)"

definition parseConfig :: "lib \<Rightarrow> Config \<Rightarrow> err + parsedConfig" where
  "parseConfig L c =
     (if cfg_ChainID c = [] then Inl ErrInvalidRequest
      else case parseBaseUnits L (cfg_MinimumWithdrawalUsovr c) of Inl e \<Rightarrow> Inl e | Inr mn \<Rightarrow>
      case parseBaseUnits L (cfg_MaxFeeUsovr c) of Inl e \<Rightarrow> Inl e | Inr mx \<Rightarrow>
      case parseDecimal (cfg_GasAdjustment c) of Inl e \<Rightarrow> Inl e | Inr adj \<Rightarrow>
      if decimal_isZero adj then Inl (ErrOther ''gas_adjustment must be positive'')
      else case parseDecimal (cfg_GasPriceUsovr c) of Inl e \<Rightarrow> Inl e | Inr price \<Rightarrow>
      case cfg_SimulateUnavailable c of
        SimulatePolicyOther x \<Rightarrow> Inl (ErrOther ''simulate_unavailable'')
      | p \<Rightarrow>
        if p = SimulateStatic \<and> cfg_StaticGasLimit c = 0 then Inl (ErrOther ''static_gas_limit required'')
        else if cfg_Confirmations c = 0 then Inl (ErrOther ''confirmations must be at least 1'')
        else Inr \<lparr>pc_minWithdrawal = mn, pc_maxFee = mx, pc_gasAdjustment = adj, pc_gasPrice = price\<rparr>)"

record workflow =
  wf_cfg :: Config
  wf_pcfg :: parsedConfig
  wf_deny :: PSet

definition newWorkflow :: "lib \<Rightarrow> Config \<Rightarrow> err + workflow" where
  "newWorkflow L cfg = (case parseConfig L cfg of Inl e \<Rightarrow> Inl e
     | Inr pcfg \<Rightarrow>
       let cfg' = (if cfg_BroadcastTimeout cfg \<le> 0 then cfg\<lparr>cfg_BroadcastTimeout := 15 * 10 ^ 9\<rparr> else cfg)
       in Inr \<lparr>wf_cfg = cfg', wf_pcfg = pcfg, wf_deny = cfg_ProhibitedDestinations cfg'\<rparr>)"

record Request =
  q_WithdrawalID :: string
  q_IdempotencyKey :: string
  q_SourceAddress :: string
  q_DestinationAddress :: string
  q_AmountBaseUnits :: string
  q_Memo :: string

section \<open>Quarantine\<close>

definition reviewItem :: "string \<Rightarrow> string \<Rightarrow> string \<Rightarrow> ReviewItem" where
  "reviewItem chainID withdrawalID reason =
     \<lparr>ri_ID = 0, ri_ChainID = chainID, ri_Kind = ReviewKindWithdrawal, ri_RefID = withdrawalID,
      ri_Reason = reason, ri_OpenedAt = 0, ri_ResolvedAt = None, ri_Resolution = []\<rparr>"

definition quarantine :: "time \<Rightarrow> workflow \<Rightarrow> string \<Rightarrow> WithdrawalStatus \<Rightarrow> string \<Rightarrow> (store, 'a) prog" where
  "quarantine now W withdrawalID from reason =
     thenE (with_tx
       (thenE (withdrawalRepo_UpdateStatus now withdrawalID from WithdrawalReviewRequired noWithdrawalUpdate)
              (reviewRepo_Open now (reviewItem (cfg_ChainID (wf_cfg W)) withdrawalID reason))))
     (throw ErrQuarantined)"

definition quarantinePostSignature ::
    "time \<Rightarrow> workflow \<Rightarrow> string \<Rightarrow> WithdrawalStatus \<Rightarrow> int \<Rightarrow> string \<Rightarrow> (store, 'a) prog" where
  "quarantinePostSignature now W withdrawalID from reservationID reason =
     thenE (with_tx
       (thenE (withdrawalRepo_UpdateStatus now withdrawalID from WithdrawalReviewRequired noWithdrawalUpdate)
       (thenE (sequenceRepo_UpdateStatus now reservationID SequenceReserved SequenceReconciliationRequired)
              (reviewRepo_Open now (reviewItem (cfg_ChainID (wf_cfg W)) withdrawalID reason)))))
     (throw ErrQuarantined)"

section \<open>Request to reserved sequence\<close>

definition newWithdrawal :: "workflow \<Rightarrow> Request \<Rightarrow> int \<Rightarrow> WithdrawalRecord" where
  "newWithdrawal W req amount =
     \<lparr>w_WithdrawalID = q_WithdrawalID req, w_IdempotencyKey = q_IdempotencyKey req,
      w_ChainID = cfg_ChainID (wf_cfg W), w_SourceAddress = q_SourceAddress req,
      w_DestinationAddress = q_DestinationAddress req, w_Denom = BaseDenom, w_AmountBaseUnits = amount,
      w_Memo = q_Memo req, w_AccountNumber = None, w_Sequence = None, w_GasWanted = None,
      w_GasLimit = None, w_FeeAmountBaseUnits = None, w_SignMode = SignModeDirect, w_SignedTxBytes = [],
      w_TxHash = None, w_BlockHeight = None, w_TxCode = None, w_RawLog = [],
      w_Status = WithdrawalRequested, w_CreatedAt = 0, w_UpdatedAt = 0\<rparr>"

definition Submit :: "lib \<Rightarrow> time \<Rightarrow> workflow \<Rightarrow> Request \<Rightarrow> (store, WithdrawalRecord) prog" where
  "Submit L now W req =
     (if q_WithdrawalID req = [] \<or> q_IdempotencyKey req = [] then throw ErrInvalidRequest
      else case parseBaseUnits L (q_AmountBaseUnits req) of
        Inl e \<Rightarrow> throw ErrInvalidRequest
      | Inr amount \<Rightarrow>
        if \<not> amount > 0 then throw ErrInvalidRequest
        else bindE (tryE (withdrawalRepo_Create now (newWithdrawal W req amount))) (\<lambda>r. case r of
          Inl e \<Rightarrow>
            if e = ErrDuplicate then
              bindE (tryE (withdrawalRepo_GetByIdempotencyKey (q_IdempotencyKey req))) (\<lambda>g. case g of
                Inr orig \<Rightarrow> ret orig
              | Inl _ \<Rightarrow> throw e)
            else throw e
        | Inr rec \<Rightarrow> ret rec))"

definition ValidateAddress :: "lib \<Rightarrow> time \<Rightarrow> workflow \<Rightarrow> string \<Rightarrow> (store, unit) prog" where
  "ValidateAddress L now W withdrawalID =
     bindE (withdrawalRepo_Get withdrawalID) (\<lambda>rec.
       let res = ValidateAccountAddressStrict L (w_DestinationAddress rec) (wf_deny W) in
       if \<not> vr_Valid res \<or> vr_NormalizedAddress res \<noteq> w_DestinationAddress rec then
         quarantine now W (w_WithdrawalID rec) (w_Status rec) ''destination rejected''
       else let src = ValidateAccountAddress L (w_SourceAddress rec) in
       if \<not> vr_Valid src \<or> vr_NormalizedAddress src \<noteq> w_SourceAddress rec then
         quarantine now W (w_WithdrawalID rec) (w_Status rec) ''source rejected''
       else withdrawalRepo_UpdateStatus now withdrawalID WithdrawalRequested WithdrawalAddressValidated
              noWithdrawalUpdate)"

definition ApproveCompliance :: "time \<Rightarrow> string \<Rightarrow> (store, unit) prog" where
  "ApproveCompliance now withdrawalID =
     withdrawalRepo_UpdateStatus now withdrawalID WithdrawalAddressValidated WithdrawalComplianceApproved
       noWithdrawalUpdate"

definition ReserveFunds :: "time \<Rightarrow> workflow \<Rightarrow> chain \<Rightarrow> string \<Rightarrow> (store, unit) prog" where
  "ReserveFunds now W ch withdrawalID =
     bindE (withdrawalRepo_Get withdrawalID) (\<lambda>rec.
     if w_Status rec \<noteq> WithdrawalComplianceApproved then
       (if w_Status rec = WithdrawalAddressValidated then throw ErrAwaitingCompliance else throw ErrStatusConflict)
     else if w_AmountBaseUnits rec < pc_minWithdrawal (wf_pcfg W) then throw ErrBelowMinimum
     else bindE (liftR (ch_Balance ch (w_SourceAddress rec) BaseDenom)) (\<lambda>balance.
       let thisReservation = w_AmountBaseUnits rec + pc_maxFee (wf_pcfg W) in
       with_tx (bindE (withdrawalRepo_SumCommittedBySource (w_ChainID rec) (w_SourceAddress rec))
         (\<lambda>(count, committedAmount).
           let committed = committedAmount + pc_maxFee (wf_pcfg W) * count in
           if balance < committed + thisReservation then throw ErrInsufficientSpendable
           else withdrawalRepo_UpdateStatus now withdrawalID WithdrawalComplianceApproved
                  WithdrawalFundsReserved noWithdrawalUpdate))))"

definition ReserveSequence :: "time \<Rightarrow> workflow \<Rightarrow> chain \<Rightarrow> string \<Rightarrow> (store, unit) prog" where
  "ReserveSequence now W ch withdrawalID =
     bindE (withdrawalRepo_Get withdrawalID) (\<lambda>rec.
     bindE (tryE (Manager_Reserve now ch (w_ChainID rec) (w_SourceAddress rec)
                    (WorkRef WorkWithdrawal (w_WithdrawalID rec)))) (\<lambda>r. case r of
       Inl e \<Rightarrow>
         if e = ErrReleasedSlotUnusable
         then quarantine now W (w_WithdrawalID rec) (w_Status rec) ''released reservation slot is no longer reservable''
         else throw e
     | Inr res \<Rightarrow>
         withdrawalRepo_UpdateStatus now withdrawalID WithdrawalFundsReserved WithdrawalSequenceReserved
           (noWithdrawalUpdate\<lparr>wu_AccountNumber := Some (r_AccountNumber res),
                               wu_Sequence := Some (r_Sequence res)\<rparr>)))"

definition buildFor :: "lib \<Rightarrow> WithdrawalRecord \<Rightarrow> err + UnsignedTx" where
  "buildFor L rec = BuildMsgSend L (w_SourceAddress rec) (w_DestinationAddress rec)
     (show_int (w_AmountBaseUnits rec)) (w_Memo rec)"

definition Build :: "lib \<Rightarrow> time \<Rightarrow> workflow \<Rightarrow> string \<Rightarrow> (store, unit) prog" where
  "Build L now W withdrawalID =
     bindE (withdrawalRepo_Get withdrawalID) (\<lambda>rec.
     case buildFor L rec of
       Inl e \<Rightarrow> quarantine now W (w_WithdrawalID rec) (w_Status rec) ''build rejected''
     | Inr _ \<Rightarrow> withdrawalRepo_UpdateStatus now withdrawalID WithdrawalSequenceReserved
                  WithdrawalTransactionBuilt noWithdrawalUpdate)"

section \<open>Simulation\<close>

definition keyRef :: "workflow \<Rightarrow> string \<Rightarrow> string" where
  "keyRef W source = (case cfg_KeyRefForSource (wf_cfg W) of Some f \<Rightarrow> f source | None \<Rightarrow> source)"

definition CodeSignerUnavailable :: string where "CodeSignerUnavailable = ''SIGNER_UNAVAILABLE''"

definition senderPubKey :: "workflow \<Rightarrow> signer \<Rightarrow> string \<Rightarrow> err + bytes" where
  "senderPubKey W sg source = (case sg_GetPublicKey sg (keyRef W source) of
      Inl e \<Rightarrow> if e = SignerErr CodeSignerUnavailable then Inl ErrSignerUnavailable else Inl e
    | Inr k \<Rightarrow> Inr k)"

definition simulationTxBytes ::
    "lib \<Rightarrow> workflow \<Rightarrow> signer \<Rightarrow> WithdrawalRecord \<Rightarrow> uint64 \<Rightarrow> uint64 \<Rightarrow> err + bytes" where
  "simulationTxBytes L W sg rec accountNumber sequence =
     (case buildFor L rec of Inl e \<Rightarrow> Inl e | Inr utx \<Rightarrow>
      case senderPubKey W sg (w_SourceAddress rec) of Inl e \<Rightarrow> Inl e | Inr pubKey \<Rightarrow>
      let provisionalGas = (if cfg_StaticGasLimit (wf_cfg W) = 0 then 200000 else cfg_StaticGasLimit (wf_cfg W)) in
      case SignDoc L utx (w_ChainID rec) accountNumber sequence
             \<lparr>fee_AmountBaseUnits = ''0'', fee_GasLimit = provisionalGas\<rparr> pubKey of
        Inl e \<Rightarrow> Inl e
      | Inr (signDocBytes, _, _) \<Rightarrow>
        case UnmarshalSignDoc L signDocBytes of None \<Rightarrow> Inl (ErrOther ''unmarshal'') | Some doc \<Rightarrow>
        case MarshalTxRaw L (sd_BodyBytes doc) (sd_AuthInfoBytes doc) [[]] of
          None \<Rightarrow> Inl (ErrOther ''marshal'') | Some b \<Rightarrow> Inr b)"

text \<open>The gas the simulation step settles on: an error, a quarantine, or wanted and limit.\<close>

datatype gasOutcome = GasError err | GasQuarantine string | GasOk uint64 uint64

definition gasFor :: "workflow \<Rightarrow> err + SimulateResult \<Rightarrow> gasOutcome" where
  "gasFor W simRes = (case simRes of
      Inr r \<Rightarrow> (case gasLimitFor (sm_GasUsed r) (pc_gasAdjustment (wf_pcfg W)) of
          Inl e \<Rightarrow> GasQuarantine ''gas adjustment failed''
        | Inr limit \<Rightarrow> GasOk (sm_GasUsed r) limit)
    | Inl e \<Rightarrow>
        if e = ClientErrSimulateUnavailable then
          (if cfg_SimulateUnavailable (wf_cfg W) = SimulateQueue then GasError ErrSimulationUnavailable
           else GasOk (cfg_StaticGasLimit (wf_cfg W)) (cfg_StaticGasLimit (wf_cfg W)))
        else GasError e)"

definition Simulate :: "lib \<Rightarrow> time \<Rightarrow> workflow \<Rightarrow> chain \<Rightarrow> signer \<Rightarrow> string \<Rightarrow> (store, unit) prog" where
  "Simulate L now W ch sg withdrawalID =
     bindE (withdrawalRepo_Get withdrawalID) (\<lambda>rec.
     if w_Status rec \<noteq> WithdrawalTransactionBuilt then throw ErrStatusConflict
     else case (w_AccountNumber rec, w_Sequence rec) of
       (Some accountNumber, Some sequence) \<Rightarrow>
         (case simulationTxBytes L W sg rec accountNumber sequence of
            Inl e \<Rightarrow> if e = ErrSignerUnavailable then throw e
                    else quarantine now W (w_WithdrawalID rec) (w_Status rec) ''simulation encoding failed''
          | Inr simTxBytes \<Rightarrow>
            (case gasFor W (ch_Simulate ch simTxBytes) of
               GasError e \<Rightarrow> throw e
             | GasQuarantine reason \<Rightarrow> quarantine now W (w_WithdrawalID rec) (w_Status rec) reason
             | GasOk gasWanted gasLimit \<Rightarrow>
                 let fee = feeFor gasLimit (pc_gasPrice (wf_pcfg W)) in
                 if fee > pc_maxFee (wf_pcfg W) then
                   bindE (tryE (quarantine now W (w_WithdrawalID rec) (w_Status rec) ''fee exceeds max_fee_usovr''))
                     (\<lambda>q :: err + unit. case q of
                        Inl e \<Rightarrow> if e \<noteq> ErrQuarantined then throw e else throw ErrFeeExceedsMax
                      | Inr _ \<Rightarrow> throw ErrFeeExceedsMax)
                 else withdrawalRepo_UpdateStatus now withdrawalID WithdrawalTransactionBuilt
                        WithdrawalTransactionSimulated
                        (noWithdrawalUpdate\<lparr>wu_GasWanted := Some gasWanted, wu_GasLimit := Some gasLimit,
                                            wu_FeeAmountBaseUnits := Some fee\<rparr>)))
     | _ \<Rightarrow> throw ErrInvalidRecord)"

section \<open>Signing\<close>

definition VerifySignedResponse :: "lib \<Rightarrow> bytes \<Rightarrow> SignatureResponse \<Rightarrow> string \<Rightarrow> err + unit" where
  "VerifySignedResponse L signDocBytes resp expectedSender =
     (if signDocBytes = [] then Inl ErrSignatureInvalid
      else if \<not> compressedKey (sr_PubKeyCompressed resp) then Inl ErrWrongSigningKey
      else if length (sr_Signature resp) \<noteq> 64 then Inl ErrSignatureInvalid
      else if \<not> VerifySignature L (sr_PubKeyCompressed resp) signDocBytes (sr_Signature resp)
        then Inl ErrSignatureInvalid
      else let res = ValidateAccountAddress L expectedSender in
        if \<not> vr_Valid res then Inl ErrWrongSigningKey
        else case DecodeAndConvert L (vr_NormalizedAddress res) of
          None \<Rightarrow> Inl ErrWrongSigningKey
        | Some (_, senderBytes) \<Rightarrow>
            if PubKeyAddress L (sr_PubKeyCompressed resp) \<noteq> senderBytes then Inl ErrWrongSigningKey
            else Inr ())"

definition summaryMismatch ::
    "workflow \<Rightarrow> WithdrawalRecord \<Rightarrow> uint64 \<Rightarrow> uint64 \<Rightarrow> int \<Rightarrow> SigningSummary \<Rightarrow> string" where
  "summaryMismatch W rec sequence accountNumber fee s =
     (case find (\<lambda>(field, doc, approved). doc \<noteq> approved)
        [(''chain_id'', ss_ChainID s, cfg_ChainID (wf_cfg W)),
         (''record_chain_id'', ss_ChainID s, w_ChainID rec),
         (''sender'', ss_SenderAddress s, w_SourceAddress rec),
         (''recipient'', ss_RecipientAddress s, w_DestinationAddress rec),
         (''amount'', ss_AmountBaseUnits s, show_int (w_AmountBaseUnits rec)),
         (''denom'', ss_Denom s, w_Denom rec),
         (''memo'', ss_Memo s, w_Memo rec),
         (''fee'', ss_FeeBaseUnits s, show_int fee),
         (''sequence'', ss_Sequence s, show_u64 sequence),
         (''account_number'', ss_AccountNumber s, show_u64 accountNumber),
         (''message_type'', ss_MessageType s, MsgSendTypeURL)] of
        None \<Rightarrow> [] | Some (field, _, _) \<Rightarrow> field)"

definition signTx :: "time \<Rightarrow> string \<Rightarrow> bytes \<Rightarrow> string \<Rightarrow> int \<Rightarrow> (store, unit) prog" where
  "signTx now withdrawalID signedTxBytes txHash reservationID =
     with_tx (thenE
       (withdrawalRepo_UpdateStatus now withdrawalID WithdrawalTransactionSimulated WithdrawalSigned
          (noWithdrawalUpdate\<lparr>wu_SignedTxBytes := Some signedTxBytes, wu_TxHash := Some txHash\<rparr>))
       (sequenceRepo_UpdateStatus now reservationID SequenceReserved SequenceSigned))"

text \<open>The part of \<open>Sign\<close> after the sign doc: ask the signer, verify, assemble, persist.\<close>

definition signWith ::
    "lib \<Rightarrow> time \<Rightarrow> workflow \<Rightarrow> signer \<Rightarrow> WithdrawalRecord \<Rightarrow> int \<Rightarrow> UnsignedTx \<Rightarrow> bytes \<Rightarrow> SigningSummary \<Rightarrow>
     (store, unit) prog" where
  "signWith L now W sg rec reservationID utx signDocBytes summary =
     (case sg_Sign sg \<lparr>sq_KeyRef = keyRef W (w_SourceAddress rec), sq_SignMode = SignModeDirect,
                       sq_SignDocBytes = signDocBytes, sq_Summary = summary\<rparr> of
        Inl e \<Rightarrow>
          if e = SignerErr CodeSignerUnavailable then throw ErrSignerUnavailable
          else quarantine now W (w_WithdrawalID rec) (w_Status rec) ''signer refused''
      | Inr sigRes \<Rightarrow>
        (case VerifySignedResponse L signDocBytes sigRes (w_SourceAddress rec) of
           Inl e \<Rightarrow> quarantinePostSignature now W (w_WithdrawalID rec) (w_Status rec) reservationID
                      ''signed response verification failed''
         | Inr _ \<Rightarrow>
           (case Assemble L utx sigRes of
              Inl e \<Rightarrow> quarantinePostSignature now W (w_WithdrawalID rec) (w_Status rec) reservationID
                         ''assembly failed''
            | Inr (signedTxBytes, txHash) \<Rightarrow>
                signTx now (w_WithdrawalID rec) signedTxBytes txHash reservationID)))"

definition Sign :: "lib \<Rightarrow> time \<Rightarrow> workflow \<Rightarrow> signer \<Rightarrow> string \<Rightarrow> (store, unit) prog" where
  "Sign L now W sg withdrawalID =
     bindE (withdrawalRepo_Get withdrawalID) (\<lambda>rec.
     if w_Status rec \<noteq> WithdrawalTransactionSimulated then throw ErrStatusConflict
     else bindE (controlsRepo_Get (w_ChainID rec)) (\<lambda>controls.
     if oc_SigningPaused controls then throw ErrPaused
     else bindE (sequenceRepo_GetByWorkRef (WorkRef WorkWithdrawal (w_WithdrawalID rec))) (\<lambda>res.
     if r_Status res \<noteq> SequenceReserved
     then quarantine now W (w_WithdrawalID rec) (w_Status rec) ''sequence reservation not RESERVED''
     else case (w_AccountNumber rec, w_Sequence rec, w_FeeAmountBaseUnits rec, w_GasLimit rec) of
       (Some accountNumber, Some sequence, Some fee, Some gasLimit) \<Rightarrow>
         if accountNumber \<noteq> r_AccountNumber res \<or> sequence \<noteq> r_Sequence res
         then quarantine now W (w_WithdrawalID rec) (w_Status rec) ''record does not match its bound sequence reservation''
         else (case buildFor L rec of
           Inl e \<Rightarrow> quarantine now W (w_WithdrawalID rec) (w_Status rec) ''rebuild rejected''
         | Inr utx \<Rightarrow>
           (case senderPubKey W sg (w_SourceAddress rec) of
              Inl e \<Rightarrow> if e = ErrSignerUnavailable then throw e
                      else quarantine now W (w_WithdrawalID rec) (w_Status rec) ''sender public key fetch failed''
            | Inr pubKey \<Rightarrow>
              (case SignDoc L utx (w_ChainID rec) accountNumber sequence
                      \<lparr>fee_AmountBaseUnits = show_int fee, fee_GasLimit = gasLimit\<rparr> pubKey of
                 Inl e \<Rightarrow> quarantine now W (w_WithdrawalID rec) (w_Status rec) ''sign doc encoding failed''
               | Inr (signDocBytes, summary, utx') \<Rightarrow>
                   if summaryMismatch W rec sequence accountNumber fee summary \<noteq> []
                   then quarantine now W (w_WithdrawalID rec) (w_Status rec) ''sign doc does not match approved request''
                   else signWith L now W sg rec (r_ID res) utx' signDocBytes summary)))
     | _ \<Rightarrow> quarantine now W (w_WithdrawalID rec) (w_Status rec)
              ''record does not match its bound sequence reservation'')))"

definition Cancel :: "time \<Rightarrow> string \<Rightarrow> (store, unit) prog" where
  "Cancel now withdrawalID =
     bindE (withdrawalRepo_Get withdrawalID) (\<lambda>rec.
     with_tx (thenE
       (withdrawalRepo_UpdateStatus now withdrawalID (w_Status rec) WithdrawalCancelled noWithdrawalUpdate)
       (bindE (tryE (sequenceRepo_GetByWorkRef (WorkRef WorkWithdrawal withdrawalID))) (\<lambda>g. case g of
          Inl e \<Rightarrow> if e = ErrNotFound then ret () else throw e
        | Inr res \<Rightarrow>
            if r_Status res = SequenceReserved
            then sequenceRepo_UpdateStatus now (r_ID res) SequenceReserved SequenceReleased
            else ret ()))))"

end
