(* ===== verification/Broadcast.thy ===== *)
theory Broadcast
  imports Withdrawals
begin

text \<open>
  \<open>go/withdrawals/broadcast.go\<close>: pushing the persisted bytes, following them to
  inclusion and execution, and recovery.  A Go result \<open>(Outcome, error)\<close> is the
  pair of both; \<open>OutcomeNone\<close> is the empty outcome.
\<close>

datatype Outcome = OutcomeNone | OutcomeEncodingFailed | OutcomeSignatureFailed | OutcomeCheckTxRejected
  | OutcomeMempoolAccepted | OutcomeIncluded | OutcomeExecSuccess | OutcomeExecFailed | OutcomeUnknownTimeout

type_synonym outcome_prog = "(store, Outcome \<times> err option) prog"

text \<open>\<open>if err := m(); err != nil { return o, err }\<close>, then go on.\<close>

definition orReturn :: "Outcome \<Rightarrow> (store, 'a) prog \<Rightarrow> ('a \<Rightarrow> outcome_prog) \<Rightarrow> outcome_prog" where
  "orReturn o1 m k = bindE (tryE m) (\<lambda>r. case r of Inl e \<Rightarrow> ret (o1, Some e) | Inr a \<Rightarrow> k a)"

definition advanceReservation ::
    "time \<Rightarrow> string \<Rightarrow> SequenceReservationStatus \<Rightarrow> SequenceReservationStatus \<Rightarrow> (store, unit) prog" where
  "advanceReservation now withdrawalID from to =
     bindE (sequenceRepo_GetByWorkRef (WorkRef WorkWithdrawal withdrawalID)) (\<lambda>res.
     if r_Status res = to then ret ()
     else bindE (tryE (sequenceRepo_UpdateStatus now (r_ID res) from to)) (\<lambda>u. case u of
       Inl e \<Rightarrow> if e = ErrStatusConflict then ret () else throw e
     | Inr _ \<Rightarrow> ret ()))"

definition consumeReservation :: "time \<Rightarrow> string \<Rightarrow> (store, unit) prog" where
  "consumeReservation now withdrawalID =
     bindE (sequenceRepo_GetByWorkRef (WorkRef WorkWithdrawal withdrawalID)) (\<lambda>res.
     if r_Status res = SequenceConsumed then ret ()
     else if r_Status res = SequenceSigned \<or> r_Status res = SequenceBroadcast
          \<or> r_Status res = SequenceReconciliationRequired then
       bindE (tryE (sequenceRepo_UpdateStatus now (r_ID res) (r_Status res) SequenceConsumed)) (\<lambda>u. case u of
         Inl e \<Rightarrow> if e = ErrStatusConflict then ret () else throw e
       | Inr _ \<Rightarrow> ret ())
     else throw ErrStatusConflict)"

definition quarantineReservation :: "time \<Rightarrow> string \<Rightarrow> SequenceReservationStatus \<Rightarrow> (store, unit) prog" where
  "quarantineReservation now withdrawalID from =
     bindE (sequenceRepo_GetByWorkRef (WorkRef WorkWithdrawal withdrawalID)) (\<lambda>res.
     if r_Status res = SequenceReconciliationRequired \<or> r_Status res = SequenceConsumed then ret ()
     else bindE (tryE (sequenceRepo_UpdateStatus now (r_ID res) from SequenceReconciliationRequired)) (\<lambda>u. case u of
       Inl e \<Rightarrow> if e = ErrStatusConflict then ret () else throw e
     | Inr _ \<Rightarrow> ret ()))"

text \<open>The transaction of the three uncertain branches: review, review item, reservation quarantine.\<close>

definition reviewTx ::
    "time \<Rightarrow> string \<Rightarrow> string \<Rightarrow> WithdrawalStatus \<Rightarrow> WithdrawalUpdate \<Rightarrow> string \<Rightarrow> SequenceReservationStatus \<Rightarrow> (store, unit) prog" where
  "reviewTx now chainID withdrawalID from u reason seqFrom =
     with_tx (thenE (withdrawalRepo_UpdateStatus now withdrawalID from WithdrawalReviewRequired u)
             (thenE (reviewRepo_Open now (reviewItem chainID withdrawalID reason))
                    (quarantineReservation now withdrawalID seqFrom)))"

definition acceptTx :: "time \<Rightarrow> string \<Rightarrow> (store, unit) prog" where
  "acceptTx now withdrawalID =
     with_tx (thenE (withdrawalRepo_UpdateStatus now withdrawalID WithdrawalSigned WithdrawalBroadcast noWithdrawalUpdate)
                    (advanceReservation now withdrawalID SequenceSigned SequenceBroadcast))"

definition resolveUnknownAfterBroadcast :: "time \<Rightarrow> chain \<Rightarrow> WithdrawalRecord \<Rightarrow> string \<Rightarrow> outcome_prog" where
  "resolveUnknownAfterBroadcast now ch rec txHash =
     (case ch_Tx ch txHash of
        Inr (Some info) \<Rightarrow>
          orReturn OutcomeMempoolAccepted (acceptTx now (w_WithdrawalID rec))
            (\<lambda>_. ret (OutcomeMempoolAccepted, None))
      | _ \<Rightarrow>
          orReturn OutcomeUnknownTimeout
            (reviewTx now (w_ChainID rec) (w_WithdrawalID rec) WithdrawalSigned noWithdrawalUpdate
               ''broadcast unknown'' SequenceSigned)
            (\<lambda>_. ret (OutcomeUnknownTimeout, Some ErrQuarantined)))"

definition BroadcastWd :: "time \<Rightarrow> chain \<Rightarrow> string \<Rightarrow> outcome_prog" where
  "BroadcastWd now ch withdrawalID =
     orReturn OutcomeNone (withdrawalRepo_Get withdrawalID) (\<lambda>rec.
     if w_Status rec \<noteq> WithdrawalSigned then ret (OutcomeNone, Some ErrStatusConflict)
     else case (w_SignedTxBytes rec, w_TxHash rec) of
       (b # bs, Some txHash) \<Rightarrow>
         orReturn OutcomeNone (controlsRepo_Get (w_ChainID rec)) (\<lambda>controls.
         if oc_BroadcastPaused controls then ret (OutcomeNone, Some ErrPaused)
         else case ch_Broadcast ch (w_SignedTxBytes rec) of
           Inl e \<Rightarrow> resolveUnknownAfterBroadcast now ch rec txHash
         | Inr res \<Rightarrow>
             if \<not> br_Accepted res then
               orReturn OutcomeCheckTxRejected
                 (reviewTx now (w_ChainID rec) withdrawalID WithdrawalSigned
                    (noWithdrawalUpdate\<lparr>wu_TxCode := Some (br_Code res), wu_RawLog := Some (br_RawLog res)\<rparr>)
                    ''checktx rejected'' SequenceSigned)
                 (\<lambda>_. ret (OutcomeCheckTxRejected, None))
             else
               orReturn OutcomeMempoolAccepted (acceptTx now withdrawalID)
                 (\<lambda>_. ret (OutcomeMempoolAccepted, None)))
     | _ \<Rightarrow> ret (OutcomeNone, Some ErrInvalidRecord))"

definition includeTx :: "time \<Rightarrow> string \<Rightarrow> TxInfo \<Rightarrow> (store, unit) prog" where
  "includeTx now withdrawalID info =
     with_tx (thenE (withdrawalRepo_UpdateStatus now withdrawalID WithdrawalBroadcast WithdrawalIncluded
         (noWithdrawalUpdate\<lparr>wu_BlockHeight := Some (ti_Height info), wu_TxCode := Some (ti_Code info),
                             wu_RawLog := Some (ti_RawLog info)\<rparr>))
       (consumeReservation now withdrawalID))"

text \<open>
  \<open>uint64(status.LatestHeight-info.Height)+1 < Confirmations\<close>, all of it in
  64-bit arithmetic.
\<close>

definition belowDepth :: "int64 \<Rightarrow> int64 \<Rightarrow> uint64 \<Rightarrow> bool" where
  "belowDepth latest height confirmations \<longleftrightarrow> (latest - height) + 1 < confirmations"

definition confirmIncluded :: "time \<Rightarrow> workflow \<Rightarrow> chain \<Rightarrow> string \<Rightarrow> TxInfo \<Rightarrow> outcome_prog" where
  "confirmIncluded now W ch withdrawalID info =
     (if ti_Code info \<noteq> 0 then
        orReturn OutcomeExecFailed
          (withdrawalRepo_UpdateStatus now withdrawalID WithdrawalIncluded WithdrawalFailed
             (noWithdrawalUpdate\<lparr>wu_TxCode := Some (ti_Code info), wu_RawLog := Some (ti_RawLog info)\<rparr>))
          (\<lambda>_. ret (OutcomeExecFailed, None))
      else case ch_NodeStatus ch of
        Inl e \<Rightarrow> ret (OutcomeIncluded, Some e)
      | Inr status \<Rightarrow>
          if belowDepth (ns_LatestHeight status) (ti_Height info) (cfg_Confirmations (wf_cfg W))
          then ret (OutcomeIncluded, None)
          else orReturn OutcomeExecSuccess
                 (withdrawalRepo_UpdateStatus now withdrawalID WithdrawalIncluded WithdrawalConfirmed noWithdrawalUpdate)
                 (\<lambda>_. ret (OutcomeExecSuccess, None)))"

definition confirmMissing :: "time \<Rightarrow> workflow \<Rightarrow> WithdrawalRecord \<Rightarrow> outcome_prog" where
  "confirmMissing now W rec =
     (if w_Status rec = WithdrawalIncluded then
        orReturn OutcomeUnknownTimeout
          (quarantine now W (w_WithdrawalID rec) (w_Status rec) ''tx no longer found after inclusion'')
          (\<lambda>_ :: unit. ret (OutcomeUnknownTimeout, None))
      else if now - w_UpdatedAt rec < cfg_BroadcastTimeout (wf_cfg W) then ret (OutcomeMempoolAccepted, None)
      else orReturn OutcomeUnknownTimeout
             (reviewTx now (w_ChainID rec) (w_WithdrawalID rec) WithdrawalBroadcast noWithdrawalUpdate
                ''tx unknown after broadcast timeout'' SequenceBroadcast)
             (\<lambda>_. ret (OutcomeUnknownTimeout, Some ErrQuarantined)))"

text \<open>The transaction as \<open>Confirm\<close> sees it: absent when the answer is not found, \<open>nil\<close> or of height 0.\<close>

definition confirmInfo :: "err + TxInfo option \<Rightarrow> err + TxInfo option" where
  "confirmInfo r = (case r of
      Inl e \<Rightarrow> if e \<noteq> ClientErrNotFound then Inl e else Inr None
    | Inr None \<Rightarrow> Inr None
    | Inr (Some info) \<Rightarrow> if ti_Height info = 0 then Inr None else Inr (Some info))"

definition Confirm :: "time \<Rightarrow> workflow \<Rightarrow> chain \<Rightarrow> string \<Rightarrow> outcome_prog" where
  "Confirm now W ch withdrawalID =
     orReturn OutcomeNone (withdrawalRepo_Get withdrawalID) (\<lambda>rec.
     if w_Status rec \<noteq> WithdrawalBroadcast \<and> w_Status rec \<noteq> WithdrawalIncluded
     then ret (OutcomeNone, Some ErrStatusConflict)
     else case w_TxHash rec of
       None \<Rightarrow> ret (OutcomeNone, Some ErrInvalidRecord)
     | Some txHash \<Rightarrow>
       (case confirmInfo (ch_Tx ch txHash) of
          Inl e \<Rightarrow> ret (OutcomeNone, Some e)
        | Inr None \<Rightarrow> confirmMissing now W rec
        | Inr (Some info) \<Rightarrow>
            if w_Status rec = WithdrawalBroadcast
            then orReturn OutcomeIncluded (includeTx now withdrawalID info)
                   (\<lambda>_. confirmIncluded now W ch withdrawalID info)
            else confirmIncluded now W ch withdrawalID info))"

definition Recover :: "time \<Rightarrow> chain \<Rightarrow> string \<Rightarrow> outcome_prog" where
  "Recover now ch withdrawalID =
     orReturn OutcomeNone (withdrawalRepo_Get withdrawalID) (\<lambda>rec.
     if w_Status rec \<noteq> WithdrawalReviewRequired then ret (OutcomeNone, Some ErrStatusConflict)
     else if w_SignedTxBytes rec = [] then ret (OutcomeNone, Some ErrInvalidRecord)
     else case RebroadcastPersisted ch (w_SignedTxBytes rec) of
       Inl e \<Rightarrow> ret (OutcomeNone, Some e)
     | Inr res \<Rightarrow>
         if rb_AlreadyIncluded res then
           orReturn OutcomeIncluded
             (withdrawalRepo_UpdateStatus now withdrawalID WithdrawalReviewRequired WithdrawalBroadcast noWithdrawalUpdate)
             (\<lambda>_. ret (OutcomeIncluded, None))
         else if rb_Accepted res then
           orReturn OutcomeMempoolAccepted
             (withdrawalRepo_UpdateStatus now withdrawalID WithdrawalReviewRequired WithdrawalBroadcast noWithdrawalUpdate)
             (\<lambda>_. ret (OutcomeMempoolAccepted, None))
         else ret (OutcomeCheckTxRejected, Some (ErrOther ''rebroadcast rejected'')))"

end
