(* ===== verification/Review_Resolution.thy ===== *)
theory Review_Resolution
  imports Broadcast
begin

text \<open>
  \<open>go/cmd/sovren-adapter/review_resolution.go\<close>: the operator's typed resolution
  of a review-queue row, which moves the referenced record, disposes of its
  sequence reservation and resolves the row in one transaction.  The HTTP
  status and body are represented by the error the orchestrator maps them from.
\<close>

datatype reviewOutcome = outcomeWithdrawalConfirmed | outcomeWithdrawalFailed | outcomeWithdrawalCancelled
  | outcomeDepositApproved | outcomeDepositRejected | outcomeLedgerAcknowledged | reviewOutcomeOther string

definition outcomeText :: "reviewOutcome \<Rightarrow> string" where
  "outcomeText o1 = (case o1 of outcomeWithdrawalConfirmed \<Rightarrow> ''WITHDRAWAL_CONFIRMED''
     | outcomeWithdrawalFailed \<Rightarrow> ''WITHDRAWAL_FAILED'' | outcomeWithdrawalCancelled \<Rightarrow> ''WITHDRAWAL_CANCELLED''
     | outcomeDepositApproved \<Rightarrow> ''DEPOSIT_APPROVED'' | outcomeDepositRejected \<Rightarrow> ''DEPOSIT_REJECTED''
     | outcomeLedgerAcknowledged \<Rightarrow> ''LEDGER_ACKNOWLEDGED'' | reviewOutcomeOther x \<Rightarrow> x)"

fun outcomesByKind :: "ReviewItemKind \<Rightarrow> reviewOutcome list" where
  "outcomesByKind ReviewKindWithdrawal =
     [outcomeWithdrawalConfirmed, outcomeWithdrawalFailed, outcomeWithdrawalCancelled]"
| "outcomesByKind ReviewKindDeposit = [outcomeDepositApproved, outcomeDepositRejected]"
| "outcomesByKind ReviewKindLedgerEntry = [outcomeLedgerAcknowledged]"
| "outcomesByKind (ReviewItemKindOther x) = []"

definition outcomeLegalForKind :: "ReviewItemKind \<Rightarrow> reviewOutcome \<Rightarrow> bool" where
  "outcomeLegalForKind kind o1 \<longleftrightarrow> enumValid o1 (outcomesByKind kind)"

definition disposeReservation :: "time \<Rightarrow> string \<Rightarrow> SequenceReservationStatus \<Rightarrow> (store, unit) prog" where
  "disposeReservation now withdrawalID to =
     bindE (tryE (sequenceRepo_GetByWorkRef (WorkRef WorkWithdrawal withdrawalID))) (\<lambda>g. case g of
       Inl e \<Rightarrow> if e = ErrNotFound then ret () else throw e
     | Inr res \<Rightarrow>
         if r_Status res = to then ret ()
         else sequenceRepo_UpdateStatus now (r_ID res) (r_Status res) to)"

definition preSign :: "WithdrawalRecord \<Rightarrow> SequenceReservation option \<Rightarrow> bool" where
  "preSign w res \<longleftrightarrow> w_SignedTxBytes w = [] \<and> (case res of None \<Rightarrow> True
     | Some r \<Rightarrow> r_Status r = SequenceReserved \<or> r_Status r = SequenceReleased)"

definition reviewTarget :: "bool \<Rightarrow> reviewOutcome \<Rightarrow> err + (WithdrawalStatus \<times> SequenceReservationStatus)" where
  "reviewTarget pre o1 = (case o1 of
      outcomeWithdrawalConfirmed \<Rightarrow>
        if pre then Inl ErrStatusConflict else Inr (WithdrawalConfirmed, SequenceConsumed)
    | outcomeWithdrawalFailed \<Rightarrow>
        if pre then Inl ErrStatusConflict else Inr (WithdrawalFailed, SequenceConsumed)
    | outcomeWithdrawalCancelled \<Rightarrow>
        if \<not> pre then Inl ErrStatusConflict else Inr (WithdrawalCancelled, SequenceReleased)
    | _ \<Rightarrow> Inl ErrInvalidRecord)"

definition resolveWithdrawalReview :: "time \<Rightarrow> string \<Rightarrow> reviewOutcome \<Rightarrow> (store, unit) prog" where
  "resolveWithdrawalReview now withdrawalID o1 =
     bindE (withdrawalRepo_Get withdrawalID) (\<lambda>w.
     if w_Status w \<noteq> WithdrawalReviewRequired then throw ErrStatusConflict
     else bindE (tryE (sequenceRepo_GetByWorkRef (WorkRef WorkWithdrawal withdrawalID))) (\<lambda>g.
     bindE (case g of Inl e \<Rightarrow> if e = ErrNotFound then ret None else throw e | Inr res \<Rightarrow> ret (Some res)) (\<lambda>res.
     bindE (liftR (reviewTarget (preSign w res) o1)) (\<lambda>(target, seqTo).
     thenE (withdrawalRepo_UpdateStatus now withdrawalID WithdrawalReviewRequired target noWithdrawalUpdate)
       (case res of None \<Rightarrow> ret () | Some _ \<Rightarrow> disposeReservation now withdrawalID seqTo)))))"

definition resolveDepositReview :: "time \<Rightarrow> string \<Rightarrow> reviewOutcome \<Rightarrow> (store, unit) prog" where
  "resolveDepositReview now refID o1 =
     (case ParseInt64 refID of
        None \<Rightarrow> throw ErrInvalidRecord
      | Some i \<Rightarrow> bindE (depositRepo_GetByID i) (\<lambda>d.
          if d_Status d \<noteq> DepositReviewRequired then throw ErrStatusConflict
          else case o1 of
            outcomeDepositRejected \<Rightarrow>
              depositRepo_UpdateStatus now i DepositReviewRequired DepositRejected noDepositUpdate
          | outcomeDepositApproved \<Rightarrow>
              thenE (depositRepo_UpdateStatus now i DepositReviewRequired DepositValidated noDepositUpdate)
                    (depositRepo_UpdateStatus now i DepositValidated DepositAwaitingConfirmations noDepositUpdate)
          | _ \<Rightarrow> throw ErrInvalidRecord))"

definition resolveReviewItem :: "time \<Rightarrow> int \<Rightarrow> reviewOutcome \<Rightarrow> string \<Rightarrow> time \<Rightarrow> (store, unit) prog" where
  "resolveReviewItem now i o1 note at =
     bindE (reviewRepo_Get i) (\<lambda>item.
     if ri_ResolvedAt item \<noteq> None then throw ErrStatusConflict
     else if \<not> outcomeLegalForKind (ri_Kind item) o1 then throw ErrInvalidRequest
     else with_tx (thenE
       (case ri_Kind item of
          ReviewKindWithdrawal \<Rightarrow> resolveWithdrawalReview now (ri_RefID item) o1
        | ReviewKindDeposit \<Rightarrow> resolveDepositReview now (ri_RefID item) o1
        | ReviewKindLedgerEntry \<Rightarrow> ret ()
        | ReviewItemKindOther x \<Rightarrow> throw ErrInvalidRecord)
       (reviewRepo_Resolve now i (outcomeText o1 @ '': '' @ note) at)))"

end
