(* ===== verification/Deposit_Safety.thy ===== *)
theory Deposit_Safety
  imports Deposits_Scanner Deposit_Rows Review_Resolution
begin

text \<open>
  The safety argument for crediting.  Every deposit that counts as credited has
  its outbox event and every credit event its deposit (\<open>credit_inv\<close>); a step
  keeps each deposit's identity and never takes a credit back (\<open>keeps_deposits\<close>);
  inside a scanner cycle a deposit becomes credited only when the conditions
  and the gate allow it (\<open>credits_allowed\<close>), and the gate is never opened.  All
  of it is one step relation, so the composition rules of the prelude carry the
  proofs from the repository methods up to the whole cycle.
\<close>

section \<open>What a credit is\<close>

definition credited :: "DepositRecord \<Rightarrow> bool" where
  "credited d \<longleftrightarrow> d_Status d = DepositCredited \<or> d_Status d = DepositSweepPending \<or> d_Status d = DepositSwept"

definition creditEvent :: "DepositRecord \<Rightarrow> OutboxEvent \<Rightarrow> bool" where
  "creditEvent d e \<longleftrightarrow> ob_Topic e = OutboxTopicDepositCredited \<and> ob_DedupKey e = DepositDedupKey d"

definition credit_inv :: "store \<Rightarrow> bool" where
  "credit_inv s \<longleftrightarrow> store_uniq s \<and>
     (\<forall>d \<in> set (t_deposits s). credited d \<longleftrightarrow> d_CreditedAt d \<noteq> None) \<and>
     (\<forall>d \<in> set (t_deposits s). credited d \<longrightarrow> (\<exists>e \<in> set (t_outbox s). creditEvent d e)) \<and>
     (\<forall>e \<in> set (t_outbox s). ob_Topic e = OutboxTopicDepositCredited \<longrightarrow>
        (\<exists>d \<in> set (t_deposits s). credited d \<and> creditEvent d e))"

definition same_deposit :: "DepositRecord \<Rightarrow> DepositRecord \<Rightarrow> bool" where
  "same_deposit d d' \<longleftrightarrow> d_ID d' = d_ID d \<and> depositKey d' = depositKey d \<and>
     d_AmountBaseUnits d' = d_AmountBaseUnits d \<and> d_Denom d' = d_Denom d \<and> d_TxCode d' = d_TxCode d \<and>
     d_BlockHeight d' = d_BlockHeight d"

definition keeps_deposits :: "store \<Rightarrow> store \<Rightarrow> bool" where
  "keeps_deposits s t \<longleftrightarrow>
     (\<forall>d \<in> set (t_deposits s). \<exists>d' \<in> set (t_deposits t). same_deposit d d' \<and>
        (credited d \<longrightarrow> credited d' \<and> d_CreditedAt d' = d_CreditedAt d)) \<and>
     (\<forall>e \<in> set (t_outbox s). \<exists>e' \<in> set (t_outbox t). ob_ID e' = ob_ID e \<and> ob_Topic e' = ob_Topic e \<and>
        ob_DedupKey e' = ob_DedupKey e \<and> ob_Payload e' = ob_Payload e)"

text \<open>The gate as \<open>LoadCreditGate\<close> reads it.\<close>

definition gate_open :: "store \<Rightarrow> string \<Rightarrow> bool" where
  "gate_open s c \<longleftrightarrow> (case find (\<lambda>o1. oc_ChainID o1 = c) (t_controls s) of None \<Rightarrow> True
     | Some o1 \<Rightarrow> \<not> oc_CreditPaused o1 \<and> \<not> oc_ScanWithoutCredit o1) \<and>
     \<not> (\<exists>r \<in> set (t_chain_reviews s). cr_ChainID r = c \<and> cr_ResolvedAt r = None)"

definition creditable_at :: "uint64 \<Rightarrow> uint64 \<Rightarrow> DepositRecord \<Rightarrow> bool" where
  "creditable_at latest conf d \<longleftrightarrow> d_TxCode d = 0 \<and> d_Denom d = BaseDenom \<and> d_AmountBaseUnits d > 0 \<and>
     conf \<le> ConfirmationCount latest (d_BlockHeight d)"

definition credits_allowed :: "uint64 \<Rightarrow> uint64 \<Rightarrow> store \<Rightarrow> store \<Rightarrow> bool" where
  "credits_allowed latest conf s t \<longleftrightarrow>
     (\<forall>d' \<in> set (t_deposits t). credited d' \<longrightarrow>
        (\<exists>d \<in> set (t_deposits s). d_ID d = d_ID d' \<and> credited d) \<or>
        (creditable_at latest conf d' \<and> gate_open s (d_ChainID d')))"

definition cycle_step :: "uint64 \<Rightarrow> uint64 \<Rightarrow> store \<Rightarrow> store \<Rightarrow> bool" where
  "cycle_step latest conf s t \<longleftrightarrow> keeps_deposits s t \<and> credits_allowed latest conf s t \<and>
     (\<forall>c. gate_open t c \<longrightarrow> gate_open s c)"

abbreviation cycle_rel :: "uint64 \<Rightarrow> uint64 \<Rightarrow> store \<Rightarrow> store \<Rightarrow> bool" where
  "cycle_rel latest conf \<equiv> inv_rel credit_inv (cycle_step latest conf)"

abbreviation credit_rel :: "store \<Rightarrow> store \<Rightarrow> bool" where
  "credit_rel \<equiv> inv_rel credit_inv keeps_deposits"

subsection \<open>Both relations are preorders\<close>

lemma same_deposit_refl [simp]: "same_deposit d d"
  by (simp add: same_deposit_def)

lemma same_deposit_trans: "same_deposit a b \<Longrightarrow> same_deposit b c \<Longrightarrow> same_deposit a c"
  by (simp add: same_deposit_def)

lemma keeps_deposits_refl: "keeps_deposits s s"
  unfolding keeps_deposits_def using same_deposit_refl by blast

lemma keeps_deposits_trans:
  assumes "keeps_deposits s t" "keeps_deposits t u"
  shows "keeps_deposits s u"
proof -
  have "\<exists>d'' \<in> set (t_deposits u). same_deposit d d'' \<and>
      (credited d \<longrightarrow> credited d'' \<and> d_CreditedAt d'' = d_CreditedAt d)" if d: "d \<in> set (t_deposits s)" for d
  proof -
    obtain d' where 1: "d' \<in> set (t_deposits t)" "same_deposit d d'"
      "credited d \<longrightarrow> credited d' \<and> d_CreditedAt d' = d_CreditedAt d"
      using assms(1) d by (auto simp: keeps_deposits_def)
    obtain d'' where 2: "d'' \<in> set (t_deposits u)" "same_deposit d' d''"
      "credited d' \<longrightarrow> credited d'' \<and> d_CreditedAt d'' = d_CreditedAt d'"
      using assms(2) 1(1) by (auto simp: keeps_deposits_def)
    show ?thesis using 1 2 same_deposit_trans [OF 1(2) 2(2)] by (intro bexI [OF _ 2(1)]) simp
  qed
  moreover have "\<exists>e'' \<in> set (t_outbox u). ob_ID e'' = ob_ID e \<and> ob_Topic e'' = ob_Topic e \<and>
      ob_DedupKey e'' = ob_DedupKey e \<and> ob_Payload e'' = ob_Payload e" if "e \<in> set (t_outbox s)" for e
    using assms that unfolding keeps_deposits_def by metis
  ultimately show ?thesis by (simp add: keeps_deposits_def)
qed

lemma deposit_id_unique:
  "credit_inv s \<Longrightarrow> d \<in> set (t_deposits s) \<Longrightarrow> d' \<in> set (t_deposits s) \<Longrightarrow> d_ID d = d_ID d' \<Longrightarrow> d = d'"
  by (auto simp: credit_inv_def store_uniq_def uniq_deposits_def intro: distinct_map_inj)

lemma credits_allowed_trans:
  assumes "credits_allowed l c s t" "credits_allowed l c t u" "keeps_deposits t u" "credit_inv u"
    and "\<forall>x. gate_open t x \<longrightarrow> gate_open s x"
  shows "credits_allowed l c s u"
  unfolding credits_allowed_def
proof (intro ballI impI)
  fix d'' assume d'': "d'' \<in> set (t_deposits u)" "credited d''"
  show "(\<exists>d \<in> set (t_deposits s). d_ID d = d_ID d'' \<and> credited d) \<or>
      creditable_at l c d'' \<and> gate_open s (d_ChainID d'')"
  proof (cases "\<exists>d' \<in> set (t_deposits t). d_ID d' = d_ID d'' \<and> credited d'")
    case True
    then obtain d' where d': "d' \<in> set (t_deposits t)" "d_ID d' = d_ID d''" "credited d'" by blast
    obtain x where x: "x \<in> set (t_deposits u)" "same_deposit d' x"
      using assms(3) d'(1) by (auto simp: keeps_deposits_def)
    then have "x = d''" using deposit_id_unique [OF assms(4) x(1) d''(1)] d'(2) by (simp add: same_deposit_def)
    with x have "same_deposit d' d''" by simp
    then show ?thesis using assms(1) d' by (auto simp: credits_allowed_def same_deposit_def depositKey_def creditable_at_def)
  next
    case False
    then show ?thesis using assms(2,5) d'' by (auto simp: credits_allowed_def)
  qed
qed

interpretation cr: step_rel "cycle_rel l c"
proof
  fix s t u :: store
  show "cycle_rel l c s s"
    by (auto simp: inv_rel_def cycle_step_def credits_allowed_def keeps_deposits_refl)
  assume "cycle_rel l c s t" "cycle_rel l c t u"
  then show "cycle_rel l c s u"
    unfolding inv_rel_def cycle_step_def using keeps_deposits_trans credits_allowed_trans by blast
qed

interpretation crd: step_rel credit_rel
  by (rule step_rel_inv_rel, unfold_locales) (auto intro: keeps_deposits_refl keeps_deposits_trans)

lemma credit_of_cycle: "cycle_rel l c s t \<Longrightarrow> credit_rel s t"
  by (auto simp: inv_rel_def cycle_step_def)

lemma stays_credit: "stays (cycle_rel l c) m \<Longrightarrow> stays credit_rel m"
  unfolding stays_def using credit_of_cycle by blast

section \<open>Repository methods\<close>

lemma keeps_same: "t_deposits t = t_deposits s \<Longrightarrow> t_outbox t = t_outbox s \<Longrightarrow> keeps_deposits s t"
  unfolding keeps_deposits_def using same_deposit_refl by metis

lemma keeps_more:
  "set (t_deposits s) \<subseteq> set (t_deposits t) \<Longrightarrow> set (t_outbox s) \<subseteq> set (t_outbox t) \<Longrightarrow> keeps_deposits s t"
  unfolding keeps_deposits_def using same_deposit_refl by blast

lemma gate_same: "t_controls t = t_controls s \<Longrightarrow> t_chain_reviews t = t_chain_reviews s \<Longrightarrow> gate_open t = gate_open s"
  by (rule ext) (simp add: gate_open_def)

lemma cycle_frame:
  assumes "t_deposits t = t_deposits s" "t_outbox t = t_outbox s" "uniq_rel s t"
    and "\<And>c. gate_open t c \<Longrightarrow> gate_open s c"
  shows "cycle_rel l c s t"
  using assms keeps_same [OF assms(1,2)]
  by (auto simp: inv_rel_def cycle_step_def credits_allowed_def credit_inv_def uniq_rel_def)

lemma credit_frame:
  assumes "t_deposits t = t_deposits s" "t_outbox t = t_outbox s" "uniq_rel s t"
  shows "credit_rel s t"
  using assms keeps_same [OF assms(1,2)] by (auto simp: inv_rel_def credit_inv_def uniq_rel_def)

named_theorems cycle_ops

lemma stays_frame:
  assumes "stays uniq_rel m"
    and "\<And>s. t_deposits (snd (m s)) = t_deposits s" "\<And>s. t_outbox (snd (m s)) = t_outbox s"
    and "\<And>s. t_controls (snd (m s)) = t_controls s" "\<And>s. t_chain_reviews (snd (m s)) = t_chain_reviews s"
  shows "stays (cycle_rel l c) m"
  unfolding stays_def
proof
  fix s
  have "uniq_rel s (snd (m s))" using assms(1) by (simp add: stays_def)
  then show "cycle_rel l c s (snd (m s))"
    by (rule cycle_frame [OF assms(2) assms(3)]) (simp add: gate_same [OF assms(4) assms(5)])
qed

lemma cycle_reads [cycle_ops]:
  "stays (cycle_rel l c) (depositRepo_Get c1 h m i a)" "stays (cycle_rel l c) (depositRepo_GetByID j)"
  "stays (cycle_rel l c) (depositRepo_ListByStatus c1 st n)" "stays (cycle_rel l c) (checkpointRepo_Get c1)"
  "stays (cycle_rel l c) (watchRepo_ListActive c1)" "stays (cycle_rel l c) (controlsRepo_Get c1)"
  "stays (cycle_rel l c) (chainReviewRepo_HasOpen c1)" "stays (cycle_rel l c) (chainReviewRepo_ListOpen c1)"
  "stays (cycle_rel l c) (reviewRepo_Get j)"
  by (rule cr.stays_unchanged, simp add: reads_unchanged)+

lemma append_frames:
  "t_deposits (snd (ledgerRepo_Append now e s)) = t_deposits s" "t_outbox (snd (ledgerRepo_Append now e s)) = t_outbox s"
  "t_controls (snd (ledgerRepo_Append now e s)) = t_controls s"
  "t_chain_reviews (snd (ledgerRepo_Append now e s)) = t_chain_reviews s"
  "t_watched (snd (ledgerRepo_Append now e s)) = t_watched s"
  by (auto simp: ledgerRepo_Append_def run_defs Let_def amountText_cases)

lemma fee_frames:
  "t_deposits (snd (ledgerRepo_AppendFeeOutflow now f s)) = t_deposits s"
  "t_outbox (snd (ledgerRepo_AppendFeeOutflow now f s)) = t_outbox s"
  "t_controls (snd (ledgerRepo_AppendFeeOutflow now f s)) = t_controls s"
  "t_chain_reviews (snd (ledgerRepo_AppendFeeOutflow now f s)) = t_chain_reviews s"
  "t_watched (snd (ledgerRepo_AppendFeeOutflow now f s)) = t_watched s"
  by (auto simp: ledgerRepo_AppendFeeOutflow_def run_defs Let_def amountText_cases)

lemma review_frames:
  "t_deposits (snd (reviewRepo_Open now item s)) = t_deposits s" "t_outbox (snd (reviewRepo_Open now item s)) = t_outbox s"
  "t_controls (snd (reviewRepo_Open now item s)) = t_controls s"
  "t_chain_reviews (snd (reviewRepo_Open now item s)) = t_chain_reviews s"
  "t_watched (snd (reviewRepo_Open now item s)) = t_watched s"
  by (auto simp: reviewRepo_Open_def run_defs Let_def)

lemma checkpoint_frames:
  "t_deposits (snd (checkpointRepo_Set now cp s)) = t_deposits s" "t_outbox (snd (checkpointRepo_Set now cp s)) = t_outbox s"
  "t_controls (snd (checkpointRepo_Set now cp s)) = t_controls s"
  "t_chain_reviews (snd (checkpointRepo_Set now cp s)) = t_chain_reviews s"
  "t_watched (snd (checkpointRepo_Set now cp s)) = t_watched s"
  by (auto simp: checkpointRepo_Set_def Let_def)

lemma review_resolve_frames:
  "t_deposits (snd (reviewRepo_Resolve now i res at s)) = t_deposits s"
  "t_outbox (snd (reviewRepo_Resolve now i res at s)) = t_outbox s"
  "t_controls (snd (reviewRepo_Resolve now i res at s)) = t_controls s"
  "t_chain_reviews (snd (reviewRepo_Resolve now i res at s)) = t_chain_reviews s"
  by (auto simp: reviewRepo_Resolve_def reviewRepo_Get_def run_defs Let_def split: sum.splits prod.splits option.splits)

lemma cycle_appends [cycle_ops]:
  "stays (cycle_rel l c) (ledgerRepo_Append now e)" "stays (cycle_rel l c) (ledgerRepo_AppendFeeOutflow now f)"
  "stays (cycle_rel l c) (reviewRepo_Open now item)" "stays (cycle_rel l c) (checkpointRepo_Set now cp)"
  "stays (cycle_rel l c) (reviewRepo_Resolve now j res at)"
  by (rule stays_frame [OF uniq_ledger_ops(1)], simp_all add: append_frames)
     (rule stays_frame [OF uniq_ledger_ops(2)], simp_all add: fee_frames,
      rule stays_frame [OF uniq_review_open], simp_all add: review_frames,
      rule stays_frame [OF uniq_checkpoint_set], simp_all add: checkpoint_frames,
      rule stays_frame [OF uniq_review_resolve], simp_all add: review_resolve_frames)

lemma dep_edge_credited: "dep_edge from to \<Longrightarrow> to \<noteq> DepositCredited \<Longrightarrow>
    (to = DepositSweepPending \<or> to = DepositSwept) \<longleftrightarrow> (from = DepositCredited \<or> from = DepositSweepPending \<or> from = DepositSwept)"
  by (cases "from"; cases to) (simp_all add: enum_defs)

text \<open>A deposit status update that is not the credit itself.\<close>

lemma dedup_key_cong: "depositKey d' = depositKey d \<Longrightarrow> DepositDedupKey d' = DepositDedupKey d"
  by (simp add: depositKey_def DepositDedupKey_def)

lemma update_same_deposit: "same_deposit d (applyDepositUpdate now from to u d)"
  by (simp add: same_deposit_def depositKey_def applyDepositUpdate_def)

lemma update_credited:
  "dep_edge from to \<Longrightarrow> to \<noteq> DepositCredited \<Longrightarrow> d_Status d = from \<Longrightarrow>
   credited (applyDepositUpdate now from to u d) = credited d"
  by (drule (1) dep_edge_credited) (simp add: credited_def)

lemma update_creditedAt: "du_CreditedAt u = None \<Longrightarrow> d_CreditedAt (applyDepositUpdate now from to u d) = d_CreditedAt d"
  by (simp add: applyDepositUpdate_def)

lemma cycle_rows:
  assumes rows: "t_deposits t = map_where p f (t_deposits s)" and "t_outbox t = t_outbox s"
    and "t_controls t = t_controls s" "t_chain_reviews t = t_chain_reviews s" and uq: "uniq_rel s t"
    and row: "\<And>d. p d \<Longrightarrow> same_deposit d (f d) \<and> credited (f d) = credited d \<and> d_CreditedAt (f d) = d_CreditedAt d"
  shows "cycle_rel l c s t"
  unfolding inv_rel_def
proof
  assume inv: "credit_inv s"
  let ?g = "\<lambda>d. if p d then f d else d"
  have g: "same_deposit d (?g d)" "credited (?g d) = credited d" "d_CreditedAt (?g d) = d_CreditedAt d" for d
    using row by auto
  have event: "creditEvent (?g d) e = creditEvent d e" for d e
    using dedup_key_cong [of "?g d" d] g(1) [of d] by (simp only: creditEvent_def same_deposit_def)
  have img: "set (t_deposits t) = ?g ` set (t_deposits s)" by (simp add: rows map_where_def)
  have "credit_inv t"
    unfolding credit_inv_def img ball_simps bex_simps g(2,3) event
    using inv uq unfolding credit_inv_def uniq_rel_def assms(2) by blast
  moreover have "keeps_deposits s t"
    unfolding keeps_deposits_def img bex_simps assms(2) using g by blast
  moreover have "d_ID (?g d) = d_ID d" for d using g(1) [of d] by (simp only: same_deposit_def)
  then have "credits_allowed l c s t"
    unfolding credits_allowed_def img ball_simps g(2) by auto
  moreover have "gate_open t = gate_open s" by (rule gate_same) (use assms in simp_all)
  ultimately show "credit_inv t \<and> cycle_step l c s t" by (simp add: cycle_step_def)
qed

lemma cycle_dep_update [cycle_ops]:
  assumes "to \<noteq> DepositCredited" "du_CreditedAt u = None"
  shows "stays (cycle_rel l c) (depositRepo_UpdateStatus now k from to u)"
proof (rule stays_cases)
  fix s s' and a :: unit
  assume run: "depositRepo_UpdateStatus now k from to u s = (Inr a, s')"
  then have ok: "dep_edge from to" "s' = t_deposits_update (map_where (\<lambda>d. d_ID d = k \<and> d_Status d = from)
      (applyDepositUpdate now from to u)) s" by (auto simp: dep_update_ok_iff)
  show "cycle_rel l c s s'"
  proof (rule cycle_rows)
    show "t_deposits s' = map_where (\<lambda>d. d_ID d = k \<and> d_Status d = from) (applyDepositUpdate now from to u) (t_deposits s)"
      by (simp add: ok(2))
    show "uniq_rel s s'" by (rule staysD [OF uniq_dep_update run])
    fix d :: DepositRecord assume "d_ID d = k \<and> d_Status d = from"
    then show "same_deposit d (applyDepositUpdate now from to u d) \<and>
      credited (applyDepositUpdate now from to u d) = credited d \<and>
      d_CreditedAt (applyDepositUpdate now from to u d) = d_CreditedAt d"
      using update_same_deposit update_credited [OF ok(1) assms(1)] update_creditedAt [OF assms(2)] by blast
  qed (simp_all add: ok(2))
qed (use dep_update_err cr.R_refl in blast)

text \<open>A new deposit that is not credited.\<close>

lemma insert_ok:
  assumes "depositRepo_Insert now d s = (Inr ins, s')"
  shows "\<exists>row. s' = t_deposits_update (\<lambda>rows. rows @ [row]) s \<and> d_ID ins = d_ID row \<and>
    d_ID row = nextRowID (map d_ID (t_deposits s)) \<and> depositKey row = depositKey d \<and>
    d_Status row = d_Status d \<and> d_CreditedAt row = d_CreditedAt d \<and>
    d_AmountBaseUnits row = d_AmountBaseUnits d \<and> d_BlockHeight row = d_BlockHeight d"
  using assms by (auto simp: depositRepo_Insert_def run_defs Let_def amountText_cases depositKey_def split: if_splits)

lemma insert_err: "depositRepo_Insert now d s = (Inl e, s') \<Longrightarrow> s' = s"
  by (auto simp: depositRepo_Insert_def run_defs Let_def amountText_cases split: if_splits option.splits)

lemma cycle_dep_insert [cycle_ops]:
  assumes "\<not> credited d" "d_CreditedAt d = None"
  shows "stays (cycle_rel l c) (depositRepo_Insert now d)"
proof (rule stays_cases)
  fix s s' ins
  assume run: "depositRepo_Insert now d s = (Inr ins, s')"
  then obtain row where row: "s' = t_deposits_update (\<lambda>rows. rows @ [row]) s" "d_Status row = d_Status d"
    "d_CreditedAt row = d_CreditedAt d" using insert_ok by blast
  have not: "\<not> credited row" using assms row by (simp add: credited_def)
  have "uniq_rel s s'" by (rule staysD [OF uniq_dep_insert run])
  moreover have "gate_open s' = gate_open s" by (rule gate_same) (simp_all add: row)
  moreover have "keeps_deposits s s'" by (rule keeps_more) (auto simp: row)
  ultimately show "cycle_rel l c s s'"
    using not assms row
    by (auto simp: inv_rel_def cycle_step_def credit_inv_def uniq_rel_def credits_allowed_def)
qed (use insert_err cr.R_refl in blast)

section \<open>Recording a block\<close>

lemma cycle_routeDeposit: "stays (cycle_rel l c) (routeDeposit now tc pol i out)"
  unfolding routeDeposit_def Let_def by (intro cr.stays_rules cycle_ops) simp_all

lemma cycle_recordDeposit: "stays (cycle_rel l c) (recordDeposit now bp tc pol)"
  unfolding recordDeposit_def Let_def
  by (intro cr.stays_rules cycle_ops cycle_routeDeposit) (simp_all add: credited_def depositOf_def)

lemma cycle_openLedgerReview: "stays (cycle_rel l c) (openLedgerReview now ch i r)"
  unfolding openLedgerReview_def by (intro cr.stays_rules cycle_ops)

lemma cycle_appendFresh: "stays (cycle_rel l c) (appendFresh now e)"
  unfolding appendFresh_def by (intro cr.stays_rules cycle_ops)

lemma cycle_recordTransfer: "stays (cycle_rel l c) (recordTransfer now bp pol out tc)"
  unfolding recordTransfer_def Let_def
  by (intro cr.stays_rules cycle_appendFresh cycle_openLedgerReview cycle_recordDeposit)

lemma cycle_recordFee: "stays (cycle_rel l c) (recordFee now bp pol out f)"
  unfolding recordFee_def by (intro cr.stays_rules cycle_ops)

lemma cycle_recordUnattributed: "stays (cycle_rel l c) (recordUnattributed now pol out p)"
  unfolding recordUnattributed_def by (intro cr.stays_rules cycle_appendFresh cycle_openLedgerReview)

lemma cycle_RecordBlock: "stays (cycle_rel l c) (RecordBlock now bp pol)"
  unfolding RecordBlock_def
  by (intro cr.stays_rules cycle_ops cycle_recordTransfer cycle_recordFee cycle_recordUnattributed)

section \<open>The credit transaction\<close>

lemma LoadCreditGate_run:
  "LoadCreditGate ch s = (Inr \<lparr>cg_CreditPaused = (case find (\<lambda>o1. oc_ChainID o1 = ch) (t_controls s) of None \<Rightarrow> False
       | Some o1 \<Rightarrow> oc_CreditPaused o1),
     cg_ScanWithoutCredit = (case find (\<lambda>o1. oc_ChainID o1 = ch) (t_controls s) of None \<Rightarrow> False
       | Some o1 \<Rightarrow> oc_ScanWithoutCredit o1),
     cg_ChainReviewOpen = (\<exists>r \<in> set (t_chain_reviews s). cr_ChainID r = ch \<and> cr_ResolvedAt r = None)\<rparr>, s)"
  by (auto simp: LoadCreditGate_def controlsRepo_Get_def getControls_def chainReviewRepo_HasOpen_def zeroControls_def
      bindE_def tryE_run queryRow_run filter_empty_conv split: option.splits)

lemma gate_open_iff:
  "gate_open s ch \<longleftrightarrow> (\<exists>g. LoadCreditGate ch s = (Inr g, s) \<and> \<not> cg_CreditPaused g \<and> \<not> cg_ScanWithoutCredit g \<and>
     \<not> cg_ChainReviewOpen g)"
  by (auto simp: LoadCreditGate_run gate_open_def split: option.splits)

lemma CreditDeposit_ok:
  assumes "CreditDeposit E now d s = (Inr (), t)"
  obtains payload row e where
    "gate_open s (d_ChainID d)" "MarshalJSON E (creditedEventOf E d now) = Some payload"
    "find (\<lambda>x. d_ID x = d_ID d) (t_deposits s) = Some row" "d_Status row = DepositCreditable"
    "\<not> (\<exists>x \<in> set (t_outbox s). ob_DedupKey x = DepositDedupKey d)"
    "ob_ID e = nextRowID (map ob_ID (t_outbox s))" "creditEvent d e" "ob_Payload e = payload"
    "t = t_outbox_update (\<lambda>es. es @ [e]) (t_deposits_update (map_where
       (\<lambda>x. d_ID x = d_ID d \<and> d_Status x = DepositCreditable)
       (applyDepositUpdate now DepositCreditable DepositCredited (noDepositUpdate\<lparr>du_CreditedAt := Some now\<rparr>))) s)"
proof -
  obtain payload where p: "MarshalJSON E (creditedEventOf E d now) = Some payload"
    using assms by (cases "MarshalJSON E (creditedEventOf E d now)") (auto simp: CreditDeposit_def)
  have key: "DepositDedupKey d \<noteq> []" by (simp add: DepositDedupKey_def OutboxTopicDepositCredited_def)
  have topic: "OutboxTopicDepositCredited \<noteq> []" by (simp add: OutboxTopicDepositCredited_def)
  from assms p have "\<exists>g u. LoadCreditGate (d_ChainID d) s = (Inr g, s) \<and> \<not> cg_CreditPaused g \<and>
      \<not> cg_ScanWithoutCredit g \<and> \<not> cg_ChainReviewOpen g \<and>
      depositRepo_UpdateStatus now (d_ID d) DepositCreditable DepositCredited (noDepositUpdate\<lparr>du_CreditedAt := Some now\<rparr>) s
        = (Inr (), u) \<and>
      (\<exists>e. outboxRepo_Enqueue now \<lparr>ob_ID = 0, ob_ChainID = d_ChainID d, ob_Topic = OutboxTopicDepositCredited,
                  ob_DedupKey = DepositDedupKey d, ob_Payload = payload, ob_CreatedAt = now,
                  ob_DispatchedAt = None\<rparr> u = (Inr e, t))"
    by (auto simp: CreditDeposit_def with_tx_ok_iff bindE_ok_iff thenE_ok_iff LoadCreditGate_run split: if_splits)
  then obtain g u e where g: "gate_open s (d_ChainID d)"
    and u: "depositRepo_UpdateStatus now (d_ID d) DepositCreditable DepositCredited
      (noDepositUpdate\<lparr>du_CreditedAt := Some now\<rparr>) s = (Inr (), u)"
    and e: "outboxRepo_Enqueue now \<lparr>ob_ID = 0, ob_ChainID = d_ChainID d, ob_Topic = OutboxTopicDepositCredited,
                  ob_DedupKey = DepositDedupKey d, ob_Payload = payload, ob_CreatedAt = now,
                  ob_DispatchedAt = None\<rparr> u = (Inr e, t)"
    unfolding gate_open_iff by blast
  from u have same: "t_outbox u = t_outbox s" by (auto simp: dep_update_ok_iff)
  from e key topic same have "\<not> (\<exists>x \<in> set (t_outbox s). ob_DedupKey x = DepositDedupKey d) \<and>
      ob_ID e = nextRowID (map ob_ID (t_outbox s)) \<and> creditEvent d e \<and> ob_Payload e = payload \<and>
      t = t_outbox_update (\<lambda>es. es @ [e]) u"
    by (auto simp: outboxRepo_Enqueue_def run_defs Let_def creditEvent_def split: if_splits)
  then show ?thesis
    using that [OF g p] u by (auto simp: dep_update_ok_iff)
qed

lemma CreditDeposit_err: "CreditDeposit E now d s = (Inl e, t) \<Longrightarrow> t = s"
  by (auto simp: CreditDeposit_def with_tx_err_iff split: option.splits)

text \<open>The record a pass works on was read from the store: the row with its identifier is the same deposit.\<close>

definition snapshot :: "store \<Rightarrow> DepositRecord \<Rightarrow> bool" where
  "snapshot s d \<longleftrightarrow> (\<exists>x \<in> set (t_deposits s). same_deposit d x)"

lemma snapshot_step: "snapshot s d \<Longrightarrow> credit_inv s \<Longrightarrow> credit_rel s t \<Longrightarrow> snapshot t d"
  unfolding snapshot_def inv_rel_def keeps_deposits_def using same_deposit_trans by blast

text \<open>The row the credit transaction rewrites, and the rest of the table.\<close>

definition creditRow :: "time \<Rightarrow> int \<Rightarrow> DepositRecord \<Rightarrow> DepositRecord" where
  "creditRow now i x = (if d_ID x = i \<and> d_Status x = DepositCreditable
     then applyDepositUpdate now DepositCreditable DepositCredited (noDepositUpdate\<lparr>du_CreditedAt := Some now\<rparr>) x
     else x)"

lemma creditRow_same: "same_deposit x (creditRow now i x)"
  by (simp add: creditRow_def update_same_deposit)

lemma creditRow_credited: "credited (creditRow now i x) \<longleftrightarrow> credited x \<or> d_ID x = i \<and> d_Status x = DepositCreditable"
  by (auto simp: creditRow_def credited_def)

lemma creditRow_at: "d_CreditedAt (creditRow now i x) =
    (if d_ID x = i \<and> d_Status x = DepositCreditable then Some now else d_CreditedAt x)"
  by (simp add: creditRow_def applyDepositUpdate_def)

lemma creditRow_event: "creditEvent (creditRow now i x) e = creditEvent x e"
  using dedup_key_cong [of "creditRow now i x" x] creditRow_same [of x now i] by (simp add: creditEvent_def same_deposit_def)

lemma credit_flip_inv:
  assumes inv: "credit_inv s" and uq: "store_uniq t"
    and img: "set (t_deposits t) = creditRow now i ` set (t_deposits s)" and out: "set (t_outbox t) = insert e (set (t_outbox s))"
    and row: "row \<in> set (t_deposits s)" "d_ID row = i" "d_Status row = DepositCreditable" and ev: "creditEvent row e"
  shows "credit_inv t"
  unfolding credit_inv_def img out ball_simps bex_simps creditRow_event creditRow_credited creditRow_at
proof (intro conjI ballI uq)
  fix x assume x: "x \<in> set (t_deposits s)"
  show "(credited x \<or> d_ID x = i \<and> d_Status x = DepositCreditable) =
      ((if d_ID x = i \<and> d_Status x = DepositCreditable then Some now else d_CreditedAt x) \<noteq> None)"
    using inv x by (auto simp: credit_inv_def)
  show "credited x \<or> d_ID x = i \<and> d_Status x = DepositCreditable \<longrightarrow>
      creditEvent x e \<or> (\<exists>ev \<in> set (t_outbox s). creditEvent x ev)"
    using inv x deposit_id_unique [OF inv x row(1)] row(2) ev by (auto simp: credit_inv_def)
next
  show "ob_Topic e = OutboxTopicDepositCredited \<longrightarrow> (\<exists>x \<in> set (t_deposits s).
      (credited x \<or> d_ID x = i \<and> d_Status x = DepositCreditable) \<and> creditEvent x e)"
    using row ev by blast
  fix ev assume "ev \<in> set (t_outbox s)"
  then show "ob_Topic ev = OutboxTopicDepositCredited \<longrightarrow> (\<exists>x \<in> set (t_deposits s).
      (credited x \<or> d_ID x = i \<and> d_Status x = DepositCreditable) \<and> creditEvent x ev)"
    using inv unfolding credit_inv_def by blast
qed

lemma keeps_credit:
  assumes "set (t_deposits t) = creditRow now i ` set (t_deposits s)" "set (t_outbox t) = insert e (set (t_outbox s))"
  shows "keeps_deposits s t"
  unfolding keeps_deposits_def assms bex_simps
proof (intro conjI ballI)
  fix d assume d: "d \<in> set (t_deposits s)"
  have "credited d \<longrightarrow> credited (creditRow now i d) \<and> d_CreditedAt (creditRow now i d) = d_CreditedAt d"
    unfolding creditRow_credited creditRow_at by (auto simp: credited_def)
  then show "\<exists>x \<in> set (t_deposits s). same_deposit d (creditRow now i x) \<and>
      (credited d \<longrightarrow> credited (creditRow now i x) \<and> d_CreditedAt (creditRow now i x) = d_CreditedAt d)"
    using creditRow_same d by blast
qed blast

lemma cycle_credit_success:
  assumes run: "CreditDeposit E now d s = (Inr (), t)" and inv: "credit_inv s"
    and snap: "snapshot s d" and cond: "creditable_at l c d"
  shows "credit_inv t \<and> cycle_step l c s t"
proof -
  obtain row e where gate: "gate_open s (d_ChainID d)"
    and row: "find (\<lambda>x. d_ID x = d_ID d) (t_deposits s) = Some row" "d_Status row = DepositCreditable"
    and fresh: "\<not> (\<exists>x \<in> set (t_outbox s). ob_DedupKey x = DepositDedupKey d)"
    and e: "ob_ID e = nextRowID (map ob_ID (t_outbox s))" "creditEvent d e"
    and t: "t = t_outbox_update (\<lambda>es. es @ [e]) (t_deposits_update (map_where
       (\<lambda>x. d_ID x = d_ID d \<and> d_Status x = DepositCreditable)
       (applyDepositUpdate now DepositCreditable DepositCredited (noDepositUpdate\<lparr>du_CreditedAt := Some now\<rparr>))) s)"
    using run by (rule CreditDeposit_ok)
  have mem: "row \<in> set (t_deposits s)" "d_ID row = d_ID d" using find_SomeD [OF row(1)] by auto
  have same: "same_deposit d x" if "x \<in> set (t_deposits s)" "d_ID x = d_ID d" for x
    using snap deposit_id_unique [OF inv that(1)] that(2) by (auto simp: snapshot_def same_deposit_def)
  have img: "set (t_deposits t) = creditRow now (d_ID d) ` set (t_deposits s)"
    by (simp add: t map_where_def creditRow_def)
  have out: "set (t_outbox t) = insert e (set (t_outbox s))" by (simp add: t)
  have uq: "store_uniq t"
    using inv uniq_outbox_append [of "t_outbox s" e] e fresh
    by (auto simp: credit_inv_def store_uniq_def t creditEvent_def uniq_deposits_update)
  have "creditEvent row e"
    using dedup_key_cong [of row d] same [OF mem] e(2) by (simp add: creditEvent_def same_deposit_def)
  then have "credit_inv t" by (rule credit_flip_inv [OF inv uq img out mem row(2)])
  moreover have "keeps_deposits s t" by (rule keeps_credit [OF img out])
  moreover have "creditable_at l c (creditRow now (d_ID d) x) \<and> gate_open s (d_ChainID (creditRow now (d_ID d) x))"
    if "x \<in> set (t_deposits s)" "d_ID x = d_ID d" for x
    using same_deposit_trans [OF same [OF that] creditRow_same] cond gate
    by (simp add: same_deposit_def depositKey_def creditable_at_def)
  moreover have "d_ID (creditRow now i x) = d_ID x" for i x using creditRow_same [of x now i] by (simp add: same_deposit_def)
  ultimately have "credit_inv t" "keeps_deposits s t" "credits_allowed l c s t"
    unfolding credits_allowed_def img ball_simps creditRow_credited by auto
  moreover have "gate_open t = gate_open s" by (rule gate_same) (simp_all add: t)
  ultimately show ?thesis by (simp add: cycle_step_def)
qed

lemma cycle_CreditDeposit:
  assumes "snapshot s d" and "creditable_at l c d"
  shows "cycle_rel l c s (snd (CreditDeposit E now d s))"
proof (cases "CreditDeposit E now d s")
  case (Pair r t)
  show ?thesis
  proof (cases r)
    case (Inl e)
    then show ?thesis using Pair CreditDeposit_err cr.R_refl by fastforce
  next
    case (Inr a)
    then show ?thesis using Pair assms cycle_credit_success by (auto simp: inv_rel_def)
  qed
qed

section \<open>The scanner cycle\<close>

lemma evaluate_credit:
  "EvaluateCreditConditions d l c gate = DecisionCredit \<Longrightarrow> creditable_at l c d"
  by (auto simp: EvaluateCreditConditions_def creditable_at_def split: if_splits)

lemma cycle_creditPass:
  assumes "\<forall>d \<in> set ds. snapshot s d"
  shows "cycle_rel l (sc_Confirmations cfg) s (snd (creditPass E now cfg l gate ds s))"
  using assms
proof (induction ds arbitrary: s)
  case Nil
  then show ?case using cr.R_refl by simp
next
  case (Cons d ds)
  let ?R = "cycle_rel l (sc_Confirmations cfg)"
  have rest: "?R s (snd (creditPass E now cfg l gate ds t))" if "?R s t" for t
  proof (cases "credit_inv s")
    case True
    then have "\<forall>x \<in> set ds. snapshot t x"
      using Cons.prems snapshot_step credit_of_cycle [OF that] by fastforce
    then show ?thesis using Cons.IH that cr.R_trans by blast
  qed (simp add: inv_rel_def)
  show ?case
  proof (cases "EvaluateCreditConditions d l (sc_Confirmations cfg) gate")
    case DecisionCredit
    then have "?R s (snd (CreditDeposit E now d s))"
      using Cons.prems by (intro cycle_CreditDeposit evaluate_credit) auto
    then show ?thesis using DecisionCredit rest
      by (cases "CreditDeposit E now d s") (auto simp: bindE_def tryE_run split: sum.splits)
  next
    case DecisionSuspend
    let ?u = "depositRepo_UpdateStatus now (d_ID d) DepositCreditable DepositSuspended noDepositUpdate"
    have "?R s (snd (?u s))" by (rule cr.from_stays, rule cycle_dep_update) simp_all
    then show ?thesis using DecisionSuspend rest
      by (cases "?u s") (auto simp: thenE_def bindE_def split: sum.splits)
  qed (use rest [OF cr.R_refl] in simp_all)
qed

lemma list_snapshot: "d \<in> set (limit_rows n (sort_key k (filter P (t_deposits s)))) \<Longrightarrow> snapshot s d"
  using limit_rows_subset [of n "sort_key k (filter P (t_deposits s))"]
  by (auto simp: snapshot_def intro!: bexI [of _ d])

lemma cycle_processPending: "stays (cycle_rel l (sc_Confirmations cfg)) (processPending E now cfg l)"
proof -
  have credit: "stays (cycle_rel l (sc_Confirmations cfg))
      (bindE (depositRepo_ListByStatus ch st n) (\<lambda>ds. creditPass E now cfg l gate ds))" for ch st n gate
    by (rule cr.stays_read)
       (auto simp: depositRepo_ListByStatus_def intro!: cycle_creditPass dest: list_snapshot)
  have resume: "stays (cycle_rel l c) (resumeSuspended now d)" for c d
  proof (cases "d_PriorStatus d = Some DepositCredited")
    case True
    have "depositRepo_UpdateStatus now i DepositSuspended DepositCredited noDepositUpdate s = (Inl ErrIllegalTransition, s)" for i s
      by (simp add: depositRepo_UpdateStatus_def ValidateDepositTransition_def validateTransition_def enum_defs thenE_def bindE_def)
    then show ?thesis using True by (simp add: resumeSuspended_def cr.stays_unchanged)
  next
    case False
    then show ?thesis unfolding resumeSuspended_def
      by (intro cr.stays_rules cycle_dep_update) auto
  qed
  show ?thesis
    unfolding processPending_def Let_def LoadCreditGate_def bindE_assoc unpark_def confirmDeposit_def
    by (intro credit cr.stays_rules cycle_ops resume) simp_all
qed

lemma chainReview_open_gate:
  "gate_open (snd (chainReviewRepo_Open now cond s)) ch \<Longrightarrow> gate_open s ch"
  by (auto simp: chainReviewRepo_Open_def run_defs Let_def gate_open_def split: if_splits)

lemma cycle_chainReviewOpen [cycle_ops]: "stays (cycle_rel l c) (chainReviewRepo_Open now cond)"
  unfolding stays_def
proof
  fix s
  show "cycle_rel l c s (snd (chainReviewRepo_Open now cond s))"
  proof (rule cycle_frame)
    show "uniq_rel s (snd (chainReviewRepo_Open now cond s))" using uniq_chain_review_open by (simp add: stays_def)
    show "gate_open s ch" if "gate_open (snd (chainReviewRepo_Open now cond s)) ch" for ch
      using that by (rule chainReview_open_gate)
  qed (simp_all add: chainReviewRepo_Open_def run_defs Let_def)
qed

lemma cycle_openChainReviewOnce: "stays (cycle_rel l c) (openChainReviewOnce now cfg i tr a b)"
  unfolding openChainReviewOnce_def by (intro cr.stays_rules cycle_ops)

lemma cycle_orphanFlow: "stays (cycle_rel l c) (orphanFlow now cfg F i h e g)"
  unfolding orphanFlow_def Let_def
  by (intro cr.stays_rules cycle_openChainReviewOnce cycle_ops) simp_all

lemma cycle_wrongChain: "stays (cycle_rel l c) (wrongChain now cfg i b)"
  unfolding wrongChain_def by (intro cr.stays_rules cycle_openChainReviewOnce)

text \<open>Consuming the rescan base leaves the credit flags as they are.\<close>

lemma clear_resume_flags:
  "applyControls (noControlsUpdate\<lparr>cu_ClearResumeFromHeight := True\<rparr>) cur = (cur', changes) \<Longrightarrow>
   oc_CreditPaused cur' = oc_CreditPaused cur \<and> oc_ScanWithoutCredit cur' = oc_ScanWithoutCredit cur"
  by (auto simp: applyControls_def applyBool_def noControlsUpdate_def split: prod.splits)

lemma find_upsert:
  assumes "k v = c"
  shows "find (\<lambda>o1. k o1 = x) (if \<exists>o1 \<in> set rows. k o1 = c then map_where (\<lambda>o1. k o1 = c) (\<lambda>_. v) rows else rows @ [v]) =
     (if x = c then Some v else find (\<lambda>o1. k o1 = x) rows)"
proof -
  have "x \<noteq> c \<Longrightarrow> find (\<lambda>o1. k o1 = x) (map_where (\<lambda>o1. k o1 = c) (\<lambda>_. v) rows) = find (\<lambda>o1. k o1 = x) rows"
    using assms by (induction rows) (auto simp: map_where_def)
  moreover have "\<exists>o1 \<in> set rows. k o1 = c \<Longrightarrow>
      find (\<lambda>o1. k o1 = c) (map_where (\<lambda>o1. k o1 = c) (\<lambda>_. v) rows) = Some v"
    using assms by (induction rows) (auto simp: map_where_def)
  moreover have "\<forall>o1 \<in> set rows. k o1 \<noteq> c \<Longrightarrow>
      find (\<lambda>o1. k o1 = x) (rows @ [v]) = (if x = c then Some v else find (\<lambda>o1. k o1 = x) rows)"
    using assms by (induction rows) auto
  ultimately show ?thesis by auto
qed

lemma controls_update_const: "t_controls_update f s = t_controls_update (\<lambda>_. f (t_controls s)) s"
  by (cases s) simp

lemma forE_audit: "\<exists>f. forE chs (insertAudit now ch a r) s = (Inr (), t_audit_update f s)"
proof (induction chs arbitrary: s)
  case Nil
  show ?case by (rule exI [of _ "\<lambda>x. x"]) simp
next
  case (Cons x chs)
  obtain g where "insertAudit now ch a r x s = (Inr (), t_audit_update g s)"
    by (auto simp: insertAudit_def nextID_def)
  moreover obtain f where "forE chs (insertAudit now ch a r) (t_audit_update g s) = (Inr (), t_audit_update f (t_audit_update g s))"
    using Cons by blast
  ultimately show ?case by (auto simp: thenE_def bindE_def intro: exI [of _ "f \<circ> g"])
qed

lemma controls_current:
  "controlsRepo_Get ch s = (Inr (case find (\<lambda>o1. oc_ChainID o1 = ch) (t_controls s) of None \<Rightarrow> zeroControls ch | Some o1 \<Rightarrow> o1), s)"
  by (auto simp: controlsRepo_Get_def getControls_def bindE_def tryE_run queryRow_run split: option.splits)

lemma clear_resume_effect:
  "\<exists>f rows. snd (controlsRepo_Apply now ch (noControlsUpdate\<lparr>cu_ClearResumeFromHeight := True\<rparr>) actor reason s) =
      t_audit_update f (t_controls_update (\<lambda>_. rows) s) \<and>
    gate_open (t_controls_update (\<lambda>_. rows) s) = gate_open s"
proof -
  let ?u = "noControlsUpdate\<lparr>cu_ClearResumeFromHeight := True\<rparr>"
  let ?cur = "case find (\<lambda>o1. oc_ChainID o1 = ch) (t_controls s) of None \<Rightarrow> zeroControls ch | Some o1 \<Rightarrow> o1"
  obtain cur' changes where ap: "applyControls ?u ?cur = (cur', changes)" by (cases "applyControls ?u ?cur")
  note flags = clear_resume_flags [OF ap]
  show ?thesis
  proof (cases "ch = [] \<or> changes = []")
    case True
    then have "snd (controlsRepo_Apply now ch ?u actor reason s) = t_audit_update (\<lambda>x. x) (t_controls_update (\<lambda>_. t_controls s) s)"
      using ap by (auto simp: controlsRepo_Apply_def controls_current bindE_def with_tx_def)
    then show ?thesis by (intro exI conjI) (assumption, simp)
  next
    case False
    let ?v = "cur'\<lparr>oc_ChainID := ch, oc_UpdatedAt := now\<rparr>"
    let ?rows = "if \<exists>c \<in> set (t_controls s). oc_ChainID c = ch
      then map_where (\<lambda>c. oc_ChainID c = ch) (\<lambda>_. ?v) (t_controls s) else t_controls s @ [?v]"
    obtain f where aud: "forE changes (insertAudit now ch actor reason) (t_controls_update (\<lambda>_. ?rows) s) =
      (Inr (), t_audit_update f (t_controls_update (\<lambda>_. ?rows) s))" using forE_audit by blast
    have upd: "t_controls_update (\<lambda>rows. if \<exists>c \<in> set rows. oc_ChainID c = ch
      then map_where (\<lambda>c. oc_ChainID c = ch) (\<lambda>_. ?v) rows else rows @ [?v]) s = t_controls_update (\<lambda>_. ?rows) s"
      by (rule controls_update_const)
    have "snd (controlsRepo_Apply now ch ?u actor reason s) = t_audit_update f (t_controls_update (\<lambda>_. ?rows) s)"
      using False ap
      by (simp add: controlsRepo_Apply_def controls_current bindE_def thenE_def with_tx_def Let_def upd aud split del: if_split)
    moreover have fnd: "find (\<lambda>o1. oc_ChainID o1 = x) ?rows = (if x = ch then Some ?v else find (\<lambda>o1. oc_ChainID o1 = x) (t_controls s))" for x
      by (rule find_upsert) simp
    have "gate_open (t_controls_update (\<lambda>_. ?rows) s) x = gate_open s x" for x
      using flags by (cases "x = ch"; cases "find (\<lambda>o1. oc_ChainID o1 = ch) (t_controls s)")
        (simp_all add: gate_open_def fnd zeroControls_def split del: if_split)
    then have "gate_open (t_controls_update (\<lambda>_. ?rows) s) = gate_open s" by (rule ext)
    ultimately show ?thesis by blast
  qed
qed

lemma cycle_clear_resume:
  "stays (cycle_rel l c) (controlsRepo_Apply now ch (noControlsUpdate\<lparr>cu_ClearResumeFromHeight := True\<rparr>) actor reason)"
  (is "stays _ ?m")
  unfolding stays_def
proof
  fix s
  obtain f rows where eq: "snd (?m s) = t_audit_update f (t_controls_update (\<lambda>_. rows) s)"
    and gate: "gate_open (t_controls_update (\<lambda>_. rows) s) = gate_open s" using clear_resume_effect by blast
  show "cycle_rel l c s (snd (?m s))"
  proof (rule cycle_frame)
    show "uniq_rel s (snd (?m s))" using uniq_controls_apply by (simp add: stays_def)
    have "gate_open (snd (?m s)) = gate_open (t_controls_update (\<lambda>_. rows) s)"
      by (rule gate_same) (simp_all add: eq)
    then show "gate_open s ch" if "gate_open (snd (?m s)) ch" for ch using that gate by simp
  qed (simp_all add: eq)
qed

lemma cycle_resolveCursor: "stays (cycle_rel l c) (resolveCursor now cfg F fb lt)"
  unfolding resolveCursor_def
  by (intro cr.stays_rules cycle_ops cycle_clear_resume)

lemma cycle_fetchParse: "stays (cycle_rel l c) (fetchParse K cfg F h)"
  unfolding fetchParse_def loadWatch_def by (intro cr.stays_rules cycle_ops)

lemma cycle_scanLoop: "stays (cycle_rel l c) (scanLoop n K now cfg F i lt h e)"
proof (induction n arbitrary: h e)
  case (Suc n)
  show ?case unfolding scanLoop.simps
    by (intro cr.stays_rules cycle_fetchParse cycle_orphanFlow cycle_RecordBlock Suc)
qed (simp add: cr.stays_throw)

text \<open>A whole cycle, judged at the height the node reported as the latest.\<close>

lemma cycle_Cycle:
  assumes "fe_LatestBlock F = Inr latest"
  shows "stays (cycle_rel (bk_Height latest) (sc_Confirmations cfg)) (Cycle K E now cfg F i fb)"
  unfolding Cycle_def assms sum.case
  by (intro cr.stays_rules cycle_wrongChain cycle_resolveCursor cycle_scanLoop cycle_processPending)

section \<open>Other steps\<close>

lemma credit_dispatch: "stays credit_rel (outboxRepo_MarkDispatched now i at)"
proof -
  have "credit_rel s t" if run: "outboxRepo_MarkDispatched now i at s = (r, t)" for s r t
  proof -
    let ?g = "\<lambda>x. if ob_ID x = i \<and> ob_DispatchedAt x = None then x\<lparr>ob_DispatchedAt := Some (fmtTime now at)\<rparr> else x"
    have rows: "t_deposits t = t_deposits s" "set (t_outbox t) = ?g ` set (t_outbox s)"
      using run by (auto simp: outboxRepo_MarkDispatched_def run_defs map_where_def split: if_splits)
    have g: "ob_ID (?g x) = ob_ID x" "ob_Topic (?g x) = ob_Topic x" "ob_DedupKey (?g x) = ob_DedupKey x"
      "ob_Payload (?g x) = ob_Payload x" for x by simp_all
    have "uniq_rel s t" by (rule staysD [OF uniq_outbox_ops(2) run])
    then have "credit_inv s \<longrightarrow> credit_inv t"
      unfolding credit_inv_def rows ball_simps bex_simps uniq_rel_def creditEvent_def g by blast
    moreover have "keeps_deposits s t"
      unfolding keeps_deposits_def rows bex_simps g using same_deposit_refl by blast
    ultimately show ?thesis by (simp add: inv_rel_def)
  qed
  then show ?thesis by (metis prod.collapse stays_def)
qed

lemma cycle_resolveDepositReview: "stays (cycle_rel l c) (resolveDepositReview now ref o1)"
  unfolding resolveDepositReview_def
  by (cases o1; cases "ParseInt64 ref"; simp only: option.case reviewOutcome.case;
      intro cr.stays_rules cycle_ops; simp)

lemma cycle_wd_update [cycle_ops]: "stays (cycle_rel l c) (withdrawalRepo_UpdateStatus now k from to u)"
proof (rule stays_cases)
  fix s s' and a :: unit
  assume run: "withdrawalRepo_UpdateStatus now k from to u s = (Inr a, s')"
  show "cycle_rel l c s s'"
    by (rule cycle_frame [OF _ _ staysD [OF uniq_wd_update run]])
       (use run in \<open>auto simp: wd_update_ok_iff gate_open_def\<close>)
qed (use wd_update_err cr.R_refl in blast)

lemma cycle_seq_update [cycle_ops]: "stays (cycle_rel l c) (sequenceRepo_UpdateStatus now k from to)"
proof (rule stays_cases)
  fix s s' and a :: unit
  assume run: "sequenceRepo_UpdateStatus now k from to s = (Inr a, s')"
  show "cycle_rel l c s s'"
    by (rule cycle_frame [OF _ _ staysD [OF uniq_seq_update run]])
       (use run in \<open>auto simp: seq_update_ok_iff gate_open_def\<close>)
qed (use seq_update_err cr.R_refl in blast)

lemma cycle_wd_reads [cycle_ops]:
  "stays (cycle_rel l c) (withdrawalRepo_Get k)" "stays (cycle_rel l c) (sequenceRepo_GetByWorkRef ref)"
  by (rule cr.stays_unchanged, simp add: reads_unchanged)+

lemma cycle_resolveReviewItem: "stays (cycle_rel l c) (resolveReviewItem now i o1 nt at)"
proof -
  have wd: "stays (cycle_rel l c) (resolveWithdrawalReview now ref o1)" for ref
    unfolding resolveWithdrawalReview_def disposeReservation_def by (intro cr.stays_rules cycle_ops)
  have kind: "stays (cycle_rel l c) (case k of ReviewKindWithdrawal \<Rightarrow> resolveWithdrawalReview now ref o1
      | ReviewKindDeposit \<Rightarrow> resolveDepositReview now ref o1 | ReviewKindLedgerEntry \<Rightarrow> ret ()
      | ReviewItemKindOther x \<Rightarrow> throw ErrInvalidRecord)" for k ref
    by (cases k) (simp_all add: wd cycle_resolveDepositReview cr.stays_ret cr.stays_throw)
  show ?thesis unfolding resolveReviewItem_def by (intro kind cr.stays_rules cycle_ops)
qed

section \<open>Reachable stores\<close>

text \<open>
  The steps of the deposit side: a scanner cycle, a rescan request, an operator's
  review resolution, the dispatch of an outbox event, a sweep's move of a
  credited deposit, and every step that leaves the deposits and the outbox as
  they are.
\<close>

inductive dstep :: "store \<Rightarrow> store \<Rightarrow> bool" where
  cycle: "Cycle K E now cfg F i fb s = (r, t) \<Longrightarrow> dstep s t"
| rescan: "RescanFrom now cfg h actor reason s = (q, t) \<Longrightarrow> dstep s t"
| resolve: "resolveReviewItem now j o1 nt at s = (q, t) \<Longrightarrow> dstep s t"
| dispatch: "outboxRepo_MarkDispatched now j at s = (q, t) \<Longrightarrow> dstep s t"
| sweep: "to = DepositSweepPending \<or> to = DepositSwept \<Longrightarrow> du_CreditedAt u = None \<Longrightarrow>
    depositRepo_UpdateStatus now j from to u s = (q, t) \<Longrightarrow> dstep s t"
| elsewhere: "t_deposits t = t_deposits s \<Longrightarrow> t_outbox t = t_outbox s \<Longrightarrow> store_uniq t \<Longrightarrow> dstep s t"

abbreviation dsteps :: "store \<Rightarrow> store \<Rightarrow> bool" where
  "dsteps \<equiv> dstep\<^sup>*\<^sup>*"

lemma RescanFrom_frame:
  "t_deposits (snd (RescanFrom now cfg h actor reason s)) = t_deposits s \<and>
   t_outbox (snd (RescanFrom now cfg h actor reason s)) = t_outbox s"
proof -
  have "t_deposits (snd (controlsRepo_Apply now ch u a r s)) = t_deposits s \<and>
      t_outbox (snd (controlsRepo_Apply now ch u a r s)) = t_outbox s" for ch u a r
  proof -
    obtain cur where "controlsRepo_Get ch s = (Inr cur, s)" using controls_current by blast
    moreover obtain cur' changes where "applyControls u cur = (cur', changes)" by (cases "applyControls u cur")
    moreover obtain f where "forE changes (insertAudit now ch a r) x = (Inr (), t_audit_update (f x) x)" for x
      using forE_audit by metis
    ultimately show ?thesis
      by (simp add: controlsRepo_Apply_def bindE_def thenE_def with_tx_def Let_def)
  qed
  then show ?thesis by (simp add: RescanFrom_def thenE_def bindE_def split: prod.splits sum.splits) (metis snd_conv)
qed

lemma dstep_credit: "dstep s t \<Longrightarrow> credit_rel s t"
proof (induction rule: dstep.induct)
  case (cycle K E now cfg F i fb s r t)
  show ?case
  proof (cases "fe_LatestBlock F")
    case (Inl e)
    then show ?thesis using cycle crd.R_refl by (simp add: Cycle_def)
  next
    case (Inr latest)
    then show ?thesis using staysD [OF stays_credit [OF cycle_Cycle [OF Inr]] cycle] by simp
  qed
next
  case (rescan now cfg h actor reason s q t)
  have "stays uniq_rel (RescanFrom now cfg h actor reason)"
    unfolding RescanFrom_def by (intro uq.stays_rules uniq_ops)
  then show ?case
    using RescanFrom_frame [of now cfg h actor reason s] rescan by (intro credit_frame) (auto dest: staysD)
next
  case (resolve now j o1 nt at s q t)
  then show ?case using staysD [OF stays_credit [OF cycle_resolveReviewItem]] by blast
next
  case (dispatch now j at s q t)
  then show ?case using staysD [OF credit_dispatch] by blast
next
  case (sweep to u now j "from" s q t)
  then show ?case using staysD [OF stays_credit [OF cycle_dep_update]] by blast
next
  case (elsewhere t s)
  then show ?case by (intro credit_frame) (simp_all add: uniq_rel_def)
qed

lemma dsteps_credit: "dsteps s t \<Longrightarrow> credit_rel s t"
  by (induction rule: rtranclp_induct) (auto intro: crd.R_refl crd.R_trans dstep_credit)

lemma credit_inv_empty: "credit_inv empty_store"
  by (simp add: credit_inv_def store_uniq_def uniq_withdrawals_def uniq_sequences_def uniq_sweeps_def
      activeSweeps_def uniq_deposits_def uniq_ledger_def uniq_outbox_def empty_store_def)

lemma reachable_credit_inv: "dsteps empty_store s \<Longrightarrow> credit_inv s"
  using dsteps_credit credit_inv_empty by (auto simp: inv_rel_def)

end
