(* ===== verification/Deposit_Replay.thy ===== *)
theory Deposit_Replay
  imports Deposit_Safety
begin

text \<open>
  What a recorded block leaves behind (\<open>recorded\<close>), that nothing the scanner does
  short of the orphan flow takes it away (\<open>grows\<close>), and that recording such a
  block again finds every row in place.
\<close>

section \<open>Folds of programs\<close>

context step_rel
begin

lemma foldE_establish:
  assumes stay: "\<And>b x. stays R (f b x)"
    and est: "\<And>b x s b' t. f b x s = (Inr b', t) \<Longrightarrow> P x t"
    and mono: "\<And>x s t. R s t \<Longrightarrow> P x s \<Longrightarrow> P x t"
  shows "foldE f xs b s = (Inr b', t) \<Longrightarrow> \<forall>x \<in> set xs. P x t"
proof (induction xs arbitrary: b s)
  case (Cons y xs)
  then obtain b1 s1 where one: "f b y s = (Inr b1, s1)" and rest: "foldE f xs b1 s1 = (Inr b', t)"
    by (auto simp: bindE_ok_iff)
  have "stays R (foldE f xs b1)" by (rule stays_foldE) (rule stay)
  then have "R s1 t" using rest by (rule staysD)
  then show ?case using Cons.IH [OF rest] est [OF one] mono by auto
qed simp

end

lemma foldE_fixed:
  "(\<And>b x. x \<in> set xs \<Longrightarrow> f b x s = (Inr (g b x), s)) \<Longrightarrow> foldE f xs b s = (Inr (foldl g b xs), s)"
  by (induction xs arbitrary: b) (auto simp: bindE_def)

section \<open>Ledger rows\<close>

definition entryOk :: "LedgerEntry \<Rightarrow> bool" where
  "entryOk e \<longleftrightarrow> le_ChainID e \<noteq> [] \<and> enumValid (le_Kind e) AllLedgerEntryKinds \<and>
     enumValid (le_Direction e) AllLedgerDirections \<and> enumValid (le_Classification e) AllClassifications \<and>
     le_Address e \<noteq> [] \<and> le_Denom e \<noteq> [] \<and> \<not> (le_Kind e = LedgerKindTx \<and> le_TxHash e = []) \<and>
     \<not> (le_Kind e = LedgerKindBlockEvent \<and> le_TxHash e \<noteq> []) \<and> 0 \<le> le_AmountBaseUnits e"

text \<open>The index columns of the other kind are empty, as the parser leaves them.\<close>

definition plainEntry :: "LedgerEntry \<Rightarrow> bool" where
  "plainEntry e \<longleftrightarrow> (if le_Kind e = LedgerKindTx then le_EventIndex e = 0
     else le_TxHash e = [] \<and> le_MessageIndex e = 0 \<and> le_OpIndex e = 0)"

definition logged :: "store \<Rightarrow> LedgerEntry \<Rightarrow> bool" where
  "logged s e \<longleftrightarrow> entryOk e \<and> (\<exists>x \<in> set (t_ledger s). ledgerClash e x)"

lemma append_run:
  "ledgerRepo_Append now e s =
     (if \<not> entryOk e then (Inl ErrInvalidRecord, s)
      else let e1 = e\<lparr>le_ID := nextRowID (map le_ID (t_ledger s)), le_CreatedAt := fmtTime now (le_CreatedAt e)\<rparr>;
               row = (if le_Kind e = LedgerKindTx then e1\<lparr>le_EventIndex := 0\<rparr>
                      else e1\<lparr>le_TxHash := [], le_MessageIndex := 0, le_OpIndex := 0\<rparr>)
           in if \<exists>x \<in> set (t_ledger s). ledgerClash row x then (Inl ErrDuplicate, s)
              else (Inr e1, t_ledger_update (\<lambda>rows. rows @ [row]) s))"
  by (auto simp: ledgerRepo_Append_def entryOk_def run_defs Let_def amountText_cases)

lemma plain_clash:
  "plainEntry e \<Longrightarrow> ledgerClash (let e1 = e\<lparr>le_ID := i, le_CreatedAt := tm\<rparr> in if le_Kind e = LedgerKindTx then e1\<lparr>le_EventIndex := 0\<rparr>
      else e1\<lparr>le_TxHash := [], le_MessageIndex := 0, le_OpIndex := 0\<rparr>) x = ledgerClash e x"
  by (auto simp: plainEntry_def ledgerClash_def Let_def)

lemma ledgerClash_refl: "ledgerClash e e"
  by (simp add: ledgerClash_def)

lemma appendFresh_ok:
  assumes "appendFresh now e s = (Inr r, t)" "plainEntry e"
  shows "logged t e"
proof -
  let ?row = "let e1 = e\<lparr>le_ID := nextRowID (map le_ID (t_ledger s)), le_CreatedAt := fmtTime now (le_CreatedAt e)\<rparr>
    in if le_Kind e = LedgerKindTx then e1\<lparr>le_EventIndex := 0\<rparr>
      else e1\<lparr>le_TxHash := [], le_MessageIndex := 0, le_OpIndex := 0\<rparr>"
  have ok: "entryOk e"
    using assms(1) by (auto simp: appendFresh_def append_run bindE_def tryE_run split: if_splits)
  have "t = s \<and> (\<exists>x \<in> set (t_ledger s). ledgerClash ?row x) \<or> t = t_ledger_update (\<lambda>rows. rows @ [?row]) s"
    using assms(1) ok by (auto simp: appendFresh_def append_run bindE_def tryE_run Let_def split: if_splits)
  then show ?thesis
    using ok plain_clash [OF assms(2)] ledgerClash_refl [of ?row] by (auto simp: logged_def)
qed

lemma appendFresh_again:
  assumes "logged s e" "plainEntry e"
  shows "appendFresh now e s = (Inr None, s)"
  using assms plain_clash [OF assms(2), where i = "nextRowID (map le_ID (t_ledger s))" and tm = "fmtTime now (le_CreatedAt e)"]
  by (auto simp: appendFresh_def append_run logged_def bindE_def tryE_run Let_def)

lemma plain_entries [simp]:
  "plainEntry (TransferCandidate_LedgerEntry c ch h now)" "plainEntry (ReviewCandidate_LedgerEntry rc ch h now)"
  "plainEntry (BlockEventEntry_LedgerEntry be ch h now)"
  by (simp_all add: plainEntry_def TransferCandidate_LedgerEntry_def ReviewCandidate_LedgerEntry_def
      BlockEventEntry_LedgerEntry_def)

lemma logged_any_time:
  "logged s (TransferCandidate_LedgerEntry c ch h now) = logged s (TransferCandidate_LedgerEntry c ch h 0)"
  "logged s (ReviewCandidate_LedgerEntry rc ch h now) = logged s (ReviewCandidate_LedgerEntry rc ch h 0)"
  "logged s (BlockEventEntry_LedgerEntry be ch h now) = logged s (BlockEventEntry_LedgerEntry be ch h 0)"
  by (simp_all add: logged_def entryOk_def ledgerClash_def TransferCandidate_LedgerEntry_def
      ReviewCandidate_LedgerEntry_def BlockEventEntry_LedgerEntry_def)

section \<open>What a recorded block leaves\<close>

definition depositKnown :: "store \<Rightarrow> RecordPolicy \<Rightarrow> TransferCandidate \<Rightarrow> bool" where
  "depositKnown s pol c \<longleftrightarrow> rp_Chain pol \<noteq> [] \<and> tc_TxHash c \<noteq> [] \<and> tc_Address c \<noteq> [] \<and> tc_Denom c = BaseDenom \<and>
     0 < tc_AmountBaseUnits c \<and>
     (\<exists>d \<in> set (t_deposits s). depositKey d = (rp_Chain pol, tc_TxHash c, tc_MessageIndex c, tc_CoinIndex c, tc_Address c)
        \<and> d_Status d \<noteq> DepositOrphaned)"

definition isDeposit :: "TransferCandidate \<Rightarrow> bool" where
  "isDeposit c \<longleftrightarrow> tc_Direction c = DirectionIn \<and> tc_Classification c = ClassExternalDeposit"

definition transferDone :: "BlockParse \<Rightarrow> RecordPolicy \<Rightarrow> TransferCandidate \<Rightarrow> store \<Rightarrow> bool" where
  "transferDone bp pol c s \<longleftrightarrow> logged s (TransferCandidate_LedgerEntry c (rp_Chain pol) (bp_Height bp) 0) \<and>
     (isDeposit c \<longrightarrow> depositKnown s pol c)"

definition feeDone :: "RecordPolicy \<Rightarrow> FeeDeduction \<Rightarrow> store \<Rightarrow> bool" where
  "feeDone pol f s \<longleftrightarrow> rp_Chain pol \<noteq> [] \<and> fd_TxHash f \<noteq> [] \<and> fd_PayerAddress f \<noteq> [] \<and> 0 \<le> fd_FeeBaseUnits f \<and>
     (\<exists>x \<in> set (t_fee_outflows s). fo_ChainID x = rp_Chain pol \<and> fo_TxHash x = fd_TxHash f)"

definition recorded :: "BlockParse \<Rightarrow> RecordPolicy \<Rightarrow> store \<Rightarrow> bool" where
  "recorded bp pol s \<longleftrightarrow>
     (\<forall>c \<in> set (bp_Transfers bp). transferDone bp pol c s) \<and>
     (\<forall>f \<in> set (bp_FeeDeductions bp). feeDone pol f s) \<and>
     (\<forall>rc \<in> set (bp_ReviewCandidates bp). logged s (ReviewCandidate_LedgerEntry rc (rp_Chain pol) (bp_Height bp) 0)) \<and>
     (\<forall>be \<in> set (bp_BlockEvents bp). logged s (BlockEventEntry_LedgerEntry be (rp_Chain pol) (bp_Height bp) 0))"

definition grows :: "store \<Rightarrow> store \<Rightarrow> bool" where
  "grows s t \<longleftrightarrow> set (t_ledger s) \<subseteq> set (t_ledger t) \<and> set (t_fee_outflows s) \<subseteq> set (t_fee_outflows t) \<and>
     (\<forall>d \<in> set (t_deposits s). d_Status d \<noteq> DepositOrphaned \<longrightarrow>
        (\<exists>d' \<in> set (t_deposits t). depositKey d' = depositKey d \<and> d_Status d' \<noteq> DepositOrphaned)) \<and>
     t_watched t = t_watched s"

interpretation gr: step_rel grows
  by unfold_locales (auto simp: grows_def, (metis subsetD)+)

lemma grows_done:
  assumes "grows s t"
  shows "logged s e \<Longrightarrow> logged t e" "depositKnown s pol c \<Longrightarrow> depositKnown t pol c"
    "transferDone bp pol c s \<Longrightarrow> transferDone bp pol c t" "feeDone pol f s \<Longrightarrow> feeDone pol f t"
    "recorded bp pol s \<Longrightarrow> recorded bp pol t"
proof -
  show logged: "logged t e" if "logged s e" for e
    using assms that by (auto simp: grows_def logged_def)
  show known: "depositKnown t pol c" if "depositKnown s pol c" for c
    using assms that unfolding grows_def depositKnown_def by metis
  show transfer: "transferDone bp pol c t" if "transferDone bp pol c s" for c
    using that logged known by (auto simp: transferDone_def)
  show fee: "feeDone pol f t" if "feeDone pol f s" for f
    using assms that by (auto simp: grows_def feeDone_def)
  show "recorded bp pol t" if "recorded bp pol s"
    using that logged transfer fee by (auto simp: recorded_def)
qed

subsection \<open>Which methods keep it\<close>

named_theorems grows_ops

lemma stays_grows:
  assumes "\<And>s. set (t_ledger s) \<subseteq> set (t_ledger (snd (m s)))"
    "\<And>s. set (t_fee_outflows s) \<subseteq> set (t_fee_outflows (snd (m s)))"
    "\<And>s. t_deposits (snd (m s)) = t_deposits s" "\<And>s. t_watched (snd (m s)) = t_watched s"
  shows "stays grows m"
  using assms by (auto simp: stays_def grows_def)

lemma grows_reads [grows_ops]:
  "stays grows (depositRepo_Get c1 h m i a)" "stays grows (depositRepo_ListByStatus c1 st n)"
  "stays grows (checkpointRepo_Get c1)" "stays grows (watchRepo_ListActive c1)" "stays grows (controlsRepo_Get c1)"
  "stays grows (chainReviewRepo_HasOpen c1)" "stays grows (chainReviewRepo_ListOpen c1)"
  by (rule gr.stays_unchanged, simp add: reads_unchanged)+

lemma grows_ledger [grows_ops]: "stays grows (ledgerRepo_Append now e)"
  by (rule stays_grows) (auto simp: append_run Let_def append_frames)

lemma grows_fee [grows_ops]: "stays grows (ledgerRepo_AppendFeeOutflow now f)"
  by (rule stays_grows) (auto simp: ledgerRepo_AppendFeeOutflow_def run_defs Let_def amountText_cases)

lemma grows_review [grows_ops]: "stays grows (reviewRepo_Open now item)"
  by (rule stays_grows) (auto simp: reviewRepo_Open_def run_defs Let_def)

lemma grows_checkpoint [grows_ops]: "stays grows (checkpointRepo_Set now cp)"
  by (rule stays_grows) (auto simp: checkpointRepo_Set_def Let_def)

lemma grows_enqueue [grows_ops]: "stays grows (outboxRepo_Enqueue now ev)"
  by (rule stays_grows) (auto simp: outboxRepo_Enqueue_def run_defs Let_def)

lemma grows_dep_update [grows_ops]:
  assumes "to \<noteq> DepositOrphaned"
  shows "stays grows (depositRepo_UpdateStatus now k from to u)"
proof (rule stays_cases)
  fix s s' and a :: unit
  assume "depositRepo_UpdateStatus now k from to u s = (Inr a, s')"
  then have s': "s' = t_deposits_update (map_where (\<lambda>d. d_ID d = k \<and> d_Status d = from) (applyDepositUpdate now from to u)) s"
    by (auto simp: dep_update_ok_iff)
  have "\<exists>d' \<in> set (t_deposits s'). depositKey d' = depositKey d \<and> d_Status d' \<noteq> DepositOrphaned"
    if "d \<in> set (t_deposits s)" "d_Status d \<noteq> DepositOrphaned" for d
    using that assms map_where_in [OF that(1), of "\<lambda>d. d_ID d = k \<and> d_Status d = from" "applyDepositUpdate now from to u"]
    by (intro bexI [of _ "if d_ID d = k \<and> d_Status d = from then applyDepositUpdate now from to u d else d"])
       (simp_all add: s' depositKey_def)
  then show "grows s s'" by (simp add: grows_def s')
qed (use dep_update_err gr.R_refl in blast)

lemma grows_dep_insert [grows_ops]: "stays grows (depositRepo_Insert now d)"
proof (rule stays_cases)
  fix s s' ins
  assume "depositRepo_Insert now d s = (Inr ins, s')"
  then show "grows s s'" using insert_ok by (fastforce simp: grows_def)
qed (use insert_err gr.R_refl in blast)

lemma grows_routeDeposit: "stays grows (routeDeposit now tc pol i out)"
  unfolding routeDeposit_def Let_def by (intro gr.stays_rules grows_ops) simp_all

lemma grows_recordDeposit: "stays grows (recordDeposit now bp tc pol)"
  unfolding recordDeposit_def Let_def
  by (intro gr.stays_rules grows_ops grows_routeDeposit) simp_all

lemma grows_openLedgerReview: "stays grows (openLedgerReview now ch i r)"
  unfolding openLedgerReview_def by (intro gr.stays_rules grows_ops)

lemma grows_appendFresh: "stays grows (appendFresh now e)"
  unfolding appendFresh_def by (intro gr.stays_rules grows_ops)

lemma grows_recordTransfer: "stays grows (recordTransfer now bp pol out tc)"
  unfolding recordTransfer_def Let_def
  by (intro gr.stays_rules grows_appendFresh grows_openLedgerReview grows_recordDeposit)

lemma grows_recordFee: "stays grows (recordFee now bp pol out f)"
  unfolding recordFee_def by (intro gr.stays_rules grows_ops)

lemma grows_recordUnattributed: "stays grows (recordUnattributed now pol out p)"
  unfolding recordUnattributed_def by (intro gr.stays_rules grows_appendFresh grows_openLedgerReview)

lemma grows_RecordBlock: "stays grows (RecordBlock now bp pol)"
  unfolding RecordBlock_def
  by (intro gr.stays_rules grows_ops grows_recordTransfer grows_recordFee grows_recordUnattributed)

lemma grows_CreditDeposit: "stays grows (CreditDeposit E now d)"
  unfolding CreditDeposit_def LoadCreditGate_def by (intro gr.stays_rules grows_ops) simp_all

lemma grows_creditPass: "stays grows (creditPass E now cfg l gate ds)"
proof (induction ds)
  case (Cons d ds)
  show ?case
    by (cases "EvaluateCreditConditions d l (sc_Confirmations cfg) gate")
       (simp_all only: creditPass.simps CreditDecision.case, (intro gr.stays_rules grows_CreditDeposit grows_dep_update Cons, simp?)+)
qed (simp only: creditPass.simps, rule gr.stays_ret)

lemma grows_processPending: "stays grows (processPending E now cfg l)"
proof -
  have resume: "stays grows (resumeSuspended now d)" for d
  proof (cases "d_PriorStatus d = Some DepositOrphaned")
    case True
    have "depositRepo_UpdateStatus now i DepositSuspended DepositOrphaned noDepositUpdate s = (Inl ErrIllegalTransition, s)" for i s
      by (simp add: depositRepo_UpdateStatus_def ValidateDepositTransition_def validateTransition_def enum_defs thenE_def bindE_def)
    then show ?thesis using True by (simp add: resumeSuspended_def gr.stays_unchanged)
  next
    case False
    then show ?thesis unfolding resumeSuspended_def by (intro gr.stays_rules grows_dep_update) auto
  qed
  show ?thesis
    unfolding processPending_def Let_def LoadCreditGate_def unpark_def confirmDeposit_def
    by (intro gr.stays_rules grows_ops resume grows_creditPass) simp_all
qed

section \<open>Recording, and recording again\<close>

lemma insert_run:
  "depositRepo_Insert now (depositOf bp c pol now) s =
     (if rp_Chain pol = [] \<or> tc_TxHash c = [] \<or> tc_Address c = [] \<or> tc_Denom c \<noteq> BaseDenom \<or> \<not> 0 < tc_AmountBaseUnits c
      then (Inl ErrInvalidRecord, s)
      else if \<exists>x \<in> set (t_deposits s). depositKey x = depositKey (depositOf bp c pol now) then (Inl ErrDuplicate, s)
      else (let row = (depositOf bp c pol now)\<lparr>d_ID := nextRowID (map d_ID (t_deposits s)),
              d_BlockTimestamp := fmtTime now (bp_Time bp), d_CreatedAt := fmtTime now now, d_UpdatedAt := fmtTime now now\<rparr>
            in (Inr (row\<lparr>d_BlockTimestamp := bp_Time bp\<rparr>), t_deposits_update (\<lambda>rows. rows @ [row]) s)))"
  by (auto simp: depositRepo_Insert_def depositOf_def run_defs Let_def amountText_cases enum_defs depositKey_def)

lemma get_run:
  "depositRepo_Get (rp_Chain pol) (tc_TxHash c) (tc_MessageIndex c) (tc_CoinIndex c) (tc_Address c) s =
     (case find (\<lambda>x. depositKey x = depositKey (depositOf bp c pol now)) (t_deposits s) of
        None \<Rightarrow> (Inl ErrNotFound, s) | Some d \<Rightarrow> (Inr d, s))"
  by (simp add: depositRepo_Get_def queryRow_run depositKey_def depositOf_def)

definition candidateKey :: "RecordPolicy \<Rightarrow> TransferCandidate \<Rightarrow> string \<times> string \<times> uint32 \<times> uint32 \<times> string" where
  "candidateKey pol c = (rp_Chain pol, tc_TxHash c, tc_MessageIndex c, tc_CoinIndex c, tc_Address c)"

definition candidateOk :: "RecordPolicy \<Rightarrow> TransferCandidate \<Rightarrow> bool" where
  "candidateOk pol c \<longleftrightarrow> rp_Chain pol \<noteq> [] \<and> tc_TxHash c \<noteq> [] \<and> tc_Address c \<noteq> [] \<and> tc_Denom c = BaseDenom \<and>
     0 < tc_AmountBaseUnits c"

lemma depositKnown_iff:
  "depositKnown s pol c \<longleftrightarrow> candidateOk pol c \<and>
     (\<exists>d \<in> set (t_deposits s). depositKey d = candidateKey pol c \<and> d_Status d \<noteq> DepositOrphaned)"
  by (simp add: depositKnown_def candidateOk_def candidateKey_def)

lemma depositKey_of [simp]: "depositKey (depositOf bp c pol now) = candidateKey pol c"
  by (simp add: depositKey_def depositOf_def candidateKey_def)

lemma depositOf_fields [simp]:
  "d_ChainID (depositOf bp c pol now) = rp_Chain pol" "d_TxHash (depositOf bp c pol now) = tc_TxHash c"
  "d_MessageIndex (depositOf bp c pol now) = tc_MessageIndex c" "d_CoinIndex (depositOf bp c pol now) = tc_CoinIndex c"
  "d_RecipientAddress (depositOf bp c pol now) = tc_Address c"
  by (simp_all add: depositOf_def)

text \<open>The three ways of \<open>recordDeposit\<close>: a new row, a known one, an orphaned one.\<close>

definition newDeposit :: "time \<Rightarrow> BlockParse \<Rightarrow> TransferCandidate \<Rightarrow> RecordPolicy \<Rightarrow> store \<Rightarrow> DepositRecord" where
  "newDeposit now bp c pol s = (depositOf bp c pol now)\<lparr>d_ID := nextRowID (map d_ID (t_deposits s)),
     d_BlockTimestamp := fmtTime now (bp_Time bp), d_CreatedAt := fmtTime now now, d_UpdatedAt := fmtTime now now\<rparr>"

lemma recordDeposit_run:
  "recordDeposit now bp c pol s =
     (if \<not> candidateOk pol c then (Inl ErrInvalidRecord, s)
      else case find (\<lambda>x. depositKey x = candidateKey pol c) (t_deposits s) of
        None \<Rightarrow> routeDeposit now c pol (nextRowID (map d_ID (t_deposits s))) (noDepositOutcome\<lparr>do_inserted := 1\<rparr>)
          (t_deposits_update (\<lambda>rows. rows @ [newDeposit now bp c pol s]) s)
      | Some x \<Rightarrow>
          if d_Status x \<noteq> DepositOrphaned then (Inr (noDepositOutcome\<lparr>do_duplicates := 1\<rparr>), s)
          else thenE (depositRepo_UpdateStatus now (d_ID x) DepositOrphaned DepositDiscovered noDepositUpdate)
                 (routeDeposit now c pol (d_ID x) (noDepositOutcome\<lparr>do_revived := 1\<rparr>)) s)"
proof (cases "find (\<lambda>x. depositKey x = candidateKey pol c) (t_deposits s)")
  case None
  then have "\<not> (\<exists>x \<in> set (t_deposits s). depositKey x = candidateKey pol c)" by (auto simp: find_None_iff)
  then show ?thesis using None
    by (auto simp: recordDeposit_def Let_def bindE_def tryE_run insert_run candidateOk_def newDeposit_def)
next
  case (Some x)
  then have "\<exists>x \<in> set (t_deposits s). depositKey x = candidateKey pol c" using find_SomeD by fast
  then show ?thesis using Some get_run [of pol c s bp now]
    by (auto simp: recordDeposit_def Let_def bindE_def tryE_run insert_run candidateOk_def)
qed

lemma recordDeposit_known:
  assumes run: "recordDeposit now bp c pol s = (Inr out, t)"
  shows "depositKnown t pol c"
proof -
  have ok: "candidateOk pol c" using run by (auto simp: recordDeposit_run split: if_splits)
  have route: "depositKnown t' pol c"
    if "d \<in> set (t_deposits u)" "depositKey d = candidateKey pol c" "d_Status d \<noteq> DepositOrphaned"
      "routeDeposit now c pol i o1 u = (r, t')" for d u i o1 r t'
    using that ok grows_done(2) staysD [OF grows_routeDeposit] by (metis depositKnown_iff)
  show ?thesis
  proof (cases "find (\<lambda>x. depositKey x = candidateKey pol c) (t_deposits s)")
    case None
    then show ?thesis using run ok
      by (intro route [of "newDeposit now bp c pol s" "t_deposits_update (\<lambda>rows. rows @ [newDeposit now bp c pol s]) s"])
         (simp_all add: recordDeposit_run newDeposit_def depositKey_def depositOf_def candidateKey_def)
  next
    case (Some x)
    note mem = find_SomeD [OF Some]
    show ?thesis
    proof (cases "d_Status x = DepositOrphaned")
      case False
      then show ?thesis using run ok Some mem by (auto simp: recordDeposit_run depositKnown_iff)
    next
      case True
      let ?upd = "depositRepo_UpdateStatus now (d_ID x) DepositOrphaned DepositDiscovered noDepositUpdate"
      obtain u where u: "?upd s = (Inr (), u)"
        and r: "routeDeposit now c pol (d_ID x) (noDepositOutcome\<lparr>do_revived := 1\<rparr>) u = (Inr out, t)"
        using run ok Some True by (auto simp: recordDeposit_run thenE_ok_iff)
      let ?x = "applyDepositUpdate now DepositOrphaned DepositDiscovered noDepositUpdate x"
      have "?x \<in> set (t_deposits u)"
        using u map_where_in [OF conjunct1 [OF mem], of "\<lambda>d. d_ID d = d_ID x \<and> d_Status d = DepositOrphaned"
            "applyDepositUpdate now DepositOrphaned DepositDiscovered noDepositUpdate"] True
        by (auto simp: dep_update_ok_iff)
      then show ?thesis by (rule route [OF _ _ _ r]) (use mem in \<open>simp_all add: depositKey_def\<close>)
    qed
  qed
qed

lemma recordTransfer_done:
  assumes run: "recordTransfer now bp pol out c s = (Inr out', t)"
  shows "transferDone bp pol c t"
proof -
  let ?e = "TransferCandidate_LedgerEntry c (rp_Chain pol) (bp_Height bp) now"
  let ?mid = "\<lambda>entry. case entry of None \<Rightarrow> ret out
       | Some e \<Rightarrow> let out1 = out\<lparr>ro_LedgerAppends := ro_LedgerAppends out + 1\<rparr> in
           if tc_Classification c = ClassUnattributedReview
           then thenE (openLedgerReview now (rp_Chain pol) (le_ID e) (tc_ReviewReason c))
                  (ret (out1\<lparr>ro_ReviewItemsOpened := ro_ReviewItemsOpened out1 + 1\<rparr>))
           else ret out1"
  let ?tail = "\<lambda>out2. if tc_Direction c = DirectionIn \<and> tc_Classification c = ClassExternalDeposit
     then bindE (recordDeposit now bp c pol) (\<lambda>n. ret (addDeposit out2 n)) else ret out2"
  obtain entry u out2 v where a: "appendFresh now ?e s = (Inr entry, u)" and b: "?mid entry u = (Inr out2, v)"
    and c: "?tail out2 v = (Inr out', t)"
    using run by (auto simp: recordTransfer_def bindE_ok_iff)
  have mid: "stays grows (?mid entry)" unfolding Let_def by (intro gr.stays_rules grows_openLedgerReview)
  have tail: "stays grows (?tail out2)" by (intro gr.stays_rules grows_recordDeposit)
  have "grows u t" using gr.R_trans [OF staysD [OF mid b] staysD [OF tail c]] .
  then have "logged t ?e" using appendFresh_ok [OF a] grows_done(1) by simp
  moreover have "depositKnown t pol c" if "isDeposit c"
    using that c recordDeposit_known by (auto simp: isDeposit_def bindE_ok_iff)
  ultimately show ?thesis unfolding transferDone_def logged_any_time(1) [of t c "rp_Chain pol" "bp_Height bp" now] by blast
qed

lemma recordFee_done:
  assumes "recordFee now bp pol out f s = (Inr out', t)"
  shows "feeDone pol f t"
  using assms
  by (auto simp: recordFee_def feeDone_def ledgerRepo_AppendFeeOutflow_def run_defs tryE_run Let_def amountText_cases
      split: if_splits)

lemma recordUnattributed_done:
  assumes run: "recordUnattributed now pol out (e, reason) s = (Inr out', t)" and "plainEntry e"
  shows "logged t e"
proof -
  obtain entry u where a: "appendFresh now e s = (Inr entry, u)"
    and b: "(case entry of None \<Rightarrow> ret out | Some row \<Rightarrow> thenE (openLedgerReview now (rp_Chain pol) (le_ID row) reason)
      (ret (out\<lparr>ro_LedgerAppends := ro_LedgerAppends out + 1, ro_ReviewItemsOpened := ro_ReviewItemsOpened out + 1\<rparr>))) u
      = (Inr out', t)"
    using run by (auto simp: recordUnattributed_def bindE_ok_iff)
  have "stays grows (case entry of None \<Rightarrow> ret out | Some row \<Rightarrow>
      thenE (openLedgerReview now (rp_Chain pol) (le_ID row) reason)
      (ret (out\<lparr>ro_LedgerAppends := ro_LedgerAppends out + 1, ro_ReviewItemsOpened := ro_ReviewItemsOpened out + 1\<rparr>)))"
    by (intro gr.stays_rules grows_openLedgerReview)
  from staysD [OF this b] have "grows u t" .
  then show ?thesis using appendFresh_ok [OF a assms(2)] grows_done(1) by blast
qed

lemma RecordBlock_recorded:
  assumes run: "RecordBlock now bp pol s = (Inr out, t)"
  shows "recorded bp pol t"
proof -
  let ?rv = "map (\<lambda>rc. (ReviewCandidate_LedgerEntry rc (rp_Chain pol) (bp_Height bp) now, rv_Reason rc)) (bp_ReviewCandidates bp)"
  let ?be = "map (\<lambda>be. (BlockEventEntry_LedgerEntry be (rp_Chain pol) (bp_Height bp) now, be_Reason be)) (bp_BlockEvents bp)"
  let ?P = "\<lambda>p s. plainEntry (fst p) \<longrightarrow> logged s (fst p)"
  obtain o1 o2 o3 s1 s2 s3 s4 where f1: "foldE (recordTransfer now bp pol) (bp_Transfers bp) noOutcome s = (Inr o1, s1)"
    and f2: "foldE (recordFee now bp pol) (bp_FeeDeductions bp) o1 s1 = (Inr o2, s2)"
    and f3: "foldE (recordUnattributed now pol) ?rv o2 s2 = (Inr o3, s3)"
    and f4: "foldE (recordUnattributed now pol) ?be o3 s3 = (Inr out, s4)"
    and f5: "checkpointRepo_Set now \<lparr>cp_ChainID = rp_Chain pol, cp_LastFullyProcessedHeight = bp_Height bp,
             cp_LastObservedBlockHash = bp_BlockHash bp, cp_UpdatedAt = now\<rparr> s4 = (Inr (), t)"
    using run by (auto simp: RecordBlock_def with_tx_ok_iff bindE_ok_iff thenE_ok_iff split: if_splits)
  have g5: "grows s4 t" by (rule staysD [OF grows_checkpoint f5])
  have g4: "grows s3 t" using gr.R_trans [OF staysD [OF gr.stays_foldE [OF grows_recordUnattributed] f4] g5] .
  have g3: "grows s2 t" using gr.R_trans [OF staysD [OF gr.stays_foldE [OF grows_recordUnattributed] f3] g4] .
  have g2: "grows s1 t" using gr.R_trans [OF staysD [OF gr.stays_foldE [OF grows_recordFee] f2] g3] .
  have "\<forall>c \<in> set (bp_Transfers bp). transferDone bp pol c s1"
    by (rule gr.foldE_establish [OF grows_recordTransfer recordTransfer_done grows_done(3) f1])
  moreover have "\<forall>f \<in> set (bp_FeeDeductions bp). feeDone pol f s2"
    by (rule gr.foldE_establish [OF grows_recordFee recordFee_done grows_done(4) f2])
  moreover have un: "?P p t'" if "recordUnattributed now pol b p u = (Inr b', t')" for b p u b' t'
    using that recordUnattributed_done by (cases p) auto
  have "\<forall>p \<in> set ?rv. ?P p s3"
    by (rule gr.foldE_establish [OF grows_recordUnattributed un _ f3]) (auto dest: grows_done(1))
  moreover have "\<forall>p \<in> set ?be. ?P p s4"
    by (rule gr.foldE_establish [OF grows_recordUnattributed un _ f4]) (auto dest: grows_done(1))
  ultimately show ?thesis
    unfolding recorded_def
    using grows_done(3) [OF g2] grows_done(4) [OF g3] grows_done(1) [OF g4] grows_done(1) [OF g5]
      logged_any_time(2,3) [where now = now] by fastforce
qed

lemma recordDeposit_again:
  assumes "depositKnown s pol c" "store_uniq s"
  shows "recordDeposit now bp c pol s = (Inr (noDepositOutcome\<lparr>do_duplicates := 1\<rparr>), s)"
proof -
  obtain d where d: "d \<in> set (t_deposits s)" "depositKey d = candidateKey pol c" "d_Status d \<noteq> DepositOrphaned"
    and ok: "candidateOk pol c" using assms(1) by (auto simp: depositKnown_iff)
  have "distinct (map depositKey (t_deposits s))" using assms(2) by (simp add: store_uniq_def uniq_deposits_def)
  from find_key_distinct [OF this d(1,2)] show ?thesis using d(3) ok by (simp add: recordDeposit_run)
qed

lemma recordTransfer_again:
  assumes "transferDone bp pol c s" "store_uniq s"
  shows "recordTransfer now bp pol out c s =
    (Inr (if isDeposit c then out\<lparr>ro_Duplicates := ro_Duplicates out + 1\<rparr> else out), s)"
proof -
  have "appendFresh now (TransferCandidate_LedgerEntry c (rp_Chain pol) (bp_Height bp) now) s = (Inr None, s)"
    by (rule appendFresh_again)
       (use assms(1) logged_any_time(1) [of s c "rp_Chain pol" "bp_Height bp" now] in \<open>auto simp: transferDone_def\<close>)
  then show ?thesis
    using assms recordDeposit_again [of s pol c now bp]
    by (simp add: recordTransfer_def bindE_def transferDone_def isDeposit_def addDeposit_def noDepositOutcome_def)
qed

lemma recordFee_again: "feeDone pol f s \<Longrightarrow> recordFee now bp pol out f s = (Inr out, s)"
  by (auto simp: recordFee_def feeDone_def ledgerRepo_AppendFeeOutflow_def run_defs tryE_run Let_def amountText_cases)

lemma recordUnattributed_again:
  "logged s e \<Longrightarrow> plainEntry e \<Longrightarrow> recordUnattributed now pol out (e, reason) s = (Inr out, s)"
  by (simp add: recordUnattributed_def bindE_def appendFresh_again)

lemma foldl_count:
  "foldl (\<lambda>out c. if P c then out\<lparr>ro_Duplicates := ro_Duplicates out + 1\<rparr> else out) out xs =
     out\<lparr>ro_Duplicates := ro_Duplicates out + int (length (filter P xs))\<rparr>"
  by (induction xs arbitrary: out) simp_all

lemma foldl_same: "foldl (\<lambda>out x. out) out xs = out"
  by (induction xs) simp_all

definition blockCheckpoint :: "time \<Rightarrow> BlockParse \<Rightarrow> RecordPolicy \<Rightarrow> ScannerCheckpoint" where
  "blockCheckpoint now bp pol = \<lparr>cp_ChainID = rp_Chain pol, cp_LastFullyProcessedHeight = bp_Height bp,
     cp_LastObservedBlockHash = bp_BlockHash bp, cp_UpdatedAt = now\<rparr>"

lemma RecordBlock_again:
  assumes rec: "recorded bp pol s" and uq: "store_uniq s" and chain: "rp_Chain pol \<noteq> []"
  shows "RecordBlock now bp pol s =
    (Inr (noOutcome\<lparr>ro_Duplicates := int (length (filter isDeposit (bp_Transfers bp)))\<rparr>),
     snd (checkpointRepo_Set now (blockCheckpoint now bp pol) s))"
proof -
  let ?o = "noOutcome\<lparr>ro_Duplicates := int (length (filter isDeposit (bp_Transfers bp)))\<rparr>"
  let ?rv = "map (\<lambda>rc. (ReviewCandidate_LedgerEntry rc (rp_Chain pol) (bp_Height bp) now, rv_Reason rc)) (bp_ReviewCandidates bp)"
  let ?be = "map (\<lambda>be. (BlockEventEntry_LedgerEntry be (rp_Chain pol) (bp_Height bp) now, be_Reason be)) (bp_BlockEvents bp)"
  have "foldE (recordTransfer now bp pol) (bp_Transfers bp) noOutcome s = (Inr (foldl
      (\<lambda>out c. if isDeposit c then out\<lparr>ro_Duplicates := ro_Duplicates out + 1\<rparr> else out) noOutcome (bp_Transfers bp)), s)"
    by (rule foldE_fixed, rule recordTransfer_again [OF _ uq]) (use rec in \<open>simp add: recorded_def\<close>)
  then have 1: "foldE (recordTransfer now bp pol) (bp_Transfers bp) noOutcome s = (Inr ?o, s)"
    by (simp add: foldl_count noOutcome_def)
  have 2: "foldE (recordFee now bp pol) (bp_FeeDeductions bp) ?o s = (Inr (foldl (\<lambda>out x. out) ?o (bp_FeeDeductions bp)), s)"
    by (rule foldE_fixed, rule recordFee_again) (use rec in \<open>simp add: recorded_def\<close>)
  have 3: "foldE (recordUnattributed now pol) ?rv ?o s = (Inr (foldl (\<lambda>out x. out) ?o ?rv), s)"
    by (rule foldE_fixed)
       (use rec logged_any_time(2) [where now = now] in \<open>auto simp: recorded_def intro!: recordUnattributed_again\<close>)
  have 4: "foldE (recordUnattributed now pol) ?be ?o s = (Inr (foldl (\<lambda>out x. out) ?o ?be), s)"
    by (rule foldE_fixed)
       (use rec logged_any_time(3) [where now = now] in \<open>auto simp: recorded_def intro!: recordUnattributed_again\<close>)
  show ?thesis
    using chain 1 2 3 4 unfolding foldl_same
    by (simp add: RecordBlock_def bindE_def thenE_def with_tx_def blockCheckpoint_def checkpointRepo_Set_def Let_def)
qed

section \<open>The walk\<close>

definition watchOf :: "ScannerConfig \<Rightarrow> store \<Rightarrow> WatchSet" where
  "watchOf cfg s = WithMemoRecognizer (NewWatchSet (sort_key wa_Address
     (filter (\<lambda>x. wa_ChainID x = sc_ChainID cfg \<and> wa_Active x) (t_watched s)))) (sc_MemoRecognizer cfg)"

text \<open>The block the node serves at a height, parsed with the watch set of a store.\<close>

definition servedParse :: "codec \<Rightarrow> ScannerConfig \<Rightarrow> feed \<Rightarrow> store \<Rightarrow> uint64 \<Rightarrow> err + BlockParse" where
  "servedParse K cfg F s h = (case fe_BlockByHeight F h of Inl e \<Rightarrow> Inl e | Inr block \<Rightarrow>
     case fe_BlockResults F h of Inl e \<Rightarrow> Inl e | Inr results \<Rightarrow>
     ParseBlockTransfers K block results (watchOf cfg s))"

lemma fetchParse_run: "fetchParse K cfg F h s = (servedParse K cfg F s h, s)"
  by (auto simp: fetchParse_def servedParse_def loadWatch_def watchOf_def watchRepo_ListActive_def bindE_def split: sum.splits)

lemma servedParse_cong: "t_watched t = t_watched s \<Longrightarrow> servedParse K cfg F t = servedParse K cfg F s"
  by (rule ext) (simp add: servedParse_def watchOf_def cong: sum.case_cong)

lemma scanLoop_step:
  assumes "scanLoop (Suc n) K now cfg F i lt h e s = (Inr True, t)" "h \<le> lt"
  obtains bp out u where "servedParse K cfg F s h = Inr bp" "RecordBlock now bp (recordPolicy cfg) s = (Inr out, u)"
    "scanLoop n K now cfg F i lt (h + 1) (bp_BlockHash bp) u = (Inr True, t)"
    "servedParse K cfg F u = servedParse K cfg F s"
proof -
  obtain bp out u where bp: "servedParse K cfg F s h = Inr bp"
    and rec: "RecordBlock now bp (recordPolicy cfg) s = (Inr out, u)"
    and rest: "scanLoop n K now cfg F i lt (h + 1) (bp_BlockHash bp) u = (Inr True, t)"
    using assms by (auto simp: bindE_ok_iff thenE_ok_iff fetchParse_run split: if_splits)
  have "grows s u" by (rule staysD [OF grows_RecordBlock rec])
  then have "servedParse K cfg F u = servedParse K cfg F s" by (intro servedParse_cong) (simp add: grows_def)
  then show ?thesis using that bp rec rest by blast
qed

lemma scanLoop_grows: "scanLoop n K now cfg F i lt h e s = (Inr True, t) \<Longrightarrow> grows s t"
proof (induction n arbitrary: h e s)
  case (Suc n)
  show ?case
  proof (cases "h \<le> lt")
    case True
    show ?thesis
    proof (rule scanLoop_step [OF Suc.prems True])
      fix bp out u
      assume "RecordBlock now bp (recordPolicy cfg) s = (Inr out, u)"
        "scanLoop n K now cfg F i lt (h + 1) (bp_BlockHash bp) u = (Inr True, t)"
      then show ?thesis using Suc.IH staysD [OF grows_RecordBlock] gr.R_trans by blast
    qed
  next
    case False
    then show ?thesis using Suc.prems gr.R_refl by simp
  qed
qed simp

lemma scanLoop_tip:
  assumes "scanLoop n K now cfg F i lt h e s = (Inr True, t)" "h \<le> x" "x \<le> lt"
  shows "\<exists>bp. servedParse K cfg F s x = Inr bp \<and> recorded bp (recordPolicy cfg) t"
  using assms
proof (induction n arbitrary: h e s)
  case (Suc n)
  have "h \<le> lt" using Suc.prems by simp
  with Suc.prems(1) show ?case
  proof (rule scanLoop_step)
    fix bp out u
    assume bp: "servedParse K cfg F s h = Inr bp" and rec: "RecordBlock now bp (recordPolicy cfg) s = (Inr out, u)"
      and rest: "scanLoop n K now cfg F i lt (h + 1) (bp_BlockHash bp) u = (Inr True, t)"
      and same: "servedParse K cfg F u = servedParse K cfg F s"
    show ?thesis
    proof (cases "x = h")
      case True
      then show ?thesis using bp RecordBlock_recorded [OF rec] grows_done(5) [OF scanLoop_grows [OF rest]] by blast
    next
      case False
      then have "h + 1 \<le> x" using Suc.prems(2) by (intro inc_le) simp
      then show ?thesis using Suc.IH [OF rest _ Suc.prems(3)] same by simp
    qed
  qed
qed simp

text \<open>The checkpoint after a walk that reached the tip is the block served there.\<close>

lemma RecordBlock_checkpoint:
  assumes "RecordBlock now bp pol s = (Inr out, t)"
  shows "find (\<lambda>c. cp_ChainID c = rp_Chain pol) (t_checkpoints t) = Some (blockCheckpoint now bp pol)"
proof -
  obtain u where "checkpointRepo_Set now (blockCheckpoint now bp pol) u = (Inr (), t)"
    using assms by (auto simp: RecordBlock_def blockCheckpoint_def with_tx_ok_iff bindE_ok_iff thenE_ok_iff split: if_splits)
  then show ?thesis
    using find_upsert [of cp_ChainID "blockCheckpoint now bp pol" "rp_Chain pol" "rp_Chain pol" "t_checkpoints u"]
    by (auto simp: checkpointRepo_Set_def Let_def fmtTime_def blockCheckpoint_def split: if_splits)
qed

lemma scanLoop_checkpoint:
  assumes "scanLoop n K now cfg F i lt h e s = (Inr True, t)" "h \<le> lt"
  shows "\<exists>bp. servedParse K cfg F s lt = Inr bp \<and>
    find (\<lambda>c. cp_ChainID c = sc_ChainID cfg) (t_checkpoints t) = Some (blockCheckpoint now bp (recordPolicy cfg))"
  using assms
proof (induction n arbitrary: h e s)
  case (Suc n)
  from Suc.prems show ?case
  proof (rule scanLoop_step)
    fix bp out u
    assume bp: "servedParse K cfg F s h = Inr bp" and rec: "RecordBlock now bp (recordPolicy cfg) s = (Inr out, u)"
      and rest: "scanLoop n K now cfg F i lt (h + 1) (bp_BlockHash bp) u = (Inr True, t)"
      and same: "servedParse K cfg F u = servedParse K cfg F s"
    show ?thesis
    proof (cases "h + 1 \<le> lt")
      case True
      then show ?thesis using Suc.IH [OF rest True] same by simp
    next
      case False
      then have "h = lt" using Suc.prems(2) inc_le [of h lt] by (cases "h = lt") auto
      moreover have "t = u" using rest False by (cases n) auto
      ultimately show ?thesis using bp RecordBlock_checkpoint [OF rec] by (auto simp: recordPolicy_def)
    qed
  qed
qed simp

section \<open>The orphan flow\<close>

definition mismatchOpen :: "string \<Rightarrow> store \<Rightarrow> bool" where
  "mismatchOpen ch s \<longleftrightarrow> (\<exists>r \<in> set (t_chain_reviews s). cr_ChainID r = ch \<and> cr_ResolvedAt r = None \<and>
     cr_Trigger r = TriggerBlockHashMismatch)"

definition keeps_reviews :: "store \<Rightarrow> store \<Rightarrow> bool" where
  "keeps_reviews s t \<longleftrightarrow> set (t_chain_reviews s) \<subseteq> set (t_chain_reviews t)"

interpretation kr: step_rel keeps_reviews
  by unfold_locales (auto simp: keeps_reviews_def)

lemma keeps_reviews_ops:
  "stays keeps_reviews (depositRepo_UpdateStatus now k from to u)" "stays keeps_reviews (checkpointRepo_Set now cp)"
  "stays keeps_reviews (depositRepo_ListByStatus c1 st n)"
proof -
  show "stays keeps_reviews (depositRepo_UpdateStatus now k from to u)"
    by (rule stays_cases) (auto simp: keeps_reviews_def dep_update_ok_iff dest: dep_update_err)
  show "stays keeps_reviews (checkpointRepo_Set now cp)"
    by (simp add: stays_def keeps_reviews_def checkpoint_frames)
  show "stays keeps_reviews (depositRepo_ListByStatus c1 st n)"
    by (rule kr.stays_unchanged) (simp add: reads_unchanged)
qed

lemma openChainReviewOnce_open:
  assumes "openChainReviewOnce now cfg i TriggerBlockHashMismatch a b s = (Inr (), t)"
  shows "mismatchOpen (sc_ChainID cfg) t"
  using assms
  by (auto simp: openChainReviewOnce_def chainReviewRepo_ListOpen_def chainReviewRepo_Open_def mismatchOpen_def
      run_defs Let_def list_ex_iff split: if_splits)

lemma orphanFlow_open:
  assumes "orphanFlow now cfg F i h e g s = (Inr (), t)"
  shows "mismatchOpen (sc_ChainID cfg) t"
proof -
  let ?rest = "\<lambda>r. thenE (forE orphanedStatuses (\<lambda>st.
         bindE (depositRepo_ListByStatus (sc_ChainID cfg) st 0) (\<lambda>ds.
         forE ds (\<lambda>d. if d_BlockHeight d < r then ret ()
           else depositRepo_UpdateStatus now (d_ID d) st DepositOrphaned noDepositUpdate))))
      (bindE (if r > 1 then case fe_BlockByHeight F (r - 1) of Inl e \<Rightarrow> throw e
                   | Inr parent \<Rightarrow> ret (r - 1, hexUpper (bk_Hash parent)) else ret (0, []))
        (\<lambda>(newHeight, newHash). checkpointRepo_Set now
         \<lparr>cp_ChainID = sc_ChainID cfg, cp_LastFullyProcessedHeight = newHeight,
          cp_LastObservedBlockHash = newHash, cp_UpdatedAt = now\<rparr>))"
  obtain u where "mismatchOpen (sc_ChainID cfg) u" and r: "?rest (h - 1) u = (Inr (), t)"
    using iffD1 [OF thenE_ok_iff assms [unfolded orphanFlow_def Let_def]] openChainReviewOnce_open by fastforce
  moreover have "stays keeps_reviews (?rest (h - 1))" by (intro kr.stays_rules keeps_reviews_ops)
  from staysD [OF this r] have "keeps_reviews u t" .
  ultimately show ?thesis by (auto simp: mismatchOpen_def keeps_reviews_def)
qed

lemma scanLoop_broken:
  "scanLoop n K now cfg F i lt h e s = (Inr False, t) \<Longrightarrow> mismatchOpen (sc_ChainID cfg) t"
proof (induction n arbitrary: h e s)
  case (Suc n)
  then show ?case
    by (auto simp: bindE_ok_iff thenE_ok_iff dest!: orphanFlow_open split: if_splits)
qed simp

end
