(* ===== verification/Deposit_Fixtures.thy ===== *)
theory Deposit_Fixtures
  imports Deposit_Replay
begin

text \<open>
  A concrete scan on which the deposit properties are exercised: a store that
  watches one customer address and has processed block 6, a node that serves
  block 7 with a deposit of 5 base units, and the cycle that records and
  credits it.  Nothing here models code.
\<close>

definition dx_cfg :: ScannerConfig where
  "dx_cfg = \<lparr>sc_ChainID = ''sovr-1'', sc_Confirmations = 1, sc_PollInterval = 1, sc_StartHeight = 0,
     sc_MinimumDepositUsovr = None, sc_DisableHashChainVerification = False, sc_MemoRecognizer = None,
     sc_PendingBatchLimit = 10\<rparr>"

definition dx_feed :: feed where
  "dx_feed = \<lparr>fe_LatestBlock = Inr (dx_block 7), fe_BlockByHeight = (\<lambda>h. Inr (dx_block h)),
     fe_BlockResults = (\<lambda>h. Inr (dx_results h))\<rparr>"

definition dx_enc :: encoder where
  "dx_enc = \<lparr>MarshalJSON = (\<lambda>e. Some [1]), FormatRFC3339 = (\<lambda>t. [])\<rparr>"

definition dx_checkpoint :: "uint64 \<Rightarrow> time \<Rightarrow> ScannerCheckpoint" where
  "dx_checkpoint h t = \<lparr>cp_ChainID = ''sovr-1'', cp_LastFullyProcessedHeight = h,
     cp_LastObservedBlockHash = hexUpper [ucast h], cp_UpdatedAt = t\<rparr>"

definition dx_s0 :: store where
  "dx_s0 = empty_store\<lparr>t_watched := [dx_watched], t_checkpoints := [dx_checkpoint 6 5]\<rparr>"

definition dx_dep :: "DepositStatus \<Rightarrow> time option \<Rightarrow> DepositRecord" where
  "dx_dep st ca = \<lparr>d_ID = 1, d_ChainID = ''sovr-1'', d_TxHash = TxHashHex [7], d_MessageIndex = 0, d_CoinIndex = 0,
     d_BlockHeight = 7, d_BlockTimestamp = 40, d_SenderAddress = Some ''ext'', d_RecipientAddress = ''cust'',
     d_Denom = ''usovr'', d_AmountBaseUnits = 5, d_Memo = ''memo'', d_TxCode = 0, d_TxLog = [], d_Status = st,
     d_PriorStatus = None, d_CreditedAt = ca, d_SweepTxHash = None, d_CreatedAt = 100, d_UpdatedAt = 100\<rparr>"

definition dx_ledger :: LedgerEntry where
  "dx_ledger = (TransferCandidate_LedgerEntry (dx_row 7) ''sovr-1'' 7 100)\<lparr>le_ID := 1\<rparr>"

definition dx_event :: OutboxEvent where
  "dx_event = \<lparr>ob_ID = 1, ob_ChainID = ''sovr-1'', ob_Topic = OutboxTopicDepositCredited,
     ob_DedupKey = DepositDedupKey (dx_dep DepositCreditable None), ob_Payload = [1], ob_CreatedAt = 100,
     ob_DispatchedAt = None\<rparr>"

lemma dx_hash [simp]: "TxHashHex b \<noteq> []" "[] \<noteq> TxHashHex b"
  using txHashOf_nonempty [of b] by (auto simp: TxHashHex_def)

lemma dx_update:
  assumes "t_deposits s = [dx_dep st ca]" "dep_edge st st'" "st \<noteq> DepositSuspended" "st' \<noteq> DepositSuspended"
    "du_SweepTxHash u = None" "du_TxLog u = None"
  shows "depositRepo_UpdateStatus 100 1 st st' u s = (Inr (), s\<lparr>t_deposits := [dx_dep st' (set_ptr (du_CreditedAt u) ca)]\<rparr>)"
  using assms
  by (subst dep_update_ok_iff) (cases s, simp add: dx_dep_def map_where_def applyDepositUpdate_def)

lemma dx_recordDeposit:
  assumes "t_deposits s = []"
  shows "recordDeposit 100 (dx_parse 7) (dx_row 7) (recordPolicy dx_cfg) s =
    (Inr (noDepositOutcome\<lparr>do_inserted := 1\<rparr>), s\<lparr>t_deposits := [dx_dep DepositAwaitingConfirmations None]\<rparr>)"
proof -
  let ?u = "s\<lparr>t_deposits := [dx_dep DepositDiscovered None]\<rparr>"
  have row: "newDeposit 100 (dx_parse 7) (dx_row 7) (recordPolicy dx_cfg) s = dx_dep DepositDiscovered None"
    using assms by (simp add: newDeposit_def depositOf_def dx_dep_def dx_parse_def dx_row_def recordPolicy_def dx_cfg_def
        nextRowID_def fmtTime_def)
  have ok: "candidateOk (recordPolicy dx_cfg) (dx_row 7)"
    by (simp add: candidateOk_def recordPolicy_def dx_cfg_def dx_row_def BaseDenom_def)
  have upd: "t_deposits_update (\<lambda>rows. rows @ [dx_dep DepositDiscovered None]) s = ?u"
    using assms by (cases s) simp
  have "routeDeposit 100 (dx_row 7) (recordPolicy dx_cfg) 1 out ?u =
      (Inr out, s\<lparr>t_deposits := [dx_dep DepositAwaitingConfirmations None]\<rparr>)" for out
    by (simp add: routeDeposit_def dx_row_def thenE_def bindE_def dx_update belowMinimum_def minimumSet_def recordPolicy_def
        dx_cfg_def)
  then show ?thesis
    using assms ok by (simp add: recordDeposit_run row upd nextRowID_def)
qed

definition dx_s1 :: store where
  "dx_s1 = dx_s0\<lparr>t_ledger := [dx_ledger], t_deposits := [dx_dep DepositAwaitingConfirmations None],
     t_checkpoints := [dx_checkpoint 7 100]\<rparr>"

definition dx_s2 :: store where
  "dx_s2 = dx_s1\<lparr>t_deposits := [dx_dep DepositCredited (Some 100)], t_outbox := [dx_event]\<rparr>"

lemma dx_RecordBlock:
  "RecordBlock 100 (dx_parse 7) (recordPolicy dx_cfg) dx_s0 =
     (Inr (noOutcome\<lparr>ro_LedgerAppends := 1, ro_DepositsInserted := 1\<rparr>), dx_s1)"
proof -
  let ?e = "TransferCandidate_LedgerEntry (dx_row 7) ''sovr-1'' 7 100"
  have "entryOk ?e"
    by (simp add: entryOk_def TransferCandidate_LedgerEntry_def dx_row_def enum_defs)
  then have "appendFresh 100 ?e dx_s0 = (Inr (Some (?e\<lparr>le_ID := 1\<rparr>)), dx_s0\<lparr>t_ledger := [dx_ledger]\<rparr>)"
    by (simp add: appendFresh_def append_run bindE_def tryE_run Let_def dx_s0_def empty_store_def nextRowID_def
        dx_ledger_def TransferCandidate_LedgerEntry_def fmtTime_def)
  then have "recordTransfer 100 (dx_parse 7) (recordPolicy dx_cfg) noOutcome (dx_row 7) dx_s0 =
      (Inr (noOutcome\<lparr>ro_LedgerAppends := 1, ro_DepositsInserted := 1\<rparr>),
       dx_s0\<lparr>t_ledger := [dx_ledger], t_deposits := [dx_dep DepositAwaitingConfirmations None]\<rparr>)"
    using dx_recordDeposit [of "dx_s0\<lparr>t_ledger := [dx_ledger]\<rparr>"]
    by (simp add: recordTransfer_def bindE_def Let_def dx_parse_def recordPolicy_def dx_cfg_def dx_row_def dx_s0_def
        empty_store_def addDeposit_def noOutcome_def noDepositOutcome_def)
  then show ?thesis
    by (simp add: RecordBlock_def with_tx_def bindE_def thenE_def dx_parse_def recordPolicy_def dx_cfg_def
        checkpointRepo_Set_def Let_def dx_s1_def dx_s0_def dx_checkpoint_def empty_store_def map_where_def fmtTime_def)
qed

lemma dx_gate:
  "t_controls s = [] \<Longrightarrow> t_chain_reviews s = [] \<Longrightarrow> LoadCreditGate ch s =
     (Inr \<lparr>cg_CreditPaused = False, cg_ScanWithoutCredit = False, cg_ChainReviewOpen = False\<rparr>, s)"
  by (simp add: LoadCreditGate_run)

lemma dx_list:
  "t_deposits s = [dx_dep st ca] \<Longrightarrow> depositRepo_ListByStatus ''sovr-1'' st' 10 s =
     (Inr (if st = st' then [dx_dep st ca] else []), s)"
  by (simp add: depositRepo_ListByStatus_def limit_rows_def dx_dep_def)

lemma dx_credit:
  assumes "t_deposits s = [dx_dep DepositCreditable None]" "t_controls s = []" "t_chain_reviews s = []" "t_outbox s = []"
  shows "CreditDeposit dx_enc 100 (dx_dep DepositCreditable None) s =
    (Inr (), s\<lparr>t_deposits := [dx_dep DepositCredited (Some 100)], t_outbox := [dx_event]\<rparr>)"
proof -
  have id: "d_ID (dx_dep DepositCreditable None) = 1" "d_ChainID (dx_dep DepositCreditable None) = ''sovr-1''"
    by (simp_all add: dx_dep_def)
  let ?u = "s\<lparr>t_deposits := [dx_dep DepositCredited (Some 100)]\<rparr>"
  have "depositRepo_UpdateStatus 100 1 DepositCreditable DepositCredited (noDepositUpdate\<lparr>du_CreditedAt := Some 100\<rparr>) s = (Inr (), ?u)"
    using assms by (simp add: dx_update)
  moreover have "outboxRepo_Enqueue 100 \<lparr>ob_ID = 0, ob_ChainID = ''sovr-1'', ob_Topic = OutboxTopicDepositCredited,
        ob_DedupKey = DepositDedupKey (dx_dep DepositCreditable None), ob_Payload = [1], ob_CreatedAt = 100,
        ob_DispatchedAt = None\<rparr> ?u = (Inr dx_event, ?u\<lparr>t_outbox := [dx_event]\<rparr>)"
    using assms by (cases s) (simp add: outboxRepo_Enqueue_def run_defs Let_def OutboxTopicDepositCredited_def dx_event_def
        nextRowID_def fmtTime_def)
  ultimately show ?thesis
    using assms by (simp add: CreditDeposit_def dx_enc_def dx_gate id bindE_def thenE_def with_tx_def)
qed

lemma dx_processPending: "processPending dx_enc 100 dx_cfg 7 dx_s1 = (Inr (), dx_s2)"
proof -
  have cfg: "sc_ChainID dx_cfg = ''sovr-1''" "sc_PendingBatchLimit dx_cfg = 10" "sc_Confirmations dx_cfg = 1"
    by (simp_all add: dx_cfg_def)
  have s1: "t_deposits dx_s1 = [dx_dep DepositAwaitingConfirmations None]" "t_controls dx_s1 = []"
    "t_chain_reviews dx_s1 = []" "t_outbox dx_s1 = []"
    by (simp_all add: dx_s1_def dx_s0_def empty_store_def)
  let ?u = "dx_s1\<lparr>t_deposits := [dx_dep DepositCreditable None]\<rparr>"
  have conf: "confirmDeposit 100 dx_cfg 7 (dx_dep DepositAwaitingConfirmations None) dx_s1 = (Inr (), ?u)"
  proof -
    have "d_ID (dx_dep DepositAwaitingConfirmations None) = 1" "d_BlockHeight (dx_dep DepositAwaitingConfirmations None) = 7"
      by (simp_all add: dx_dep_def)
    then show ?thesis using s1 by (simp add: confirmDeposit_def cfg ConfirmationCount_def dx_update)
  qed
  have ev: "EvaluateCreditConditions (dx_dep DepositCreditable None) 7 1
      \<lparr>cg_CreditPaused = False, cg_ScanWithoutCredit = False, cg_ChainReviewOpen = False\<rparr> = DecisionCredit"
    by (simp add: EvaluateCreditConditions_def dx_dep_def BaseDenom_def ConfirmationCount_def)
  have cr: "CreditDeposit dx_enc 100 (dx_dep DepositCreditable None) ?u = (Inr (), dx_s2)"
    using dx_credit [of ?u] s1 by (simp add: dx_s2_def)
  show ?thesis
    using s1 conf by (simp add: processPending_def dx_gate bindE_def thenE_def Let_def cfg dx_list ev cr tryE_run)
qed

lemma dx_watchOf: "watchOf dx_cfg dx_s0 = dx_watch"
  by (simp add: watchOf_def dx_cfg_def dx_s0_def dx_watch_def dx_watched_def NewWatchSet_def WithMemoRecognizer_def)

lemma dx_served: "0 \<le> sint h \<Longrightarrow> servedParse dx_codec dx_cfg dx_feed dx_s0 h = Inr (dx_parse h)"
  by (simp add: servedParse_def dx_feed_def dx_watchOf dx_parse_ok)

lemma dx_cursor: "resolveCursor 100 dx_cfg dx_feed 0 7 dx_s0 = (Inr (0, Inr (7, hexUpper [6])), dx_s0)"
  by (simp add: resolveCursor_def controls_current bindE_def tryE_run dx_s0_def empty_store_def zeroControls_def
      checkpointRepo_Get_def queryRow_run dx_cfg_def dx_checkpoint_def)

lemma dx_scan: "scanLoop (scanFuel 7) dx_codec 100 dx_cfg dx_feed i 7 7 (hexUpper [6]) dx_s0 = (Inr True, dx_s1)"
proof -
  have two: "scanFuel 7 = Suc (Suc 7)" by (simp add: scanFuel_def)
  have "\<not> chainBroken dx_cfg (hexUpper [6]) (dx_parse 7)"
    by (simp add: chainBroken_def dx_parse_def)
  then show ?thesis
    unfolding two scanLoop.simps
    by (simp add: bindE_def fetchParse_run dx_served dx_RecordBlock)
qed

lemma dx_cycle: "Cycle dx_codec dx_enc 100 dx_cfg dx_feed i 0 dx_s0 = (Inr (0, Inr ()), dx_s2)"
proof -
  have "fe_LatestBlock dx_feed = Inr (dx_block 7)" "bk_Height (dx_block 7) = 7" "bk_ChainID (dx_block 7) = ''sovr-1''"
    "sc_ChainID dx_cfg = ''sovr-1''"
    by (simp_all add: dx_feed_def dx_block_def dx_cfg_def)
  then show ?thesis
    by (simp add: Cycle_def bindE_def tryE_run dx_cursor dx_scan dx_processPending)
qed

lemma dx_reachable: "dsteps empty_store dx_s2"
proof -
  have "dstep empty_store dx_s0"
    by (rule dstep.elsewhere)
       (simp_all add: dx_s0_def empty_store_def store_uniq_def uniq_withdrawals_def uniq_sequences_def uniq_sweeps_def
         activeSweeps_def uniq_deposits_def uniq_ledger_def uniq_outbox_def)
  moreover have "dstep dx_s0 dx_s2" by (rule dstep.cycle [OF dx_cycle])
  ultimately show ?thesis by (meson converse_rtranclp_into_rtranclp rtranclp.rtrancl_refl)
qed

lemma dx_credit_inv: "credit_inv dx_s0"
  by (simp add: credit_inv_def dx_s0_def empty_store_def store_uniq_def uniq_withdrawals_def uniq_sequences_def
      uniq_sweeps_def activeSweeps_def uniq_deposits_def uniq_ledger_def uniq_outbox_def)

end
