(* ===== verification/Postgres.thy ===== *)
theory Postgres
  imports Deposit_Replay
begin

text \<open>
  Transactions on the PostgreSQL backend.  \<open>with_tx\<close> of the prelude is SQLite's
  transaction: a statement that fails leaves it open.  PostgreSQL puts the
  transaction into the aborted state at the first statement the server rejects
  (\<open>storage/postgres/postgres.go\<close> maps the unique violation 23505 to \<open>ErrDuplicate\<close>
  and \<open>ErrActiveSweepExists\<close>): every later statement of it fails, and so does the
  commit.  No statement of the store uses \<open>ON CONFLICT DO NOTHING\<close> or a savepoint, so
  for a body that returns the error, which is every transaction of the program but
  two, the backends agree.  The two that swallow \<open>ErrDuplicate\<close> and go on are
  \<open>RecordBlock\<close>, modelled here statement by statement, and the record of a funding
  leg's spend in \<open>confirmTx\<close>, whose compare-and-swap on the status fails first on a
  second confirmation.
\<close>

section \<open>Statements and transactions\<close>

text \<open>The state of an open transaction: the store it sees, and whether it is aborted.\<close>

type_synonym session = "store \<times> bool"

definition abortedErr :: err where
  "abortedErr = ErrOther ''current transaction is aborted, commands ignored until end of transaction block''"

definition serverError :: "err + 'a \<Rightarrow> bool" where
  "serverError r = (case r of Inl e \<Rightarrow> e = ErrDuplicate \<or> e = ErrActiveSweepExists | Inr _ \<Rightarrow> False)"

text \<open>A repository method inside a transaction.\<close>

definition stmt :: "(store, 'a) prog \<Rightarrow> (session, 'a) prog" where
  "stmt m = (\<lambda>(s, aborted). if aborted then (Inl abortedErr, (s, True))
     else case m s of (r, t) \<Rightarrow> (r, (t, serverError r)))"

definition pg_with_tx :: "(session, 'a) prog \<Rightarrow> (store, 'a) prog" where
  "pg_with_tx p = (\<lambda>s. case p (s, False) of
      (Inl e, _) \<Rightarrow> (Inl e, s)
    | (Inr a, (t, aborted)) \<Rightarrow> if aborted then (Inl (ErrOther ''commit unexpectedly resulted in rollback''), s) else (Inr a, t))"

section \<open>Recording a block\<close>

definition pg_openLedgerReview :: "time \<Rightarrow> string \<Rightarrow> int \<Rightarrow> string \<Rightarrow> (session, unit) prog" where
  "pg_openLedgerReview now chainID ledgerID reason = stmt (openLedgerReview now chainID ledgerID reason)"

definition pg_routeDeposit ::
    "time \<Rightarrow> TransferCandidate \<Rightarrow> RecordPolicy \<Rightarrow> int \<Rightarrow> depositOutcome \<Rightarrow> (session, depositOutcome) prog" where
  "pg_routeDeposit now c pol i out =
     (let move = (\<lambda>from to. stmt (depositRepo_UpdateStatus now i from to noDepositUpdate)) in
      if tc_TxCode c \<noteq> 0 then thenE (move DepositDiscovered DepositRejected) (ret out)
      else if tc_ReviewReason c \<noteq> [] then
        thenE (move DepositDiscovered DepositReviewRequired)
        (thenE (stmt (reviewRepo_Open now
            \<lparr>ri_ID = 0, ri_ChainID = rp_Chain pol, ri_Kind = ReviewKindDeposit, ri_RefID = show_int i,
             ri_Reason = tc_ReviewReason c, ri_OpenedAt = now, ri_ResolvedAt = None, ri_Resolution = []\<rparr>))
          (ret (out\<lparr>do_reviews := 1\<rparr>)))
      else thenE (move DepositDiscovered DepositValidated)
        (if belowMinimum pol (tc_AmountBaseUnits c)
         then thenE (move DepositValidated DepositBelowMinimum) (ret out)
         else thenE (move DepositValidated DepositAwaitingConfirmations) (ret out)))"

definition pg_recordDeposit ::
    "time \<Rightarrow> BlockParse \<Rightarrow> TransferCandidate \<Rightarrow> RecordPolicy \<Rightarrow> (session, depositOutcome) prog" where
  "pg_recordDeposit now bp c pol =
     (let d = depositOf bp c pol now in
      bindE (tryE (stmt (depositRepo_Insert now d))) (\<lambda>r. case r of
        Inr ins \<Rightarrow> pg_routeDeposit now c pol (d_ID ins) (noDepositOutcome\<lparr>do_inserted := 1\<rparr>)
      | Inl e \<Rightarrow>
          if e = ErrDuplicate then
            bindE (stmt (depositRepo_Get (d_ChainID d) (d_TxHash d) (d_MessageIndex d) (d_CoinIndex d) (d_RecipientAddress d)))
              (\<lambda>existing.
                if d_Status existing \<noteq> DepositOrphaned then ret (noDepositOutcome\<lparr>do_duplicates := 1\<rparr>)
                else thenE (stmt (depositRepo_UpdateStatus now (d_ID existing) DepositOrphaned DepositDiscovered noDepositUpdate))
                       (pg_routeDeposit now c pol (d_ID existing) (noDepositOutcome\<lparr>do_revived := 1\<rparr>)))
          else throw e))"

definition pg_appendFresh :: "time \<Rightarrow> LedgerEntry \<Rightarrow> (session, LedgerEntry option) prog" where
  "pg_appendFresh now e = bindE (tryE (stmt (ledgerRepo_Append now e))) (\<lambda>r. case r of
      Inr entry \<Rightarrow> ret (Some entry)
    | Inl x \<Rightarrow> if x = ErrDuplicate then ret None else throw x)"

definition pg_recordTransfer ::
    "time \<Rightarrow> BlockParse \<Rightarrow> RecordPolicy \<Rightarrow> RecordOutcome \<Rightarrow> TransferCandidate \<Rightarrow> (session, RecordOutcome) prog" where
  "pg_recordTransfer now bp pol out c =
     bindE (pg_appendFresh now (TransferCandidate_LedgerEntry c (rp_Chain pol) (bp_Height bp) now)) (\<lambda>entry.
     bindE (case entry of
         None \<Rightarrow> ret out
       | Some e \<Rightarrow>
           let out1 = out\<lparr>ro_LedgerAppends := ro_LedgerAppends out + 1\<rparr> in
           if tc_Classification c = ClassUnattributedReview
           then thenE (pg_openLedgerReview now (rp_Chain pol) (le_ID e) (tc_ReviewReason c))
                  (ret (out1\<lparr>ro_ReviewItemsOpened := ro_ReviewItemsOpened out1 + 1\<rparr>))
           else ret out1) (\<lambda>out2.
     if tc_Direction c = DirectionIn \<and> tc_Classification c = ClassExternalDeposit
     then bindE (pg_recordDeposit now bp c pol) (\<lambda>n. ret (addDeposit out2 n))
     else ret out2))"

definition pg_recordFee ::
    "time \<Rightarrow> BlockParse \<Rightarrow> RecordPolicy \<Rightarrow> RecordOutcome \<Rightarrow> FeeDeduction \<Rightarrow> (session, RecordOutcome) prog" where
  "pg_recordFee now bp pol out f =
     bindE (tryE (stmt (ledgerRepo_AppendFeeOutflow now
        \<lparr>fo_ID = 0, fo_ChainID = rp_Chain pol, fo_TxHash = fd_TxHash f, fo_PayerAddress = fd_PayerAddress f,
         fo_FeeBaseUnits = fd_FeeBaseUnits f, fo_TxCode = fd_TxCode f, fo_BlockHeight = bp_Height bp,
         fo_CreatedAt = now\<rparr>))) (\<lambda>r. case r of
       Inr _ \<Rightarrow> ret (out\<lparr>ro_FeeOutflows := ro_FeeOutflows out + 1\<rparr>)
     | Inl e \<Rightarrow> if e = ErrDuplicate then ret out else throw e)"

definition pg_recordUnattributed ::
    "time \<Rightarrow> RecordPolicy \<Rightarrow> RecordOutcome \<Rightarrow> LedgerEntry \<times> string \<Rightarrow> (session, RecordOutcome) prog" where
  "pg_recordUnattributed now pol out p = (case p of (e, reason) \<Rightarrow>
     bindE (pg_appendFresh now e) (\<lambda>entry. case entry of
       None \<Rightarrow> ret out
     | Some row \<Rightarrow>
         thenE (pg_openLedgerReview now (rp_Chain pol) (le_ID row) reason)
           (ret (out\<lparr>ro_LedgerAppends := ro_LedgerAppends out + 1,
                     ro_ReviewItemsOpened := ro_ReviewItemsOpened out + 1\<rparr>))))"

definition pg_RecordBlock :: "time \<Rightarrow> BlockParse \<Rightarrow> RecordPolicy \<Rightarrow> (store, RecordOutcome) prog" where
  "pg_RecordBlock now bp pol =
     (if rp_Chain pol = [] then throw (ErrOther ''RecordPolicy.ChainID must be set'')
      else pg_with_tx
        (bindE (foldE (pg_recordTransfer now bp pol) (bp_Transfers bp) noOutcome) (\<lambda>o1.
         bindE (foldE (pg_recordFee now bp pol) (bp_FeeDeductions bp) o1) (\<lambda>o2.
         bindE (foldE (pg_recordUnattributed now pol)
                  (map (\<lambda>rc. (ReviewCandidate_LedgerEntry rc (rp_Chain pol) (bp_Height bp) now, rv_Reason rc))
                     (bp_ReviewCandidates bp)) o2) (\<lambda>o3.
         bindE (foldE (pg_recordUnattributed now pol)
                  (map (\<lambda>be. (BlockEventEntry_LedgerEntry be (rp_Chain pol) (bp_Height bp) now, be_Reason be))
                     (bp_BlockEvents bp)) o3) (\<lambda>o4.
         thenE (stmt (checkpointRepo_Set now
            \<lparr>cp_ChainID = rp_Chain pol, cp_LastFullyProcessedHeight = bp_Height bp,
             cp_LastObservedBlockHash = bp_BlockHash bp, cp_UpdatedAt = now\<rparr>))
         (ret o4)))))))"

section \<open>As long as no statement fails, the backends agree\<close>

text \<open>An aborted session stays aborted and keeps its store.\<close>

definition stuck :: "session \<Rightarrow> session \<Rightarrow> bool" where
  "stuck z z' \<longleftrightarrow> (snd z \<longrightarrow> z' = z)"

interpretation stk: step_rel stuck
  by unfold_locales (auto simp: stuck_def)

lemma stmt_ok: "m s = (Inr a, t) \<Longrightarrow> stmt m (s, False) = (Inr a, (t, False))"
  by (simp add: stmt_def serverError_def)

lemma stuck_stmt: "stays stuck (stmt m)"
  by (auto simp: stays_def stuck_def stmt_def split: prod.split)

lemma stuck_run: "stays stuck p \<Longrightarrow> \<exists>r. p (s, True) = (r, (s, True))"
  by (auto simp: stays_def stuck_def) (metis prod.collapse)

text \<open>\<open>matches p m\<close>: in a session that is not aborted at the end, \<open>p\<close> did what \<open>m\<close> does.\<close>

definition matches :: "(session, 'a) prog \<Rightarrow> (store, 'a) prog \<Rightarrow> bool" where
  "matches p m \<longleftrightarrow> stays stuck p \<and> (\<forall>s r t. p (s, False) = (r, (t, False)) \<longrightarrow> m s = (r, t))"

named_theorems matches_rules

lemma matches_ret [matches_rules]: "matches (ret a) (ret a)"
  by (simp add: matches_def stk.stays_ret)

lemma matches_throw [matches_rules]: "matches (throw e) (throw e)"
  by (simp add: matches_def stk.stays_throw)

lemma matches_stmt [matches_rules]: "matches (stmt m) m"
  unfolding matches_def using stuck_stmt by (auto simp: stmt_def split: prod.splits)

lemma matches_tryE [matches_rules]: "matches p m \<Longrightarrow> matches (tryE p) (tryE m)"
  by (auto simp: matches_def tryE_run prod_eq_iff intro: stk.stays_tryE)

lemma matches_bindE [matches_rules]:
  assumes "matches p m" "\<And>a. matches (f a) (g a)"
  shows "matches (bindE p f) (bindE m g)"
proof -
  have stuck: "stays stuck (f a)" for a using assms(2) by (simp add: matches_def)
  have "bindE m g s = (r, t)" if run: "bindE p f (s, False) = (r, (t, False))" for s r t
  proof -
    obtain q s1 ab where p: "p (s, False) = (q, (s1, ab))" by (cases "p (s, False)") auto
    have "\<not> ab"
    proof
      assume "ab"
      then have "snd (bindE p f (s, False)) = (s1, True)"
        using p stuck_run [OF stuck] by (cases q) (auto simp: bindE_def, metis snd_conv)
      with run show False by simp
    qed
    then have "m s = (q, s1)" using assms(1) p by (simp add: matches_def)
    then show ?thesis using run p \<open>\<not> ab\<close> assms(2) by (cases q) (simp_all add: bindE_def matches_def)
  qed
  then show ?thesis using assms(1) stuck by (auto simp: matches_def intro: stk.stays_bindE)
qed

lemma matches_thenE [matches_rules]: "matches p m \<Longrightarrow> matches q n \<Longrightarrow> matches (thenE p q) (thenE m n)"
  by (simp add: thenE_def matches_bindE)

lemma matches_if [matches_rules]: "matches p m \<Longrightarrow> matches q n \<Longrightarrow> matches (if b then p else q) (if b then m else n)"
  by simp

lemma matches_option [matches_rules]:
  "matches p m \<Longrightarrow> (\<And>x. matches (f x) (g x)) \<Longrightarrow>
   matches (case z of None \<Rightarrow> p | Some x \<Rightarrow> f x) (case z of None \<Rightarrow> m | Some x \<Rightarrow> g x)"
  by (simp split: option.split)

lemma matches_sum [matches_rules]:
  "(\<And>e. matches (h e) (k e)) \<Longrightarrow> (\<And>x. matches (f x) (g x)) \<Longrightarrow>
   matches (case z of Inl e \<Rightarrow> h e | Inr x \<Rightarrow> f x) (case z of Inl e \<Rightarrow> k e | Inr x \<Rightarrow> g x)"
  by (simp split: sum.split)

lemma matches_prod [matches_rules]:
  "(\<And>a b. matches (f a b) (g a b)) \<Longrightarrow> matches (case z of (a, b) \<Rightarrow> f a b) (case z of (a, b) \<Rightarrow> g a b)"
  by (simp split: prod.split)

lemma matches_foldE [matches_rules]: "(\<And>b x. matches (f b x) (g b x)) \<Longrightarrow> matches (foldE f xs b) (foldE g xs b)"
  by (induction xs arbitrary: b) (simp_all add: matches_ret matches_bindE)

lemma matches_record:
  "matches (pg_openLedgerReview now ch i txt) (openLedgerReview now ch i txt)"
  "matches (pg_routeDeposit now c pol i out) (routeDeposit now c pol i out)"
  "matches (pg_appendFresh now e) (appendFresh now e)"
  "matches (pg_recordFee now bp pol ro f) (recordFee now bp pol ro f)"
  unfolding pg_openLedgerReview_def pg_routeDeposit_def routeDeposit_def pg_appendFresh_def appendFresh_def
    pg_recordFee_def recordFee_def Let_def
  by (intro matches_rules)+

lemma matches_recordDeposit: "matches (pg_recordDeposit now bp c pol) (recordDeposit now bp c pol)"
  unfolding pg_recordDeposit_def recordDeposit_def Let_def by (intro matches_rules matches_record)

lemma matches_recordTransfer: "matches (pg_recordTransfer now bp pol out c) (recordTransfer now bp pol out c)"
  unfolding pg_recordTransfer_def recordTransfer_def Let_def
  by (intro matches_rules matches_record matches_recordDeposit)

lemma matches_recordUnattributed: "matches (pg_recordUnattributed now pol out p) (recordUnattributed now pol out p)"
  unfolding pg_recordUnattributed_def recordUnattributed_def by (intro matches_rules matches_record)

lemma pg_with_tx_ok: "matches p m \<Longrightarrow> pg_with_tx p s = (Inr a, t) \<Longrightarrow> with_tx m s = (Inr a, t)"
  by (auto simp: pg_with_tx_def with_tx_ok_iff matches_def split: prod.splits sum.splits if_splits)

lemma pg_with_tx_err: "pg_with_tx p s = (Inl e, t) \<Longrightarrow> t = s"
  by (auto simp: pg_with_tx_def split: prod.splits sum.splits if_splits)

lemma pg_RecordBlock_ok: "pg_RecordBlock now bp pol s = (Inr out, t) \<Longrightarrow> RecordBlock now bp pol s = (Inr out, t)"
  unfolding pg_RecordBlock_def RecordBlock_def
  by (simp split: if_splits)
     (erule pg_with_tx_ok [rotated], intro matches_rules matches_recordTransfer matches_record matches_recordUnattributed)

lemma pg_RecordBlock_err: "pg_RecordBlock now bp pol s = (Inl e, t) \<Longrightarrow> t = s"
  by (auto simp: pg_RecordBlock_def dest: pg_with_tx_err split: if_splits)

section \<open>A failed statement dooms the transaction\<close>

definition aborts :: "(session, 'a) prog \<Rightarrow> store \<Rightarrow> bool" where
  "aborts p s \<longleftrightarrow> (\<exists>r. p (s, False) = (r, (s, True)))"

definition doomed :: "(session, 'a) prog \<Rightarrow> store \<Rightarrow> bool \<Rightarrow> bool" where
  "doomed p s aborted \<longleftrightarrow> isl (fst (p (s, aborted)))"

lemma aborts_bindE:
  assumes "aborts p s" "\<And>a. stays stuck (f a)"
  shows "aborts (bindE p f) s"
proof -
  obtain r where r: "p (s, False) = (r, (s, True))" using assms(1) by (auto simp: aborts_def)
  then show ?thesis using stuck_run [OF assms(2)] by (cases r) (simp_all add: aborts_def bindE_def)
qed

lemma aborts_foldE:
  assumes "xs \<noteq> []" "\<And>b x. x \<in> set xs \<Longrightarrow> aborts (f b x) s" "\<And>b x. stays stuck (f b x)"
  shows "aborts (foldE f xs b) s"
proof -
  obtain y ys where xs: "xs = y # ys" using assms(1) by (cases xs) auto
  have "aborts (bindE (f b y) (foldE f ys)) s"
    using assms(2,3) by (intro aborts_bindE stk.stays_foldE) (simp_all add: xs)
  then show ?thesis by (simp add: xs)
qed

lemma doomed_stmt: "doomed (thenE (stmt m) n) s True"
  by (simp add: doomed_def thenE_def bindE_def stmt_def)

lemma doomed_later:
  assumes "stays stuck p" "\<And>a. doomed (f a) s True"
  shows "doomed (bindE p f) s True"
proof -
  obtain r where r: "p (s, True) = (r, (s, True))" using stuck_run [OF assms(1)] by blast
  then show ?thesis using assms(2) by (cases r) (simp_all add: doomed_def bindE_def)
qed

lemma doomed_aborts:
  assumes "aborts p s" "\<And>a. doomed (f a) s True"
  shows "doomed (bindE p f) s False"
proof -
  obtain r where r: "p (s, False) = (r, (s, True))" using assms(1) by (auto simp: aborts_def)
  then show ?thesis using assms(2) by (cases r) (simp_all add: doomed_def bindE_def)
qed

lemma pg_with_tx_doomed: "doomed p s False \<Longrightarrow> \<exists>e. pg_with_tx p s = (Inl e, s)"
  by (auto simp: doomed_def pg_with_tx_def isl_def split: prod.splits)

section \<open>Recording a block again\<close>

lemma pg_appendFresh_again:
  assumes "logged s e" "plainEntry e"
  shows "aborts (pg_appendFresh now e) s"
proof -
  have "ledgerRepo_Append now e s = (Inl ErrDuplicate, s)"
    using assms plain_clash [OF assms(2), where i = "nextRowID (map le_ID (t_ledger s))" and tm = "fmtTime now (le_CreatedAt e)"]
    by (auto simp: append_run logged_def Let_def)
  then show ?thesis by (simp add: aborts_def pg_appendFresh_def stmt_def bindE_def tryE_run serverError_def)
qed

lemma matches_stuck: "matches p m \<Longrightarrow> stays stuck p"
  by (simp add: matches_def)

lemmas record_stuck = matches_record [THEN matches_stuck] matches_recordDeposit [THEN matches_stuck]
  matches_recordTransfer [THEN matches_stuck] matches_recordUnattributed [THEN matches_stuck]

lemma pg_recordTransfer_again:
  assumes "transferDone bp pol c s"
  shows "aborts (pg_recordTransfer now bp pol out c) s"
proof -
  have "aborts (pg_appendFresh now (TransferCandidate_LedgerEntry c (rp_Chain pol) (bp_Height bp) now)) s"
    using assms by (intro pg_appendFresh_again) (simp_all add: transferDone_def logged_any_time [where now = now])
  then show ?thesis unfolding pg_recordTransfer_def
    by (rule aborts_bindE) (unfold Let_def, intro stk.stays_rules record_stuck)
qed

lemma pg_recordFee_again:
  assumes "feeDone pol f s"
  shows "aborts (pg_recordFee now bp pol out f) s"
proof -
  have "ledgerRepo_AppendFeeOutflow now
      \<lparr>fo_ID = 0, fo_ChainID = rp_Chain pol, fo_TxHash = fd_TxHash f, fo_PayerAddress = fd_PayerAddress f,
       fo_FeeBaseUnits = fd_FeeBaseUnits f, fo_TxCode = fd_TxCode f, fo_BlockHeight = bp_Height bp, fo_CreatedAt = now\<rparr> s =
      (Inl ErrDuplicate, s)"
    using assms by (auto simp: feeDone_def ledgerRepo_AppendFeeOutflow_def run_defs Let_def amountText_cases)
  then show ?thesis by (simp add: aborts_def pg_recordFee_def stmt_def bindE_def tryE_run serverError_def)
qed

lemma pg_recordUnattributed_again: "logged s e \<Longrightarrow> plainEntry e \<Longrightarrow> aborts (pg_recordUnattributed now pol out (e, reason)) s"
  unfolding pg_recordUnattributed_def prod.case
  by (rule aborts_bindE, erule (1) pg_appendFresh_again) (intro stk.stays_rules record_stuck)

definition hasRows :: "BlockParse \<Rightarrow> bool" where
  "hasRows bp \<longleftrightarrow> bp_Transfers bp \<noteq> [] \<or> bp_FeeDeductions bp \<noteq> [] \<or> bp_ReviewCandidates bp \<noteq> [] \<or> bp_BlockEvents bp \<noteq> []"

lemma doomed_foldE:
  assumes "xs \<noteq> [] \<Longrightarrow> aborts (foldE f xs b) s" "xs = [] \<Longrightarrow> doomed (g b) s False" "\<And>a. doomed (g a) s True"
  shows "doomed (bindE (foldE f xs b) g) s False"
  using assms by (cases "xs = []") (auto intro: doomed_aborts)

lemma pg_RecordBlock_again:
  assumes "recorded bp pol s" "hasRows bp"
  shows "\<exists>e. pg_RecordBlock now bp pol s = (Inl e, s)"
proof -
  let ?rc = "\<lambda>rc. (ReviewCandidate_LedgerEntry rc (rp_Chain pol) (bp_Height bp) now, rv_Reason rc)"
  let ?be = "\<lambda>be. (BlockEventEntry_LedgerEntry be (rp_Chain pol) (bp_Height bp) now, be_Reason be)"
  have a1: "aborts (foldE (pg_recordTransfer now bp pol) (bp_Transfers bp) o1) s" if "bp_Transfers bp \<noteq> []" for o1
    by (rule aborts_foldE [OF that]) (use assms(1) in \<open>auto simp: recorded_def intro: pg_recordTransfer_again record_stuck\<close>)
  have a2: "aborts (foldE (pg_recordFee now bp pol) (bp_FeeDeductions bp) o1) s" if "bp_FeeDeductions bp \<noteq> []" for o1
    by (rule aborts_foldE [OF that]) (use assms(1) in \<open>auto simp: recorded_def intro: pg_recordFee_again record_stuck\<close>)
  have a3: "aborts (foldE (pg_recordUnattributed now pol) (map ?rc (bp_ReviewCandidates bp)) o1) s"
    if "map ?rc (bp_ReviewCandidates bp) \<noteq> []" for o1
    by (rule aborts_foldE [OF that])
       (use assms(1) in \<open>auto simp: recorded_def logged_any_time [where now = now] intro!: pg_recordUnattributed_again record_stuck\<close>)
  have a4: "aborts (foldE (pg_recordUnattributed now pol) (map ?be (bp_BlockEvents bp)) o1) s"
    if "map ?be (bp_BlockEvents bp) \<noteq> []" for o1
    by (rule aborts_foldE [OF that])
       (use assms(1) in \<open>auto simp: recorded_def logged_any_time [where now = now] intro!: pg_recordUnattributed_again record_stuck\<close>)
  show ?thesis
  proof (cases "rp_Chain pol = []")
    case False
    show ?thesis unfolding pg_RecordBlock_def if_not_P [OF False]
      by (rule pg_with_tx_doomed)
         (use assms(2) in \<open>auto simp only: hasRows_def list.map_disc_iff intro!: doomed_foldE doomed_later doomed_stmt a1 a2 a3 a4
            stk.stays_foldE record_stuck\<close>)
  qed (simp add: pg_RecordBlock_def)
qed

lemma pg_RecordBlock_empty: "\<not> hasRows bp \<Longrightarrow> pg_RecordBlock now bp pol = RecordBlock now bp pol"
  by (auto simp: hasRows_def pg_RecordBlock_def RecordBlock_def pg_with_tx_def with_tx_def thenE_def bindE_def stmt_def
      serverError_def fun_eq_iff split: prod.split sum.split)

end
