(* ===== verification/Deposit_Theorems.thy ===== *)
theory Deposit_Theorems
  imports Deposit_Fixtures Postgres
begin

text \<open>
  The properties of the deposit side: crediting happens exactly once, only when
  the conditions and the gate allow it, and is never undone; a scan misses
  nothing and a replay adds nothing; the walk ends; and the two places where
  the orphan handling does less than its comment says.
\<close>

section \<open>Lemmas\<close>

lemma outbox_key_unique:
  assumes "store_uniq s" "e \<in> set (t_outbox s)" "creditEvent d e"
  shows "length (filter (creditEvent d) (t_outbox s)) = 1"
proof -
  let ?es = "filter (\<lambda>e. ob_DedupKey e \<noteq> []) (t_outbox s)"
  have key: "DepositDedupKey d \<noteq> []" by (simp add: DepositDedupKey_def OutboxTopicDepositCredited_def)
  have one: "x = e" if "x \<in> set (t_outbox s)" "creditEvent d x" for x
    using distinct_map_inj [of ob_DedupKey ?es x e] assms that key
    by (auto simp: store_uniq_def uniq_outbox_def creditEvent_def)
  have "distinct (t_outbox s)" using assms(1) by (auto simp: store_uniq_def uniq_outbox_def distinct_map)
  then have "distinct (filter (creditEvent d) (t_outbox s))" by simp
  moreover have "set (filter (creditEvent d) (t_outbox s)) = {e}" using assms(2,3) by (auto intro: one)
  ultimately have "length (filter (creditEvent d) (t_outbox s)) = card {e}" using distinct_card by metis
  then show ?thesis by simp
qed

lemma credited_not_creditable:
  assumes "credit_inv t" "d \<in> set (t_deposits t)" "credited d"
  shows "fst (CreditDeposit E now d t) \<noteq> Inr ()"
proof
  assume "fst (CreditDeposit E now d t) = Inr ()"
  then obtain u where "CreditDeposit E now d t = (Inr (), u)" by (cases "CreditDeposit E now d t") simp
  then obtain row where "find (\<lambda>x. d_ID x = d_ID d) (t_deposits t) = Some row" "d_Status row = DepositCreditable"
    by (rule CreditDeposit_ok)
  then have "row = d" "d_Status row = DepositCreditable"
    using deposit_id_unique [OF assms(1) _ assms(2)] find_SomeD by fastforce+
  then show False using assms(3) by (simp add: credited_def)
qed

lemma colon_split:
  assumes "a @ CHR '':'' # b = a' @ CHR '':'' # b'" "CHR '':'' \<notin> set a" "CHR '':'' \<notin> set a'"
  shows "a = a' \<and> b = b'"
  using assms
proof (induction a arbitrary: a')
  case Nil
  then show ?case by (cases a') auto
next
  case (Cons x a)
  then show ?case by (cases a') auto
qed

lemma no_colon_digits: "CHR '':'' \<notin> set (show_nat n)"
  using show_nat_digits [of n] by (auto simp: list_all_iff is_digit_def)

lemma hexUpper_no_colon: "CHR '':'' \<notin> set (hexUpper bs)"
proof -
  have "hex_digit_upper n \<noteq> CHR '':''" if "n < 16" for n
  proof
    assume "hex_digit_upper n = CHR '':''"
    then have "(of_char (hex_digit_upper n) :: nat) = of_char CHR '':''" by (rule arg_cong)
    then show False using that by (auto simp: hex_digit_upper_def split: if_splits)
  qed
  moreover have "unat (b :: 8 word) div 16 < 16" for b using unsigned_less [of b, where ?'a = nat] by (simp add: less_mult_imp_div_less)
  ultimately have "CHR '':'' \<noteq> hex_digit_upper (unat b div 16)" "CHR '':'' \<noteq> hex_digit_upper (unat b mod 16)"
    for b :: "8 word" by (metis, metis mod_less_divisor zero_less_numeral)
  then show ?thesis by (auto simp: hexUpper_def)
qed

lemma TxHashHex_no_colon: "CHR '':'' \<notin> set (TxHashHex b)"
  by (simp add: TxHashHex_def txHashOf_def hexUpper_no_colon)

text \<open>The dedup key tells deposits apart when chain identifiers and hashes hold no colon.\<close>

lemma dedup_key_inject:
  assumes "DepositDedupKey d = DepositDedupKey x"
    and "CHR '':'' \<notin> set (d_ChainID d)" "CHR '':'' \<notin> set (d_ChainID x)"
    and "CHR '':'' \<notin> set (d_TxHash d)" "CHR '':'' \<notin> set (d_TxHash x)"
  shows "depositKey d = depositKey x"
proof -
  have 1: "d_ChainID d = d_ChainID x \<and> d_TxHash d @ CHR '':'' # show_nat (unat (d_MessageIndex d)) @ CHR '':'' #
      show_nat (unat (d_CoinIndex d)) @ CHR '':'' # d_RecipientAddress d =
    d_TxHash x @ CHR '':'' # show_nat (unat (d_MessageIndex x)) @ CHR '':'' #
      show_nat (unat (d_CoinIndex x)) @ CHR '':'' # d_RecipientAddress x"
    by (rule colon_split) (use assms in \<open>auto simp: DepositDedupKey_def OutboxTopicDepositCredited_def\<close>)
  have 2: "d_TxHash d = d_TxHash x \<and> show_nat (unat (d_MessageIndex d)) @ CHR '':'' #
      show_nat (unat (d_CoinIndex d)) @ CHR '':'' # d_RecipientAddress d =
    show_nat (unat (d_MessageIndex x)) @ CHR '':'' # show_nat (unat (d_CoinIndex x)) @ CHR '':'' # d_RecipientAddress x"
    by (rule colon_split [OF conjunct2 [OF 1]]) (use assms in auto)
  have 3: "show_nat (unat (d_MessageIndex d)) = show_nat (unat (d_MessageIndex x)) \<and>
      show_nat (unat (d_CoinIndex d)) @ CHR '':'' # d_RecipientAddress d =
      show_nat (unat (d_CoinIndex x)) @ CHR '':'' # d_RecipientAddress x"
    by (rule colon_split [OF conjunct2 [OF 2]]) (simp_all add: no_colon_digits)
  have 4: "show_nat (unat (d_CoinIndex d)) = show_nat (unat (d_CoinIndex x)) \<and> d_RecipientAddress d = d_RecipientAddress x"
    by (rule colon_split [OF conjunct2 [OF 3]]) (simp_all add: no_colon_digits)
  show ?thesis using 1 2 3 4 by (simp add: depositKey_def show_nat_inject word_unat_eq_iff)
qed

lemma uniq_RecordBlock: "stays uniq_rel (RecordBlock now bp pol)"
proof -
  have route: "stays uniq_rel (routeDeposit now c pol i out)" for c i out
    unfolding routeDeposit_def Let_def by (intro uq.stays_rules uniq_ops)
  have get: "stays uniq_rel (depositRepo_Get c h m i a)" for c h m i a
    by (rule uq.stays_unchanged) (simp add: reads_unchanged)
  have review: "stays uniq_rel (openLedgerReview now ch i reason)" for ch i reason
    unfolding openLedgerReview_def by (intro uq.stays_rules uniq_ops)
  have fresh: "stays uniq_rel (appendFresh now e)" for e
    unfolding appendFresh_def by (intro uq.stays_rules uniq_ops)
  have deposit: "stays uniq_rel (recordDeposit now bp c pol)" for c
    unfolding recordDeposit_def Let_def by (intro uq.stays_rules uniq_ops route get)
  have "stays uniq_rel (recordTransfer now bp pol out c)" "stays uniq_rel (recordFee now bp pol out f)"
    "stays uniq_rel (recordUnattributed now pol out p)" for out c f p
    unfolding recordTransfer_def recordFee_def recordUnattributed_def Let_def
    by (intro uq.stays_rules uniq_ops fresh review deposit)+
  then show ?thesis unfolding RecordBlock_def by (intro uq.stays_rules uniq_ops)
qed

definition same_checkpoints :: "store \<Rightarrow> store \<Rightarrow> bool" where
  "same_checkpoints s t \<longleftrightarrow> t_checkpoints t = t_checkpoints s"

interpretation sc: step_rel same_checkpoints
  by unfold_locales (auto simp: same_checkpoints_def)

lemma checkpoints_processPending: "stays same_checkpoints (processPending E now cfg l)"
proof -
  have ops: "stays same_checkpoints (depositRepo_UpdateStatus now k from to u)"
    "stays same_checkpoints (outboxRepo_Enqueue now ev)"
    "stays same_checkpoints (depositRepo_ListByStatus c1 st n)" "stays same_checkpoints (controlsRepo_Get c1)"
    "stays same_checkpoints (chainReviewRepo_HasOpen c1)" for k "from" to u ev c1 st n
  proof -
    show "stays same_checkpoints (depositRepo_UpdateStatus now k from to u)"
      by (rule stays_cases) (auto simp: same_checkpoints_def dep_update_ok_iff dest: dep_update_err)
    show "stays same_checkpoints (outboxRepo_Enqueue now ev)"
      by (auto simp: stays_def same_checkpoints_def outboxRepo_Enqueue_def run_defs Let_def)
  qed (rule sc.stays_unchanged, simp add: reads_unchanged)+
  have credit: "stays same_checkpoints (CreditDeposit E now d)" for d
    unfolding CreditDeposit_def LoadCreditGate_def by (intro sc.stays_rules ops)
  have pass: "stays same_checkpoints (creditPass E now cfg l gate ds)" for gate ds
  proof (induction ds)
    case (Cons d ds)
    show ?case
      by (cases "EvaluateCreditConditions d l (sc_Confirmations cfg) gate")
         (simp_all only: creditPass.simps CreditDecision.case, (intro sc.stays_rules credit ops Cons)+)
  qed (simp only: creditPass.simps, rule sc.stays_ret)
  show ?thesis
    unfolding processPending_def Let_def LoadCreditGate_def unpark_def confirmDeposit_def resumeSuspended_def
    by (intro sc.stays_rules ops pass)
qed

definition keeps_parked :: "store \<Rightarrow> store \<Rightarrow> bool" where
  "keeps_parked s t \<longleftrightarrow> (\<forall>d \<in> set (t_deposits s). d_Status d = DepositSuspended \<or> d_Status d = DepositReviewRequired \<longrightarrow>
     d \<in> set (t_deposits t))"

interpretation kp: step_rel keeps_parked
  by unfold_locales (auto simp: keeps_parked_def)

lemma parked_orphanFlow: "stays keeps_parked (orphanFlow now cfg F i h e g)"
proof -
  have same: "stays keeps_parked m" if "\<And>s. t_deposits (snd (m s)) = t_deposits s" for m :: "(store, 'x) prog"
    using that by (simp add: stays_def keeps_parked_def)
  have upd: "stays keeps_parked (depositRepo_UpdateStatus now k from to u)"
    if "from \<noteq> DepositSuspended" "from \<noteq> DepositReviewRequired" for k "from" to u
  proof (rule stays_cases)
    fix s t and a :: unit
    assume "depositRepo_UpdateStatus now k from to u s = (Inr a, t)"
    then have t: "t_deposits t = map_where (\<lambda>d. d_ID d = k \<and> d_Status d = from) (applyDepositUpdate now from to u) (t_deposits s)"
      by (auto simp: dep_update_ok_iff)
    show "keeps_parked s t"
      unfolding keeps_parked_def
    proof (intro ballI impI)
      fix d assume "d \<in> set (t_deposits s)" "d_Status d = DepositSuspended \<or> d_Status d = DepositReviewRequired"
      then show "d \<in> set (t_deposits t)"
        using map_where_in [of d "t_deposits s" "\<lambda>d. d_ID d = k \<and> d_Status d = from" "applyDepositUpdate now from to u"] that
        by (auto simp: t)
    qed
  qed (use dep_update_err kp.R_refl in blast)
  have list: "stays keeps_parked (depositRepo_ListByStatus ch st n)" for ch st n
    by (rule kp.stays_unchanged) (simp add: reads_unchanged)
  have review: "stays keeps_parked (openChainReviewOnce now cfg i tr a b)" for tr a b
    by (rule same) (auto simp: openChainReviewOnce_def chainReviewRepo_ListOpen_def chainReviewRepo_Open_def
        thenE_def bindE_def run_defs Let_def split: if_splits)
  have set: "stays keeps_parked (checkpointRepo_Set now cp)" for cp
    by (rule same) (simp add: checkpoint_frames)
  show ?thesis
    unfolding orphanFlow_def Let_def orphanedStatuses_def forE.simps
    by (intro kp.stays_rules review list set upd) simp_all
qed

section \<open>Crediting\<close>

text \<open>
  C19.  In every store the deposit side can reach, each credited deposit has
  exactly one credit event in the outbox, and each credit event belongs to a
  credited deposit.
\<close>

theorem credited_exactly_once:
  assumes "dsteps empty_store s"
  shows "(\<forall>d \<in> set (t_deposits s). credited d \<longrightarrow> length (filter (creditEvent d) (t_outbox s)) = 1) \<and>
    (\<forall>e \<in> set (t_outbox s). ob_Topic e = OutboxTopicDepositCredited \<longrightarrow>
       (\<exists>d \<in> set (t_deposits s). credited d \<and> creditEvent d e))"
  using reachable_credit_inv [OF assms] outbox_key_unique [of s] unfolding credit_inv_def by blast

theorem credited_exactly_once_witness:
  "dx_dep DepositCredited (Some 100) \<in> set (t_deposits dx_s2) \<and> credited (dx_dep DepositCredited (Some 100)) \<and>
   length (filter (creditEvent (dx_dep DepositCredited (Some 100))) (t_outbox dx_s2)) = 1"
proof -
  have "dx_dep DepositCredited (Some 100) \<in> set (t_deposits dx_s2)" "credited (dx_dep DepositCredited (Some 100))"
    by (simp_all add: dx_s2_def credited_def dx_dep_def)
  then show ?thesis using credited_exactly_once [OF dx_reachable] by blast
qed

text \<open>
  C20.  A credit is final: whatever steps follow, the deposit stays the same
  deposit, stays credited with the same credit time, and a second credit
  transaction on it is refused.
\<close>

theorem credit_final:
  assumes "dsteps empty_store s" "dsteps s t" "d \<in> set (t_deposits s)" "credited d"
  shows "\<exists>d' \<in> set (t_deposits t). same_deposit d d' \<and> credited d' \<and> d_CreditedAt d' = d_CreditedAt d \<and>
    fst (CreditDeposit E now d' t) \<noteq> Inr ()"
proof -
  have inv: "credit_inv t" "keeps_deposits s t"
    using dsteps_credit [OF assms(2)] reachable_credit_inv [OF assms(1)] by (auto simp: inv_rel_def)
  then obtain d' where "d' \<in> set (t_deposits t)" "same_deposit d d'" "credited d'" "d_CreditedAt d' = d_CreditedAt d"
    using assms(3,4) unfolding keeps_deposits_def by blast
  then show ?thesis using credited_not_creditable [OF inv(1)] by blast
qed

theorem credit_final_witness:
  "credited (dx_dep DepositCredited (Some 100)) \<and>
   (\<exists>d' \<in> set (t_deposits dx_s2). same_deposit (dx_dep DepositCredited (Some 100)) d' \<and>
      fst (CreditDeposit dx_enc 200 d' dx_s2) \<noteq> Inr ())"
proof -
  have "dx_dep DepositCredited (Some 100) \<in> set (t_deposits dx_s2)" "credited (dx_dep DepositCredited (Some 100))"
    by (simp_all add: dx_s2_def credited_def dx_dep_def)
  from credit_final [OF dx_reachable rtranclp.rtrancl_refl this] this(2) show ?thesis by blast
qed

text \<open>
  C21.  A scanner cycle credits a deposit only when its transaction succeeded, it
  carries a positive amount of the base denomination, it has the configured
  confirmations at the height the node reported, and crediting of its chain is
  neither paused nor suspended nor under chain review.
\<close>

theorem credited_only_when_allowed:
  assumes "credit_inv s" "Cycle K E now cfg F i fb s = (r, t)" "fe_LatestBlock F = Inr latest"
    and "d \<in> set (t_deposits t)" "credited d" "\<not> (\<exists>x \<in> set (t_deposits s). d_ID x = d_ID d \<and> credited x)"
  shows "d_TxCode d = 0 \<and> d_Denom d = BaseDenom \<and> d_AmountBaseUnits d > 0 \<and>
    sc_Confirmations cfg \<le> ConfirmationCount (bk_Height latest) (d_BlockHeight d) \<and> gate_open s (d_ChainID d)"
  using staysD [OF cycle_Cycle [OF assms(3)] assms(2)] assms(1,4-6)
  by (auto simp: inv_rel_def cycle_step_def credits_allowed_def creditable_at_def)

theorem credited_only_when_allowed_witness:
  "dx_dep DepositCredited (Some 100) \<in> set (t_deposits dx_s2) \<and> d_AmountBaseUnits (dx_dep DepositCredited (Some 100)) > 0 \<and>
   gate_open dx_s0 (d_ChainID (dx_dep DepositCredited (Some 100)))"
proof -
  have mem: "dx_dep DepositCredited (Some 100) \<in> set (t_deposits dx_s2)" "credited (dx_dep DepositCredited (Some 100))"
    by (simp_all add: dx_s2_def credited_def dx_dep_def)
  have latest: "fe_LatestBlock dx_feed = Inr (dx_block 7)" by (simp add: dx_feed_def)
  have "\<not> (\<exists>x \<in> set (t_deposits dx_s0). d_ID x = d_ID (dx_dep DepositCredited (Some 100)) \<and> credited x)"
    by (simp add: dx_s0_def empty_store_def)
  from credited_only_when_allowed [OF dx_credit_inv dx_cycle latest mem this] mem(1) show ?thesis by blast
qed

lemma CreditDeposit_run:
  assumes gate: "gate_open s (d_ChainID d)" and chain: "d_ChainID d \<noteq> []"
    and enc: "MarshalJSON E (creditedEventOf E d now) = Some payload"
    and row: "find (\<lambda>x. d_ID x = d_ID d) (t_deposits s) = Some row" "d_Status row = DepositCreditable"
    and fresh: "\<forall>e \<in> set (t_outbox s). ob_DedupKey e \<noteq> DepositDedupKey d"
  shows "\<exists>t. CreditDeposit E now d s = (Inr (), t)"
proof -
  let ?u = "t_deposits_update (map_where (\<lambda>x. d_ID x = d_ID d \<and> d_Status x = DepositCreditable)
       (applyDepositUpdate now DepositCreditable DepositCredited (noDepositUpdate\<lparr>du_CreditedAt := Some now\<rparr>))) s"
  have upd: "depositRepo_UpdateStatus now (d_ID d) DepositCreditable DepositCredited
      (noDepositUpdate\<lparr>du_CreditedAt := Some now\<rparr>) s = (Inr (), ?u)"
    by (subst dep_update_ok_iff) (use row in \<open>simp add: enum_defs\<close>)
  obtain g where "LoadCreditGate (d_ChainID d) s = (Inr g, s)"
    "\<not> cg_CreditPaused g \<and> \<not> cg_ScanWithoutCredit g \<and> \<not> cg_ChainReviewOpen g"
    using gate by (auto simp: LoadCreditGate_run gate_open_def split: option.splits)
  then show ?thesis
    using chain fresh upd
    by (simp add: CreditDeposit_def enc bindE_def thenE_def with_tx_def outboxRepo_Enqueue_def run_defs Let_def
        OutboxTopicDepositCredited_def)
qed

text \<open>
  A creditable deposit is credited: when the gate of its chain is open and
  its event can be encoded, the credit transaction succeeds, the deposit is
  credited at that time and its event is in the outbox.  Chain identifiers and
  hashes of the stored deposits hold no colon, and no event of another topic
  uses the deposit's key.
\<close>

theorem creditable_is_credited:
  assumes inv: "credit_inv s" and d: "d \<in> set (t_deposits s)" "d_Status d = DepositCreditable"
    and chain: "d_ChainID d \<noteq> []" and gate: "gate_open s (d_ChainID d)"
    and enc: "MarshalJSON E (creditedEventOf E d now) = Some payload"
    and colon: "\<forall>x \<in> set (t_deposits s). CHR '':'' \<notin> set (d_ChainID x) \<and> CHR '':'' \<notin> set (d_TxHash x)"
    and topics: "\<forall>e \<in> set (t_outbox s). ob_DedupKey e = DepositDedupKey d \<longrightarrow> ob_Topic e = OutboxTopicDepositCredited"
  shows "\<exists>t. CreditDeposit E now d s = (Inr (), t) \<and>
    (\<exists>x \<in> set (t_deposits t). same_deposit d x \<and> d_Status x = DepositCredited \<and> d_CreditedAt x = Some now) \<and>
    (\<exists>e \<in> set (t_outbox t). creditEvent d e \<and> ob_Payload e = payload)"
proof -
  have uq: "distinct (map d_ID (t_deposits s))" "distinct (map depositKey (t_deposits s))"
    using inv by (simp_all add: credit_inv_def store_uniq_def uniq_deposits_def)
  have fresh: "ob_DedupKey e \<noteq> DepositDedupKey d" if e: "e \<in> set (t_outbox s)" for e
  proof
    assume "ob_DedupKey e = DepositDedupKey d"
    then obtain x where "x \<in> set (t_deposits s)" "credited x" "DepositDedupKey x = DepositDedupKey d"
      using inv topics e unfolding credit_inv_def creditEvent_def by metis
    then have "x = d" using dedup_key_inject [of x d] colon d(1) distinct_map_inj [OF uq(2)] by blast
    then show False using \<open>credited x\<close> d(2) by (simp add: credited_def)
  qed
  have row: "find (\<lambda>x. d_ID x = d_ID d) (t_deposits s) = Some d" by (rule find_key_distinct [OF uq(1) d(1) refl])
  obtain t where run: "CreditDeposit E now d s = (Inr (), t)"
    using CreditDeposit_run [OF gate chain enc row d(2)] fresh by blast
  then obtain p e where e: "MarshalJSON E (creditedEventOf E d now) = Some p" "creditEvent d e" "ob_Payload e = p"
    and t: "t = t_outbox_update (\<lambda>es. es @ [e]) (t_deposits_update (map_where
       (\<lambda>x. d_ID x = d_ID d \<and> d_Status x = DepositCreditable)
       (applyDepositUpdate now DepositCreditable DepositCredited (noDepositUpdate\<lparr>du_CreditedAt := Some now\<rparr>))) s)"
    by (rule CreditDeposit_ok)
  let ?x = "applyDepositUpdate now DepositCreditable DepositCredited (noDepositUpdate\<lparr>du_CreditedAt := Some now\<rparr>) d"
  have "?x \<in> set (t_deposits t)"
    using d map_where_in [OF d(1), of "\<lambda>x. d_ID x = d_ID d \<and> d_Status x = DepositCreditable"
        "applyDepositUpdate now DepositCreditable DepositCredited (noDepositUpdate\<lparr>du_CreditedAt := Some now\<rparr>)"]
    by (simp add: t)
  moreover have "d_Status ?x = DepositCredited" "d_CreditedAt ?x = Some now" by (simp_all add: applyDepositUpdate_def)
  moreover have "e \<in> set (t_outbox t)" by (simp add: t)
  ultimately show ?thesis using run e enc update_same_deposit [of d] by (metis option.inject)
qed

theorem creditable_is_credited_witness:
  "\<exists>t. CreditDeposit dx_enc 100 (dx_dep DepositCreditable None)
        (empty_store\<lparr>t_deposits := [dx_dep DepositCreditable None]\<rparr>) = (Inr (), t) \<and>
     (\<exists>x \<in> set (t_deposits t). d_Status x = DepositCredited \<and> d_CreditedAt x = Some 100)"
proof -
  let ?s = "empty_store\<lparr>t_deposits := [dx_dep DepositCreditable None]\<rparr>"
  have hex: "CHR '':'' \<notin> set (TxHashHex [7])" by (rule TxHashHex_no_colon)
  have inv: "credit_inv ?s"
    by (simp add: credit_inv_def empty_store_def store_uniq_def uniq_withdrawals_def uniq_sequences_def
      uniq_sweeps_def activeSweeps_def uniq_deposits_def uniq_ledger_def uniq_outbox_def credited_def dx_dep_def)
  have "gate_open ?s (d_ChainID (dx_dep DepositCreditable None))"
    by (simp add: gate_open_def empty_store_def)
  then show ?thesis
    using creditable_is_credited [OF inv, of "dx_dep DepositCreditable None" dx_enc 100 "[1]"] hex
    by (auto simp: dx_enc_def dx_dep_def empty_store_def)
qed

section \<open>Scanning\<close>

text \<open>
  C22.  Recording a block a second time adds nothing, on either backend, but only
  SQLite lets the replay pass.  On SQLite a block that was recorded is recorded
  again with nothing but duplicates in the outcome, and the store differs from the
  one before only in the checkpoint.  On PostgreSQL the first row that is already
  there aborts the transaction: the replay of a block with any row at all returns
  an error and leaves the store as it was, the checkpoint too; a block without rows
  behaves as on SQLite.  Whatever a PostgreSQL transaction does record is what the
  SQLite one records, and one that fails changes nothing.
\<close>

theorem replay_adds_nothing:
  assumes "store_uniq s" "RecordBlock now bp pol s = (Inr out, t)"
  shows "(\<exists>u. RecordBlock now' bp pol t =
      (Inr (noOutcome\<lparr>ro_Duplicates := int (length (filter isDeposit (bp_Transfers bp)))\<rparr>), u) \<and>
    u\<lparr>t_checkpoints := []\<rparr> = t\<lparr>t_checkpoints := []\<rparr> \<and>
    find (\<lambda>c. cp_ChainID c = rp_Chain pol) (t_checkpoints u) = Some (blockCheckpoint now' bp pol)) \<and>
    (if hasRows bp then \<exists>e. pg_RecordBlock now' bp pol t = (Inl e, t)
     else pg_RecordBlock now' bp pol t = RecordBlock now' bp pol t) \<and>
    (case pg_RecordBlock now bp pol s of
       (Inr out', t') \<Rightarrow> out' = out \<and> t' = t
     | (Inl e, t') \<Rightarrow> t' = s)"
proof (intro conjI)
  have chain: "rp_Chain pol \<noteq> []" using assms(2) by (auto simp: RecordBlock_def)
  have "store_uniq t" using staysD [OF uniq_RecordBlock assms(2)] assms(1) by (simp add: uniq_rel_def)
  from RecordBlock_again [OF RecordBlock_recorded [OF assms(2)] this chain]
  have again: "RecordBlock now' bp pol t =
      (Inr (noOutcome\<lparr>ro_Duplicates := int (length (filter isDeposit (bp_Transfers bp)))\<rparr>),
       snd (checkpointRepo_Set now' (blockCheckpoint now' bp pol) t))" .
  moreover have "(snd (checkpointRepo_Set now' cp t))\<lparr>t_checkpoints := []\<rparr> = t\<lparr>t_checkpoints := []\<rparr>" for cp
    by (simp add: checkpointRepo_Set_def Let_def)
  ultimately show "\<exists>u. RecordBlock now' bp pol t =
      (Inr (noOutcome\<lparr>ro_Duplicates := int (length (filter isDeposit (bp_Transfers bp)))\<rparr>), u) \<and>
    u\<lparr>t_checkpoints := []\<rparr> = t\<lparr>t_checkpoints := []\<rparr> \<and>
    find (\<lambda>c. cp_ChainID c = rp_Chain pol) (t_checkpoints u) = Some (blockCheckpoint now' bp pol)"
    using RecordBlock_checkpoint [OF again] by blast
  show "if hasRows bp then \<exists>e. pg_RecordBlock now' bp pol t = (Inl e, t)
     else pg_RecordBlock now' bp pol t = RecordBlock now' bp pol t"
    using pg_RecordBlock_again [OF RecordBlock_recorded [OF assms(2)]] pg_RecordBlock_empty by simp
  show "case pg_RecordBlock now bp pol s of (Inr out', t') \<Rightarrow> out' = out \<and> t' = t | (Inl e, t') \<Rightarrow> t' = s"
    using pg_RecordBlock_ok [of now bp pol s] pg_RecordBlock_err [of now bp pol s] assms(2) by (auto split: prod.split sum.split)
qed

text \<open>A block with one deposit: PostgreSQL records it the first time and refuses it the second.\<close>

lemma dx_pg_recordDeposit:
  assumes "t_deposits s = []"
  shows "pg_recordDeposit 100 (dx_parse 7) (dx_row 7) (recordPolicy dx_cfg) (s, False) =
    (Inr (noDepositOutcome\<lparr>do_inserted := 1\<rparr>), (s\<lparr>t_deposits := [dx_dep DepositAwaitingConfirmations None]\<rparr>, False))"
proof -
  let ?d = "depositOf (dx_parse 7) (dx_row 7) (recordPolicy dx_cfg) 100" and ?u = "s\<lparr>t_deposits := [dx_dep DepositDiscovered None]\<rparr>"
  have "t_deposits_update (\<lambda>rows. rows @ [dx_dep DepositDiscovered None]) s = ?u" using assms by (cases s) simp
  then have "depositRepo_Insert 100 ?d s = (Inr (dx_dep DepositDiscovered None), ?u)"
    unfolding insert_run
    using assms by (simp add: depositOf_def dx_dep_def dx_parse_def dx_row_def recordPolicy_def dx_cfg_def
        nextRowID_def fmtTime_def BaseDenom_def Let_def)
  moreover have "pg_routeDeposit 100 (dx_row 7) (recordPolicy dx_cfg) 1 out (?u, False) =
      (Inr out, (s\<lparr>t_deposits := [dx_dep DepositAwaitingConfirmations None]\<rparr>, False))" for out
    by (simp add: pg_routeDeposit_def dx_row_def thenE_def bindE_def dx_update stmt_def serverError_def belowMinimum_def
        minimumSet_def recordPolicy_def dx_cfg_def)
  moreover have "d_ID (dx_dep DepositDiscovered None) = 1" by (simp add: dx_dep_def)
  ultimately show ?thesis by (simp add: pg_recordDeposit_def Let_def bindE_def tryE_run stmt_ok)
qed

lemma dx_pg_RecordBlock:
  "pg_RecordBlock 100 (dx_parse 7) (recordPolicy dx_cfg) dx_s0 =
     (Inr (noOutcome\<lparr>ro_LedgerAppends := 1, ro_DepositsInserted := 1\<rparr>), dx_s1)"
proof -
  let ?e = "TransferCandidate_LedgerEntry (dx_row 7) ''sovr-1'' 7 100"
  have "entryOk ?e" by (simp add: entryOk_def TransferCandidate_LedgerEntry_def dx_row_def enum_defs)
  then have "pg_appendFresh 100 ?e (dx_s0, False) = (Inr (Some (?e\<lparr>le_ID := 1\<rparr>)), (dx_s0\<lparr>t_ledger := [dx_ledger]\<rparr>, False))"
    by (simp add: pg_appendFresh_def stmt_def serverError_def append_run bindE_def tryE_run Let_def dx_s0_def empty_store_def
        nextRowID_def dx_ledger_def TransferCandidate_LedgerEntry_def fmtTime_def)
  then have "pg_recordTransfer 100 (dx_parse 7) (recordPolicy dx_cfg) noOutcome (dx_row 7) (dx_s0, False) =
      (Inr (noOutcome\<lparr>ro_LedgerAppends := 1, ro_DepositsInserted := 1\<rparr>),
       (dx_s0\<lparr>t_ledger := [dx_ledger], t_deposits := [dx_dep DepositAwaitingConfirmations None]\<rparr>, False))"
    using dx_pg_recordDeposit [of "dx_s0\<lparr>t_ledger := [dx_ledger]\<rparr>"]
    by (simp add: pg_recordTransfer_def bindE_def Let_def dx_parse_def recordPolicy_def dx_cfg_def dx_row_def dx_s0_def
        empty_store_def addDeposit_def noOutcome_def noDepositOutcome_def)
  then show ?thesis
    by (simp add: pg_RecordBlock_def pg_with_tx_def bindE_def thenE_def stmt_def serverError_def dx_parse_def recordPolicy_def
        dx_cfg_def checkpointRepo_Set_def Let_def dx_s1_def dx_s0_def dx_checkpoint_def empty_store_def map_where_def fmtTime_def)
qed

theorem replay_adds_nothing_witness:
  "(\<exists>u. RecordBlock 200 (dx_parse 7) (recordPolicy dx_cfg) dx_s1 = (Inr (noOutcome\<lparr>ro_Duplicates := 1\<rparr>), u) \<and>
    t_deposits u = t_deposits dx_s1 \<and> t_ledger u = t_ledger dx_s1) \<and>
   fst (pg_RecordBlock 100 (dx_parse 7) (recordPolicy dx_cfg) dx_s0) = Inr (noOutcome\<lparr>ro_LedgerAppends := 1, ro_DepositsInserted := 1\<rparr>) \<and>
   (\<exists>e. pg_RecordBlock 200 (dx_parse 7) (recordPolicy dx_cfg) dx_s1 = (Inl e, dx_s1))"
proof -
  have "store_uniq dx_s0" using dx_credit_inv by (simp add: credit_inv_def)
  note replay = replay_adds_nothing [OF this dx_RecordBlock, of 200]
  obtain u where u: "RecordBlock 200 (dx_parse 7) (recordPolicy dx_cfg) dx_s1 =
      (Inr (noOutcome\<lparr>ro_Duplicates := int (length (filter isDeposit (bp_Transfers (dx_parse 7))))\<rparr>), u)"
    "u\<lparr>t_checkpoints := []\<rparr> = dx_s1\<lparr>t_checkpoints := []\<rparr>" using replay by blast
  have "length (filter isDeposit (bp_Transfers (dx_parse 7))) = 1" by (simp add: dx_parse_def dx_row_def isDeposit_def)
  moreover have "t_deposits u = t_deposits dx_s1" "t_ledger u = t_ledger dx_s1"
    using arg_cong [OF u(2), of t_deposits] arg_cong [OF u(2), of t_ledger] by simp_all
  moreover have "hasRows (dx_parse 7)" by (simp add: hasRows_def dx_parse_def)
  ultimately show ?thesis using u(1) replay dx_pg_RecordBlock by simp
qed

text \<open>
  C23.  A cycle that reports success missed nothing: every block the node served
  from the cursor to the tip is recorded with all its rows and the checkpoint
  is the tip's block, unless a chain review for a block-hash mismatch is open: the
  walk that meets a broken hash chain opens one (or finds one open) and stops.
\<close>

theorem cycle_records_all:
  assumes "Cycle K E now cfg F i fb s = (Inr (fb', Inr ()), t)" "fe_LatestBlock F = Inr latest"
    and "resolveCursor now cfg F fb (bk_Height latest) s = (Inr (fb', Inr (nxt, hash)), s1)"
  shows "mismatchOpen (sc_ChainID cfg) t \<or>
    (\<forall>h. nxt \<le> h \<and> h \<le> bk_Height latest \<longrightarrow>
       (\<exists>bp. servedParse K cfg F s1 h = Inr bp \<and> recorded bp (recordPolicy cfg) t)) \<and>
    (nxt \<le> bk_Height latest \<longrightarrow> (\<exists>bp. servedParse K cfg F s1 (bk_Height latest) = Inr bp \<and>
       find (\<lambda>c. cp_ChainID c = sc_ChainID cfg) (t_checkpoints t) = Some (blockCheckpoint now bp (recordPolicy cfg))))"
proof -
  have same: "\<not> (bk_ChainID latest \<noteq> [] \<and> bk_ChainID latest \<noteq> sc_ChainID cfg)"
    using assms(1,2) by (auto simp: Cycle_def bindE_def tryE_run wrongChain_def thenE_def throw_def split: sum.splits prod.splits if_splits)
  let ?scan = "bindE (scanLoop (scanFuel (bk_Height latest)) K now cfg F i (bk_Height latest) nxt hash)
    (\<lambda>tip. if tip then processPending E now cfg (bk_Height latest) else ret ())"
  have "?scan s1 = (Inr (), t)"
    using assms same by (cases "?scan s1") (auto simp: Cycle_def bindE_ok_iff [of "resolveCursor now cfg F fb (bk_Height latest)"]
        bindE_ok_iff [of "tryE ?scan"] tryE_run)
  then obtain tip u where scan: "scanLoop (scanFuel (bk_Height latest)) K now cfg F i (bk_Height latest) nxt hash s1 = (Inr tip, u)"
    and rest: "(if tip then processPending E now cfg (bk_Height latest) else ret ()) u = (Inr (), t)"
    by (auto simp: bindE_ok_iff)
  show ?thesis
  proof (cases tip)
    case False
    then show ?thesis using scanLoop_broken scan rest by auto
  next
    case True
    then have walk: "scanLoop (scanFuel (bk_Height latest)) K now cfg F i (bk_Height latest) nxt hash s1 = (Inr True, u)"
      using scan by simp
    have gr: "grows u t" "t_checkpoints t = t_checkpoints u"
      using True rest staysD [OF grows_processPending] staysD [OF checkpoints_processPending] by (auto simp: same_checkpoints_def)
    have "\<exists>bp. servedParse K cfg F s1 h = Inr bp \<and> recorded bp (recordPolicy cfg) t"
      if "nxt \<le> h" "h \<le> bk_Height latest" for h
      using scanLoop_tip [OF walk that] grows_done(5) [OF gr(1)] by blast
    then show ?thesis using scanLoop_checkpoint [OF walk] gr(2) by auto
  qed
qed

theorem cycle_records_all_witness:
  "fe_LatestBlock dx_feed = Inr (dx_block 7) \<and>
   (mismatchOpen (sc_ChainID dx_cfg) dx_s2 \<or> recorded (dx_parse 7) (recordPolicy dx_cfg) dx_s2)"
proof -
  have latest: "fe_LatestBlock dx_feed = Inr (dx_block 7)" by (simp add: dx_feed_def)
  have seven: "bk_Height (dx_block 7) = 7" by (simp add: dx_block_def)
  have "servedParse dx_codec dx_cfg dx_feed dx_s0 7 = Inr (dx_parse 7)" by (simp add: dx_served)
  then show ?thesis
    using cycle_records_all [OF dx_cycle latest, unfolded seven, OF dx_cursor] latest by auto
qed

text \<open>Enough rounds for the loop to return: its height goes up with every one.\<close>

lemma scanRounds_returns:
  assumes "lt \<noteq> - 1" "0 < n" "unat lt + 2 \<le> n + unat h"
  shows "\<exists>r. scanRounds n K now cfg F i lt h e s = Some r \<and> scanLoop n K now cfg F i lt h e s = r"
  using assms(2,3)
proof (induction n arbitrary: h e s)
  case (Suc n)
  show ?case
  proof (cases "h \<le> lt")
    case True
    have "h \<noteq> - 1" using True assms(1) by (metis word_order.extremum_uniqueI)
    then have "1 + h \<noteq> 0" by (metis add.commute add_eq_0_iff2)
    then have up: "unat (h + 1) = unat h + 1" using unatSuc [of h] by (simp add: add.commute)
    have "unat h \<le> unat lt" using True by (simp add: word_le_nat_alt)
    then have "0 < n" "unat lt + 2 \<le> n + unat (h + 1)" using Suc.prems up by simp_all
    note IH = Suc.IH [OF this]
    show ?thesis
      using IH by (auto simp: True bindE_def thenE_def split: prod.split sum.split)
  qed simp
qed simp

lemma scanRounds_mono: "scanRounds n K now cfg F i lt h e s = Some r \<Longrightarrow> scanRounds (n + m) K now cfg F i lt h e s = Some r"
proof (induction n arbitrary: h e s)
  case (Suc n)
  then show ?case by (auto split: prod.splits sum.splits if_splits)
qed simp

text \<open>
  C38.  The walk ends: after as many tests of its condition as \<open>scanFuel\<close> says, the loop
  of the code has returned (\<open>Some\<close>), with the result the model's cycle continues
  with, so the error value for exhausted fuel is never produced; watching it longer
  gives the same result.  The one height the statement leaves out is the greatest
  \<open>uint64\<close>, where the loop variable wraps.
\<close>

theorem scan_terminates:
  assumes "latest \<noteq> - 1"
  shows "\<exists>r. (\<forall>m. scanRounds (scanFuel latest + m) K now cfg F i latest h e s = Some r) \<and>
    scanLoop (scanFuel latest) K now cfg F i latest h e s = r"
proof -
  obtain r where "scanRounds (scanFuel latest) K now cfg F i latest h e s = Some r" "scanLoop (scanFuel latest) K now cfg F i latest h e s = r"
    using scanRounds_returns [OF assms, of "scanFuel latest" h K now cfg F i e s] by (auto simp: scanFuel_def)
  then show ?thesis using scanRounds_mono by blast
qed

theorem scan_terminates_witness:
  "(7 :: uint64) \<noteq> - 1 \<and>
   scanRounds (scanFuel 7 + 5) dx_codec 100 dx_cfg dx_feed [] 7 7 (hexUpper [6]) dx_s0 = Some (Inr True, dx_s1)"
  using scan_terminates [of 7 dx_codec 100 dx_cfg dx_feed "[]" 7 "hexUpper [6]" dx_s0] dx_scan [of "[]"] by auto

text \<open>
  The confirmation count is the number of blocks from the deposit's block to
  the tip, both included, with no wrap-around below the greatest \<open>uint64\<close>; a
  deposit above the tip has none.
\<close>

theorem confirmation_count_exact:
  assumes "latest \<noteq> - 1"
  shows "unat (ConfirmationCount latest block) = Suc (unat latest) - unat block"
proof (cases "latest < block")
  case True
  then show ?thesis by (simp add: ConfirmationCount_def word_less_nat_alt)
next
  case False
  then have le: "block \<le> latest" by simp
  have "latest - block \<noteq> - 1"
    using assms le by (metis add_diff_cancel_left' diff_add_cancel word_sub_le word_order.extremum_uniqueI)
  then have "unat (1 + (latest - block)) = Suc (unat (latest - block))" using unatSuc by (metis add_eq_0_iff)
  moreover have "ConfirmationCount latest block = 1 + (latest - block)" using False by (simp add: ConfirmationCount_def)
  ultimately show ?thesis using le by (simp add: unat_sub Suc_diff_le word_le_nat_alt)
qed

theorem confirmation_count_exact_witness: "(9 :: uint64) \<noteq> - 1 \<and> unat (ConfirmationCount 9 7) = 3"
  using confirmation_count_exact [of 9 7] by simp

section \<open>Where the orphan handling stops\<close>

text \<open>
  A revived deposit keeps the height of the block that was orphaned: when a
  transfer comes back in another block, the row goes through
  \<open>ORPHANED\<close> to \<open>DISCOVERED\<close> and on with its old block height, so its
  confirmations are counted from the old height.
\<close>

theorem revived_height_stale:
  assumes "credit_inv s" "d \<in> set (t_deposits s)" "depositKey d = candidateKey pol c" "d_Status d = DepositOrphaned"
    and run: "recordDeposit now bp c pol s = (Inr out, t)"
  shows "do_revived out = 1 \<and> (\<exists>x \<in> set (t_deposits t). depositKey x = candidateKey pol c) \<and>
    (\<forall>x \<in> set (t_deposits t). depositKey x = candidateKey pol c \<longrightarrow> d_BlockHeight x = d_BlockHeight d)"
proof -
  have "distinct (map depositKey (t_deposits s))" using assms(1) by (simp add: credit_inv_def store_uniq_def uniq_deposits_def)
  from find_key_distinct [OF this assms(2,3)] have "do_revived out = 1"
    using run assms(4) by (auto simp: recordDeposit_run routeDeposit_def Let_def thenE_ok_iff noDepositOutcome_def split: if_splits)
  have "cycle_rel 0 0 s t" by (rule staysD [OF cycle_recordDeposit run])
  then have t: "credit_inv t" "keeps_deposits s t" using assms(1) by (auto simp: inv_rel_def cycle_step_def)
  then obtain x where x: "x \<in> set (t_deposits t)" "depositKey x = candidateKey pol c" "d_BlockHeight x = d_BlockHeight d"
    using assms(2,3) unfolding keeps_deposits_def same_deposit_def by metis
  moreover have "distinct (map depositKey (t_deposits t))" using t(1) by (simp add: credit_inv_def store_uniq_def uniq_deposits_def)
  ultimately show ?thesis using \<open>do_revived out = 1\<close> distinct_map_inj by metis
qed

theorem revived_height_stale_witness:
  "\<exists>out t. recordDeposit 100 ((dx_parse 7)\<lparr>bp_Height := 9\<rparr>) (dx_row 7) (recordPolicy dx_cfg)
        (empty_store\<lparr>t_deposits := [dx_dep DepositOrphaned None]\<rparr>) = (Inr out, t) \<and>
     (\<exists>x \<in> set (t_deposits t). d_BlockHeight x = 7)"
proof -
  let ?s = "empty_store\<lparr>t_deposits := [dx_dep DepositOrphaned None]\<rparr>" and ?pol = "recordPolicy dx_cfg"
  let ?bp = "(dx_parse 7)\<lparr>bp_Height := 9\<rparr>"
  have inv: "credit_inv ?s"
    by (simp add: credit_inv_def empty_store_def store_uniq_def uniq_withdrawals_def uniq_sequences_def
      uniq_sweeps_def activeSweeps_def uniq_deposits_def uniq_ledger_def uniq_outbox_def credited_def dx_dep_def)
  have key: "depositKey (dx_dep st ca) = candidateKey ?pol (dx_row 7)" for st ca
    by (simp add: depositKey_def candidateKey_def dx_dep_def dx_row_def recordPolicy_def dx_cfg_def)
  have "candidateOk ?pol (dx_row 7)"
    by (simp add: candidateOk_def recordPolicy_def dx_cfg_def dx_row_def BaseDenom_def)
  moreover have "d_ID (dx_dep DepositOrphaned None) = 1" "d_Status (dx_dep DepositOrphaned None) = DepositOrphaned"
    by (simp_all add: dx_dep_def)
  moreover have "\<not> belowMinimum ?pol (tc_AmountBaseUnits (dx_row 7))" "tc_TxCode (dx_row 7) = 0" "tc_ReviewReason (dx_row 7) = []"
    by (simp_all add: belowMinimum_def minimumSet_def recordPolicy_def dx_cfg_def dx_row_def)
  ultimately have run: "recordDeposit 100 ?bp (dx_row 7) ?pol ?s =
      (Inr (noDepositOutcome\<lparr>do_revived := 1\<rparr>), ?s\<lparr>t_deposits := [dx_dep DepositAwaitingConfirmations None]\<rparr>)"
    by (simp add: recordDeposit_run key thenE_def bindE_def dx_update routeDeposit_def)
  from revived_height_stale [OF inv _ key _ run] show ?thesis
    using run by (auto simp: dx_dep_def)
qed

text \<open>
  The orphan flow does not touch deposits that are suspended or under
  review, though the processing guide sends every pre-credited deposit of a
  replaced block to \<open>ORPHANED\<close>: such a row is in the store afterwards exactly as
  it was.
\<close>

theorem parked_survive_orphan_flow:
  assumes "orphanFlow now cfg F i h e g s = (r, t)" "d \<in> set (t_deposits s)"
    and "d_Status d = DepositSuspended \<or> d_Status d = DepositReviewRequired"
  shows "d \<in> set (t_deposits t)"
  using staysD [OF parked_orphanFlow assms(1)] assms(2,3) by (auto simp: keeps_parked_def)

theorem parked_survive_orphan_flow_witness:
  "\<exists>t. orphanFlow 100 dx_cfg dx_feed ''id'' 8 [] [] (empty_store\<lparr>t_deposits := [dx_dep DepositSuspended None]\<rparr>) = (Inr (), t) \<and>
     mismatchOpen (sc_ChainID dx_cfg) t \<and> dx_dep DepositSuspended None \<in> set (t_deposits t)"
proof -
  let ?s = "empty_store\<lparr>t_deposits := [dx_dep DepositSuspended None]\<rparr>"
  have "\<exists>t. orphanFlow 100 dx_cfg dx_feed ''id'' 8 [] [] ?s = (Inr (), t)"
    by (simp add: orphanFlow_def openChainReviewOnce_def chainReviewRepo_ListOpen_def chainReviewRepo_Open_def
        orphanedStatuses_def depositRepo_ListByStatus_def limit_rows_def checkpointRepo_Set_def thenE_def bindE_def run_defs
        empty_store_def dx_cfg_def dx_feed_def dx_block_def dx_dep_def Let_def enum_defs)
  then obtain t where t: "orphanFlow 100 dx_cfg dx_feed ''id'' 8 [] [] ?s = (Inr (), t)" by blast
  moreover have "dx_dep DepositSuspended None \<in> set (t_deposits t)"
    by (rule parked_survive_orphan_flow [OF t]) (simp_all add: dx_dep_def)
  ultimately show ?thesis using orphanFlow_open [OF t] by blast
qed

end
