(* ===== verification/Sweeps_Plan.thy ===== *)
theory Sweeps_Plan
  imports Withdrawals
begin

text \<open>
  \<open>go/sweeps/engine.go\<close>, \<open>sweeps.go\<close> and \<open>plan.go\<close>: the configuration of the sweep
  engine, the fee estimate, the reservation helpers and the planning pass that
  turns balances into sweep jobs.  The package's \<open>decimal\<close> is the one of
  \<open>withdrawals/fees.go\<close>, copied, so the theory \<open>Fees\<close> serves both.  The signer is
  optional, as in the code.  Reasons that are only logged are not modelled.
\<close>

section \<open>Configuration\<close>

record EngineConfig =
  ec_ChainID :: string
  ec_Strategy :: SweepStrategy
  ec_HotWallet :: string
  ec_MinimumSweepAmountUsovr :: string
  ec_MaximumFeePercentageForSweep :: string
  ec_FeeReserveUsovr :: string
  ec_FeeWalletMaxSpendUsovr :: string
  ec_FeeWalletSpendWindowBlocks :: uint64
  ec_GasAdjustment :: string
  ec_GasPriceUsovr :: string
  ec_SimulateUnavailable :: SimulatePolicy
  ec_StaticGasLimit :: uint64
  ec_BroadcastTimeout :: time
  ec_Confirmations :: uint64
  ec_KeyRefForSource :: "(string \<Rightarrow> string) option"

record parsedEngineConfig =
  pe_minSweep :: int
  pe_maxFeePct :: decimal
  pe_feeReserve :: int
  pe_feeWalletMaxSpend :: int
  pe_gasAdj :: decimal
  pe_gasPrice :: decimal

text \<open>The optional cap: zero when the text is empty or \<open>0\<close>.\<close>

definition parseSpendCap :: "lib \<Rightarrow> EngineConfig \<Rightarrow> err + int" where
  "parseSpendCap L c = (let t = ec_FeeWalletMaxSpendUsovr c in
     if t = [] \<or> t = ''0'' then Inr 0
     else case parseBaseUnits L t of Inl e \<Rightarrow> Inl e | Inr n \<Rightarrow>
       if ec_FeeWalletSpendWindowBlocks c = 0
       then Inl (ErrOther ''fee_wallet_spend_window_blocks must be > 0'') else Inr n)"

definition parseEngineConfig :: "lib \<Rightarrow> EngineConfig \<Rightarrow> err + parsedEngineConfig" where
  "parseEngineConfig L c =
     (if ec_ChainID c = [] then Inl (ErrOther ''chain ID required'')
      else if \<not> enumValid (ec_Strategy c) AllSweepStrategies then Inl (ErrOther ''strategy'')
      else if ec_Strategy c \<noteq> StrategyCustodyAbstract \<and> ec_HotWallet c = [] then Inl (ErrOther ''hot_wallet required'')
      else case parseBaseUnits L (ec_MinimumSweepAmountUsovr c) of Inl e \<Rightarrow> Inl e | Inr mn \<Rightarrow>
      case parseDecimal (ec_MaximumFeePercentageForSweep c) of Inl e \<Rightarrow> Inl e | Inr pct \<Rightarrow>
      case parseBaseUnits L (ec_FeeReserveUsovr c) of Inl e \<Rightarrow> Inl e | Inr rsv \<Rightarrow>
      case parseSpendCap L c of Inl e \<Rightarrow> Inl e | Inr cap \<Rightarrow>
      let p = \<lparr>pe_minSweep = mn, pe_maxFeePct = pct, pe_feeReserve = rsv, pe_feeWalletMaxSpend = cap,
               pe_gasAdj = \<lparr>dec_num = 0, dec_den = 0\<rparr>, pe_gasPrice = \<lparr>dec_num = 0, dec_den = 0\<rparr>\<rparr> in
      if ec_Strategy c = StrategyCustodyAbstract then Inr p
      else case parseDecimal (ec_GasAdjustment c) of Inl e \<Rightarrow> Inl e | Inr adj \<Rightarrow>
      if decimal_isZero adj then Inl (ErrOther ''gas_adjustment must be positive'')
      else case parseDecimal (ec_GasPriceUsovr c) of Inl e \<Rightarrow> Inl e | Inr price \<Rightarrow>
      case ec_SimulateUnavailable c of
        SimulatePolicyOther x \<Rightarrow> Inl (ErrOther ''simulate_unavailable'')
      | pol \<Rightarrow>
        if pol = SimulateStatic \<and> ec_StaticGasLimit c = 0 then Inl (ErrOther ''static_gas_limit required'')
        else if ec_Confirmations c = 0 then Inl (ErrOther ''confirmations must be at least 1'')
        else Inr (p\<lparr>pe_gasAdj := adj, pe_gasPrice := price\<rparr>))"

record Engine =
  en_cfg :: EngineConfig
  en_pcfg :: parsedEngineConfig

definition newEngine :: "lib \<Rightarrow> EngineConfig \<Rightarrow> err + Engine" where
  "newEngine L cfg = (case parseEngineConfig L cfg of Inl e \<Rightarrow> Inl e
     | Inr pcfg \<Rightarrow> Inr \<lparr>en_cfg = (if ec_BroadcastTimeout cfg \<le> 0 then cfg\<lparr>ec_BroadcastTimeout := 15 * 10 ^ 9\<rparr> else cfg),
                         en_pcfg = pcfg\<rparr>)"

abbreviation en_chain :: "Engine \<Rightarrow> string" where
  "en_chain E \<equiv> ec_ChainID (en_cfg E)"

section \<open>Identities\<close>

definition fundingIdemPrefix :: string where "fundingIdemPrefix = ''FEEFUND:''"

definition IdempotencyKey :: "string \<Rightarrow> string \<Rightarrow> int \<Rightarrow> uint64 \<Rightarrow> string" where
  "IdempotencyKey chainID source balance height =
     ''SWEEP:'' @ chainID @ '':'' @ source @ '':'' @ show_int balance @ '':'' @ show_u64 height"

definition FundingIdempotencyKey :: "string \<Rightarrow> string \<Rightarrow> string \<Rightarrow> string" where
  "FundingIdempotencyKey chainID feeWallet parentSweepID =
     fundingIdemPrefix @ chainID @ '':'' @ feeWallet @ '':'' @ parentSweepID"

definition IsFundingJob :: "SweepJob \<Rightarrow> bool" where
  "IsFundingJob j \<longleftrightarrow> take (length fundingIdemPrefix) (j_IdempotencyKey j) = fundingIdemPrefix"

text \<open>A Go string is its bytes; the characters of a key are single bytes here.\<close>

definition stringBytes :: "string \<Rightarrow> bytes" where
  "stringBytes s = map (\<lambda>c. of_nat (of_char c)) s"

definition sweepIDFor :: "string \<Rightarrow> string" where
  "sweepIDFor idempotencyKey = ''SWP-'' @ hexUpper (take 8 (Sum256 (stringBytes idempotencyKey)))"

definition fundingSweepID :: "string \<Rightarrow> string" where
  "fundingSweepID parentSweepID = ''FUND-'' @ parentSweepID"

definition feeWithinPercentage :: "int \<Rightarrow> int \<Rightarrow> decimal \<Rightarrow> bool" where
  "feeWithinPercentage fee amount pct \<longleftrightarrow> fee * 100 * dec_den pct \<le> amount * dec_num pct"

definition destination :: "SweepJob \<Rightarrow> string" where
  "destination j = j_HotWalletAddress j"

definition reserveFor :: "Engine \<Rightarrow> SweepJob \<Rightarrow> int" where
  "reserveFor E j = (if \<not> IsFundingJob j \<and> j_Strategy j = StrategyFeeReserve then pe_feeReserve (en_pcfg E) else 0)"

section \<open>The fee estimate\<close>

definition engine_keyRef :: "Engine \<Rightarrow> string \<Rightarrow> string" where
  "engine_keyRef E source = (case ec_KeyRefForSource (en_cfg E) of Some f \<Rightarrow> f source | None \<Rightarrow> source)"

definition engine_senderPubKey :: "Engine \<Rightarrow> signer option \<Rightarrow> string \<Rightarrow> err + bytes" where
  "engine_senderPubKey E sg source = (case sg of
      None \<Rightarrow> Inl ErrNoSigner
    | Some g \<Rightarrow> (case sg_GetPublicKey g (engine_keyRef E source) of
        Inl e \<Rightarrow> if e = SignerErr CodeSignerUnavailable then Inl ErrSignerUnavailable else Inl e
      | Inr k \<Rightarrow> Inr k))"

definition engine_simulationTxBytes ::
    "lib \<Rightarrow> Engine \<Rightarrow> signer option \<Rightarrow> string \<Rightarrow> string \<Rightarrow> int \<Rightarrow> uint64 \<Rightarrow> uint64 \<Rightarrow> err + bytes" where
  "engine_simulationTxBytes L E sg source dest amount accountNumber sequence =
     (case BuildMsgSend L source dest (show_int amount) [] of Inl e \<Rightarrow> Inl e | Inr utx \<Rightarrow>
      case engine_senderPubKey E sg source of Inl e \<Rightarrow> Inl e | Inr pubKey \<Rightarrow>
      let provisionalGas = (if ec_StaticGasLimit (en_cfg E) = 0 then 200000 else ec_StaticGasLimit (en_cfg E)) in
      case SignDoc L utx (en_chain E) accountNumber sequence
             \<lparr>fee_AmountBaseUnits = ''0'', fee_GasLimit = provisionalGas\<rparr> pubKey of
        Inl e \<Rightarrow> Inl e
      | Inr (signDocBytes, _, _) \<Rightarrow>
        case UnmarshalSignDoc L signDocBytes of None \<Rightarrow> Inl (ErrOther ''unmarshal'') | Some doc \<Rightarrow>
        case MarshalTxRaw L (sd_BodyBytes doc) (sd_AuthInfoBytes doc) [[]] of
          None \<Rightarrow> Inl (ErrOther ''marshal'') | Some b \<Rightarrow> Inr b)"

text \<open>The gas limit from the simulation's answer.\<close>

definition engineGas :: "Engine \<Rightarrow> err + SimulateResult \<Rightarrow> err + uint64" where
  "engineGas E simRes = (case simRes of
      Inr r \<Rightarrow> if sm_GasUsed r = 0 then Inl (ErrOther ''simulation returned zero gas'')
               else ceilMulU64 (pe_gasAdj (en_pcfg E)) (sm_GasUsed r)
    | Inl e \<Rightarrow>
        if e = ClientErrSimulateUnavailable then
          (if ec_SimulateUnavailable (en_cfg E) = SimulateQueue then Inl ErrSimulationUnavailable
           else Inr (ec_StaticGasLimit (en_cfg E)))
        else Inl e)"

definition estimateFee ::
    "lib \<Rightarrow> Engine \<Rightarrow> chain \<Rightarrow> signer option \<Rightarrow> string \<Rightarrow> string \<Rightarrow> int \<Rightarrow> uint64 \<Rightarrow> uint64 \<Rightarrow> err + (int \<times> uint64)" where
  "estimateFee L E ch sg source dest amount accountNumber sequence =
     (case engine_simulationTxBytes L E sg source dest amount accountNumber sequence of Inl e \<Rightarrow> Inl e | Inr simBytes \<Rightarrow>
      case engineGas E (ch_Simulate ch simBytes) of Inl e \<Rightarrow> Inl e | Inr gasLimit \<Rightarrow>
      Inr (ceilMulBig (pe_gasPrice (en_pcfg E)) (uint gasLimit), gasLimit))"

section \<open>Reservations of a sweep\<close>

abbreviation sweepRef :: "string \<Rightarrow> WorkRef" where
  "sweepRef sweepID \<equiv> WorkRef WorkSweep sweepID"

text \<open>A lost optimistic race counts as done.\<close>

definition tolerateConflict :: "(store, unit) prog \<Rightarrow> (store, unit) prog" where
  "tolerateConflict m = bindE (tryE m) (\<lambda>u. case u of
      Inl e \<Rightarrow> if e = ErrStatusConflict then ret () else throw e
    | Inr _ \<Rightarrow> ret ())"

definition releaseUnsignedReservation :: "time \<Rightarrow> string \<Rightarrow> (store, unit) prog" where
  "releaseUnsignedReservation now sweepID =
     bindE (tryE (sequenceRepo_GetByWorkRef (sweepRef sweepID))) (\<lambda>g. case g of
       Inl e \<Rightarrow> if e = ErrNotFound then ret () else throw e
     | Inr res \<Rightarrow> if r_Status res \<noteq> SequenceReserved then ret ()
                  else tolerateConflict (sequenceRepo_UpdateStatus now (r_ID res) SequenceReserved SequenceReleased))"

definition engine_quarantineReservation :: "time \<Rightarrow> string \<Rightarrow> SequenceReservationStatus \<Rightarrow> (store, unit) prog" where
  "engine_quarantineReservation now sweepID from =
     bindE (sequenceRepo_GetByWorkRef (sweepRef sweepID)) (\<lambda>res.
     if r_Status res = SequenceReconciliationRequired \<or> r_Status res = SequenceConsumed then ret ()
     else tolerateConflict (sequenceRepo_UpdateStatus now (r_ID res) from SequenceReconciliationRequired))"

definition engine_advanceReservation ::
    "time \<Rightarrow> string \<Rightarrow> SequenceReservationStatus \<Rightarrow> SequenceReservationStatus \<Rightarrow> (store, unit) prog" where
  "engine_advanceReservation now sweepID from to =
     bindE (sequenceRepo_GetByWorkRef (sweepRef sweepID)) (\<lambda>res.
     if r_Status res = to then ret ()
     else tolerateConflict (sequenceRepo_UpdateStatus now (r_ID res) from to))"

definition engine_consumeReservation :: "time \<Rightarrow> string \<Rightarrow> (store, unit) prog" where
  "engine_consumeReservation now sweepID =
     bindE (sequenceRepo_GetByWorkRef (sweepRef sweepID)) (\<lambda>res.
     if r_Status res = SequenceConsumed then ret ()
     else if r_Status res = SequenceSigned \<or> r_Status res = SequenceBroadcast
          \<or> r_Status res = SequenceReconciliationRequired
     then tolerateConflict (sequenceRepo_UpdateStatus now (r_ID res) (r_Status res) SequenceConsumed)
     else throw ErrStatusConflict)"

definition deferJob :: "time \<Rightarrow> string \<Rightarrow> (store, 'a) prog" where
  "deferJob now sweepID =
     thenE (with_tx (thenE (sweepRepo_UpdateStatus now sweepID SweepPending SweepDeferred noSweepUpdate)
                           (releaseUnsignedReservation now sweepID)))
     (throw ErrDeferred)"

section \<open>Planning\<close>

text \<open>The amount (\<open>None\<close> is Go's nil \<open>Int\<close>) and the reason to defer, empty when there is none.\<close>

definition planAmount :: "Engine \<Rightarrow> int \<Rightarrow> int \<Rightarrow> int option \<times> string" where
  "planAmount E balance fee =
     (let check = (\<lambda>amount.
        if \<not> amount > 0 then (Some balance, ''balance cannot cover fee estimate and reserve'')
        else if amount < pe_minSweep (en_pcfg E)
          then (Some balance, ''swept amount would fall below minimum_sweep_amount_usovr'')
        else if \<not> feeWithinPercentage fee amount (pe_maxFeePct (en_pcfg E))
          then (Some amount, ''fee exceeds maximum_fee_percentage_for_sweep'')
        else (Some amount, [])) in
      case ec_Strategy (en_cfg E) of
        StrategyFeeFund \<Rightarrow> check balance
      | StrategyFeeReserve \<Rightarrow> check (balance - fee - pe_feeReserve (en_pcfg E))
      | StrategyThresholdOnly \<Rightarrow> check (balance - fee)
      | _ \<Rightarrow> (None, ''strategy plans no transaction''))"

definition planFeeMaxRounds :: nat where "planFeeMaxRounds = 8"

text \<open>\<open>for range planFeeMaxRounds\<close>, over an estimator of the fee of an amount.\<close>

primrec planFeeLoop ::
    "nat \<Rightarrow> Engine \<Rightarrow> (int \<Rightarrow> err + (int \<times> uint64)) \<Rightarrow> int \<Rightarrow> int \<Rightarrow> int option \<times> string \<Rightarrow>
     err + (int option \<times> int \<times> string)" where
  "planFeeLoop 0 E est balance fee plan =
     Inr (fst plan, fee, if snd plan = [] then ''fee estimate did not converge'' else snd plan)"
| "planFeeLoop (Suc n) E est balance fee plan =
     (if snd plan \<noteq> [] \<or> fst plan = Some balance then Inr (fst plan, fee, snd plan)
      else case fst plan of
        None \<Rightarrow> Inl (ErrOther ''nil amount'')
      | Some amount \<Rightarrow>
        (case est amount of
           Inl e \<Rightarrow> Inl e
         | Inr (refee, _) \<Rightarrow>
             if refee = fee then Inr (Some amount, fee, [])
             else planFeeLoop n E est balance refee (planAmount E balance refee)))"

definition planFeeAmount ::
    "lib \<Rightarrow> Engine \<Rightarrow> chain \<Rightarrow> signer option \<Rightarrow> string \<Rightarrow> string \<Rightarrow> int \<Rightarrow> uint64 \<Rightarrow> uint64 \<Rightarrow>
     err + (int option \<times> int \<times> string)" where
  "planFeeAmount L E ch sg source dest balance accountNumber sequence =
     (let est = (\<lambda>amount. estimateFee L E ch sg source dest amount accountNumber sequence) in
      case est balance of Inl e \<Rightarrow> Inl e | Inr (fee, _) \<Rightarrow>
      planFeeLoop planFeeMaxRounds E est balance fee (planAmount E balance fee))"

record PlanReport =
  pr_JobsCreated :: "string list"
  pr_JobsDeferred :: "string list"
  pr_CustodySwept :: int
  pr_Held :: "string \<Rightarrow> string option"

definition depositListLimit :: int where "depositListLimit = 500"

definition sweepableSources :: "Engine \<Rightarrow> (store, string list) prog" where
  "sweepableSources E = bindE (watchRepo_ListActive (en_chain E)) (\<lambda>watched.
     ret (map wa_Address (filter (\<lambda>w. (wa_Kind w = WatchCustomerDeposit \<or> wa_Kind w = WatchOmnibus)
       \<and> wa_Address w \<noteq> ec_HotWallet (en_cfg E)) watched)))"

definition depositIDsByRecipient :: "Engine \<Rightarrow> DepositStatus \<Rightarrow> (store, string \<Rightarrow> int list) prog" where
  "depositIDsByRecipient E status = bindE (depositRepo_ListByStatus (en_chain E) status depositListLimit) (\<lambda>recs.
     ret (\<lambda>recipient. map d_ID (filter (\<lambda>d. d_RecipientAddress d = recipient) recs)))"

definition depositBacklog :: "Engine \<Rightarrow> (store, (string \<Rightarrow> int list) \<times> (string \<Rightarrow> int list)) prog" where
  "depositBacklog E = bindE (depositIDsByRecipient E DepositCredited) (\<lambda>credited.
     bindE (depositIDsByRecipient E DepositSweepPending) (\<lambda>sweepPending. ret (credited, sweepPending)))"

definition newSweepJob :: "Engine \<Rightarrow> time \<Rightarrow> string \<Rightarrow> int \<Rightarrow> int \<Rightarrow> uint64 \<Rightarrow> int list \<Rightarrow> SweepJob" where
  "newSweepJob E now source balance amount height coveredIDs =
     (let idem = IdempotencyKey (en_chain E) source balance height in
      \<lparr>j_SweepID = sweepIDFor idem, j_IdempotencyKey = idem, j_ChainID = en_chain E, j_SourceAddress = source,
       j_HotWalletAddress = ec_HotWallet (en_cfg E), j_Strategy = ec_Strategy (en_cfg E), j_AmountBaseUnits = amount,
       j_FeeReserveBaseUnits = pe_feeReserve (en_pcfg E), j_DepositIDs = coveredIDs, j_SignedTxBytes = [],
       j_TxHash = None, j_TxCode = None, j_Status = SweepStatusOther [], j_CreatedAt = now, j_UpdatedAt = now\<rparr>)"

definition coverDeposit :: "time \<Rightarrow> int \<Rightarrow> (store, unit) prog" where
  "coverDeposit now i = bindE (depositRepo_GetByID i) (\<lambda>d.
     if d_Status d \<noteq> DepositCredited then ret ()
     else depositRepo_UpdateStatus now i DepositCredited DepositSweepPending noDepositUpdate)"

definition createJobTx :: "time \<Rightarrow> SweepJob \<Rightarrow> (store, unit) prog" where
  "createJobTx now j = with_tx (thenE (sweepRepo_Create now j) (forE (j_DepositIDs j) (coverDeposit now)))"

text \<open>The new job's identifier and whether it was deferred at once.\<close>

definition createJob ::
    "lib \<Rightarrow> Engine \<Rightarrow> time \<Rightarrow> chain \<Rightarrow> signer option \<Rightarrow> string \<Rightarrow> int \<Rightarrow> uint64 \<Rightarrow> int list \<Rightarrow> (store, string \<times> bool) prog" where
  "createJob L E now ch sg source balance height coveredIDs =
     bindE (liftR (ch_Account ch source)) (\<lambda>(accountNumber, sequence).
     bindE (liftR (planFeeAmount L E ch sg source (ec_HotWallet (en_cfg E)) balance accountNumber sequence))
       (\<lambda>(planned, _, deferReason).
     let amount = (case planned of None \<Rightarrow> balance | Some a \<Rightarrow> if a > 0 then a else balance);
         j = newSweepJob E now source balance amount height coveredIDs in
     thenE (createJobTx now j)
       (if deferReason \<noteq> [] then
          bindE (tryE (deferJob now (j_SweepID j))) (\<lambda>r :: err + unit. case r of
            Inl e \<Rightarrow> if e = ErrDeferred then ret (j_SweepID j, True) else throw e
          | Inr _ \<Rightarrow> ret (j_SweepID j, True))
        else ret (j_SweepID j, False))))"

definition custodySettle :: "time \<Rightarrow> int list \<Rightarrow> int list \<Rightarrow> (store, int) prog" where
  "custodySettle now creditedIDs sweepPendingIDs =
     (if creditedIDs = [] \<and> sweepPendingIDs = [] then ret 0
      else thenE (with_tx (thenE
          (forE creditedIDs (\<lambda>i. thenE
             (depositRepo_UpdateStatus now i DepositCredited DepositSweepPending noDepositUpdate)
             (depositRepo_UpdateStatus now i DepositSweepPending DepositSwept noDepositUpdate)))
          (forE sweepPendingIDs (\<lambda>i. tolerateConflict
             (depositRepo_UpdateStatus now i DepositSweepPending DepositSwept noDepositUpdate)))))
        (ret (int (length creditedIDs + length sweepPendingIDs))))"

definition hold :: "PlanReport \<Rightarrow> string \<Rightarrow> string \<Rightarrow> PlanReport" where
  "hold rep source reason = rep\<lparr>pr_Held := (pr_Held rep)(source \<mapsto> reason)\<rparr>"

text \<open>One source of the loop in \<open>Plan\<close>.\<close>

definition planSource ::
    "lib \<Rightarrow> Engine \<Rightarrow> time \<Rightarrow> chain \<Rightarrow> signer option \<Rightarrow> uint64 \<Rightarrow> (string \<Rightarrow> int list) \<Rightarrow> (string \<Rightarrow> int list) \<Rightarrow>
     PlanReport \<Rightarrow> string \<Rightarrow> (store, PlanReport) prog" where
  "planSource L E now ch sg height credited sweepPending rep source =
     (if ec_Strategy (en_cfg E) = StrategyCustodyAbstract then
        bindE (custodySettle now (credited source) (sweepPending source)) (\<lambda>n.
        ret (rep\<lparr>pr_CustodySwept := pr_CustodySwept rep + n\<rparr>))
      else bindE (tryE (sweepRepo_GetActive (en_chain E) source)) (\<lambda>g. case g of
        Inr _ \<Rightarrow> ret (hold rep source ''active sweep exists'')
      | Inl e \<Rightarrow>
        if e \<noteq> ErrNotFound then throw e
        else bindE (liftR (ch_Balance ch source BaseDenom)) (\<lambda>balance.
        if balance < pe_minSweep (en_pcfg E)
        then ret (hold rep source ''balance below minimum_sweep_amount_usovr'')
        else bindE (tryE (createJob L E now ch sg source balance height (credited source @ sweepPending source)))
          (\<lambda>r. case r of
            Inl e \<Rightarrow>
              if e = ErrActiveSweepExists \<or> e = ErrDuplicate
              then ret (hold rep source ''duplicate or concurrent sweep creation'')
              else if e = ErrSimulationUnavailable then ret (hold rep source ''simulation unavailable'')
              else throw e
          | Inr (sweepID, deferred) \<Rightarrow>
              ret (if deferred then rep\<lparr>pr_JobsDeferred := pr_JobsDeferred rep @ [sweepID]\<rparr>
                   else rep\<lparr>pr_JobsCreated := pr_JobsCreated rep @ [sweepID]\<rparr>)))))"

text \<open>The loop: an error ends it, with the report as it stands.\<close>

primrec planSources ::
    "(PlanReport \<Rightarrow> string \<Rightarrow> (store, PlanReport) prog) \<Rightarrow> string list \<Rightarrow> PlanReport \<Rightarrow>
     (store, PlanReport \<times> err option) prog" where
  "planSources one [] rep = ret (rep, None)"
| "planSources one (source # sources) rep =
     bindE (tryE (one rep source)) (\<lambda>r. case r of
       Inl e \<Rightarrow> ret (rep, Some e)
     | Inr rep' \<Rightarrow> planSources one sources rep')"

definition emptyPlan :: PlanReport where
  "emptyPlan = \<lparr>pr_JobsCreated = [], pr_JobsDeferred = [], pr_CustodySwept = 0, pr_Held = Map.empty\<rparr>"

definition planHeight :: "Engine \<Rightarrow> chain \<Rightarrow> err + uint64" where
  "planHeight E ch = (if ec_Strategy (en_cfg E) = StrategyCustodyAbstract then Inr 0
     else case ch_NodeStatus ch of Inl e \<Rightarrow> Inl e | Inr status \<Rightarrow> Inr (ns_LatestHeight status))"

definition Plan :: "lib \<Rightarrow> Engine \<Rightarrow> time \<Rightarrow> chain \<Rightarrow> signer option \<Rightarrow> (store, PlanReport \<times> err option) prog" where
  "Plan L E now ch sg =
     bindE (tryE (bindE (controlsRepo_Get (en_chain E)) (\<lambda>controls.
       if oc_SweepPaused controls then throw ErrPaused
       else bindE (sweepableSources E) (\<lambda>sources.
       bindE (depositBacklog E) (\<lambda>(credited, sweepPending).
       bindE (liftR (planHeight E ch)) (\<lambda>height. ret (sources, credited, sweepPending, height))))))) (\<lambda>r. case r of
       Inl e \<Rightarrow> ret (emptyPlan, Some e)
     | Inr (sources, credited, sweepPending, height) \<Rightarrow>
         planSources (planSource L E now ch sg height credited sweepPending) sources emptyPlan)"

end
