(* ===== verification/Sweeps_Steps.thy ===== *)
theory Sweeps_Steps
  imports Sweeps_Plan
begin

text \<open>
  \<open>go/sweeps/steps.go\<close> and \<open>broadcast.go\<close>: from a planned job to signed bytes, the
  fee-wallet funding leg with its spend cap, cancellation and revisiting,
  broadcast, confirmation, recovery and the full pass.  A method that always
  ends in an error (\<open>cancelJob\<close>, \<open>deferJob\<close>) is a program of any result type.
\<close>

section \<open>Cancelling and deferring\<close>

definition terminateJob :: "time \<Rightarrow> SweepJob \<Rightarrow> (store, unit) prog" where
  "terminateJob now j =
     with_tx (thenE (sweepRepo_UpdateStatus now (j_SweepID j) (j_Status j) SweepCancelled noSweepUpdate)
                    (releaseUnsignedReservation now (j_SweepID j)))"

definition cancelJob :: "time \<Rightarrow> SweepJob \<Rightarrow> (store, 'a) prog" where
  "cancelJob now j = thenE (terminateJob now j) (throw (ErrOther ''cancelled''))"

definition deferOrCancel :: "time \<Rightarrow> SweepJob \<Rightarrow> (store, 'a) prog" where
  "deferOrCancel now j = (if j_Status j = SweepBuilt then cancelJob now j else deferJob now (j_SweepID j))"

section \<open>Economics and funding\<close>

definition economicsFailure :: "Engine \<Rightarrow> SweepJob \<Rightarrow> int \<Rightarrow> string" where
  "economicsFailure E j fee =
     (if IsFundingJob j then []
      else if j_AmountBaseUnits j < pe_minSweep (en_pcfg E) then ''amount below minimum_sweep_amount_usovr''
      else if \<not> feeWithinPercentage fee (j_AmountBaseUnits j) (pe_maxFeePct (en_pcfg E))
        then ''fee exceeds maximum_fee_percentage_for_sweep''
      else [])"

definition coverageFailure :: "Engine \<Rightarrow> SweepJob \<Rightarrow> int \<Rightarrow> int \<Rightarrow> string" where
  "coverageFailure E j balance fee =
     (if balance < j_AmountBaseUnits j + fee + reserveFor E j
      then ''balance '' @ show_int balance @ '' below amount '' @ show_int (j_AmountBaseUnits j)
           @ '' + fee '' @ show_int fee @ '' + reserve '' @ show_int (reserveFor E j)
      else [])"

definition feeWallet :: "Engine \<Rightarrow> (store, string) prog" where
  "feeWallet E = bindE (watchRepo_ListActive (en_chain E)) (\<lambda>watched.
     case find (\<lambda>w. wa_Kind w = WatchFeeWallet) watched of
       None \<Rightarrow> throw ErrNoFeeWallet | Some w \<Rightarrow> ret (wa_Address w))"

definition windowStart :: "uint64 \<Rightarrow> uint64 \<Rightarrow> uint64" where
  "windowStart height window = (if height \<ge> window then height - window + 1 else 0)"

definition inflightSpend :: "Engine \<Rightarrow> string \<Rightarrow> (store, int) prog" where
  "inflightSpend E wallet =
     bindE (tryE (sweepRepo_GetActive (en_chain E) wallet)) (\<lambda>g. case g of
       Inr j \<Rightarrow> ret (if IsFundingJob j then j_AmountBaseUnits j else 0)
     | Inl e \<Rightarrow> if e \<noteq> ErrNotFound then throw e else ret 0)"

definition feeFundingCapExceeded :: "Engine \<Rightarrow> chain \<Rightarrow> int \<Rightarrow> (store, bool \<times> int) prog" where
  "feeFundingCapExceeded E ch fee =
     (let maxSpend = pe_feeWalletMaxSpend (en_pcfg E) in
      if \<not> maxSpend > 0 then ret (False, 0)
      else bindE (feeWallet E) (\<lambda>wallet.
        bindE (liftR (ch_NodeStatus ch)) (\<lambda>status.
        let height = ns_LatestHeight status;
            from = windowStart height (ec_FeeWalletSpendWindowBlocks (en_cfg E)) in
        bindE (inflightSpend E wallet) (\<lambda>inflight.
        bindE (ledgerRepo_SumFeeFundingSpend (en_chain E) wallet from height) (\<lambda>recorded.
        let spent = inflight + recorded in
        ret (spent + fee > maxSpend, spent))))))"

definition fundingJob :: "time \<Rightarrow> SweepJob \<Rightarrow> string \<Rightarrow> string \<Rightarrow> int \<Rightarrow> SweepJob" where
  "fundingJob now parent fundingID wallet fee =
     \<lparr>j_SweepID = fundingID, j_IdempotencyKey = FundingIdempotencyKey (j_ChainID parent) wallet (j_SweepID parent),
      j_ChainID = j_ChainID parent, j_SourceAddress = wallet, j_HotWalletAddress = j_SourceAddress parent,
      j_Strategy = StrategyFeeFund, j_AmountBaseUnits = fee, j_FeeReserveBaseUnits = 0, j_DepositIDs = [],
      j_SignedTxBytes = [], j_TxHash = None, j_TxCode = None, j_Status = SweepStatusOther [],
      j_CreatedAt = now, j_UpdatedAt = now\<rparr>"

definition createFundingJob :: "Engine \<Rightarrow> time \<Rightarrow> SweepJob \<Rightarrow> string \<Rightarrow> int \<Rightarrow> (store, unit) prog" where
  "createFundingJob E now parent fundingID fee =
     bindE (feeWallet E) (\<lambda>wallet.
     bindE (tryE (sweepRepo_Create now (fundingJob now parent fundingID wallet fee))) (\<lambda>r. case r of
       Inl e \<Rightarrow> if e = ErrActiveSweepExists \<or> e = ErrDuplicate then throw ErrFundingPending else throw e
     | Inr _ \<Rightarrow> throw ErrFundingPending))"

definition checkFunding :: "Engine \<Rightarrow> time \<Rightarrow> chain \<Rightarrow> SweepJob \<Rightarrow> int \<Rightarrow> int \<Rightarrow> (store, unit) prog" where
  "checkFunding E now ch j balance fee =
     (if j_Strategy j \<noteq> StrategyFeeFund \<or> IsFundingJob j then ret ()
      else if balance \<ge> j_AmountBaseUnits j + fee then ret ()
      else let fundingID = fundingSweepID (j_SweepID j) in
        bindE (tryE (sweepRepo_Get fundingID)) (\<lambda>g. case g of
          Inl e \<Rightarrow>
            if e = ErrNotFound then
              bindE (feeFundingCapExceeded E ch fee) (\<lambda>(over, _).
              if over then deferOrCancel now j else createFundingJob E now j fundingID fee)
            else throw e
        | Inr fj \<Rightarrow>
            if j_Status fj = SweepConfirmed \<or> j_Status fj = SweepFailed \<or> j_Status fj = SweepCancelled
            then deferOrCancel now j
            else throw ErrFundingPending))"

section \<open>Signing\<close>

definition engine_summaryMismatch :: "SweepJob \<Rightarrow> SequenceReservation \<Rightarrow> int \<Rightarrow> SigningSummary \<Rightarrow> string" where
  "engine_summaryMismatch j res fee s =
     (case find (\<lambda>(field, doc, approved). doc \<noteq> approved)
        [(''chain_id'', ss_ChainID s, j_ChainID j),
         (''sender'', ss_SenderAddress s, j_SourceAddress j),
         (''recipient'', ss_RecipientAddress s, destination j),
         (''amount'', ss_AmountBaseUnits s, show_int (j_AmountBaseUnits j)),
         (''denom'', ss_Denom s, BaseDenom),
         (''memo'', ss_Memo s, []),
         (''fee'', ss_FeeBaseUnits s, show_int fee),
         (''sequence'', ss_Sequence s, show_u64 (r_Sequence res)),
         (''account_number'', ss_AccountNumber s, show_u64 (r_AccountNumber res)),
         (''message_type'', ss_MessageType s, MsgSendTypeURL)] of
        None \<Rightarrow> [] | Some (field, _, _) \<Rightarrow> field)"

definition quarantineUnsigned :: "time \<Rightarrow> SequenceReservation \<Rightarrow> (store, 'a) prog" where
  "quarantineUnsigned now res =
     bindE (tryE (sequenceRepo_UpdateStatus now (r_ID res) SequenceReserved SequenceReconciliationRequired))
       (\<lambda>_. throw ErrQuarantined)"

definition engine_signTx :: "time \<Rightarrow> string \<Rightarrow> bytes \<Rightarrow> string \<Rightarrow> int \<Rightarrow> (store, unit) prog" where
  "engine_signTx now sweepID signedTxBytes txHash reservationID =
     with_tx (thenE
       (sweepRepo_UpdateStatus now sweepID SweepBuilt SweepSigned
          (noSweepUpdate\<lparr>su_SignedTxBytes := Some signedTxBytes, su_TxHash := Some txHash\<rparr>))
       (sequenceRepo_UpdateStatus now reservationID SequenceReserved SequenceSigned))"

definition engine_signWith ::
    "lib \<Rightarrow> Engine \<Rightarrow> time \<Rightarrow> signer \<Rightarrow> SweepJob \<Rightarrow> SequenceReservation \<Rightarrow> UnsignedTx \<Rightarrow> bytes \<Rightarrow> SigningSummary \<Rightarrow>
     (store, unit) prog" where
  "engine_signWith L E now g j res utx signDocBytes summary =
     (case sg_Sign g \<lparr>sq_KeyRef = engine_keyRef E (j_SourceAddress j), sq_SignMode = SignModeDirect,
                      sq_SignDocBytes = signDocBytes, sq_Summary = summary\<rparr> of
        Inl e \<Rightarrow> if e = SignerErr CodeSignerUnavailable then throw ErrSignerUnavailable else quarantineUnsigned now res
      | Inr sigRes \<Rightarrow>
        (case VerifySignedResponse L signDocBytes sigRes (j_SourceAddress j) of
           Inl e \<Rightarrow> quarantineUnsigned now res
         | Inr _ \<Rightarrow>
           (case Assemble L utx sigRes of
              Inl e \<Rightarrow> quarantineUnsigned now res
            | Inr (signedTxBytes, txHash) \<Rightarrow> engine_signTx now (j_SweepID j) signedTxBytes txHash (r_ID res))))"

definition engine_sign ::
    "lib \<Rightarrow> Engine \<Rightarrow> time \<Rightarrow> signer \<Rightarrow> SweepJob \<Rightarrow> SequenceReservation \<Rightarrow> OperationalControls \<Rightarrow> int \<Rightarrow> uint64 \<Rightarrow>
     (store, unit) prog" where
  "engine_sign L E now g j res controls fee gasLimit =
     (if oc_SigningPaused controls then throw ErrPaused
      else case BuildMsgSend L (j_SourceAddress j) (destination j) (show_int (j_AmountBaseUnits j)) [] of
        Inl e \<Rightarrow> cancelJob now j
      | Inr utx \<Rightarrow>
        (case engine_senderPubKey E (Some g) (j_SourceAddress j) of
           Inl e \<Rightarrow> if e = ErrSignerUnavailable then throw e else quarantineUnsigned now res
         | Inr pubKey \<Rightarrow>
           (case SignDoc L utx (j_ChainID j) (r_AccountNumber res) (r_Sequence res)
                   \<lparr>fee_AmountBaseUnits = show_int fee, fee_GasLimit = gasLimit\<rparr> pubKey of
              Inl e \<Rightarrow> cancelJob now j
            | Inr (signDocBytes, summary, utx') \<Rightarrow>
                if engine_summaryMismatch j res fee summary \<noteq> [] then cancelJob now j
                else engine_signWith L E now g j res utx' signDocBytes summary)))"

text \<open>The part of \<open>Prepare\<close> that runs once the slot is reserved.\<close>

definition prepareReserved ::
    "lib \<Rightarrow> Engine \<Rightarrow> time \<Rightarrow> chain \<Rightarrow> signer \<Rightarrow> SweepJob \<Rightarrow> OperationalControls \<Rightarrow> SequenceReservation \<Rightarrow> (store, unit) prog" where
  "prepareReserved L E now ch g j controls res =
     (if r_Status res \<noteq> SequenceReserved then throw ErrQuarantined
      else bindE (liftR (ch_Balance ch (j_SourceAddress j) BaseDenom)) (\<lambda>balance.
        bindE (liftR (estimateFee L E ch (Some g) (j_SourceAddress j) (destination j) (j_AmountBaseUnits j)
                        (r_AccountNumber res) (r_Sequence res))) (\<lambda>(fee, gasLimit).
        if economicsFailure E j fee \<noteq> [] then deferOrCancel now j
        else thenE (checkFunding E now ch j balance fee)
          (if coverageFailure E j balance fee \<noteq> [] then deferOrCancel now j
           else thenE (if j_Status j = SweepPending
                       then sweepRepo_UpdateStatus now (j_SweepID j) SweepPending SweepBuilt noSweepUpdate else ret ())
             (engine_sign L E now g (j\<lparr>j_Status := SweepBuilt\<rparr>) res controls fee gasLimit)))))"

definition Prepare :: "lib \<Rightarrow> Engine \<Rightarrow> time \<Rightarrow> chain \<Rightarrow> signer option \<Rightarrow> string \<Rightarrow> (store, unit) prog" where
  "Prepare L E now ch sg sweepID =
     bindE (sweepRepo_Get sweepID) (\<lambda>j.
     if j_Status j \<noteq> SweepPending \<and> j_Status j \<noteq> SweepBuilt then throw ErrStatusConflict
     else bindE (controlsRepo_Get (en_chain E)) (\<lambda>controls.
     if oc_SweepPaused controls then throw ErrPaused
     else case sg of
       None \<Rightarrow> throw ErrNoSigner
     | Some g \<Rightarrow>
       bindE (tryE (Manager_Reserve now ch (j_ChainID j) (j_SourceAddress j) (sweepRef (j_SweepID j)))) (\<lambda>r. case r of
         Inl e \<Rightarrow> if e = ErrReleasedSlotUnusable then cancelJob now j else throw e
       | Inr res \<Rightarrow> prepareReserved L E now ch g j controls res)))"

section \<open>Revisiting a deferred job\<close>

definition replanStaleAmount ::
    "lib \<Rightarrow> Engine \<Rightarrow> time \<Rightarrow> chain \<Rightarrow> signer option \<Rightarrow> SweepJob \<Rightarrow> int \<Rightarrow> uint64 \<Rightarrow> uint64 \<Rightarrow> (store, unit) prog" where
  "replanStaleAmount L E now ch sg j balance accountNumber sequence =
     (if IsFundingJob j \<or> (j_Strategy j \<noteq> StrategyFeeReserve \<and> j_Strategy j \<noteq> StrategyThresholdOnly) then ret ()
      else bindE (liftR (planFeeAmount L E ch sg (j_SourceAddress j) (destination j) balance accountNumber sequence))
        (\<lambda>(freshAmount, _, freshReason).
        if freshReason \<noteq> [] \<or> freshAmount = Some (j_AmountBaseUnits j) then ret () else terminateJob now j))"

definition Revisit :: "lib \<Rightarrow> Engine \<Rightarrow> time \<Rightarrow> chain \<Rightarrow> signer option \<Rightarrow> string \<Rightarrow> (store, bool) prog" where
  "Revisit L E now ch sg sweepID =
     bindE (sweepRepo_Get sweepID) (\<lambda>j.
     if j_Status j \<noteq> SweepDeferred then throw ErrStatusConflict
     else bindE (controlsRepo_Get (en_chain E)) (\<lambda>controls.
     if oc_SweepPaused controls then throw ErrPaused
     else bindE (liftR (ch_Balance ch (j_SourceAddress j) BaseDenom)) (\<lambda>balance.
     bindE (liftR (ch_Account ch (j_SourceAddress j))) (\<lambda>(accountNumber, sequence).
     bindE (liftR (estimateFee L E ch sg (j_SourceAddress j) (destination j) (j_AmountBaseUnits j) accountNumber sequence))
       (\<lambda>(fee, _).
     if economicsFailure E j fee = [] \<and> coverageFailure E j balance fee = []
     then thenE (sweepRepo_UpdateStatus now (j_SweepID j) SweepDeferred SweepPending noSweepUpdate) (ret True)
     else thenE (replanStaleAmount L E now ch sg j balance accountNumber sequence) (ret False))))))"

section \<open>Broadcast, confirmation, recovery\<close>

definition engine_acceptTx :: "time \<Rightarrow> string \<Rightarrow> (store, unit) prog" where
  "engine_acceptTx now sweepID =
     with_tx (thenE (sweepRepo_UpdateStatus now sweepID SweepSigned SweepBroadcast noSweepUpdate)
                    (engine_advanceReservation now sweepID SequenceSigned SequenceBroadcast))"

definition engine_resolveUnknown :: "time \<Rightarrow> chain \<Rightarrow> SweepJob \<Rightarrow> string \<Rightarrow> (store, unit) prog" where
  "engine_resolveUnknown now ch j txHash =
     (case ch_Tx ch txHash of
        Inr (Some info) \<Rightarrow> engine_acceptTx now (j_SweepID j)
      | _ \<Rightarrow> thenE (with_tx (engine_quarantineReservation now (j_SweepID j) SequenceSigned)) (throw ErrQuarantined))"

definition rejectTx :: "time \<Rightarrow> string \<Rightarrow> uint32 \<Rightarrow> (store, unit) prog" where
  "rejectTx now sweepID code =
     with_tx (thenE (sweepRepo_UpdateStatus now sweepID SweepSigned SweepBroadcast (noSweepUpdate\<lparr>su_TxCode := Some code\<rparr>))
             (thenE (sweepRepo_UpdateStatus now sweepID SweepBroadcast SweepFailed noSweepUpdate)
                    (engine_quarantineReservation now sweepID SequenceSigned)))"

definition Engine_Broadcast :: "Engine \<Rightarrow> time \<Rightarrow> chain \<Rightarrow> string \<Rightarrow> (store, unit) prog" where
  "Engine_Broadcast E now ch sweepID =
     bindE (sweepRepo_Get sweepID) (\<lambda>j.
     if j_Status j \<noteq> SweepSigned then throw ErrStatusConflict
     else case (j_SignedTxBytes j, j_TxHash j) of
       (b # bs, Some txHash) \<Rightarrow>
         bindE (controlsRepo_Get (en_chain E)) (\<lambda>controls.
         if oc_SweepPaused controls \<or> oc_BroadcastPaused controls then throw ErrPaused
         else case ch_Broadcast ch (j_SignedTxBytes j) of
           Inl e \<Rightarrow> engine_resolveUnknown now ch j txHash
         | Inr res \<Rightarrow> if \<not> br_Accepted res then rejectTx now sweepID (br_Code res) else engine_acceptTx now sweepID)
     | _ \<Rightarrow> throw ErrInvalidRecord)"

definition markSwept :: "time \<Rightarrow> string \<Rightarrow> int \<Rightarrow> (store, unit) prog" where
  "markSwept now txHash i = bindE (tryE (depositRepo_GetByID i)) (\<lambda>g. case g of
     Inl e \<Rightarrow> if e = ErrNotFound then ret () else throw e
   | Inr d \<Rightarrow> if d_Status d \<noteq> DepositSweepPending then ret ()
       else tolerateConflict (depositRepo_UpdateStatus now i DepositSweepPending DepositSwept
              (noDepositUpdate\<lparr>du_SweepTxHash := Some txHash\<rparr>)))"

definition markDepositsSwept :: "time \<Rightarrow> SweepJob \<Rightarrow> string \<Rightarrow> (store, unit) prog" where
  "markDepositsSwept now j txHash = forE (j_DepositIDs j) (markSwept now txHash)"

definition recordFeeFundingSpend :: "time \<Rightarrow> SweepJob \<Rightarrow> uint64 \<Rightarrow> (store, unit) prog" where
  "recordFeeFundingSpend now j height =
     (case j_TxHash j of
        None \<Rightarrow> ret ()
      | Some txHash \<Rightarrow>
        if \<not> IsFundingJob j then ret ()
        else bindE (tryE (ledgerRepo_AppendFeeFundingSpend now
            \<lparr>fs_ID = 0, fs_ChainID = j_ChainID j, fs_TxHash = txHash, fs_FeeWalletAddress = j_SourceAddress j,
             fs_AmountBaseUnits = j_AmountBaseUnits j, fs_BlockHeight = height, fs_CreatedAt = now\<rparr>)) (\<lambda>r. case r of
          Inl e \<Rightarrow> if e = ErrDuplicate then ret () else throw e
        | Inr _ \<Rightarrow> ret ()))"

definition confirmTx :: "time \<Rightarrow> SweepJob \<Rightarrow> string \<Rightarrow> TxInfo \<Rightarrow> (store, unit) prog" where
  "confirmTx now j txHash info =
     with_tx (thenE (sweepRepo_UpdateStatus now (j_SweepID j) SweepBroadcast SweepConfirmed
                       (noSweepUpdate\<lparr>su_TxCode := Some (ti_Code info)\<rparr>))
             (thenE (engine_consumeReservation now (j_SweepID j))
             (thenE (markDepositsSwept now j txHash)
                    (recordFeeFundingSpend now j (ti_Height info)))))"

definition failTx :: "time \<Rightarrow> string \<Rightarrow> TxInfo \<Rightarrow> (store, unit) prog" where
  "failTx now sweepID info =
     with_tx (thenE (sweepRepo_UpdateStatus now sweepID SweepBroadcast SweepFailed
                       (noSweepUpdate\<lparr>su_TxCode := Some (ti_Code info)\<rparr>))
                    (engine_consumeReservation now sweepID))"

text \<open>\<open>uint64(status.LatestHeight-info.Height)+1 < e.cfg.Confirmations\<close>, in 64-bit arithmetic.\<close>

definition depthPending :: "int64 \<Rightarrow> int64 \<Rightarrow> uint64 \<Rightarrow> bool" where
  "depthPending latest height confirmations \<longleftrightarrow> (latest - height) + 1 < confirmations"

text \<open>The transaction as the lookup reports it: absent when not found, \<open>nil\<close> or of height 0.\<close>

definition sweepTxInfo :: "err + TxInfo option \<Rightarrow> err + TxInfo option" where
  "sweepTxInfo r = (case r of
      Inl e \<Rightarrow> if e \<noteq> ClientErrNotFound then Inl e else Inr None
    | Inr None \<Rightarrow> Inr None
    | Inr (Some info) \<Rightarrow> if ti_Height info = 0 then Inr None else Inr (Some info))"

definition Engine_Confirm :: "Engine \<Rightarrow> time \<Rightarrow> chain \<Rightarrow> string \<Rightarrow> (store, unit) prog" where
  "Engine_Confirm E now ch sweepID =
     bindE (sweepRepo_Get sweepID) (\<lambda>j.
     if j_Status j \<noteq> SweepBroadcast then throw ErrStatusConflict
     else case j_TxHash j of
       None \<Rightarrow> throw ErrInvalidRecord
     | Some txHash \<Rightarrow>
       bindE (liftR (sweepTxInfo (ch_Tx ch txHash))) (\<lambda>found. case found of
         None \<Rightarrow>
           if now - j_UpdatedAt j < ec_BroadcastTimeout (en_cfg E) then ret ()
           else thenE (with_tx (engine_quarantineReservation now sweepID SequenceBroadcast)) (throw ErrQuarantined)
       | Some info \<Rightarrow>
           if ti_Code info \<noteq> 0 then failTx now sweepID info
           else bindE (liftR (ch_NodeStatus ch)) (\<lambda>status.
             if depthPending (ns_LatestHeight status) (ti_Height info) (ec_Confirmations (en_cfg E)) then ret ()
             else confirmTx now j txHash info)))"

definition Engine_Recover :: "time \<Rightarrow> chain \<Rightarrow> string \<Rightarrow> (store, unit) prog" where
  "Engine_Recover now ch sweepID =
     bindE (sweepRepo_Get sweepID) (\<lambda>j.
     if j_Status j \<noteq> SweepSigned \<and> j_Status j \<noteq> SweepBroadcast then throw ErrStatusConflict
     else if j_SignedTxBytes j = [] then throw ErrInvalidRecord
     else bindE (liftR (RebroadcastPersisted ch (j_SignedTxBytes j))) (\<lambda>res.
       if \<not> rb_AlreadyIncluded res \<and> \<not> rb_Accepted res then throw (ErrOther ''rebroadcast rejected'')
       else if j_Status j = SweepSigned
       then sweepRepo_UpdateStatus now sweepID SweepSigned SweepBroadcast noSweepUpdate
       else ret ()))"

section \<open>The pass\<close>

definition IsHold :: "err \<Rightarrow> bool" where
  "IsHold e \<longleftrightarrow> e \<in> {ErrPaused, ErrDeferred, ErrFundingPending, ErrSimulationUnavailable, ErrSignerUnavailable,
     ErrQuarantined, ErrStatusConflict}"

text \<open>The five stages in order, with what each does to a job.\<close>

definition passSteps :: "lib \<Rightarrow> Engine \<Rightarrow> time \<Rightarrow> chain \<Rightarrow> signer option \<Rightarrow> (SweepStatus \<times> (string \<Rightarrow> (store, unit) prog)) list" where
  "passSteps L E now ch sg =
     [(SweepPending, Prepare L E now ch sg), (SweepBuilt, Prepare L E now ch sg),
      (SweepSigned, Engine_Broadcast E now ch), (SweepBroadcast, Engine_Confirm E now ch),
      (SweepDeferred, \<lambda>i. thenE (Revisit L E now ch sg i) (ret ()))]"

definition passJob :: "(string \<Rightarrow> (store, unit) prog) \<Rightarrow> err list \<Rightarrow> SweepJob \<Rightarrow> (store, err list) prog" where
  "passJob step errs j = bindE (tryE (step (j_SweepID j))) (\<lambda>r. ret (case r of
      Inl e \<Rightarrow> if IsHold e then errs else errs @ [e]
    | Inr _ \<Rightarrow> errs))"

definition passStage ::
    "Engine \<Rightarrow> err list \<Rightarrow> SweepStatus \<times> (string \<Rightarrow> (store, unit) prog) \<Rightarrow> (store, err list) prog" where
  "passStage E errs stage =
     bindE (tryE (sweepRepo_ListByStatus (en_chain E) (fst stage) 50)) (\<lambda>r. case r of
       Inl e \<Rightarrow> ret (errs @ [e])
     | Inr jobs \<Rightarrow> foldE (passJob (snd stage)) jobs errs)"

definition Pass :: "lib \<Rightarrow> Engine \<Rightarrow> time \<Rightarrow> chain \<Rightarrow> signer option \<Rightarrow> (store, PlanReport \<times> err list) prog" where
  "Pass L E now ch sg =
     bindE (Plan L E now ch sg) (\<lambda>(plan, perr). case perr of
       Some e \<Rightarrow> ret (plan, if IsHold e then [] else [e])
     | None \<Rightarrow> bindE (foldE (passStage E) (passSteps L E now ch sg) []) (\<lambda>errs. ret (plan, errs)))"

end
