(* ===== verification/Withdrawal_Safety.thy ===== *)
theory Withdrawal_Safety
  imports Review_Resolution
begin

text \<open>
  The safety of the withdrawal pipeline.  \<open>wop\<close> is one call of any operation of
  the withdrawal workflow, with an arbitrary node, signer, clock and
  configuration (the steps of the other components join it in \<open>System_Safety\<close>);
  \<open>wd_inv\<close> is the invariant of the reachable stores and \<open>kept_rel\<close> the history property: what was signed is
  never changed, never signed again, and keeps its sequence slot.
\<close>

section \<open>Invariant and history\<close>

text \<open>A signed withdrawal owns a slot from which no other transaction may be signed.\<close>

definition wd_bound :: "store \<Rightarrow> WithdrawalRecord \<Rightarrow> bool" where
  "wd_bound s w \<longleftrightarrow> (\<exists>r \<in> set (t_sequences s). r_WorkRef r = WorkRef WorkWithdrawal (w_WithdrawalID w) \<and>
     redeemable (r_Status r) \<and> r_ChainID r = w_ChainID w \<and> r_SourceAddress r = w_SourceAddress w \<and>
     w_Sequence w = Some (r_Sequence r) \<and> w_AccountNumber w = Some (r_AccountNumber r))"

definition wd_ok :: "store \<Rightarrow> WithdrawalRecord \<Rightarrow> bool" where
  "wd_ok s w \<longleftrightarrow>
     w_TxHash w = (if w_SignedTxBytes w = [] then None else Some (txHashOf (w_SignedTxBytes w))) \<and>
     (pre_sign_status (w_Status w) \<longrightarrow> w_SignedTxBytes w = []) \<and>
     (w_Status w \<in> {WithdrawalSigned, WithdrawalBroadcast, WithdrawalIncluded} \<longrightarrow> w_SignedTxBytes w \<noteq> []) \<and>
     (w_SignedTxBytes w \<noteq> [] \<longrightarrow> wd_bound s w)"

text \<open>A reservation for a withdrawal belongs to that withdrawal's account.\<close>

definition owned :: "store \<Rightarrow> SequenceReservation \<Rightarrow> bool" where
  "owned s r \<longleftrightarrow> (\<forall>i. r_WorkRef r = WorkRef WorkWithdrawal i \<longrightarrow>
     (\<exists>w \<in> set (t_withdrawals s). w_WithdrawalID w = i \<and> w_ChainID w = r_ChainID r \<and>
        w_SourceAddress w = r_SourceAddress r))"

definition wd_inv :: "store \<Rightarrow> bool" where
  "wd_inv s \<longleftrightarrow> store_uniq s \<and> (\<forall>w \<in> set (t_withdrawals s). wd_ok s w) \<and> (\<forall>r \<in> set (t_sequences s). owned s r)"

text \<open>
  What a record keeps: its request always, and once it carries signed bytes
  also those bytes, their hash and every field they were signed from.  Its
  status moves along the edges of the transition table.
\<close>

definition same_request :: "WithdrawalRecord \<Rightarrow> WithdrawalRecord \<Rightarrow> bool" where
  "same_request w w' \<longleftrightarrow> w_WithdrawalID w' = w_WithdrawalID w \<and> w_IdempotencyKey w' = w_IdempotencyKey w \<and>
     w_ChainID w' = w_ChainID w \<and> w_SourceAddress w' = w_SourceAddress w \<and>
     w_DestinationAddress w' = w_DestinationAddress w \<and> w_Denom w' = w_Denom w \<and>
     w_AmountBaseUnits w' = w_AmountBaseUnits w \<and> w_Memo w' = w_Memo w"

definition same_signed :: "WithdrawalRecord \<Rightarrow> WithdrawalRecord \<Rightarrow> bool" where
  "same_signed w w' \<longleftrightarrow> w_SignedTxBytes w' = w_SignedTxBytes w \<and> w_TxHash w' = w_TxHash w \<and>
     w_Sequence w' = w_Sequence w \<and> w_AccountNumber w' = w_AccountNumber w \<and>
     w_FeeAmountBaseUnits w' = w_FeeAmountBaseUnits w \<and> w_GasLimit w' = w_GasLimit w"

definition keeps :: "WithdrawalRecord \<Rightarrow> WithdrawalRecord \<Rightarrow> bool" where
  "keeps w w' \<longleftrightarrow> same_request w w' \<and> (w_SignedTxBytes w \<noteq> [] \<longrightarrow> same_signed w w') \<and>
     wd_edge\<^sup>*\<^sup>* (w_Status w) (w_Status w')"

definition kept_rel :: "store \<Rightarrow> store \<Rightarrow> bool" where
  "kept_rel s t \<longleftrightarrow> (\<forall>w \<in> set (t_withdrawals s). \<exists>w' \<in> set (t_withdrawals t). keeps w w') \<and> slot_rel s t"

abbreviation safe_rel :: "store \<Rightarrow> store \<Rightarrow> bool" where
  "safe_rel \<equiv> inv_rel wd_inv kept_rel"

lemma keeps_refl [simp]: "keeps w w"
  by (simp add: keeps_def same_request_def same_signed_def)

lemma keeps_trans: "keeps w w' \<Longrightarrow> keeps w' w'' \<Longrightarrow> keeps w w''"
  unfolding keeps_def same_request_def same_signed_def by (auto intro: rtranclp_trans)

lemma kept_rel_step: "step_rel kept_rel"
proof
  fix s t u
  assume st: "kept_rel s t" and tu: "kept_rel t u"
  have "\<exists>w'' \<in> set (t_withdrawals u). keeps w w''" if w: "w \<in> set (t_withdrawals s)" for w
  proof -
    obtain w' where "w' \<in> set (t_withdrawals t)" "keeps w w'" using st w by (auto simp: kept_rel_def)
    moreover from this obtain w'' where "w'' \<in> set (t_withdrawals u)" "keeps w' w''"
      using tu by (auto simp: kept_rel_def)
    ultimately show ?thesis using keeps_trans by blast
  qed
  then show "kept_rel s u" using st tu sl.R_trans by (auto simp: kept_rel_def)
qed (auto simp: kept_rel_def sl.R_refl intro: keeps_refl)

interpretation sf: step_rel safe_rel
  by (rule step_rel_inv_rel [OF kept_rel_step])

section \<open>Changes that keep the invariant\<close>

lemma wd_bound_slot:
  assumes "wd_bound s w" "slot_rel s t"
  shows "wd_bound t w"
proof -
  obtain r where r: "r \<in> set (t_sequences s)" "r_WorkRef r = WorkRef WorkWithdrawal (w_WithdrawalID w)"
    "redeemable (r_Status r)" "r_ChainID r = w_ChainID w" "r_SourceAddress r = w_SourceAddress w"
    "w_Sequence w = Some (r_Sequence r)" "w_AccountNumber w = Some (r_AccountNumber r)"
    using assms(1) by (auto simp: wd_bound_def)
  then obtain r' where "r' \<in> set (t_sequences t)" "same_binding r r'" "redeemable (r_Status r')"
    using assms(2) by (auto simp: slot_rel_def)
  then show ?thesis unfolding wd_bound_def
    by (intro bexI [of _ r']) (use r in \<open>auto simp: same_binding_def slotOf_def\<close>)
qed

text \<open>A step that leaves the withdrawals alone and re-binds no redeemable slot.\<close>

lemma safe_sequences:
  assumes "t_withdrawals t = t_withdrawals s" "slot_rel s t" "uniq_rel s t"
    and "wd_inv s \<Longrightarrow> \<forall>r \<in> set (t_sequences t). owned t r"
  shows "safe_rel s t"
proof -
  have "wd_ok t w" if "wd_ok s w" for w
    using that wd_bound_slot [OF _ assms(2)] by (auto simp: wd_ok_def)
  then have "wd_inv t" if "wd_inv s"
    using that assms(1,3) assms(4) [OF that] by (simp add: wd_inv_def uniq_rel_def)
  moreover have "kept_rel s t" unfolding kept_rel_def assms(1) using assms(2) keeps_refl by blast
  ultimately show ?thesis by (simp add: inv_rel_def)
qed

lemma owned_cong: "t_withdrawals t = t_withdrawals s \<Longrightarrow> owned t r = owned s r"
  by (simp add: owned_def)

lemma safe_other:
  assumes "t_withdrawals t = t_withdrawals s" "t_sequences t = t_sequences s" "uniq_rel s t"
  shows "safe_rel s t"
  by (rule safe_sequences [OF assms(1) slot_rel_other [OF assms(2)] assms(3)])
     (simp add: assms(2) owned_cong [OF assms(1)] wd_inv_def)

lemma safe_unchanged: "(\<And>s. snd (m s) = s) \<Longrightarrow> stays safe_rel m"
  by (rule sf.stays_unchanged)

text \<open>
  A rewrite of withdrawal rows that keeps every request, next to a change of
  reservations that re-binds none: enough that the rewritten rows are in order.
\<close>

definition bindKey :: "SequenceReservation \<Rightarrow> WorkRef \<times> string \<times> string" where
  "bindKey r = (r_WorkRef r, r_ChainID r, r_SourceAddress r)"

lemma safe_rows:
  assumes rows: "t_withdrawals t = map_where p f (t_withdrawals s)" and slot: "slot_rel s t" and uq: "uniq_rel s t"
    and keys: "\<forall>r \<in> set (t_sequences t). \<exists>x \<in> set (t_sequences s). bindKey r = bindKey x"
    and row: "\<And>w. wd_inv s \<Longrightarrow> w \<in> set (t_withdrawals s) \<Longrightarrow> p w \<Longrightarrow> wd_ok s w \<Longrightarrow>
      keeps w (f w) \<and> wd_ok t (f w)"
  shows "safe_rel s t"
  unfolding inv_rel_def
proof
  assume inv: "wd_inv s"
  have each: "keeps w (if p w then f w else w) \<and> wd_ok t (if p w then f w else w)"
    if "w \<in> set (t_withdrawals s)" for w
    using row [OF inv that] inv that wd_bound_slot [OF _ slot] by (auto simp: wd_inv_def wd_ok_def)
  have kept: "\<exists>w' \<in> set (t_withdrawals t). keeps w w'" if "w \<in> set (t_withdrawals s)" for w
    using each [OF that] map_where_in [OF that, of p f] rows by metis
  have "wd_ok t w" if w: "w \<in> set (t_withdrawals t)" for w
    using w each unfolding rows by (auto elim!: map_where_inE simp del: if_split)
  moreover have "owned t r" if r: "r \<in> set (t_sequences t)" for r
  proof -
    obtain x where "owned s x" "bindKey r = bindKey x" using keys r inv unfolding wd_inv_def by blast
    then show ?thesis using kept unfolding owned_def bindKey_def keeps_def same_request_def by (metis prod.inject)
  qed
  ultimately show "wd_inv t \<and> kept_rel s t"
    using kept inv uq slot by (auto simp: wd_inv_def kept_rel_def uniq_rel_def)
qed

lemma safe_create:
  assumes "t = t_withdrawals_update (\<lambda>rows. rows @ [w]) s" "uniq_rel s t"
    and "w_SignedTxBytes w = []" "w_TxHash w = None" "w_Status w = WithdrawalRequested"
  shows "safe_rel s t"
  using assms
  by (auto simp: inv_rel_def wd_inv_def kept_rel_def uniq_rel_def wd_ok_def wd_bound_def owned_def
      slot_rel_other intro: keeps_refl)

section \<open>The repository calls the workflows make\<close>

named_theorems safe_ops

lemma safe_seq_update [safe_ops]:
  assumes "to = SequenceReleased \<Longrightarrow> from = SequenceReserved"
  shows "stays safe_rel (sequenceRepo_UpdateStatus now k from to)"
proof (rule stays_cases)
  fix s u s'
  assume ok: "sequenceRepo_UpdateStatus now k from to s = (Inr u, s')"
  have s': "s' = t_sequences_update (map_where (\<lambda>r. r_ID r = k \<and> r_Status r = from)
            (\<lambda>r. r\<lparr>r_Status := to, r_UpdatedAt := now\<rparr>)) s" using ok by (simp add: seq_update_ok_iff)
  show "safe_rel s s'"
  proof (rule safe_sequences)
    show "slot_rel s s'" using slot_seq_update_s [OF ok] assms by blast
    show "uniq_rel s s'" using staysD [OF uniq_seq_update ok] .
    show "wd_inv s \<Longrightarrow> \<forall>r \<in> set (t_sequences s'). owned s' r"
      unfolding s' wd_inv_def owned_def by (auto elim!: map_where_inE split: if_splits)
  qed (simp add: s')
next
  fix s e s'
  assume "sequenceRepo_UpdateStatus now k from to s = (Inl e, s')"
  then show "safe_rel s s'" using seq_update_err sf.R_refl by blast
qed

text \<open>
  A status update that writes no signature: bytes and hash are left alone,
  the other signed fields change only before signing, and the statuses that
  need signed bytes are entered from such statuses or on a row that has them.
\<close>

definition quiet_update :: "WithdrawalStatus \<Rightarrow> WithdrawalUpdate \<Rightarrow> bool" where
  "quiet_update from u \<longleftrightarrow> wu_SignedTxBytes u = None \<and> wu_TxHash u = None \<and>
     (pre_sign_status from \<or> wu_Sequence u = None \<and> wu_AccountNumber u = None \<and>
        wu_FeeAmountBaseUnits u = None \<and> wu_GasLimit u = None)"

lemma safe_wd_update_at:
  assumes run: "withdrawalRepo_UpdateStatus now k from to u s = (r, s')"
    and u: "quiet_update from u" and to: "to \<noteq> WithdrawalSigned"
    and bz: "\<And>w. to \<in> {WithdrawalBroadcast, WithdrawalIncluded} \<Longrightarrow> wd_inv s \<Longrightarrow>
      w \<in> set (t_withdrawals s) \<Longrightarrow> w_WithdrawalID w = k \<Longrightarrow> w_Status w = from \<Longrightarrow> w_SignedTxBytes w \<noteq> []"
  shows "safe_rel s s'"
proof (cases r)
  case (Inl e)
  then show ?thesis using run wd_update_err sf.R_refl by blast
next
  case (Inr x)
  then have ok: "withdrawalRepo_UpdateStatus now k from to u s = (Inr (), s')" using run by simp
  then have edge: "wd_edge from to" by (simp add: wd_update_ok_iff)
  have s': "s' = t_withdrawals_update (map_where (\<lambda>w. w_WithdrawalID w = k \<and> w_Status w = from)
      (applyWithdrawalUpdate now to u)) s" using ok by (simp add: wd_update_ok_iff)
  show ?thesis
  proof (rule safe_rows)
    show "t_withdrawals s' = map_where (\<lambda>w. w_WithdrawalID w = k \<and> w_Status w = from)
      (applyWithdrawalUpdate now to u) (t_withdrawals s)" "slot_rel s s'"
      "\<forall>r \<in> set (t_sequences s'). \<exists>x \<in> set (t_sequences s). bindKey r = bindKey x"
      by (auto simp: s' slot_rel_other)
    show "uniq_rel s s'" using staysD [OF uniq_wd_update ok] .
    fix w
    assume w: "wd_inv s" "w \<in> set (t_withdrawals s)" "w_WithdrawalID w = k \<and> w_Status w = from" "wd_ok s w"
    let ?w = "applyWithdrawalUpdate now to u w"
    have pre: "pre_sign_status from \<longrightarrow> w_SignedTxBytes w = []" using w by (auto simp: wd_ok_def)
    have seqs: "w_SignedTxBytes w \<noteq> [] \<longrightarrow> w_Sequence ?w = w_Sequence w \<and> w_AccountNumber ?w = w_AccountNumber w"
      using u pre by (auto simp: quiet_update_def)
    have "keeps w ?w"
      using u pre edge w(3) by (auto simp: keeps_def same_request_def same_signed_def quiet_update_def)
    moreover have "wd_ok s' ?w"
      using w pre_sign_only_from_pre_sign [OF edge] to bz [OF _ w(1,2)] u seqs
      by (auto simp: wd_ok_def wd_bound_def quiet_update_def s')
    ultimately show "keeps w ?w \<and> wd_ok s' ?w" by blast
  qed
qed

lemma safe_wd_update [safe_ops]:
  assumes "quiet_update from u" "to \<noteq> WithdrawalSigned"
    and "to \<in> {WithdrawalBroadcast, WithdrawalIncluded} \<Longrightarrow>
      from \<in> {WithdrawalSigned, WithdrawalBroadcast, WithdrawalIncluded}"
  shows "stays safe_rel (withdrawalRepo_UpdateStatus now k from to u)"
  unfolding stays_def
proof
  fix s
  show "safe_rel s (snd (withdrawalRepo_UpdateStatus now k from to u s))"
    by (rule safe_wd_update_at [OF surjective_pairing assms(1,2)])
       (use assms(3) in \<open>auto simp: wd_inv_def wd_ok_def\<close>)
qed

lemma quiet_none [simp]: "quiet_update from noWithdrawalUpdate"
  by (simp add: quiet_update_def)

lemma safe_reviews [safe_ops]:
  "stays safe_rel (reviewRepo_Open now item)" "stays safe_rel (reviewRepo_Resolve now i res at)"
proof -
  have "safe_rel s s'" if run: "reviewRepo_Open now item s = (x, s')" for s x s'
    using run staysD [OF uniq_review_open run]
    by (intro safe_other) (auto simp: reviewRepo_Open_def run_defs Let_def split: if_splits)
  then show "stays safe_rel (reviewRepo_Open now item)" by (metis prod.collapse stays_def)
  have "safe_rel s s'" if run: "reviewRepo_Resolve now i res at s = (x, s')" for s x s'
    using run staysD [OF uniq_review_resolve run]
    by (intro safe_other) (auto simp: reviewRepo_Resolve_def reviewRepo_Get_def run_defs Let_def
        split: if_splits prod.splits sum.splits option.splits)
  then show "stays safe_rel (reviewRepo_Resolve now i res at)" by (metis prod.collapse stays_def)
qed

lemma safe_dep_update [safe_ops]: "stays safe_rel (depositRepo_UpdateStatus now k from to u)"
proof -
  have "safe_rel s s'" if run: "depositRepo_UpdateStatus now k from to u s = (x, s')" for s x s'
  proof (cases x)
    case (Inl e)
    then show ?thesis using run dep_update_err sf.R_refl by blast
  next
    case (Inr y)
    then show ?thesis using run staysD [OF uniq_dep_update run]
      by (intro safe_other) (auto simp: dep_update_ok_iff)
  qed
  then show ?thesis by (metis prod.collapse stays_def)
qed

lemma safe_reads:
  "stays safe_rel (withdrawalRepo_Get k)" "stays safe_rel (sweepRepo_Get k)"
  "stays safe_rel (sequenceRepo_GetByWorkRef ref)" "stays safe_rel (sequenceRepo_ListUnconsumed c a)"
  "stays safe_rel (withdrawalRepo_GetByIdempotencyKey k)" "stays safe_rel (controlsRepo_Get c)"
  "stays safe_rel (withdrawalRepo_SumCommittedBySource c a)" "stays safe_rel (reviewRepo_Get i)"
  "stays safe_rel (depositRepo_GetByID i)"
  by (rule safe_unchanged, simp add: reads_unchanged)+

section \<open>Running a step from a known store\<close>

lemma safe_gas:
  "(\<And>e. stays safe_rel (f e)) \<Longrightarrow> (\<And>q. stays safe_rel (g q)) \<Longrightarrow> (\<And>a b. stays safe_rel (h a b)) \<Longrightarrow>
   stays safe_rel (case z of GasError e \<Rightarrow> f e | GasQuarantine q \<Rightarrow> g q | GasOk a b \<Rightarrow> h a b)"
  by (simp split: gasOutcome.split)

lemma Get_run:
  "withdrawalRepo_Get k s = (case find (\<lambda>w. w_WithdrawalID w = k) (t_withdrawals s) of
     None \<Rightarrow> (Inl ErrNotFound, s) | Some w \<Rightarrow> (Inr w, s))"
  by (simp add: withdrawalRepo_Get_def queryRow_run)

lemma controls_run:
  "controlsRepo_Get c s = (Inr (case find (\<lambda>x. oc_ChainID x = c) (t_controls s) of
     None \<Rightarrow> zeroControls c | Some x \<Rightarrow> x), s)"
  by (simp add: controlsRepo_Get_def getControls_def queryRow_run bindE_def tryE_run split: option.split)

text \<open>After \<open>Get\<close> the record is a row of the store the rest runs in.\<close>

lemma safe_get:
  assumes "\<And>s w. find (\<lambda>w. w_WithdrawalID w = k) (t_withdrawals s) = Some w \<Longrightarrow> safe_rel s (snd (f w s))"
  shows "stays safe_rel (bindE (withdrawalRepo_Get k) f)"
  by (rule sf.stays_read) (use assms in \<open>auto simp: Get_run split: option.splits\<close>)

section \<open>Reservations stay with their withdrawal\<close>

definition own_rel :: "WorkRef \<times> string \<times> string \<Rightarrow> store \<Rightarrow> store \<Rightarrow> bool" where
  "own_rel key s t \<longleftrightarrow> t_withdrawals t = t_withdrawals s \<and>
     (\<forall>r \<in> set (t_sequences t). bindKey r = key \<or> (\<exists>x \<in> set (t_sequences s). bindKey r = bindKey x))"

interpretation ow: step_rel "inv_rel store_uniq (own_rel key)" for key
proof (rule step_rel_inv_rel, unfold_locales)
  fix s t u
  assume "own_rel key s t" "own_rel key t u"
  then show "own_rel key s u" unfolding own_rel_def by metis
qed (auto simp: own_rel_def)

lemma own_seq_reserve: "stays (inv_rel store_uniq (own_rel (bindKey r0))) (sequenceRepo_Reserve now r0)"
proof (rule stays_cases)
  fix s r s'
  assume run: "sequenceRepo_Reserve now r0 s = (Inr r, s')"
  have "own_rel (bindKey r0) s s'" if uq: "store_uniq s"
    using run
  proof (cases rule: seq_reserve_cases)
    case (reclaim ex)
    have "bindKey x' = bindKey r0 \<or> (\<exists>x \<in> set (t_sequences s). bindKey x' = bindKey x)" if x': "x' \<in> set (t_sequences s')" for x'
    proof -
      obtain x where x: "x \<in> set (t_sequences s)"
        "x' = (if r_ID x = r_ID ex \<and> r_Status x = SequenceReleased then reclaimed now r0 x else x)"
        using x' reclaim by (auto elim: map_where_inE)
      have "r_ID x = r_ID ex \<Longrightarrow> x = ex"
        using x(1) reclaim(1) uq by (auto simp: store_uniq_def uniq_sequences_def dest: distinct_map_inj)
      then show ?thesis using x reclaim(2) by (auto simp: bindKey_def reclaimed_def slotOf_def)
    qed
    moreover have "t_withdrawals s' = t_withdrawals s" using reclaim by simp
    ultimately show ?thesis unfolding own_rel_def by blast
  next
    case fresh
    then show ?thesis by (auto simp: own_rel_def bindKey_def)
  qed
  then show "inv_rel store_uniq (own_rel (bindKey r0)) s s'"
    using staysD [OF uniq_seq_reserve run] by (simp add: inv_rel_def uniq_rel_def)
next
  fix s e s'
  assume "sequenceRepo_Reserve now r0 s = (Inl e, s')"
  then show "inv_rel store_uniq (own_rel (bindKey r0)) s s'" using seq_reserve_err ow.R_refl by blast
qed

lemma own_manager_reserve:
  "stays (inv_rel store_uniq (own_rel (ref, c, a))) (Manager_Reserve now ch c a ref)"
proof -
  have key: "bindKey (newReservation c a an q ref) = (ref, c, a)" for an q
    by (simp add: bindKey_def newReservation_def)
  have res: "stays (inv_rel store_uniq (own_rel (ref, c, a))) (sequenceRepo_Reserve now (newReservation c a an q ref))"
    for an q using own_seq_reserve [of "newReservation c a an q ref" now] by (simp add: key)
  have reads: "stays (inv_rel store_uniq (own_rel (ref, c, a))) (sequenceRepo_GetByWorkRef x)"
    "stays (inv_rel store_uniq (own_rel (ref, c, a))) (sequenceRepo_ListUnconsumed y z)" for x y z
    by (rule ow.stays_unchanged, simp add: reads_unchanged)+
  show ?thesis unfolding Manager_Reserve_def reserveNew_def reserveTx_def
    by (intro ow.stays_rules reads res)
qed

text \<open>Reserving for a withdrawal of the store (or for a sweep) keeps the invariant.\<close>

lemma safe_manager_reserve:
  assumes "\<And>i. ref = WorkRef WorkWithdrawal i \<Longrightarrow>
      \<exists>w \<in> set (t_withdrawals s). w_WithdrawalID w = i \<and> w_ChainID w = c \<and> w_SourceAddress w = a"
  shows "safe_rel s (snd (Manager_Reserve now ch c a ref s))" (is "safe_rel s ?t")
proof -
  have own: "store_uniq s \<Longrightarrow> own_rel (ref, c, a) s ?t"
    using staysD [OF own_manager_reserve surjective_pairing] by (simp add: inv_rel_def)
  have uq: "uniq_rel s ?t" and slot: "slot_rel s ?t"
    using staysD [OF uniq_reserve_manager surjective_pairing] staysD [OF slot_manager_reserve surjective_pairing] by auto
  have owned: "owned ?t r" if inv: "wd_inv s" and r: "r \<in> set (t_sequences ?t)" for r
  proof -
    have "bindKey r = (ref, c, a) \<or> (\<exists>r1 \<in> set (t_sequences s). bindKey r = bindKey r1)"
      using own inv r by (auto simp: wd_inv_def own_rel_def)
    moreover have "t_withdrawals ?t = t_withdrawals s" using own inv by (simp add: wd_inv_def own_rel_def)
    ultimately show ?thesis using assms inv by (auto simp: owned_def bindKey_def wd_inv_def)
  qed
  show ?thesis
  proof (cases "wd_inv s")
    case True
    then have "t_withdrawals ?t = t_withdrawals s" using own by (simp add: wd_inv_def own_rel_def)
    then show ?thesis using safe_sequences [OF _ slot uq] owned by blast
  qed (simp add: inv_rel_def)
qed

section \<open>Every operation is safe\<close>

lemma safe_reconcileOne: "stays safe_rel (reconcileOne now ch rep r)"
  unfolding stays_def
proof
  fix s
  let ?to = "resolveTo ch (r_Status r) (workState s (r_WorkRef r))"
  have "safe_rel s (snd (sequenceRepo_UpdateStatus now (r_ID r) (r_Status r) ?to s))" if "?to \<noteq> r_Status r"
    by (rule sf.from_stays, rule safe_seq_update) (use resolveTo_released that in metis)
  then show "safe_rel s (snd (reconcileOne now ch rep r s))"
    by (simp add: reconcileOne_snd Let_def sf.R_refl)
qed

lemma safe_reconcile: "stays safe_rel (Manager_ReconcileAccount now ch c a)"
  unfolding Manager_ReconcileAccount_def
  by (intro sf.stays_rules safe_reads safe_reconcileOne)

lemma safe_quarantine: "stays safe_rel (quarantine now W k from reason)"
  unfolding quarantine_def by (intro sf.stays_rules safe_ops) simp_all

lemma safe_quarantinePostSignature: "stays safe_rel (quarantinePostSignature now W k from i reason)"
  unfolding quarantinePostSignature_def by (intro sf.stays_rules safe_ops) simp_all

lemma safe_submit: "stays safe_rel (Submit L now W req)"
proof -
  have "safe_rel s s'" if run: "withdrawalRepo_Create now (newWithdrawal W req amount) s = (r, s')" for amount s r s'
  proof (cases r)
    case (Inl e)
    then have "s' = s" using run
      by (auto simp: withdrawalRepo_Create_def run_defs Let_def newWithdrawal_def split: if_splits sum.splits)
    then show ?thesis by (simp add: sf.R_refl)
  next
    case (Inr w)
    then have "s' = t_withdrawals_update (\<lambda>rows. rows @ [w]) s" "w_SignedTxBytes w = []" "w_TxHash w = None"
      "w_Status w = WithdrawalRequested"
      using run by (auto simp: withdrawalRepo_Create_def run_defs Let_def newWithdrawal_def split: if_splits sum.splits)
    then show ?thesis using safe_create staysD [OF uniq_wd_create run] by blast
  qed
  then have "stays safe_rel (withdrawalRepo_Create now (newWithdrawal W req amount))" for amount
    by (metis prod.collapse stays_def)
  then show ?thesis unfolding Submit_def by (intro sf.stays_rules safe_reads)
qed

lemma safe_validate: "stays safe_rel (ValidateAddress L now W k)"
  unfolding ValidateAddress_def
  by (intro sf.stays_rules safe_reads safe_quarantine safe_ops) simp_all

lemma safe_approve: "stays safe_rel (ApproveCompliance now k)"
  unfolding ApproveCompliance_def by (intro safe_ops) simp_all

lemma safe_reserveFunds: "stays safe_rel (ReserveFunds now W ch k)"
  unfolding ReserveFunds_def by (intro sf.stays_rules safe_reads safe_ops) simp_all

lemma safe_reserveSequence: "stays safe_rel (ReserveSequence now W ch k)"
  unfolding ReserveSequence_def
proof (rule safe_get, goal_cases)
  case (1 s w)
  then show ?case
    by (intro sf.from_bindE sf.from_tryE safe_manager_reserve sf.stays_rules safe_quarantine safe_ops)
       (use find_SomeD [OF 1] in \<open>auto simp: quiet_update_def pre_sign_status_def\<close>)
qed

lemma safe_build: "stays safe_rel (Build L now W k)"
  unfolding Build_def by (intro sf.stays_rules safe_reads safe_quarantine safe_ops) simp_all

lemma safe_simulate: "stays safe_rel (Simulate L now W ch sg k)"
  unfolding Simulate_def
  by (intro sf.stays_rules safe_gas safe_reads safe_quarantine safe_ops)
     (simp_all add: quiet_update_def pre_sign_status_def)

lemma safe_cancel: "stays safe_rel (Cancel now k)"
  unfolding Cancel_def by (intro sf.stays_rules safe_reads safe_ops) simp_all

section \<open>Signing\<close>

text \<open>Protobuf encodes a message that has a signature to at least one byte.\<close>

definition raw_ok :: "lib \<Rightarrow> bool" where
  "raw_ok L \<longleftrightarrow> (\<forall>b a sig x. MarshalTxRaw L b a [sig] = Some x \<longrightarrow> x \<noteq> [])"

text \<open>The row of a withdrawal that passed the reservation check, in a well-formed store.\<close>

definition sign_ready :: "store \<Rightarrow> WithdrawalRecord \<Rightarrow> SequenceReservation \<Rightarrow> bool" where
  "sign_ready s w r \<longleftrightarrow> w \<in> set (t_withdrawals s) \<and> r \<in> set (t_sequences s) \<and>
     r_WorkRef r = WorkRef WorkWithdrawal (w_WithdrawalID w) \<and>
     w_AccountNumber w = Some (r_AccountNumber r) \<and> w_Sequence w = Some (r_Sequence r)"

lemma row_unique:
  assumes "store_uniq s" "w \<in> set (t_withdrawals s)" "w' \<in> set (t_withdrawals s)"
    "w_WithdrawalID w = w_WithdrawalID w'"
  shows "w = w'"
  using assms by (auto simp: store_uniq_def uniq_withdrawals_def dest: distinct_map_inj)

lemma reservation_unique:
  assumes "store_uniq s" "r \<in> set (t_sequences s)" "r' \<in> set (t_sequences s)" "r_WorkRef r = r_WorkRef r'"
  shows "r = r'"
  using assms by (auto simp: store_uniq_def uniq_sequences_def dest: distinct_map_inj)

lemma owner_account:
  assumes "wd_inv s" "sign_ready s w r"
  shows "r_ChainID r = w_ChainID w \<and> r_SourceAddress r = w_SourceAddress w"
proof -
  have "owned s r" "r_WorkRef r = WorkRef WorkWithdrawal (w_WithdrawalID w)"
    using assms by (simp_all add: wd_inv_def sign_ready_def)
  then obtain w' where "w' \<in> set (t_withdrawals s)" "w_WithdrawalID w' = w_WithdrawalID w"
    "w_ChainID w' = r_ChainID r" "w_SourceAddress w' = r_SourceAddress r"
    unfolding owned_def by blast
  then show ?thesis using assms row_unique [of s w w'] by (auto simp: wd_inv_def sign_ready_def)
qed

lemma safe_signTx:
  assumes ready: "sign_ready s w r" and bz: "bz \<noteq> []" "h = txHashOf bz"
  shows "safe_rel s (snd (signTx now (w_WithdrawalID w) bz h (r_ID r) s))"
proof (cases "fst (signTx now (w_WithdrawalID w) bz h (r_ID r) s)")
  case (Inl e)
  then show ?thesis unfolding signTx_def by (simp only: with_tx_atomic sf.R_refl)
next
  case (Inr x)
  let ?t = "snd (signTx now (w_WithdrawalID w) bz h (r_ID r) s)"
  let ?u = "noWithdrawalUpdate\<lparr>wu_SignedTxBytes := Some bz, wu_TxHash := Some h\<rparr>"
  let ?p = "\<lambda>x. w_WithdrawalID x = w_WithdrawalID w \<and> w_Status x = WithdrawalTransactionSimulated"
  let ?f = "applyWithdrawalUpdate now WithdrawalSigned ?u"
  from Inr have run: "signTx now (w_WithdrawalID w) bz h (r_ID r) s = (Inr x, ?t)" by (metis prod.collapse)
  then obtain s1 where u1: "withdrawalRepo_UpdateStatus now (w_WithdrawalID w) WithdrawalTransactionSimulated
      WithdrawalSigned ?u s = (Inr (), s1)"
    and u2: "sequenceRepo_UpdateStatus now (r_ID r) SequenceReserved SequenceSigned s1 = (Inr (), ?t)"
    by (auto simp: signTx_def with_tx_ok_iff thenE_ok_iff)
  have s1: "s1 = t_withdrawals_update (map_where ?p ?f) s" using u1 by (simp add: wd_update_ok_iff)
  have t: "?t = t_sequences_update (map_where (\<lambda>x. r_ID x = r_ID r \<and> r_Status x = SequenceReserved)
      (\<lambda>x. x\<lparr>r_Status := SequenceSigned, r_UpdatedAt := now\<rparr>)) s1" using u2 by (simp add: seq_update_ok_iff)
  show ?thesis
  proof (rule safe_rows)
    show rows: "t_withdrawals ?t = map_where ?p ?f (t_withdrawals s)" using t s1 by simp
    show "slot_rel s ?t"
      using slot_rel_other [of s1 s] slot_seq_update_s [OF u2] s1 sl.R_trans by force
    show "uniq_rel s ?t"
      using staysD [OF uniq_wd_update u1] staysD [OF uniq_seq_update u2] uq.R_trans by blast
    show "\<forall>x \<in> set (t_sequences ?t). \<exists>y \<in> set (t_sequences s). bindKey x = bindKey y"
      by (subst t) (auto simp: s1 bindKey_def elim!: map_where_inE)
    fix x
    assume x: "wd_inv s" "x \<in> set (t_withdrawals s)" "?p x" "wd_ok s x"
    have "x = w" using x ready row_unique by (auto simp: wd_inv_def sign_ready_def)
    moreover have "w_SignedTxBytes x = []" using x by (auto simp: wd_ok_def pre_sign_status_def)
    moreover have "wd_bound ?t (?f w)"
    proof -
      let ?r = "r\<lparr>r_Status := SequenceSigned, r_UpdatedAt := now\<rparr>"
      obtain r0 where "r0 \<in> set (t_sequences s)" "r_ID r0 = r_ID r" "r_Status r0 = SequenceReserved"
        using u2 s1 by (auto simp: seq_update_ok_iff dest: find_key_member)
      then have "r_Status r = SequenceReserved" using ready x(1) distinct_map_inj [of r_ID "t_sequences s" r0 r]
        by (simp add: wd_inv_def store_uniq_def uniq_sequences_def sign_ready_def)
      then have "?r \<in> set (t_sequences ?t)"
        using ready by (subst t) (auto simp: s1 set_map_where sign_ready_def)
      then show ?thesis unfolding wd_bound_def
        by (rule bexI [rotated]) (use ready owner_account [OF x(1) ready] in \<open>simp add: sign_ready_def redeemable_def\<close>)
    qed
    ultimately show "keeps x (?f x) \<and> wd_ok ?t (?f x)"
      using x(3) bz by (auto simp: keeps_def same_request_def wd_ok_def pre_sign_status_def)
  qed
qed

lemma safe_signWith:
  assumes "raw_ok L" "sign_ready s w r"
  shows "safe_rel s (snd (signWith L now W sg w (r_ID r) utx d summary s))"
  using safe_signTx [OF assms(2)] assms(1)
    sf.from_stays [OF safe_quarantine] sf.from_stays [OF safe_quarantinePostSignature]
  unfolding signWith_def
  by (auto simp: sf.R_refl raw_ok_def split: sum.splits prod.splits dest!: Assemble_ok)

lemma safe_sign:
  assumes "raw_ok L"
  shows "stays safe_rel (Sign L now W sg k)"
  unfolding Sign_def
proof (rule safe_get, goal_cases)
  case (1 s w)
  have w: "w \<in> set (t_withdrawals s)" using find_SomeD [OF 1] by simp
  show ?case
  proof (cases "find (\<lambda>r. r_WorkRef r = WorkRef WorkWithdrawal (w_WithdrawalID w)) (t_sequences s)")
    case None
    then show ?thesis
      by (simp add: bindE_def GetByWorkRef_run controls_run sf.R_refl)
  next
    case (Some r)
    have ready: "sign_ready s w r" if "w_AccountNumber w = Some (r_AccountNumber r)" "w_Sequence w = Some (r_Sequence r)"
      using that w find_SomeD [OF Some] by (simp add: sign_ready_def)
    show ?thesis using safe_signWith [OF assms ready]
      by (simp add: bindE_def GetByWorkRef_run controls_run Some sf.R_refl cong: if_cong)
         (intro impI conjI sf.from_rules sf.from_stays [OF safe_quarantine]; auto)
  qed
qed

section \<open>Broadcast and review\<close>

lemma safe_orReturn:
  "stays safe_rel m \<Longrightarrow> (\<And>a. stays safe_rel (k a)) \<Longrightarrow> stays safe_rel (orReturn o1 m k)"
  unfolding orReturn_def by (intro sf.stays_rules)

lemma safe_advance: "to \<noteq> SequenceReleased \<Longrightarrow> stays safe_rel (advanceReservation now k from to)"
  unfolding advanceReservation_def by (intro sf.stays_rules safe_reads safe_ops) simp_all

lemma safe_consume: "stays safe_rel (consumeReservation now k)"
  unfolding consumeReservation_def by (intro sf.stays_rules safe_reads safe_ops) simp_all

lemma safe_quarantineReservation: "stays safe_rel (quarantineReservation now k from)"
  unfolding quarantineReservation_def by (intro sf.stays_rules safe_reads safe_ops) simp_all

lemma safe_reviewTx: "quiet_update from u \<Longrightarrow> stays safe_rel (reviewTx now c k from u reason st)"
  unfolding reviewTx_def by (intro sf.stays_rules safe_quarantineReservation safe_ops) simp_all

lemma safe_acceptTx: "stays safe_rel (acceptTx now k)"
  unfolding acceptTx_def by (intro sf.stays_rules safe_advance safe_ops) simp_all

lemma safe_resolveUnknown: "stays safe_rel (resolveUnknownAfterBroadcast now ch w h)"
  unfolding resolveUnknownAfterBroadcast_def
  by (intro sf.stays_rules safe_orReturn safe_acceptTx safe_reviewTx) simp_all

lemma safe_list: "stays safe_rel m \<Longrightarrow> (\<And>b bs. stays safe_rel (f b bs)) \<Longrightarrow>
  stays safe_rel (case z of [] \<Rightarrow> m | b # bs \<Rightarrow> f b bs)"
  by (simp split: list.split)

lemma safe_broadcast: "stays safe_rel (BroadcastWd now ch k)"
  unfolding BroadcastWd_def
  by (intro sf.stays_rules safe_list safe_orReturn safe_reads safe_acceptTx safe_reviewTx safe_resolveUnknown)
     (simp_all add: quiet_update_def)

lemma safe_includeTx: "stays safe_rel (includeTx now k info)"
  unfolding includeTx_def by (intro sf.stays_rules safe_consume safe_ops) (simp_all add: quiet_update_def)

lemma safe_confirmIncluded: "stays safe_rel (confirmIncluded now W ch k info)"
  unfolding confirmIncluded_def
  by (intro sf.stays_rules safe_orReturn safe_ops) (simp_all add: quiet_update_def)

lemma safe_confirmMissing: "stays safe_rel (confirmMissing now W w)"
  unfolding confirmMissing_def
  by (intro sf.stays_rules safe_orReturn safe_quarantine safe_reviewTx) simp_all

lemma safe_confirm: "stays safe_rel (Confirm now W ch k)"
  unfolding Confirm_def
  by (intro sf.stays_rules safe_orReturn safe_reads safe_includeTx safe_confirmIncluded safe_confirmMissing)

lemma safe_recover: "stays safe_rel (Recover now ch k)"
proof -
  have upd: "safe_rel s (snd (orReturn o1 (withdrawalRepo_UpdateStatus now k WithdrawalReviewRequired
      WithdrawalBroadcast noWithdrawalUpdate) (\<lambda>_. ret x) s))"
    if w: "find (\<lambda>w. w_WithdrawalID w = k) (t_withdrawals s) = Some w" "w_SignedTxBytes w \<noteq> []" for s w o1 x
    unfolding orReturn_def
  proof (intro sf.from_bindE sf.from_tryE sf.stays_rules safe_wd_update_at [OF surjective_pairing])
    fix w' assume "wd_inv s" "w' \<in> set (t_withdrawals s)" "w_WithdrawalID w' = k"
    then show "w_SignedTxBytes w' \<noteq> []"
      using w find_SomeD [OF w(1)] row_unique [of s w' w] by (auto simp: wd_inv_def)
  qed simp_all
  show ?thesis unfolding Recover_def orReturn_def [of OutcomeNone] stays_def
    by (auto simp: bindE_def tryE_run Get_run sf.R_refl upd split: option.split sum.split)
qed

lemma safe_dispose: "to \<noteq> SequenceReleased \<Longrightarrow> stays safe_rel (disposeReservation now k to)"
  unfolding disposeReservation_def by (intro sf.stays_rules safe_reads safe_ops) simp_all

lemma dispose_released:
  assumes "find (\<lambda>r. r_WorkRef r = WorkRef WorkWithdrawal k) (t_sequences s) = Some r"
    and "r_Status r = SequenceReserved \<or> r_Status r = SequenceReleased"
  shows "safe_rel s (snd (disposeReservation now k SequenceReleased s))"
  using assms sf.from_stays [OF safe_seq_update [of SequenceReleased SequenceReserved]]
  by (auto simp: disposeReservation_def bindE_def tryE_run GetByWorkRef_run sf.R_refl)

lemma wd_update_sequences:
  "withdrawalRepo_UpdateStatus now k from to u s = (x, s') \<Longrightarrow> t_sequences s' = t_sequences s"
  by (cases x) (auto simp: wd_update_ok_iff dest: wd_update_err)

text \<open>A reservation is released by a resolution only if it never left \<open>RESERVED\<close> otherwise.\<close>

lemma safe_resolution:
  assumes tgt: "reviewTarget (preSign w res) o1 = Inr (target, seqTo)"
    and res: "find (\<lambda>r. r_WorkRef r = WorkRef WorkWithdrawal k) (t_sequences s) = res"
  shows "safe_rel s (snd (thenE (withdrawalRepo_UpdateStatus now k WithdrawalReviewRequired target noWithdrawalUpdate)
       (case res of None \<Rightarrow> ret () | Some _ \<Rightarrow> disposeReservation now k seqTo) s))"
proof -
  have t: "target \<in> {WithdrawalConfirmed, WithdrawalFailed, WithdrawalCancelled}"
    and pre: "seqTo = SequenceReleased \<Longrightarrow> preSign w res"
    using tgt by (auto simp: reviewTarget_def split: reviewOutcome.splits if_splits)
  obtain x s1 where run: "withdrawalRepo_UpdateStatus now k WithdrawalReviewRequired target noWithdrawalUpdate s = (x, s1)"
    by fastforce
  have one: "safe_rel s s1" by (rule safe_wd_update_at [OF run]) (use t in auto)
  have "safe_rel s1 (snd ((case res of None \<Rightarrow> ret () | Some _ \<Rightarrow> disposeReservation now k seqTo) s1))"
  proof (cases res)
    case (Some r)
    then show ?thesis
    proof (cases "seqTo = SequenceReleased")
      case True
      then show ?thesis using Some pre res wd_update_sequences [OF run]
        by (simp add: dispose_released preSign_def)
    next
      case False
      then show ?thesis using Some sf.from_stays [OF safe_dispose] by simp
    qed
  qed (simp add: sf.R_refl)
  then show ?thesis using run one sf.R_trans by (cases x) (auto simp: thenE_def bindE_def)
qed

lemma safe_resolveWithdrawal: "stays safe_rel (resolveWithdrawalReview now k o1)"
  unfolding resolveWithdrawalReview_def
proof (rule safe_get, goal_cases)
  case (1 s w)
  obtain res where res: "find (\<lambda>r. r_WorkRef r = WorkRef WorkWithdrawal k) (t_sequences s) = res" by blast
  have read: "bindE (tryE (sequenceRepo_GetByWorkRef (WorkRef WorkWithdrawal k))) (\<lambda>g.
      bindE (case g of Inl e \<Rightarrow> if e = ErrNotFound then ret None else throw e | Inr r \<Rightarrow> ret (Some r)) f) s = f res s" for f
    using res by (simp add: bindE_def tryE_run GetByWorkRef_run split: option.splits)
  show ?case
  proof (cases "reviewTarget (preSign w res) o1")
    case (Inl e)
    then show ?thesis by (simp add: read sf.R_refl)
  next
    case (Inr y)
    obtain target seqTo where "y = (target, seqTo)" by (cases y)
    then show ?thesis using safe_resolution [OF _ res] Inr by (simp add: read sf.R_refl)
  qed
qed

lemma safe_resolveDeposit: "stays safe_rel (resolveDepositReview now k o1)"
  unfolding resolveDepositReview_def
  by (cases o1) (auto intro!: sf.stays_rules safe_reads safe_ops)

lemma safe_resolveReview: "stays safe_rel (resolveReviewItem now i o1 note at)"
proof -
  have "stays safe_rel (case kind of ReviewKindWithdrawal \<Rightarrow> resolveWithdrawalReview now k o1
        | ReviewKindDeposit \<Rightarrow> resolveDepositReview now k o1 | ReviewKindLedgerEntry \<Rightarrow> ret ()
        | ReviewItemKindOther x \<Rightarrow> throw ErrInvalidRecord)" for kind k
    by (auto intro: sf.stays_ret sf.stays_throw safe_resolveWithdrawal safe_resolveDeposit split: ReviewItemKind.split)
  then show ?thesis unfolding resolveReviewItem_def by (intro sf.stays_rules safe_reads safe_ops)
qed

section \<open>The system as a step relation\<close>

text \<open>
  One step is one call of one operation; the clock, the node, the signer, the
  configuration and the arguments are arbitrary, and the call may succeed or
  fail.  \<open>wop\<close> has the operations of the withdrawal side and the shared sequence
  manager's reconciliation.
\<close>

inductive wop :: "lib \<Rightarrow> store \<Rightarrow> store \<Rightarrow> bool" for L where
  submit: "Submit L now W req s = (r, t) \<Longrightarrow> wop L s t"
| validate: "ValidateAddress L now W k s = (r, t) \<Longrightarrow> wop L s t"
| approve: "ApproveCompliance now k s = (r, t) \<Longrightarrow> wop L s t"
| reserveFunds: "ReserveFunds now W ch k s = (r, t) \<Longrightarrow> wop L s t"
| reserveSequence: "ReserveSequence now W ch k s = (r, t) \<Longrightarrow> wop L s t"
| build: "Build L now W k s = (r, t) \<Longrightarrow> wop L s t"
| simulate: "Simulate L now W ch sg k s = (r, t) \<Longrightarrow> wop L s t"
| sign: "Sign L now W sg k s = (r, t) \<Longrightarrow> wop L s t"
| cancel: "Cancel now k s = (r, t) \<Longrightarrow> wop L s t"
| broadcast: "BroadcastWd now ch k s = (b, t) \<Longrightarrow> wop L s t"
| confirm: "Confirm now W ch k s = (b, t) \<Longrightarrow> wop L s t"
| recover: "Recover now ch k s = (b, t) \<Longrightarrow> wop L s t"
| resolve: "resolveReviewItem now i o1 note at s = (r, t) \<Longrightarrow> wop L s t"
| reconcile: "Manager_ReconcileAccount now ch c a s = (p, t) \<Longrightarrow> wop L s t"

inductive_cases wopE: "wop L s t"

lemma wop_safe:
  assumes "raw_ok L" "wop L s t"
  shows "safe_rel s t"
  using assms(2)
  by cases (blast intro: staysD safe_submit safe_validate safe_approve safe_reserveFunds safe_reserveSequence safe_build
      safe_simulate safe_sign [OF assms(1)] safe_cancel safe_broadcast safe_confirm safe_recover
      safe_resolveReview safe_reconcile)+

lemma wd_inv_empty: "wd_inv empty_store"
  by (simp add: wd_inv_def store_uniq_def uniq_withdrawals_def uniq_sequences_def uniq_sweeps_def
      activeSweeps_def uniq_deposits_def uniq_ledger_def uniq_outbox_def empty_store_def)

end
