(* ===== verification/Sweep_Safety.thy ===== *)
theory Sweep_Safety
  imports Sweeps_Steps Withdrawal_Safety Deposit_Safety
begin

text \<open>
  The sweep engine inside the whole system.  \<open>sw_inv\<close> says of every sweep job that
  its bytes, hash and status agree and that a signed one owns a redeemable
  sequence slot of its account; \<open>sw_kept\<close> that a job keeps its identity and, once
  signed, its bytes.  \<open>sys_rel\<close> is the conjunction with the relations of the
  withdrawal and the deposit side, so each operation of the engine is taken
  through all three at once.
\<close>

section \<open>Invariant and history of sweep jobs\<close>

definition sw_pre :: "SweepStatus \<Rightarrow> bool" where
  "sw_pre st \<longleftrightarrow> st = SweepPending \<or> st = SweepBuilt \<or> st = SweepDeferred \<or> st = SweepCancelled"

definition sw_bound :: "store \<Rightarrow> SweepJob \<Rightarrow> bool" where
  "sw_bound s j \<longleftrightarrow> (\<exists>r \<in> set (t_sequences s). r_WorkRef r = sweepRef (j_SweepID j) \<and> redeemable (r_Status r) \<and>
     r_ChainID r = j_ChainID j \<and> r_SourceAddress r = j_SourceAddress j)"

definition sw_ok :: "store \<Rightarrow> SweepJob \<Rightarrow> bool" where
  "sw_ok s j \<longleftrightarrow> j_TxHash j = (if j_SignedTxBytes j = [] then None else Some (txHashOf (j_SignedTxBytes j))) \<and>
     (j_SignedTxBytes j = [] \<longleftrightarrow> sw_pre (j_Status j)) \<and> (j_SignedTxBytes j \<noteq> [] \<longrightarrow> sw_bound s j)"

definition sw_owned :: "store \<Rightarrow> SequenceReservation \<Rightarrow> bool" where
  "sw_owned s r \<longleftrightarrow> (\<forall>i. r_WorkRef r = sweepRef i \<longrightarrow>
     (\<exists>j \<in> set (t_sweeps s). j_SweepID j = i \<and> j_ChainID j = r_ChainID r \<and> j_SourceAddress j = r_SourceAddress r))"

definition sw_inv :: "store \<Rightarrow> bool" where
  "sw_inv s \<longleftrightarrow> store_uniq s \<and> (\<forall>j \<in> set (t_sweeps s). sw_ok s j) \<and> (\<forall>r \<in> set (t_sequences s). sw_owned s r)"

definition same_job :: "SweepJob \<Rightarrow> SweepJob \<Rightarrow> bool" where
  "same_job j j' \<longleftrightarrow> j_SweepID j' = j_SweepID j \<and> j_IdempotencyKey j' = j_IdempotencyKey j \<and> j_ChainID j' = j_ChainID j \<and>
     j_SourceAddress j' = j_SourceAddress j \<and> j_HotWalletAddress j' = j_HotWalletAddress j \<and>
     j_Strategy j' = j_Strategy j \<and> j_AmountBaseUnits j' = j_AmountBaseUnits j \<and> j_DepositIDs j' = j_DepositIDs j"

definition sw_keeps :: "SweepJob \<Rightarrow> SweepJob \<Rightarrow> bool" where
  "sw_keeps j j' \<longleftrightarrow> same_job j j' \<and>
     (j_SignedTxBytes j \<noteq> [] \<longrightarrow> j_SignedTxBytes j' = j_SignedTxBytes j \<and> j_TxHash j' = j_TxHash j) \<and>
     sw_edge\<^sup>*\<^sup>* (j_Status j) (j_Status j')"

definition sw_kept :: "store \<Rightarrow> store \<Rightarrow> bool" where
  "sw_kept s t \<longleftrightarrow> (\<forall>j \<in> set (t_sweeps s). \<exists>j' \<in> set (t_sweeps t). sw_keeps j j') \<and> slot_rel s t"

abbreviation sweep_rel :: "store \<Rightarrow> store \<Rightarrow> bool" where
  "sweep_rel \<equiv> inv_rel sw_inv sw_kept"

lemma sw_keeps_refl [simp]: "sw_keeps j j"
  by (simp add: sw_keeps_def same_job_def)

lemma same_job_refl [simp]: "same_job j j"
  by (simp add: same_job_def)

lemma sw_keeps_trans: "sw_keeps a b \<Longrightarrow> sw_keeps b c \<Longrightarrow> sw_keeps a c"
  unfolding sw_keeps_def same_job_def by (auto intro: rtranclp_trans)

lemma sw_kept_step: "step_rel sw_kept"
proof
  fix s t u
  assume "sw_kept s t" "sw_kept t u"
  then show "sw_kept s u" unfolding sw_kept_def using sw_keeps_trans sl.R_trans by meson
qed (auto simp: sw_kept_def sl.R_refl intro: sw_keeps_refl)

interpretation sr: step_rel sweep_rel
  by (rule step_rel_inv_rel [OF sw_kept_step])

subsection \<open>Changes that keep it\<close>

lemma sw_bound_slot:
  assumes "sw_bound s j" "slot_rel s t"
  shows "sw_bound t j"
proof -
  obtain r where r: "r \<in> set (t_sequences s)" "r_WorkRef r = sweepRef (j_SweepID j)" "redeemable (r_Status r)"
    "r_ChainID r = j_ChainID j" "r_SourceAddress r = j_SourceAddress j"
    using assms(1) by (auto simp: sw_bound_def)
  then obtain r' where "r' \<in> set (t_sequences t)" "same_binding r r'" "redeemable (r_Status r')"
    using assms(2) by (auto simp: slot_rel_def)
  then show ?thesis unfolding sw_bound_def
    by (intro bexI [of _ r']) (use r in \<open>auto simp: same_binding_def slotOf_def\<close>)
qed

lemma sw_sequences:
  assumes "t_sweeps t = t_sweeps s" "slot_rel s t" "uniq_rel s t"
    and "sw_inv s \<Longrightarrow> \<forall>r \<in> set (t_sequences t). sw_owned t r"
  shows "sweep_rel s t"
proof -
  have "sw_ok t j" if "sw_ok s j" for j
    using that sw_bound_slot [OF _ assms(2)] by (auto simp: sw_ok_def)
  then have "sw_inv t" if "sw_inv s"
    using that assms(1,3) assms(4) [OF that] by (simp add: sw_inv_def uniq_rel_def)
  moreover have "sw_kept s t" unfolding sw_kept_def assms(1) using assms(2) sw_keeps_refl by blast
  ultimately show ?thesis by (simp add: inv_rel_def)
qed

text \<open>Reservations whose binding is not new belong to the sweeps they belonged to.\<close>

lemma sw_owned_bindKey:
  assumes "sw_owned s x" "bindKey r = bindKey x" "\<forall>j \<in> set (t_sweeps s). \<exists>j' \<in> set (t_sweeps t). same_job j j'"
  shows "sw_owned t r"
  using assms unfolding sw_owned_def bindKey_def same_job_def by (metis prod.inject)

lemma sw_same_sweeps:
  assumes "t_sweeps t = t_sweeps s" "slot_rel s t" "uniq_rel s t"
    and "store_uniq s \<Longrightarrow> \<forall>r \<in> set (t_sequences t). (\<exists>i. r_WorkRef r = sweepRef i) \<longrightarrow>
      (\<exists>x \<in> set (t_sequences s). bindKey r = bindKey x)"
  shows "sweep_rel s t"
proof (rule sw_sequences [OF assms(1-3)], rule ballI)
  fix r assume inv: "sw_inv s" and r: "r \<in> set (t_sequences t)"
  show "sw_owned t r"
  proof (cases "\<exists>i. r_WorkRef r = sweepRef i")
    case True
    then obtain x where "x \<in> set (t_sequences s)" "bindKey r = bindKey x"
      using assms(4) inv r by (auto simp: sw_inv_def)
    moreover from this have "sw_owned s x" using inv by (simp add: sw_inv_def)
    moreover have "\<forall>j \<in> set (t_sweeps s). \<exists>j' \<in> set (t_sweeps t). same_job j j'"
      unfolding assms(1) using same_job_refl by blast
    ultimately show ?thesis using sw_owned_bindKey by blast
  next
    case False
    then show ?thesis by (simp add: sw_owned_def)
  qed
qed

lemma sw_other: "t_sweeps t = t_sweeps s \<Longrightarrow> t_sequences t = t_sequences s \<Longrightarrow> uniq_rel s t \<Longrightarrow> sweep_rel s t"
  by (rule sw_same_sweeps) (auto simp: slot_rel_other)

lemma sw_rows:
  assumes rows: "t_sweeps t = map_where p f (t_sweeps s)" and slot: "slot_rel s t" and uq: "uniq_rel s t"
    and keys: "\<forall>r \<in> set (t_sequences t). \<exists>x \<in> set (t_sequences s). bindKey r = bindKey x"
    and row: "\<And>j. sw_inv s \<Longrightarrow> j \<in> set (t_sweeps s) \<Longrightarrow> p j \<Longrightarrow> sw_ok s j \<Longrightarrow> sw_keeps j (f j) \<and> sw_ok t (f j)"
  shows "sweep_rel s t"
  unfolding inv_rel_def
proof
  assume inv: "sw_inv s"
  have each: "sw_keeps j (if p j then f j else j) \<and> sw_ok t (if p j then f j else j)"
    if "j \<in> set (t_sweeps s)" for j
    using row [OF inv that] inv that sw_bound_slot [OF _ slot] by (auto simp: sw_inv_def sw_ok_def)
  have kept: "\<exists>j' \<in> set (t_sweeps t). sw_keeps j j'" if "j \<in> set (t_sweeps s)" for j
    using each [OF that] map_where_in [OF that, of p f] rows by metis
  have "sw_ok t j" if j: "j \<in> set (t_sweeps t)" for j
    using j each unfolding rows by (auto elim!: map_where_inE simp del: if_split)
  moreover have "sw_owned t r" if r: "r \<in> set (t_sequences t)" for r
  proof -
    obtain x where "sw_owned s x" "bindKey r = bindKey x" using keys r inv unfolding sw_inv_def by blast
    moreover have "\<forall>j \<in> set (t_sweeps s). \<exists>j' \<in> set (t_sweeps t). same_job j j'"
      using kept unfolding sw_keeps_def by blast
    ultimately show ?thesis using sw_owned_bindKey by blast
  qed
  ultimately show "sw_inv t \<and> sw_kept s t"
    using kept inv uq slot by (auto simp: sw_inv_def sw_kept_def uniq_rel_def)
qed

section \<open>The three relations together\<close>

definition sys_rel :: "store \<Rightarrow> store \<Rightarrow> bool" where
  "sys_rel s t \<longleftrightarrow> safe_rel s t \<and> sweep_rel s t \<and> credit_rel s t"

interpretation sy: step_rel sys_rel
proof unfold_locales
  fix s t u
  show "sys_rel s s" unfolding sys_rel_def using sf.R_refl sr.R_refl crd.R_refl by blast
  assume "sys_rel s t" "sys_rel t u"
  then show "sys_rel s u" unfolding sys_rel_def using sf.R_trans sr.R_trans crd.R_trans by blast
qed

lemma sys_stays: "stays safe_rel m \<Longrightarrow> stays sweep_rel m \<Longrightarrow> stays credit_rel m \<Longrightarrow> stays sys_rel m"
  by (simp add: stays_def sys_rel_def)

named_theorems sys_ops

lemma sys_reads [sys_ops]:
  "stays sys_rel (sweepRepo_Get k)" "stays sys_rel (sweepRepo_GetActive c a)"
  "stays sys_rel (sweepRepo_ListByStatus c sst n)" "stays sys_rel (sequenceRepo_GetByWorkRef ref)"
  "stays sys_rel (controlsRepo_Get c)" "stays sys_rel (depositRepo_GetByID i)"
  "stays sys_rel (depositRepo_ListByStatus c dst n)" "stays sys_rel (watchRepo_ListActive c)"
  "stays sys_rel (ledgerRepo_SumFeeFundingSpend c a h h')"
  by (rule sy.stays_unchanged, simp add: reads_unchanged)+

lemma bindKey_kept:
  assumes "r \<in> set (map_where p (\<lambda>r. r\<lparr>r_Status := to, r_UpdatedAt := now\<rparr>) rows)"
  shows "\<exists>x \<in> set rows. bindKey r = bindKey x"
proof -
  obtain x where "x \<in> set rows" "r = (if p x then x\<lparr>r_Status := to, r_UpdatedAt := now\<rparr> else x)"
    using assms by (rule map_where_inE)
  then show ?thesis by (intro bexI [of _ x]) (simp_all add: bindKey_def)
qed

lemma sys_seq_update [sys_ops]:
  assumes "to = SequenceReleased \<Longrightarrow> from = SequenceReserved"
  shows "stays sys_rel (sequenceRepo_UpdateStatus now k from to)"
proof (rule sys_stays [OF safe_seq_update [OF assms]])
  have "sweep_rel s s' \<and> credit_rel s s'" if ok: "sequenceRepo_UpdateStatus now k from to s = (Inr u, s')" for s u s'
  proof -
    have s': "s' = t_sequences_update (map_where (\<lambda>r. r_ID r = k \<and> r_Status r = from)
            (\<lambda>r. r\<lparr>r_Status := to, r_UpdatedAt := now\<rparr>)) s" using ok by (simp add: seq_update_ok_iff)
    note uq = staysD [OF uniq_seq_update ok]
    have "sweep_rel s s'"
      by (rule sw_same_sweeps [OF _ slot_seq_update_s [OF ok] uq])
         (use assms bindKey_kept in \<open>auto simp: s'\<close>)
    moreover have "credit_rel s s'" by (rule credit_frame [OF _ _ uq]) (simp_all add: s')
    ultimately show ?thesis by blast
  qed
  then show "stays sweep_rel (sequenceRepo_UpdateStatus now k from to)" "stays credit_rel (sequenceRepo_UpdateStatus now k from to)"
    using seq_update_err sr.R_refl crd.R_refl by (blast intro: stays_cases)+
qed

text \<open>An update of a job that writes no signature.\<close>

lemma sw_pre_edge: "sw_edge from to \<Longrightarrow> to \<noteq> SweepSigned \<Longrightarrow> sw_pre to = sw_pre from"
  by (cases "from") (auto simp: sw_pre_def)

lemma sys_sw_update [sys_ops]:
  assumes "to \<noteq> SweepSigned" "su_SignedTxBytes u = None" "su_TxHash u = None" "su_DepositIDs u = None"
  shows "stays sys_rel (sweepRepo_UpdateStatus now k from to u)"
proof (rule stays_cases)
  fix s s' and a :: unit
  assume ok: "sweepRepo_UpdateStatus now k from to u s = (Inr a, s')"
  let ?p = "\<lambda>j. j_SweepID j = k \<and> j_Status j = from"
  have s': "s' = t_sweeps_update (map_where ?p (applySweepUpdate now to u)) s" and edge: "sw_edge from to"
    using ok by (auto simp: sw_update_ok_iff)
  note uq = staysD [OF uniq_sw_update ok]
  have "sweep_rel s s'"
  proof (rule sw_rows [OF _ _ uq])
    show "t_sweeps s' = map_where ?p (applySweepUpdate now to u) (t_sweeps s)" "slot_rel s s'"
      "\<forall>r \<in> set (t_sequences s'). \<exists>x \<in> set (t_sequences s). bindKey r = bindKey x"
      by (auto simp: s' slot_rel_other)
    fix j assume j: "?p j" "sw_ok s j"
    show "sw_keeps j (applySweepUpdate now to u j) \<and> sw_ok s' (applySweepUpdate now to u j)"
      using j assms edge sw_pre_edge [OF edge]
      by (auto simp: sw_keeps_def same_job_def sw_ok_def sw_bound_def applySweepUpdate_def s')
  qed
  then show "sys_rel s s'"
    unfolding sys_rel_def using safe_other [OF _ _ uq] credit_frame [OF _ _ uq] by (auto simp: s')
next
  fix s e s'
  assume "sweepRepo_UpdateStatus now k from to u s = (Inl e, s')"
  then show "sys_rel s s'" using sw_update_err sy.R_refl by blast
qed

lemma sw_create_ok:
  assumes "sweepRepo_Create now j s = (Inr j', t)"
  shows "t = t_sweeps_update (\<lambda>rows. rows @ [j']) s \<and> j_Status j' = SweepPending \<and> same_job j j' \<and>
    j_SignedTxBytes j' = j_SignedTxBytes j \<and> j_TxHash j' = j_TxHash j \<and>
    \<not> (\<exists>x \<in> set (t_sweeps s). j_SweepID x = j_SweepID j) \<and>
    \<not> (\<exists>x \<in> set (t_sweeps s). \<not> SweepTerminal (j_Status x) \<and> j_ChainID x = j_ChainID j \<and> j_SourceAddress x = j_SourceAddress j)"
  using assms
  by (auto simp: sweepRepo_Create_def run_defs Let_def same_job_def split: if_splits sum.splits)

lemma sw_create_err: "sweepRepo_Create now j s = (Inl e, t) \<Longrightarrow> t = s"
  by (auto simp: sweepRepo_Create_def run_defs Let_def split: if_splits sum.splits)

lemma sys_sw_create [sys_ops]:
  assumes "j_SignedTxBytes j = []" "j_TxHash j = None"
  shows "stays sys_rel (sweepRepo_Create now j)"
proof (rule stays_cases)
  fix s j' t
  assume ok: "sweepRepo_Create now j s = (Inr j', t)"
  note uq = staysD [OF uniq_sw_create ok] and new = sw_create_ok [OF ok]
  have t: "t = t_sweeps_update (\<lambda>rows. rows @ [j']) s" using new by simp
  have "sweep_rel s t"
    unfolding inv_rel_def
  proof
    assume inv: "sw_inv s"
    have "sw_ok t j'" using new assms by (simp add: sw_ok_def sw_pre_def)
    moreover have "sw_ok t x" if "x \<in> set (t_sweeps s)" for x
      using that inv by (auto simp: sw_inv_def sw_ok_def sw_bound_def t)
    moreover have "sw_owned t r" if "r \<in> set (t_sequences s)" for r
      using that inv unfolding sw_inv_def sw_owned_def t by auto
    moreover have "\<exists>x' \<in> set (t_sweeps t). sw_keeps x x'" if "x \<in> set (t_sweeps s)" for x
      by (rule bexI [of _ x]) (use that t in simp_all)
    then have "sw_kept s t" unfolding sw_kept_def by (simp add: slot_rel_other t)
    ultimately show "sw_inv t \<and> sw_kept s t" using inv uq by (auto simp: sw_inv_def uniq_rel_def t)
  qed
  then show "sys_rel s t"
    unfolding sys_rel_def using safe_other [OF _ _ uq] credit_frame [OF _ _ uq] by (auto simp: t)
next
  fix s e t
  assume "sweepRepo_Create now j s = (Inl e, t)"
  then show "sys_rel s t" using sw_create_err sy.R_refl by blast
qed

lemma sys_dep_update [sys_ops]:
  assumes "to \<noteq> DepositCredited" "du_CreditedAt u = None"
  shows "stays sys_rel (depositRepo_UpdateStatus now k from to u)"
proof (rule sys_stays [OF safe_dep_update _ stays_credit [OF cycle_dep_update [OF assms]]])
  show "stays sweep_rel (depositRepo_UpdateStatus now k from to u)"
  proof (rule stays_cases)
    fix s t and a :: unit
    assume ok: "depositRepo_UpdateStatus now k from to u s = (Inr a, t)"
    show "sweep_rel s t" by (rule sw_other [OF _ _ staysD [OF uniq_dep_update ok]]) (use ok in \<open>auto simp: dep_update_ok_iff\<close>)
  qed (use dep_update_err sr.R_refl in blast)
qed

lemma sys_fee_spend [sys_ops]: "stays sys_rel (ledgerRepo_AppendFeeFundingSpend now f)"
proof -
  have "sys_rel s t" if run: "ledgerRepo_AppendFeeFundingSpend now f s = (r, t)" for s r t
  proof -
    have frame: "t_withdrawals t = t_withdrawals s" "t_sequences t = t_sequences s" "t_sweeps t = t_sweeps s"
      "t_deposits t = t_deposits s" "t_outbox t = t_outbox s"
      using run by (auto simp: ledgerRepo_AppendFeeFundingSpend_def run_defs Let_def split: if_splits sum.splits)
    note uq = staysD [OF uniq_ledger_ops(3) run]
    show ?thesis unfolding sys_rel_def using frame safe_other [OF _ _ uq] sw_other [OF _ _ uq] credit_frame [OF _ _ uq] by blast
  qed
  then show ?thesis by (metis prod.collapse stays_def)
qed

lemma sys_tolerate: "stays sys_rel m \<Longrightarrow> stays sys_rel (tolerateConflict m)"
  unfolding tolerateConflict_def by (intro sy.stays_rules)

lemma manager_reserve_frame: "\<exists>f. snd (Manager_Reserve now ch c a ref s) = t_sequences_update f s"
proof -
  have id: "\<exists>f. s = t_sequences_update f s" for s :: store by (intro exI [of _ id]) simp
  have tx: "\<exists>f. snd (reserveTx now c a ref an q ex s) = t_sequences_update f s" for an q ex
  proof (cases "reserveTx now c a ref an q ex s")
    case (Pair r t)
    then show ?thesis using reserveTx_ok reserveTx_err id by (cases r) fastforce+
  qed
  have new: "\<exists>f. snd (reserveNew now ch c a ref ex s) = t_sequences_update f s" for ex
    using tx id by (auto simp: reserveNew_def bindE_def tryE_run GetByWorkRef_run split: sum.splits prod.splits option.splits)
  then show ?thesis
    using id by (auto simp: Manager_Reserve_def bindE_def tryE_run GetByWorkRef_run split: option.splits)
qed

text \<open>Reserving a slot for a job of the store.\<close>

lemma sys_manager_reserve:
  assumes "j \<in> set (t_sweeps s)"
  shows "sys_rel s (snd (Manager_Reserve now ch (j_ChainID j) (j_SourceAddress j) (sweepRef (j_SweepID j)) s))"
    (is "sys_rel s ?t")
proof -
  let ?key = "(sweepRef (j_SweepID j), j_ChainID j, j_SourceAddress j)"
  have own: "store_uniq s \<Longrightarrow> own_rel ?key s ?t"
    using staysD [OF own_manager_reserve surjective_pairing] by (simp add: inv_rel_def)
  have uq: "uniq_rel s ?t" and slot: "slot_rel s ?t"
    using staysD [OF uniq_reserve_manager surjective_pairing] staysD [OF slot_manager_reserve surjective_pairing] by auto
  obtain f where f: "?t = t_sequences_update f s" using manager_reserve_frame by metis
  have owned: "sw_owned ?t r" if inv: "sw_inv s" and r: "r \<in> set (t_sequences ?t)" for r
  proof -
    have same: "\<forall>j \<in> set (t_sweeps s). \<exists>j' \<in> set (t_sweeps ?t). same_job j j'" unfolding f using same_job_refl by fastforce
    have "bindKey r = ?key \<or> (\<exists>x \<in> set (t_sequences s). bindKey r = bindKey x)"
      using own inv r by (auto simp: sw_inv_def own_rel_def)
    then show ?thesis
    proof
      assume "bindKey r = ?key"
      then show ?thesis using assms by (auto simp: sw_owned_def bindKey_def f)
    qed (use inv sw_owned_bindKey [OF _ _ same] in \<open>auto simp: sw_inv_def\<close>)
  qed
  have "sweep_rel s ?t" by (rule sw_sequences [OF _ slot uq]) (use owned f in auto)
  moreover have "safe_rel s ?t" by (rule safe_manager_reserve) simp
  moreover have "credit_rel s ?t" by (rule credit_frame [OF _ _ uq]) (simp_all add: f)
  ultimately show ?thesis by (simp add: sys_rel_def)
qed

section \<open>Signing\<close>

text \<open>The engine persists a signature for a job together with its reserved slot.\<close>

lemma sweep_row_unique:
  "store_uniq s \<Longrightarrow> j \<in> set (t_sweeps s) \<Longrightarrow> j' \<in> set (t_sweeps s) \<Longrightarrow> j_SweepID j = j_SweepID j' \<Longrightarrow> j = j'"
  by (auto simp: store_uniq_def uniq_sweeps_def dest: distinct_map_inj)

lemma sweep_account:
  assumes "sw_inv s" "j \<in> set (t_sweeps s)" "r \<in> set (t_sequences s)" "r_WorkRef r = sweepRef (j_SweepID j)"
  shows "r_ChainID r = j_ChainID j \<and> r_SourceAddress r = j_SourceAddress j"
proof -
  obtain j' where "j' \<in> set (t_sweeps s)" "j_SweepID j' = j_SweepID j" "j_ChainID j' = r_ChainID r"
    "j_SourceAddress j' = r_SourceAddress r"
    using assms(1,3,4) unfolding sw_inv_def sw_owned_def by blast
  then show ?thesis using sweep_row_unique [of s j j'] assms(1,2) by (auto simp: sw_inv_def)
qed

lemma sys_signTx:
  assumes res: "res \<in> set (t_sequences s)" "r_WorkRef res = sweepRef k" and bz: "bz \<noteq> []" "h = txHashOf bz"
  shows "sys_rel s (snd (engine_signTx now k bz h (r_ID res) s))"
proof (cases "fst (engine_signTx now k bz h (r_ID res) s)")
  case (Inl e)
  then show ?thesis unfolding engine_signTx_def by (simp only: with_tx_atomic sy.R_refl)
next
  case (Inr x)
  let ?t = "snd (engine_signTx now k bz h (r_ID res) s)"
  let ?u = "noSweepUpdate\<lparr>su_SignedTxBytes := Some bz, su_TxHash := Some h\<rparr>"
  let ?p = "\<lambda>x. j_SweepID x = k \<and> j_Status x = SweepBuilt"
  let ?f = "applySweepUpdate now SweepSigned ?u"
  from Inr have run: "engine_signTx now k bz h (r_ID res) s = (Inr x, ?t)" by (metis prod.collapse)
  then obtain s1 where u1: "sweepRepo_UpdateStatus now k SweepBuilt SweepSigned ?u s = (Inr (), s1)"
    and u2: "sequenceRepo_UpdateStatus now (r_ID res) SequenceReserved SequenceSigned s1 = (Inr (), ?t)"
    by (auto simp: engine_signTx_def with_tx_ok_iff thenE_ok_iff)
  have s1: "s1 = t_sweeps_update (map_where ?p ?f) s" using u1 by (simp add: sw_update_ok_iff)
  have t: "?t = t_sequences_update (map_where (\<lambda>x. r_ID x = r_ID res \<and> r_Status x = SequenceReserved)
      (\<lambda>x. x\<lparr>r_Status := SequenceSigned, r_UpdatedAt := now\<rparr>)) s1" using u2 by (simp add: seq_update_ok_iff)
  note uq1 = staysD [OF uniq_sw_update u1]
  have uq: "uniq_rel s ?t" using uq1 staysD [OF uniq_seq_update u2] uq.R_trans by blast
  have "sweep_rel s ?t"
  proof (rule sw_rows)
    show "t_sweeps ?t = map_where ?p ?f (t_sweeps s)" using t s1 by simp
    show "slot_rel s ?t"
      using slot_rel_other [of s1 s] slot_seq_update_s [OF u2] s1 sl.R_trans by force
    show "uniq_rel s ?t" by (rule uq)
    show "\<forall>x \<in> set (t_sequences ?t). \<exists>y \<in> set (t_sequences s). bindKey x = bindKey y"
      by (subst t) (use bindKey_kept s1 in auto)
    fix j
    assume j: "sw_inv s" "j \<in> set (t_sweeps s)" "?p j" "sw_ok s j"
    have "j_SignedTxBytes j = []" using j by (simp add: sw_ok_def sw_pre_def)
    moreover have "sw_bound ?t (?f j)"
    proof -
      let ?r = "res\<lparr>r_Status := SequenceSigned, r_UpdatedAt := now\<rparr>"
      obtain r0 where "r0 \<in> set (t_sequences s)" "r_ID r0 = r_ID res" "r_Status r0 = SequenceReserved"
        using u2 s1 by (auto simp: seq_update_ok_iff dest: find_key_member)
      then have "r_Status res = SequenceReserved" using res j(1) distinct_map_inj [of r_ID "t_sequences s" r0 res]
        by (simp add: sw_inv_def store_uniq_def uniq_sequences_def)
      then have "?r \<in> set (t_sequences ?t)" using res by (subst t) (auto simp: s1 set_map_where)
      then show ?thesis unfolding sw_bound_def
        by (rule bexI [rotated])
           (use res j sweep_account [OF j(1,2) res(1)] in \<open>simp add: redeemable_def applySweepUpdate_def\<close>)
    qed
    ultimately show "sw_keeps j (?f j) \<and> sw_ok ?t (?f j)"
      using j(3) bz by (auto simp: sw_keeps_def same_job_def sw_ok_def sw_pre_def applySweepUpdate_def noSweepUpdate_def)
  qed
  moreover have "safe_rel s s1" by (rule safe_other [OF _ _ uq1]) (simp_all add: s1)
  moreover have "safe_rel s1 ?t" by (rule staysD [OF safe_seq_update u2]) simp
  moreover note sf.R_trans [OF calculation(2,3)]
  moreover have "credit_rel s ?t" by (rule credit_frame [OF _ _ uq]) (simp_all add: t s1)
  ultimately show ?thesis by (simp add: sys_rel_def)
qed

section \<open>The operations of the engine\<close>

text \<open>Running on from the store a successful first part leaves.\<close>

context step_rel
begin

lemma from_bindE_at:
  assumes "R s (snd (m s))" "\<And>a t. m s = (Inr a, t) \<Longrightarrow> R t (snd (f a t))"
  shows "R s (snd (bindE m f s))"
proof (cases "m s")
  case (Pair r t)
  then show ?thesis using assms R_trans by (cases r) (auto simp: bindE_def)
qed

lemma from_thenE_at:
  "R s (snd (m s)) \<Longrightarrow> (\<And>a t. m s = (Inr a, t) \<Longrightarrow> R t (snd (n t))) \<Longrightarrow> R s (snd (thenE m n s))"
  unfolding thenE_def by (rule from_bindE_at)

end

lemma sys_release: "stays sys_rel (releaseUnsignedReservation now k)"
  unfolding releaseUnsignedReservation_def by (intro sy.stays_rules sys_tolerate sys_ops) simp_all

lemma sys_quarantineReservation: "stays sys_rel (engine_quarantineReservation now k from)"
  unfolding engine_quarantineReservation_def by (intro sy.stays_rules sys_tolerate sys_ops) simp_all

lemma sys_advance: "to \<noteq> SequenceReleased \<Longrightarrow> stays sys_rel (engine_advanceReservation now k from to)"
  unfolding engine_advanceReservation_def by (intro sy.stays_rules sys_tolerate sys_ops) simp_all

lemma sys_consume: "stays sys_rel (engine_consumeReservation now k)"
  unfolding engine_consumeReservation_def by (intro sy.stays_rules sys_tolerate sys_ops) simp_all

lemma sys_defer: "stays sys_rel (deferJob now k)"
  unfolding deferJob_def by (intro sy.stays_rules sys_release sys_ops) (simp_all add: noSweepUpdate_def)

lemma sys_terminate: "stays sys_rel (terminateJob now j)"
  unfolding terminateJob_def by (intro sy.stays_rules sys_release sys_ops) (simp_all add: noSweepUpdate_def)

lemma sys_cancel: "stays sys_rel (cancelJob now j)"
  unfolding cancelJob_def by (intro sy.stays_rules sys_terminate)

lemma sys_deferOrCancel: "stays sys_rel (deferOrCancel now j)"
  unfolding deferOrCancel_def by (intro sy.stays_rules sys_cancel sys_defer)

lemma sys_quarantineUnsigned: "stays sys_rel (quarantineUnsigned now res)"
  unfolding quarantineUnsigned_def by (intro sy.stays_rules sys_ops) simp_all

subsection \<open>Planning\<close>

lemma sys_createJob: "stays sys_rel (createJob L E now ch sg source balance height ids)"
proof -
  have cover: "stays sys_rel (coverDeposit now i)" for i
    unfolding coverDeposit_def by (intro sy.stays_rules sys_ops) simp_all
  have tx: "stays sys_rel (createJobTx now (newSweepJob E now source balance amount height ids))" for amount
    unfolding createJobTx_def
    by (intro sy.stays_rules cover sys_sw_create) (simp_all add: newSweepJob_def Let_def)
  show ?thesis unfolding createJob_def Let_def by (intro sy.stays_rules tx sys_defer)
qed

lemma sys_custodySettle: "stays sys_rel (custodySettle now a b)"
  unfolding custodySettle_def by (intro sy.stays_rules sys_tolerate sys_ops) simp_all

lemma sys_planSources:
  assumes "\<And>rep source. stays sys_rel (one rep source)"
  shows "stays sys_rel (planSources one sources rep)"
proof (induction sources arbitrary: rep)
  case (Cons source sources)
  show ?case unfolding planSources.simps by (intro sy.stays_rules assms Cons)
qed (simp only: planSources.simps, rule sy.stays_ret)

lemma sys_Plan: "stays sys_rel (Plan L E now ch sg)"
proof -
  have "stays sys_rel (planSource L E now ch sg h c p rep source)" for h c p rep source
    unfolding planSource_def by (intro sy.stays_rules sys_custodySettle sys_createJob sys_ops)
  from sys_planSources [OF this] show ?thesis
    unfolding Plan_def sweepableSources_def depositBacklog_def depositIDsByRecipient_def
    by (intro sy.stays_rules sys_ops)
qed

subsection \<open>Preparing\<close>

lemma manager_reserve_ok:
  assumes "Manager_Reserve now ch c a ref s = (Inr r, s')"
  shows "r \<in> set (t_sequences s') \<and> r_WorkRef r = ref"
proof -
  have new: ?thesis if "reserveNew now ch c a ref ex s = (Inr r, s')" for ex
    using that
  proof (cases rule: reserveNew_ok)
    case (tx an q)
    then show ?thesis using reserveTx_ok by blast
  next
    case raced
    then show ?thesis using find_SomeD by fast
  qed
  show ?thesis
  proof (cases "find (\<lambda>r. r_WorkRef r = ref) (t_sequences s)")
    case None
    then show ?thesis using assms new Manager_Reserve_run [of ref] Manager_Reserve_guard [OF assms] by simp
  next
    case (Some ex)
    then show ?thesis using assms new Manager_Reserve_run [of ref] Manager_Reserve_guard [OF assms] find_SomeD [OF Some]
      by (auto split: if_splits)
  qed
qed

lemma cancelJob_fails: "cancelJob now j s \<noteq> (Inr a, t)" "deferJob now k s \<noteq> (Inr a, t)"
  "deferOrCancel now j s \<noteq> (Inr a, t)"
  by (auto simp: cancelJob_def deferJob_def deferOrCancel_def thenE_ok_iff)

lemma createFunding_fails: "createFundingJob E now j k fee s \<noteq> (Inr a, t)"
  by (auto simp: createFundingJob_def bindE_ok_iff split: sum.splits if_splits)

definition feeWalletOf :: "Engine \<Rightarrow> store \<Rightarrow> string option" where
  "feeWalletOf E s = map_option wa_Address (find (\<lambda>w. wa_Kind w = WatchFeeWallet)
     (sort_key wa_Address (filter (\<lambda>x. wa_ChainID x = en_chain E \<and> wa_Active x) (t_watched s))))"

lemma feeWallet_run:
  "feeWallet E s = (case feeWalletOf E s of None \<Rightarrow> Inl ErrNoFeeWallet | Some w \<Rightarrow> Inr w, s)"
  by (simp add: feeWallet_def feeWalletOf_def watchRepo_ListActive_def bindE_def split: option.split)

definition inflightOf :: "Engine \<Rightarrow> string \<Rightarrow> store \<Rightarrow> int" where
  "inflightOf E wallet s = (case find (\<lambda>j. j_ChainID j = en_chain E \<and> j_SourceAddress j = wallet
     \<and> \<not> SweepTerminal (j_Status j)) (t_sweeps s) of
       None \<Rightarrow> 0 | Some j \<Rightarrow> if IsFundingJob j then j_AmountBaseUnits j else 0)"

lemma inflight_run: "inflightSpend E w s = (Inr (inflightOf E w s), s)"
  by (simp add: inflightSpend_def inflightOf_def sweepRepo_GetActive_def queryRow_run bindE_def tryE_run split: option.split)

lemma cap_unchanged: "snd (feeFundingCapExceeded E ch fee s) = s"
  by (auto simp: feeFundingCapExceeded_def bindE_def Let_def ledgerRepo_SumFeeFundingSpend_def feeWallet_run inflight_run
      split: sum.splits prod.splits option.splits)

text \<open>The funding gate lets a job through only without a change.\<close>

lemma checkFunding_ok: "checkFunding E now ch j balance fee s = (Inr a, t) \<Longrightarrow> t = s"
  by (auto simp: checkFunding_def Let_def bindE_ok_iff cancelJob_fails createFunding_fails tryE_run reads_unchanged
      split: if_splits sum.splits prod.splits)

lemma sys_createFunding: "stays sys_rel (createFundingJob E now j k fee)"
  unfolding createFundingJob_def feeWallet_def
  by (intro sy.stays_rules sys_ops) (simp_all add: fundingJob_def)

lemma sys_checkFunding: "stays sys_rel (checkFunding E now ch j balance fee)"
proof -
  have "stays sys_rel (feeFundingCapExceeded E ch fee)" by (rule sy.stays_unchanged) (rule cap_unchanged)
  then show ?thesis unfolding checkFunding_def Let_def
    by (intro sy.stays_rules sys_ops sys_deferOrCancel sys_createFunding)
qed

lemma sys_sign:
  assumes "raw_ok L" "res \<in> set (t_sequences s)" "r_WorkRef res = sweepRef (j_SweepID j)"
  shows "sys_rel s (snd (engine_sign L E now g j res controls fee gas s))"
proof -
  have sw: "sys_rel s (snd (engine_signWith L E now g j res utx d summary s))" for utx d summary
    using sys_signTx [OF assms(2,3)] assms(1) sy.from_stays [OF sys_quarantineUnsigned]
    unfolding engine_signWith_def
    by (auto simp: sy.R_refl raw_ok_def split: sum.splits prod.splits dest!: Assemble_ok)
  show ?thesis
    unfolding engine_sign_def
    by (intro sy.from_rules sy.from_stays [OF sys_cancel] sy.from_stays [OF sys_quarantineUnsigned] sw)
qed

lemma sys_prepareReserved:
  assumes "raw_ok L" "res \<in> set (t_sequences s)" "r_WorkRef res = sweepRef (j_SweepID j)"
  shows "sys_rel s (snd (prepareReserved L E now ch g j controls res s))"
proof -
  have sign: "sys_rel t (snd (engine_sign L E now g (j\<lparr>j_Status := SweepBuilt\<rparr>) res controls fee gas t))"
    if "t_sequences t = t_sequences s" for t fee gas
    by (rule sys_sign [OF assms(1)]) (use that assms(2,3) in simp_all)
  let ?build = "if j_Status j = SweepPending then sweepRepo_UpdateStatus now (j_SweepID j) SweepPending SweepBuilt noSweepUpdate
    else ret ()"
  have frame: "t_sequences t = t_sequences s" if "?build s = (Inr a, t)" for a t
    using that by (auto simp: sw_update_ok_iff split: if_splits)
  have build: "sys_rel s (snd (thenE ?build (engine_sign L E now g (j\<lparr>j_Status := SweepBuilt\<rparr>) res controls fee gas) s))" for fee gas
  proof (rule sy.from_thenE_at)
    show "sys_rel s (snd (?build s))"
      by (rule sy.from_stays) (intro sy.stays_rules sys_ops, simp_all add: noSweepUpdate_def)
  qed (rule sign, erule frame)
  have rest: "sys_rel s (snd (thenE (checkFunding E now ch j balance fee)
      (if coverageFailure E j balance fee \<noteq> [] then deferOrCancel now j
       else thenE ?build (engine_sign L E now g (j\<lparr>j_Status := SweepBuilt\<rparr>) res controls fee gas)) s))" for balance fee gas
  proof (rule sy.from_thenE_at [OF sy.from_stays [OF sys_checkFunding]])
    fix a t assume "checkFunding E now ch j balance fee s = (Inr a, t)"
    then have "t = s" by (rule checkFunding_ok)
    then show "sys_rel t (snd ((if coverageFailure E j balance fee \<noteq> [] then deferOrCancel now j
       else thenE ?build (engine_sign L E now g (j\<lparr>j_Status := SweepBuilt\<rparr>) res controls fee gas)) t))"
      using build by (simp add: sy.from_stays [OF sys_deferOrCancel])
  qed
  show ?thesis
  proof (cases "ch_Balance ch (j_SourceAddress j) BaseDenom")
    case bal: (Inr balance)
    show ?thesis
    proof (cases "estimateFee L E ch (Some g) (j_SourceAddress j) (destination j) (j_AmountBaseUnits j)
        (r_AccountNumber res) (r_Sequence res)")
      case est: (Inr p)
      then obtain fee gas where "p = (fee, gas)" by (cases p)
      then show ?thesis
        unfolding prepareReserved_def bal est
        by (simp only: bindE_simps prod.case)
           (intro sy.from_if sy.from_throw sy.from_stays [OF sys_deferOrCancel] rest)
    qed (simp add: prepareReserved_def bal sy.R_refl)
  qed (simp add: prepareReserved_def sy.R_refl)
qed

lemma sweepGet_run:
  "sweepRepo_Get k s = (case find (\<lambda>j. j_SweepID j = k) (t_sweeps s) of
     None \<Rightarrow> (Inl ErrNotFound, s) | Some j \<Rightarrow> (Inr j, s))"
  by (simp add: sweepRepo_Get_def queryRow_run)

lemma sys_Prepare:
  assumes "raw_ok L"
  shows "stays sys_rel (Prepare L E now ch sg k)"
  unfolding Prepare_def
proof (rule sy.stays_read)
  fix s j
  assume "sweepRepo_Get k s = (Inr j, s)"
  then have j: "j \<in> set (t_sweeps s)" by (auto simp: sweepGet_run dest: find_SomeD split: option.splits)
  let ?res = "Manager_Reserve now ch (j_ChainID j) (j_SourceAddress j) (sweepRef (j_SweepID j))"
  have go: "sys_rel s (snd (bindE (tryE ?res) (\<lambda>r. case r of
         Inl e \<Rightarrow> if e = ErrReleasedSlotUnusable then cancelJob now j else throw e
       | Inr res \<Rightarrow> prepareReserved L E now ch g j controls res) s))" for g controls
  proof (rule sy.from_bindE_at)
    show "sys_rel s (snd (tryE ?res s))" by (simp add: tryE_run sys_manager_reserve [OF j])
    fix r t
    assume "tryE ?res s = (Inr r, t)"
    then have run: "?res s = (r, t)" by (simp add: tryE_run prod_eq_iff)
    show "sys_rel t (snd ((case r of Inl e \<Rightarrow> if e = ErrReleasedSlotUnusable then cancelJob now j else throw e
       | Inr res \<Rightarrow> prepareReserved L E now ch g j controls res) t))"
      by (intro sy.from_rules sy.from_stays [OF sys_cancel] sys_prepareReserved [OF assms])
         (use manager_reserve_ok run in auto)
  qed
  show "sys_rel s (snd ((if j_Status j \<noteq> SweepPending \<and> j_Status j \<noteq> SweepBuilt then throw ErrStatusConflict
     else bindE (controlsRepo_Get (en_chain E)) (\<lambda>controls.
     if oc_SweepPaused controls then throw ErrPaused
     else case sg of
       None \<Rightarrow> throw ErrNoSigner
     | Some g \<Rightarrow> bindE (tryE ?res) (\<lambda>r. case r of
         Inl e \<Rightarrow> if e = ErrReleasedSlotUnusable then cancelJob now j else throw e
       | Inr res \<Rightarrow> prepareReserved L E now ch g j controls res))) s))"
    by (intro sy.from_if sy.from_throw sy.from_bindE_at sy.from_stays [OF sys_reads(5)])
       (auto simp: controls_run sy.R_refl intro: go split: option.split)
qed (simp add: reads_unchanged prod_eq_iff)

lemma sys_Revisit: "stays sys_rel (Revisit L E now ch sg k)"
  unfolding Revisit_def replanStaleAmount_def
  by (intro sy.stays_rules sys_ops sys_terminate) (simp_all add: noSweepUpdate_def)

subsection \<open>Broadcast and confirmation\<close>

lemma sys_acceptTx: "stays sys_rel (engine_acceptTx now k)"
  unfolding engine_acceptTx_def by (intro sy.stays_rules sys_ops sys_advance) (simp_all add: noSweepUpdate_def)

lemma sys_resolveUnknown: "stays sys_rel (engine_resolveUnknown now ch j h)"
  unfolding engine_resolveUnknown_def
  by (intro sy.stays_rules sys_acceptTx sys_quarantineReservation)

lemma sys_rejectTx: "stays sys_rel (rejectTx now k code)"
  unfolding rejectTx_def by (intro sy.stays_rules sys_ops sys_quarantineReservation) (simp_all add: noSweepUpdate_def)

lemma sys_list: "stays sys_rel m \<Longrightarrow> (\<And>b bs. stays sys_rel (f b bs)) \<Longrightarrow>
    stays sys_rel (case xs of [] \<Rightarrow> m | b # bs \<Rightarrow> f b bs)"
  by (simp split: list.split)

lemma sys_Broadcast: "stays sys_rel (Engine_Broadcast E now ch k)"
  unfolding Engine_Broadcast_def
  by (intro sy.stays_rules sys_list sys_ops sys_resolveUnknown sys_rejectTx sys_acceptTx)

lemma sys_markSwept: "stays sys_rel (markSwept now h i)"
  unfolding markSwept_def by (intro sy.stays_rules sys_tolerate sys_ops) simp_all

lemma sys_recordSpend: "stays sys_rel (recordFeeFundingSpend now j h)"
  unfolding recordFeeFundingSpend_def by (intro sy.stays_rules sys_ops)

lemma sys_confirmTx: "stays sys_rel (confirmTx now j h info)"
  unfolding confirmTx_def markDepositsSwept_def
  by (intro sy.stays_rules sys_ops sys_consume sys_markSwept sys_recordSpend) (simp_all add: noSweepUpdate_def)

lemma sys_failTx: "stays sys_rel (failTx now k info)"
  unfolding failTx_def by (intro sy.stays_rules sys_ops sys_consume) (simp_all add: noSweepUpdate_def)

lemma sys_Confirm: "stays sys_rel (Engine_Confirm E now ch k)"
  unfolding Engine_Confirm_def
  by (intro sy.stays_rules sys_ops sys_quarantineReservation sys_failTx sys_confirmTx)

lemma sys_Recover: "stays sys_rel (Engine_Recover now ch k)"
  unfolding Engine_Recover_def by (intro sy.stays_rules sys_ops) (simp_all add: noSweepUpdate_def)

lemma sys_Pass:
  assumes "raw_ok L"
  shows "stays sys_rel (Pass L E now ch sg)"
proof -
  have job: "stays sys_rel (passJob step errs j)" if "\<And>i. stays sys_rel (step i)" for step errs j
    unfolding passJob_def by (intro sy.stays_rules that)
  have "stays sys_rel (foldE (passStage E) stages errs)" if "\<forall>p \<in> set stages. \<forall>i. stays sys_rel (snd p i)" for stages errs
    using that
  proof (induction stages arbitrary: errs)
    case (Cons p stages)
    then have "stays sys_rel (passStage E errs p)" unfolding passStage_def by (intro sy.stays_rules sys_ops job) auto
    then show ?case using Cons unfolding foldE.simps by (intro sy.stays_bindE) auto
  qed (simp only: foldE.simps, rule sy.stays_ret)
  moreover have "\<forall>p \<in> set (passSteps L E now ch sg). \<forall>i. stays sys_rel (snd p i)"
    unfolding passSteps_def
    by (auto intro: sys_Prepare [OF assms] sys_Broadcast sys_Confirm sy.stays_thenE sys_Revisit sy.stays_ret)
  ultimately have all: "stays sys_rel (foldE (passStage E) (passSteps L E now ch sg) errs)" for errs by blast
  show ?thesis unfolding Pass_def by (intro all sy.stays_rules sys_Plan)
qed

end
