(* ===== verification/System_Safety.thy ===== *)
theory System_Safety
  imports Sweep_Safety
begin

text \<open>
  The whole system as one step relation: the withdrawal operations, the deposit
  scanner, the sweep engine and the dispatcher, interleaved in any order with
  any node, signer, clock and configuration.  Each component's invariant
  survives the steps of the others, because none of them writes the tables or
  re-binds the sequence slots of another.
\<close>

section \<open>What the components leave alone\<close>

text \<open>The withdrawal side writes no sweep, binds no slot to one and credits nothing.\<close>

definition no_sweep :: "store \<Rightarrow> store \<Rightarrow> bool" where
  "no_sweep s t \<longleftrightarrow> t_sweeps t = t_sweeps s \<and>
     (\<forall>r \<in> set (t_sequences t). (\<exists>i. r_WorkRef r = sweepRef i) \<longrightarrow> (\<exists>x \<in> set (t_sequences s). bindKey r = bindKey x))"

definition wframe :: "store \<Rightarrow> store \<Rightarrow> bool" where
  "wframe s t \<longleftrightarrow> inv_rel store_uniq no_sweep s t \<and> credit_rel s t"

lemma bindKey_ref: "bindKey r = bindKey x \<Longrightarrow> r_WorkRef r = r_WorkRef x"
  by (simp add: bindKey_def)

interpretation nsw: step_rel "inv_rel store_uniq no_sweep"
proof (rule step_rel_inv_rel, unfold_locales)
  fix s t u
  assume "no_sweep s t" "no_sweep t u"
  then show "no_sweep s u" unfolding no_sweep_def using bindKey_ref by metis
qed (auto simp: no_sweep_def)

interpretation wfr: step_rel wframe
proof unfold_locales
  fix s t u
  show "wframe s s" unfolding wframe_def using nsw.R_refl crd.R_refl by blast
  assume "wframe s t" "wframe t u"
  then show "wframe s u" unfolding wframe_def using nsw.R_trans crd.R_trans by blast
qed

named_theorems wframe_ops

lemma wframe_other:
  "t_sweeps t = t_sweeps s \<Longrightarrow> t_sequences t = t_sequences s \<Longrightarrow> uniq_rel s t \<Longrightarrow> credit_rel s t \<Longrightarrow> wframe s t"
  by (auto simp: wframe_def inv_rel_def no_sweep_def uniq_rel_def)

lemma stays_wframe_other:
  assumes "stays uniq_rel m" "stays credit_rel m"
    and "\<And>s. t_sweeps (snd (m s)) = t_sweeps s" "\<And>s. t_sequences (snd (m s)) = t_sequences s"
  shows "stays wframe m"
  using assms wframe_other by (simp add: stays_def)

lemma wframe_reads [wframe_ops]:
  "stays wframe (withdrawalRepo_Get k)" "stays wframe (withdrawalRepo_GetByIdempotencyKey k)"
  "stays wframe (sequenceRepo_GetByWorkRef ref)" "stays wframe (sequenceRepo_ListUnconsumed c a)"
  "stays wframe (controlsRepo_Get c)" "stays wframe (withdrawalRepo_SumCommittedBySource c a)"
  "stays wframe (reviewRepo_Get i)" "stays wframe (depositRepo_GetByID i)" "stays wframe (sweepRepo_Get k)"
  by (rule wfr.stays_unchanged, simp add: reads_unchanged)+

lemma wframe_seq_update [wframe_ops]: "stays wframe (sequenceRepo_UpdateStatus now k from to)"
proof (rule stays_cases)
  fix s s' and a :: unit
  assume ok: "sequenceRepo_UpdateStatus now k from to s = (Inr a, s')"
  then show "wframe s s'"
    using staysD [OF uniq_seq_update ok] staysD [OF stays_credit [OF cycle_seq_update] ok] bindKey_kept
    unfolding wframe_def by (auto simp: inv_rel_def [of store_uniq] uniq_rel_def no_sweep_def seq_update_ok_iff)
qed (use seq_update_err wfr.R_refl in blast)

lemma wframe_wd_update [wframe_ops]: "stays wframe (withdrawalRepo_UpdateStatus now k from to u)"
proof (rule stays_cases)
  fix s s' and a :: unit
  assume ok: "withdrawalRepo_UpdateStatus now k from to u s = (Inr a, s')"
  show "wframe s s'" by (rule wframe_other [OF _ _ staysD [OF uniq_wd_update ok] staysD [OF stays_credit [OF cycle_wd_update] ok]]) (use ok in \<open>auto simp: wd_update_ok_iff\<close>)
qed (use wd_update_err wfr.R_refl in blast)

lemma wframe_dep_update [wframe_ops]:
  assumes "to \<noteq> DepositCredited" "du_CreditedAt u = None"
  shows "stays wframe (depositRepo_UpdateStatus now k from to u)"
proof (rule stays_cases)
  fix s s' and a :: unit
  assume ok: "depositRepo_UpdateStatus now k from to u s = (Inr a, s')"
  show "wframe s s'" by (rule wframe_other [OF _ _ staysD [OF uniq_dep_update ok] staysD [OF stays_credit [OF cycle_dep_update [OF assms]] ok]]) (use ok in \<open>auto simp: dep_update_ok_iff\<close>)
qed (use dep_update_err wfr.R_refl in blast)

lemma wframe_inserts [wframe_ops]:
  "stays wframe (withdrawalRepo_Create now w)" "stays wframe (reviewRepo_Open now item)"
  "stays wframe (reviewRepo_Resolve now i res at)"
proof -
  have "stays credit_rel (withdrawalRepo_Create now w)"
    by (rule stays_credit, rule stays_frame [OF uniq_wd_create])
       (auto simp: withdrawalRepo_Create_def run_defs Let_def split: sum.splits)
  then show "stays wframe (withdrawalRepo_Create now w)"
    by (rule stays_wframe_other [OF uniq_wd_create])
       (auto simp: withdrawalRepo_Create_def run_defs Let_def split: sum.splits)
  show "stays wframe (reviewRepo_Open now item)"
    by (rule stays_wframe_other [OF uniq_review_open stays_credit [OF cycle_appends(3)]])
       (auto simp: reviewRepo_Open_def run_defs Let_def)
  show "stays wframe (reviewRepo_Resolve now i res at)"
    by (rule stays_wframe_other [OF uniq_review_resolve stays_credit [OF cycle_appends(5)]])
       (auto simp: reviewRepo_Resolve_def reviewRepo_Get_def run_defs Let_def split: sum.splits prod.splits option.splits)
qed

lemma wframe_reserve [wframe_ops]: "stays wframe (Manager_Reserve now ch c a (WorkRef WorkWithdrawal i))"
proof -
  have "wframe s t" if run: "Manager_Reserve now ch c a (WorkRef WorkWithdrawal i) s = (r, t)" for s r t
  proof -
    obtain f where "t = t_sequences_update f s" using manager_reserve_frame run by (metis snd_conv)
    then have t: "t_sweeps t = t_sweeps s" "t_deposits t = t_deposits s" "t_outbox t = t_outbox s" by simp_all
    have "uniq_rel s t" by (rule staysD [OF uniq_reserve_manager run])
    then show ?thesis
      using t staysD [OF own_manager_reserve run] credit_frame [of t s]
      by (auto simp: wframe_def inv_rel_def [of store_uniq] own_rel_def no_sweep_def uniq_rel_def bindKey_def)
  qed
  then show ?thesis by (metis prod.collapse stays_def)
qed

lemma wframe_quarantine [wframe_ops]:
  "stays wframe (quarantine now W k from reason)" "stays wframe (quarantinePostSignature now W k from i reason)"
  unfolding quarantine_def quarantinePostSignature_def by (intro wfr.stays_rules wframe_ops)+

lemma wframe_orReturn: "stays wframe m \<Longrightarrow> (\<And>a. stays wframe (k a)) \<Longrightarrow> stays wframe (orReturn o1 m k)"
  unfolding orReturn_def by (intro wfr.stays_rules)

lemma wframe_gas:
  "(\<And>e. stays wframe (f e)) \<Longrightarrow> (\<And>q. stays wframe (g q)) \<Longrightarrow> (\<And>a b. stays wframe (h a b)) \<Longrightarrow>
   stays wframe (case z of GasError e \<Rightarrow> f e | GasQuarantine q \<Rightarrow> g q | GasOk a b \<Rightarrow> h a b)"
  by (simp split: gasOutcome.split)

lemma wframe_list: "stays wframe m \<Longrightarrow> (\<And>b bs. stays wframe (f b bs)) \<Longrightarrow>
    stays wframe (case xs of [] \<Rightarrow> m | b # bs \<Rightarrow> f b bs)"
  by (simp split: list.split)

lemma wframe_workflow:
  "stays wframe (Submit L now W req)" "stays wframe (ValidateAddress L now W k)" "stays wframe (ApproveCompliance now k)"
  "stays wframe (ReserveFunds now W ch k)" "stays wframe (ReserveSequence now W ch k)" "stays wframe (Build L now W k)"
  "stays wframe (Simulate L now W ch sg k)" "stays wframe (Sign L now W sg k)" "stays wframe (Cancel now k)"
  unfolding Submit_def ValidateAddress_def ApproveCompliance_def ReserveFunds_def ReserveSequence_def Build_def
    Simulate_def Sign_def signWith_def signTx_def Cancel_def Let_def
  by (intro wfr.stays_rules wframe_gas wframe_ops)+

lemma wframe_reservations [wframe_ops]:
  "stays wframe (advanceReservation now k from to)" "stays wframe (consumeReservation now k)"
  "stays wframe (quarantineReservation now k from)" "stays wframe (disposeReservation now k to)"
  unfolding advanceReservation_def consumeReservation_def quarantineReservation_def disposeReservation_def
  by (intro wfr.stays_rules wframe_ops)+

lemma wframe_broadcast:
  "stays wframe (BroadcastWd now ch k)" "stays wframe (Confirm now W ch k)" "stays wframe (Recover now ch k)"
  unfolding BroadcastWd_def Confirm_def Recover_def resolveUnknownAfterBroadcast_def reviewTx_def acceptTx_def
    includeTx_def confirmIncluded_def confirmMissing_def
  by (intro wfr.stays_rules wframe_orReturn wframe_list wframe_ops)+

lemma wframe_review: "stays wframe (resolveReviewItem now i o1 nt at)"
proof -
  have "stays wframe (resolveWithdrawalReview now k o1)" for k
    unfolding resolveWithdrawalReview_def by (intro wfr.stays_rules wframe_ops)
  moreover have "stays wframe (resolveDepositReview now k o1)" for k
    unfolding resolveDepositReview_def
    by (cases o1; cases "ParseInt64 k"; simp only: option.case reviewOutcome.case; intro wfr.stays_rules wframe_ops; simp)
  ultimately have "stays wframe (case kind of ReviewKindWithdrawal \<Rightarrow> resolveWithdrawalReview now k o1
        | ReviewKindDeposit \<Rightarrow> resolveDepositReview now k o1 | ReviewKindLedgerEntry \<Rightarrow> ret ()
        | ReviewItemKindOther x \<Rightarrow> throw ErrInvalidRecord)" for kind k
    by (auto intro: wfr.stays_ret wfr.stays_throw split: ReviewItemKind.split)
  then show ?thesis unfolding resolveReviewItem_def by (intro wfr.stays_rules wframe_ops)
qed

lemma wframe_reconcile: "stays wframe (Manager_ReconcileAccount now ch c a)"
proof -
  have "stays wframe (resolve ch r)" for r by (rule wfr.stays_unchanged) (simp add: resolve_run)
  then have "stays wframe (reconcileOne now ch rep r)" for rep r
    unfolding reconcileOne_def by (intro wfr.stays_rules wframe_ops)
  then show ?thesis unfolding Manager_ReconcileAccount_def by (intro wfr.stays_rules wframe_ops)
qed

lemma wop_wframe: "wop L s t \<Longrightarrow> wframe s t"
  by (erule wop.cases)
     (blast intro: staysD wframe_workflow wframe_broadcast wframe_review wframe_reconcile)+

text \<open>The deposit side writes no withdrawal, no reservation and no sweep.\<close>

definition dside :: "store \<Rightarrow> store \<Rightarrow> bool" where
  "dside s t \<longleftrightarrow> t_withdrawals t = t_withdrawals s \<and> t_sequences t = t_sequences s \<and> t_sweeps t = t_sweeps s"

interpretation ds: step_rel dside
  by unfold_locales (auto simp: dside_def)

named_theorems dside_ops

lemma stays_dside: "(\<And>s. dside s (snd (m s))) \<Longrightarrow> stays dside m"
  by (simp add: stays_def)

lemma dside_reads [dside_ops]:
  "stays dside (depositRepo_Get c1 h m i a)" "stays dside (depositRepo_GetByID j)"
  "stays dside (depositRepo_ListByStatus c1 st n)" "stays dside (checkpointRepo_Get c1)"
  "stays dside (watchRepo_ListActive c1)" "stays dside (controlsRepo_Get c1)"
  "stays dside (chainReviewRepo_HasOpen c1)" "stays dside (chainReviewRepo_ListOpen c1)"
  by (rule ds.stays_unchanged, simp add: reads_unchanged)+

lemma dside_writes [dside_ops]:
  "stays dside (ledgerRepo_Append now e)" "stays dside (ledgerRepo_AppendFeeOutflow now f)"
  "stays dside (reviewRepo_Open now item)" "stays dside (checkpointRepo_Set now cp)"
  "stays dside (chainReviewRepo_Open now cond)" "stays dside (outboxRepo_Enqueue now ev)"
  "stays dside (outboxRepo_MarkDispatched now i at)"
  by (rule stays_dside, auto simp: dside_def ledgerRepo_Append_def ledgerRepo_AppendFeeOutflow_def
      reviewRepo_Open_def checkpointRepo_Set_def chainReviewRepo_Open_def outboxRepo_Enqueue_def
      outboxRepo_MarkDispatched_def run_defs Let_def amountText_cases)+

lemma dside_insert [dside_ops]: "stays dside (depositRepo_Insert now d)"
  by (rule stays_dside) (auto simp: dside_def depositRepo_Insert_def run_defs Let_def amountText_cases)

lemma dside_update [dside_ops]: "stays dside (depositRepo_UpdateStatus now k from to u)"
proof (rule stays_cases)
  fix s s' and a :: unit
  assume "depositRepo_UpdateStatus now k from to u s = (Inr a, s')"
  then show "dside s s'" by (auto simp: dep_update_ok_iff dside_def)
qed (use dep_update_err ds.R_refl in blast)

lemma dside_controls [dside_ops]: "stays dside (controlsRepo_Apply now ch u a r)"
proof -
  have "dside s (snd (controlsRepo_Apply now ch u a r s))" for s
  proof -
    obtain cur where "controlsRepo_Get ch s = (Inr cur, s)" using controls_current by blast
    moreover obtain cur' changes where "applyControls u cur = (cur', changes)" by (cases "applyControls u cur")
    moreover obtain f where "forE changes (insertAudit now ch a r) x = (Inr (), t_audit_update (f x) x)" for x
      using forE_audit by metis
    ultimately show ?thesis
      by (simp add: controlsRepo_Apply_def bindE_def thenE_def with_tx_def Let_def dside_def)
  qed
  then show ?thesis by (rule stays_dside)
qed

lemma dside_routeDeposit: "stays dside (routeDeposit now tc pol i out)"
  unfolding routeDeposit_def Let_def by (intro ds.stays_rules dside_ops)

lemma dside_RecordBlock: "stays dside (RecordBlock now bp pol)"
  unfolding RecordBlock_def recordTransfer_def recordFee_def recordUnattributed_def recordDeposit_def appendFresh_def
    openLedgerReview_def Let_def
  by (intro ds.stays_rules dside_ops dside_routeDeposit)

lemma dside_creditPass: "stays dside (creditPass E now cfg lt gate xs)"
proof (induction xs)
  case (Cons d xs)
  have "stays dside (CreditDeposit E now d)"
    unfolding CreditDeposit_def LoadCreditGate_def by (intro ds.stays_rules dside_ops)
  then show ?case unfolding creditPass.simps
    by (auto intro!: ds.stays_rules dside_ops Cons split: CreditDecision.split)
qed (simp add: stays_def ds.R_refl)

lemma dside_processPending: "stays dside (processPending E now cfg lt)"
  unfolding processPending_def LoadCreditGate_def resumeSuspended_def unpark_def confirmDeposit_def Let_def
  by (intro ds.stays_rules dside_ops dside_creditPass)

lemma dside_orphan:
  "stays dside (openChainReviewOnce now cfg i tr a b)" "stays dside (orphanFlow now cfg F i h e g)"
  "stays dside (wrongChain now cfg i blk)"
  unfolding openChainReviewOnce_def orphanFlow_def wrongChain_def Let_def
  by (intro ds.stays_rules dside_ops)+

lemma dside_resolveCursor: "stays dside (resolveCursor now cfg F fb lt)"
  unfolding resolveCursor_def by (intro ds.stays_rules dside_ops)

lemma dside_scanLoop: "stays dside (scanLoop n K now cfg F i lt h e)"
proof (induction n arbitrary: h e)
  case (Suc n)
  have "stays dside (fetchParse K cfg F h)" unfolding fetchParse_def loadWatch_def by (intro ds.stays_rules dside_ops)
  then show ?case unfolding scanLoop.simps by (intro ds.stays_rules dside_orphan dside_RecordBlock Suc)
qed (simp add: ds.stays_throw)

lemma dside_Cycle: "stays dside (Cycle K E now cfg F i fb)"
  unfolding Cycle_def
  by (intro ds.stays_rules dside_orphan dside_resolveCursor dside_scanLoop dside_processPending)

lemma dside_RescanFrom: "stays dside (RescanFrom now cfg h actor reason)"
  unfolding RescanFrom_def by (intro ds.stays_rules dside_ops)

section \<open>The system\<close>

text \<open>
  One call of any operation of any component.  \<open>elsewhere\<close> stands for the writes
  to the remaining tables (watched addresses, controls, reconciliation reports,
  archived results).
\<close>

inductive sysstep :: "lib \<Rightarrow> store \<Rightarrow> store \<Rightarrow> bool" for L where
  withdrawal: "wop L s t \<Longrightarrow> sysstep L s t"
| cycle: "Cycle K E now cfg F i fb s = (c, t) \<Longrightarrow> sysstep L s t"
| rescan: "RescanFrom now cfg h actor reason s = (r, t) \<Longrightarrow> sysstep L s t"
| dispatch: "outboxRepo_MarkDispatched now i at s = (r, t) \<Longrightarrow> sysstep L s t"
| plan: "Plan L G now ch sg s = (p, t) \<Longrightarrow> sysstep L s t"
| prepare: "Prepare L G now ch sg k s = (r, t) \<Longrightarrow> sysstep L s t"
| revisit: "Revisit L G now ch sg k s = (r, t) \<Longrightarrow> sysstep L s t"
| sweepBroadcast: "Engine_Broadcast G now ch k s = (b, t) \<Longrightarrow> sysstep L s t"
| sweepConfirm: "Engine_Confirm G now ch k s = (b, t) \<Longrightarrow> sysstep L s t"
| sweepRecover: "Engine_Recover now ch k s = (b, t) \<Longrightarrow> sysstep L s t"
| pass: "Pass L G now ch sg s = (p, t) \<Longrightarrow> sysstep L s t"
| elsewhere: "dside s t \<Longrightarrow> t_deposits t = t_deposits s \<Longrightarrow> t_outbox t = t_outbox s \<Longrightarrow> store_uniq t \<Longrightarrow> sysstep L s t"

inductive_cases sysstepE: "sysstep L s t"

abbreviation syssteps :: "lib \<Rightarrow> store \<Rightarrow> store \<Rightarrow> bool" where
  "syssteps L \<equiv> (sysstep L)\<^sup>*\<^sup>*"

definition sys_inv :: "store \<Rightarrow> bool" where
  "sys_inv s \<longleftrightarrow> wd_inv s \<and> sw_inv s \<and> credit_inv s"

definition sys_kept :: "store \<Rightarrow> store \<Rightarrow> bool" where
  "sys_kept s t \<longleftrightarrow> kept_rel s t \<and> sw_kept s t \<and> keeps_deposits s t"

abbreviation system_rel :: "store \<Rightarrow> store \<Rightarrow> bool" where
  "system_rel \<equiv> inv_rel sys_inv sys_kept"

interpretation sm: step_rel system_rel
proof (rule step_rel_inv_rel, unfold_locales)
  fix s t u
  show "sys_kept s s"
    using kept_rel_step sw_kept_step keeps_deposits_refl by (simp add: sys_kept_def step_rel_def)
  assume "sys_kept s t" "sys_kept t u"
  then show "sys_kept s u"
    using kept_rel_step sw_kept_step keeps_deposits_trans unfolding sys_kept_def step_rel_def by blast
qed

lemma system_of_sys: "sys_rel s t \<Longrightarrow> system_rel s t"
  by (simp add: sys_rel_def inv_rel_def sys_inv_def sys_kept_def)

lemma system_of_wop:
  assumes "raw_ok L" "wop L s t"
  shows "system_rel s t"
  unfolding inv_rel_def
proof
  assume inv: "sys_inv s"
  have w: "wframe s t" by (rule wop_wframe [OF assms(2)])
  have k: "wd_inv t" "kept_rel s t" using wop_safe [OF assms] inv by (simp_all add: inv_rel_def sys_inv_def)
  have "credit_inv t" "keeps_deposits s t" using w inv by (simp_all add: wframe_def inv_rel_def sys_inv_def)
  moreover have "store_uniq s" using inv by (simp add: sys_inv_def wd_inv_def)
  then have "no_sweep s t" using w by (simp add: wframe_def inv_rel_def)
  then have "sweep_rel s t"
    using k sw_same_sweeps [of t s] unfolding no_sweep_def kept_rel_def wd_inv_def uniq_rel_def by blast
  ultimately show "sys_inv t \<and> sys_kept s t"
    using k inv by (simp add: sys_inv_def sys_kept_def inv_rel_def)
qed

lemma system_of_dside:
  assumes "dside s t" "credit_rel s t"
  shows "system_rel s t"
  unfolding inv_rel_def
proof
  assume inv: "sys_inv s"
  then have c: "credit_inv t" "keeps_deposits s t" using assms(2) by (simp_all add: inv_rel_def sys_inv_def)
  then have "uniq_rel s t" by (simp add: uniq_rel_def credit_inv_def)
  then have "safe_rel s t" "sweep_rel s t" using assms(1) safe_other sw_other by (simp_all add: dside_def)
  then show "sys_inv t \<and> sys_kept s t" using c inv by (simp add: sys_inv_def sys_kept_def inv_rel_def)
qed

lemma sysstep_system:
  assumes "raw_ok L" "sysstep L s t"
  shows "system_rel s t"
  using assms(2)
proof cases
  case withdrawal
  then show ?thesis by (rule system_of_wop [OF assms(1)])
next
  case cycle
  show ?thesis by (rule system_of_dside [OF staysD [OF dside_Cycle cycle] dstep_credit [OF dstep.cycle [OF cycle]]])
next
  case rescan
  show ?thesis by (rule system_of_dside [OF staysD [OF dside_RescanFrom rescan] dstep_credit [OF dstep.rescan [OF rescan]]])
next
  case dispatch
  show ?thesis by (rule system_of_dside [OF staysD [OF dside_writes(7) dispatch] staysD [OF credit_dispatch dispatch]])
next
  case elsewhere
  show ?thesis by (rule system_of_dside [OF elsewhere(1) dstep_credit [OF dstep.elsewhere [OF elsewhere(2-4)]]])
qed (blast intro: system_of_sys staysD sys_Plan sys_Prepare [OF assms(1)] sys_Revisit sys_Broadcast sys_Confirm
    sys_Recover sys_Pass [OF assms(1)])+

lemma syssteps_system:
  assumes "raw_ok L" "syssteps L s t"
  shows "system_rel s t"
  using assms(2) by (induction rule: rtranclp_induct) (auto intro: sm.R_refl sm.R_trans sysstep_system [OF assms(1)])

lemma sys_inv_empty: "sys_inv empty_store"
  using wd_inv_empty credit_inv_empty
  by (simp add: sys_inv_def sw_inv_def wd_inv_def empty_store_def)

lemma reachable_sys_inv: "raw_ok L \<Longrightarrow> syssteps L empty_store s \<Longrightarrow> sys_inv s"
  using syssteps_system sys_inv_empty by (auto simp: inv_rel_def)

end
