(* ===== verification/Withdrawal_Fixtures.thy ===== *)
theory Withdrawal_Fixtures
  imports Withdrawal_Safety
begin

text \<open>
  A concrete world for the withdrawal properties: a library that knows two
  accounts and two transactions, a signer with one key, a configuration, and
  the run of one withdrawal from the request to the signature.  Nothing here
  models code.
\<close>

definition ex_key :: bytes where "ex_key = 2 # replicate 32 5"
definition ex_hot :: bytes where "ex_hot = replicate 20 1"
definition ex_dest :: bytes where "ex_dest = replicate 20 4"
definition ex_sig :: bytes where "ex_sig = replicate 64 6"

definition ex_send :: MsgSend where
  "ex_send = \<lparr>ms_FromAddress = ''hot'', ms_ToAddress = ''dest'',
     ms_Amount = [\<lparr>c_Denom = ''usovr'', c_Amount = Some 100\<rparr>]\<rparr>"

text \<open>The transfer of a sweep from \<open>hot\<close> to \<open>dest\<close>, with sequence 6 and no fee.\<close>

definition ex_sweepSend :: MsgSend where
  "ex_sweepSend = ex_send\<lparr>ms_Amount := [\<lparr>c_Denom = ''usovr'', c_Amount = Some 1000\<rparr>]\<rparr>"

definition ex_auth :: "Coin list \<Rightarrow> uint64 \<Rightarrow> uint64 \<Rightarrow> AuthInfo" where
  "ex_auth coins gas sq = \<lparr>ai_SignerInfos = [\<lparr>si_PublicKey = Some \<lparr>any_TypeUrl = secp256k1PubKeyTypeURL, any_Value = [8]\<rparr>,
       si_ModeInfo = Some (ModeSingle ''SIGN_MODE_DIRECT''), si_Sequence = sq\<rparr>],
     ai_Fee = Some \<lparr>f_Amount = coins, f_GasLimit = gas, f_Payer = [], f_Granter = []\<rparr>, ai_Tip = False\<rparr>"

definition ex_body :: TxBody where
  "ex_body = \<lparr>tb_Messages = [\<lparr>any_TypeUrl = MsgSendTypeURL, any_Value = [7]\<rparr>], tb_Memo = ''m'', tb_TimeoutHeight = 0,
     tb_Unordered = False, tb_TimeoutTimestamp = None, tb_ExtensionOptions = [], tb_NonCriticalExtensionOptions = []\<rparr>"

definition ex_sweepBody :: TxBody where
  "ex_sweepBody = ex_body\<lparr>tb_Messages := [\<lparr>any_TypeUrl = MsgSendTypeURL, any_Value = [17]\<rparr>], tb_Memo := []\<rparr>"

definition ex_coins :: "Coin list" where
  "ex_coins = [\<lparr>c_Denom = ''usovr'', c_Amount = Some 33\<rparr>]"

definition ex_doc :: "bytes \<Rightarrow> SignDocMsg option" where
  "ex_doc d = (if d = [3] then Some \<lparr>sd_BodyBytes = [1], sd_AuthInfoBytes = [2], sd_ChainId = ''sovr-1'', sd_AccountNumber = 7\<rparr>
     else if d = [5] then Some \<lparr>sd_BodyBytes = [1], sd_AuthInfoBytes = [4], sd_ChainId = ''sovr-1'', sd_AccountNumber = 7\<rparr>
     else if d = [13] then Some \<lparr>sd_BodyBytes = [11], sd_AuthInfoBytes = [12], sd_ChainId = ''sovr-1'', sd_AccountNumber = 7\<rparr>
     else None)"

definition ex_lib :: lib where
  "ex_lib = \<lparr>
     DecodeAndConvert = (\<lambda>a. if a = ''hot'' then Some (''sovr'', ex_hot) else if a = ''dest'' then Some (''sovr'', ex_dest) else None),
     ConvertAndEncode = (\<lambda>h p. if h \<noteq> ''sovr'' then None else if p = ex_hot then Some ''hot''
        else if p = ex_dest then Some ''dest'' else None),
     ModuleAddr = (\<lambda>n. replicate 20 9),
     VerifySignature = (\<lambda>k m sg. k = ex_key \<and> sg = ex_sig),
     PubKeyAddress = (\<lambda>k. if k = ex_key then ex_hot else replicate 20 9),
     NewIntFromString = (\<lambda>s. if digits_re s then Some (int (read_nat s)) else None),
     StringToBytes = (\<lambda>a. if a = ''hot'' then Some ex_hot else if a = ''dest'' then Some ex_dest else None),
     BytesToString = (\<lambda>p. if p = ex_hot then Some ''hot'' else if p = ex_dest then Some ''dest'' else None),
     StrictSignDoc = ex_doc, UnmarshalSignDoc = ex_doc,
     StrictTxBody = (\<lambda>b. if b = [1] then Some ex_body else if b = [11] then Some ex_sweepBody else None),
     StrictAuthInfo = (\<lambda>a. if a = [2] then Some (ex_auth ex_coins 13 5)
        else if a = [4] then Some (ex_auth [] 20 5) else if a = [12] then Some (ex_auth [] 13 6) else None),
     UnmarshalMsgSend = (\<lambda>v. if v = [7] then Some ex_send else if v = [17] then Some ex_sweepSend else None),
     UnmarshalPubKey = (\<lambda>v. if v = [8] then Some ex_key else None),
     EncodeTx = (\<lambda>send memo gas coins key sq. if send = ex_send \<and> memo = ''m'' \<and> key = ex_key \<and> sq = 5 then
        (if gas = 13 \<and> coins = ex_coins then Some ([1], [2])
         else if gas = 20 \<and> coins = [] then Some ([1], [4]) else None)
        else if send = ex_sweepSend \<and> memo = [] \<and> key = ex_key \<and> sq = 6 \<and> gas = 13 \<and> coins = [] then Some ([11], [12]) else None),
     GetSignBytes = (\<lambda>c n b a. if c = ''sovr-1'' \<and> n = 7 \<and> b = [1] then
        (if a = [2] then Some [3] else if a = [4] then Some [5] else None)
        else if c = ''sovr-1'' \<and> n = 7 \<and> b = [11] \<and> a = [12] then Some [13] else None),
     MarshalTxRaw = (\<lambda>b a sigs. Some (10 # b @ a))\<rparr>"

lemma ex_raw_ok [simp]: "raw_ok ex_lib"
  by (simp add: raw_ok_def ex_lib_def)

definition ex_cfg :: Config where
  "ex_cfg = \<lparr>cfg_ChainID = ''sovr-1'', cfg_MinimumWithdrawalUsovr = ''1'', cfg_MaxFeeUsovr = ''50'',
     cfg_GasAdjustment = ''1.3'', cfg_GasPriceUsovr = ''2.5'', cfg_SimulateUnavailable = SimulateQueue,
     cfg_StaticGasLimit = 20, cfg_BroadcastTimeout = 15000000000, cfg_Confirmations = 2,
     cfg_ProhibitedDestinations = [], cfg_KeyRefForSource = None\<rparr>"

definition ex_W :: workflow where
  "ex_W = \<lparr>wf_cfg = ex_cfg, wf_pcfg = \<lparr>pc_minWithdrawal = 1, pc_maxFee = 50, pc_gasAdjustment = \<lparr>dec_num = 13, dec_den = 10\<rparr>,
     pc_gasPrice = \<lparr>dec_num = 25, dec_den = 10\<rparr>\<rparr>, wf_deny = []\<rparr>"

definition ex_signer :: signer where
  "ex_signer = \<lparr>sg_GetPublicKey = (\<lambda>k. if k = ''hot'' then Inr ex_key else Inl (SignerErr ''UNKNOWN_KEY'')),
     sg_Sign = (\<lambda>q. Inr \<lparr>sr_Signature = ex_sig, sr_PubKeyCompressed = ex_key\<rparr>)\<rparr>"

definition ex_req :: Request where
  "ex_req = \<lparr>q_WithdrawalID = ''w1'', q_IdempotencyKey = ''k1'', q_SourceAddress = ''hot'',
     q_DestinationAddress = ''dest'', q_AmountBaseUnits = ''100'', q_Memo = ''m''\<rparr>"

lemma ex_parsed: "parseConfig ex_lib ex_cfg = Inr (wf_pcfg ex_W)"
  by code_simp

lemma ex_workflow: "newWorkflow ex_lib ex_cfg = Inr ex_W"
  using ex_parsed by (simp add: newWorkflow_def ex_W_def ex_cfg_def)

section \<open>One withdrawal, from the request to the signature\<close>

definition ex_node :: chain where
  "ex_node = ex_chain (\<lambda>h. Inl ClientErrNotFound)"

definition ex_w0 :: WithdrawalRecord where
  "ex_w0 = (ex_wd WithdrawalRequested [])\<lparr>w_AccountNumber := None, w_Sequence := None, w_GasWanted := None,
     w_GasLimit := None, w_FeeAmountBaseUnits := None, w_UpdatedAt := 10\<rparr>"

definition ex_at :: "WithdrawalStatus \<Rightarrow> WithdrawalRecord" where
  "ex_at st = ex_w0\<lparr>w_Status := st, w_UpdatedAt := 20\<rparr>"

definition ex_bound :: "WithdrawalStatus \<Rightarrow> WithdrawalRecord" where
  "ex_bound st = (ex_at st)\<lparr>w_AccountNumber := Some 7, w_Sequence := Some 5\<rparr>"

definition ex_slot :: "SequenceReservationStatus \<Rightarrow> SequenceReservation" where
  "ex_slot st = (ex_res st)\<lparr>r_CreatedAt := 20\<rparr>"

definition ex_st :: "WithdrawalRecord \<Rightarrow> SequenceReservation list \<Rightarrow> store" where
  "ex_st w rs = empty_store\<lparr>t_withdrawals := [w], t_sequences := rs\<rparr>"

lemma run_submit: "Submit ex_lib 10 ex_W ex_req empty_store = (Inr ex_w0, ex_st ex_w0 [])"
  by code_simp

lemma run_validate: "ValidateAddress ex_lib 20 ex_W ''w1'' (ex_st ex_w0 []) =
    (Inr (), ex_st (ex_at WithdrawalAddressValidated) [])"
  by code_simp

lemma run_approve: "ApproveCompliance 20 ''w1'' (ex_st (ex_at WithdrawalAddressValidated) []) =
    (Inr (), ex_st (ex_at WithdrawalComplianceApproved) [])"
  by code_simp

lemma run_reserveFunds: "ReserveFunds 20 ex_W ex_node ''w1'' (ex_st (ex_at WithdrawalComplianceApproved) []) =
    (Inr (), ex_st (ex_at WithdrawalFundsReserved) [])"
  by code_simp

lemma run_reserveSequence: "ReserveSequence 20 ex_W ex_node ''w1'' (ex_st (ex_at WithdrawalFundsReserved) []) =
    (Inr (), ex_st (ex_bound WithdrawalSequenceReserved) [ex_slot SequenceReserved])"
  by code_simp

lemma run_build: "Build ex_lib 20 ex_W ''w1'' (ex_st (ex_bound WithdrawalSequenceReserved) [ex_slot SequenceReserved]) =
    (Inr (), ex_st (ex_bound WithdrawalTransactionBuilt) [ex_slot SequenceReserved])"
  by code_simp

lemma run_simulate: "Simulate ex_lib 20 ex_W ex_node ex_signer ''w1''
      (ex_st (ex_bound WithdrawalTransactionBuilt) [ex_slot SequenceReserved]) =
    (Inr (), ex_st (ex_wd WithdrawalTransactionSimulated []) [ex_slot SequenceReserved])"
  by code_simp

definition ex_utx :: UnsignedTx where
  "ex_utx = \<lparr>u_from = ''hot'', u_to = ''dest'', u_fromBytes = ex_hot, u_amount = 100, u_memo = ''m'',
     u_pubKeyCompressed = [], u_bodyBytes = [], u_authInfoBytes = [], u_signDocBytes = []\<rparr>"

definition ex_utx_signed :: UnsignedTx where
  "ex_utx_signed = ex_utx\<lparr>u_pubKeyCompressed := ex_key, u_bodyBytes := [1], u_authInfoBytes := [2], u_signDocBytes := [3]\<rparr>"

definition ex_summary :: SigningSummary where
  "ex_summary = \<lparr>ss_ChainID = ''sovr-1'', ss_AccountNumber = ''7'', ss_Sequence = ''5'', ss_MessageType = MsgSendTypeURL,
     ss_SenderAddress = ''hot'', ss_RecipientAddress = ''dest'', ss_AmountBaseUnits = ''100'', ss_Denom = ''usovr'',
     ss_FeeBaseUnits = ''33'', ss_GasLimit = ''13'', ss_Memo = ''m''\<rparr>"

lemma run_buildFor: "buildFor ex_lib (ex_wd WithdrawalTransactionSimulated []) = Inr ex_utx"
  by code_simp

lemma run_signDoc: "SignDoc ex_lib ex_utx ''sovr-1'' 7 5 \<lparr>fee_AmountBaseUnits = show_int 33, fee_GasLimit = 13\<rparr> ex_key =
    Inr ([3], ex_summary, ex_utx_signed)"
  by code_simp

lemma run_mismatch: "summaryMismatch ex_W (ex_wd WithdrawalTransactionSimulated []) 5 7 33 ex_summary = []"
  by code_simp

lemma run_verify: "VerifySignedResponse ex_lib [3] \<lparr>sr_Signature = ex_sig, sr_PubKeyCompressed = ex_key\<rparr> ''hot'' = Inr ()"
  by code_simp

lemma run_assemble: "Assemble ex_lib ex_utx_signed \<lparr>sr_Signature = ex_sig, sr_PubKeyCompressed = ex_key\<rparr> =
    Inr ([10, 1, 2], txHashOf [10, 1, 2])"
  by (simp add: Assemble_def ex_utx_signed_def ex_utx_def ex_lib_def ex_hot_def ex_key_def ex_sig_def
      compressedKey_def numeral_nat)

lemma run_signTx: "signTx 20 ''w1'' [10, 1, 2] (txHashOf [10, 1, 2]) 1
      (ex_st (ex_wd WithdrawalTransactionSimulated []) [ex_slot SequenceReserved]) =
    (Inr (), ex_st (ex_wd WithdrawalSigned [10, 1, 2]) [ex_slot SequenceSigned])"
  by (simp add: signTx_def with_tx_ok_iff thenE_ok_iff wd_update_ok_iff seq_update_ok_iff ex_st_def ex_slot_def
      ex_defs map_where_def applyWithdrawalUpdate_def noWithdrawalUpdate_def)

lemma run_sign: "Sign ex_lib 20 ex_W ex_signer ''w1''
      (ex_st (ex_wd WithdrawalTransactionSimulated []) [ex_slot SequenceReserved]) =
    (Inr (), ex_st (ex_wd WithdrawalSigned [10, 1, 2]) [ex_slot SequenceSigned])"
proof -
  let ?s = "ex_st (ex_wd WithdrawalTransactionSimulated []) [ex_slot SequenceReserved]"
  let ?w = "ex_wd WithdrawalTransactionSimulated []"
  have get: "withdrawalRepo_Get ''w1'' ?s = (Inr ?w, ?s)" "controlsRepo_Get ''sovr-1'' ?s = (Inr (zeroControls ''sovr-1''), ?s)"
    "sequenceRepo_GetByWorkRef (WorkRef WorkWithdrawal ''w1'') ?s = (Inr (ex_slot SequenceReserved), ?s)"
    by (simp_all add: Get_run controls_run GetByWorkRef_run ex_st_def ex_slot_def ex_defs)
  have w: "w_Status ?w = WithdrawalTransactionSimulated" "w_ChainID ?w = ''sovr-1''" "w_WithdrawalID ?w = ''w1''"
    "w_AccountNumber ?w = Some 7" "w_Sequence ?w = Some 5" "w_FeeAmountBaseUnits ?w = Some 33" "w_GasLimit ?w = Some 13"
    "w_SourceAddress ?w = ''hot''"
    by (simp_all add: ex_defs)
  have r: "r_Status (ex_slot SequenceReserved) = SequenceReserved" "r_AccountNumber (ex_slot SequenceReserved) = 7"
    "r_Sequence (ex_slot SequenceReserved) = 5" "r_ID (ex_slot SequenceReserved) = 1"
    by (simp_all add: ex_slot_def ex_defs)
  have key: "senderPubKey ex_W ex_signer ''hot'' = Inr ex_key" by code_simp
  have sig: "sg_Sign ex_signer q = Inr \<lparr>sr_Signature = ex_sig, sr_PubKeyCompressed = ex_key\<rparr>" for q
    by (simp add: ex_signer_def)
  show ?thesis
    by (simp add: Sign_def bindE_def get w r zeroControls_def
        run_buildFor key run_signDoc run_mismatch signWith_def sig run_verify run_assemble run_signTx)
qed

end
