(* ===== verification/Sweep_Fixtures.thy ===== *)
theory Sweep_Fixtures
  imports System_Safety Withdrawal_Fixtures
begin

text \<open>
  A run of the whole system on concrete values: the signed withdrawal of
  \<open>Withdrawal_Fixtures\<close>, then a sweep of the same account planned and signed,
  with the next sequence number.  The identifier of the sweep, a hash, is never
  computed.  Nothing here models code.
\<close>

definition ex_ecfg :: EngineConfig where
  "ex_ecfg = \<lparr>ec_ChainID = ''sovr-1'', ec_Strategy = StrategyThresholdOnly, ec_HotWallet = ''dest'',
     ec_MinimumSweepAmountUsovr = ''1'', ec_MaximumFeePercentageForSweep = ''10'', ec_FeeReserveUsovr = ''0'',
     ec_FeeWalletMaxSpendUsovr = [], ec_FeeWalletSpendWindowBlocks = 0, ec_GasAdjustment = ''1.3'',
     ec_GasPriceUsovr = ''0'', ec_SimulateUnavailable = SimulateQueue, ec_StaticGasLimit = 13,
     ec_BroadcastTimeout = 15000000000, ec_Confirmations = 2, ec_KeyRefForSource = None\<rparr>"

definition ex_engine :: Engine where
  "ex_engine = \<lparr>en_cfg = ex_ecfg, en_pcfg = \<lparr>pe_minSweep = 1, pe_maxFeePct = \<lparr>dec_num = 10, dec_den = 1\<rparr>, pe_feeReserve = 0,
     pe_feeWalletMaxSpend = 0, pe_gasAdj = \<lparr>dec_num = 13, dec_den = 10\<rparr>, pe_gasPrice = \<lparr>dec_num = 0, dec_den = 1\<rparr>\<rparr>\<rparr>"

lemma ex_newEngine: "newEngine ex_lib ex_ecfg = Inr ex_engine"
proof -
  have "parseEngineConfig ex_lib ex_ecfg = Inr (en_pcfg ex_engine)" by code_simp
  then show ?thesis by (simp add: newEngine_def ex_engine_def ex_ecfg_def)
qed

definition ex_node6 :: chain where
  "ex_node6 = (ex_chain (\<lambda>h. Inl ClientErrNotFound))\<lparr>ch_Account := (\<lambda>a. Inr (7, 6))\<rparr>"

definition ex_idem :: string where
  "ex_idem = IdempotencyKey ''sovr-1'' ''hot'' 1000 50"

definition ex_job :: "SweepStatus \<Rightarrow> time \<Rightarrow> bytes \<Rightarrow> SweepJob" where
  "ex_job st at bz =
     \<lparr>j_SweepID = sweepIDFor ex_idem, j_IdempotencyKey = ex_idem, j_ChainID = ''sovr-1'', j_SourceAddress = ''hot'',
      j_HotWalletAddress = ''dest'', j_Strategy = StrategyThresholdOnly, j_AmountBaseUnits = 1000,
      j_FeeReserveBaseUnits = 0, j_DepositIDs = [], j_SignedTxBytes = bz,
      j_TxHash = (if bz = [] then None else Some (txHashOf bz)), j_TxCode = None, j_Status = st,
      j_CreatedAt = 40, j_UpdatedAt = at\<rparr>"

definition ex_slot6 :: "SequenceReservationStatus \<Rightarrow> SequenceReservation" where
  "ex_slot6 st = \<lparr>r_ID = 2, r_ChainID = ''sovr-1'', r_SourceAddress = ''hot'', r_AccountNumber = 7, r_Sequence = 6,
     r_WorkRef = sweepRef (sweepIDFor ex_idem), r_Status = st, r_CreatedAt = 50, r_UpdatedAt = 50\<rparr>"

definition ex_watch :: WatchedAddress where
  "ex_watch = \<lparr>wa_ChainID = ''sovr-1'', wa_Address = ''hot'', wa_Kind = WatchCustomerDeposit, wa_CustomerRef = [],
     wa_MemoRequired = False, wa_Active = True\<rparr>"

definition ex_sys :: "SweepJob list \<Rightarrow> SequenceReservation list \<Rightarrow> store" where
  "ex_sys js rs = empty_store\<lparr>t_withdrawals := [ex_wd WithdrawalSigned [10, 1, 2]],
     t_sequences := ex_slot SequenceSigned # rs, t_watched := [ex_watch], t_sweeps := js\<rparr>"

lemma run_planFee: "planFeeAmount ex_lib ex_engine ex_node6 (Some ex_signer) ''hot'' ''dest'' 1000 7 6 = Inr (Some 1000, 0, [])"
  by code_simp

lemma run_newJob: "newSweepJob ex_engine 40 ''hot'' 1000 1000 50 [] = (ex_job (SweepStatusOther []) 40 [])"
  by (simp add: newSweepJob_def ex_engine_def ex_ecfg_def ex_job_def ex_idem_def Let_def)

lemma sweepID_nonempty: "sweepIDFor k \<noteq> []"
  by (simp add: sweepIDFor_def)

lemma run_plan: "Plan ex_lib ex_engine 40 ex_node6 (Some ex_signer) (ex_sys [] []) =
    (Inr (emptyPlan\<lparr>pr_JobsCreated := [sweepIDFor ex_idem]\<rparr>, None), ex_sys [ex_job SweepPending 40 []] [])"
proof -
  let ?s = "ex_sys [] []"
  have reads: "controlsRepo_Get ''sovr-1'' ?s = (Inr (zeroControls ''sovr-1''), ?s)"
    "sweepableSources ex_engine ?s = (Inr [''hot''], ?s)"
    "depositBacklog ex_engine ?s = (Inr (\<lambda>_. [], \<lambda>_. []), ?s)"
    "sweepRepo_GetActive ''sovr-1'' ''hot'' ?s = (Inl ErrNotFound, ?s)"
    by (simp_all add: controls_run sweepableSources_def watchRepo_ListActive_def bindE_def ex_sys_def ex_watch_def
        ex_engine_def ex_ecfg_def depositBacklog_def depositIDsByRecipient_def depositRepo_ListByStatus_def
        limit_rows_def sweepRepo_GetActive_def queryRow_def empty_store_def)
  have node: "ch_Account ex_node6 a = Inr (7, 6)" "ch_Balance ex_node6 a d = Inr 1000"
    "planHeight ex_engine ex_node6 = Inr 50" for a d
    by (simp_all add: ex_node6_def ex_chain_def planHeight_def ex_engine_def ex_ecfg_def)
  have cfg: "en_chain ex_engine = ''sovr-1''" "ec_HotWallet (en_cfg ex_engine) = ''dest''"
    "ec_Strategy (en_cfg ex_engine) = StrategyThresholdOnly" "pe_minSweep (en_pcfg ex_engine) = 1"
    by (simp_all add: ex_engine_def ex_ecfg_def)
  have create: "createJobTx 40 (ex_job (SweepStatusOther []) 40 []) ?s = (Inr (), ex_sys [ex_job SweepPending 40 []] [])"
    by (simp add: createJobTx_def with_tx_def thenE_def bindE_def sweepRepo_Create_def ex_job_def sweepID_nonempty
        ex_idem_def IdempotencyKey_def ex_sys_def insertRow_def amountText_def fmtTime_def AllSweepStrategies_def
        Let_def empty_store_def)
  show ?thesis
    by (simp add: Plan_def planSource_def bindE_def tryE_def reads node cfg createJob_def run_planFee run_newJob create
        zeroControls_def Let_def thenE_def) (simp add: ex_job_def emptyPlan_def)
qed

lemma run_sweepReserve:
  "Manager_Reserve 50 ex_node6 ''sovr-1'' ''hot'' (sweepRef (sweepIDFor ex_idem)) (ex_sys [ex_job SweepPending 40 []] []) =
    (Inr (ex_slot6 SequenceReserved), ex_sys [ex_job SweepPending 40 []] [ex_slot6 SequenceReserved])"
proof -
  let ?s = "ex_sys [ex_job SweepPending 40 []] []"
  have reads: "sequenceRepo_GetByWorkRef (sweepRef (sweepIDFor ex_idem)) ?s = (Inl ErrNotFound, ?s)"
    "sequenceRepo_ListUnconsumed ''sovr-1'' ''hot'' ?s = (Inr [ex_slot SequenceSigned], ?s)"
    "ch_Account ex_node6 ''hot'' = Inr (7, 6)" "nextSequence 6 [ex_slot SequenceSigned] = 6"
    by (simp_all add: GetByWorkRef_run sequenceRepo_ListUnconsumed_def openReservation_def ex_sys_def ex_slot_def ex_res_def
        ex_node6_def nextSequence_def)
  have "sequenceRepo_Reserve 50 (newReservation ''sovr-1'' ''hot'' 7 6 (sweepRef (sweepIDFor ex_idem))) ?s =
      (Inr (ex_slot6 SequenceReserved), ex_sys [ex_job SweepPending 40 []] [ex_slot6 SequenceReserved])"
    by (simp add: sequenceRepo_Reserve_def newReservation_def AllWorkKinds_def sweepID_nonempty with_tx_def bindE_def thenE_def
        ex_sys_def ex_slot_def ex_res_def ex_slot6_def nextID_def nextRowID_def insertRow_def fmtTime_def Let_def empty_store_def)
  then show ?thesis
    by (simp add: Manager_Reserve_def AllWorkKinds_def sweepID_nonempty reserveNew_def reserveTx_def bindE_def tryE_def
        with_tx_def reads)
qed

definition ex_sweepTx :: UnsignedTx where
  "ex_sweepTx = \<lparr>u_from = ''hot'', u_to = ''dest'', u_fromBytes = ex_hot, u_amount = 1000, u_memo = [],
     u_pubKeyCompressed = [], u_bodyBytes = [], u_authInfoBytes = [], u_signDocBytes = []\<rparr>"

definition ex_sweepSigned :: UnsignedTx where
  "ex_sweepSigned = ex_sweepTx\<lparr>u_pubKeyCompressed := ex_key, u_bodyBytes := [11], u_authInfoBytes := [12], u_signDocBytes := [13]\<rparr>"

definition ex_sweepSummary :: SigningSummary where
  "ex_sweepSummary = ex_summary\<lparr>ss_Sequence := ''6'', ss_AmountBaseUnits := ''1000'', ss_FeeBaseUnits := ''0'', ss_Memo := []\<rparr>"

lemma run_sweepBuild: "BuildMsgSend ex_lib ''hot'' ''dest'' (show_int 1000) [] = Inr ex_sweepTx"
  by code_simp

lemma run_sweepDoc: "SignDoc ex_lib ex_sweepTx ''sovr-1'' 7 6 \<lparr>fee_AmountBaseUnits = show_int 0, fee_GasLimit = 13\<rparr> ex_key =
    Inr ([13], ex_sweepSummary, ex_sweepSigned)"
  by code_simp

lemma run_sweepFee: "estimateFee ex_lib ex_engine ex_node6 (Some ex_signer) ''hot'' ''dest'' 1000 7 6 = Inr (0, 13)"
  by code_simp

lemma run_sweepVerify: "VerifySignedResponse ex_lib [13] \<lparr>sr_Signature = ex_sig, sr_PubKeyCompressed = ex_key\<rparr> ''hot'' = Inr ()"
  by code_simp

lemma run_sweepAssemble: "Assemble ex_lib ex_sweepSigned \<lparr>sr_Signature = ex_sig, sr_PubKeyCompressed = ex_key\<rparr> =
    Inr ([10, 11, 12], txHashOf [10, 11, 12])"
  by (simp add: Assemble_def ex_sweepSigned_def ex_sweepTx_def ex_lib_def ex_hot_def ex_key_def ex_sig_def
      compressedKey_def numeral_nat)

lemma run_sweepMismatch: "engine_summaryMismatch (ex_job SweepBuilt at []) (ex_slot6 SequenceReserved) 0 ex_sweepSummary = []"
proof -
  have "show_int 1000 = ''1000''" "show_int 0 = ''0''" "show_u64 6 = ''6''" "show_u64 7 = ''7''" by code_simp+
  then show ?thesis
    by (simp add: engine_summaryMismatch_def ex_job_def ex_slot6_def ex_sweepSummary_def ex_summary_def destination_def BaseDenom_def)
qed

lemma run_sweepSign:
  "engine_sign ex_lib ex_engine 50 ex_signer ((ex_job SweepPending 40 [])\<lparr>j_Status := SweepBuilt\<rparr>) (ex_slot6 SequenceReserved)
      (zeroControls ''sovr-1'') 0 13 (ex_sys [ex_job SweepBuilt 50 []] [ex_slot6 SequenceReserved]) =
    (Inr (), ex_sys [ex_job SweepSigned 50 [10, 11, 12]] [ex_slot6 SequenceSigned])"
proof -
  have job: "(ex_job SweepPending 40 [])\<lparr>j_Status := SweepBuilt\<rparr> = ex_job SweepBuilt 40 []" by (simp add: ex_job_def)
  have key: "engine_senderPubKey ex_engine (Some ex_signer) ''hot'' = Inr ex_key" by code_simp
  have sig: "sg_Sign ex_signer q = Inr \<lparr>sr_Signature = ex_sig, sr_PubKeyCompressed = ex_key\<rparr>" for q
    by (simp add: ex_signer_def)
  have j: "j_SourceAddress (ex_job SweepBuilt 40 []) = ''hot''" "destination (ex_job SweepBuilt 40 []) = ''dest''"
    "j_AmountBaseUnits (ex_job SweepBuilt 40 []) = 1000" "j_ChainID (ex_job SweepBuilt 40 []) = ''sovr-1''"
    "j_SweepID (ex_job SweepBuilt 40 []) = sweepIDFor ex_idem" "r_AccountNumber (ex_slot6 SequenceReserved) = 7"
    "r_Sequence (ex_slot6 SequenceReserved) = 6" "r_ID (ex_slot6 SequenceReserved) = 2"
    by (simp_all add: ex_job_def destination_def ex_slot6_def)
  have "engine_signTx 50 (sweepIDFor ex_idem) [10, 11, 12] (txHashOf [10, 11, 12]) 2
      (ex_sys [ex_job SweepBuilt 50 []] [ex_slot6 SequenceReserved]) =
    (Inr (), ex_sys [ex_job SweepSigned 50 [10, 11, 12]] [ex_slot6 SequenceSigned])"
    by (simp add: engine_signTx_def with_tx_ok_iff thenE_ok_iff sw_update_ok_iff seq_update_ok_iff ex_sys_def ex_slot_def
      ex_res_def ex_slot6_def ex_job_def map_where_def applySweepUpdate_def noSweepUpdate_def empty_store_def)
  then show ?thesis
    by (simp add: job engine_sign_def zeroControls_def j run_sweepBuild key run_sweepDoc run_sweepMismatch engine_signWith_def
        sig run_sweepVerify run_sweepAssemble)
qed

lemma run_prepare: "Prepare ex_lib ex_engine 50 ex_node6 (Some ex_signer) (sweepIDFor ex_idem) (ex_sys [ex_job SweepPending 40 []] []) =
    (Inr (), ex_sys [ex_job SweepSigned 50 [10, 11, 12]] [ex_slot6 SequenceSigned])"
proof -
  let ?s = "ex_sys [ex_job SweepPending 40 []]" and ?j = "ex_job SweepPending 40 []"
  have j: "j_Status ?j = SweepPending" "j_ChainID ?j = ''sovr-1''" "j_SourceAddress ?j = ''hot''" "destination ?j = ''dest''"
    "j_SweepID ?j = sweepIDFor ex_idem" "j_AmountBaseUnits ?j = 1000" "j_Strategy ?j = StrategyThresholdOnly"
    by (simp_all add: ex_job_def destination_def)
  have r: "r_Status (ex_slot6 SequenceReserved) = SequenceReserved" "r_AccountNumber (ex_slot6 SequenceReserved) = 7"
    "r_Sequence (ex_slot6 SequenceReserved) = 6" by (simp_all add: ex_slot6_def)
  have reads: "sweepRepo_Get (sweepIDFor ex_idem) (?s []) = (Inr ?j, ?s [])"
    "controlsRepo_Get ''sovr-1'' (?s []) = (Inr (zeroControls ''sovr-1''), ?s [])"
    by (simp_all add: sweepGet_run controls_run ex_sys_def j empty_store_def)
  have eco: "economicsFailure ex_engine ?j 0 = []" "coverageFailure ex_engine ?j 1000 0 = []"
    by (simp_all add: economicsFailure_def coverageFailure_def feeWithinPercentage_def j reserveFor_def ex_engine_def IsFundingJob_def)
  have built: "sweepRepo_UpdateStatus 50 (sweepIDFor ex_idem) SweepPending SweepBuilt noSweepUpdate (?s rs) =
      (Inr (), ex_sys [ex_job SweepBuilt 50 []] rs)" for rs
    by (simp add: sw_update_ok_iff ex_sys_def ex_job_def map_where_def applySweepUpdate_def noSweepUpdate_def empty_store_def)
  have env: "en_chain ex_engine = ''sovr-1''" "ch_Balance ex_node6 ''hot'' d = Inr 1000" for d
    by (simp_all add: ex_engine_def ex_ecfg_def ex_node6_def ex_chain_def)
  show ?thesis
    by (simp add: Prepare_def bindE_def reads j env zeroControls_def tryE_def run_sweepReserve prepareReserved_def r run_sweepFee eco
        checkFunding_def thenE_def built run_sweepSign [unfolded zeroControls_def])
qed

text \<open>Every step of the run, from the empty store.\<close>

lemma syssteps_step: "sysstep L s t \<Longrightarrow> syssteps L t u \<Longrightarrow> syssteps L s u"
  by (rule converse_rtranclp_into_rtranclp)

lemma syssteps_wop: "wop L s t \<Longrightarrow> syssteps L t u \<Longrightarrow> syssteps L s u"
  by (rule syssteps_step [OF sysstep.withdrawal])

lemma ex_sys_reachable: "syssteps ex_lib empty_store (ex_sys [ex_job SweepSigned 50 [10, 11, 12]] [ex_slot6 SequenceSigned])"
proof -
  have uq: "store_uniq (ex_sys [] [])"
    by (simp add: ex_sys_def ex_slot_def ex_defs store_uniq_def uniq_withdrawals_def uniq_sequences_def uniq_sweeps_def
      activeSweeps_def uniq_deposits_def uniq_ledger_def uniq_outbox_def)
  have watch: "sysstep ex_lib (ex_st (ex_wd WithdrawalSigned [10, 1, 2]) [ex_slot SequenceSigned]) (ex_sys [] [])"
    by (rule sysstep.elsewhere [OF _ _ _ uq]) (simp_all add: dside_def ex_st_def ex_sys_def empty_store_def)
  have "syssteps ex_lib (ex_st (ex_wd WithdrawalSigned [10, 1, 2]) [ex_slot SequenceSigned])
      (ex_sys [ex_job SweepSigned 50 [10, 11, 12]] [ex_slot6 SequenceSigned])"
    by (rule syssteps_step [OF watch], rule syssteps_step [OF sysstep.plan [OF run_plan]],
        rule r_into_rtranclp, rule sysstep.prepare [OF run_prepare])
  then show ?thesis
    by (intro syssteps_wop [OF wop.submit [OF run_submit]] syssteps_wop [OF wop.validate [OF run_validate]]
        syssteps_wop [OF wop.approve [OF run_approve]] syssteps_wop [OF wop.reserveFunds [OF run_reserveFunds]]
        syssteps_wop [OF wop.reserveSequence [OF run_reserveSequence]] syssteps_wop [OF wop.build [OF run_build]]
        syssteps_wop [OF wop.simulate [OF run_simulate]] syssteps_wop [OF wop.sign [OF run_sign]])
qed

end
