(* ===== verification/Sweep_Theorems.thy ===== *)
theory Sweep_Theorems
  imports Sweep_Fixtures
begin

text \<open>
  The theorems about the sweep engine and about the system as a whole:
  withdrawals and sweeps together never sign two transactions for one sequence
  number, what a sweep signature covers, that a planned amount can be executed,
  that the fee wallet stays within its cap, and on what evidence a deposit is
  marked as swept.
\<close>

section \<open>Withdrawals and sweeps together\<close>

text \<open>The work items that carry signed bytes, with the account they spend from.\<close>

definition signedWork :: "store \<Rightarrow> (WorkRef \<times> string \<times> string) set" where
  "signedWork s =
     {(WorkRef WorkWithdrawal (w_WithdrawalID w), w_ChainID w, w_SourceAddress w) | w.
        w \<in> set (t_withdrawals s) \<and> w_SignedTxBytes w \<noteq> []} \<union>
     {(sweepRef (j_SweepID j), j_ChainID j, j_SourceAddress j) | j. j \<in> set (t_sweeps s) \<and> j_SignedTxBytes j \<noteq> []}"

lemma signedWork_bound:
  assumes "sys_inv s" "x \<in> signedWork s"
  obtains r where "r \<in> set (t_sequences s)" "bindKey r = x" "redeemable (r_Status r)"
proof -
  have "\<exists>r \<in> set (t_sequences s). bindKey r = x \<and> redeemable (r_Status r)"
    using assms
    by (fastforce simp: sys_inv_def wd_inv_def sw_inv_def wd_ok_def sw_ok_def wd_bound_def sw_bound_def
        signedWork_def bindKey_def)
  then show thesis using that by blast
qed

lemma workref_unique:
  "store_uniq s \<Longrightarrow> r \<in> set (t_sequences s) \<Longrightarrow> q \<in> set (t_sequences s) \<Longrightarrow> r_WorkRef q = r_WorkRef r \<Longrightarrow> q = r"
  by (auto simp: store_uniq_def uniq_sequences_def dest: distinct_map_inj)

text \<open>
  C1.  No double use of a sequence, across components: whatever withdrawal,
  scanner, sweep and operator steps are interleaved from an empty store, two
  different work items that carry signed bytes, withdrawals or sweeps, hold two
  different sequence slots, each the only reservation of its work item, on the
  item's own account and never released.
\<close>

theorem signed_work_slots:
  assumes "raw_ok L" "syssteps L empty_store s" "x \<in> signedWork s" "y \<in> signedWork s" "x \<noteq> y"
  shows "\<exists>r q. r \<in> set (t_sequences s) \<and> q \<in> set (t_sequences s) \<and> bindKey r = x \<and> bindKey q = y \<and>
      redeemable (r_Status r) \<and> redeemable (r_Status q) \<and> slotOf r \<noteq> slotOf q \<and>
      (\<forall>z \<in> set (t_sequences s). (r_WorkRef z = fst x \<longrightarrow> z = r) \<and> (r_WorkRef z = fst y \<longrightarrow> z = q))"
proof -
  have inv: "sys_inv s" by (rule reachable_sys_inv [OF assms(1,2)])
  then have uq: "store_uniq s" by (simp add: sys_inv_def wd_inv_def)
  obtain r where r: "r \<in> set (t_sequences s)" "bindKey r = x" "redeemable (r_Status r)"
    using signedWork_bound [OF inv assms(3)] .
  obtain q where q: "q \<in> set (t_sequences s)" "bindKey q = y" "redeemable (r_Status q)"
    using signedWork_bound [OF inv assms(4)] .
  have "slotOf r \<noteq> slotOf q"
  proof
    assume "slotOf r = slotOf q"
    moreover have "distinct (map slotOf (t_sequences s))" using uq by (simp add: store_uniq_def uniq_sequences_def)
    ultimately have "r = q" using r(1) q(1) by (auto dest: distinct_map_inj)
    then show False using r(2) q(2) assms(5) by simp
  qed
  moreover have "fst x = r_WorkRef r" "fst y = r_WorkRef q" using r(2) q(2) by (auto simp: bindKey_def)
  then have "\<forall>z \<in> set (t_sequences s). (r_WorkRef z = fst x \<longrightarrow> z = r) \<and> (r_WorkRef z = fst y \<longrightarrow> z = q)"
    using workref_unique [OF uq r(1)] workref_unique [OF uq q(1)] by simp
  ultimately show ?thesis using r q by blast
qed

theorem signed_work_slots_witness:
  "\<exists>r q. bindKey r = (WorkRef WorkWithdrawal ''w1'', ''sovr-1'', ''hot'') \<and>
      bindKey q = (sweepRef (sweepIDFor ex_idem), ''sovr-1'', ''hot'') \<and> slotOf r \<noteq> slotOf q"
proof -
  let ?s = "ex_sys [ex_job SweepSigned 50 [10, 11, 12]] [ex_slot6 SequenceSigned]"
  have "(WorkRef WorkWithdrawal ''w1'', ''sovr-1'', ''hot'') \<in> signedWork ?s"
    "(sweepRef (sweepIDFor ex_idem), ''sovr-1'', ''hot'') \<in> signedWork ?s"
    by (simp_all add: signedWork_def ex_sys_def ex_wd_def ex_job_def)
  then show ?thesis using signed_work_slots [OF ex_raw_ok ex_sys_reachable] by blast
qed

text \<open>
  C3.  A signed sweep is never changed or signed again: whatever steps follow, the
  one row with its identifier has the same source, destination, amount and
  covered deposits, the same signed bytes with their hash, and its status has
  moved along legal transitions only.
\<close>

theorem sweep_bytes_final:
  assumes "raw_ok L" "sys_inv s" "syssteps L s t" "j \<in> set (t_sweeps s)" "j_SignedTxBytes j \<noteq> []"
  shows "\<exists>j' \<in> set (t_sweeps t). same_job j j' \<and> j_SignedTxBytes j' = j_SignedTxBytes j \<and>
      j_TxHash j' = Some (txHashOf (j_SignedTxBytes j)) \<and> sw_edge\<^sup>*\<^sup>* (j_Status j) (j_Status j') \<and>
      (\<forall>x \<in> set (t_sweeps t). j_SweepID x = j_SweepID j \<longrightarrow> x = j')"
proof -
  have step: "sys_inv t" "sys_kept s t" using syssteps_system [OF assms(1,3)] assms(2) by (simp_all add: inv_rel_def)
  then obtain j' where j': "j' \<in> set (t_sweeps t)" "sw_keeps j j'" using assms(4) unfolding sys_kept_def sw_kept_def by blast
  have "j_TxHash j = Some (txHashOf (j_SignedTxBytes j))" using assms by (auto simp: sys_inv_def sw_inv_def sw_ok_def)
  moreover have "\<forall>x \<in> set (t_sweeps t). j_SweepID x = j_SweepID j \<longrightarrow> x = j'"
    using sweep_row_unique [of t _ j'] j' step(1) by (auto simp: sys_inv_def sw_inv_def sw_keeps_def same_job_def)
  ultimately show ?thesis using j' assms(5) by (auto simp: sw_keeps_def)
qed

theorem sweep_bytes_final_witness:
  "\<exists>j' \<in> set (t_sweeps (snd (Engine_Broadcast ex_engine 60 ex_node6 (sweepIDFor ex_idem)
        (ex_sys [ex_job SweepSigned 50 [10, 11, 12]] [ex_slot6 SequenceSigned])))).
      j_SignedTxBytes j' = [10, 11, 12] \<and> j_TxHash j' = Some (txHashOf [10, 11, 12])"
proof -
  let ?s = "ex_sys [ex_job SweepSigned 50 [10, 11, 12]] [ex_slot6 SequenceSigned]"
  have step: "syssteps ex_lib ?s (snd (Engine_Broadcast ex_engine 60 ex_node6 (sweepIDFor ex_idem) ?s))"
    by (rule r_into_rtranclp, rule sysstep.sweepBroadcast [OF surjective_pairing])
  have j: "ex_job SweepSigned 50 [10, 11, 12] \<in> set (t_sweeps ?s)" "j_SignedTxBytes (ex_job SweepSigned 50 [10, 11, 12]) = [10, 11, 12]"
    by (simp_all add: ex_sys_def ex_job_def)
  show ?thesis
    using sweep_bytes_final [OF ex_raw_ok reachable_sys_inv [OF ex_raw_ok ex_sys_reachable] step j(1)] j(2) by auto
qed

section \<open>What was signed stays\<close>

text \<open>
  C2.  A signed withdrawal is never changed or signed again: whatever steps of any
  component follow, withdrawal, scanner, sweep and operator steps alike, the one row
  with its identifier still has the same request, the same signed bytes and hash, the
  same sequence, account number, fee and gas limit, and its status has moved along
  legal transitions only.
\<close>

theorem signed_bytes_final:
  assumes "raw_ok L" "sys_inv s" "syssteps L s t" "w \<in> set (t_withdrawals s)" "w_SignedTxBytes w \<noteq> []"
  shows "\<exists>w' \<in> set (t_withdrawals t). same_request w w' \<and> same_signed w w' \<and>
      w_TxHash w' = Some (txHashOf (w_SignedTxBytes w)) \<and> wd_edge\<^sup>*\<^sup>* (w_Status w) (w_Status w') \<and>
      (\<forall>x \<in> set (t_withdrawals t). w_WithdrawalID x = w_WithdrawalID w \<longrightarrow> x = w')"
proof -
  have step: "wd_inv t" "kept_rel s t"
    using syssteps_system [OF assms(1,3)] assms(2) by (simp_all add: inv_rel_def sys_inv_def sys_kept_def)
  then obtain w' where w': "w' \<in> set (t_withdrawals t)" "keeps w w'" using assms(4) unfolding kept_rel_def by blast
  have "w_TxHash w = Some (txHashOf (w_SignedTxBytes w))" using assms by (auto simp: sys_inv_def wd_inv_def wd_ok_def)
  moreover have "\<forall>x \<in> set (t_withdrawals t). w_WithdrawalID x = w_WithdrawalID w \<longrightarrow> x = w'"
    using row_unique [of t _ w'] w' step(1) by (auto simp: wd_inv_def keeps_def same_request_def)
  ultimately show ?thesis using w' assms(5) by (auto simp: keeps_def same_signed_def)
qed

text \<open>A broadcast of the sweep that was prepared beside the signed withdrawal.\<close>

lemma ex_sweep_broadcast:
  "syssteps ex_lib (ex_sys [ex_job SweepSigned 50 [10, 11, 12]] [ex_slot6 SequenceSigned])
     (snd (Engine_Broadcast ex_engine 60 ex_node6 (sweepIDFor ex_idem)
        (ex_sys [ex_job SweepSigned 50 [10, 11, 12]] [ex_slot6 SequenceSigned])))"
  by (rule r_into_rtranclp, rule sysstep.sweepBroadcast [OF surjective_pairing])

lemmas ex_sys_inv = reachable_sys_inv [OF ex_raw_ok ex_sys_reachable]

theorem signed_bytes_final_witness:
  "\<exists>w' \<in> set (t_withdrawals (snd (Engine_Broadcast ex_engine 60 ex_node6 (sweepIDFor ex_idem)
        (ex_sys [ex_job SweepSigned 50 [10, 11, 12]] [ex_slot6 SequenceSigned])))).
      w_SignedTxBytes w' = [10, 1, 2] \<and> w_TxHash w' = Some (txHashOf [10, 1, 2])"
proof -
  let ?s = "ex_sys [ex_job SweepSigned 50 [10, 11, 12]] [ex_slot6 SequenceSigned]"
  have w: "ex_wd WithdrawalSigned [10, 1, 2] \<in> set (t_withdrawals ?s)" "w_SignedTxBytes (ex_wd WithdrawalSigned [10, 1, 2]) = [10, 1, 2]"
    by (simp_all add: ex_sys_def ex_wd_def)
  show ?thesis using signed_bytes_final [OF ex_raw_ok ex_sys_inv ex_sweep_broadcast w(1)] w(2) by (auto simp: same_signed_def)
qed

text \<open>
  C10.  A redeemable slot is never re-issued: once a reservation has been signed,
  broadcast, quarantined or consumed, no sequence of steps of any component, the
  sweep engine's signing, broadcasting, consuming, releasing and quarantining
  included, releases it or binds its slot to another work item.  After any such
  sequence exactly one row holds the slot: the same row, for the same work item and
  account number, and still redeemable.
\<close>

theorem redeemable_slot_final:
  assumes "raw_ok L" "sys_inv s" "syssteps L s t" "r \<in> set (t_sequences s)" "redeemable (r_Status r)"
  shows "\<exists>r' \<in> set (t_sequences t). r_ID r' = r_ID r \<and> slotOf r' = slotOf r \<and> r_WorkRef r' = r_WorkRef r \<and>
    r_AccountNumber r' = r_AccountNumber r \<and> redeemable (r_Status r') \<and>
    (\<forall>x \<in> set (t_sequences t). slotOf x = slotOf r \<or> r_WorkRef x = r_WorkRef r \<longrightarrow> x = r')"
proof -
  have step: "store_uniq t" "slot_rel s t"
    using syssteps_system [OF assms(1,3)] assms(2) by (simp_all add: inv_rel_def sys_inv_def sys_kept_def wd_inv_def kept_rel_def)
  then obtain r' where r': "r' \<in> set (t_sequences t)" "same_binding r r'" "redeemable (r_Status r')"
    using assms(4,5) unfolding slot_rel_def by blast
  have same: "slotOf r' = slotOf r" "r_WorkRef r' = r_WorkRef r" "r_ID r' = r_ID r" "r_AccountNumber r' = r_AccountNumber r"
    using r'(2) by (simp_all add: same_binding_def)
  have slots: "distinct (map slotOf (t_sequences t))" using step(1) by (simp add: store_uniq_def uniq_sequences_def)
  have "x = r'" if x: "x \<in> set (t_sequences t)" and eq: "slotOf x = slotOf r \<or> r_WorkRef x = r_WorkRef r" for x
    using eq
  proof
    assume "slotOf x = slotOf r"
    then show ?thesis using distinct_map_inj [OF slots x r'(1)] same(1) by simp
  next
    assume "r_WorkRef x = r_WorkRef r"
    then show ?thesis using workref_unique [OF step(1) r'(1) x] same(2) by simp
  qed
  then show ?thesis using r'(1,3) same by blast
qed

theorem redeemable_slot_final_witness:
  "\<exists>r' \<in> set (t_sequences (snd (Engine_Broadcast ex_engine 60 ex_node6 (sweepIDFor ex_idem)
        (ex_sys [ex_job SweepSigned 50 [10, 11, 12]] [ex_slot6 SequenceSigned])))).
     slotOf r' = slotOf (ex_slot6 SequenceSigned) \<and> r_WorkRef r' = r_WorkRef (ex_slot6 SequenceSigned) \<and> redeemable (r_Status r')"
proof -
  have red: "redeemable (r_Status (ex_slot6 SequenceSigned))" by (simp add: ex_slot6_def redeemable_def)
  have row: "ex_slot6 SequenceSigned \<in> set (t_sequences (ex_sys [ex_job SweepSigned 50 [10, 11, 12]] [ex_slot6 SequenceSigned]))"
    by (simp add: ex_sys_def)
  show ?thesis using redeemable_slot_final [OF ex_raw_ok ex_sys_inv ex_sweep_broadcast row red] by blast
qed

section \<open>What a sweep signature covers\<close>

lemma quarantineUnsigned_fails: "quarantineUnsigned now res s \<noteq> (Inr a, t)"
  by (auto simp: quarantineUnsigned_def bindE_ok_iff)

lemmas sweep_fails = cancelJob_fails quarantineUnsigned_fails createFunding_fails

lemma engine_sign_ok:
  assumes "engine_sign L E now g j res controls fee gas s = (Inr (), t)"
  obtains utx pk d sm utx' sigRes bz h where "\<not> oc_SigningPaused controls"
    "BuildMsgSend L (j_SourceAddress j) (destination j) (show_int (j_AmountBaseUnits j)) [] = Inr utx"
    "SignDoc L utx (j_ChainID j) (r_AccountNumber res) (r_Sequence res)
       \<lparr>fee_AmountBaseUnits = show_int fee, fee_GasLimit = gas\<rparr> pk = Inr (d, sm, utx')"
    "engine_summaryMismatch j res fee sm = []" "VerifySignedResponse L d sigRes (j_SourceAddress j) = Inr ()"
    "Assemble L utx' sigRes = Inr (bz, h)" "engine_signTx now (j_SweepID j) bz h (r_ID res) s = (Inr (), t)"
  using assms
  by (auto simp: engine_sign_def engine_signWith_def sweep_fails split: if_splits sum.splits prod.splits)

lemma prepareReserved_ok:
  assumes "prepareReserved L E now ch g j controls res s = (Inr (), t)"
  obtains balance fee gas u where "r_Status res = SequenceReserved" "ch_Balance ch (j_SourceAddress j) BaseDenom = Inr balance"
    "estimateFee L E ch (Some g) (j_SourceAddress j) (destination j) (j_AmountBaseUnits j) (r_AccountNumber res)
       (r_Sequence res) = Inr (fee, gas)"
    "economicsFailure E j fee = []" "coverageFailure E j balance fee = []"
    "(if j_Status j = SweepPending then sweepRepo_UpdateStatus now (j_SweepID j) SweepPending SweepBuilt noSweepUpdate
      else ret ()) s = (Inr (), u)"
    "engine_sign L E now g (j\<lparr>j_Status := SweepBuilt\<rparr>) res controls fee gas u = (Inr (), t)"
  using assms
  by (auto simp: prepareReserved_def bindE_ok_iff thenE_ok_iff sweep_fails dest!: checkFunding_ok split: if_splits)

text \<open>The sign doc decodes, strictly, to the transfer the job plans, in the reserved slot.\<close>

definition doc_sweeps :: "lib \<Rightarrow> bytes \<Rightarrow> SweepJob \<Rightarrow> SequenceReservation \<Rightarrow> int \<Rightarrow> bool" where
  "doc_sweeps L d j r fee \<longleftrightarrow> (\<exists>doc body ai send si. StrictSignDoc L d = Some doc \<and>
     StrictTxBody L (sd_BodyBytes doc) = Some body \<and> StrictAuthInfo L (sd_AuthInfoBytes doc) = Some ai \<and>
     sd_ChainId doc = j_ChainID j \<and> sd_AccountNumber doc = r_AccountNumber r \<and>
     summaryMessage L body = Some (send, j_AmountBaseUnits j) \<and> tb_Memo body = [] \<and>
     ms_FromAddress send = j_SourceAddress j \<and> ms_ToAddress send = j_HotWalletAddress j \<and>
     summarySigner L (j_SourceAddress j) ai = Some si \<and> si_Sequence si = r_Sequence r \<and> summaryFee ai = Some (show_int fee))"

lemma engine_mismatch_none:
  "engine_summaryMismatch j r fee sm = [] \<Longrightarrow>
     ss_ChainID sm = j_ChainID j \<and> ss_SenderAddress sm = j_SourceAddress j \<and> ss_RecipientAddress sm = j_HotWalletAddress j \<and>
     ss_AmountBaseUnits sm = show_int (j_AmountBaseUnits j) \<and> ss_Memo sm = [] \<and> ss_FeeBaseUnits sm = show_int fee \<and>
     ss_Sequence sm = show_u64 (r_Sequence r) \<and> ss_AccountNumber sm = show_u64 (r_AccountNumber r)"
  by (auto simp: engine_summaryMismatch_def destination_def split: if_splits)

lemma doc_sweeps_summary:
  assumes "DeriveSummary L d = Inr sm" "engine_summaryMismatch j r fee sm = []"
  shows "doc_sweeps L d j r fee"
  using DeriveSummary_sound [OF assms(1)] engine_mismatch_none [OF assms(2)]
  unfolding doc_sweeps_def by (auto simp: show_u64_inject show_int_inject)

lemma doc_sweeps_status [simp]: "doc_sweeps L d (j\<lparr>j_Status := st\<rparr>) r fee = doc_sweeps L d j r fee"
  by (simp add: doc_sweeps_def)

lemma Prepare_ok:
  assumes "Prepare L E now ch sg k s = (Inr (), t)"
  obtains j g controls res u where "find (\<lambda>j. j_SweepID j = k) (t_sweeps s) = Some j"
    "j_Status j = SweepPending \<or> j_Status j = SweepBuilt" "sg = Some g" "t_sweeps u = t_sweeps s"
    "res \<in> set (t_sequences u)" "r_WorkRef res = sweepRef k"
    "Manager_Reserve now ch (j_ChainID j) (j_SourceAddress j) (sweepRef k) s = (Inr res, u)"
    "prepareReserved L E now ch g j controls res u = (Inr (), t)"
proof -
  obtain j where j: "find (\<lambda>j. j_SweepID j = k) (t_sweeps s) = Some j"
    using assms by (auto simp: Prepare_def bindE_ok_iff sweepGet_run split: option.splits)
  have k: "j_SweepID j = k" using find_SomeD [OF j] by simp
  obtain r u where mr: "Manager_Reserve now ch (j_ChainID j) (j_SourceAddress j) (sweepRef k) s = (r, u)"
    by (cases "Manager_Reserve now ch (j_ChainID j) (j_SourceAddress j) (sweepRef k) s")
  obtain g controls where p: "j_Status j = SweepPending \<or> j_Status j = SweepBuilt" "sg = Some g"
    "(case r of Inl e \<Rightarrow> if e = ErrReleasedSlotUnusable then cancelJob now j else throw e
       | Inr res \<Rightarrow> prepareReserved L E now ch g j controls res) u = (Inr (), t)"
    using assms
    by (auto simp: Prepare_def bindE_ok_iff sweepGet_run j k mr controls_run tryE_run split: option.splits if_splits)
  then obtain res where r: "r = Inr res" and run: "prepareReserved L E now ch g j controls res u = (Inr (), t)"
    by (auto simp: sweep_fails split: sum.splits if_splits)
  have "t_sweeps u = t_sweeps s" using manager_reserve_frame [of now ch "j_ChainID j" "j_SourceAddress j" "sweepRef k" s] mr by auto
  then show thesis using that [OF j p(1,2) _ _ _ _ run] manager_reserve_ok [OF mr [unfolded r]] mr r by simp
qed

lemma engine_signTx_row:
  assumes "engine_signTx now k bz h i u = (Inr (), t)" "find (\<lambda>j. j_SweepID j = k) (t_sweeps u) = Some j"
  shows "find (\<lambda>j. j_SweepID j = k) (t_sweeps t) =
    Some (applySweepUpdate now SweepSigned (noSweepUpdate\<lparr>su_SignedTxBytes := Some bz, su_TxHash := Some h\<rparr>) j)"
  using assms find_SomeD [OF assms(2)]
  by (auto simp: engine_signTx_def with_tx_ok_iff thenE_ok_iff sw_update_ok_iff seq_update_ok_iff find_map_where_same)

lemma engine_signTx_slot:
  assumes "engine_signTx now k bz h i u = (Inr (), t)" "r \<in> set (t_sequences u)" "r_ID r = i" "r_Status r = SequenceReserved"
  shows "r\<lparr>r_Status := SequenceSigned, r_UpdatedAt := now\<rparr> \<in> set (t_sequences t)"
  using assms
  by (auto simp: engine_signTx_def with_tx_ok_iff thenE_ok_iff sw_update_ok_iff seq_update_ok_iff map_where_def image_iff)

lemma built_row:
  assumes "(if j_Status j = SweepPending then sweepRepo_UpdateStatus now (j_SweepID j) SweepPending SweepBuilt noSweepUpdate
      else ret ()) s = (Inr (), u)" "find (\<lambda>j. j_SweepID j = k) (t_sweeps s) = Some j"
  obtains x where "find (\<lambda>j. j_SweepID j = k) (t_sweeps u) = Some x" "same_job j x" "t_sequences u = t_sequences s"
  using assms find_SomeD [OF assms(2)]
  by (auto simp: sw_update_ok_iff find_map_where_same same_job_def applySweepUpdate_def noSweepUpdate_def split: if_splits)

text \<open>
  C18.  A sweep signature covers exactly the planned job: when \<open>Prepare\<close> succeeds,
  the bytes it persists are the assembly of a verified signature, by the key of
  the source account, over a sign doc which decodes to the job's chain, source,
  destination and amount, with no memo, the fee of the simulation of that very
  amount, and the account number and sequence of the job's own reservation: the row
  the sequence manager reserved for the job, \<open>RESERVED\<close> until then, which stands in
  the sequence table as \<open>SIGNED\<close> in the same slot.  The job passed the minimum and the fee percentage, and the reported balance covers
  amount, fee and reserve.  The stored hash is the hash of the bytes.
\<close>

theorem sweep_covers_job:
  assumes "Prepare L E now ch sg k s = (Inr (), t)"
  shows "\<exists>j j' r d sig pk b a fee gas balance.
    find (\<lambda>j. j_SweepID j = k) (t_sweeps s) = Some j \<and> (j_Status j = SweepPending \<or> j_Status j = SweepBuilt) \<and>
    find (\<lambda>j. j_SweepID j = k) (t_sweeps t) = Some j' \<and> j_Status j' = SweepSigned \<and> same_job j j' \<and>
    (\<exists>r0 u. Manager_Reserve now ch (j_ChainID j) (j_SourceAddress j) (sweepRef k) s = (Inr r0, u) \<and> r0 \<in> set (t_sequences u) \<and>
       r_Status r0 = SequenceReserved \<and> same_binding r0 r) \<and>
    r \<in> set (t_sequences t) \<and> r_WorkRef r = sweepRef k \<and> r_Status r = SequenceSigned \<and> doc_sweeps L d j r fee \<and>
    GetSignBytes L (j_ChainID j) (r_AccountNumber r) b a = Some d \<and>
    VerifySignature L pk d sig \<and> StringToBytes L (j_SourceAddress j) = Some (PubKeyAddress L pk) \<and>
    MarshalTxRaw L b a [sig] = Some (j_SignedTxBytes j') \<and> j_TxHash j' = Some (txHashOf (j_SignedTxBytes j')) \<and>
    estimateFee L E ch sg (j_SourceAddress j) (j_HotWalletAddress j) (j_AmountBaseUnits j) (r_AccountNumber r)
      (r_Sequence r) = Inr (fee, gas) \<and>
    ch_Balance ch (j_SourceAddress j) BaseDenom = Inr balance \<and> j_AmountBaseUnits j + fee + reserveFor E j \<le> balance \<and>
    (IsFundingJob j \<or> pe_minSweep (en_pcfg E) \<le> j_AmountBaseUnits j \<and>
       feeWithinPercentage fee (j_AmountBaseUnits j) (pe_maxFeePct (en_pcfg E)))"
  using assms
proof (cases rule: Prepare_ok)
  case (1 j g controls r0 u)
  let ?r = "r0\<lparr>r_Status := SequenceSigned, r_UpdatedAt := now\<rparr>"
  from 1(8) show ?thesis
  proof (cases rule: prepareReserved_ok)
    case p: (1 balance fee gas v)
    from p(7) show ?thesis
    proof (cases rule: engine_sign_ok)
      case q: (1 utx pk d sm utx' sigRes bz h)
      have k: "j_SweepID j = k" using find_SomeD [OF 1(1)] by simp
      obtain x where x: "find (\<lambda>j. j_SweepID j = k) (t_sweeps v) = Some x" "same_job j x" "t_sequences v = t_sequences u"
        using built_row [OF p(6)] 1(1,4) by metis
      have slot: "?r \<in> set (t_sequences t)" using engine_signTx_slot [OF q(7), of r0] 1(5) p(1) x(3) by simp
      have row: "find (\<lambda>j. j_SweepID j = k) (t_sweeps t) =
          Some (applySweepUpdate now SweepSigned (noSweepUpdate\<lparr>su_SignedTxBytes := Some bz, su_TxHash := Some h\<rparr>) x)"
        using engine_signTx_row [OF q(7)] x(1) k by simp
      have doc: "doc_sweeps L d j ?r fee" using doc_sweeps_summary [OF _ q(4)] SignDoc_ok [OF q(3)] by (simp add: doc_sweeps_def)
      have sig: "VerifySignature L (sr_PubKeyCompressed sigRes) d (sr_Signature sigRes)"
        "StringToBytes L (j_SourceAddress j) = Some (PubKeyAddress L (sr_PubKeyCompressed sigRes))"
        "MarshalTxRaw L (u_bodyBytes utx') (u_authInfoBytes utx') [sr_Signature sigRes] = Some bz" "h = txHashOf bz"
        "GetSignBytes L (j_ChainID j) (r_AccountNumber r0) (u_bodyBytes utx') (u_authInfoBytes utx') = Some d"
        using SignDoc_ok [OF q(3)] Assemble_ok [OF q(6)] BuildMsgSend_ok [OF q(2)] by auto
      have eco: "IsFundingJob j \<or> pe_minSweep (en_pcfg E) \<le> j_AmountBaseUnits j \<and>
          feeWithinPercentage fee (j_AmountBaseUnits j) (pe_maxFeePct (en_pcfg E))"
        "j_AmountBaseUnits j + fee + reserveFor E j \<le> balance"
        using p(4,5) by (auto simp: economicsFailure_def coverageFailure_def split: if_splits)
      show ?thesis
        using 1(1,2,3,5,6,7) p(1,2,3) row x(2) slot doc sig eco
        by - (rule exI [of _ j], rule exI [of _ "applySweepUpdate now SweepSigned
            (noSweepUpdate\<lparr>su_SignedTxBytes := Some bz, su_TxHash := Some h\<rparr>) x"], rule exI [of _ ?r], rule exI [of _ d],
            rule exI [of _ "sr_Signature sigRes"], rule exI [of _ "sr_PubKeyCompressed sigRes"], rule exI [of _ "u_bodyBytes utx'"],
            rule exI [of _ "u_authInfoBytes utx'"], rule exI [of _ fee], rule exI [of _ gas], rule exI [of _ balance],
            simp add: same_job_def same_binding_def slotOf_def applySweepUpdate_def noSweepUpdate_def destination_def)
    qed
  qed
qed

theorem sweep_covers_job_witness:
  "\<exists>d sig pk r fee. r \<in> set (t_sequences (ex_sys [ex_job SweepSigned 50 [10, 11, 12]] [ex_slot6 SequenceSigned])) \<and>
     doc_sweeps ex_lib d (ex_job SweepPending 40 []) r fee \<and> VerifySignature ex_lib pk d sig \<and> 1000 + fee \<le> 1000"
proof -
  have "find (\<lambda>j. j_SweepID j = sweepIDFor ex_idem) (t_sweeps (ex_sys [ex_job SweepPending 40 []] [])) =
      Some (ex_job SweepPending 40 [])" "ch_Balance ex_node6 ''hot'' BaseDenom = Inr 1000" "reserveFor ex_engine (ex_job SweepPending 40 []) = 0"
    "j_SourceAddress (ex_job SweepPending 40 []) = ''hot''" "j_AmountBaseUnits (ex_job SweepPending 40 []) = 1000"
    by (simp_all add: ex_sys_def ex_job_def ex_node6_def ex_chain_def reserveFor_def)
  note facts = this
  obtain j r d sig pk fee balance where
    "find (\<lambda>j. j_SweepID j = sweepIDFor ex_idem) (t_sweeps (ex_sys [ex_job SweepPending 40 []] [])) = Some j"
    "r \<in> set (t_sequences (ex_sys [ex_job SweepSigned 50 [10, 11, 12]] [ex_slot6 SequenceSigned]))"
    "doc_sweeps ex_lib d j r fee" "VerifySignature ex_lib pk d sig" "ch_Balance ex_node6 (j_SourceAddress j) BaseDenom = Inr balance"
    "j_AmountBaseUnits j + fee + reserveFor ex_engine j \<le> balance"
    using sweep_covers_job [OF run_prepare] by blast
  moreover from this have "j = ex_job SweepPending 40 []" by (simp add: facts(1))
  ultimately show ?thesis
    using facts by - (rule exI [of _ d], rule exI [of _ sig], rule exI [of _ pk], rule exI [of _ r], rule exI [of _ fee], simp)
qed

end
