(* ===== verification/Sweep_Economics.thy ===== *)
theory Sweep_Economics
  imports Sweep_Fixtures
begin

text \<open>
  The arithmetic of the sweep engine: a plan without a deferral reason can be
  executed under the conditions it was made in, the fee wallet never funds more
  than its cap, and the custody-abstracted strategy emits no transaction.
\<close>

section \<open>What a parsed configuration guarantees\<close>

lemma newEngine_ok:
  assumes "newEngine L cfg = Inr E" "account_codec_ok L"
  shows "0 \<le> pe_feeReserve (en_pcfg E)"
    and "ec_Strategy (en_cfg E) \<noteq> StrategyCustodyAbstract \<Longrightarrow> 0 < dec_num (pe_gasAdj (en_pcfg E)) \<and>
      0 < dec_den (pe_gasAdj (en_pcfg E)) \<and> 0 \<le> dec_num (pe_gasPrice (en_pcfg E)) \<and> 0 < dec_den (pe_gasPrice (en_pcfg E)) \<and>
      (ec_SimulateUnavailable (en_cfg E) = SimulateQueue \<or> ec_StaticGasLimit (en_cfg E) \<noteq> 0)"
proof -
  obtain p where p: "parseEngineConfig L cfg = Inr p" "en_pcfg E = p"
    "ec_Strategy (en_cfg E) = ec_Strategy cfg" "ec_SimulateUnavailable (en_cfg E) = ec_SimulateUnavailable cfg"
    "ec_StaticGasLimit (en_cfg E) = ec_StaticGasLimit cfg"
    using assms(1) by (auto simp: newEngine_def split: sum.splits)
  have base: "0 \<le> n" if "parseBaseUnits L t = Inr n" for t n
    using that assms(2) of_nat_0_le_iff unfolding parseBaseUnits_def account_codec_ok_def
    by (fastforce split: if_splits option.splits)
  have "0 \<le> pe_feeReserve p"
    using p(1) by (auto simp: parseEngineConfig_def Let_def base split: if_splits sum.splits SimulatePolicy.splits)
  then show "0 \<le> pe_feeReserve (en_pcfg E)" by (simp add: p(2))
  show "0 < dec_num (pe_gasAdj (en_pcfg E)) \<and>
      0 < dec_den (pe_gasAdj (en_pcfg E)) \<and> 0 \<le> dec_num (pe_gasPrice (en_pcfg E)) \<and> 0 < dec_den (pe_gasPrice (en_pcfg E)) \<and>
      (ec_SimulateUnavailable (en_cfg E) = SimulateQueue \<or> ec_StaticGasLimit (en_cfg E) \<noteq> 0)"
    if nc: "ec_Strategy (en_cfg E) \<noteq> StrategyCustodyAbstract"
  proof -
    obtain adj price where "parseDecimal (ec_GasAdjustment cfg) = Inr adj" "parseDecimal (ec_GasPriceUsovr cfg) = Inr price"
      "\<not> decimal_isZero adj" "pe_gasAdj p = adj" "pe_gasPrice p = price"
      "ec_SimulateUnavailable cfg = SimulateQueue \<or> ec_StaticGasLimit cfg \<noteq> 0"
      using p(1) nc p(3)
      by (auto simp: parseEngineConfig_def Let_def split: if_splits sum.splits SimulatePolicy.splits)
    then show ?thesis using parseDecimal_ok [of _ adj] parseDecimal_ok [of _ price] p(2,4,5)
      by (auto simp: decimal_isZero_def less_le)
  qed
qed

lemma ceilMulBig_pos: "0 < dec_den d \<Longrightarrow> 0 < dec_num d \<Longrightarrow> 0 < n \<Longrightarrow> 0 < ceilMulBig d n"
  using ceilMulBig_bounds [of d n] by (smt (verit) mult_pos_pos mult_nonpos_nonneg)

lemma ceilMulBig_zero: "0 < dec_den d \<Longrightarrow> dec_num d = 0 \<Longrightarrow> ceilMulBig d n = 0"
  by (simp add: ceilMulBig_def)

text \<open>The estimated fee is zero exactly when the gas price is.\<close>

lemma estimateFee_zero:
  assumes "newEngine L cfg = Inr E" "account_codec_ok L" "ec_Strategy (en_cfg E) \<noteq> StrategyCustodyAbstract"
    and "estimateFee L E ch sg source dest amount n q = Inr (fee, gas)"
  shows "0 \<le> fee \<and> (fee = 0 \<longleftrightarrow> dec_num (pe_gasPrice (en_pcfg E)) = 0)"
proof -
  note ok = newEngine_ok(2) [OF assms(1-3)]
  obtain b where g: "engineGas E (ch_Simulate ch b) = Inr gas" and fee: "fee = ceilMulBig (pe_gasPrice (en_pcfg E)) (uint gas)"
    using assms(4) by (auto simp: estimateFee_def split: sum.splits)
  have "gas \<noteq> 0"
  proof (cases "ch_Simulate ch b")
    case (Inr r)
    then have r: "sm_GasUsed r \<noteq> 0" "ceilMulU64 (pe_gasAdj (en_pcfg E)) (sm_GasUsed r) = Inr gas"
      using g by (auto simp: engineGas_def split: if_splits)
    have "0 < uint (sm_GasUsed r)" using r(1) by (simp add: uint_0_iff order_less_le)
    then have "0 < ceilMulBig (pe_gasAdj (en_pcfg E)) (uint (sm_GasUsed r))" using ok ceilMulBig_pos by blast
    then show ?thesis using r(2) zdvd_imp_le [of "2 ^ 64"]
      by (fastforce simp: ceilMulU64_def Let_def word_of_int_eq_0_iff split: if_splits)
  next
    case (Inl e)
    then show ?thesis using g ok by (auto simp: engineGas_def split: if_splits)
  qed
  then have "0 < uint gas" by (simp add: uint_0_iff order_less_le)
  then show ?thesis using ok ceilMulBig_pos [of "pe_gasPrice (en_pcfg E)"] ceilMulBig_zero [of "pe_gasPrice (en_pcfg E)"] fee
    by (smt (verit))
qed

section \<open>A plan can be executed\<close>

lemma planAmount_fund: "ec_Strategy (en_cfg E) = StrategyFeeFund \<Longrightarrow> fst (planAmount E balance fee) = Some balance"
  by (auto simp: planAmount_def Let_def)

lemma planFeeLoop_ok:
  assumes "planFeeLoop n E est balance fee (planAmount E balance fee) = Inr (Some a, f, [])"
  shows "planAmount E balance f = (Some a, []) \<and> (a = balance \<or> (\<exists>g. est a = Inr (f, g))) \<and>
    (f = fee \<or> ec_Strategy (en_cfg E) \<noteq> StrategyFeeFund \<and> (\<exists>x g. est x = Inr (f, g)))"
  using assms
proof (induction n arbitrary: fee)
  case (Suc n)
  obtain p reason where plan: "planAmount E balance fee = (p, reason)" by (cases "planAmount E balance fee")
  show ?case
  proof (cases "reason \<noteq> [] \<or> p = Some balance")
    case True
    then show ?thesis using Suc.prems plan by auto
  next
    case go: False
    then obtain amount refee g where est: "p = Some amount" "est amount = Inr (refee, g)"
      using Suc.prems plan by (auto split: option.splits sum.splits)
    have fund: "ec_Strategy (en_cfg E) \<noteq> StrategyFeeFund" using planAmount_fund plan go by (metis fst_conv)
    show ?thesis
    proof (cases "refee = fee")
      case True
      then show ?thesis using Suc.prems plan go est by auto
    next
      case False
      then have "planFeeLoop n E est balance refee (planAmount E balance refee) = Inr (Some a, f, [])"
        using Suc.prems plan go est by auto
      from Suc.IH [OF this] show ?thesis using fund est(2) by metis
    qed
  qed
qed (auto split: if_splits)

lemma not_funding: "\<not> IsFundingJob (newSweepJob E now source balance a height ids)"
  by (simp add: IsFundingJob_def newSweepJob_def Let_def IdempotencyKey_def fundingIdemPrefix_def)

lemma planAmount_ok:
  assumes "planAmount E balance fee = (Some a, [])"
  shows "pe_minSweep (en_pcfg E) \<le> a \<and> 0 < a \<and> feeWithinPercentage fee a (pe_maxFeePct (en_pcfg E)) \<and>
    (ec_Strategy (en_cfg E) = StrategyFeeFund \<and> a = balance \<or>
     ec_Strategy (en_cfg E) = StrategyFeeReserve \<and> a + fee + pe_feeReserve (en_pcfg E) = balance \<or>
     ec_Strategy (en_cfg E) = StrategyThresholdOnly \<and> a + fee = balance)"
  using assms by (auto simp: planAmount_def Let_def split: SweepStrategy.splits if_splits)

text \<open>
  C25.  A plan can be executed: when the search for the fee ends without a reason
  to defer, the simulation of exactly the planned amount yields exactly the
  planned fee and the job passes the minimum and the fee-percentage rule.  What
  pays the fee depends on the strategy.  Under \<open>FEE_RESERVE\<close> and \<open>THRESHOLD_ONLY\<close>
  the amount, that fee and the reserve add up to the balance exactly, and the
  coverage check passes on that balance.  Under \<open>FEE_FUND\<close> the whole balance is
  swept and the fee is not in it: the coverage check passes exactly on a balance
  of at least the planned one plus the fee, which the planned balance reaches when
  the funding leg of exactly that fee arrives.
\<close>

theorem plan_executes:
  assumes "account_codec_ok L" "newEngine L cfg = Inr E"
    and "planFeeAmount L E ch sg source dest balance n q = Inr (Some a, fee, [])"
  shows "(\<exists>gas. estimateFee L E ch sg source dest a n q = Inr (fee, gas)) \<and>
    economicsFailure E (newSweepJob E now source balance a height ids) fee = [] \<and>
    (if ec_Strategy (en_cfg E) = StrategyFeeFund
     then a = balance \<and>
       (\<forall>b. coverageFailure E (newSweepJob E now source balance a height ids) b fee = [] \<longleftrightarrow> balance + fee \<le> b) \<and>
       (\<forall>fid wallet. coverageFailure E (newSweepJob E now source balance a height ids)
          (balance + j_AmountBaseUnits (fundingJob now (newSweepJob E now source balance a height ids) fid wallet fee)) fee = [])
     else a + fee + reserveFor E (newSweepJob E now source balance a height ids) = balance \<and>
       coverageFailure E (newSweepJob E now source balance a height ids) balance fee = [])"
proof -
  let ?est = "\<lambda>x. estimateFee L E ch sg source dest x n q" and ?j = "newSweepJob E now source balance a height ids"
  obtain fee0 g0 where seed: "?est balance = Inr (fee0, g0)"
    and loop: "planFeeLoop planFeeMaxRounds E ?est balance fee0 (planAmount E balance fee0) = Inr (Some a, fee, [])"
    using assms(3) by (auto simp: planFeeAmount_def Let_def split: sum.splits prod.splits)
  note plan = planFeeLoop_ok [OF loop] and amount = planAmount_ok [OF conjunct1 [OF planFeeLoop_ok [OF loop]]]
  have nc: "ec_Strategy (en_cfg E) \<noteq> StrategyCustodyAbstract" using amount by auto
  note zero = estimateFee_zero [OF assms(2,1) nc]
  have "\<exists>gas. ?est a = Inr (fee, gas)"
  proof (cases "a = balance")
    case True
    have "fee = fee0"
    proof (rule ccontr)
      assume ne: "fee \<noteq> fee0"
      then obtain x g where x: "?est x = Inr (fee, g)" and s: "ec_Strategy (en_cfg E) \<noteq> StrategyFeeFund" using plan by auto
      have "fee = 0" using amount True s zero [OF x] newEngine_ok(1) [OF assms(2,1)] by auto
      then show False using zero [OF x] zero [OF seed] ne by simp
    qed
    then show ?thesis using seed True by simp
  qed (use plan in blast)
  moreover have "j_AmountBaseUnits ?j = a" "j_Strategy ?j = ec_Strategy (en_cfg E)" by (simp_all add: newSweepJob_def Let_def)
  ultimately show ?thesis
    using amount not_funding [of E now source balance a height ids]
    by (auto simp: economicsFailure_def coverageFailure_def reserveFor_def fundingJob_def)
qed

lemma ex_account_codec: "account_codec_ok ex_lib"
  by (simp add: account_codec_ok_def ex_lib_def)

theorem plan_executes_witness:
  "(\<exists>gas. estimateFee ex_lib ex_engine ex_node6 (Some ex_signer) ''hot'' ''dest'' 1000 7 6 = Inr (0, gas)) \<and>
   coverageFailure ex_engine (newSweepJob ex_engine 40 ''hot'' 1000 1000 9 []) 1000 0 = []"
proof -
  have "ec_Strategy (en_cfg ex_engine) \<noteq> StrategyFeeFund" by (simp add: ex_engine_def ex_ecfg_def)
  then show ?thesis using plan_executes [OF ex_account_codec ex_newEngine run_planFee, of 40 9 "[]"] by simp
qed

section \<open>The fee wallet's cap\<close>

text \<open>The recorded spend of a wallet in a range of heights.\<close>

definition recordedSpend :: "Engine \<Rightarrow> string \<Rightarrow> uint64 \<Rightarrow> uint64 \<Rightarrow> store \<Rightarrow> int" where
  "recordedSpend E wallet from to s = (\<Sum>f \<leftarrow> filter (\<lambda>f. fs_ChainID f = en_chain E \<and> fs_FeeWalletAddress f = wallet \<and>
     inHeightRange from to (fs_BlockHeight f)) (t_fee_spends s). fs_AmountBaseUnits f)"

lemma fold_sum: "fold (\<lambda>f acc. acc + h f) xs (n :: int) = n + (\<Sum>f \<leftarrow> xs. h f)"
  by (induction xs arbitrary: n) simp_all

lemma sumSpend_run: "ledgerRepo_SumFeeFundingSpend (en_chain E) wallet from to s = (Inr (recordedSpend E wallet from to s), s)"
  by (simp add: ledgerRepo_SumFeeFundingSpend_def recordedSpend_def fold_sum)

lemma cap_run:
  assumes "0 < pe_feeWalletMaxSpend (en_pcfg E)" "feeFundingCapExceeded E ch fee s = (Inr (False, spent), t)"
  obtains wallet status where "feeWalletOf E s = Some wallet" "ch_NodeStatus ch = Inr status" "t = s"
    "inflightOf E wallet s + recordedSpend E wallet (windowStart (ns_LatestHeight status)
       (ec_FeeWalletSpendWindowBlocks (en_cfg E))) (ns_LatestHeight status) s + fee \<le> pe_feeWalletMaxSpend (en_pcfg E)"
  using assms
  by (auto simp: feeFundingCapExceeded_def Let_def bindE_ok_iff feeWallet_run inflight_run sumSpend_run split: option.splits)

text \<open>Deferring and cancelling add no job.\<close>

definition no_new :: "store \<Rightarrow> store \<Rightarrow> bool" where
  "no_new s t \<longleftrightarrow> j_SweepID ` set (t_sweeps t) \<subseteq> j_SweepID ` set (t_sweeps s)"

interpretation nn: step_rel no_new
  by unfold_locales (auto simp: no_new_def)

lemma no_new_sw_update: "stays no_new (sweepRepo_UpdateStatus now k from to u)"
proof (rule stays_cases)
  fix s t and a :: unit
  assume "sweepRepo_UpdateStatus now k from to u s = (Inr a, t)"
  then show "no_new s t" by (auto simp: sw_update_ok_iff no_new_def map_where_def applySweepUpdate_def)
qed (use sw_update_err nn.R_refl in blast)

lemma no_new_seq_update: "stays no_new (sequenceRepo_UpdateStatus now k from to)"
proof (rule stays_cases)
  fix s t and a :: unit
  assume "sequenceRepo_UpdateStatus now k from to s = (Inr a, t)"
  then show "no_new s t" by (auto simp: seq_update_ok_iff no_new_def)
qed (use seq_update_err nn.R_refl in blast)

lemma no_new_read: "stays no_new (sequenceRepo_GetByWorkRef ref)"
  by (rule nn.stays_unchanged) (simp add: reads_unchanged)

lemma no_new_deferOrCancel: "stays no_new (deferOrCancel now j)"
  unfolding deferOrCancel_def cancelJob_def terminateJob_def deferJob_def releaseUnsignedReservation_def tolerateConflict_def
  by (intro nn.stays_rules no_new_sw_update no_new_seq_update no_new_read)

lemma createFunding_new:
  assumes "createFundingJob E now j k fee s = (r, t)" "x \<in> set (t_sweeps t)" "j_SweepID x \<notin> j_SweepID ` set (t_sweeps s)"
  obtains wallet where "feeWalletOf E s = Some wallet" "same_job (fundingJob now j k wallet fee) x" "j_Status x = SweepPending"
    "t = t_sweeps_update (\<lambda>rows. rows @ [x]) s"
    "\<forall>y \<in> set (t_sweeps s). j_ChainID y = j_ChainID j \<and> j_SourceAddress y = wallet \<longrightarrow> SweepTerminal (j_Status y)"
proof -
  obtain wallet where w: "feeWalletOf E s = Some wallet"
    using assms by (auto simp: createFundingJob_def bindE_def feeWallet_run split: option.splits)
  obtain z u where c: "sweepRepo_Create now (fundingJob now j k wallet fee) s = (z, u)"
    by (cases "sweepRepo_Create now (fundingJob now j k wallet fee) s")
  then have t: "t = u" using assms(1) w
    by (cases z) (auto simp: createFundingJob_def bindE_def feeWallet_run tryE_run split: if_splits)
  show thesis
  proof (cases z)
    case (Inl e)
    then show thesis using c t assms(2,3) sw_create_err by blast
  next
    case (Inr j')
    note new = sw_create_ok [OF c [unfolded Inr]]
    then have "x = j'" using t assms(2,3) by auto
    then show thesis using that [OF w] new t by (auto simp: fundingJob_def)
  qed
qed

text \<open>
  C26.  The fee wallet stays within its cap: when a cap is configured and the
  funding gate creates a funding job, the amount of that job, the leg that was
  still in flight and all spend recorded in the window of recent blocks add up
  to at most the cap; the job pays exactly the parent's fee to the parent's
  source, which could not pay it itself, and it is the only live job of the fee
  wallet.
\<close>

theorem funding_within_cap:
  assumes "checkFunding E now ch j balance fee s = (r, t)" "0 < pe_feeWalletMaxSpend (en_pcfg E)"
    and "x \<in> set (t_sweeps t)" "j_SweepID x \<notin> j_SweepID ` set (t_sweeps s)"
  shows "\<exists>wallet status. feeWalletOf E s = Some wallet \<and> ch_NodeStatus ch = Inr status \<and>
    j_AmountBaseUnits x + inflightOf E wallet s + recordedSpend E wallet (windowStart (ns_LatestHeight status)
      (ec_FeeWalletSpendWindowBlocks (en_cfg E))) (ns_LatestHeight status) s \<le> pe_feeWalletMaxSpend (en_pcfg E) \<and>
    IsFundingJob x \<and> j_SweepID x = fundingSweepID (j_SweepID j) \<and> j_AmountBaseUnits x = fee \<and> j_SourceAddress x = wallet \<and>
    j_HotWalletAddress x = j_SourceAddress j \<and> balance < j_AmountBaseUnits j + fee \<and>
    (\<forall>y \<in> set (t_sweeps t). j_ChainID y = j_ChainID j \<and> j_SourceAddress y = wallet \<and> \<not> SweepTerminal (j_Status y) \<longrightarrow> y = x)"
proof -
  let ?k = "fundingSweepID (j_SweepID j)"
  have old: "\<not> no_new s t" using assms(3,4) by (auto simp: no_new_def)
  have no_defer: "deferOrCancel now j s \<noteq> (r, t)" using staysD [OF no_new_deferOrCancel] old by blast
  have ne: "t \<noteq> s" using old nn.R_refl by blast
  obtain o1 spent where short: "balance < j_AmountBaseUnits j + fee"
    and cap: "feeFundingCapExceeded E ch fee s = (Inr (False, spent), s)"
    and create: "createFundingJob E now j ?k fee s = (r, t)" and "o1 = False"
    using assms(1) ne no_defer cap_unchanged [of E ch fee s]
    by (auto simp: checkFunding_def Let_def bindE_def tryE_run sweepGet_run split: if_splits option.splits sum.splits prod.splits)
  from assms(2) cap show ?thesis
  proof (cases rule: cap_run)
    case (1 wallet status)
    from create assms(3,4) show ?thesis
    proof (cases rule: createFunding_new)
      case new: (1 wallet')
      have w: "wallet' = wallet" using new(1) 1(1) by simp
      have "IsFundingJob x"
        using new(2) by (simp add: IsFundingJob_def same_job_def fundingJob_def FundingIdempotencyKey_def)
      then show ?thesis using 1 new short unfolding w by (auto simp: same_job_def fundingJob_def)
    qed
  qed
qed

text \<open>A sweep of the whole balance whose fee of 5 the wallet \<open>fee\<close> pays, under a cap of 100.\<close>

definition ex_fund_engine :: Engine where
  "ex_fund_engine = \<lparr>en_cfg = ex_ecfg\<lparr>ec_Strategy := StrategyFeeFund, ec_FeeWalletSpendWindowBlocks := 10\<rparr>,
     en_pcfg = (en_pcfg ex_engine)\<lparr>pe_feeWalletMaxSpend := 100\<rparr>\<rparr>"

definition ex_fund_job :: SweepJob where
  "ex_fund_job = \<lparr>j_SweepID = ''S1'', j_IdempotencyKey = ''SWEEP:1'', j_ChainID = ''sovr-1'', j_SourceAddress = ''hot'',
     j_HotWalletAddress = ''dest'', j_Strategy = StrategyFeeFund, j_AmountBaseUnits = 1000, j_FeeReserveBaseUnits = 0,
     j_DepositIDs = [], j_SignedTxBytes = [], j_TxHash = None, j_TxCode = None, j_Status = SweepPending,
     j_CreatedAt = 40, j_UpdatedAt = 40\<rparr>"

definition ex_fund_store :: "SweepJob list \<Rightarrow> store" where
  "ex_fund_store js = empty_store\<lparr>t_watched := [ex_watch\<lparr>wa_Address := ''fee'', wa_Kind := WatchFeeWallet\<rparr>],
     t_sweeps := ex_fund_job # js\<rparr>"

lemma run_funding: "checkFunding ex_fund_engine 50 ex_node ex_fund_job 1000 5 (ex_fund_store []) =
    (Inl ErrFundingPending, ex_fund_store [(fundingJob 50 ex_fund_job ''FUND-S1'' ''fee'' 5)\<lparr>j_Status := SweepPending\<rparr>])"
  by code_simp

theorem funding_within_cap_witness:
  "\<exists>wallet status. feeWalletOf ex_fund_engine (ex_fund_store []) = Some wallet \<and> ch_NodeStatus ex_node = Inr status \<and>
     5 + inflightOf ex_fund_engine wallet (ex_fund_store []) + recordedSpend ex_fund_engine wallet
       (windowStart (ns_LatestHeight status) 10) (ns_LatestHeight status) (ex_fund_store []) \<le> 100"
  using funding_within_cap [OF run_funding, of "(fundingJob 50 ex_fund_job ''FUND-S1'' ''fee'' 5)\<lparr>j_Status := SweepPending\<rparr>"]
  by (auto simp: ex_fund_engine_def ex_fund_store_def fundingJob_def ex_fund_job_def ex_ecfg_def)

section \<open>The custody-abstracted strategy\<close>

lemma custody_planSource:
  assumes "ec_Strategy (en_cfg E) = StrategyCustodyAbstract"
  shows "planSource L E now ch sg h c p rep = planSource L' E now ch' sg' h c p rep"
  using assms by (rule_tac ext) (simp add: planSource_def)

lemma planSources_stays: "step_rel R \<Longrightarrow> (\<And>rep src. stays R (one rep src)) \<Longrightarrow> stays R (planSources one xs rep)"
  by (induction xs arbitrary: rep) (auto intro!: step_rel.stays_rules)

text \<open>
  Under the custody-abstracted strategy the engine moves no funds: what
  \<open>Plan\<close> does and returns depends neither on the node nor on the signer, and it
  writes no sweep, no reservation and no withdrawal.
\<close>

theorem custody_moves_no_funds:
  assumes "ec_Strategy (en_cfg E) = StrategyCustodyAbstract"
  shows "Plan L E now ch sg s = Plan L' E now ch' sg' s \<and> dside s (snd (Plan L E now ch sg s))"
proof
  have src: "planSource L E now ch sg h c p = planSource L' E now ch' sg' h c p" for h c p
    by (rule ext) (rule custody_planSource [OF assms])
  have height: "planHeight E ch = Inr 0" "planHeight E ch' = Inr 0" using assms by (simp_all add: planHeight_def)
  show "Plan L E now ch sg s = Plan L' E now ch' sg' s" unfolding Plan_def src height by (rule refl)
  have "stays dside (planSource L E now ch sg h c p rep src)" for h c p rep src
    unfolding planSource_def custodySettle_def tolerateConflict_def using assms
    by (intro ds.stays_rules dside_ops) simp_all
  from planSources_stays [OF ds.step_rel_axioms this] have "stays dside (Plan L E now ch sg)"
    unfolding Plan_def sweepableSources_def depositBacklog_def depositIDsByRecipient_def by (intro ds.stays_rules dside_ops)
  then show "dside s (snd (Plan L E now ch sg s))" by (simp add: stays_def)
qed

theorem custody_moves_no_funds_witness:
  "t_sweeps (snd (Plan ex_lib (ex_engine\<lparr>en_cfg := ex_ecfg\<lparr>ec_Strategy := StrategyCustodyAbstract\<rparr>\<rparr>) 40 ex_node6 None (ex_sys [] []))) = []"
  using custody_moves_no_funds [of "ex_engine\<lparr>en_cfg := ex_ecfg\<lparr>ec_Strategy := StrategyCustodyAbstract\<rparr>\<rparr>" ex_lib 40 ex_node6 None "ex_sys [] []"]
  by (simp add: dside_def ex_sys_def empty_store_def)

end
