(* ===== verification/Withdrawal_Theorems.thy ===== *)
theory Withdrawal_Theorems
  imports Withdrawal_Fixtures
begin

text \<open>
  The theorems about the withdrawal pipeline: what a signature covers and how much
  of a balance can be committed.  The safety of what was signed, over the steps of
  all components, is in \<open>Sweep_Theorems\<close>.
\<close>

section \<open>What a signature covers\<close>

lemma quarantine_fails [simp]:
  "quarantine now W k from reason s \<noteq> (Inr x, t)"
  "quarantinePostSignature now W k from i reason s \<noteq> (Inr x, t)"
  by (auto simp: quarantine_def quarantinePostSignature_def thenE_ok_iff)

text \<open>The sign doc decodes, strictly, to exactly what the record approves.\<close>

definition doc_states :: "lib \<Rightarrow> bytes \<Rightarrow> WithdrawalRecord \<Rightarrow> bool" where
  "doc_states L d w \<longleftrightarrow> (\<exists>doc body ai send si fee. StrictSignDoc L d = Some doc \<and>
     StrictTxBody L (sd_BodyBytes doc) = Some body \<and> StrictAuthInfo L (sd_AuthInfoBytes doc) = Some ai \<and>
     sd_ChainId doc = w_ChainID w \<and> w_AccountNumber w = Some (sd_AccountNumber doc) \<and>
     summaryMessage L body = Some (send, w_AmountBaseUnits w) \<and> tb_Memo body = w_Memo w \<and>
     ms_FromAddress send = w_SourceAddress w \<and> ms_ToAddress send = w_DestinationAddress w \<and>
     summarySigner L (w_SourceAddress w) ai = Some si \<and> w_Sequence w = Some (si_Sequence si) \<and>
     w_FeeAmountBaseUnits w = Some fee \<and> summaryFee ai = Some (show_int fee))"

lemma summaryMismatch_none:
  "summaryMismatch W w q n fee sm = [] \<Longrightarrow>
     ss_ChainID sm = w_ChainID w \<and> ss_ChainID sm = cfg_ChainID (wf_cfg W) \<and> ss_SenderAddress sm = w_SourceAddress w \<and>
     ss_RecipientAddress sm = w_DestinationAddress w \<and> ss_AmountBaseUnits sm = show_int (w_AmountBaseUnits w) \<and>
     ss_Memo sm = w_Memo w \<and> ss_FeeBaseUnits sm = show_int fee \<and> ss_Sequence sm = show_u64 q \<and>
     ss_AccountNumber sm = show_u64 n"
  by (auto simp: summaryMismatch_def split: if_splits)

lemma doc_states_summary:
  assumes "DeriveSummary L d = Inr sm" "summaryMismatch W w q n fee sm = []"
    and "w_AccountNumber w = Some n" "w_Sequence w = Some q" "w_FeeAmountBaseUnits w = Some fee"
  shows "doc_states L d w"
  using DeriveSummary_sound [OF assms(1)] summaryMismatch_none [OF assms(2)] assms(3-5)
  unfolding doc_states_def by (auto simp: show_u64_inject show_int_inject)

lemma Sign_ok:
  assumes "Sign L now W sg k s = (Inr (), t)"
  obtains w res utx pk d sm utx' n q fee gas where
    "find (\<lambda>w. w_WithdrawalID w = k) (t_withdrawals s) = Some w" "w_Status w = WithdrawalTransactionSimulated"
    "find (\<lambda>r. r_WorkRef r = WorkRef WorkWithdrawal (w_WithdrawalID w)) (t_sequences s) = Some res"
    "r_Status res = SequenceReserved" "w_AccountNumber w = Some n" "w_Sequence w = Some q"
    "w_FeeAmountBaseUnits w = Some fee" "n = r_AccountNumber res" "q = r_Sequence res"
    "buildFor L w = Inr utx"
    "SignDoc L utx (w_ChainID w) n q \<lparr>fee_AmountBaseUnits = show_int fee, fee_GasLimit = gas\<rparr> pk = Inr (d, sm, utx')"
    "summaryMismatch W w q n fee sm = []" "signWith L now W sg w (r_ID res) utx' d sm s = (Inr (), t)"
    "\<not> oc_SigningPaused (case find (\<lambda>x. oc_ChainID x = w_ChainID w) (t_controls s) of
       None \<Rightarrow> zeroControls (w_ChainID w) | Some x \<Rightarrow> x)"
proof -
  obtain w where w: "find (\<lambda>w. w_WithdrawalID w = k) (t_withdrawals s) = Some w"
    using assms by (auto simp: Sign_def bindE_ok_iff Get_run split: option.splits)
  obtain res where res: "find (\<lambda>r. r_WorkRef r = WorkRef WorkWithdrawal (w_WithdrawalID w)) (t_sequences s) = Some res"
    using assms w by (auto simp: Sign_def bindE_ok_iff Get_run controls_run GetByWorkRef_run split: option.splits if_splits)
  have paused: "\<not> oc_SigningPaused (case find (\<lambda>x. oc_ChainID x = w_ChainID w) (t_controls s) of
       None \<Rightarrow> zeroControls (w_ChainID w) | Some x \<Rightarrow> x)"
    using assms w by (simp add: Sign_def bindE_ok_iff Get_run controls_run split: if_splits)
  from assms w res paused obtain utx pk d sm utx' n q fee gas where
    "w_Status w = WithdrawalTransactionSimulated" "r_Status res = SequenceReserved" "w_AccountNumber w = Some n"
    "w_Sequence w = Some q" "w_FeeAmountBaseUnits w = Some fee" "n = r_AccountNumber res" "q = r_Sequence res"
    "buildFor L w = Inr utx" "summaryMismatch W w q n fee sm = []"
    "SignDoc L utx (w_ChainID w) n q \<lparr>fee_AmountBaseUnits = show_int fee, fee_GasLimit = gas\<rparr> pk = Inr (d, sm, utx')"
    "signWith L now W sg w (r_ID res) utx' d sm s = (Inr (), t)"
    by (auto simp: Sign_def bindE_ok_iff Get_run controls_run GetByWorkRef_run
        split: option.splits if_splits sum.splits prod.splits)
  with w res paused show thesis by (intro that)
qed

lemma signWith_ok:
  assumes "signWith L now W sg w i utx d sm s = (Inr (), t)"
  obtains sigRes bz h where
    "VerifySignedResponse L d sigRes (w_SourceAddress w) = Inr ()" "Assemble L utx sigRes = Inr (bz, h)"
    "signTx now (w_WithdrawalID w) bz h i s = (Inr (), t)"
  using assms by (auto simp: signWith_def split: sum.splits prod.splits if_splits)

lemma signTx_row:
  assumes "signTx now k bz h i s = (Inr (), t)" "find (\<lambda>w. w_WithdrawalID w = k) (t_withdrawals s) = Some w"
    and "w_Status w = WithdrawalTransactionSimulated"
  shows "find (\<lambda>w. w_WithdrawalID w = k) (t_withdrawals t) =
    Some (applyWithdrawalUpdate now WithdrawalSigned (noWithdrawalUpdate\<lparr>wu_SignedTxBytes := Some bz, wu_TxHash := Some h\<rparr>) w)"
  using assms find_SomeD [OF assms(2)]
  by (auto simp: signTx_def with_tx_ok_iff thenE_ok_iff wd_update_ok_iff seq_update_ok_iff find_map_where_same)

text \<open>
  C12.  A signature covers exactly the approved request: when \<open>Sign\<close> succeeds, the
  bytes it persists are the assembly of a verified signature, by the key of the
  source account, over a sign doc which decodes to the record's own chain,
  account number, sequence, sender, recipient, amount, memo and fee; the
  stored hash is the hash of those bytes, and the request itself is unchanged.
\<close>

theorem sign_covers_request:
  assumes "Sign L now W sg k s = (Inr (), t)"
  shows "\<exists>w d sig pk b a w'.
    find (\<lambda>w. w_WithdrawalID w = k) (t_withdrawals s) = Some w \<and> w_Status w = WithdrawalTransactionSimulated \<and>
    find (\<lambda>w. w_WithdrawalID w = k) (t_withdrawals t) = Some w' \<and> w_Status w' = WithdrawalSigned \<and> same_request w w' \<and>
    doc_states L d w \<and> GetSignBytes L (w_ChainID w) (the (w_AccountNumber w)) b a = Some d \<and>
    VerifySignature L pk d sig \<and> StringToBytes L (w_SourceAddress w) = Some (PubKeyAddress L pk) \<and>
    MarshalTxRaw L b a [sig] = Some (w_SignedTxBytes w') \<and> w_TxHash w' = Some (txHashOf (w_SignedTxBytes w'))"
  using assms
proof (cases rule: Sign_ok)
  case (1 w res utx pk d sm utx' n q fee gas)
  note w = 1(1,2) and acc = 1(5,6,7) and doc = 1(11)
  from 1(13) obtain sigRes bz h where asm: "Assemble L utx' sigRes = Inr (bz, h)"
    and stx: "signTx now (w_WithdrawalID w) bz h (r_ID res) s = (Inr (), t)" by (rule signWith_ok) blast
  have id: "w_WithdrawalID w = k" using find_SomeD [OF w(1)] by simp
  note row = signTx_row [OF stx [unfolded id] w]
  have "doc_states L d w" using SignDoc_ok [OF doc] by (intro doc_states_summary [OF _ 1(12) acc]) simp
  moreover have "VerifySignature L (sr_PubKeyCompressed sigRes) d (sr_Signature sigRes)"
    "StringToBytes L (w_SourceAddress w) = Some (PubKeyAddress L (sr_PubKeyCompressed sigRes))"
    "MarshalTxRaw L (u_bodyBytes utx') (u_authInfoBytes utx') [sr_Signature sigRes] = Some bz" "h = txHashOf bz"
    "GetSignBytes L (w_ChainID w) n (u_bodyBytes utx') (u_authInfoBytes utx') = Some d"
    using SignDoc_ok [OF doc] Assemble_ok [OF asm] BuildMsgSend_ok [OF 1(10) [unfolded buildFor_def]] by metis+
  ultimately show ?thesis
    using row w acc(1)
    by - (rule exI [of _ w], rule exI [of _ d], rule exI [of _ "sr_Signature sigRes"],
        rule exI [of _ "sr_PubKeyCompressed sigRes"], rule exI [of _ "u_bodyBytes utx'"],
        rule exI [of _ "u_authInfoBytes utx'"], simp add: same_request_def)
qed

theorem sign_covers_request_witness:
  "\<exists>d sig pk. doc_states ex_lib d (ex_wd WithdrawalTransactionSimulated []) \<and> VerifySignature ex_lib pk d sig"
  using sign_covers_request [OF run_sign] by (auto simp: ex_st_def ex_wd_def)

section \<open>Committed funds\<close>

text \<open>The committed sum, row by row: what one withdrawal adds to the count and to the amount.\<close>

definition commits :: "string \<Rightarrow> string \<Rightarrow> SequenceReservation list \<Rightarrow> WithdrawalRecord \<Rightarrow> int" where
  "commits c a seqs w = (if w_ChainID w = c \<and> w_SourceAddress w = a \<and> enumValid (w_Status w) committedWithdrawalStatuses
     then int (length (filter countsAsCommitted (leftJoinReservation seqs w))) else 0)"

lemma leftJoin_fst: "p \<in> set (leftJoinReservation seqs w) \<Longrightarrow> fst p = w"
  by (auto simp: leftJoinReservation_def split: list.splits)

lemma amounts_same_fst:
  "(\<And>p. p \<in> set xs \<Longrightarrow> fst p = w) \<Longrightarrow>
   (\<Sum>p \<leftarrow> filter q xs. w_AmountBaseUnits (fst p)) = int (length (filter q xs)) * w_AmountBaseUnits w"
  by (induction xs) (auto simp: algebra_simps)

lemma committed_fold:
  "fold (\<lambda>p (count, sum). (count + 1, sum + w_AmountBaseUnits (fst p))) xs (n, m) =
    (n + int (length xs), m + (\<Sum>p \<leftarrow> xs. w_AmountBaseUnits (fst p)))"
  by (induction xs arbitrary: n m) auto

lemma committed_sums:
  "int (length (committedRows c a s)) = (\<Sum>w \<leftarrow> t_withdrawals s. commits c a (t_sequences s) w)"
  "(\<Sum>p \<leftarrow> committedRows c a s. w_AmountBaseUnits (fst p)) =
     (\<Sum>w \<leftarrow> t_withdrawals s. commits c a (t_sequences s) w * w_AmountBaseUnits w)"
proof -
  have "int (length (filter countsAsCommitted (concat (map (leftJoinReservation seqs) (filter (\<lambda>w. w_ChainID w = c \<and>
      w_SourceAddress w = a \<and> enumValid (w_Status w) committedWithdrawalStatuses) ws))))) = (\<Sum>w \<leftarrow> ws. commits c a seqs w)"
    "(\<Sum>p \<leftarrow> filter countsAsCommitted (concat (map (leftJoinReservation seqs) (filter (\<lambda>w. w_ChainID w = c \<and>
      w_SourceAddress w = a \<and> enumValid (w_Status w) committedWithdrawalStatuses) ws))). w_AmountBaseUnits (fst p)) =
      (\<Sum>w \<leftarrow> ws. commits c a seqs w * w_AmountBaseUnits w)" for seqs ws
    by (induction ws) (simp_all add: commits_def amounts_same_fst [OF leftJoin_fst])
  then show "int (length (committedRows c a s)) = (\<Sum>w \<leftarrow> t_withdrawals s. commits c a (t_sequences s) w)"
    "(\<Sum>p \<leftarrow> committedRows c a s. w_AmountBaseUnits (fst p)) =
     (\<Sum>w \<leftarrow> t_withdrawals s. commits c a (t_sequences s) w * w_AmountBaseUnits w)"
    by (simp_all add: committedRows_def)
qed

lemma SumCommitted_run:
  "withdrawalRepo_SumCommittedBySource c a s =
    (Inr (\<Sum>w \<leftarrow> t_withdrawals s. commits c a (t_sequences s) w,
          \<Sum>w \<leftarrow> t_withdrawals s. commits c a (t_sequences s) w * w_AmountBaseUnits w), s)"
  using committed_fold [of "committedRows c a s" 0 0]
  by (simp add: withdrawalRepo_SumCommittedBySource_def committed_sums)

lemma sum_list_one_row:
  fixes h :: "'r \<Rightarrow> int"
  assumes "distinct (map k xs)" "x \<in> set xs" "p x" "\<And>y. p y \<Longrightarrow> k y = k x"
  shows "sum_list (map h (map_where p f xs)) = sum_list (map h xs) - h x + h (f x)"
  using assms(1,2)
proof (induction xs)
  case (Cons y ys)
  show ?case
  proof (cases "y = x")
    case True
    then have "\<forall>z \<in> set ys. \<not> p z" using Cons.prems assms(4) by (metis image_eqI distinct.simps(2) list.set_map list.simps(9))
    then have "map_where p f ys = ys" by (simp add: map_where_id)
    then show ?thesis using True assms(3) by (simp add: map_where_def)
  next
    case False
    then have "\<not> p y" using Cons.prems assms(4) by (metis image_eqI distinct.simps(2) list.set_map list.simps(9) set_ConsD)
    then show ?thesis using Cons False by (simp add: map_where_def)
  qed
qed simp

lemma leftJoin_one:
  assumes "distinct (map r_WorkRef seqs)"
  shows "length (leftJoinReservation seqs w) = 1"
proof -
  let ?ref = "WorkRef WorkWithdrawal (w_WithdrawalID w)"
  have "length (filter (\<lambda>r. r_WorkRef r = ?ref) seqs) \<le> 1"
    using assms by (induction seqs) (auto simp: filter_empty_conv rev_image_eqI)
  then show ?thesis by (auto simp: leftJoinReservation_def split: list.split)
qed

lemma commits_fresh:
  assumes "distinct (map r_WorkRef seqs)" "w_Status w = WithdrawalFundsReserved"
  shows "commits (w_ChainID w) (w_SourceAddress w) seqs w = 1"
proof -
  have "countsAsCommitted p" if "p \<in> set (leftJoinReservation seqs w)" for p
    using leftJoin_fst [OF that] assms(2) by (cases p) (simp add: countsAsCommitted_def)
  then have "filter countsAsCommitted (leftJoinReservation seqs w) = leftJoinReservation seqs w"
    by (simp add: filter_id_conv)
  then show ?thesis using leftJoin_one [OF assms(1)] assms(2)
    by (simp add: commits_def committedWithdrawalStatuses_def enumValid_iff)
qed

text \<open>
  C11.  Reserved funds are covered: when \<open>ReserveFunds\<close> succeeds, everything then
  committed from the source account, this withdrawal included and each one with
  the maximal fee, is at most the balance the node reported, and the amount is
  at least the configured minimum.
\<close>

theorem reserved_funds_covered:
  assumes uq: "store_uniq s" and ok: "ReserveFunds now W ch k s = (Inr (), t)"
    and get: "find (\<lambda>w. w_WithdrawalID w = k) (t_withdrawals s) = Some w"
  shows "\<exists>balance n total. ch_Balance ch (w_SourceAddress w) BaseDenom = Inr balance \<and>
    withdrawalRepo_SumCommittedBySource (w_ChainID w) (w_SourceAddress w) t = (Inr (n, total), t) \<and>
    total + pc_maxFee (wf_pcfg W) * n \<le> balance \<and> pc_minWithdrawal (wf_pcfg W) \<le> w_AmountBaseUnits w"
proof -
  let ?c = "w_ChainID w" and ?a = "w_SourceAddress w" and ?fee = "pc_maxFee (wf_pcfg W)"
  let ?h = "commits ?c ?a (t_sequences s)"
  let ?p = "\<lambda>w. w_WithdrawalID w = k \<and> w_Status w = WithdrawalComplianceApproved"
  let ?f = "applyWithdrawalUpdate now WithdrawalFundsReserved noWithdrawalUpdate"
  have w: "w \<in> set (t_withdrawals s)" "w_WithdrawalID w = k" using find_SomeD [OF get] by auto
  obtain balance where bal: "ch_Balance ch ?a BaseDenom = Inr balance" and st: "w_Status w = WithdrawalComplianceApproved"
    and mn: "pc_minWithdrawal (wf_pcfg W) \<le> w_AmountBaseUnits w"
    and enough: "(\<Sum>w \<leftarrow> t_withdrawals s. ?h w * w_AmountBaseUnits w) + ?fee * (\<Sum>w \<leftarrow> t_withdrawals s. ?h w) +
        (w_AmountBaseUnits w + ?fee) \<le> balance"
    and upd: "withdrawalRepo_UpdateStatus now k WithdrawalComplianceApproved WithdrawalFundsReserved noWithdrawalUpdate s = (Inr (), t)"
    using ok get
    by (auto simp: ReserveFunds_def bindE_ok_iff Get_run Let_def with_tx_ok_iff SumCommitted_run split: if_splits)
  have t: "t = t_withdrawals_update (map_where ?p ?f) s" using upd by (simp add: wd_update_ok_iff)
  have d: "distinct (map w_WithdrawalID (t_withdrawals s))" "distinct (map r_WorkRef (t_sequences s))"
    using uq by (auto simp: store_uniq_def uniq_withdrawals_def uniq_sequences_def)
  have h: "?h w = 0" "?h (?f w) = 1"
    using commits_fresh [OF d(2), of "?f w"] st
    by (auto simp: commits_def committedWithdrawalStatuses_def enumValid_iff)
  have one: "sum_list (map g (map_where ?p ?f (t_withdrawals s))) =
      sum_list (map g (t_withdrawals s)) - g w + g (?f w)" for g :: "WithdrawalRecord \<Rightarrow> int"
    by (rule sum_list_one_row [OF d(1) w(1)]) (use w st in auto)
  have "withdrawalRepo_SumCommittedBySource ?c ?a t =
      (Inr (sum_list (map ?h (t_withdrawals s)) + 1,
            (\<Sum>w \<leftarrow> t_withdrawals s. ?h w * w_AmountBaseUnits w) + w_AmountBaseUnits w), t)"
    using one [of ?h] one [of "\<lambda>w. ?h w * w_AmountBaseUnits w"] h by (simp add: SumCommitted_run t)
  then show ?thesis using bal mn enough by (auto simp: algebra_simps)
qed

theorem reserved_funds_covered_witness:
  "\<exists>balance n total. ch_Balance ex_node ''hot'' BaseDenom = Inr balance \<and>
    withdrawalRepo_SumCommittedBySource ''sovr-1'' ''hot'' (ex_st (ex_at WithdrawalFundsReserved) []) =
      (Inr (n, total), ex_st (ex_at WithdrawalFundsReserved) []) \<and> total + 50 * n \<le> balance"
proof -
  have uq: "store_uniq (ex_st (ex_at WithdrawalComplianceApproved) [])"
    using ex_store_uniq [of WithdrawalSigned "[]" SequenceReserved]
    by (simp add: store_uniq_def ex_st_def ex_store_def uniq_withdrawals_def uniq_sequences_def)
  show ?thesis
    using reserved_funds_covered [OF uq run_reserveFunds, of "ex_at WithdrawalComplianceApproved"]
    by (auto simp: ex_st_def ex_at_def ex_w0_def ex_wd_def ex_W_def)
qed

end
