(* ===== verification/Lifecycle_Theorems.thy ===== *)
theory Lifecycle_Theorems
  imports Withdrawal_Theorems
begin

text \<open>
  The functional behaviour of the single operations of the withdrawal
  lifecycle: submission, simulation, broadcast, confirmation, cancellation and
  the resolution of a review item.
\<close>

section \<open>Submission\<close>

lemma Create_checks:
  assumes "withdrawalRepo_Create now (newWithdrawal W req amount) s = (Inr w, t)"
  shows "w_WithdrawalID w = q_WithdrawalID req \<and> w_IdempotencyKey w = q_IdempotencyKey req \<and>
    t = t_withdrawals_update (\<lambda>rows. rows @ [w]) s \<and>
    (\<forall>x \<in> set (t_withdrawals s). w_WithdrawalID x \<noteq> q_WithdrawalID req \<and> w_IdempotencyKey x \<noteq> q_IdempotencyKey req)"
  using assms
  by (auto simp: withdrawalRepo_Create_def newWithdrawal_def run_defs Let_def split: if_splits sum.splits)

lemma Create_again:
  assumes "fst (withdrawalRepo_Create now (newWithdrawal W req amount) s) \<in> {Inr w, Inl ErrDuplicate}"
    and "\<exists>x \<in> set (t_withdrawals t). w_WithdrawalID x = q_WithdrawalID req \<or> w_IdempotencyKey x = q_IdempotencyKey req"
  shows "withdrawalRepo_Create now' (newWithdrawal W req amount) t = (Inl ErrDuplicate, t)"
  using assms
  by (auto simp: withdrawalRepo_Create_def newWithdrawal_def run_defs Let_def split: if_splits sum.splits)

lemma find_append_fresh:
  "(\<forall>x \<in> set xs. \<not> p x) \<Longrightarrow> p y \<Longrightarrow> find p (xs @ [y]) = Some y"
  by (induction xs) auto

text \<open>
  Submission is idempotent: after a request was accepted, submitting it again
  returns the very record of the first submission and changes nothing.
\<close>

theorem submit_idempotent:
  assumes "Submit L now W req s = (Inr w, t)"
  shows "Submit L now' W req t = (Inr w, t)"
proof -
  obtain amount where amt: "parseBaseUnits L (q_AmountBaseUnits req) = Inr amount" "0 < amount"
    and ids: "q_WithdrawalID req \<noteq> []" "q_IdempotencyKey req \<noteq> []"
    using assms by (auto simp: Submit_def split: if_splits sum.splits)
  let ?c = "withdrawalRepo_Create now (newWithdrawal W req amount)"
  have again: ?thesis
    if "fst (?c s) \<in> {Inr w, Inl ErrDuplicate}" "find (\<lambda>x. w_IdempotencyKey x = q_IdempotencyKey req) (t_withdrawals t) = Some w"
  proof -
    have "\<exists>x \<in> set (t_withdrawals t). w_WithdrawalID x = q_WithdrawalID req \<or> w_IdempotencyKey x = q_IdempotencyKey req"
      using find_SomeD [OF that(2)] by blast
    from Create_again [OF that(1) this] show ?thesis using amt ids that(2)
      by (simp add: Submit_def bindE_def tryE_run withdrawalRepo_GetByIdempotencyKey_def queryRow_run)
  qed
  show ?thesis
  proof (cases "?c s")
    case (Pair r s1)
    show ?thesis
    proof (cases r)
      case (Inr x)
      then have run: "?c s = (Inr w, t)" using assms Pair amt ids by (simp add: Submit_def bindE_def tryE_run)
      from Create_checks [OF run] show ?thesis
        by (intro again) (simp_all add: run find_append_fresh)
    next
      case (Inl e)
      then have "e = ErrDuplicate" "t = s1" "find (\<lambda>x. w_IdempotencyKey x = q_IdempotencyKey req) (t_withdrawals s1) = Some w"
        using assms Pair amt ids
        by (auto simp: Submit_def bindE_def tryE_run withdrawalRepo_GetByIdempotencyKey_def queryRow_run
            split: if_splits option.splits)
      then show ?thesis using Pair Inl by (intro again) simp_all
    qed
  qed
qed

theorem submit_idempotent_witness:
  "Submit ex_lib 99 ex_W ex_req (ex_st ex_w0 []) = (Inr ex_w0, ex_st ex_w0 [])"
  by (rule submit_idempotent [OF run_submit])

section \<open>Simulation\<close>

lemma wd_update_row:
  assumes "withdrawalRepo_UpdateStatus now k from to u s = (Inr (), t)"
  obtains w where "find (\<lambda>w. w_WithdrawalID w = k) (t_withdrawals s) = Some w" "w_Status w = from"
    "find (\<lambda>w. w_WithdrawalID w = k) (t_withdrawals t) = Some (applyWithdrawalUpdate now to u w)"
    "t_sequences t = t_sequences s"
proof -
  from assms obtain w where w: "find (\<lambda>w. w_WithdrawalID w = k) (t_withdrawals s) = Some w" "w_Status w = from"
    and t: "t = t_withdrawals_update (map_where (\<lambda>w. w_WithdrawalID w = k \<and> w_Status w = from)
      (applyWithdrawalUpdate now to u)) s" by (auto simp: wd_update_ok_iff)
  show thesis using find_SomeD [OF w(1)] w by (intro that [of w]) (simp_all add: t find_map_where_same)
qed

lemma newWorkflow_ok:
  assumes "newWorkflow L cfg = Inr W"
  shows "0 < dec_den (pc_gasPrice (wf_pcfg W)) \<and> 0 \<le> dec_num (pc_gasPrice (wf_pcfg W)) \<and> cfg_Confirmations (wf_cfg W) \<noteq> 0"
  using assms parseDecimal_ok
  by (auto simp: newWorkflow_def parseConfig_def Let_def split: sum.splits if_splits SimulatePolicy.splits)

lemma rethrow_fails:
  "bindE m (\<lambda>q. case q of Inl e \<Rightarrow> if e \<noteq> x then throw e else throw y | Inr _ \<Rightarrow> throw y) s \<noteq> (Inr z, t)"
  by (auto simp: bindE_ok_iff split: sum.splits if_splits)

text \<open>
  When \<open>Simulate\<close> succeeds the record carries a gas limit and a fee which is
  the least integer that pays for that gas at the configured price, and the
  fee is at most the configured maximum.
\<close>

theorem simulate_fee_covers_gas:
  assumes "newWorkflow L cfg = Inr W" "Simulate L now W ch sg k s = (Inr (), t)"
  shows "\<exists>w gas fee. find (\<lambda>w. w_WithdrawalID w = k) (t_withdrawals t) = Some w \<and>
    w_Status w = WithdrawalTransactionSimulated \<and> w_GasLimit w = Some gas \<and> w_FeeAmountBaseUnits w = Some fee \<and>
    fee \<le> pc_maxFee (wf_pcfg W) \<and>
    uint gas * dec_num (pc_gasPrice (wf_pcfg W)) \<le> fee * dec_den (pc_gasPrice (wf_pcfg W)) \<and>
    (fee - 1) * dec_den (pc_gasPrice (wf_pcfg W)) < uint gas * dec_num (pc_gasPrice (wf_pcfg W))"
proof -
  obtain gasWanted gas where fee: "\<not> pc_maxFee (wf_pcfg W) < feeFor gas (pc_gasPrice (wf_pcfg W))"
    and upd: "withdrawalRepo_UpdateStatus now k WithdrawalTransactionBuilt WithdrawalTransactionSimulated
      (noWithdrawalUpdate\<lparr>wu_GasWanted := Some gasWanted, wu_GasLimit := Some gas,
        wu_FeeAmountBaseUnits := Some (feeFor gas (pc_gasPrice (wf_pcfg W)))\<rparr>) s = (Inr (), t)"
    using assms(2)
    by (auto simp: Simulate_def bindE_ok_iff [of "withdrawalRepo_Get k"] Get_run Let_def rethrow_fails
        split: option.splits if_splits sum.splits gasOutcome.splits)
  from upd obtain w where "find (\<lambda>w. w_WithdrawalID w = k) (t_withdrawals t) = Some (applyWithdrawalUpdate now
      WithdrawalTransactionSimulated (noWithdrawalUpdate\<lparr>wu_GasWanted := Some gasWanted, wu_GasLimit := Some gas,
        wu_FeeAmountBaseUnits := Some (feeFor gas (pc_gasPrice (wf_pcfg W)))\<rparr>) w)"
    by (rule wd_update_row)
  then show ?thesis using fee ceilMulBig_bounds [of "pc_gasPrice (wf_pcfg W)" "uint gas"] newWorkflow_ok [OF assms(1)]
    by (simp add: feeFor_def)
qed

theorem simulate_fee_covers_gas_witness:
  "\<exists>gas fee. w_GasLimit (ex_wd WithdrawalTransactionSimulated []) = Some gas \<and>
     w_FeeAmountBaseUnits (ex_wd WithdrawalTransactionSimulated []) = Some fee \<and> fee \<le> 50 \<and> uint gas * 25 \<le> fee * 10"
  using simulate_fee_covers_gas [OF ex_workflow run_simulate] by (auto simp: ex_st_def ex_wd_def ex_W_def)

section \<open>Broadcast and confirmation\<close>

text \<open>
  Only persisted bytes are ever broadcast: two nodes that give the same
  answer to the bytes stored in the record and to the lookup of the stored (for
  \<open>Recover\<close>: recomputed) hash cannot be told apart by \<open>Broadcast\<close> or \<open>Recover\<close>,
  whatever they answer to any other transaction.
\<close>

theorem broadcast_persisted_only:
  assumes "find (\<lambda>w. w_WithdrawalID w = k) (t_withdrawals s) = Some w"
    and "ch_Broadcast ch' (w_SignedTxBytes w) = ch_Broadcast ch (w_SignedTxBytes w)"
    and "\<forall>h \<in> {the (w_TxHash w), txHashOf (w_SignedTxBytes w)}. ch_Tx ch' h = ch_Tx ch h"
  shows "BroadcastWd now ch' k s = BroadcastWd now ch k s \<and> Recover now ch' k s = Recover now ch k s"
proof -
  have r: "RebroadcastPersisted ch' (w_SignedTxBytes w) = RebroadcastPersisted ch (w_SignedTxBytes w)"
    using assms(2,3) by (simp add: RebroadcastPersisted_def)
  have u: "resolveUnknownAfterBroadcast now ch' w h = resolveUnknownAfterBroadcast now ch w h" if "w_TxHash w = Some h" for h
    using assms(3) that by (simp add: resolveUnknownAfterBroadcast_def)
  show ?thesis using assms(1,2) r u
    by (auto simp: BroadcastWd_def Recover_def orReturn_def bindE_def tryE_run Get_run
        split: option.splits list.splits sum.splits)
qed

theorem broadcast_persisted_only_witness:
  "BroadcastWd 30 (ex_node\<lparr>ch_Broadcast := (\<lambda>b. if b = [10, 1, 2] then ch_Broadcast ex_node b else Inl (ErrOther ''down''))\<rparr>)
     ''w1'' (ex_st (ex_wd WithdrawalSigned [10, 1, 2]) [ex_slot SequenceSigned]) =
   BroadcastWd 30 ex_node ''w1'' (ex_st (ex_wd WithdrawalSigned [10, 1, 2]) [ex_slot SequenceSigned])"
  by (rule broadcast_persisted_only [of "''w1''" _ "ex_wd WithdrawalSigned [10, 1, 2]", THEN conjunct1])
     (simp_all add: ex_st_def ex_wd_def)

lemma orReturn_ok:
  "orReturn o1 m f s = (Inr (o2, None), t) \<longleftrightarrow> (\<exists>a s'. m s = (Inr a, s') \<and> f a s' = (Inr (o2, None), t))"
  by (cases "m s") (auto simp: orReturn_def bindE_def tryE_run split: sum.splits)

lemma confirmIncluded_success:
  assumes "confirmIncluded now W ch k info s = (Inr (OutcomeExecSuccess, None), t)"
  shows "ti_Code info = 0 \<and> (\<exists>st. ch_NodeStatus ch = Inr st \<and>
      \<not> belowDepth (ns_LatestHeight st) (ti_Height info) (cfg_Confirmations (wf_cfg W))) \<and>
    withdrawalRepo_UpdateStatus now k WithdrawalIncluded WithdrawalConfirmed noWithdrawalUpdate s = (Inr (), t)"
  using assms by (auto simp: confirmIncluded_def orReturn_ok split: if_splits sum.splits)

lemma confirmMissing_not_success: "confirmMissing now W w s \<noteq> (Inr (OutcomeExecSuccess, e), t)"
  by (auto simp: confirmMissing_def orReturn_def bindE_def tryE_run split: sum.splits if_splits)

lemma Confirm_success:
  assumes "Confirm now W ch k s = (Inr (OutcomeExecSuccess, None), t)"
  obtains w h info s1 where "find (\<lambda>w. w_WithdrawalID w = k) (t_withdrawals s) = Some w" "w_TxHash w = Some h"
    "w_Status w \<in> {WithdrawalBroadcast, WithdrawalIncluded}" "confirmInfo (ch_Tx ch h) = Inr (Some info)"
    "confirmIncluded now W ch k info s1 = (Inr (OutcomeExecSuccess, None), t)"
proof -
  from assms obtain w where w: "find (\<lambda>w. w_WithdrawalID w = k) (t_withdrawals s) = Some w"
    by (auto simp: Confirm_def orReturn_ok Get_run split: option.splits)
  from assms w obtain h where h: "w_TxHash w = Some h" and st: "w_Status w \<in> {WithdrawalBroadcast, WithdrawalIncluded}"
    by (auto simp: Confirm_def orReturn_ok Get_run split: option.splits if_splits)
  show thesis
  proof (cases "confirmInfo (ch_Tx ch h)")
    case (Inl e)
    then show thesis using assms w h st by (auto simp: Confirm_def orReturn_ok Get_run)
  next
    case (Inr i)
    then obtain info where i: "i = Some info"
      using assms w h st confirmMissing_not_success by (cases i) (auto simp: Confirm_def orReturn_ok Get_run)
    show thesis
    proof (cases "w_Status w = WithdrawalBroadcast")
      case True
      then show thesis using assms w h Inr i that [OF w h st, of info] by (auto simp: Confirm_def orReturn_ok Get_run)
    next
      case False
      then show thesis using assms w h st Inr i that [OF w h st, of info s] by (auto simp: Confirm_def orReturn_ok Get_run)
    qed
  qed
qed

text \<open>With the node at or above the inclusion height the 64-bit test is the integer one.\<close>

lemma uint_nonneg_sint:
  fixes x :: int64
  assumes "0 \<le> sint x"
  shows "uint x = sint x \<and> sint x < 2 ^ 63"
proof -
  have "sint x < 2 ^ 63" using sint_range_size [of x] by (simp add: word_size)
  then show ?thesis using assms by (simp add: uint_sint take_bit_int_eq_self)
qed

lemma belowDepth_iff:
  assumes "0 \<le> sint height" "sint height \<le> sint latest"
  shows "belowDepth latest height c \<longleftrightarrow> sint latest - sint height + 1 < uint c"
proof -
  have u: "uint height = sint height" "uint latest = sint latest" "sint latest < 2 ^ 63"
    using uint_nonneg_sint [of height] uint_nonneg_sint [of latest] assms by auto
  then have "uint (latest - height) = sint latest - sint height" using assms by (simp add: uint_sub_if')
  then have "uint (latest - height + 1) = sint latest - sint height + 1"
    using u assms by (simp add: uint_plus_if')
  then show ?thesis by (simp add: belowDepth_def word_less_def)
qed

text \<open>With the node two or more blocks behind, the difference wraps and the test passes.\<close>

lemma belowDepth_behind:
  assumes "0 \<le> sint latest" "sint latest + 2 \<le> sint height" "uint c \<le> 2 ^ 63"
  shows "\<not> belowDepth latest height c"
proof -
  have u: "uint height = sint height" "uint latest = sint latest" "sint height < 2 ^ 63"
    using uint_nonneg_sint [of height] uint_nonneg_sint [of latest] assms by auto
  then have "uint (latest - height) = sint latest - sint height + 2 ^ 64" using assms by (simp add: uint_sub_if')
  then have "uint (latest - height + 1) = sint latest - sint height + 1 + 2 ^ 64"
    using u assms by (simp add: uint_plus_if')
  then show ?thesis using assms u by (simp add: belowDepth_def word_less_def)
qed

text \<open>
  C35.  A withdrawal is confirmed only on chain evidence: when \<open>Confirm\<close> reports
  success, the node returned the transaction of the record's stored hash as
  included with code 0, the record is \<open>CONFIRMED\<close>, and if the node's height is at
  or above the inclusion height the transaction is at least the configured
  number of blocks deep.  For a node behind the inclusion height nothing is said of
  the depth: the next theorem is about it.
\<close>

theorem confirm_on_evidence:
  assumes "Confirm now W ch k s = (Inr (OutcomeExecSuccess, None), t)"
  shows "\<exists>w w' h info st. find (\<lambda>w. w_WithdrawalID w = k) (t_withdrawals s) = Some w \<and> w_TxHash w = Some h \<and>
    w_Status w \<in> {WithdrawalBroadcast, WithdrawalIncluded} \<and>
    ch_Tx ch h = Inr (Some info) \<and> ti_Height info \<noteq> 0 \<and> ti_Code info = 0 \<and> ch_NodeStatus ch = Inr st \<and>
    find (\<lambda>w. w_WithdrawalID w = k) (t_withdrawals t) = Some w' \<and> w_Status w' = WithdrawalConfirmed \<and>
    (0 \<le> sint (ti_Height info) \<longrightarrow> sint (ti_Height info) \<le> sint (ns_LatestHeight st) \<longrightarrow>
       uint (cfg_Confirmations (wf_cfg W)) \<le> sint (ns_LatestHeight st) - sint (ti_Height info) + 1)"
proof -
  obtain w h info s1 where w: "find (\<lambda>w. w_WithdrawalID w = k) (t_withdrawals s) = Some w" "w_TxHash w = Some h"
      "w_Status w \<in> {WithdrawalBroadcast, WithdrawalIncluded}"
    and info: "confirmInfo (ch_Tx ch h) = Inr (Some info)"
    and ci: "confirmIncluded now W ch k info s1 = (Inr (OutcomeExecSuccess, None), t)"
    using assms by (rule Confirm_success)
  note c = confirmIncluded_success [OF ci]
  from c obtain st where st: "ch_NodeStatus ch = Inr st"
    "\<not> belowDepth (ns_LatestHeight st) (ti_Height info) (cfg_Confirmations (wf_cfg W))" by blast
  from c have "withdrawalRepo_UpdateStatus now k WithdrawalIncluded WithdrawalConfirmed noWithdrawalUpdate s1 = (Inr (), t)"
    by blast
  then obtain w1 where "find (\<lambda>w. w_WithdrawalID w = k) (t_withdrawals t) =
      Some (applyWithdrawalUpdate now WithdrawalConfirmed noWithdrawalUpdate w1)" by (rule wd_update_row)
  moreover have "ch_Tx ch h = Inr (Some info)" "ti_Height info \<noteq> 0"
    using info by (auto simp: confirmInfo_def split: sum.splits option.splits if_splits)
  moreover have "0 \<le> sint (ti_Height info) \<longrightarrow> sint (ti_Height info) \<le> sint (ns_LatestHeight st) \<longrightarrow>
       uint (cfg_Confirmations (wf_cfg W)) \<le> sint (ns_LatestHeight st) - sint (ti_Height info) + 1"
    using st(2) belowDepth_iff [of "ti_Height info" "ns_LatestHeight st" "cfg_Confirmations (wf_cfg W)"]
    unfolding not_less [symmetric] by blast
  ultimately show ?thesis using w st(1) c
    by - (rule exI [of _ w],
        rule exI [of _ "applyWithdrawalUpdate now WithdrawalConfirmed noWithdrawalUpdate w1"], rule exI [of _ h], rule exI [of _ info], rule exI [of _ st], simp)
qed

lemma confirm_included_run:
  assumes "find (\<lambda>w. w_WithdrawalID w = k) (t_withdrawals s) = Some w" "w_Status w = WithdrawalIncluded"
    and "w_TxHash w = Some h" "ch_Tx ch h = Inr (Some info)" "ti_Code info = 0" "ti_Height info \<noteq> 0" "ch_NodeStatus ch = Inr st"
    and "\<not> belowDepth (ns_LatestHeight st) (ti_Height info) (cfg_Confirmations (wf_cfg W))"
    and "withdrawalRepo_UpdateStatus now k WithdrawalIncluded WithdrawalConfirmed noWithdrawalUpdate s = (Inr (), t)"
  shows "Confirm now W ch k s = (Inr (OutcomeExecSuccess, None), t)"
proof -
  have "confirmInfo (ch_Tx ch h) = Inr (Some info)" using assms(4,6) by (simp add: confirmInfo_def)
  then show ?thesis using assms by (simp add: Confirm_def confirmIncluded_def orReturn_ok Get_run)
qed

text \<open>
  C36.  A node that lags two or more blocks behind the inclusion height makes
  \<open>Confirm\<close> report success at once, however many confirmations are configured:
  the height difference is negative and wraps around as an unsigned number.
\<close>

theorem confirm_behind_node:
  assumes "find (\<lambda>w. w_WithdrawalID w = k) (t_withdrawals s) = Some w" "w_Status w = WithdrawalIncluded"
    and "w_TxHash w = Some h" "ch_Tx ch h = Inr (Some info)" "ti_Code info = 0" "ch_NodeStatus ch = Inr st"
    and "0 \<le> sint (ns_LatestHeight st)" "sint (ns_LatestHeight st) + 2 \<le> sint (ti_Height info)"
    and "uint (cfg_Confirmations (wf_cfg W)) \<le> 2 ^ 63"
  shows "\<exists>t. Confirm now W ch k s = (Inr (OutcomeExecSuccess, None), t) \<and>
    (\<exists>w'. find (\<lambda>w. w_WithdrawalID w = k) (t_withdrawals t) = Some w' \<and> w_Status w' = WithdrawalConfirmed)"
proof -
  have deep: "\<not> belowDepth (ns_LatestHeight st) (ti_Height info) (cfg_Confirmations (wf_cfg W))"
    by (rule belowDepth_behind [OF assms(7-9)])
  have high: "ti_Height info \<noteq> 0"
  proof
    assume "ti_Height info = 0"
    then have "sint (ti_Height info) = 0" by simp
    then show False using assms(7,8) by linarith
  qed
  obtain t where upd: "withdrawalRepo_UpdateStatus now k WithdrawalIncluded WithdrawalConfirmed noWithdrawalUpdate s = (Inr (), t)"
    using wd_update_ok_iff [of now k WithdrawalIncluded WithdrawalConfirmed noWithdrawalUpdate s] assms(1,2) by simp
  then have "Confirm now W ch k s = (Inr (OutcomeExecSuccess, None), t)"
    by (rule confirm_included_run [OF assms(1-5) high assms(6) deep])
  moreover from upd obtain w1 where "find (\<lambda>w. w_WithdrawalID w = k) (t_withdrawals t) =
      Some (applyWithdrawalUpdate now WithdrawalConfirmed noWithdrawalUpdate w1)" by (rule wd_update_row)
  ultimately show ?thesis by auto
qed

lemma run_confirm:
  "Confirm 30 ex_W (ex_chain (\<lambda>h. Inr (Some \<lparr>ti_Height = 49, ti_Code = 0, ti_RawLog = []\<rparr>))) ''w1''
     (ex_st (ex_wd WithdrawalIncluded [10, 1, 2]) [ex_slot SequenceConsumed]) =
   (Inr (OutcomeExecSuccess, None),
    ex_st ((ex_wd WithdrawalConfirmed [10, 1, 2])\<lparr>w_UpdatedAt := 30\<rparr>) [ex_slot SequenceConsumed])"
proof -
  let ?s = "ex_st (ex_wd WithdrawalIncluded [10, 1, 2]) [ex_slot SequenceConsumed]"
  let ?t = "ex_st ((ex_wd WithdrawalConfirmed [10, 1, 2])\<lparr>w_UpdatedAt := 30\<rparr>) [ex_slot SequenceConsumed]"
  have upd: "withdrawalRepo_UpdateStatus 30 ''w1'' WithdrawalIncluded WithdrawalConfirmed noWithdrawalUpdate ?s = (Inr (), ?t)"
    by (simp add: wd_update_ok_iff ex_st_def ex_defs map_where_def applyWithdrawalUpdate_def)
  show ?thesis
    by (rule confirm_included_run [where w = "ex_wd WithdrawalIncluded [10, 1, 2]" and h = "txHashOf [10, 1, 2]"
          and info = "\<lparr>ti_Height = 49, ti_Code = 0, ti_RawLog = []\<rparr>"
          and st = "\<lparr>ns_LatestHeight = 50, ns_CatchingUp = False\<rparr>", OF _ _ _ _ _ _ _ _ upd])
       (simp_all add: ex_st_def ex_wd_def ex_chain_def belowDepth_def ex_W_def ex_cfg_def)
qed

theorem confirm_on_evidence_witness:
  "\<exists>w h. find (\<lambda>w. w_WithdrawalID w = ''w1'')
        (t_withdrawals (ex_st (ex_wd WithdrawalIncluded [10, 1, 2]) [ex_slot SequenceConsumed])) = Some w \<and>
     w_TxHash w = Some h \<and> uint (cfg_Confirmations (wf_cfg ex_W)) \<le> 50 - 49 + 1"
  using confirm_on_evidence [OF run_confirm] by (auto simp: ex_chain_def)

theorem confirm_behind_node_witness:
  "\<exists>t. Confirm 30 ex_W (ex_chain (\<lambda>h. Inr (Some \<lparr>ti_Height = 60, ti_Code = 0, ti_RawLog = []\<rparr>))) ''w1''
       (ex_st (ex_wd WithdrawalIncluded [10, 1, 2]) [ex_slot SequenceConsumed]) = (Inr (OutcomeExecSuccess, None), t) \<and>
     (\<exists>w'. find (\<lambda>w. w_WithdrawalID w = ''w1'') (t_withdrawals t) = Some w' \<and> w_Status w' = WithdrawalConfirmed)"
  by (rule confirm_behind_node [where w = "ex_wd WithdrawalIncluded [10, 1, 2]" and h = "txHashOf [10, 1, 2]"
        and st = "\<lparr>ns_LatestHeight = 50, ns_CatchingUp = False\<rparr>"
        and info = "\<lparr>ti_Height = 60, ti_Code = 0, ti_RawLog = []\<rparr>"])
     (simp_all add: ex_st_def ex_wd_def ex_chain_def ex_W_def ex_cfg_def)

section \<open>Cancellation\<close>

text \<open>
  C37.  \<open>Cancel\<close> also accepts a withdrawal in \<open>REVIEW_REQUIRED\<close> that carries signed
  bytes: it becomes \<open>CANCELLED\<close> with its bytes, its reservation stays redeemable,
  and although the transaction may still be included the withdrawal stops
  counting as committed.
\<close>

theorem cancel_uncommits_signed:
  assumes uq: "store_uniq s" and w: "find (\<lambda>w. w_WithdrawalID w = k) (t_withdrawals s) = Some w"
    and st: "w_Status w = WithdrawalReviewRequired" and bz: "w_SignedTxBytes w \<noteq> []"
    and res: "find (\<lambda>r. r_WorkRef r = WorkRef WorkWithdrawal k) (t_sequences s) = Some r" "redeemable (r_Status r)"
  shows "\<exists>t w'. Cancel now k s = (Inr (), t) \<and> t_sequences t = t_sequences s \<and>
    find (\<lambda>w. w_WithdrawalID w = k) (t_withdrawals t) = Some w' \<and> w_Status w' = WithdrawalCancelled \<and>
    w_SignedTxBytes w' = w_SignedTxBytes w \<and>
    commits (w_ChainID w) (w_SourceAddress w) (t_sequences s) w = 1 \<and>
    commits (w_ChainID w) (w_SourceAddress w) (t_sequences t) w' = 0"
proof -
  let ?f = "applyWithdrawalUpdate now WithdrawalCancelled noWithdrawalUpdate"
  obtain t where upd: "withdrawalRepo_UpdateStatus now k WithdrawalReviewRequired WithdrawalCancelled noWithdrawalUpdate s = (Inr (), t)"
    using wd_update_ok_iff [of now k WithdrawalReviewRequired WithdrawalCancelled noWithdrawalUpdate s] w st by simp
  then have row: "find (\<lambda>w. w_WithdrawalID w = k) (t_withdrawals t) = Some (?f w)" "t_sequences t = t_sequences s"
    using w by (auto elim: wd_update_row)
  then have run: "Cancel now k s = (Inr (), t)" using w st res upd
    by (simp add: Cancel_def bindE_def thenE_def tryE_run Get_run GetByWorkRef_run with_tx_ok_iff redeemable_def) auto
  have k: "w_WithdrawalID w = k" using find_SomeD [OF w] by simp
  have "countsAsCommitted p" if "p \<in> set (leftJoinReservation (t_sequences s) w)" for p
    using leftJoin_fst [OF that] bz by (cases p) (simp add: countsAsCommitted_def)
  then have "filter countsAsCommitted (leftJoinReservation (t_sequences s) w) = leftJoinReservation (t_sequences s) w"
    by (simp add: filter_id_conv)
  moreover have "length (leftJoinReservation (t_sequences s) w) = 1"
    using uq by (intro leftJoin_one) (simp add: store_uniq_def uniq_sequences_def)
  ultimately have "commits (w_ChainID w) (w_SourceAddress w) (t_sequences s) w = 1"
    using st by (simp add: commits_def committedWithdrawalStatuses_def enumValid_iff)
  moreover have "commits (w_ChainID w) (w_SourceAddress w) (t_sequences t) (?f w) = 0"
    by (simp add: commits_def committedWithdrawalStatuses_def enumValid_iff)
  ultimately show ?thesis using run row by auto
qed

theorem cancel_uncommits_signed_witness:
  "\<exists>t w'. Cancel 30 ''w1'' (ex_store WithdrawalReviewRequired [10, 1, 2] SequenceReconciliationRequired) = (Inr (), t) \<and>
     find (\<lambda>w. w_WithdrawalID w = ''w1'') (t_withdrawals t) = Some w' \<and> w_Status w' = WithdrawalCancelled \<and>
     w_SignedTxBytes w' = [10, 1, 2]"
  using cancel_uncommits_signed [OF ex_store_uniq, of "''w1''" WithdrawalReviewRequired "[10, 1, 2]"
      SequenceReconciliationRequired "ex_wd WithdrawalReviewRequired [10, 1, 2]" "ex_res SequenceReconciliationRequired" 30]
  by (auto simp: ex_store_def ex_wd_def ex_res_def redeemable_def)

section \<open>Review\<close>

lemma leftJoin_find:
  assumes "distinct (map r_WorkRef seqs)"
  shows "leftJoinReservation seqs w =
    [(w, map_option r_Status (find (\<lambda>r. r_WorkRef r = WorkRef WorkWithdrawal (w_WithdrawalID w)) seqs))]"
proof -
  let ?p = "\<lambda>r. r_WorkRef r = WorkRef WorkWithdrawal (w_WithdrawalID w)"
  have "filter ?p seqs = (case find ?p seqs of None \<Rightarrow> [] | Some r \<Rightarrow> [r])"
    using assms
    by (induction seqs) (auto simp: filter_empty_conv rev_image_eqI split: option.splits dest!: find_SomeD intro: rev_image_eqI)
  then show ?thesis by (simp add: leftJoinReservation_def split: option.split)
qed

text \<open>The operator's test and the commitment sum agree on what is still unsigned.\<close>

lemma preSign_commits:
  assumes "store_uniq s" "w_Status w = WithdrawalReviewRequired"
    and "find (\<lambda>r. r_WorkRef r = WorkRef WorkWithdrawal (w_WithdrawalID w)) (t_sequences s) = res"
  shows "commits (w_ChainID w) (w_SourceAddress w) (t_sequences s) w = (if preSign w res then 0 else 1)"
proof -
  have "distinct (map r_WorkRef (t_sequences s))" using assms(1) by (simp add: store_uniq_def uniq_sequences_def)
  then show ?thesis using assms(2,3)
    by (auto simp: commits_def leftJoin_find committedWithdrawalStatuses_def enumValid_iff countsAsCommitted_def
        preSignReservationStatus_def preSign_def split: option.splits)
qed

lemma resolveWithdrawal_ok:
  assumes "resolveWithdrawalReview now k o1 s = (Inr (), t)"
  obtains w res target seqTo s1 where "find (\<lambda>w. w_WithdrawalID w = k) (t_withdrawals s) = Some w"
    "w_Status w = WithdrawalReviewRequired"
    "find (\<lambda>r. r_WorkRef r = WorkRef WorkWithdrawal k) (t_sequences s) = res"
    "reviewTarget (preSign w res) o1 = Inr (target, seqTo)"
    "withdrawalRepo_UpdateStatus now k WithdrawalReviewRequired target noWithdrawalUpdate s = (Inr (), s1)"
    "(case res of None \<Rightarrow> ret () | Some _ \<Rightarrow> disposeReservation now k seqTo) s1 = (Inr (), t)"
  using assms
  by (auto simp: resolveWithdrawalReview_def bindE_ok_iff thenE_ok_iff Get_run tryE_run GetByWorkRef_run
      split: option.splits if_splits)

lemma disposed_status:
  assumes uq: "store_uniq s" and run: "disposeReservation now k to s = (Inr (), t)"
    and r: "r \<in> set (t_sequences t)" "r_WorkRef r = WorkRef WorkWithdrawal k"
  shows "r_Status r = to"
proof -
  let ?p = "\<lambda>r. r_WorkRef r = WorkRef WorkWithdrawal k"
  show ?thesis
  proof (cases "find ?p (t_sequences s)")
    case None
    then have "t = s" using run by (simp add: disposeReservation_def bindE_def tryE_run GetByWorkRef_run)
    then show ?thesis using None r find_NoneD by fast
  next
    case (Some x)
    note x = find_SomeD [OF Some]
    show ?thesis
    proof (cases "r_Status x = to")
      case True
      then have "t = s" using run Some by (simp add: disposeReservation_def bindE_def tryE_run GetByWorkRef_run)
      then show ?thesis using True x r reservation_unique [OF uq, of r x] by auto
    next
      case False
      then have "sequenceRepo_UpdateStatus now (r_ID x) (r_Status x) to s = (Inr (), t)"
        using run Some by (simp add: disposeReservation_def bindE_def tryE_run GetByWorkRef_run)
      then have t: "t_sequences t = map_where (\<lambda>y. r_ID y = r_ID x \<and> r_Status y = r_Status x)
          (\<lambda>y. y\<lparr>r_Status := to, r_UpdatedAt := now\<rparr>) (t_sequences s)" by (simp add: seq_update_ok_iff)
      from r(1) obtain y where y: "y \<in> set (t_sequences s)"
        "r = (if r_ID y = r_ID x \<and> r_Status y = r_Status x then y\<lparr>r_Status := to, r_UpdatedAt := now\<rparr> else y)"
        unfolding t by (rule map_where_inE)
      have "y = x" using x y r(2) reservation_unique [OF uq, of y x] by (auto split: if_splits)
      then show ?thesis using y by simp
    qed
  qed
qed

lemma reviewResolve_ok:
  assumes "reviewRepo_Resolve now i text at s = (Inr (), t)"
  shows "t = t_reviews_update (map_where (\<lambda>x. ri_ID x = i \<and> ri_ResolvedAt x = None)
    (\<lambda>x. x\<lparr>ri_ResolvedAt := Some (fmtTime now at), ri_Resolution := text\<rparr>)) s"
  using assms by (auto simp: reviewRepo_Resolve_def bindE_ok_iff thenE_ok_iff execUpdate_run split: if_splits)

text \<open>
  C33.  Resolving a withdrawal's review item does what the chosen outcome says and
  nothing else: confirmed and failed are open only to a withdrawal that still
  counts as committed and consume its reservation, cancelled only to one that
  does not and releases it; the record gets the outcome's status, and in the
  same transaction the item is marked resolved.
\<close>

theorem review_resolution_exact:
  assumes uq: "store_uniq s" and run: "resolveReviewItem now i o1 note at s = (Inr (), t)"
    and item: "find (\<lambda>x. ri_ID x = i) (t_reviews s) = Some item" "ri_Kind item = ReviewKindWithdrawal"
  shows "\<exists>w w'. find (\<lambda>w. w_WithdrawalID w = ri_RefID item) (t_withdrawals s) = Some w \<and>
    w_Status w = WithdrawalReviewRequired \<and>
    find (\<lambda>w. w_WithdrawalID w = ri_RefID item) (t_withdrawals t) = Some w' \<and>
    (o1, w_Status w') \<in> {(outcomeWithdrawalConfirmed, WithdrawalConfirmed), (outcomeWithdrawalFailed, WithdrawalFailed),
       (outcomeWithdrawalCancelled, WithdrawalCancelled)} \<and>
    commits (w_ChainID w) (w_SourceAddress w) (t_sequences s) w = (if o1 = outcomeWithdrawalCancelled then 0 else 1) \<and>
    (\<forall>r \<in> set (t_sequences t). r_WorkRef r = WorkRef WorkWithdrawal (ri_RefID item) \<longrightarrow>
       r_Status r = (if o1 = outcomeWithdrawalCancelled then SequenceReleased else SequenceConsumed)) \<and>
    (\<forall>x \<in> set (t_reviews t). ri_ID x = i \<longrightarrow> ri_ResolvedAt x \<noteq> None)"
proof -
  let ?k = "ri_RefID item"
  obtain s1 where rw: "resolveWithdrawalReview now ?k o1 s = (Inr (), s1)"
    and rr: "reviewRepo_Resolve now i (outcomeText o1 @ '': '' @ note) at s1 = (Inr (), t)"
    using run item by (auto simp: resolveReviewItem_def reviewRepo_Get_def bindE_ok_iff thenE_ok_iff with_tx_ok_iff
        split: if_splits)
  note eq = reviewResolve_ok [OF rr]
  have t: "t_withdrawals t = t_withdrawals s1" "t_sequences t = t_sequences s1" by (subst eq, simp)+
  have resolved: "ri_ResolvedAt x \<noteq> None" if x: "x \<in> set (t_reviews t)" "ri_ID x = i" for x
  proof -
    have "x \<in> set (map_where (\<lambda>x. ri_ID x = i \<and> ri_ResolvedAt x = None) (\<lambda>x. x\<lparr>ri_ResolvedAt := Some (fmtTime now at),
        ri_Resolution := outcomeText o1 @ '': '' @ note\<rparr>) (t_reviews s1))" using x(1) by (subst (asm) eq) simp
    then obtain y where "x = (if ri_ID y = i \<and> ri_ResolvedAt y = None then y\<lparr>ri_ResolvedAt := Some (fmtTime now at),
        ri_Resolution := outcomeText o1 @ '': '' @ note\<rparr> else y)" by (rule map_where_inE)
    then show ?thesis using x(2) by (cases "ri_ID y = i \<and> ri_ResolvedAt y = None") simp_all
  qed
  from rw show ?thesis
  proof (rule resolveWithdrawal_ok)
    fix w res target seqTo s2
    assume w: "find (\<lambda>w. w_WithdrawalID w = ?k) (t_withdrawals s) = Some w" "w_Status w = WithdrawalReviewRequired"
      and res: "find (\<lambda>r. r_WorkRef r = WorkRef WorkWithdrawal ?k) (t_sequences s) = res"
      and tgt: "reviewTarget (preSign w res) o1 = Inr (target, seqTo)"
      and upd: "withdrawalRepo_UpdateStatus now ?k WithdrawalReviewRequired target noWithdrawalUpdate s = (Inr (), s2)"
      and disp: "(case res of None \<Rightarrow> ret () | Some _ \<Rightarrow> disposeReservation now ?k seqTo) s2 = (Inr (), s1)"
    have id: "w_WithdrawalID w = ?k" using find_SomeD [OF w(1)] by simp
    have row: "find (\<lambda>w. w_WithdrawalID w = ?k) (t_withdrawals s2) =
        Some (applyWithdrawalUpdate now target noWithdrawalUpdate w)" "t_sequences s2 = t_sequences s"
      using upd w by (auto elim: wd_update_row)
    have uq2: "store_uniq s2" using uq staysD [OF uniq_wd_update upd] by (simp add: uniq_rel_def)
    have keep: "t_withdrawals s1 = t_withdrawals s2"
      using disp by (auto simp: disposeReservation_def bindE_ok_iff tryE_run GetByWorkRef_run seq_update_ok_iff
          split: option.splits if_splits)
    have st: "\<forall>r \<in> set (t_sequences t). r_WorkRef r = WorkRef WorkWithdrawal ?k \<longrightarrow> r_Status r = seqTo"
    proof (cases res)
      case None
      then have "t_sequences t = t_sequences s" using disp row(2) t(2) by simp
      then show ?thesis using find_NoneD [OF res [unfolded None]] by simp
    next
      case (Some r)
      then have "disposeReservation now ?k seqTo s2 = (Inr (), s1)" using disp by simp
      then show ?thesis using disposed_status [OF uq2] t(2) by simp
    qed
    have c: "commits (w_ChainID w) (w_SourceAddress w) (t_sequences s) w = (if preSign w res then 0 else 1)"
      using preSign_commits [OF uq w(2)] res id by simp
    have "(o1, target) \<in> {(outcomeWithdrawalConfirmed, WithdrawalConfirmed), (outcomeWithdrawalFailed, WithdrawalFailed),
        (outcomeWithdrawalCancelled, WithdrawalCancelled)}" "preSign w res \<longleftrightarrow> o1 = outcomeWithdrawalCancelled"
      "seqTo = (if o1 = outcomeWithdrawalCancelled then SequenceReleased else SequenceConsumed)"
      using tgt by (cases o1; simp add: reviewTarget_def split: if_splits)+
    then show ?thesis using w row(1) st t keep c resolved
      by - (rule exI [of _ w], rule exI [of _ "applyWithdrawalUpdate now target noWithdrawalUpdate w"], simp)
  qed
qed

definition ex_review :: ReviewItem where
  "ex_review = \<lparr>ri_ID = 1, ri_ChainID = ''sovr-1'', ri_Kind = ReviewKindWithdrawal, ri_RefID = ''w1'',
     ri_Reason = ''signer refused'', ri_OpenedAt = 5, ri_ResolvedAt = None, ri_Resolution = []\<rparr>"

theorem review_resolution_exact_witness:
  "\<exists>w. find (\<lambda>w. w_WithdrawalID w = ''w1'') (t_withdrawals (snd (resolveReviewItem 30 1 outcomeWithdrawalCancelled ''ok'' 31
        ((ex_store WithdrawalReviewRequired [] SequenceReserved)\<lparr>t_reviews := [ex_review]\<rparr>)))) = Some w \<and>
     w_Status w = WithdrawalCancelled"
proof -
  let ?s = "(ex_store WithdrawalReviewRequired [] SequenceReserved)\<lparr>t_reviews := [ex_review]\<rparr>"
  have uq: "store_uniq ?s" using ex_store_uniq [of WithdrawalReviewRequired "[]" SequenceReserved]
    by (simp add: store_uniq_def ex_store_def empty_store_def)
  have "fst (resolveReviewItem 30 1 outcomeWithdrawalCancelled ''ok'' 31 ?s) = Inr ()" by code_simp
  then have run: "resolveReviewItem 30 1 outcomeWithdrawalCancelled ''ok'' 31 ?s =
      (Inr (), snd (resolveReviewItem 30 1 outcomeWithdrawalCancelled ''ok'' 31 ?s))" by (metis prod.collapse)
  show ?thesis using review_resolution_exact [OF uq run, of ex_review] by (auto simp: ex_review_def)
qed

end
