(* ===== verification/Sweep_Settlement.thy ===== *)
theory Sweep_Settlement
  imports Sweep_Fixtures Lifecycle_Theorems
begin

text \<open>
  How a sweep settles its deposits: only the confirmation of the sweep's own
  transaction marks a deposit as swept, with that transaction's hash.
\<close>

section \<open>What confirmation changes\<close>

definition swept_rel :: "int list \<Rightarrow> string \<Rightarrow> store \<Rightarrow> store \<Rightarrow> bool" where
  "swept_rel ids h s t \<longleftrightarrow> (\<forall>d' \<in> set (t_deposits t). \<exists>d \<in> set (t_deposits s). d_ID d = d_ID d' \<and>
     (d' = d \<or> d_ID d \<in> set ids \<and> d_Status d = DepositSweepPending \<and> d_Status d' = DepositSwept \<and> d_SweepTxHash d' = Some h))"

interpretation swt: step_rel "swept_rel ids h" for ids h
proof
  fix s t u
  assume st: "swept_rel ids h s t" and tu: "swept_rel ids h t u"
  show "swept_rel ids h s u"
    unfolding swept_rel_def
  proof
    fix z assume "z \<in> set (t_deposits u)"
    then obtain y where y: "y \<in> set (t_deposits t)" "d_ID y = d_ID z"
      "z = y \<or> d_ID y \<in> set ids \<and> d_Status y = DepositSweepPending \<and> d_Status z = DepositSwept \<and> d_SweepTxHash z = Some h"
      using tu unfolding swept_rel_def by blast
    then obtain x where "x \<in> set (t_deposits s)" "d_ID x = d_ID y"
      "y = x \<or> d_ID x \<in> set ids \<and> d_Status x = DepositSweepPending \<and> d_Status y = DepositSwept \<and> d_SweepTxHash y = Some h"
      using st unfolding swept_rel_def by blast
    then show "\<exists>d \<in> set (t_deposits s). d_ID d = d_ID z \<and> (z = d \<or> d_ID d \<in> set ids \<and> d_Status d = DepositSweepPending \<and>
        d_Status z = DepositSwept \<and> d_SweepTxHash z = Some h)"
      using y by (intro bexI [of _ x]) auto
  qed
qed (auto simp: swept_rel_def)

lemma swept_same: "t_deposits t = t_deposits s \<Longrightarrow> swept_rel ids h s t"
  by (auto simp: swept_rel_def)

named_theorems swept_ops

lemma swept_reads [swept_ops]:
  "stays (swept_rel ids h) (sequenceRepo_GetByWorkRef ref)" "stays (swept_rel ids h) (depositRepo_GetByID i)"
  by (rule swt.stays_unchanged, simp add: reads_unchanged)+

lemma swept_seq_update [swept_ops]: "stays (swept_rel ids h) (sequenceRepo_UpdateStatus now k from to)"
proof (rule stays_cases)
  fix s t and a :: unit
  assume "sequenceRepo_UpdateStatus now k from to s = (Inr a, t)"
  then show "swept_rel ids h s t" by (auto simp: seq_update_ok_iff intro: swept_same)
qed (use seq_update_err swt.R_refl in blast)

lemma swept_sw_update [swept_ops]: "stays (swept_rel ids h) (sweepRepo_UpdateStatus now k from to u)"
proof (rule stays_cases)
  fix s t and a :: unit
  assume "sweepRepo_UpdateStatus now k from to u s = (Inr a, t)"
  then show "swept_rel ids h s t" by (auto simp: sw_update_ok_iff intro: swept_same)
qed (use sw_update_err swt.R_refl in blast)

lemma swept_fee [swept_ops]: "stays (swept_rel ids h) (ledgerRepo_AppendFeeFundingSpend now f)"
  by (simp add: stays_def) (auto simp: ledgerRepo_AppendFeeFundingSpend_def run_defs Let_def amountText_cases intro: swept_same)

lemma swept_markSwept:
  assumes "i \<in> set ids"
  shows "stays (swept_rel ids h) (markSwept now h i)"
proof -
  have "stays (swept_rel ids h) (depositRepo_UpdateStatus now i DepositSweepPending DepositSwept
      (noDepositUpdate\<lparr>du_SweepTxHash := Some h\<rparr>))"
  proof (rule stays_cases)
    fix s t and a :: unit
    assume "depositRepo_UpdateStatus now i DepositSweepPending DepositSwept (noDepositUpdate\<lparr>du_SweepTxHash := Some h\<rparr>) s = (Inr a, t)"
    then show "swept_rel ids h s t" using assms
      by (auto simp: dep_update_ok_iff swept_rel_def applyDepositUpdate_def noDepositUpdate_def map_where_def)
  qed (use dep_update_err swt.R_refl in blast)
  then show ?thesis unfolding markSwept_def tolerateConflict_def by (intro swt.stays_rules swept_ops)
qed

lemma swept_confirmTx: "stays (swept_rel (j_DepositIDs j) h) (confirmTx now j h info)"
proof -
  have "stays (swept_rel ids h) (forE is (markSwept now h))" if "set is \<subseteq> set ids" for ids "is"
    using that
  proof (induction "is")
    case (Cons i "is")
    then show ?case unfolding forE.simps by (intro swt.stays_thenE swept_markSwept) simp_all
  qed (simp add: stays_def swt.R_refl)
  then have "stays (swept_rel (j_DepositIDs j) h) (markDepositsSwept now j h)" by (simp add: markDepositsSwept_def)
  then show ?thesis
    unfolding confirmTx_def engine_consumeReservation_def tolerateConflict_def recordFeeFundingSpend_def
    by (intro swt.stays_rules swept_ops)
qed

text \<open>The one way through \<open>Confirm\<close> that touches a deposit.\<close>

definition sweep_evidence :: "Engine \<Rightarrow> chain \<Rightarrow> SweepJob \<Rightarrow> string \<Rightarrow> TxInfo \<Rightarrow> bool" where
  "sweep_evidence E ch j h info \<longleftrightarrow> j_Status j = SweepBroadcast \<and> j_TxHash j = Some h \<and> ch_Tx ch h = Inr (Some info) \<and>
     ti_Code info = 0 \<and> ti_Height info \<noteq> 0 \<and>
     (\<exists>st. ch_NodeStatus ch = Inr st \<and> \<not> depthPending (ns_LatestHeight st) (ti_Height info) (ec_Confirmations (en_cfg E)))"

lemma Confirm_evidence:
  assumes "find (\<lambda>j. j_SweepID j = k) (t_sweeps s) = Some j" "sweep_evidence E ch j h info"
  shows "Engine_Confirm E now ch k s = confirmTx now j h info s"
  using assms by (auto simp: Engine_Confirm_def bindE_def sweepGet_run sweep_evidence_def sweepTxInfo_def)

lemma Confirm_cases:
  assumes "Engine_Confirm E now ch k s = (r, t)"
  shows "swept_rel [] [] s t \<or> (\<exists>j h info. find (\<lambda>j. j_SweepID j = k) (t_sweeps s) = Some j \<and>
    sweep_evidence E ch j h info \<and> confirmTx now j h info s = (r, t))"
proof (cases "\<exists>j h info. find (\<lambda>j. j_SweepID j = k) (t_sweeps s) = Some j \<and> sweep_evidence E ch j h info")
  case True
  then show ?thesis using assms Confirm_evidence by metis
next
  case none: False
  have quarantine: "swept_rel [] [] s (snd (thenE (with_tx (engine_quarantineReservation now k from)) (throw e) s))" for "from" e
    by (rule swt.from_stays) (unfold engine_quarantineReservation_def tolerateConflict_def, intro swt.stays_rules swept_ops)
  have failTx: "swept_rel [] [] s (snd (failTx now k info s))" for info
    by (rule swt.from_stays)
       (unfold failTx_def engine_consumeReservation_def tolerateConflict_def, intro swt.stays_rules swept_ops)
  have "swept_rel [] [] s (snd (Engine_Confirm E now ch k s))"
    using none quarantine failTx
    by (auto simp: Engine_Confirm_def bindE_def sweepGet_run sweep_evidence_def sweepTxInfo_def swt.R_refl
        split: option.splits sum.splits)
  then show ?thesis using assms by simp
qed

lemma sweep_evidence_depth:
  assumes "sweep_evidence E ch j h info"
  shows "\<exists>st. ch_NodeStatus ch = Inr st \<and> (0 \<le> sint (ti_Height info) \<and> sint (ti_Height info) \<le> sint (ns_LatestHeight st) \<longrightarrow>
    uint (ec_Confirmations (en_cfg E)) \<le> sint (ns_LatestHeight st) - sint (ti_Height info) + 1)"
proof -
  obtain st where st: "ch_NodeStatus ch = Inr st"
    "\<not> belowDepth (ns_LatestHeight st) (ti_Height info) (ec_Confirmations (en_cfg E))"
    using assms by (auto simp: sweep_evidence_def belowDepth_def depthPending_def)
  then show ?thesis using belowDepth_iff [of "ti_Height info" "ns_LatestHeight st" "ec_Confirmations (en_cfg E)"] by auto
qed

text \<open>
  C27.  A deposit is marked as swept only on evidence: when a call of \<open>Confirm\<close>
  makes a deposit \<open>SWEPT\<close>, the job was \<open>BROADCAST\<close>, the node returned the
  transaction of the job's stored hash as included with code 0, the code's depth
  test passed, the deposit is one the job covers and was \<open>SWEEP_PENDING\<close>, and it
  carries the hash of exactly that transaction.  The depth test means the
  configured number of confirmations when the node's own height is not below the
  inclusion height it reports; for a node that lags further behind, the code's
  unsigned subtraction wraps and the test passes at any depth
  (\<open>sweep_confirm_behind_node\<close> below).
\<close>

theorem swept_on_evidence:
  assumes "Engine_Confirm E now ch k s = (r, t)" "d' \<in> set (t_deposits t)" "d_Status d' = DepositSwept"
    and "\<forall>d \<in> set (t_deposits s). d_ID d = d_ID d' \<longrightarrow> d_Status d \<noteq> DepositSwept"
  shows "\<exists>j h info. find (\<lambda>j. j_SweepID j = k) (t_sweeps s) = Some j \<and> sweep_evidence E ch j h info \<and>
    (\<exists>st. ch_NodeStatus ch = Inr st \<and> (0 \<le> sint (ti_Height info) \<and> sint (ti_Height info) \<le> sint (ns_LatestHeight st) \<longrightarrow>
       uint (ec_Confirmations (en_cfg E)) \<le> sint (ns_LatestHeight st) - sint (ti_Height info) + 1)) \<and>
    d_ID d' \<in> set (j_DepositIDs j) \<and> d_SweepTxHash d' = Some h \<and>
    (\<exists>d \<in> set (t_deposits s). d_ID d = d_ID d' \<and> d_Status d = DepositSweepPending)"
  using Confirm_cases [OF assms(1)]
proof (elim disjE exE conjE)
  assume "swept_rel [] [] s t"
  then show ?thesis using assms(2-4) unfolding swept_rel_def by auto
next
  fix j h info
  assume j: "find (\<lambda>j. j_SweepID j = k) (t_sweeps s) = Some j" "sweep_evidence E ch j h info" "confirmTx now j h info s = (r, t)"
  have "swept_rel (j_DepositIDs j) h s t" by (rule staysD [OF swept_confirmTx j(3)])
  then obtain d where "d \<in> set (t_deposits s)" "d_ID d = d_ID d'" "d_ID d \<in> set (j_DepositIDs j)"
    "d_Status d = DepositSweepPending" "d_SweepTxHash d' = Some h"
    using assms(2-4) unfolding swept_rel_def by metis
  then show ?thesis using j sweep_evidence_depth [OF j(2)] by auto
qed

text \<open>
  A node that lags two or more blocks behind the inclusion height makes
  the sweep's \<open>Confirm\<close> go straight to the confirming transaction, however many
  confirmations are configured: the height difference wraps around.
\<close>

theorem sweep_confirm_behind_node:
  assumes "find (\<lambda>j. j_SweepID j = k) (t_sweeps s) = Some j" "j_Status j = SweepBroadcast" "j_TxHash j = Some h"
    and "ch_Tx ch h = Inr (Some info)" "ti_Code info = 0" "ch_NodeStatus ch = Inr st"
    and "0 \<le> sint (ns_LatestHeight st)" "sint (ns_LatestHeight st) + 2 \<le> sint (ti_Height info)"
    and "uint (ec_Confirmations (en_cfg E)) \<le> 2 ^ 63"
  shows "Engine_Confirm E now ch k s = confirmTx now j h info s"
proof (rule Confirm_evidence [OF assms(1)])
  have "ti_Height info \<noteq> 0"
  proof
    assume "ti_Height info = 0"
    then have "sint (ti_Height info) = 0" by simp
    then show False using assms(7,8) by linarith
  qed
  moreover have "\<not> depthPending (ns_LatestHeight st) (ti_Height info) (ec_Confirmations (en_cfg E))"
    using belowDepth_behind [OF assms(7-9)] by (simp add: belowDepth_def depthPending_def)
  ultimately show "sweep_evidence E ch j h info" using assms by (simp add: sweep_evidence_def)
qed

section \<open>A sweep of one deposit\<close>

definition ex_dep_row :: "DepositStatus \<Rightarrow> string option \<Rightarrow> time \<Rightarrow> DepositRecord" where
  "ex_dep_row st h at = \<lparr>d_ID = 1, d_ChainID = ''sovr-1'', d_TxHash = ''D'', d_MessageIndex = 0, d_CoinIndex = 0,
     d_BlockHeight = 10, d_BlockTimestamp = 5, d_SenderAddress = None, d_RecipientAddress = ''hot'', d_Denom = ''usovr'',
     d_AmountBaseUnits = 1000, d_Memo = [], d_TxCode = 0, d_TxLog = [], d_Status = st, d_PriorStatus = None,
     d_CreditedAt = Some 20, d_SweepTxHash = h, d_CreatedAt = 10, d_UpdatedAt = at\<rparr>"

definition ex_settle_job :: "SweepStatus \<Rightarrow> uint32 option \<Rightarrow> time \<Rightarrow> SweepJob" where
  "ex_settle_job st code at = \<lparr>j_SweepID = ''S1'', j_IdempotencyKey = ''SWEEP:1'', j_ChainID = ''sovr-1'', j_SourceAddress = ''hot'',
     j_HotWalletAddress = ''dest'', j_Strategy = StrategyThresholdOnly, j_AmountBaseUnits = 1000, j_FeeReserveBaseUnits = 0,
     j_DepositIDs = [1], j_SignedTxBytes = [9], j_TxHash = Some ''H'', j_TxCode = code, j_Status = st,
     j_CreatedAt = 40, j_UpdatedAt = at\<rparr>"

definition ex_settle :: "DepositRecord \<Rightarrow> SweepJob \<Rightarrow> SequenceReservationStatus \<Rightarrow> time \<Rightarrow> store" where
  "ex_settle d j st at = empty_store\<lparr>t_deposits := [d], t_sweeps := [j],
     t_sequences := [(ex_res st)\<lparr>r_WorkRef := sweepRef ''S1'', r_UpdatedAt := at\<rparr>]\<rparr>"

definition ex_info :: "int64 \<Rightarrow> TxInfo" where
  "ex_info h = \<lparr>ti_Height = h, ti_Code = 0, ti_RawLog = []\<rparr>"

lemma run_sweepConfirm:
  "Engine_Confirm ex_engine 70 (ex_chain (\<lambda>h. Inr (Some (ex_info 45)))) ''S1''
     (ex_settle (ex_dep_row DepositSweepPending None 20) (ex_settle_job SweepBroadcast None 60) SequenceBroadcast 20) =
   (Inr (), ex_settle (ex_dep_row DepositSwept (Some ''H'') 70) (ex_settle_job SweepConfirmed (Some 0) 70) SequenceConsumed 70)"
  by code_simp

theorem swept_on_evidence_witness:
  "\<exists>j h info. sweep_evidence ex_engine (ex_chain (\<lambda>h. Inr (Some (ex_info 45)))) j h info \<and> 1 \<in> set (j_DepositIDs j) \<and>
     d_SweepTxHash (ex_dep_row DepositSwept (Some ''H'') 70) = Some h"
  using swept_on_evidence [OF run_sweepConfirm, of "ex_dep_row DepositSwept (Some ''H'') 70"]
  by (auto simp: ex_settle_def ex_dep_row_def)

theorem sweep_confirm_behind_node_witness:
  "Engine_Confirm ex_engine 70 (ex_chain (\<lambda>h. Inr (Some (ex_info 60)))) ''S1''
     (ex_settle (ex_dep_row DepositSweepPending None 20) (ex_settle_job SweepBroadcast None 60) SequenceBroadcast 20) =
   confirmTx 70 (ex_settle_job SweepBroadcast None 60) ''H'' (ex_info 60)
     (ex_settle (ex_dep_row DepositSweepPending None 20) (ex_settle_job SweepBroadcast None 60) SequenceBroadcast 20)"
  by (rule sweep_confirm_behind_node [where st = "\<lparr>ns_LatestHeight = 50, ns_CatchingUp = False\<rparr>"])
     (simp_all add: ex_settle_def ex_settle_job_def ex_chain_def ex_info_def ex_engine_def ex_ecfg_def)

end
