(* ===== verification/Amounts.thy ===== *)
theory Amounts
  imports Fees
begin

text \<open>
  \<open>go/amounts/amounts.go\<close>: exact conversion between display amounts and base
  units, with its rejection codes and their order, and the round trips.  A
  \<open>big.Int\<close> read from a digit string is a natural number.
\<close>

definition DisplayDecimals :: nat where "DisplayDecimals = 6"

definition DefaultMaxBaseUnits :: string where "DefaultMaxBaseUnits = ''1000000000000000''"

definition baseUnitsPerDisplayUnit :: nat where "baseUnitsPerDisplayUnit = 1000000"

text \<open>A rejection with its code; \<open>BadMax\<close> is the plain error of a malformed maximum.\<close>

datatype amountsError = AmountsError string | BadMax

abbreviation CodeTooManyDecimals :: string where "CodeTooManyDecimals \<equiv> ''AMOUNT_TOO_MANY_DECIMALS''"
abbreviation CodeNegative :: string where "CodeNegative \<equiv> ''AMOUNT_NEGATIVE''"
abbreviation CodeScientificNotation :: string where "CodeScientificNotation \<equiv> ''AMOUNT_SCIENTIFIC_NOTATION''"
abbreviation CodeCommas :: string where "CodeCommas \<equiv> ''AMOUNT_COMMAS''"
abbreviation CodeEmpty :: string where "CodeEmpty \<equiv> ''AMOUNT_EMPTY''"
abbreviation CodeNotNumeric :: string where "CodeNotNumeric \<equiv> ''AMOUNT_NOT_NUMERIC''"
abbreviation CodeExceedsMax :: string where "CodeExceedsMax \<equiv> ''AMOUNT_EXCEEDS_MAX''"

definition amounts_CodeOf :: "amountsError \<Rightarrow> string" where
  "amounts_CodeOf e = (case e of AmountsError code \<Rightarrow> code | BadMax \<Rightarrow> [])"

section \<open>The regular expressions\<close>

text \<open>\<open>^(0|[1-9][0-9]*)(\.([0-9]+))?$\<close>; its groups 1 and 3 are the parts around the first dot.\<close>

definition display_re :: "string \<Rightarrow> bool" where
  "display_re s \<longleftrightarrow> canonical_re (wholePart s) \<and>
     (dropWhile (\<lambda>c. c \<noteq> CHR ''.'') s = [] \<or> digits_re (fracPart s))"

definition dropSign :: "string \<Rightarrow> string" where
  "dropSign s = (case s of [] \<Rightarrow> [] | c # cs \<Rightarrow> if c = CHR ''-'' \<or> c = CHR ''+'' then cs else s)"

text \<open>\<open>\.[0-9]+|[0-9]+\.?[0-9]*\<close>\<close>

definition mantissa_re :: "string \<Rightarrow> bool" where
  "mantissa_re s \<longleftrightarrow> (wholePart s = [] \<and> s \<noteq> [] \<and> digits_re (fracPart s)) \<or>
     (digits_re (wholePart s) \<and> list_all is_digit (fracPart s))"

text \<open>\<open>^[-+]?(\.[0-9]+|[0-9]+\.?[0-9]*)[eE][-+]?[0-9]+$\<close>\<close>

definition scientific_re :: "string \<Rightarrow> bool" where
  "scientific_re s \<longleftrightarrow> (let m = dropSign s; isE = (\<lambda>c. c = CHR ''e'' \<or> c = CHR ''E'') in
     mantissa_re (takeWhile (\<lambda>c. \<not> isE c) m) \<and>
     (case dropWhile (\<lambda>c. \<not> isE c) m of [] \<Rightarrow> False | _ # ex \<Rightarrow> digits_re (dropSign ex)))"

section \<open>Conversion\<close>

definition preScreen :: "string \<Rightarrow> amountsError + unit" where
  "preScreen s =
     (if s = [] then Inl (AmountsError CodeEmpty)
      else if CHR '','' \<in> set s then Inl (AmountsError CodeCommas)
      else if scientific_re s then Inl (AmountsError CodeScientificNotation)
      else if hd s = CHR ''-'' then Inl (AmountsError CodeNegative)
      else Inr ())"

definition parseMax :: "string \<Rightarrow> amountsError + nat" where
  "parseMax maxBaseUnits = (if \<not> canonical_re maxBaseUnits then Inl BadMax else Inr (read_nat maxBaseUnits))"

definition DisplayToBaseUnitsWithMax :: "string \<Rightarrow> string \<Rightarrow> amountsError + string" where
  "DisplayToBaseUnitsWithMax display maxBaseUnits =
     (case parseMax maxBaseUnits of Inl e \<Rightarrow> Inl e | Inr mx \<Rightarrow>
      case preScreen display of Inl e \<Rightarrow> Inl e | Inr _ \<Rightarrow>
      if \<not> display_re display then Inl (AmountsError CodeNotNumeric)
      else let whole = wholePart display; frac = fracPart display in
      if length frac > DisplayDecimals then Inl (AmountsError CodeTooManyDecimals)
      else let whole' = read_nat whole * baseUnitsPerDisplayUnit;
               value = (if frac = [] then whole'
                        else whole' + read_nat (frac @ replicate (DisplayDecimals - length frac) CHR ''0'')) in
      if value > mx then Inl (AmountsError CodeExceedsMax) else Inr (show_nat value))"

definition DisplayToBaseUnits :: "string \<Rightarrow> amountsError + string" where
  "DisplayToBaseUnits display = DisplayToBaseUnitsWithMax display DefaultMaxBaseUnits"

text \<open>\<open>%06d\<close> and \<open>strings.TrimRight(s, "0")\<close>\<close>

definition pad6 :: "nat \<Rightarrow> string" where
  "pad6 n = replicate (6 - length (show_nat n)) CHR ''0'' @ show_nat n"

definition trimZeros :: "string \<Rightarrow> string" where
  "trimZeros s = rev (dropWhile (\<lambda>c. c = CHR ''0'') (rev s))"

definition BaseToDisplayUnitsWithMax :: "string \<Rightarrow> string \<Rightarrow> amountsError + string" where
  "BaseToDisplayUnitsWithMax base maxBaseUnits =
     (case parseMax maxBaseUnits of Inl e \<Rightarrow> Inl e | Inr mx \<Rightarrow>
      case preScreen base of Inl e \<Rightarrow> Inl e | Inr _ \<Rightarrow>
      if \<not> canonical_re base then Inl (AmountsError CodeNotNumeric)
      else let value = read_nat base in
      if value > mx then Inl (AmountsError CodeExceedsMax)
      else let quo = value div baseUnitsPerDisplayUnit; rem = value mod baseUnitsPerDisplayUnit in
      if rem = 0 then Inr (show_nat quo)
      else Inr (show_nat quo @ ''.'' @ trimZeros (pad6 rem)))"

definition BaseToDisplayUnits :: "string \<Rightarrow> amountsError + string" where
  "BaseToDisplayUnits base = BaseToDisplayUnitsWithMax base DefaultMaxBaseUnits"

section \<open>Digit strings\<close>

lemma read_nat_zeros [simp]: "read_nat (replicate k CHR ''0'') = 0"
proof (induction k)
  case (Suc k)
  have "read_nat ''0'' = 0" by code_simp
  then show ?case using Suc read_nat_append [of "''0''"] by simp
qed simp

lemma is_digit_0 [simp]: "is_digit CHR ''0''"
  by code_simp

lemma trimZeros_split: "s = trimZeros s @ replicate (length s - length (trimZeros s)) CHR ''0''"
proof -
  have "rev s = takeWhile (\<lambda>c. c = CHR ''0'') (rev s) @ dropWhile (\<lambda>c. c = CHR ''0'') (rev s)" by simp
  moreover have "takeWhile (\<lambda>c. c = CHR ''0'') (rev s) = replicate (length (takeWhile (\<lambda>c. c = CHR ''0'') (rev s))) CHR ''0''"
    by (rule replicate_length_same [symmetric]) (auto dest: set_takeWhileD)
  ultimately obtain k where "rev s = replicate k CHR ''0'' @ dropWhile (\<lambda>c. c = CHR ''0'') (rev s)" by metis
  then have "s = trimZeros s @ replicate k CHR ''0''" unfolding trimZeros_def by (metis rev_append rev_replicate rev_rev_ident)
  then show ?thesis by (metis append_same_eq diff_add_inverse length_append length_replicate)
qed

lemma trimZeros_last: "s = [] \<or> last s \<noteq> CHR ''0'' \<Longrightarrow> trimZeros (s @ replicate k CHR ''0'') = s"
proof -
  assume s: "s = [] \<or> last s \<noteq> CHR ''0''"
  have "dropWhile (\<lambda>c. c = CHR ''0'') (replicate k CHR ''0'' @ rev s) = dropWhile (\<lambda>c. c = CHR ''0'') (rev s)"
    by (simp add: dropWhile_append)
  also have "\<dots> = rev s" using s by (cases s rule: rev_cases) auto
  finally show ?thesis by (simp add: trimZeros_def)
qed

lemma show_nat_length: "n < 10 ^ Suc k \<Longrightarrow> length (show_nat n) \<le> Suc k"
proof (induction k arbitrary: n)
  case 0
  then show ?case by (subst show_nat.simps) simp
next
  case (Suc k)
  then have "n div 10 < 10 ^ Suc k" by (simp add: less_mult_imp_div_less mult.commute)
  then show ?case using Suc.IH [of "n div 10"] by (subst show_nat.simps) simp
qed

lemma pad6: "n < 1000000 \<Longrightarrow> length (pad6 n) = 6 \<and> list_all is_digit (pad6 n) \<and> read_nat (pad6 n) = n"
  using show_nat_length [of n 5] show_nat_digits [of n] by (auto simp: pad6_def read_nat_append list_all_iff)

lemma digits_unique:
  "list_all is_digit s \<Longrightarrow> list_all is_digit t \<Longrightarrow> length s = length t \<Longrightarrow> read_nat s = read_nat t \<Longrightarrow> s = t"
proof (induction s arbitrary: t rule: rev_induct)
  case (snoc c s)
  then obtain d t' where t: "t = t' @ [d]" by (cases t rule: rev_cases) auto
  have lt: "digit_val c < 10" "digit_val d < 10" using snoc.prems t digit_val_less by auto
  have eq: "10 * read_nat s + digit_val c = 10 * read_nat t' + digit_val d" using snoc.prems(4) t by simp
  then have "read_nat s = read_nat t'" "digit_val c = digit_val d" using lt by presburger+
  moreover from this have "c = d" using snoc.prems t digit_char_val by (metis list.pred_inject(2) list_all_append)
  ultimately show ?case using snoc t by auto
qed simp

lemma read_nat_bound: "list_all is_digit s \<Longrightarrow> read_nat s < 10 ^ length s"
proof (induction s rule: rev_induct)
  case (snoc c s)
  then have "read_nat s < 10 ^ length s" "digit_val c < 10" using digit_val_less by auto
  then show ?case by simp
qed simp

section \<open>What the conversions accept and return\<close>

text \<open>The value of a display amount in base units, and the canonical display of a value.\<close>

definition displayValue :: "string \<Rightarrow> nat" where
  "displayValue d = read_nat (wholePart d) * 1000000 +
     read_nat (fracPart d @ replicate (6 - length (fracPart d)) CHR ''0'')"

definition displayOf :: "nat \<Rightarrow> string" where
  "displayOf v = show_nat (v div 1000000) @
     (if v mod 1000000 = 0 then [] else ''.'' @ trimZeros (pad6 (v mod 1000000)))"

lemma digits_no_dot: "list_all is_digit s \<Longrightarrow> CHR ''.'' \<notin> set s"
  by (auto simp: list_all_iff is_digit_def)

lemma parts_plain:
  assumes "list_all is_digit w"
  shows "wholePart w = w" "fracPart w = []" "dropWhile (\<lambda>c. c \<noteq> CHR ''.'') w = []"
proof -
  have nd: "\<forall>c\<in>set w. c \<noteq> CHR ''.''" using digits_no_dot [OF assms] by auto
  then show d: "dropWhile (\<lambda>c. c \<noteq> CHR ''.'') w = []" by (simp add: dropWhile_eq_Nil_conv)
  show "wholePart w = w" using nd by (simp add: wholePart_def takeWhile_eq_all_conv)
  show "fracPart w = []" by (simp only: fracPart_def d list.sel)
qed

lemma parts_dotted:
  assumes "list_all is_digit w"
  shows "wholePart (w @ ''.'' @ f) = w" "fracPart (w @ ''.'' @ f) = f"
    "dropWhile (\<lambda>c. c \<noteq> CHR ''.'') (w @ ''.'' @ f) \<noteq> []"
  using digits_no_dot [OF assms]
  by (auto simp: wholePart_def fracPart_def takeWhile_append dropWhile_append)

lemma parts_join:
  "s = wholePart s @ (if dropWhile (\<lambda>c. c \<noteq> CHR ''.'') s = [] then [] else ''.'' @ fracPart s)"
proof -
  have s: "s = wholePart s @ dropWhile (\<lambda>c. c \<noteq> CHR ''.'') s" by (simp add: wholePart_def)
  show ?thesis
  proof (cases "dropWhile (\<lambda>c. c \<noteq> CHR ''.'') s")
    case (Cons c cs)
    then have "c = CHR ''.''" by (metis (mono_tags, lifting) hd_dropWhile list.distinct(1) list.sel(1))
    then show ?thesis using s Cons by (simp add: fracPart_def)
  next
    case Nil
    then show ?thesis using s by (metis append_Nil2)
  qed
qed

lemma display_re_digits: "display_re d \<Longrightarrow> set d \<subseteq> {c. is_digit c} \<union> {CHR ''.''} \<and> d \<noteq> [] \<and> is_digit (hd d)"
  by (subst (1 2 3) parts_join [of d])
    (auto simp: display_re_def canonical_re_def digits_re_def list_all_iff fracPart_def hd_append split: if_splits)

lemma display_re_canonical: "canonical_re s \<Longrightarrow> display_re s"
  using parts_plain [of s] by (auto simp: display_re_def canonical_re_def digits_re_def)

lemma preScreen_display:
  assumes "display_re d"
  shows "preScreen d = Inr ()"
proof -
  have d: "set d \<subseteq> {c. is_digit c} \<union> {CHR ''.''}" "d \<noteq> []" "is_digit (hd d)"
    using display_re_digits [OF assms] by auto
  have "\<not> is_digit CHR ''e''" "\<not> is_digit CHR ''E''" "\<not> is_digit CHR '',''" "\<not> is_digit CHR ''-''" by code_simp+
  then have "CHR ''e'' \<notin> set d" "CHR ''E'' \<notin> set d" "CHR '','' \<notin> set d" "hd d \<noteq> CHR ''-''"
    using d(1,3) by (auto simp: subset_iff)
  moreover from this have "\<forall>c\<in>set (dropSign d). \<not> (c = CHR ''e'' \<or> c = CHR ''E'')"
    by (cases d) (auto simp: dropSign_def)
  then have "dropWhile (\<lambda>c. \<not> (c = CHR ''e'' \<or> c = CHR ''E'')) (dropSign d) = []"
    by (rule dropWhile_eq_Nil_conv [THEN iffD2])
  then have "\<not> scientific_re d" unfolding scientific_re_def Let_def by (simp only: list.case simp_thms)
  ultimately show ?thesis using d(2) by (simp add: preScreen_def)
qed

lemma DisplayToBaseUnits_ok:
  "DisplayToBaseUnitsWithMax d mx = Inr b \<longleftrightarrow>
     canonical_re mx \<and> display_re d \<and> length (fracPart d) \<le> 6 \<and> displayValue d \<le> read_nat mx \<and> b = show_nat (displayValue d)"
  by (cases "display_re d")
    (auto simp: DisplayToBaseUnitsWithMax_def parseMax_def preScreen_display DisplayDecimals_def baseUnitsPerDisplayUnit_def
      displayValue_def Let_def split: sum.splits)

lemma BaseToDisplayUnits_ok:
  "BaseToDisplayUnitsWithMax b mx = Inr d \<longleftrightarrow>
     canonical_re mx \<and> canonical_re b \<and> read_nat b \<le> read_nat mx \<and> d = displayOf (read_nat b)"
  by (cases "canonical_re b")
    (auto simp: BaseToDisplayUnitsWithMax_def parseMax_def preScreen_display display_re_canonical baseUnitsPerDisplayUnit_def
      displayOf_def Let_def split: sum.splits)

section \<open>Round trips\<close>

lemma displayOf_parts:
  "wholePart (displayOf v) = show_nat (v div 1000000)"
  "fracPart (displayOf v) = (if v mod 1000000 = 0 then [] else trimZeros (pad6 (v mod 1000000)))"
  "dropWhile (\<lambda>c. c \<noteq> CHR ''.'') (displayOf v) = [] \<longleftrightarrow> v mod 1000000 = 0"
  unfolding displayOf_def using parts_plain [OF show_nat_digits [of "v div 1000000"]]
    parts_dotted [OF show_nat_digits [of "v div 1000000"], of "trimZeros (pad6 (v mod 1000000))"]
  by (simp_all split: if_split)

lemma pad6_trimmed:
  assumes "n < 1000000"
  shows "list_all is_digit (trimZeros (pad6 n))" "length (trimZeros (pad6 n)) \<le> 6"
    "trimZeros (pad6 n) @ replicate (6 - length (trimZeros (pad6 n))) CHR ''0'' = pad6 n"
    "n \<noteq> 0 \<Longrightarrow> trimZeros (pad6 n) \<noteq> []"
proof -
  note p = pad6 [OF assms] and t = trimZeros_split [of "pad6 n"]
  show "list_all is_digit (trimZeros (pad6 n))" using p t by (metis list_all_append)
  show "length (trimZeros (pad6 n)) \<le> 6" using p t by (metis length_append le_add1)
  show e: "trimZeros (pad6 n) @ replicate (6 - length (trimZeros (pad6 n))) CHR ''0'' = pad6 n" using p t by metis
  show "trimZeros (pad6 n) \<noteq> []" if "n \<noteq> 0" using that e p by (metis append_Nil read_nat_zeros)
qed

lemma displayOf_value:
  "display_re (displayOf v)" "length (fracPart (displayOf v)) \<le> 6" "displayValue (displayOf v) = v"
proof -
  have m: "v mod 1000000 < 1000000" by simp
  note t = pad6_trimmed [OF m] and p = pad6 [OF m]
  show "display_re (displayOf v)"
    using t unfolding display_re_def displayOf_parts by (simp add: digits_re_def)
  show "length (fracPart (displayOf v)) \<le> 6" using t(2) unfolding displayOf_parts by simp
  show "displayValue (displayOf v) = v"
    unfolding displayValue_def displayOf_parts using t(3) p div_mult_mod_eq [of v 1000000] by (auto split: if_split)
qed

lemma displayOf_unique:
  assumes d: "display_re d" and l: "length (fracPart d) \<le> 6" and z: "fracPart d = [] \<or> last (fracPart d) \<noteq> CHR ''0''"
  shows "displayOf (displayValue d) = d"
proof -
  define f where "f = fracPart d @ replicate (6 - length (fracPart d)) CHR ''0''"
  have "list_all is_digit (fracPart d)"
    using d unfolding display_re_def digits_re_def by (metis fracPart_def list.sel(2) list.pred_inject(1))
  then have fd: "list_all is_digit f" "length f = 6" using l by (auto simp: f_def list_all_iff)
  then have lt: "read_nat f < 1000000" using read_nat_bound [of f] by simp
  have v: "displayValue d div 1000000 = read_nat (wholePart d)" "displayValue d mod 1000000 = read_nat f"
    using lt by (simp_all add: displayValue_def f_def [symmetric])
  have w: "show_nat (read_nat (wholePart d)) = wholePart d" using d show_read_nat by (simp add: display_re_def)
  have pf: "pad6 (read_nat f) = f" using digits_unique pad6 [OF lt] fd by metis
  have tf: "trimZeros f = fracPart d" unfolding f_def by (rule trimZeros_last [OF z])
  have "read_nat f = 0 \<longleftrightarrow> fracPart d = []"
  proof
    assume "read_nat f = 0"
    then have "f = replicate 6 CHR ''0''" using digits_unique [of f "replicate 6 CHR ''0''"] fd by (simp add: list_all_iff)
    then show "fracPart d = []" using tf trimZeros_last [of "[]" 6] by simp
  qed (simp add: f_def)
  moreover have "fracPart d = [] \<longleftrightarrow> dropWhile (\<lambda>c. c \<noteq> CHR ''.'') d = []"
    using d unfolding display_re_def digits_re_def fracPart_def by (metis list.sel(2))
  ultimately have z: "read_nat f = 0 \<longleftrightarrow> dropWhile (\<lambda>c. c \<noteq> CHR ''.'') d = []" by (rule trans)
  show ?thesis unfolding displayOf_def v w pf tf z by (rule parts_join [symmetric])
qed

lemma displayValue_exact:
  assumes "length (fracPart d) \<le> 6"
  shows "10 ^ length (fracPart d) * displayValue d = 1000000 * read_nat (wholePart d @ fracPart d)"
proof -
  have "(10::nat) ^ length (fracPart d) * 10 ^ (6 - length (fracPart d)) = 1000000"
    using assms by (simp flip: power_add)
  then show ?thesis unfolding displayValue_def read_nat_append read_nat_zeros by (simp add: algebra_simps)
qed

text \<open>
  C31.  The conversion between base units and display amounts loses nothing.
  Displaying any accepted base amount and converting it back returns the very
  same string.  Converting any accepted display amount gives a base amount that
  displays again, as the same string unless the user wrote trailing zeros, and
  whose value is exact: scaled by the number of decimals written, it is the
  integer the user's digits spell.
\<close>

theorem amount_roundtrip:
  "(BaseToDisplayUnitsWithMax base mx = Inr d \<longrightarrow> DisplayToBaseUnitsWithMax d mx = Inr base) \<and>
   (DisplayToBaseUnitsWithMax d mx = Inr base \<longrightarrow>
      10 ^ length (fracPart d) * read_nat base = 1000000 * read_nat (wholePart d @ fracPart d) \<and>
      (\<exists>d'. BaseToDisplayUnitsWithMax base mx = Inr d' \<and> DisplayToBaseUnitsWithMax d' mx = Inr base \<and>
        (fracPart d = [] \<or> last (fracPart d) \<noteq> CHR ''0'' \<longrightarrow> d' = d)))"
  using displayOf_unique [of d] displayValue_exact [of d]
  by (auto simp: BaseToDisplayUnits_ok DisplayToBaseUnits_ok displayOf_value show_read_nat)

theorem amount_roundtrip_witness:
  "BaseToDisplayUnitsWithMax ''10250000'' DefaultMaxBaseUnits = Inr ''10.25'' \<and>
   DisplayToBaseUnitsWithMax ''10.25'' DefaultMaxBaseUnits = Inr ''10250000'' \<and>
   DisplayToBaseUnitsWithMax ''10.250'' DefaultMaxBaseUnits = Inr ''10250000'' \<and>
   (\<exists>d'. BaseToDisplayUnitsWithMax ''10250000'' DefaultMaxBaseUnits = Inr d' \<and>
     DisplayToBaseUnitsWithMax d' DefaultMaxBaseUnits = Inr ''10250000'' \<and> d' = ''10.25'')"
proof -
  have c: "canonical_re DefaultMaxBaseUnits" "canonical_re ''10250000''" "fracPart ''10.25'' = ''25''"
    "display_re ''10.250''" "wholePart ''10.250'' = ''10''" "fracPart ''10.250'' = ''250''"
    "replicate 3 CHR ''0'' = ''000''" by code_simp+
  have r: "read_nat DefaultMaxBaseUnits = 1000000000000000" "read_nat ''10250000'' = 10250000"
    "read_nat ''10'' = 10" "read_nat ''250000'' = 250000"
    by (simp_all add: read_nat_def digit_val_def DefaultMaxBaseUnits_def)
  have d: "digit_char 0 = CHR ''0''" "digit_char (Suc 0) = CHR ''1''" "digit_char 2 = CHR ''2''" "digit_char 5 = CHR ''5''"
    by code_simp+
  have s: "show_nat 10 = ''10''" "show_nat 250000 = ''250000''" "show_nat 10250000 = ''10250000''"
    by (simp_all add: show_nat.simps d)
  have b: "BaseToDisplayUnitsWithMax ''10250000'' DefaultMaxBaseUnits = Inr ''10.25''"
    by (simp add: BaseToDisplayUnits_ok c r s displayOf_def pad6_def trimZeros_def)
  have z: "DisplayToBaseUnitsWithMax ''10.250'' DefaultMaxBaseUnits = Inr ''10250000''"
    by (simp add: DisplayToBaseUnits_ok c r s displayValue_def)
  show ?thesis
    using amount_roundtrip [of "''10250000''" DefaultMaxBaseUnits "''10.25''"] b z c(3) by auto
qed

end
