(* ===== verification/Failover.thy ===== *)
theory Failover
  imports Chain Deposits_Parse
begin

text \<open>
  \<open>go/client/failover.go\<close>: two nodes behind one client, the promotion of the
  standby after repeated failures, and the two-node comparison.  A client is
  the record of the answers its node gives during one call; the messages of
  generated protobuf packages stay in their encoded form.  Whether the caller's
  context is done, and the text of an error, are arguments.
\<close>

section \<open>Clients (\<open>go/client/client.go\<close>)\<close>

record TxDetail = TxInfo +
  ti_TxBytes :: bytes
  ti_Events :: "Event list"

datatype BroadcastMode = BroadcastSync | BroadcastAsync | BroadcastModeOther string

record ProbeResult =
  pr_NodeReachable :: bool
  pr_TxServiceRoutable :: bool

record TxsByAddressOptions =
  to_OrderBy :: int
  to_StartDate :: string
  to_EndDate :: string

record client =
  cl_Account :: "string \<Rightarrow> err + (uint64 \<times> uint64)"
  cl_Balance :: "string \<Rightarrow> string \<Rightarrow> err + int"
  cl_AllBalances :: "string \<Rightarrow> err + RawCoin list"
  cl_DenomMetadata :: "string \<Rightarrow> err + bytes"
  cl_Tx :: "string \<Rightarrow> err + TxDetail"
  cl_BlockByHeight :: "int64 \<Rightarrow> err + Block"
  cl_LatestBlock :: "err + Block"
  cl_BlockResults :: "int64 \<Rightarrow> err + BlockResults"
  cl_NodeStatus :: "err + NodeStatus"
  cl_Simulate :: "bytes \<Rightarrow> err + SimulateResult"
  cl_Broadcast :: "bytes \<Rightarrow> BroadcastMode \<Rightarrow> err + BroadcastResult"
  cl_GlobalFeeParams :: "err + bytes"
  cl_TxsByAddress :: "string \<Rightarrow> bytes \<Rightarrow> TxsByAddressOptions list \<Rightarrow> err + bytes"
  cl_Probe :: "err + ProbeResult"
  cl_Close :: "err + unit"

section \<open>State and promotion\<close>

record FailoverPolicy =
  fp_FailureThreshold :: int
  fp_HealthCheckTimeout :: int

definition defaultFailureThreshold :: int where "defaultFailureThreshold = 3"
definition defaultHealthCheckTimeout :: int where "defaultHealthCheckTimeout = 5000000000"

record failover =
  fv_policy :: FailoverPolicy
  fv_active :: int
  fv_consecFails :: int

definition NewFailover :: "FailoverPolicy \<Rightarrow> failover" where
  "NewFailover policy =
     (let p1 = (if fp_FailureThreshold policy \<le> 0 then policy\<lparr>fp_FailureThreshold := defaultFailureThreshold\<rparr> else policy);
          p2 = (if fp_HealthCheckTimeout p1 \<le> 0 then p1\<lparr>fp_HealthCheckTimeout := defaultHealthCheckTimeout\<rparr> else p1)
      in \<lparr>fv_policy = p2, fv_active = 0, fv_consecFails = 0\<rparr>)"

text \<open>The active and the standby node among \<open>primary\<close> and \<open>secondary\<close>.\<close>

definition failover_pair :: "client \<Rightarrow> client \<Rightarrow> failover \<Rightarrow> client \<times> client" where
  "failover_pair primary secondary f = (if fv_active f = 0 then (primary, secondary) else (secondary, primary))"

definition recordSuccess :: "failover \<Rightarrow> failover" where
  "recordSuccess f = f\<lparr>fv_consecFails := 0\<rparr>"

definition recordFailure :: "failover \<Rightarrow> failover" where
  "recordFailure f =
     (let f1 = f\<lparr>fv_consecFails := fv_consecFails f + 1\<rparr> in
      if fv_consecFails f1 \<ge> fp_FailureThreshold (fv_policy f1)
      then f1\<lparr>fv_active := 1 - fv_active f1, fv_consecFails := 0\<rparr> else f1)"

definition failoverEligible :: "bool \<Rightarrow> err \<Rightarrow> bool" where
  "failoverEligible ctxDone e =
     (if ctxDone then False
      else e \<noteq> ClientErrUnsupported \<and> e \<noteq> ClientErrSimulateUnavailable \<and> e \<noteq> ClientErrNotFound)"

definition standbyHealthy :: "client \<Rightarrow> bool" where
  "standbyHealthy standby = (case cl_NodeStatus standby of Inl _ \<Rightarrow> False | Inr _ \<Rightarrow> True)"

definition failover_do :: "bool \<Rightarrow> client \<Rightarrow> client \<Rightarrow> (client \<Rightarrow> err + 'a) \<Rightarrow> (failover, 'a) prog" where
  "failover_do ctxDone primary secondary op = (\<lambda>f.
     let (active, standby) = failover_pair primary secondary f in
     case op active of
       Inr a \<Rightarrow> (Inr a, recordSuccess f)
     | Inl e \<Rightarrow>
       if \<not> failoverEligible ctxDone e then (Inl e, f)
       else if \<not> standbyHealthy standby then (Inl e, recordFailure f)
       else (op standby, recordFailure f))"

section \<open>The wrapped operations\<close>

definition failover_Account :: "bool \<Rightarrow> client \<Rightarrow> client \<Rightarrow> string \<Rightarrow> (failover, uint64 \<times> uint64) prog" where
  "failover_Account ctxDone p s addr = failover_do ctxDone p s (\<lambda>c. cl_Account c addr)"

definition failover_Balance :: "bool \<Rightarrow> client \<Rightarrow> client \<Rightarrow> string \<Rightarrow> string \<Rightarrow> (failover, int) prog" where
  "failover_Balance ctxDone p s addr denom = failover_do ctxDone p s (\<lambda>c. cl_Balance c addr denom)"

definition failover_AllBalances :: "bool \<Rightarrow> client \<Rightarrow> client \<Rightarrow> string \<Rightarrow> (failover, RawCoin list) prog" where
  "failover_AllBalances ctxDone p s addr = failover_do ctxDone p s (\<lambda>c. cl_AllBalances c addr)"

definition failover_DenomMetadata :: "bool \<Rightarrow> client \<Rightarrow> client \<Rightarrow> string \<Rightarrow> (failover, bytes) prog" where
  "failover_DenomMetadata ctxDone p s denom = failover_do ctxDone p s (\<lambda>c. cl_DenomMetadata c denom)"

definition failover_Tx :: "bool \<Rightarrow> client \<Rightarrow> client \<Rightarrow> string \<Rightarrow> (failover, TxDetail) prog" where
  "failover_Tx ctxDone p s hash = failover_do ctxDone p s (\<lambda>c. cl_Tx c hash)"

definition failover_BlockByHeight :: "bool \<Rightarrow> client \<Rightarrow> client \<Rightarrow> int64 \<Rightarrow> (failover, Block) prog" where
  "failover_BlockByHeight ctxDone p s height = failover_do ctxDone p s (\<lambda>c. cl_BlockByHeight c height)"

definition failover_LatestBlock :: "bool \<Rightarrow> client \<Rightarrow> client \<Rightarrow> (failover, Block) prog" where
  "failover_LatestBlock ctxDone p s = failover_do ctxDone p s cl_LatestBlock"

definition failover_BlockResults :: "bool \<Rightarrow> client \<Rightarrow> client \<Rightarrow> int64 \<Rightarrow> (failover, BlockResults) prog" where
  "failover_BlockResults ctxDone p s height = failover_do ctxDone p s (\<lambda>c. cl_BlockResults c height)"

definition failover_NodeStatus :: "bool \<Rightarrow> client \<Rightarrow> client \<Rightarrow> (failover, NodeStatus) prog" where
  "failover_NodeStatus ctxDone p s = failover_do ctxDone p s cl_NodeStatus"

definition failover_Simulate :: "bool \<Rightarrow> client \<Rightarrow> client \<Rightarrow> bytes \<Rightarrow> (failover, SimulateResult) prog" where
  "failover_Simulate ctxDone p s txBytes = failover_do ctxDone p s (\<lambda>c. cl_Simulate c txBytes)"

definition failover_Broadcast ::
    "bool \<Rightarrow> client \<Rightarrow> client \<Rightarrow> bytes \<Rightarrow> BroadcastMode \<Rightarrow> (failover, BroadcastResult) prog" where
  "failover_Broadcast ctxDone p s txBytes mode = (\<lambda>f.
     let (active, _) = failover_pair p s f; res = cl_Broadcast active txBytes mode in
     (res, case res of Inr _ \<Rightarrow> recordSuccess f
                     | Inl e \<Rightarrow> if failoverEligible ctxDone e then recordFailure f else f))"

definition failover_GlobalFeeParams :: "bool \<Rightarrow> client \<Rightarrow> client \<Rightarrow> (failover, bytes) prog" where
  "failover_GlobalFeeParams ctxDone p s = failover_do ctxDone p s cl_GlobalFeeParams"

definition failover_TxsByAddress ::
    "bool \<Rightarrow> client \<Rightarrow> client \<Rightarrow> string \<Rightarrow> bytes \<Rightarrow> TxsByAddressOptions list \<Rightarrow> (failover, bytes) prog" where
  "failover_TxsByAddress ctxDone p s addr page opts = failover_do ctxDone p s (\<lambda>c. cl_TxsByAddress c addr page opts)"

definition failover_Probe :: "client \<Rightarrow> client \<Rightarrow> (failover, ProbeResult) prog" where
  "failover_Probe p s = (\<lambda>f. (cl_Probe (fst (failover_pair p s f)), f))"

text \<open>\<open>errors.Join\<close> of the two results: nil when neither is an error.\<close>

definition failover_Close :: "client \<Rightarrow> client \<Rightarrow> err list" where
  "failover_Close p s = (case cl_Close p of Inl e \<Rightarrow> [e] | Inr _ \<Rightarrow> []) @ (case cl_Close s of Inl e \<Rightarrow> [e] | Inr _ \<Rightarrow> [])"

section \<open>Comparison\<close>

datatype CompareKind = CompareHeight | CompareBlockHash | CompareTxResult | CompareAccountSequence
  | CompareBalance | CompareKindOther string

record CompareRequest =
  cq_Height :: bool
  cq_HeightTolerance :: int64
  cq_BlockHashAtHeight :: int64
  cq_TxHash :: string
  cq_SequenceAddress :: string
  cq_BalanceAddress :: string
  cq_BalanceDenom :: string

record CompareItem =
  ci_Kind :: CompareKind
  ci_Match :: bool
  ci_Primary :: string
  ci_Secondary :: string
  ci_PrimaryErr :: string
  ci_SecondaryErr :: string

type_synonym CompareResult = "CompareItem list"

fun AllMatch :: "CompareResult \<Rightarrow> bool" where
  "AllMatch [] = True"
| "AllMatch (it # items) = (if \<not> ci_Match it then False else AllMatch items)"

definition Mismatches :: "CompareResult \<Rightarrow> CompareItem list" where
  "Mismatches r = filter (\<lambda>it. \<not> ci_Match it) r"

text \<open>
  One check: what each side shows or its error, and the verdict when both
  sides answered.
\<close>

definition compareSides ::
    "CompareKind \<Rightarrow> (err \<Rightarrow> string) \<Rightarrow> ('a \<Rightarrow> string) \<Rightarrow> ('a \<Rightarrow> 'a \<Rightarrow> bool) \<Rightarrow> err + 'a \<Rightarrow> err + 'a \<Rightarrow> CompareItem" where
  "compareSides kind errText shw eq p s =
     \<lparr>ci_Kind = kind,
      ci_Match = (case (p, s) of (Inr a, Inr b) \<Rightarrow> eq a b | _ \<Rightarrow> False),
      ci_Primary = (case p of Inl _ \<Rightarrow> [] | Inr a \<Rightarrow> shw a),
      ci_Secondary = (case s of Inl _ \<Rightarrow> [] | Inr b \<Rightarrow> shw b),
      ci_PrimaryErr = (case p of Inl e \<Rightarrow> errText e | Inr _ \<Rightarrow> []),
      ci_SecondaryErr = (case s of Inl e \<Rightarrow> errText e | Inr _ \<Rightarrow> [])\<rparr>"

definition show_i64 :: "int64 \<Rightarrow> string" where
  "show_i64 w = show_int (sint w)"

text \<open>The absolute difference is taken at 64 bits and compared signed.\<close>

definition heightsWithin :: "int64 \<Rightarrow> Block \<Rightarrow> Block \<Rightarrow> bool" where
  "heightsWithin tolerance pb sb \<longleftrightarrow>
     (let diff = bk_Height pb - bk_Height sb; diff' = (if sint diff < 0 then - diff else diff)
      in sint diff' \<le> sint tolerance)"

definition showTx :: "TxDetail \<Rightarrow> string" where
  "showTx t = ''code='' @ show_nat (unat (ti_Code t)) @ '' height='' @ show_i64 (ti_Height t)"

definition compareTx :: "(err \<Rightarrow> string) \<Rightarrow> err + TxDetail \<Rightarrow> err + TxDetail \<Rightarrow> CompareItem" where
  "compareTx errText p s =
     (if p = Inl ClientErrNotFound \<and> s = Inl ClientErrNotFound
      then \<lparr>ci_Kind = CompareTxResult, ci_Match = True, ci_Primary = ''not_found'', ci_Secondary = ''not_found'',
            ci_PrimaryErr = [], ci_SecondaryErr = []\<rparr>
      else compareSides CompareTxResult errText showTx
             (\<lambda>a b. ti_Code a = ti_Code b \<and> ti_Height a = ti_Height b) p s)"

definition Compare :: "(err \<Rightarrow> string) \<Rightarrow> client \<Rightarrow> client \<Rightarrow> CompareRequest \<Rightarrow> err + CompareResult" where
  "Compare errText p s req =
     (if \<not> cq_Height req \<and> cq_BlockHashAtHeight req = 0 \<and> cq_TxHash req = [] \<and> cq_SequenceAddress req = []
         \<and> cq_BalanceAddress req = []
      then Inl (ErrOther ''empty compare request: no checks selected'')
      else Inr (
        (if cq_Height req
         then [compareSides CompareHeight errText (\<lambda>b. show_i64 (bk_Height b)) (heightsWithin (cq_HeightTolerance req))
                 (cl_LatestBlock p) (cl_LatestBlock s)] else []) @
        (if cq_BlockHashAtHeight req \<noteq> 0
         then [compareSides CompareBlockHash errText (\<lambda>b. hexUpper (bk_Hash b))
                 (\<lambda>a b. length (bk_Hash a) > 0 \<and> bk_Hash a = bk_Hash b)
                 (cl_BlockByHeight p (cq_BlockHashAtHeight req)) (cl_BlockByHeight s (cq_BlockHashAtHeight req))] else []) @
        (if cq_TxHash req \<noteq> []
         then [compareTx errText (cl_Tx p (cq_TxHash req)) (cl_Tx s (cq_TxHash req))] else []) @
        (if cq_SequenceAddress req \<noteq> []
         then [compareSides CompareAccountSequence errText (\<lambda>(_, sq). show_u64 sq) (\<lambda>(_, a) (_, b). a = b)
                 (cl_Account p (cq_SequenceAddress req)) (cl_Account s (cq_SequenceAddress req))] else []) @
        (if cq_BalanceAddress req \<noteq> []
         then [compareSides CompareBalance errText show_int (\<lambda>a b. a = b)
                 (cl_Balance p (cq_BalanceAddress req) (cq_BalanceDenom req))
                 (cl_Balance s (cq_BalanceAddress req) (cq_BalanceDenom req))] else [])))"

lemma AllMatch_iff: "AllMatch r \<longleftrightarrow> Mismatches r = []"
  by (induction r rule: AllMatch.induct) (auto simp: Mismatches_def)

section \<open>Promotion over a run of calls\<close>

definition failover_inv :: "failover \<Rightarrow> bool" where
  "failover_inv f \<longleftrightarrow> fv_active f \<in> {0, 1} \<and> 0 \<le> fv_consecFails f \<and> fv_consecFails f < fp_FailureThreshold (fv_policy f)"

lemma failover_inv_new: "failover_inv (NewFailover policy)"
  by (simp add: failover_inv_def NewFailover_def Let_def defaultFailureThreshold_def)

lemma recordFailure_inv: "failover_inv f \<Longrightarrow> failover_inv (recordFailure f)"
  by (auto simp: failover_inv_def recordFailure_def Let_def)

lemma recordSuccess_inv: "failover_inv f \<Longrightarrow> failover_inv (recordSuccess f)"
  by (auto simp: failover_inv_def recordSuccess_def)

lemma failover_do_inv: "failover_inv f \<Longrightarrow> failover_inv (snd (failover_do ctxDone p s op f))"
  by (auto simp: failover_do_def recordFailure_inv recordSuccess_inv split: sum.split prod.split)

lemma failover_Broadcast_inv: "failover_inv f \<Longrightarrow> failover_inv (snd (failover_Broadcast ctxDone p s tx mode f))"
  by (auto simp: failover_Broadcast_def Let_def recordFailure_inv recordSuccess_inv split: sum.split prod.split)

text \<open>
  A call through the wrapper: a query, which is repeated on the standby, a
  broadcast, which is not, or a probe, which only asks the active node.  A run is a
  list of calls, each with the answers the two nodes give at that time, made with a
  live context.
\<close>

datatype 'a nodeCall = QueryCall "client \<Rightarrow> err + 'a" | BroadcastCall bytes BroadcastMode | ProbeCall

datatype 'a callResult = Answered "err + 'a" | Sent "err + BroadcastResult" | Probed "err + ProbeResult"

definition failover_call :: "client \<times> client \<times> 'a nodeCall \<Rightarrow> failover \<Rightarrow> 'a callResult \<times> failover" where
  "failover_call c f = (case c of (p, s, call) \<Rightarrow> (case call of
       QueryCall op \<Rightarrow> map_prod Answered id (failover_do False p s op f)
     | BroadcastCall tx mode \<Rightarrow> map_prod Sent id (failover_Broadcast False p s tx mode f)
     | ProbeCall \<Rightarrow> map_prod Probed id (failover_Probe p s f)))"

primrec failover_calls :: "(client \<times> client \<times> 'a nodeCall) list \<Rightarrow> failover \<Rightarrow> 'a callResult list \<times> failover" where
  "failover_calls [] f = ([], f)"
| "failover_calls (c # cs) f =
     (let (r, f1) = failover_call c f; (rs, f2) = failover_calls cs f1 in (r # rs, f2))"

text \<open>The primary fails with a transport error, the secondary is up and answers.\<close>

definition failsOver :: "err + 'a \<Rightarrow> err + 'a \<Rightarrow> bool" where
  "failsOver onPrimary onSecondary \<longleftrightarrow>
     (case onPrimary of Inl e \<Rightarrow> failoverEligible False e | Inr _ \<Rightarrow> False) \<and> (case onSecondary of Inl _ \<Rightarrow> False | Inr _ \<Rightarrow> True)"

definition primaryDown :: "client \<times> client \<times> 'a nodeCall \<Rightarrow> bool" where
  "primaryDown c = (case c of (p, s, call) \<Rightarrow> (case call of
       QueryCall op \<Rightarrow> failsOver (op p) (op s) \<and> standbyHealthy s
     | BroadcastCall tx mode \<Rightarrow> failsOver (cl_Broadcast p tx mode) (cl_Broadcast s tx mode)
     | ProbeCall \<Rightarrow> True))"

text \<open>What such a call returns before and after the promotion of the secondary, and which calls count as failures.\<close>

definition downAnswer :: "bool \<Rightarrow> client \<times> client \<times> 'a nodeCall \<Rightarrow> 'a callResult" where
  "downAnswer promoted c = (case c of (p, s, call) \<Rightarrow> (case call of
       QueryCall op \<Rightarrow> Answered (op s)
     | BroadcastCall tx mode \<Rightarrow> Sent (cl_Broadcast (if promoted then s else p) tx mode)
     | ProbeCall \<Rightarrow> Probed (cl_Probe (if promoted then s else p))))"

definition counted :: "(client \<times> client \<times> 'a nodeCall) list \<Rightarrow> int" where
  "counted cs = int (length (filter (\<lambda>(p, s, call). call \<noteq> ProbeCall) cs))"

lemma counted_simps [simp]: "counted [] = 0" "counted ((p, s, call) # cs) = (if call = ProbeCall then 0 else 1) + counted cs"
  by (simp_all add: counted_def)

lemma counted_nonneg [simp]: "0 \<le> counted cs"
  by (simp add: counted_def)

lemma call_promoted:
  assumes "primaryDown c" "fv_active f = 1"
  shows "fst (failover_call c f) = downAnswer True c \<and> fv_active (snd (failover_call c f)) = 1"
  using assms
  by (cases c; cases "snd (snd c)")
     (auto simp: failover_call_def primaryDown_def failsOver_def downAnswer_def failover_do_def failover_Broadcast_def
        failover_Probe_def failover_pair_def recordSuccess_def Let_def split: sum.splits)

lemma call_primaryDown:
  assumes "primaryDown (p, s, call)" "fv_active f = 0"
  shows "failover_call (p, s, call) f = (downAnswer False (p, s, call), if call = ProbeCall then f else recordFailure f)"
  using assms
  by (cases call)
     (auto simp: failover_call_def primaryDown_def failsOver_def downAnswer_def failover_do_def failover_Broadcast_def
        failover_Probe_def failover_pair_def Let_def split: sum.splits)

lemma calls_promoted:
  "list_all primaryDown cs \<Longrightarrow> fv_active f = 1 \<Longrightarrow>
   fst (failover_calls cs f) = map (downAnswer True) cs \<and> fv_active (snd (failover_calls cs f)) = 1"
proof (induction cs arbitrary: f)
  case (Cons c cs)
  then have "fst (failover_call c f) = downAnswer True c" "fv_active (snd (failover_call c f)) = 1"
    using call_promoted [of c f] by simp_all
  then show ?case using Cons.IH [of "snd (failover_call c f)"] Cons.prems(1) by (auto simp: Let_def split: prod.splits)
qed simp

text \<open>The answers to a run that starts with \<open>n\<close> more failures to go until the promotion.\<close>

primrec downAnswers :: "int \<Rightarrow> (client \<times> client \<times> 'a nodeCall) list \<Rightarrow> 'a callResult list" where
  "downAnswers n [] = []"
| "downAnswers n (c # cs) = downAnswer (n \<le> 0) c # downAnswers (n - counted [c]) cs"

lemma downAnswers_promoted: "n \<le> 0 \<Longrightarrow> downAnswers n cs = map (downAnswer True) cs"
proof (induction cs arbitrary: n)
  case (Cons c cs)
  moreover have "n - counted [c] \<le> 0" using Cons.prems counted_nonneg [of "[c]"] by linarith
  ultimately show ?case by simp
qed simp

lemma downAnswers_nth:
  "i < length cs \<Longrightarrow> downAnswers n cs ! i = downAnswer (n \<le> counted (take i cs)) (cs ! i)"
proof (induction cs arbitrary: i n)
  case (Cons c cs)
  have "counted (c # take j cs) = counted [c] + counted (take j cs)" for j by (cases c) simp
  then show ?case using Cons by (cases i) (simp_all add: algebra_simps)
qed simp

lemma length_downAnswers [simp]: "length (downAnswers n cs) = length cs"
  by (induction cs arbitrary: n) simp_all

lemma calls_primaryDown:
  "list_all primaryDown cs \<Longrightarrow> fv_active f = 0 \<Longrightarrow> failover_inv f \<Longrightarrow>
   fst (failover_calls cs f) = downAnswers (fp_FailureThreshold (fv_policy f) - fv_consecFails f) cs \<and>
   fv_active (snd (failover_calls cs f)) =
     (if fv_consecFails f + counted cs \<ge> fp_FailureThreshold (fv_policy f) then 1 else 0)"
proof (induction cs arbitrary: f)
  case Nil
  then show ?case by (simp add: failover_inv_def)
next
  case (Cons c cs)
  obtain p s call where c: "c = (p, s, call)" by (cases c)
  have do: "failover_call c f = (downAnswer False c, if call = ProbeCall then f else recordFailure f)"
    using call_primaryDown [of p s call f] Cons.prems c by simp
  have open_yet: "\<not> fp_FailureThreshold (fv_policy f) - fv_consecFails f \<le> 0" using Cons.prems(3) by (simp add: failover_inv_def)
  consider (probe) "call = ProbeCall" | (promote) "call \<noteq> ProbeCall" "fv_consecFails f + 1 \<ge> fp_FailureThreshold (fv_policy f)"
    | (count) "call \<noteq> ProbeCall" "\<not> fv_consecFails f + 1 \<ge> fp_FailureThreshold (fv_policy f)" by blast
  then show ?case
  proof cases
    case probe
    then show ?thesis using Cons.IH [of f] Cons.prems do c open_yet by (auto simp: Let_def split: prod.splits)
  next
    case promote
    then have "fv_active (recordFailure f) = 1" using Cons.prems(2) by (simp add: recordFailure_def Let_def)
    moreover have "fp_FailureThreshold (fv_policy f) \<le> fv_consecFails f + (1 + counted cs)" using promote(2) counted_nonneg [of cs] by linarith
    ultimately show ?thesis using calls_promoted [of cs "recordFailure f"] Cons.prems(1) promote do c open_yet
      by (auto simp: Let_def downAnswers_promoted split: prod.splits)
  next
    case count
    then have "recordFailure f = f\<lparr>fv_consecFails := fv_consecFails f + 1\<rparr>" by (simp add: recordFailure_def Let_def)
    then show ?thesis using Cons.IH [of "recordFailure f"] recordFailure_inv [OF Cons.prems(3)] Cons.prems count do c open_yet
      by (auto simp: Let_def algebra_simps split: prod.splits)
  qed
qed

text \<open>
  C32.  While the primary node is down and the secondary is up, no query through the
  failover wrapper fails: every one returns the secondary's answer.  A broadcast is
  not repeated on the standby: it returns the primary's error, and a probe the
  primary's answer, until the promotion; afterwards both go to the secondary.
  Queries and broadcasts count towards the promotion, probes do not: the secondary
  is active once as many of them as the failure threshold were made, and not before.
\<close>

theorem failover_recovers:
  assumes "list_all primaryDown cs"
  shows "length (fst (failover_calls cs (NewFailover policy))) = length cs \<and>
    (\<forall>i < length cs. fst (failover_calls cs (NewFailover policy)) ! i =
       (let promoted = (fp_FailureThreshold (fv_policy (NewFailover policy)) \<le> counted (take i cs)) in
        case cs ! i of (p, s, call) \<Rightarrow> (case call of
            QueryCall op \<Rightarrow> Answered (op s)
          | BroadcastCall tx mode \<Rightarrow> Sent (cl_Broadcast (if promoted then s else p) tx mode)
          | ProbeCall \<Rightarrow> Probed (cl_Probe (if promoted then s else p))))) \<and>
    (fv_active (snd (failover_calls cs (NewFailover policy))) = 1 \<longleftrightarrow>
       fp_FailureThreshold (fv_policy (NewFailover policy)) \<le> counted cs)"
proof -
  have start: "fv_active (NewFailover policy) = 0" "fv_consecFails (NewFailover policy) = 0" by (simp_all add: NewFailover_def Let_def)
  show ?thesis
    using calls_primaryDown [OF assms start(1) failover_inv_new]
    by (simp add: start(2) downAnswers_nth downAnswer_def [symmetric] Let_def)
qed

definition ex_client :: "err + NodeStatus \<Rightarrow> err + Block \<Rightarrow> client" where
  "ex_client status latest =
     \<lparr>cl_Account = (\<lambda>_. Inr (7, 3)), cl_Balance = (\<lambda>_ _. Inr 1000), cl_AllBalances = (\<lambda>_. Inr []),
      cl_DenomMetadata = (\<lambda>_. Inr []), cl_Tx = (\<lambda>_. Inl ClientErrNotFound), cl_BlockByHeight = (\<lambda>_. latest),
      cl_LatestBlock = latest, cl_BlockResults = (\<lambda>_. Inl ClientErrUnsupported), cl_NodeStatus = status,
      cl_Simulate = (\<lambda>_. Inl ClientErrSimulateUnavailable), cl_Broadcast = (\<lambda>_ _. Inl ClientErrUnsupported),
      cl_GlobalFeeParams = Inr [], cl_TxsByAddress = (\<lambda>_ _ _. Inr []),
      cl_Probe = Inr \<lparr>pr_NodeReachable = True, pr_TxServiceRoutable = False\<rparr>, cl_Close = Inr ()\<rparr>"

definition ex_block :: "int64 \<Rightarrow> bytes \<Rightarrow> Block" where
  "ex_block h hash = \<lparr>bk_ChainID = ''sovrn-1'', bk_Height = h, bk_Hash = hash, bk_Time = 1, bk_LastBlockHash = [],
     bk_Txs = []\<rparr>"

definition ex_sent :: BroadcastResult where
  "ex_sent = \<lparr>br_TxHash = ''AB'', br_Code = 0, br_RawLog = [], br_Accepted = True\<rparr>"

definition ex_down :: client where
  "ex_down = (ex_client (Inl (ErrOther ''eof'')) (Inl (ErrOther ''eof'')))\<lparr>cl_Broadcast := (\<lambda>_ _. Inl (ErrOther ''eof''))\<rparr>"

definition ex_up :: client where
  "ex_up = (ex_client (Inr \<lparr>ns_LatestHeight = 100, ns_CatchingUp = False\<rparr>) (Inr (ex_block 100 [1])))
     \<lparr>cl_Broadcast := (\<lambda>_ _. Inr ex_sent)\<rparr>"

theorem failover_recovers_witness:
  "let run = failover_calls [(ex_down, ex_up, QueryCall cl_LatestBlock), (ex_down, ex_up, BroadcastCall [1] BroadcastSync),
         (ex_down, ex_up, QueryCall cl_LatestBlock), (ex_down, ex_up, BroadcastCall [1] BroadcastSync)]
       (NewFailover \<lparr>fp_FailureThreshold = 0, fp_HealthCheckTimeout = 0\<rparr>) in
   fst run ! 0 = Answered (Inr (ex_block 100 [1])) \<and> fst run ! 1 = Sent (Inl (ErrOther ''eof'')) \<and>
   fst run ! 3 = Sent (Inr ex_sent) \<and> fv_active (snd run) = 1"
proof -
  let ?cs = "[(ex_down, ex_up, QueryCall cl_LatestBlock), (ex_down, ex_up, BroadcastCall [1] BroadcastSync),
     (ex_down, ex_up, QueryCall cl_LatestBlock), (ex_down, ex_up, BroadcastCall [1] BroadcastSync)]"
  have sides: "cl_LatestBlock ex_down = Inl (ErrOther ''eof'')" "cl_Broadcast ex_down [1] BroadcastSync = Inl (ErrOther ''eof'')"
    "cl_LatestBlock ex_up = Inr (ex_block 100 [1])" "cl_Broadcast ex_up [1] BroadcastSync = Inr ex_sent" "standbyHealthy ex_up"
    by (simp_all add: ex_down_def ex_up_def ex_client_def standbyHealthy_def)
  have "list_all primaryDown ?cs" by (simp add: primaryDown_def failsOver_def failoverEligible_def sides)
  from failover_recovers [OF this, of "\<lparr>fp_FailureThreshold = 0, fp_HealthCheckTimeout = 0\<rparr>"]
  have run: "\<forall>i < 4. fst (failover_calls ?cs (NewFailover \<lparr>fp_FailureThreshold = 0, fp_HealthCheckTimeout = 0\<rparr>)) ! i =
       (let promoted = (3 \<le> counted (take i ?cs)) in
        case ?cs ! i of (p, s, call) \<Rightarrow> (case call of
            QueryCall op \<Rightarrow> Answered (op s)
          | BroadcastCall tx mode \<Rightarrow> Sent (cl_Broadcast (if promoted then s else p) tx mode)
          | ProbeCall \<Rightarrow> Probed (cl_Probe (if promoted then s else p))))"
    "fv_active (snd (failover_calls ?cs (NewFailover \<lparr>fp_FailureThreshold = 0, fp_HealthCheckTimeout = 0\<rparr>))) = 1"
    by (simp_all add: NewFailover_def Let_def defaultFailureThreshold_def)
  show ?thesis unfolding Let_def
    using run(1) [rule_format, of 0] run(1) [rule_format, of 1] run(1) [rule_format, of 3] run(2)
    by (simp add: Let_def sides numeral_eq_Suc)
qed

end
