(* ===== verification/Reconcile.thy ===== *)
theory Reconcile
  imports Failover Deposits_Scanner
begin

text \<open>
  \<open>go/reconcile\<close>: the ledger formula and its comparison with the chain
  (\<open>reconcile.go\<close>), the hot-wallet and business sections (\<open>business.go\<close>) and the
  near-real-time pass (\<open>schedule.go\<close>).  The chain view is an optional client;
  the clock and fresh identifiers are arguments, an identifier drawn while
  reconciling a transaction being indexed by its hash.  Alerts, metrics and logs
  are left out.
\<close>

section \<open>The ledger walk\<close>

definition ledgerPageSize :: nat where "ledgerPageSize = 500"
definition maxRelatedTxHashes :: nat where "maxRelatedTxHashes = 50"
definition workflowListLimit :: int where "workflowListLimit = 10000"

record ReconcileConfig =
  rf_ChainID :: string

definition NewReconciler :: "ReconcileConfig \<Rightarrow> err + ReconcileConfig" where
  "NewReconciler cfg = (if rf_ChainID cfg = [] then Inl (ErrOther ''ChainID required'') else Inr cfg)"

definition ledgerPage :: "string \<Rightarrow> string \<Rightarrow> int \<Rightarrow> (store, LedgerEntry list) prog" where
  "ledgerPage chainID address afterID =
     ledgerRepo_List \<lparr>lq_ChainID = chainID, lq_Address = address, lq_FromHeight = 0, lq_ToHeight = 0,
                      lq_AfterID = afterID, lq_Limit = int ledgerPageSize\<rparr>"

text \<open>
  The page loop with its cursor; \<open>fn\<close> is the loop body.  The result is the cursor
  after the last row and what the body accumulated.  Every full page moves the
  cursor past at least one row, so one round per row of the ledger and one more
  are enough.
\<close>

primrec pageLoop ::
    "nat \<Rightarrow> string \<Rightarrow> string \<Rightarrow> ('b \<Rightarrow> LedgerEntry \<Rightarrow> (store, 'b) prog) \<Rightarrow> int \<Rightarrow> 'b \<Rightarrow> (store, int \<times> 'b) prog" where
  "pageLoop 0 chainID address fn afterID acc = throw (ErrOther ''the loop does not end'')"
| "pageLoop (Suc n) chainID address fn afterID acc =
     bindE (ledgerPage chainID address afterID) (\<lambda>page.
     bindE (foldE fn page acc) (\<lambda>acc'.
     let afterID' = (if page = [] then afterID else le_ID (last page)) in
     if length page < ledgerPageSize then ret (afterID', acc')
     else pageLoop n chainID address fn afterID' acc'))"

definition walkFrom ::
    "string \<Rightarrow> string \<Rightarrow> ('b \<Rightarrow> LedgerEntry \<Rightarrow> (store, 'b) prog) \<Rightarrow> int \<Rightarrow> 'b \<Rightarrow> (store, int \<times> 'b) prog" where
  "walkFrom chainID address fn afterID acc =
     bindE (gets (\<lambda>s. Suc (length (t_ledger s)))) (\<lambda>n. pageLoop n chainID address fn afterID acc)"

definition walkLedger :: "string \<Rightarrow> string \<Rightarrow> ('b \<Rightarrow> LedgerEntry \<Rightarrow> 'b) \<Rightarrow> 'b \<Rightarrow> (store, 'b) prog" where
  "walkLedger chainID address fn acc =
     bindE (walkFrom chainID address (\<lambda>b e. ret (fn b e)) 0 acc) (\<lambda>(_, b). ret b)"

section \<open>The expected balance\<close>

record LedgerPosition =
  lp_Expected :: int
  lp_EarliestHeight :: uint64
  lp_LatestHeight :: uint64
  lp_RelatedTxHashes :: "string list"
  lp_Rows :: nat

definition noteHeight :: "uint64 \<Rightarrow> LedgerPosition \<Rightarrow> LedgerPosition" where
  "noteHeight h pos =
     (let pos1 = (if lp_EarliestHeight pos = 0 \<or> h < lp_EarliestHeight pos then pos\<lparr>lp_EarliestHeight := h\<rparr> else pos)
      in if h > lp_LatestHeight pos1 then pos1\<lparr>lp_LatestHeight := h\<rparr> else pos1)"

definition noteTx :: "string \<Rightarrow> LedgerPosition \<times> string set \<Rightarrow> LedgerPosition \<times> string set" where
  "noteTx hash st = (case st of (pos, seenTx) \<Rightarrow>
     if hash \<noteq> [] \<and> hash \<notin> seenTx
     then (if length (lp_RelatedTxHashes pos) < maxRelatedTxHashes
           then pos\<lparr>lp_RelatedTxHashes := lp_RelatedTxHashes pos @ [hash]\<rparr> else pos, insert hash seenTx)
     else (pos, seenTx))"

definition countEntry :: "LedgerPosition \<times> string set \<Rightarrow> LedgerEntry \<Rightarrow> LedgerPosition \<times> string set" where
  "countEntry st e = (case st of (pos, seenTx) \<Rightarrow>
     if le_TxCode e \<noteq> 0 then (pos, seenTx)
     else case noteTx (le_TxHash e) (noteHeight (le_BlockHeight e) (pos\<lparr>lp_Rows := lp_Rows pos + 1\<rparr>), seenTx) of
       (pos1, seen1) \<Rightarrow> (case le_Direction e of
           DirectionIn \<Rightarrow> (pos1\<lparr>lp_Expected := lp_Expected pos1 + le_AmountBaseUnits e\<rparr>, seen1)
         | DirectionOut \<Rightarrow> (pos1\<lparr>lp_Expected := lp_Expected pos1 - le_AmountBaseUnits e\<rparr>, seen1)
         | LedgerDirectionOther _ \<Rightarrow> (pos1, seen1)))"

definition countFee :: "LedgerPosition \<times> string set \<Rightarrow> FeeOutflow \<Rightarrow> LedgerPosition \<times> string set" where
  "countFee st f = (case st of (pos, seenTx) \<Rightarrow>
     noteTx (fo_TxHash f) (noteHeight (fo_BlockHeight f) (pos\<lparr>lp_Expected := lp_Expected pos - fo_FeeBaseUnits f\<rparr>), seenTx))"

definition ExpectedBalance :: "ReconcileConfig \<Rightarrow> string \<Rightarrow> (store, LedgerPosition) prog" where
  "ExpectedBalance cfg address =
     bindE (walkLedger (rf_ChainID cfg) address countEntry
        (\<lparr>lp_Expected = 0, lp_EarliestHeight = 0, lp_LatestHeight = 0, lp_RelatedTxHashes = [], lp_Rows = 0\<rparr>, {})) (\<lambda>st.
     bindE (ledgerRepo_ListFeeOutflows (rf_ChainID cfg) address 0 0) (\<lambda>fees.
     ret (fst (foldl countFee st fees))))"

definition recommendedRescan :: "uint64 \<Rightarrow> uint64" where
  "recommendedRescan earliest = (if earliest = 0 then 1 else earliest)"

section \<open>Address reports\<close>

definition ReconcileAddress :: "ReconcileConfig \<Rightarrow> client option \<Rightarrow> string \<Rightarrow> (store, ReconciliationEntry) prog" where
  "ReconcileAddress cfg chain address = (case chain of
     None \<Rightarrow> throw (ErrOther ''chain client required for address reconciliation'')
   | Some c \<Rightarrow>
     bindE (ExpectedBalance cfg address) (\<lambda>pos.
     bindE (liftR (cl_Balance c address BaseDenom)) (\<lambda>observed.
     let difference = observed - lp_Expected pos;
         entry = \<lparr>re_Address = address, re_ExpectedBaseUnits = lp_Expected pos, re_ObservedBaseUnits = observed,
                  re_Difference = difference, re_EarliestSuspectedHeight = 0, re_RelatedTxHashes = [],
                  re_RecommendedRescanHeight = 0\<rparr>
     in ret (if difference \<noteq> 0
        then entry\<lparr>re_EarliestSuspectedHeight := lp_EarliestHeight pos, re_RelatedTxHashes := lp_RelatedTxHashes pos,
                   re_RecommendedRescanHeight := recommendedRescan (lp_EarliestHeight pos)\<rparr>
        else entry))))"

definition isOperationalWallet :: "WatchedAddressKind \<Rightarrow> bool" where
  "isOperationalWallet k \<longleftrightarrow> k = WatchHotWallet \<or> k = WatchColdWallet \<or> k = WatchFeeWallet"

definition periodStart :: "ReconcileConfig \<Rightarrow> ReconciliationKind \<Rightarrow> time \<Rightarrow> (store, time) prog" where
  "periodStart cfg kind now =
     bindE (tryE (reconRepo_ListReports (rf_ChainID cfg) kind 1)) (\<lambda>prev. ret (case prev of
       Inl _ \<Rightarrow> 0
     | Inr [] \<Rightarrow> 0
     | Inr (r # _) \<Rightarrow> if rr_GeneratedAt r > now then now else rr_GeneratedAt r))"

definition discrepancies :: "ReconciliationEntry list \<Rightarrow> ReconciliationEntry list" where
  "discrepancies entries = filter (\<lambda>e. re_Difference e \<noteq> 0) entries"

definition finishReport ::
    "ReconcileConfig \<Rightarrow> time \<Rightarrow> string \<Rightarrow> ReconciliationKind \<Rightarrow> ReconciliationEntry list \<Rightarrow> (store, ReconciliationReport) prog" where
  "finishReport cfg now newID kind entries =
     bindE (periodStart cfg kind now) (\<lambda>start.
     let rep = \<lparr>rr_ReportID = newID, rr_ChainID = rf_ChainID cfg, rr_Kind = kind, rr_PeriodStart = start,
                rr_PeriodEnd = now, rr_GeneratedAt = now, rr_Entries = entries,
                rr_DiscrepancyCount = int (length (discrepancies entries))\<rparr>
     in if kind = ReconTxNearRealTime \<and> rr_DiscrepancyCount rep = 0 then ret rep
        else thenE (reconRepo_SaveReport now rep) (ret rep))"

definition Run :: "ReconcileConfig \<Rightarrow> client option \<Rightarrow> time \<Rightarrow> string \<Rightarrow> ReconciliationKind \<Rightarrow> (store, ReconciliationReport) prog" where
  "Run cfg chain now newID kind =
     (if \<not> enumValid kind AllReconciliationKinds \<or> kind = ReconTxNearRealTime
      then throw (ErrOther ''unsupported run kind'')
      else bindE (watchRepo_ListActive (rf_ChainID cfg)) (\<lambda>watched.
        bindE (foldE (\<lambda>entries w.
            if kind = ReconWalletHourly \<and> \<not> isOperationalWallet (wa_Kind w) then ret entries
            else bindE (ReconcileAddress cfg chain (wa_Address w)) (\<lambda>entry. ret (entries @ [entry])))
          watched []) (\<lambda>entries.
        finishReport cfg now newID kind entries)))"

definition ReconcileAddressReport ::
    "ReconcileConfig \<Rightarrow> client option \<Rightarrow> time \<Rightarrow> string \<Rightarrow> string \<Rightarrow> (store, ReconciliationReport) prog" where
  "ReconcileAddressReport cfg chain now newID address =
     bindE (ReconcileAddress cfg chain address) (\<lambda>entry. finishReport cfg now newID ReconManual [entry])"

section \<open>Transaction reports\<close>

definition signedAmount :: "LedgerDirection \<Rightarrow> int \<Rightarrow> int" where
  "signedAmount d amt = (if d = DirectionOut then - amt else amt)"

definition txEntry :: "string \<Rightarrow> int \<Rightarrow> int \<Rightarrow> uint64 \<Rightarrow> string \<Rightarrow> ReconciliationEntry" where
  "txEntry address expected observed height hash =
     \<lparr>re_Address = address, re_ExpectedBaseUnits = expected, re_ObservedBaseUnits = observed,
      re_Difference = observed - expected, re_EarliestSuspectedHeight = height, re_RelatedTxHashes = [hash],
      re_RecommendedRescanHeight = recommendedRescan height\<rparr>"

definition checkTransfer ::
    "ReconcileConfig \<Rightarrow> uint64 \<Rightarrow> ReconciliationEntry list \<Rightarrow> TransferCandidate \<Rightarrow> (store, ReconciliationEntry list) prog" where
  "checkTransfer cfg height entries c =
     (if tc_TxCode c \<noteq> 0 then ret entries
      else bindE (tryE (ledgerRepo_GetTxEntry (rf_ChainID cfg) (tc_TxHash c) (tc_MessageIndex c) (tc_OpIndex c))) (\<lambda>r.
        let observed = signedAmount (tc_Direction c) (tc_AmountBaseUnits c);
            finish = (\<lambda>expected. ret (if expected \<noteq> observed
                        then entries @ [txEntry (tc_Address c) expected observed height (tc_TxHash c)] else entries))
        in case r of
          Inr stored \<Rightarrow> finish (signedAmount (le_Direction stored) (le_AmountBaseUnits stored))
        | Inl e \<Rightarrow> if e = ErrNotFound then finish 0 else throw e))"

definition checkFee ::
    "ReconcileConfig \<Rightarrow> uint64 \<Rightarrow> string \<Rightarrow> ReconciliationEntry list \<Rightarrow> FeeDeduction \<Rightarrow> (store, ReconciliationEntry list) prog" where
  "checkFee cfg height txHash entries f =
     bindE (ledgerRepo_ListFeeOutflows (rf_ChainID cfg) (fd_PayerAddress f) height height) (\<lambda>rows.
     ret (if list_ex (\<lambda>row. fo_TxHash row = txHash \<and> fo_FeeBaseUnits row = fd_FeeBaseUnits f) rows then entries
          else entries @ [txEntry (fd_PayerAddress f) 0 (- fd_FeeBaseUnits f) height txHash]))"

definition oneTxBlock :: "ReconcileConfig \<Rightarrow> TxDetail \<Rightarrow> Block" where
  "oneTxBlock cfg info = \<lparr>bk_ChainID = rf_ChainID cfg, bk_Height = ti_Height info, bk_Hash = [], bk_Time = 0,
     bk_LastBlockHash = [], bk_Txs = [ti_TxBytes info]\<rparr>"

definition oneTxResults :: "TxDetail \<Rightarrow> BlockResults" where
  "oneTxResults info = \<lparr>bs_Height = ti_Height info,
     bs_TxResults = [\<lparr>te_Code = ti_Code info, te_Log = ti_RawLog info, te_Events = ti_Events info\<rparr>],
     bs_FinalizeBlockEvents = []\<rparr>"

definition ReconcileTx ::
    "codec \<Rightarrow> ReconcileConfig \<Rightarrow> client option \<Rightarrow> time \<Rightarrow> string \<Rightarrow> string \<Rightarrow> ReconciliationKind
       \<Rightarrow> (store, ReconciliationReport) prog" where
  "ReconcileTx K cfg chain now newID txHash kind =
     (if kind \<noteq> ReconTxNearRealTime \<and> kind \<noteq> ReconManual then throw (ErrOther ''unsupported tx-reconcile kind'')
      else case chain of None \<Rightarrow> throw (ErrOther ''chain client required for tx reconciliation'')
      | Some c \<Rightarrow> (case cl_Tx c txHash of
          Inl e \<Rightarrow> if e = ClientErrNotFound then finishReport cfg now newID kind [] else throw e
        | Inr info \<Rightarrow>
          bindE (watchRepo_ListActive (rf_ChainID cfg)) (\<lambda>watched.
          bindE (liftR (ParseBlockTransfers K (oneTxBlock cfg info) (oneTxResults info) (NewWatchSet watched))) (\<lambda>bp.
          bindE (foldE (checkTransfer cfg (ti_Height info)) (bp_Transfers bp) []) (\<lambda>entries.
          bindE (foldE (checkFee cfg (ti_Height info) txHash) (bp_FeeDeductions bp) entries) (\<lambda>entries'.
          finishReport cfg now newID kind entries'))))))"

end
