(* ===== verification/Reconcile_Business.thy ===== *)
theory Reconcile_Business
  imports Reconcile
begin

text \<open>
  \<open>go/reconcile/business.go\<close> (the hot-wallet comparison and the business-layer
  section) and \<open>go/reconcile/schedule.go\<close> (the cadences and the near-real-time
  pass; its ticker loop is left out).
\<close>

section \<open>The hot-wallet comparison\<close>

record HotWalletReport =
  hw_ChainID :: string
  hw_Address :: string
  hw_LedgerExpected :: int
  hw_Observed :: int
  hw_Difference :: int
  hw_PendingSignedOutflow :: int
  hw_BroadcastUnconfirmedOutflow :: int
  hw_BroadcastUnconfirmedInflow :: int
  hw_ConfirmedWithdrawalOutflow :: int
  hw_ConfirmedSweepInflow :: int
  hw_Explained :: bool
  hw_GeneratedAt :: time

definition hotWalletStart :: "ReconcileConfig \<Rightarrow> time \<Rightarrow> string \<Rightarrow> HotWalletReport" where
  "hotWalletStart cfg now address =
     \<lparr>hw_ChainID = rf_ChainID cfg, hw_Address = address, hw_LedgerExpected = 0, hw_Observed = 0, hw_Difference = 0,
      hw_PendingSignedOutflow = 0, hw_BroadcastUnconfirmedOutflow = 0, hw_BroadcastUnconfirmedInflow = 0,
      hw_ConfirmedWithdrawalOutflow = 0, hw_ConfirmedSweepInflow = 0, hw_Explained = False, hw_GeneratedAt = now\<rparr>"

definition hw_settled :: "HotWalletReport \<Rightarrow> LedgerEntry \<Rightarrow> HotWalletReport" where
  "hw_settled rep e =
     (if le_TxCode e \<noteq> 0 then rep
      else if le_Classification e = ClassWithdrawal \<and> le_Direction e = DirectionOut
        then rep\<lparr>hw_ConfirmedWithdrawalOutflow := hw_ConfirmedWithdrawalOutflow rep + le_AmountBaseUnits e\<rparr>
      else if le_Classification e = ClassSweep \<and> le_Direction e = DirectionIn
        then rep\<lparr>hw_ConfirmedSweepInflow := hw_ConfirmedSweepInflow rep + le_AmountBaseUnits e\<rparr>
      else rep)"

definition hw_withdrawal :: "string \<Rightarrow> WithdrawalStatus \<Rightarrow> HotWalletReport \<Rightarrow> WithdrawalRecord \<Rightarrow> HotWalletReport" where
  "hw_withdrawal address st rep w =
     (if w_SourceAddress w \<noteq> address then rep
      else let total = (case w_FeeAmountBaseUnits w of None \<Rightarrow> w_AmountBaseUnits w
                        | Some fee \<Rightarrow> w_AmountBaseUnits w + fee)
      in if st = WithdrawalSigned
         then rep\<lparr>hw_PendingSignedOutflow := hw_PendingSignedOutflow rep + total\<rparr>
         else rep\<lparr>hw_BroadcastUnconfirmedOutflow := hw_BroadcastUnconfirmedOutflow rep + total\<rparr>)"

definition hw_sweep :: "string \<Rightarrow> SweepStatus \<Rightarrow> HotWalletReport \<Rightarrow> SweepJob \<Rightarrow> HotWalletReport" where
  "hw_sweep address st rep j =
     (if j_SourceAddress j = address \<and> st = SweepSigned
        then rep\<lparr>hw_PendingSignedOutflow := hw_PendingSignedOutflow rep + j_AmountBaseUnits j\<rparr>
      else if j_SourceAddress j = address
        then rep\<lparr>hw_BroadcastUnconfirmedOutflow := hw_BroadcastUnconfirmedOutflow rep + j_AmountBaseUnits j\<rparr>
      else if j_HotWalletAddress j = address \<and> st = SweepBroadcast
        then rep\<lparr>hw_BroadcastUnconfirmedInflow := hw_BroadcastUnconfirmedInflow rep + j_AmountBaseUnits j\<rparr>
      else rep)"

definition hw_explained :: "HotWalletReport \<Rightarrow> bool" where
  "hw_explained rep =
     (if hw_Difference rep = 0 then True
      else if hw_Difference rep < 0 then - hw_Difference rep \<le> hw_BroadcastUnconfirmedOutflow rep
      else hw_Difference rep \<le> hw_BroadcastUnconfirmedInflow rep)"

definition HotWallet :: "ReconcileConfig \<Rightarrow> client option \<Rightarrow> time \<Rightarrow> string \<Rightarrow> (store, HotWalletReport) prog" where
  "HotWallet cfg chain now address = (case chain of
     None \<Rightarrow> throw (ErrOther ''chain client required for hot-wallet comparison'')
   | Some c \<Rightarrow>
     bindE (ExpectedBalance cfg address) (\<lambda>pos.
     bindE (liftR (cl_Balance c address BaseDenom)) (\<lambda>observed.
     let rep0 = (hotWalletStart cfg now address)\<lparr>hw_LedgerExpected := lp_Expected pos, hw_Observed := observed,
                   hw_Difference := observed - lp_Expected pos\<rparr> in
     bindE (walkLedger (rf_ChainID cfg) address hw_settled rep0) (\<lambda>rep1.
     bindE (foldE (\<lambda>rep st. bindE (withdrawalRepo_ListByStatus (rf_ChainID cfg) st workflowListLimit)
              (\<lambda>recs. ret (foldl (hw_withdrawal address st) rep recs)))
            [WithdrawalSigned, WithdrawalBroadcast, WithdrawalIncluded] rep1) (\<lambda>rep2.
     bindE (foldE (\<lambda>rep st. bindE (sweepRepo_ListByStatus (rf_ChainID cfg) st workflowListLimit)
              (\<lambda>jobs. ret (foldl (hw_sweep address st) rep jobs)))
            [SweepSigned, SweepBroadcast] rep2) (\<lambda>rep3.
     ret (rep3\<lparr>hw_Explained := hw_explained rep3\<rparr>)))))))"

section \<open>The business layer\<close>

record BusinessSection =
  bz_ChainID :: string
  bz_GeneratedAt :: time
  bz_LedgerExternalDepositTotal :: int
  bz_CreditedDepositTotal :: int
  bz_UncreditedExternalTotal :: int
  bz_LedgerWithdrawalOutflowTotal :: int
  bz_WorkflowWithdrawalTotal :: int
  bz_InFlightWithdrawalTotal :: int
  bz_LedgerSweepInflowTotal :: int
  bz_WorkflowSweepTotal :: int
  bz_Findings :: "string list"

definition businessStart :: "ReconcileConfig \<Rightarrow> time \<Rightarrow> BusinessSection" where
  "businessStart cfg now =
     \<lparr>bz_ChainID = rf_ChainID cfg, bz_GeneratedAt = now, bz_LedgerExternalDepositTotal = 0, bz_CreditedDepositTotal = 0,
      bz_UncreditedExternalTotal = 0, bz_LedgerWithdrawalOutflowTotal = 0, bz_WorkflowWithdrawalTotal = 0,
      bz_InFlightWithdrawalTotal = 0, bz_LedgerSweepInflowTotal = 0, bz_WorkflowSweepTotal = 0, bz_Findings = []\<rparr>"

definition bz_entry :: "BusinessSection \<Rightarrow> LedgerEntry \<Rightarrow> BusinessSection" where
  "bz_entry sec e =
     (if le_TxCode e \<noteq> 0 then sec
      else if le_Classification e = ClassExternalDeposit \<and> le_Direction e = DirectionIn
        then sec\<lparr>bz_LedgerExternalDepositTotal := bz_LedgerExternalDepositTotal sec + le_AmountBaseUnits e\<rparr>
      else if le_Classification e = ClassWithdrawal \<and> le_Direction e = DirectionOut
        then sec\<lparr>bz_LedgerWithdrawalOutflowTotal := bz_LedgerWithdrawalOutflowTotal sec + le_AmountBaseUnits e\<rparr>
      else if le_Classification e = ClassSweep \<and> le_Direction e = DirectionIn
        then sec\<lparr>bz_LedgerSweepInflowTotal := bz_LedgerSweepInflowTotal sec + le_AmountBaseUnits e\<rparr>
      else sec)"

definition bz_deposits :: "ReconcileConfig \<Rightarrow> BusinessSection \<Rightarrow> DepositStatus \<Rightarrow> (store, BusinessSection) prog" where
  "bz_deposits cfg sec st =
     bindE (depositRepo_ListByStatus (rf_ChainID cfg) st workflowListLimit) (\<lambda>ds.
     ret (foldl (\<lambda>sec d. sec\<lparr>bz_CreditedDepositTotal := bz_CreditedDepositTotal sec + d_AmountBaseUnits d\<rparr>) sec ds))"

definition bz_withdrawals :: "ReconcileConfig \<Rightarrow> BusinessSection \<Rightarrow> WithdrawalStatus \<Rightarrow> (store, BusinessSection) prog" where
  "bz_withdrawals cfg sec st =
     bindE (withdrawalRepo_ListByStatus (rf_ChainID cfg) st workflowListLimit) (\<lambda>ws.
     ret (foldl (\<lambda>sec w.
         if st = WithdrawalConfirmed
         then sec\<lparr>bz_WorkflowWithdrawalTotal := bz_WorkflowWithdrawalTotal sec + w_AmountBaseUnits w\<rparr>
         else sec\<lparr>bz_InFlightWithdrawalTotal := bz_InFlightWithdrawalTotal sec + w_AmountBaseUnits w\<rparr>) sec ws))"

definition bz_findings :: "BusinessSection \<Rightarrow> string list" where
  "bz_findings sec =
     (if bz_UncreditedExternalTotal sec < 0
      then [''credited deposit total '' @ show_int (bz_CreditedDepositTotal sec) @
            '' exceeds ledger EXTERNAL_DEPOSIT total '' @ show_int (bz_LedgerExternalDepositTotal sec)] else []) @
     (if bz_WorkflowWithdrawalTotal sec > bz_LedgerWithdrawalOutflowTotal sec
      then [''confirmed withdrawal total '' @ show_int (bz_WorkflowWithdrawalTotal sec) @
            '' exceeds ledger WITHDRAWAL outflow total '' @ show_int (bz_LedgerWithdrawalOutflowTotal sec)] else []) @
     (if bz_WorkflowSweepTotal sec > bz_LedgerSweepInflowTotal sec
      then [''confirmed sweep total '' @ show_int (bz_WorkflowSweepTotal sec) @
            '' exceeds ledger SWEEP inflow total '' @ show_int (bz_LedgerSweepInflowTotal sec)] else []) @
     (let lag = bz_LedgerWithdrawalOutflowTotal sec - bz_WorkflowWithdrawalTotal sec in
      if lag > 0
      then [''ledger WITHDRAWAL outflows lead confirmed workflow totals by '' @ show_int lag @ '' (in-flight: '' @
            show_int (bz_InFlightWithdrawalTotal sec) @ '') '' @ [CHR 0xE2, CHR 0x80, CHR 0x94] @
            '' expected during confirmation lag''] else [])"

definition Business :: "ReconcileConfig \<Rightarrow> time \<Rightarrow> (store, BusinessSection) prog" where
  "Business cfg now =
     bindE (watchRepo_ListActive (rf_ChainID cfg)) (\<lambda>watched.
     bindE (foldE (\<lambda>sec w. walkLedger (rf_ChainID cfg) (wa_Address w) bz_entry sec) watched (businessStart cfg now)) (\<lambda>sec1.
     bindE (foldE (bz_deposits cfg) [DepositCredited, DepositSweepPending, DepositSwept] sec1) (\<lambda>sec2.
     let sec3 = sec2\<lparr>bz_UncreditedExternalTotal := bz_LedgerExternalDepositTotal sec2 - bz_CreditedDepositTotal sec2\<rparr> in
     bindE (foldE (bz_withdrawals cfg) [WithdrawalConfirmed, WithdrawalBroadcast, WithdrawalIncluded] sec3) (\<lambda>sec4.
     bindE (sweepRepo_ListByStatus (rf_ChainID cfg) SweepConfirmed workflowListLimit) (\<lambda>sweeps.
     let sec5 = foldl (\<lambda>sec j. sec\<lparr>bz_WorkflowSweepTotal := bz_WorkflowSweepTotal sec + j_AmountBaseUnits j\<rparr>) sec4 sweeps
     in ret (sec5\<lparr>bz_Findings := bz_findings sec5\<rparr>))))))"

section \<open>Schedules\<close>

record Schedule =
  sd_NearRealTimeInterval :: int
  sd_WalletInterval :: int
  sd_FullAddressInterval :: int

definition DefaultNearRealTimeInterval :: int where "DefaultNearRealTimeInterval = 60000000000"
definition DefaultWalletInterval :: int where "DefaultWalletInterval = 3600000000000"
definition DefaultFullAddressInterval :: int where "DefaultFullAddressInterval = 86400000000000"

definition withDefaults :: "Schedule \<Rightarrow> Schedule" where
  "withDefaults s =
     (let s1 = (if sd_NearRealTimeInterval s \<le> 0 then s\<lparr>sd_NearRealTimeInterval := DefaultNearRealTimeInterval\<rparr> else s);
          s2 = (if sd_WalletInterval s1 \<le> 0 then s1\<lparr>sd_WalletInterval := DefaultWalletInterval\<rparr> else s1)
      in if sd_FullAddressInterval s2 \<le> 0 then s2\<lparr>sd_FullAddressInterval := DefaultFullAddressInterval\<rparr> else s2)"

definition nrtEntry ::
    "codec \<Rightarrow> ReconcileConfig \<Rightarrow> client option \<Rightarrow> time \<Rightarrow> (string \<Rightarrow> string) \<Rightarrow> string set \<Rightarrow> LedgerEntry \<Rightarrow> (store, string set) prog" where
  "nrtEntry K cfg chain now newID seen e =
     (if le_Kind e \<noteq> LedgerKindTx \<or> le_TxHash e = [] \<or> le_TxHash e \<in> seen then ret seen
      else thenE (ReconcileTx K cfg chain now (newID (le_TxHash e)) (le_TxHash e) ReconTxNearRealTime)
             (ret (insert (le_TxHash e) seen)))"

text \<open>
  The cursors are a Go map, changed in place: what they hold when the pass stops
  is part of the result, also when it stops with an error.
\<close>

primrec nrtWalk ::
    "codec \<Rightarrow> ReconcileConfig \<Rightarrow> client option \<Rightarrow> time \<Rightarrow> (string \<Rightarrow> string) \<Rightarrow> WatchedAddress list \<Rightarrow> string set
       \<Rightarrow> (string \<rightharpoonup> int) \<Rightarrow> (store, (string \<rightharpoonup> int) \<times> (err + unit)) prog" where
  "nrtWalk K cfg chain now newID [] seen cursors = ret (cursors, Inr ())"
| "nrtWalk K cfg chain now newID (w # ws) seen cursors =
     bindE (tryE (walkFrom (rf_ChainID cfg) (wa_Address w) (nrtEntry K cfg chain now newID)
        (case cursors (wa_Address w) of None \<Rightarrow> 0 | Some i \<Rightarrow> i) seen)) (\<lambda>r. case r of
       Inl e \<Rightarrow> ret (cursors, Inl e)
     | Inr (afterID, seen') \<Rightarrow> nrtWalk K cfg chain now newID ws seen' (cursors(wa_Address w \<mapsto> afterID)))"

definition NearRealTimePass ::
    "codec \<Rightarrow> ReconcileConfig \<Rightarrow> client option \<Rightarrow> time \<Rightarrow> (string \<Rightarrow> string) \<Rightarrow> (string \<rightharpoonup> int)
       \<Rightarrow> (store, (string \<rightharpoonup> int) \<times> (err + unit)) prog" where
  "NearRealTimePass K cfg chain now newID cursors =
     bindE (tryE (watchRepo_ListActive (rf_ChainID cfg))) (\<lambda>r. case r of
       Inl e \<Rightarrow> ret (cursors, Inl e)
     | Inr watched \<Rightarrow> nrtWalk K cfg chain now newID watched {} cursors)"

end
