(* ===== verification/Reconcile_Theorems.thy ===== *)
theory Reconcile_Theorems
  imports Reconcile_Business Deposit_Fixtures "HOL-Library.Multiset"
begin

text \<open>
  What reconciliation computes and what it touches: the paged walk visits every
  ledger row of an address once, in order; the expected balance is the sum the
  data model defines; a report is stored exactly when none of its amounts is
  negative; nothing but the report table is written.
\<close>

section \<open>The paged walk\<close>

definition rowsAfter :: "string \<Rightarrow> string \<Rightarrow> int \<Rightarrow> LedgerEntry list \<Rightarrow> LedgerEntry list" where
  "rowsAfter chainID address i es = filter (\<lambda>x. le_ChainID x = chainID \<and> le_Address x = address
     \<and> 0 \<le> sint (le_BlockHeight x) \<and> i < le_ID x) es"

definition cursorAfter :: "int \<Rightarrow> LedgerEntry list \<Rightarrow> int" where
  "cursorAfter i rows = (if rows = [] then i else le_ID (last rows))"

definition keepLedger :: "store \<Rightarrow> store \<Rightarrow> bool" where
  "keepLedger s t \<longleftrightarrow> t_ledger t = t_ledger s"

interpretation kl: step_rel keepLedger
  by unfold_locales (auto simp: keepLedger_def)

lemma uniq_ledger_increasing: "uniq_ledger es \<Longrightarrow> sorted_wrt (\<lambda>x y. le_ID x < le_ID y) es"
  using strict_sorted_iff [of "map le_ID es"] by (simp add: uniq_ledger_def sorted_wrt_map)

lemma increasing_rowsAfter:
  "uniq_ledger es \<Longrightarrow> sorted_wrt (\<lambda>x y. le_ID x < le_ID y) (rowsAfter c a i es)"
  unfolding rowsAfter_def by (intro sorted_wrt_filter uniq_ledger_increasing)

lemma ledgerPage_run:
  assumes "uniq_ledger (t_ledger s)"
  shows "ledgerPage c a i s = (Inr (take ledgerPageSize (rowsAfter c a i (t_ledger s))), s)"
proof -
  have "sorted (map le_ID (rowsAfter c a i (t_ledger s)))"
    using increasing_rowsAfter [OF assms] by (simp add: sorted_wrt_map sorted_wrt_mono_rel [of _ "\<lambda>x y. le_ID x < le_ID y"] less_imp_le)
  then have "sort_key le_ID (rowsAfter c a i (t_ledger s)) = rowsAfter c a i (t_ledger s)" by (rule sort_key_id_if_sorted)
  then show ?thesis
    by (simp add: ledgerPage_def ledgerRepo_List_def limit_rows_def ledgerPageSize_def rowsAfter_def inHeightRange_def)
qed

lemma filter_beyond:
  assumes "sorted_wrt (\<lambda>x y. le_ID x < le_ID y) xs" "0 < k" "k \<le> length xs"
  shows "filter (\<lambda>x. le_ID (last (take k xs)) < le_ID x) xs = drop k xs"
proof -
  have split: "sorted_wrt (\<lambda>x y. le_ID x < le_ID y) (take k xs @ drop k xs)" using assms(1) by simp
  have ne: "take k xs \<noteq> []" using assms(2,3) by auto
  have "\<forall>x\<in>set (take k xs). le_ID x \<le> le_ID (last (take k xs))"
  proof -
    obtain ys y where "take k xs = ys @ [y]" using ne by (metis append_butlast_last_id)
    then show ?thesis using split by (auto simp: sorted_wrt_append less_imp_le)
  qed
  moreover have "\<forall>x\<in>set (drop k xs). le_ID (last (take k xs)) < le_ID x"
    using split ne unfolding sorted_wrt_append by auto
  ultimately have "filter (\<lambda>x. le_ID (last (take k xs)) < le_ID x) (take k xs @ drop k xs) = drop k xs"
    unfolding filter_append by (auto simp: filter_empty_conv not_less)
  then show ?thesis by simp
qed

lemma rowsAfter_next:
  assumes "uniq_ledger es" "0 < k" "k \<le> length (rowsAfter c a i es)"
  shows "rowsAfter c a (le_ID (last (take k (rowsAfter c a i es)))) es = drop k (rowsAfter c a i es)"
proof -
  define m where "m = le_ID (last (take k (rowsAfter c a i es)))"
  have "take k (rowsAfter c a i es) \<noteq> []" using assms(2,3) by auto
  then have "last (take k (rowsAfter c a i es)) \<in> set (rowsAfter c a i es)" by (meson in_set_takeD last_in_set)
  then have "i < m" by (auto simp: m_def rowsAfter_def)
  then have "rowsAfter c a m es = filter (\<lambda>x. m < le_ID x) (rowsAfter c a i es)"
    by (auto simp: rowsAfter_def intro!: filter_cong)
  then show ?thesis using filter_beyond [OF increasing_rowsAfter [OF assms(1)] assms(2,3)] by (simp add: m_def)
qed

lemma foldE_append: "foldE f (xs @ ys) b = bindE (foldE f xs b) (foldE f ys)"
  by (induction xs arbitrary: b) (auto simp: bindE_def fun_eq_iff split: prod.splits sum.splits)

text \<open>The loop is the fold over all rows behind the cursor, whatever its body does to the other tables.\<close>

lemma pageLoop_fold:
  assumes "uniq_ledger (t_ledger s)" "\<And>b e. stays keepLedger (fn b e)" "length (rowsAfter c a i (t_ledger s)) < n"
  shows "pageLoop n c a fn i acc s =
    bindE (foldE fn (rowsAfter c a i (t_ledger s)) acc) (\<lambda>b. ret (cursorAfter i (rowsAfter c a i (t_ledger s)), b)) s"
  using assms(1,3)
proof (induction n arbitrary: i acc s)
  case (Suc n)
  let ?rows = "rowsAfter c a i (t_ledger s)" and ?page = "take ledgerPageSize (rowsAfter c a i (t_ledger s))"
  obtain r s1 where f: "foldE fn ?page acc s = (r, s1)" by (cases "foldE fn ?page acc s")
  have led: "t_ledger s1 = t_ledger s"
    using staysD [OF kl.stays_foldE [OF assms(2)] f] by (simp add: keepLedger_def)
  have pos: "0 < ledgerPageSize" by (simp add: ledgerPageSize_def)
  note page = ledgerPage_run [OF Suc.prems(1), of c a i]
  show ?case
  proof (cases "length ?rows < ledgerPageSize")
    case True
    then show ?thesis using page f by (simp add: bindE_def cursorAfter_def Let_def split: sum.split)
  next
    case False
    define m where "m = le_ID (last ?page)"
    have nx: "rowsAfter c a m (t_ledger s1) = drop ledgerPageSize ?rows"
      unfolding led m_def by (rule rowsAfter_next [OF Suc.prems(1) pos]) (use False in simp)
    have ne: "?page \<noteq> []" using False pos by auto
    have cur: "cursorAfter m (drop ledgerPageSize ?rows) = cursorAfter i ?rows"
    proof (cases "drop ledgerPageSize ?rows = []")
      case True
      then have "?page = ?rows" by simp
      then show ?thesis using True ne by (simp add: cursorAfter_def m_def)
    next
      case False
      then show ?thesis by (auto simp: cursorAfter_def last_drop)
    qed
    have IH: "pageLoop n c a fn m b s1 = bindE (foldE fn (drop ledgerPageSize ?rows) b) (\<lambda>b. ret (cursorAfter i ?rows, b)) s1" for b
      using Suc.IH [of s1 m b] Suc.prems False pos unfolding nx cur by (simp add: led ret_def)
    have "pageLoop (Suc n) c a fn i acc s = (case r of Inl e \<Rightarrow> (Inl e, s1) | Inr b \<Rightarrow> pageLoop n c a fn m b s1)"
      using page f False ne by (simp add: bindE_def Let_def m_def split: sum.split)
    also have "\<dots> = bindE (foldE fn (?page @ drop ledgerPageSize ?rows) acc) (\<lambda>b. ret (cursorAfter i ?rows, b)) s"
      unfolding foldE_append using f IH by (simp add: bindE_def split: sum.split)
    finally show ?thesis unfolding append_take_drop_id .
  qed
qed simp

lemma walkFrom_fold:
  assumes "uniq_ledger (t_ledger s)" "\<And>b e. stays keepLedger (fn b e)"
  shows "walkFrom c a fn i acc s =
    bindE (foldE fn (rowsAfter c a i (t_ledger s)) acc) (\<lambda>b. ret (cursorAfter i (rowsAfter c a i (t_ledger s)), b)) s"
proof -
  have "length (rowsAfter c a i (t_ledger s)) < Suc (length (t_ledger s))"
    by (simp add: rowsAfter_def less_Suc_eq_le)
  from pageLoop_fold [OF assms this]
  show ?thesis unfolding walkFrom_def by (subst bindE_def) (simp del: pageLoop.simps)
qed

lemma foldE_ret: "foldE (\<lambda>b e. ret (fn b e)) xs b s = (Inr (foldl fn b xs), s)"
  by (induction xs arbitrary: b) (auto simp: bindE_def)

lemma walkLedger_run:
  assumes "uniq_ledger (t_ledger s)"
  shows "walkLedger c a fn acc s = (Inr (foldl fn acc (rowsAfter c a 0 (t_ledger s))), s)"
proof -
  have "walkFrom c a (\<lambda>b e. ret (fn b e)) 0 acc s =
      (Inr (cursorAfter 0 (rowsAfter c a 0 (t_ledger s)), foldl fn acc (rowsAfter c a 0 (t_ledger s))), s)"
    by (subst walkFrom_fold [OF assms kl.stays_ret]) (simp add: bindE_def foldE_ret)
  then show ?thesis by (simp add: walkLedger_def bindE_def)
qed

section \<open>The expected balance\<close>

text \<open>
  The formula of the data model: what came in, less what went out, less the
  fees, over the rows of the address; failed transactions moved nothing.
\<close>

definition movement :: "LedgerEntry \<Rightarrow> int" where
  "movement e = (if le_TxCode e \<noteq> 0 then 0 else case le_Direction e of
     DirectionIn \<Rightarrow> le_AmountBaseUnits e | DirectionOut \<Rightarrow> - le_AmountBaseUnits e | _ \<Rightarrow> 0)"

definition ledgerBalance :: "string \<Rightarrow> string \<Rightarrow> store \<Rightarrow> int" where
  "ledgerBalance chainID address s =
     (\<Sum>e\<leftarrow>filter (\<lambda>e. le_ChainID e = chainID \<and> le_Address e = address \<and> 0 \<le> sint (le_BlockHeight e)) (t_ledger s).
        movement e) -
     (\<Sum>f\<leftarrow>filter (\<lambda>f. fo_ChainID f = chainID \<and> fo_PayerAddress f = address \<and> 0 \<le> sint (fo_BlockHeight f))
        (t_fee_outflows s). fo_FeeBaseUnits f)"

lemma noted_expected [simp]: "lp_Expected (fst (noteTx h (noteHeight k pos, seen))) = lp_Expected pos"
  by (auto simp: noteTx_def noteHeight_def Let_def)

lemma countEntry_expected: "lp_Expected (fst (countEntry st e)) = lp_Expected (fst st) + movement e"
proof (cases st)
  case (Pair pos seen)
  obtain pos1 seen1 where n: "noteTx (le_TxHash e) (noteHeight (le_BlockHeight e) (pos\<lparr>lp_Rows := lp_Rows pos + 1\<rparr>), seen) = (pos1, seen1)"
    by fastforce
  then have "lp_Expected pos1 = lp_Expected pos"
    using noted_expected [of "le_TxHash e" "le_BlockHeight e" "pos\<lparr>lp_Rows := lp_Rows pos + 1\<rparr>" seen] by (simp del: noted_expected)
  then show ?thesis using Pair n by (simp add: countEntry_def movement_def split: LedgerDirection.split)
qed

lemma countEntries_expected: "lp_Expected (fst (foldl countEntry st es)) = lp_Expected (fst st) + (\<Sum>e\<leftarrow>es. movement e)"
  by (induction es arbitrary: st) (auto simp: countEntry_expected)

lemma countFees_expected: "lp_Expected (fst (foldl countFee st fs)) = lp_Expected (fst st) - (\<Sum>f\<leftarrow>fs. fo_FeeBaseUnits f)"
  by (induction fs arbitrary: st) (auto simp: countFee_def split: prod.splits)

lemma sum_list_sort_key: "(\<Sum>x\<leftarrow>sort_key k xs. f x :: int) = (\<Sum>x\<leftarrow>xs. f x)"
  by (metis mset_map mset_sort sum_mset_sum_list)

lemma ExpectedBalance_run:
  assumes "uniq_ledger (t_ledger s)"
  shows "\<exists>pos. ExpectedBalance cfg address s = (Inr pos, s) \<and> lp_Expected pos = ledgerBalance (rf_ChainID cfg) address s"
proof -
  let ?rows = "rowsAfter (rf_ChainID cfg) address 0 (t_ledger s)"
  have "?rows = filter (\<lambda>e. le_ChainID e = rf_ChainID cfg \<and> le_Address e = address \<and> 0 \<le> sint (le_BlockHeight e)) (t_ledger s)"
    using assms by (auto simp: rowsAfter_def uniq_ledger_def intro!: filter_cong)
  then show ?thesis
    by (simp add: ExpectedBalance_def walkLedger_run [OF assms] bindE_def ledgerRepo_ListFeeOutflows_def countFees_expected
        countEntries_expected sum_list_sort_key ledgerBalance_def inHeightRange_def)
qed

section \<open>Storing a report\<close>

definition unstorable :: "ReconciliationEntry list \<Rightarrow> bool" where
  "unstorable entries \<longleftrightarrow> (\<exists>e \<in> set entries. re_ExpectedBaseUnits e < 0 \<or> re_ObservedBaseUnits e < 0)"

lemma saveEntry_run:
  "saveEntry i e s = (if re_ExpectedBaseUnits e < 0 \<or> re_ObservedBaseUnits e < 0 then (Inl ErrInvalidRecord, s)
     else (Inr (), t_reports_update (map_where (\<lambda>r. rr_ReportID r = i) (\<lambda>r. r\<lparr>rr_Entries := rr_Entries r @ [e]\<rparr>)) s))"
  by (simp add: saveEntry_def amountText_def bindE_def)

lemma saveEntries_err: "unstorable es \<Longrightarrow> fst (forE es (saveEntry i) s) = Inl ErrInvalidRecord"
  by (induction es arbitrary: s) (auto simp: unstorable_def saveEntry_run thenE_def bindE_def)

lemma saveEntries_ok:
  assumes "\<forall>x \<in> set rs. rr_ReportID x \<noteq> rr_ReportID r" "\<not> unstorable es"
  shows "forE es (saveEntry (rr_ReportID r)) (s\<lparr>t_reports := rs @ [r]\<rparr>) =
    (Inr (), s\<lparr>t_reports := rs @ [r\<lparr>rr_Entries := rr_Entries r @ es\<rparr>]\<rparr>)"
  using assms
proof (induction es arbitrary: r)
  case (Cons e es)
  have "map_where (\<lambda>x. rr_ReportID x = rr_ReportID r) f rs = rs" for f
    using Cons.prems by (auto simp: map_where_def intro: map_idI)
  then have "saveEntry (rr_ReportID r) e (s\<lparr>t_reports := rs @ [r]\<rparr>) =
      (Inr (), s\<lparr>t_reports := rs @ [r\<lparr>rr_Entries := rr_Entries r @ [e]\<rparr>]\<rparr>)"
    using Cons.prems by (simp add: saveEntry_run unstorable_def map_where_def)
  then show ?case using Cons.IH [of "r\<lparr>rr_Entries := rr_Entries r @ [e]\<rparr>"] Cons.prems
    by (simp add: thenE_def bindE_def unstorable_def)
qed simp

definition storedReport :: "time \<Rightarrow> ReconciliationReport \<Rightarrow> ReconciliationReport" where
  "storedReport now rep = rep\<lparr>rr_PeriodStart := fmtTime now (rr_PeriodStart rep),
     rr_PeriodEnd := fmtTime now (rr_PeriodEnd rep), rr_GeneratedAt := fmtTime now (rr_GeneratedAt rep)\<rparr>"

lemma SaveReport_run:
  "reconRepo_SaveReport now rep s =
     (if rr_ReportID rep = [] \<or> rr_ChainID rep = [] \<or> \<not> enumValid (rr_Kind rep) AllReconciliationKinds
      then (Inl ErrInvalidRecord, s)
      else if \<exists>x \<in> set (t_reports s). rr_ReportID x = rr_ReportID rep then (Inl ErrDuplicate, s)
      else if unstorable (rr_Entries rep) then (Inl ErrInvalidRecord, s)
      else (Inr (), s\<lparr>t_reports := t_reports s @ [storedReport now rep]\<rparr>))"
proof (cases "\<exists>x \<in> set (t_reports s). rr_ReportID x = rr_ReportID rep")
  case False
  let ?r = "rep\<lparr>rr_Entries := [], rr_PeriodStart := fmtTime now (rr_PeriodStart rep),
      rr_PeriodEnd := fmtTime now (rr_PeriodEnd rep), rr_GeneratedAt := fmtTime now (rr_GeneratedAt rep)\<rparr>"
  let ?run = "forE (rr_Entries rep) (saveEntry (rr_ReportID rep)) (s\<lparr>t_reports := t_reports s @ [?r]\<rparr>)"
  have upd: "t_reports_update (\<lambda>rows. rows @ [?r]) s = s\<lparr>t_reports := t_reports s @ [?r]\<rparr>" by (cases s) simp
  have save: "reconRepo_SaveReport now rep s =
      (if rr_ReportID rep = [] \<or> rr_ChainID rep = [] \<or> \<not> enumValid (rr_Kind rep) AllReconciliationKinds
       then (Inl ErrInvalidRecord, s) else case ?run of (Inl e, _) \<Rightarrow> (Inl e, s) | (Inr a, t) \<Rightarrow> (Inr a, t))"
    using False by (simp add: reconRepo_SaveReport_def with_tx_def thenE_def bindE_def insertRow_def upd)
  show ?thesis
  proof (cases "unstorable (rr_Entries rep)")
    case True
    obtain u where "?run = (Inl ErrInvalidRecord, u)" using saveEntries_err [OF True] by (metis prod.collapse)
    then show ?thesis unfolding save using False True by simp
  next
    case ok: False
    have "?r\<lparr>rr_Entries := rr_Entries ?r @ rr_Entries rep\<rparr> = storedReport now rep" by (cases rep) (simp add: storedReport_def)
    then have "?run = (Inr (), s\<lparr>t_reports := t_reports s @ [storedReport now rep]\<rparr>)"
      using saveEntries_ok [of "t_reports s" ?r "rr_Entries rep" s] False ok by simp
    then show ?thesis unfolding save using False ok by simp
  qed
qed (simp add: reconRepo_SaveReport_def with_tx_def thenE_def bindE_def insertRow_def)

section \<open>Reconciliation only observes\<close>

text \<open>The store afterwards is the store before with reports appended.\<close>

definition observes :: "store \<Rightarrow> store \<Rightarrow> bool" where
  "observes s t \<longleftrightarrow> (\<exists>rs. t = s\<lparr>t_reports := t_reports s @ rs\<rparr>)"

interpretation ob: step_rel observes
proof unfold_locales
  fix s t u :: store
  have "s = s\<lparr>t_reports := t_reports s @ []\<rparr>" by simp
  then show "observes s s" unfolding observes_def by blast
  assume "observes s t" "observes t u"
  then show "observes s u" unfolding observes_def by auto
qed

lemma observesD: "stays observes m \<Longrightarrow> \<exists>rs. snd (m s) = s\<lparr>t_reports := t_reports s @ rs\<rparr>"
  by (simp add: stays_def observes_def)

named_theorems observe_ops

lemma observe_reads [observe_ops]:
  "stays observes (watchRepo_ListActive c)" "stays observes (ledgerRepo_List q)"
  "stays observes (ledgerRepo_ListFeeOutflows c a h k)" "stays observes (ledgerRepo_GetTxEntry c tx m i)"
  "stays observes (reconRepo_ListReports c kind n)" "stays observes (withdrawalRepo_ListByStatus c wst n)"
  "stays observes (sweepRepo_ListByStatus c sst n)" "stays observes (depositRepo_ListByStatus c dst n)"
  by (rule ob.stays_unchanged, simp add: watchRepo_ListActive_def ledgerRepo_List_def ledgerRepo_ListFeeOutflows_def
      ledgerRepo_GetTxEntry_def queryRow_def reconRepo_ListReports_def withdrawalRepo_ListByStatus_def
      sweepRepo_ListByStatus_def depositRepo_ListByStatus_def bindE_def split: option.split)+

lemma observe_save [observe_ops]: "stays observes (reconRepo_SaveReport now rep)"
proof -
  have "observes s (snd (reconRepo_SaveReport now rep s))" for s
    unfolding SaveReport_run using ob.R_refl [of s] by (auto simp: observes_def)
  then show ?thesis by (simp add: stays_def)
qed

lemma observe_pageLoop:
  "(\<And>b e. stays observes (fn b e)) \<Longrightarrow> stays observes (pageLoop n c a fn i acc)"
proof (induction n arbitrary: i acc)
  case (Suc n)
  show ?case unfolding pageLoop.simps ledgerPage_def by (intro ob.stays_rules observe_ops Suc)
qed (simp add: ob.stays_throw)

lemma observe_walk [observe_ops]:
  "(\<And>b e. stays observes (fn b e)) \<Longrightarrow> stays observes (walkFrom c a fn i acc)"
  unfolding walkFrom_def by (intro ob.stays_rules observe_pageLoop)

lemma observe_walkLedger [observe_ops]: "stays observes (walkLedger c a g acc)"
  unfolding walkLedger_def by (intro ob.stays_rules observe_ops)

lemma observe_address [observe_ops]:
  "stays observes (ExpectedBalance cfg a)" "stays observes (ReconcileAddress cfg chain a)"
  unfolding ReconcileAddress_def ExpectedBalance_def Let_def by (intro ob.stays_rules observe_ops)+

lemma observe_finish [observe_ops]: "stays observes (finishReport cfg now i kind entries)"
  unfolding finishReport_def periodStart_def Let_def by (intro ob.stays_rules observe_ops)

lemma observe_tx [observe_ops]: "stays observes (ReconcileTx K cfg chain now i h kind)"
  unfolding ReconcileTx_def checkTransfer_def checkFee_def Let_def by (intro ob.stays_rules observe_ops)

lemma observe_nrt: "stays observes (nrtWalk K cfg chain now newID ws seen cursors)"
proof (induction ws arbitrary: seen cursors)
  case (Cons w ws)
  have "stays observes (nrtEntry K cfg chain now newID b e)" for b e
    unfolding nrtEntry_def by (intro ob.stays_rules observe_ops)
  then show ?case unfolding nrtWalk.simps by (intro ob.stays_rules observe_ops Cons)
qed (simp add: ob.stays_ret)

lemma observe_reports:
  "stays observes (Run cfg chain now i kind)" "stays observes (ReconcileAddressReport cfg chain now i a)"
  "stays observes (HotWallet cfg chain now a)" "stays observes (Business cfg now)"
  "stays observes (NearRealTimePass K cfg chain now newID cursors)"
  unfolding Run_def ReconcileAddressReport_def HotWallet_def Business_def bz_deposits_def bz_withdrawals_def
    NearRealTimePass_def Let_def
  by (intro ob.stays_rules observe_ops observe_nrt)+

section \<open>What a report says\<close>

lemma finishReport_run:
  "\<exists>start. finishReport cfg now i kind entries s =
     (let rep = \<lparr>rr_ReportID = i, rr_ChainID = rf_ChainID cfg, rr_Kind = kind, rr_PeriodStart = start,
                 rr_PeriodEnd = now, rr_GeneratedAt = now, rr_Entries = entries,
                 rr_DiscrepancyCount = int (length (discrepancies entries))\<rparr>
      in if kind = ReconTxNearRealTime \<and> discrepancies entries = [] then (Inr rep, s)
         else case reconRepo_SaveReport now rep s of (Inl e, t) \<Rightarrow> (Inl e, t) | (Inr _, t) \<Rightarrow> (Inr rep, t))"
proof -
  obtain start where "periodStart cfg kind now s = (Inr start, s)"
    by (simp add: periodStart_def reconRepo_ListReports_def bindE_def tryE_def)
  then have "finishReport cfg now i kind entries s =
     (let rep = \<lparr>rr_ReportID = i, rr_ChainID = rf_ChainID cfg, rr_Kind = kind, rr_PeriodStart = start,
                 rr_PeriodEnd = now, rr_GeneratedAt = now, rr_Entries = entries,
                 rr_DiscrepancyCount = int (length (discrepancies entries))\<rparr>
      in if kind = ReconTxNearRealTime \<and> discrepancies entries = [] then (Inr rep, s)
         else case reconRepo_SaveReport now rep s of (Inl e, t) \<Rightarrow> (Inl e, t) | (Inr _, t) \<Rightarrow> (Inr rep, t))"
    by (simp add: finishReport_def bindE_def thenE_def Let_def split: prod.split sum.split)
  then show ?thesis by (rule exI)
qed

lemma finishReport_unstorable:
  assumes "unstorable entries" "kind = ReconTxNearRealTime \<Longrightarrow> discrepancies entries \<noteq> []"
  shows "\<exists>e. finishReport cfg now i kind entries s = (Inl e, s)"
  using finishReport_run [of cfg now i kind entries s] assms by (auto simp: Let_def SaveReport_run split: if_splits)

text \<open>What the ledger holds for a transfer, and the entries of the two checks.\<close>

definition ledgerAmount :: "ReconcileConfig \<Rightarrow> TransferCandidate \<Rightarrow> store \<Rightarrow> int" where
  "ledgerAmount cfg c s = (case find (\<lambda>x. le_ChainID x = rf_ChainID cfg \<and> le_Kind x = LedgerKindTx \<and> le_TxHash x = tc_TxHash c
        \<and> le_MessageIndex x = tc_MessageIndex c \<and> le_OpIndex x = tc_OpIndex c) (t_ledger s) of
     None \<Rightarrow> 0 | Some x \<Rightarrow> signedAmount (le_Direction x) (le_AmountBaseUnits x))"

definition transferEntries :: "ReconcileConfig \<Rightarrow> uint64 \<Rightarrow> store \<Rightarrow> TransferCandidate \<Rightarrow> ReconciliationEntry list" where
  "transferEntries cfg h s c =
     (let observed = signedAmount (tc_Direction c) (tc_AmountBaseUnits c) in
      if tc_TxCode c \<noteq> 0 \<or> ledgerAmount cfg c s = observed then []
      else [txEntry (tc_Address c) (ledgerAmount cfg c s) observed h (tc_TxHash c)])"

definition feeEntries :: "ReconcileConfig \<Rightarrow> uint64 \<Rightarrow> string \<Rightarrow> store \<Rightarrow> FeeDeduction \<Rightarrow> ReconciliationEntry list" where
  "feeEntries cfg h txHash s f =
     (if \<exists>row \<in> set (t_fee_outflows s). fo_ChainID row = rf_ChainID cfg \<and> fo_PayerAddress row = fd_PayerAddress f
           \<and> inHeightRange h h (fo_BlockHeight row) \<and> fo_TxHash row = txHash \<and> fo_FeeBaseUnits row = fd_FeeBaseUnits f
      then [] else [txEntry (fd_PayerAddress f) 0 (- fd_FeeBaseUnits f) h txHash])"

lemma checkTransfer_run: "checkTransfer cfg h entries c s = (Inr (entries @ transferEntries cfg h s c), s)"
  by (auto simp: checkTransfer_def transferEntries_def ledgerAmount_def ledgerRepo_GetTxEntry_def queryRow_def Let_def
      bindE_def tryE_def split: option.splits)

lemma checkFee_run: "checkFee cfg h txHash entries f s = (Inr (entries @ feeEntries cfg h txHash s f), s)"
  by (auto simp: checkFee_def feeEntries_def ledgerRepo_ListFeeOutflows_def bindE_def list_ex_iff)

lemma foldE_collect:
  "(\<And>acc x. f acc x s = (Inr (acc @ g x), s)) \<Longrightarrow> foldE f xs acc s = (Inr (acc @ concat (map g xs)), s)"
  by (induction xs arbitrary: acc) (auto simp: bindE_def)

lemma ReconcileTx_run:
  assumes "kind = ReconTxNearRealTime \<or> kind = ReconManual" "cl_Tx c txHash = Inr info"
    and "watchRepo_ListActive (rf_ChainID cfg) s = (Inr watched, s)"
    and "ParseBlockTransfers K (oneTxBlock cfg info) (oneTxResults info) (NewWatchSet watched) = Inr bp"
  shows "ReconcileTx K cfg (Some c) now i txHash kind s =
    finishReport cfg now i kind (concat (map (transferEntries cfg (ti_Height info) s) (bp_Transfers bp)) @
      concat (map (feeEntries cfg (ti_Height info) txHash s) (bp_FeeDeductions bp))) s"
proof -
  have t: "foldE (checkTransfer cfg (ti_Height info)) (bp_Transfers bp) [] s =
      (Inr (concat (map (transferEntries cfg (ti_Height info) s) (bp_Transfers bp))), s)"
    by (subst foldE_collect [OF checkTransfer_run]) simp
  have f: "foldE (checkFee cfg (ti_Height info) txHash) (bp_FeeDeductions bp) es s =
      (Inr (es @ concat (map (feeEntries cfg (ti_Height info) txHash s) (bp_FeeDeductions bp))), s)" for es
    by (rule foldE_collect [OF checkFee_run])
  show ?thesis using assms(1) by (auto simp: ReconcileTx_def assms(2-4) t f bindE_def)
qed

lemma entry_in_concat: "x \<in> set xs \<Longrightarrow> e \<in> set (f x) \<Longrightarrow> e \<in> set (concat (map f xs))"
  by auto

section \<open>Properties\<close>

text \<open>
  C29.  The reconciliation of an address implements the formula of the data model:
  whatever the size of the ledger and the paging, a reachable store and a node
  that answers give an entry whose expected amount is the sum of all inflows less
  all outflows less all fees of the address, each row counted once, and whose
  difference is the node's balance less that sum; the entry names a rescan height
  exactly when they differ, and the store is untouched.
\<close>

theorem address_formula:
  assumes "store_uniq s" "cl_Balance c address BaseDenom = Inr observed"
  shows "\<exists>entry. ReconcileAddress cfg (Some c) address s = (Inr entry, s) \<and> re_Address entry = address \<and>
    re_ExpectedBaseUnits entry = ledgerBalance (rf_ChainID cfg) address s \<and> re_ObservedBaseUnits entry = observed \<and>
    re_Difference entry = observed - ledgerBalance (rf_ChainID cfg) address s \<and>
    (re_RecommendedRescanHeight entry \<noteq> 0 \<longleftrightarrow> observed \<noteq> ledgerBalance (rf_ChainID cfg) address s)"
proof -
  have "uniq_ledger (t_ledger s)" using assms(1) by (simp add: store_uniq_def)
  then obtain pos where "ExpectedBalance cfg address s = (Inr pos, s)" "lp_Expected pos = ledgerBalance (rf_ChainID cfg) address s"
    using ExpectedBalance_run by blast
  then show ?thesis using assms(2) by (simp add: ReconcileAddress_def bindE_def Let_def recommendedRescan_def)
qed

theorem address_formula_witness:
  "\<exists>entry. ReconcileAddress \<lparr>rf_ChainID = ''sovr-1''\<rparr> (Some ex_up) ''cust'' dx_s2 = (Inr entry, dx_s2) \<and>
     re_ExpectedBaseUnits entry = 5 \<and> re_Difference entry = 995"
proof -
  have "store_uniq dx_s2" using reachable_credit_inv [OF dx_reachable] by (simp add: credit_inv_def)
  moreover have "cl_Balance ex_up ''cust'' BaseDenom = Inr 1000" by (simp add: ex_up_def ex_client_def)
  moreover have "ledgerBalance ''sovr-1'' ''cust'' dx_s2 = 5"
    by (simp add: ledgerBalance_def movement_def dx_s2_def dx_s1_def dx_s0_def empty_store_def dx_ledger_def
        TransferCandidate_LedgerEntry_def dx_row_def)
  ultimately show ?thesis
    using address_formula [of dx_s2 ex_up "''cust''" 1000 "\<lparr>rf_ChainID = ''sovr-1''\<rparr>"] by auto
qed

text \<open>
  Reconciliation is an observer: whatever the node answers and however the
  operation ends, each of the periodic and manual reconciliations leaves every
  table of the store as it was, except that reports are appended to the report
  table.
\<close>

theorem reconcile_observes:
  "(\<exists>rs. snd (Run cfg chain now i kind s) = s\<lparr>t_reports := t_reports s @ rs\<rparr>) \<and>
   (\<exists>rs. snd (ReconcileAddressReport cfg chain now i address s) = s\<lparr>t_reports := t_reports s @ rs\<rparr>) \<and>
   (\<exists>rs. snd (ReconcileTx K cfg chain now i txHash kind s) = s\<lparr>t_reports := t_reports s @ rs\<rparr>) \<and>
   (\<exists>rs. snd (NearRealTimePass K cfg chain now newID cursors s) = s\<lparr>t_reports := t_reports s @ rs\<rparr>) \<and>
   (\<exists>rs. snd (HotWallet cfg chain now address s) = s\<lparr>t_reports := t_reports s @ rs\<rparr>) \<and>
   (\<exists>rs. snd (Business cfg now s) = s\<lparr>t_reports := t_reports s @ rs\<rparr>)"
  by (intro conjI observesD observe_reports observe_tx)

text \<open>
  C40.  A report that would show an outgoing payment missing from the ledger is
  never stored: when the chain reports a successful outflow of a watched address
  for which no ledger row exists, reconciling the transaction returns an error
  and leaves the store unchanged, because the report table accepts no negative
  amount.
\<close>

theorem outflow_report_rejected:
  assumes "kind = ReconTxNearRealTime \<or> kind = ReconManual" "cl_Tx c txHash = Inr info"
    and "watchRepo_ListActive (rf_ChainID cfg) s = (Inr watched, s)"
    and "ParseBlockTransfers K (oneTxBlock cfg info) (oneTxResults info) (NewWatchSet watched) = Inr bp"
    and "tc \<in> set (bp_Transfers bp)" "tc_TxCode tc = 0" "tc_Direction tc = DirectionOut" "tc_AmountBaseUnits tc > 0"
    and "ledgerRepo_GetTxEntry (rf_ChainID cfg) (tc_TxHash tc) (tc_MessageIndex tc) (tc_OpIndex tc) s = (Inl ErrNotFound, s)"
  shows "\<exists>e. ReconcileTx K cfg (Some c) now i txHash kind s = (Inl e, s)"
proof -
  let ?e = "txEntry (tc_Address tc) 0 (- tc_AmountBaseUnits tc) (ti_Height info) (tc_TxHash tc)"
  have "ledgerAmount cfg tc s = 0"
    using assms(9) by (simp add: ledgerAmount_def ledgerRepo_GetTxEntry_def queryRow_def bindE_def split: option.splits)
  then have "?e \<in> set (transferEntries cfg (ti_Height info) s tc)"
    using assms(6-8) by (simp add: transferEntries_def signedAmount_def)
  then have e: "?e \<in> set (concat (map (transferEntries cfg (ti_Height info) s) (bp_Transfers bp)))"
    by (rule entry_in_concat [OF assms(5)])
  show ?thesis unfolding ReconcileTx_run [OF assms(1-4)]
    by (rule finishReport_unstorable)
       (use e assms(8) in \<open>force simp: unstorable_def discrepancies_def filter_empty_conv txEntry_def\<close>)+
qed

definition ex_hotWatched :: WatchedAddress where
  "ex_hotWatched = \<lparr>wa_ChainID = ''sovr-1'', wa_Address = ''ext'', wa_Kind = WatchHotWallet, wa_CustomerRef = [],
     wa_MemoRequired = False, wa_Active = True\<rparr>"

definition ex_paid :: TxDetail where
  "ex_paid = \<lparr>ti_Height = 7, ti_Code = 0, ti_RawLog = [], ti_TxBytes = [7], ti_Events = []\<rparr>"

theorem outflow_report_rejected_witness:
  "\<exists>e. ReconcileTx dx_codec \<lparr>rf_ChainID = ''sovr-1''\<rparr> (Some (ex_up\<lparr>cl_Tx := (\<lambda>_. Inr ex_paid)\<rparr>)) 9 ''r1'' ''H'' ReconManual
     (empty_store\<lparr>t_watched := [ex_hotWatched]\<rparr>) = (Inl e, empty_store\<lparr>t_watched := [ex_hotWatched]\<rparr>)"
proof -
  let ?cfg = "\<lparr>rf_ChainID = ''sovr-1''\<rparr>" and ?s = "empty_store\<lparr>t_watched := [ex_hotWatched]\<rparr>"
  let ?tx = "parser_tx dx_codec (NewWatchSet [ex_hotWatched]) ([7], dx_result)"
  have w: "watchRepo_ListActive (rf_ChainID ?cfg) ?s = (Inr [ex_hotWatched], ?s)"
    by (simp add: watchRepo_ListActive_def ex_hotWatched_def)
  obtain bp where p: "ParseBlockTransfers dx_codec (oneTxBlock ?cfg ex_paid) (oneTxResults ex_paid) (NewWatchSet [ex_hotWatched]) = Inr bp"
    and t: "bp_Transfers bp = tr_Transfers ?tx"
    by (simp add: ParseBlockTransfers_def oneTxBlock_def oneTxResults_def ex_paid_def dx_result_def)
  have "\<exists>tc. tc \<in> set (tr_Transfers ?tx) \<and> tc_TxCode tc = 0 \<and> tc_Direction tc = DirectionOut \<and> tc_AmountBaseUnits tc > 0"
    by (simp add: parser_tx_def txMessages_def txBody_def messageRows_def send_def inRow_def outRow_def movesBase_def
        Contains_def NewWatchSet_def ex_hotWatched_def dx_codec_def dx_result_def BaseDenom_def TypeURLMsgSend_def Let_def)
  then obtain tc where tc: "tc \<in> set (bp_Transfers bp)" "tc_TxCode tc = 0" "tc_Direction tc = DirectionOut" "tc_AmountBaseUnits tc > 0"
    using t by auto
  have g: "ledgerRepo_GetTxEntry (rf_ChainID ?cfg) (tc_TxHash tc) (tc_MessageIndex tc) (tc_OpIndex tc) ?s = (Inl ErrNotFound, ?s)"
    by (simp add: ledgerRepo_GetTxEntry_def queryRow_def bindE_def empty_store_def)
  show ?thesis by (rule outflow_report_rejected [OF _ _ w p tc g]) simp_all
qed

end
