(* ===== verification/Monitor.thy ===== *)
theory Monitor
  imports Failover Deposits_State
begin

text \<open>
  \<open>go/reconcile/disagreement.go\<close>: the periodic two-node comparison that opens a
  chain-review condition on every disagreement, and so closes the credit gate.
  The count of clean checks in a row is the monitor's only state; it is passed
  and returned.  The gauge, the logs and the ticker are left out.
\<close>

definition DefaultDisagreementInterval :: int where "DefaultDisagreementInterval = 30000000000"
definition DefaultHeightTolerance :: int64 where "DefaultHeightTolerance = 5"
definition autoResolveCleanChecks :: int where "autoResolveCleanChecks = 3"

record DisagreementConfig =
  dc_ChainID :: string
  dc_Interval :: int
  dc_HeightTolerance :: int64
  dc_SequenceAddress :: string
  dc_BalanceAddress :: string
  dc_CompareHashAtCheckpoint :: bool

definition NewMonitor :: "DisagreementConfig \<Rightarrow> err + DisagreementConfig" where
  "NewMonitor cfg =
     (if dc_ChainID cfg = [] then Inl (ErrOther ''ChainID required'')
      else let c1 = (if dc_Interval cfg \<le> 0 then cfg\<lparr>dc_Interval := DefaultDisagreementInterval\<rparr> else cfg);
               c2 = (if sint (dc_HeightTolerance c1) \<le> 0 then c1\<lparr>dc_HeightTolerance := DefaultHeightTolerance\<rparr> else c1)
           in Inr c2)"

definition triggerFor :: "CompareKind \<Rightarrow> ChainReviewTrigger" where
  "triggerFor kind = (case kind of CompareHeight \<Rightarrow> TriggerHeightDivergence
     | CompareBlockHash \<Rightarrow> TriggerBlockHashMismatch | _ \<Rightarrow> TriggerQueryResultMismatch)"

definition firstNonEmpty :: "string \<Rightarrow> string \<Rightarrow> string" where
  "firstNonEmpty a b = (if a \<noteq> [] then a else b)"

definition openCondition :: "DisagreementConfig \<Rightarrow> time \<Rightarrow> string \<Rightarrow> CompareItem \<Rightarrow> (store, unit) prog" where
  "openCondition cfg now newID it =
     (let trigger = triggerFor (ci_Kind it) in
      bindE (chainReviewRepo_ListOpen (dc_ChainID cfg)) (\<lambda>opn.
      if list_ex (\<lambda>c. cr_Trigger c = trigger) opn then ret ()
      else thenE (chainReviewRepo_Open now
          \<lparr>cr_ConditionID = newID, cr_ChainID = dc_ChainID cfg, cr_Trigger = trigger,
           cr_NodeA = \<lparr>no_Endpoint = ''primary'', no_Height = 0, no_Value = firstNonEmpty (ci_Primary it) (ci_PrimaryErr it)\<rparr>,
           cr_NodeB = \<lparr>no_Endpoint = ''secondary'', no_Height = 0, no_Value = firstNonEmpty (ci_Secondary it) (ci_SecondaryErr it)\<rparr>,
           cr_OpenedAt = now, cr_ResolvedAt = None, cr_Resolution = []\<rparr>) (ret ())))"

definition autoResolveTransient :: "DisagreementConfig \<Rightarrow> time \<Rightarrow> (store, unit) prog" where
  "autoResolveTransient cfg now =
     bindE (chainReviewRepo_ListOpen (dc_ChainID cfg)) (\<lambda>opn.
     forE opn (\<lambda>c.
       if cr_Trigger c \<noteq> TriggerHeightDivergence \<and> cr_Trigger c \<noteq> TriggerQueryResultMismatch then ret ()
       else chainReviewRepo_Resolve now (cr_ConditionID c)
              (''auto-resolved: nodes agreed on '' @ show_int autoResolveCleanChecks @ '' consecutive checks'') now))"

definition checkRequest :: "DisagreementConfig \<Rightarrow> (store, CompareRequest) prog" where
  "checkRequest cfg =
     (let req = \<lparr>cq_Height = True, cq_HeightTolerance = dc_HeightTolerance cfg, cq_BlockHashAtHeight = 0, cq_TxHash = [],
                 cq_SequenceAddress = dc_SequenceAddress cfg, cq_BalanceAddress = dc_BalanceAddress cfg,
                 cq_BalanceDenom = (if dc_BalanceAddress cfg \<noteq> [] then BaseDenom else [])\<rparr> in
      if dc_CompareHashAtCheckpoint cfg
      then bindE (tryE (checkpointRepo_Get (dc_ChainID cfg))) (\<lambda>r. ret (case r of
             Inl _ \<Rightarrow> req
           | Inr cp \<Rightarrow> if cp_LastFullyProcessedHeight cp > 0
                      then req\<lparr>cq_BlockHashAtHeight := cp_LastFullyProcessedHeight cp\<rparr> else req))
      else ret req)"

text \<open>
  \<open>Check\<close>: the comparer's answer to a request is an argument (\<open>Compare\<close> of
  \<open>Failover\<close> in the program), as is the identifier drawn for the \<open>n\<close>-th mismatch.
\<close>

definition Check ::
    "DisagreementConfig \<Rightarrow> (CompareRequest \<Rightarrow> err + CompareResult) \<Rightarrow> time \<Rightarrow> (nat \<Rightarrow> string) \<Rightarrow> int
       \<Rightarrow> (store, int \<times> (err + CompareResult)) prog" where
  "Check cfg cmp now newID cleanStreak =
     bindE (checkRequest cfg) (\<lambda>req. case cmp req of
       Inl e \<Rightarrow> ret (cleanStreak, Inl e)
     | Inr res \<Rightarrow>
       if AllMatch res then
         (let streak = cleanStreak + 1 in
          if streak \<ge> autoResolveCleanChecks
          then bindE (tryE (autoResolveTransient cfg now)) (\<lambda>r. ret (streak, case r of Inl e \<Rightarrow> Inl e | Inr _ \<Rightarrow> Inr res))
          else ret (streak, Inr res))
       else
         bindE (tryE (forE (enumerate 0 (Mismatches res)) (\<lambda>(n, it). openCondition cfg now (newID n) it)))
           (\<lambda>r. ret (0, case r of Inl e \<Rightarrow> Inl e | Inr _ \<Rightarrow> Inr res)))"

end
