(* ===== verification/Monitor_Theorems.thy ===== *)
theory Monitor_Theorems
  imports Monitor Deposit_Fixtures
begin

text \<open>
  The disagreement monitor and the credit gate: a disagreement closes the gate,
  a block-hash condition stays open through every later check, and a secondary
  node that merely lags within the tolerance opens one.
\<close>

section \<open>Open conditions\<close>

definition openCond :: "string \<Rightarrow> ChainReviewTrigger \<Rightarrow> store \<Rightarrow> bool" where
  "openCond chainID trigger s \<longleftrightarrow>
     (\<exists>c \<in> set (t_chain_reviews s). cr_ChainID c = chainID \<and> cr_Trigger c = trigger \<and> cr_ResolvedAt c = None)"

lemma listOpen_run:
  "chainReviewRepo_ListOpen chainID s = (Inr opn, t) \<longleftrightarrow> t = s \<and>
     opn = sort_key (\<lambda>c. (cr_OpenedAt c, cr_ConditionID c)) (filter (\<lambda>c. cr_ChainID c = chainID \<and> cr_ResolvedAt c = None) (t_chain_reviews s))"
  by (auto simp: chainReviewRepo_ListOpen_def)

lemma openCondition_ok:
  assumes "openCondition cfg now i it s = (Inr u, t)"
  shows "openCond (dc_ChainID cfg) (triggerFor (ci_Kind it)) t"
  using assms unfolding openCondition_def openCond_def
  by (auto simp: Let_def bindE_def thenE_def chainReviewRepo_ListOpen_def chainReviewRepo_Open_def with_tx_def insertRow_def
      list_ex_iff split: if_splits)

text \<open>What may happen to a condition the monitor never resolves.\<close>

definition keepsOpen :: "string \<Rightarrow> ChainReviewTrigger \<Rightarrow> store \<Rightarrow> store \<Rightarrow> bool" where
  "keepsOpen chainID trigger s t \<longleftrightarrow> (openCond chainID trigger s \<longrightarrow> openCond chainID trigger t)"

interpretation ko: step_rel "keepsOpen chainID trigger" for chainID trigger
  by unfold_locales (auto simp: keepsOpen_def)

lemma keepsOpen_open: "stays (keepsOpen chainID trigger) (chainReviewRepo_Open now c)"
  by (auto simp: stays_def keepsOpen_def openCond_def chainReviewRepo_Open_def with_tx_def insertRow_def thenE_def bindE_def
      Let_def)

lemma keepsOpen_openCondition: "stays (keepsOpen chainID trigger) (openCondition cfg now i it)"
  unfolding openCondition_def Let_def by (intro ko.stays_rules keepsOpen_open ko.stays_unchanged) (simp add: chainReviewRepo_ListOpen_def)

text \<open>Resolving by identifier spares every condition with another trigger.\<close>

definition trigOf :: "ChainReviewCondition list \<Rightarrow> (string \<times> ChainReviewTrigger) list" where
  "trigOf rows = map (\<lambda>c. (cr_ConditionID c, cr_Trigger c)) rows"

lemma resolve_spares:
  assumes "\<forall>x \<in> set (t_chain_reviews s). cr_ConditionID x = i \<longrightarrow> cr_Trigger x \<noteq> trigger"
    and "chainReviewRepo_Resolve now i res at s = (r, t)"
  shows "keepsOpen chainID trigger s t \<and> trigOf (t_chain_reviews t) = trigOf (t_chain_reviews s)"
proof -
  let ?p = "\<lambda>c. cr_ConditionID c = i \<and> cr_ResolvedAt c = None"
  let ?f = "\<lambda>c. c\<lparr>cr_ResolvedAt := Some (fmtTime now at), cr_Resolution := res\<rparr>"
  have t: "t_chain_reviews t = map_where ?p ?f (t_chain_reviews s)"
    using assms(2) by (auto simp: chainReviewRepo_Resolve_def execUpdate_def bindE_def thenE_def chainReviewRepo_Get_def
        queryRow_def split: if_splits option.splits)
  have "openCond chainID trigger t" if opn: "openCond chainID trigger s"
  proof -
    obtain c where c: "c \<in> set (t_chain_reviews s)" "cr_ChainID c = chainID" "cr_Trigger c = trigger" "cr_ResolvedAt c = None"
      using opn by (auto simp: openCond_def)
    then have "\<not> ?p c" using assms(1) by auto
    then have "c \<in> set (t_chain_reviews t)" unfolding t map_where_def using c(1) by (auto simp: image_iff intro!: bexI [of _ c])
    then show ?thesis using c by (auto simp: openCond_def)
  qed
  moreover have "trigOf (t_chain_reviews t) = trigOf (t_chain_reviews s)"
    unfolding t by (simp add: trigOf_def map_where_def)
  ultimately show ?thesis by (simp add: keepsOpen_def)
qed

lemma resolveAll_spares:
  assumes "forE opn (\<lambda>c. if cr_Trigger c \<noteq> TriggerHeightDivergence \<and> cr_Trigger c \<noteq> TriggerQueryResultMismatch then ret ()
             else chainReviewRepo_Resolve now (cr_ConditionID c) res now) s = (r, t)"
    and "\<forall>c \<in> set opn. \<forall>x \<in> set (trigOf (t_chain_reviews s)). fst x = cr_ConditionID c \<longrightarrow> snd x = cr_Trigger c"
    and "trigger \<noteq> TriggerHeightDivergence" "trigger \<noteq> TriggerQueryResultMismatch"
  shows "keepsOpen chainID trigger s t"
  using assms(1,2)
proof (induction opn arbitrary: s)
  case Nil
  then show ?case by (simp add: ko.R_refl)
next
  case (Cons c opn)
  show ?case
  proof (cases "cr_Trigger c \<noteq> TriggerHeightDivergence \<and> cr_Trigger c \<noteq> TriggerQueryResultMismatch")
    case True
    then show ?thesis using Cons by (simp add: thenE_def bindE_def)
  next
    case False
    obtain r1 s1 where r1: "chainReviewRepo_Resolve now (cr_ConditionID c) res now s = (r1, s1)" by fastforce
    have "\<forall>x \<in> set (t_chain_reviews s). cr_ConditionID x = cr_ConditionID c \<longrightarrow> cr_Trigger x \<noteq> trigger"
      using Cons.prems(2) False assms(3,4) by (auto simp: trigOf_def)
    note sp = resolve_spares [OF this r1, of chainID]
    show ?thesis
    proof (cases r1)
      case (Inl e)
      then show ?thesis using Cons.prems(1) False r1 sp by (simp add: thenE_def bindE_def)
    next
      case (Inr u)
      then have "keepsOpen chainID trigger s1 t" using Cons.IH [of s1] Cons.prems False r1 sp by (simp add: thenE_def bindE_def)
      then show ?thesis using sp ko.R_trans by blast
    qed
  qed
qed

lemma autoResolve_spares:
  assumes "store_uniq s" "autoResolveTransient cfg now s = (r, t)"
    and "trigger \<noteq> TriggerHeightDivergence" "trigger \<noteq> TriggerQueryResultMismatch"
  shows "keepsOpen chainID trigger s t"
proof -
  obtain opn where opn: "chainReviewRepo_ListOpen (dc_ChainID cfg) s = (Inr opn, s)" by (simp add: chainReviewRepo_ListOpen_def)
  have "distinct (map cr_ConditionID (t_chain_reviews s))" using assms(1) by (simp add: store_uniq_def)
  then have "\<forall>c \<in> set opn. \<forall>x \<in> set (trigOf (t_chain_reviews s)). fst x = cr_ConditionID c \<longrightarrow> snd x = cr_Trigger c"
    using opn by (auto simp: listOpen_run trigOf_def distinct_map inj_on_def)
  then show ?thesis
    using resolveAll_spares [OF _ _ assms(3,4)] assms(2) opn unfolding autoResolveTransient_def by (simp add: bindE_def)
qed

section \<open>One check and a run of checks\<close>

lemma uniq_monitor: "stays uniq_rel (Check cfg cmp now newID k)"
  unfolding Check_def checkRequest_def openCondition_def autoResolveTransient_def Let_def
  by (intro uq.stays_rules uniq_ops uq.stays_unchanged) (simp_all add: reads_unchanged)

lemma checkRequest_run: "\<exists>req. checkRequest cfg s = (Inr req, s)"
  by (auto simp: checkRequest_def Let_def bindE_def tryE_def checkpointRepo_Get_def queryRow_def split: option.splits)

lemma Check_keeps:
  assumes "store_uniq s" "trigger \<noteq> TriggerHeightDivergence" "trigger \<noteq> TriggerQueryResultMismatch"
  shows "keepsOpen chainID trigger s (snd (Check cfg cmp now newID k s))"
proof -
  obtain req where req: "checkRequest cfg s = (Inr req, s)" using checkRequest_run by blast
  have "stays (keepsOpen chainID trigger) (forE (enumerate 0 (Mismatches res)) (\<lambda>(n, it). openCondition cfg now (newID n) it))" for res
    by (intro ko.stays_rules keepsOpen_openCondition)
  then have o: "keepsOpen chainID trigger s (snd (forE (enumerate 0 (Mismatches res)) (\<lambda>(n, it). openCondition cfg now (newID n) it) s))" for res
    by (simp add: stays_def)
  have a: "keepsOpen chainID trigger s (snd (autoResolveTransient cfg now s))"
    using autoResolve_spares [OF assms(1) _ assms(2,3)] by (metis prod.collapse)
  show ?thesis using o a ko.R_refl
    by (auto simp: Check_def req bindE_def tryE_run Let_def split: sum.split)
qed

text \<open>Checks one after the other, each with the comparer's answers, the time and the identifiers of that moment.\<close>

primrec checkRun :: "DisagreementConfig \<Rightarrow> ((CompareRequest \<Rightarrow> err + CompareResult) \<times> time \<times> (nat \<Rightarrow> string)) list
    \<Rightarrow> int \<Rightarrow> store \<Rightarrow> store" where
  "checkRun cfg [] k s = s"
| "checkRun cfg (c # cs) k s = (case Check cfg (fst c) (fst (snd c)) (snd (snd c)) k s of
     (Inl e, t) \<Rightarrow> checkRun cfg cs k t | (Inr (k', _), t) \<Rightarrow> checkRun cfg cs k' t)"

lemma checkRun_keeps:
  assumes "store_uniq s" "trigger \<noteq> TriggerHeightDivergence" "trigger \<noteq> TriggerQueryResultMismatch"
  shows "keepsOpen chainID trigger s (checkRun cfg cs k s)"
  using assms(1)
proof (induction cs arbitrary: k s)
  case (Cons c cs)
  obtain r t where run: "Check cfg (fst c) (fst (snd c)) (snd (snd c)) k s = (r, t)" by fastforce
  have "store_uniq t" using staysD [OF uniq_monitor run] Cons.prems by (simp add: uniq_rel_def)
  moreover have "keepsOpen chainID trigger s t" using Check_keeps [OF Cons.prems assms(2,3)] run by (metis snd_conv)
  ultimately show ?case using Cons.IH ko.R_trans run by (auto split: sum.split)
qed (simp add: ko.R_refl)

section \<open>The credit gate\<close>

lemma gate_closed:
  assumes "openCond (d_ChainID d) trigger t"
  shows "\<exists>gate. LoadCreditGate (d_ChainID d) t = (Inr gate, t) \<and> EvaluateCreditConditions d h n gate \<noteq> DecisionCredit"
    and "\<exists>e. CreditDeposit E now d t = (Inl e, t)"
proof -
  obtain gate where g: "LoadCreditGate (d_ChainID d) t = (Inr gate, t)" "cg_ChainReviewOpen gate"
    using assms by (auto simp: LoadCreditGate_run openCond_def)
  then show "\<exists>gate. LoadCreditGate (d_ChainID d) t = (Inr gate, t) \<and> EvaluateCreditConditions d h n gate \<noteq> DecisionCredit"
    by (auto simp: EvaluateCreditConditions_def)
  show "\<exists>e. CreditDeposit E now d t = (Inl e, t)"
    using g by (auto simp: CreditDeposit_def with_tx_def bindE_def split: option.split)
qed

lemma forE_reaches:
  assumes "forE xs f s = (Inr u, t)" "x \<in> set xs" "\<And>y s u t. f y s = (Inr u, t) \<Longrightarrow> P y t" "\<And>y. stays (\<lambda>s t. P x s \<longrightarrow> P x t) (f y)"
  shows "P x t"
  using assms(1,2)
proof (induction xs arbitrary: s)
  case (Cons a xs)
  then obtain u1 s1 where a: "f a s = (Inr u1, s1)" and rest: "forE xs f s1 = (Inr u, t)"
    by (auto simp: thenE_def bindE_def split: prod.splits sum.splits)
  show ?case
  proof (cases "x = a")
    case True
    then have "P x s1" using assms(3) a by blast
    then show ?thesis using staysD [OF step_rel.stays_forE [OF step_rel_inv assms(4)] rest] by blast
  next
    case False
    then show ?thesis using Cons.IH rest Cons.prems(2) by auto
  qed
qed simp

lemma Check_opens:
  assumes run: "Check cfg cmp now newID k s = (Inr (k', Inr res), t)" and it: "it \<in> set (Mismatches res)"
  shows "openCond (dc_ChainID cfg) (triggerFor (ci_Kind it)) t"
proof -
  let ?f = "\<lambda>(n, it). openCondition cfg now (newID n) it"
  let ?P = "\<lambda>(n :: nat, it). openCond (dc_ChainID cfg) (triggerFor (ci_Kind it))"
  obtain req where req: "checkRequest cfg s = (Inr req, s)" using checkRequest_run by blast
  have "\<not> AllMatch res" using it by (auto simp: AllMatch_iff)
  then have "forE (enumerate 0 (Mismatches res)) ?f s = (Inr (), t)"
    using run req by (auto simp: Check_def bindE_def tryE_run Let_def prod_eq_iff split: sum.splits if_splits prod.splits)
  moreover obtain n where n: "n < length (Mismatches res)" "Mismatches res ! n = it" using it by (auto simp: in_set_conv_nth)
  then have "(n, it) \<in> set (enumerate 0 (Mismatches res))" by (simp add: in_set_enumerate_eq)
  ultimately have "?P (n, it) t"
  proof (rule forE_reaches [where P = ?P])
    fix y s u t
    assume "?f y s = (Inr u, t)"
    then show "?P y t" using openCondition_ok by (cases y) auto
  next
    fix y
    show "stays (\<lambda>s t. ?P (n, it) s \<longrightarrow> ?P (n, it) t) (?f y)"
      using keepsOpen_openCondition unfolding keepsOpen_def by (cases y) simp
  qed
  then show ?thesis by simp
qed

section \<open>Properties\<close>

text \<open>
  C30.  A disagreement between the two nodes stops crediting at once: after a check
  that completed and found a mismatch, the credit gate of the chain is closed, no
  deposit of the chain is judged creditable whatever its height and depth, and an
  attempt to credit one fails and changes nothing.
\<close>

theorem disagreement_closes_gate:
  assumes "Check cfg cmp now newID k s = (Inr (k', Inr res), t)" "\<not> AllMatch res" "d_ChainID d = dc_ChainID cfg"
  shows "(\<exists>gate. LoadCreditGate (d_ChainID d) t = (Inr gate, t) \<and> EvaluateCreditConditions d h n gate \<noteq> DecisionCredit) \<and>
    (\<exists>e. CreditDeposit E now' d t = (Inl e, t))"
proof -
  obtain it where "it \<in> set (Mismatches res)" using assms(2) by (metis AllMatch_iff list.set_intros(1) neq_Nil_conv)
  then have "openCond (d_ChainID d) (triggerFor (ci_Kind it)) t" using Check_opens [OF assms(1)] assms(3) by simp
  then show ?thesis using gate_closed by blast
qed

definition ex_mon :: DisagreementConfig where
  "ex_mon = \<lparr>dc_ChainID = ''sovr-1'', dc_Interval = 1, dc_HeightTolerance = 5, dc_SequenceAddress = [], dc_BalanceAddress = [],
     dc_CompareHashAtCheckpoint = True\<rparr>"

definition ex_ahead :: client where
  "ex_ahead = ex_client (Inr \<lparr>ns_LatestHeight = 107, ns_CatchingUp = False\<rparr>) (Inr (ex_block 107 [2]))"

definition ex_errText :: "err \<Rightarrow> string" where "ex_errText e = ''error''"

definition checkedBad :: "(err + int \<times> (err + CompareResult)) \<times> store \<Rightarrow> bool" where
  "checkedBad r = (case fst r of Inr (_, Inr res) \<Rightarrow> \<not> AllMatch res | _ \<Rightarrow> False)"

lemma checkedBadE:
  assumes "checkedBad r"
  obtains k res t where "r = (Inr (k, Inr res), t)" "\<not> AllMatch res"
  using assms by (cases r) (auto simp: checkedBad_def split: sum.split_asm prod.split_asm, metis sum.exhaust)

theorem disagreement_closes_gate_witness:
  "\<exists>k res t. Check ex_mon (Compare ex_errText ex_up ex_ahead) 50 (\<lambda>_. ''c1'') 0 empty_store = (Inr (k, Inr res), t) \<and>
     \<not> AllMatch res \<and> (\<exists>e. CreditDeposit dx_enc 100 (dx_dep DepositCreditable None) t = (Inl e, t))"
proof -
  have "checkedBad (Check ex_mon (Compare ex_errText ex_up ex_ahead) 50 (\<lambda>_. ''c1'') 0 empty_store)" by code_simp
  then obtain k res t where run: "Check ex_mon (Compare ex_errText ex_up ex_ahead) 50 (\<lambda>_. ''c1'') 0 empty_store = (Inr (k, Inr res), t)"
    "\<not> AllMatch res" by (rule checkedBadE)
  have "d_ChainID (dx_dep DepositCreditable None) = dc_ChainID ex_mon" by (simp add: dx_dep_def ex_mon_def)
  with disagreement_closes_gate [OF run this, of 0 0 dx_enc 100] run show ?thesis by blast
qed

text \<open>
  C39.  A secondary node that lags within the configured height tolerance and does
  not serve the checkpoint block yet closes the credit gate until an operator
  intervenes: one completed pass of the monitor leaves a block-hash condition open,
  the condition is still open after any later passes, however many of them agree,
  and \<open>CreditDeposit\<close> then fails and changes nothing.  (A lagging node that still
  serves the checkpoint block with the same hash is not affected.)
\<close>

theorem lag_blocks_credit:
  assumes "store_uniq s" "dc_CompareHashAtCheckpoint cfg" "checkpointRepo_Get (dc_ChainID cfg) s = (Inr cp, s)"
    and "cp_LastFullyProcessedHeight cp > 0"
    and "cl_LatestBlock P = Inr pb" "cl_LatestBlock S = Inr sb" "heightsWithin (dc_HeightTolerance cfg) pb sb"
    and "cl_BlockByHeight S (cp_LastFullyProcessedHeight cp) = Inl e"
    and "Check cfg (Compare errText P S) now newID k s = (Inr (k', Inr res), t)" "d_ChainID d = dc_ChainID cfg"
  shows "openCond (dc_ChainID cfg) TriggerBlockHashMismatch t \<and>
    openCond (dc_ChainID cfg) TriggerBlockHashMismatch (checkRun cfg later k' t) \<and>
    (\<exists>x. CreditDeposit E now' d (checkRun cfg later k' t) = (Inl x, checkRun cfg later k' t))"
proof -
  obtain req where req: "checkRequest cfg s = (Inr req, s)" "cq_BlockHashAtHeight req = cp_LastFullyProcessedHeight cp"
    using assms(2-4) by (simp add: checkRequest_def Let_def bindE_def tryE_run)
  let ?it = "compareSides CompareBlockHash errText (\<lambda>b. hexUpper (bk_Hash b)) (\<lambda>a b. length (bk_Hash a) > 0 \<and> bk_Hash a = bk_Hash b)
      (cl_BlockByHeight P (cq_BlockHashAtHeight req)) (cl_BlockByHeight S (cq_BlockHashAtHeight req))"
  have "Compare errText P S req = Inr res"
    using assms(9) req(1) by (auto simp: Check_def bindE_def tryE_run Let_def split: sum.splits if_splits prod.splits)
  moreover have "cq_BlockHashAtHeight req \<noteq> 0" using req(2) assms(4) by auto
  ultimately have "?it \<in> set res" by (auto simp: Compare_def split: if_splits)
  moreover have "\<not> ci_Match ?it" "ci_Kind ?it = CompareBlockHash"
    using assms(8) req(2) by (simp_all add: compareSides_def split: sum.split)
  ultimately have first: "openCond (dc_ChainID cfg) TriggerBlockHashMismatch t"
    using Check_opens [OF assms(9), of ?it] by (simp add: Mismatches_def triggerFor_def)
  moreover have "store_uniq t" using staysD [OF uniq_monitor assms(9)] assms(1) by (simp add: uniq_rel_def)
  ultimately have still: "openCond (dc_ChainID cfg) TriggerBlockHashMismatch (checkRun cfg later k' t)"
    using checkRun_keeps [of t TriggerBlockHashMismatch "dc_ChainID cfg"] by (simp add: keepsOpen_def)
  have "\<exists>x. CreditDeposit E now' d (checkRun cfg later k' t) = (Inl x, checkRun cfg later k' t)"
    by (rule gate_closed(2)) (use still assms(10) in simp)
  then show ?thesis using first still by blast
qed

definition ex_lagging :: client where
  "ex_lagging = (ex_client (Inr \<lparr>ns_LatestHeight = 99, ns_CatchingUp = False\<rparr>) (Inr (ex_block 99 [3])))
     \<lparr>cl_BlockByHeight := (\<lambda>_. Inl ClientErrNotFound)\<rparr>"

definition ex_checked :: store where
  "ex_checked = empty_store\<lparr>t_checkpoints := [dx_checkpoint 100 5]\<rparr>"

theorem lag_blocks_credit_witness:
  "\<exists>k res t. Check ex_mon (Compare ex_errText ex_up ex_lagging) 50 (\<lambda>_. ''c1'') 0 ex_checked = (Inr (k, Inr res), t) \<and>
     (let u = checkRun ex_mon (replicate 3 (\<lambda>_. Inr [], 60, \<lambda>_. ''c2'')) k t in
      openCond ''sovr-1'' TriggerBlockHashMismatch u \<and>
      (\<exists>e. CreditDeposit dx_enc 100 (dx_dep DepositCreditable None) u = (Inl e, u)))"
proof -
  have "checkedBad (Check ex_mon (Compare ex_errText ex_up ex_lagging) 50 (\<lambda>_. ''c1'') 0 ex_checked)" by code_simp
  then obtain k res t where run: "Check ex_mon (Compare ex_errText ex_up ex_lagging) 50 (\<lambda>_. ''c1'') 0 ex_checked = (Inr (k, Inr res), t)"
    by (rule checkedBadE)
  have u: "store_uniq ex_checked"
    by (simp add: ex_checked_def empty_store_def store_uniq_def uniq_withdrawals_def uniq_sequences_def uniq_sweeps_def
        activeSweeps_def uniq_deposits_def uniq_ledger_def uniq_outbox_def)
  have cp: "checkpointRepo_Get (dc_ChainID ex_mon) ex_checked = (Inr (dx_checkpoint 100 5), ex_checked)"
    by (simp add: checkpointRepo_Get_def queryRow_def bindE_def ex_checked_def ex_mon_def dx_checkpoint_def)
  have w: "heightsWithin (dc_HeightTolerance ex_mon) (ex_block 100 [1]) (ex_block 99 [3])" by code_simp
  let ?u = "checkRun ex_mon (replicate 3 (\<lambda>_. Inr [], 60, \<lambda>_. ''c2'')) k t"
  have "openCond (dc_ChainID ex_mon) TriggerBlockHashMismatch t \<and> openCond (dc_ChainID ex_mon) TriggerBlockHashMismatch ?u \<and>
      (\<exists>x. CreditDeposit dx_enc 100 (dx_dep DepositCreditable None) ?u = (Inl x, ?u))"
    by (rule lag_blocks_credit [OF u _ cp _ _ _ w _ run])
       (simp_all add: ex_mon_def dx_checkpoint_def ex_up_def ex_client_def ex_lagging_def dx_dep_def)
  moreover have "dc_ChainID ex_mon = ''sovr-1''" by (simp add: ex_mon_def)
  ultimately show ?thesis using run by (auto simp: Let_def)
qed

end
