(* ===== verification/Store_Invariant.thy ===== *)
theory Store_Invariant
  imports System_Safety Reconcile_Business Monitor
begin

text \<open>
  The contract between the SQL store and everything above it, stated once.  No
  component writes a table except through a repository method, so a relation on
  stores that all methods of the contract keep is kept by every operation of
  every component.  The locale \<open>side_closed\<close> names the methods that write any table
  but the withdrawals; the client lemmas in it walk the operations of the
  sequence manager, the scanner, the sweep engine, the reconciler and the
  disagreement monitor, which use no other.  \<open>repo_closed\<close> adds the two methods that
  write withdrawals and walks the workflow, the broadcaster and the review queue.
\<close>

section \<open>Every table but the withdrawals\<close>

locale side_closed = step_rel R for R :: "store \<Rightarrow> store \<Rightarrow> bool" +
  assumes seq_reserve: "stays R (sequenceRepo_Reserve now res)"
    and seq_update: "stays R (sequenceRepo_UpdateStatus now i rfrom rto)"
    and sw_create: "stays R (sweepRepo_Create now j)"
    and sw_update: "stays R (sweepRepo_UpdateStatus now jk jfrom jto ju)"
    and dep_insert: "stays R (depositRepo_Insert now d)"
    and dep_update: "stays R (depositRepo_UpdateStatus now i dfrom dto du)"
    and cp_set: "stays R (checkpointRepo_Set now cp)"
    and review_open: "stays R (reviewRepo_Open now item)"
    and review_resolve: "stays R (reviewRepo_Resolve now i txt at)"
    and chain_open: "stays R (chainReviewRepo_Open now c)"
    and chain_resolve: "stays R (chainReviewRepo_Resolve now ck txt at)"
    and watch_upsert: "stays R (watchRepo_Upsert wa)"
    and watch_set: "stays R (watchRepo_SetActive ch a b)"
    and controls_apply: "stays R (controlsRepo_Apply now ch u actor reason)"
    and ledger_append: "stays R (ledgerRepo_Append now e)"
    and fee_append: "stays R (ledgerRepo_AppendFeeOutflow now f)"
    and spend_append: "stays R (ledgerRepo_AppendFeeFundingSpend now g)"
    and report_save: "stays R (reconRepo_SaveReport now rep)"
    and enqueue: "stays R (outboxRepo_Enqueue now ev)"
    and dispatch: "stays R (outboxRepo_MarkDispatched now i at)"
begin

lemma repo_reads:
  "stays R (withdrawalRepo_Get k)" "stays R (withdrawalRepo_GetByIdempotencyKey k)"
  "stays R (withdrawalRepo_ListByStatus c wst n)" "stays R (withdrawalRepo_SumCommittedBySource c a)"
  "stays R (sequenceRepo_GetByWorkRef ref)" "stays R (sequenceRepo_ListUnconsumed c a)"
  "stays R (sweepRepo_Get k)" "stays R (sweepRepo_GetByIdempotencyKey k)" "stays R (sweepRepo_GetActive c a)"
  "stays R (sweepRepo_ListByStatus c sst n)" "stays R (depositRepo_Get c h m i a)" "stays R (depositRepo_GetByID x)"
  "stays R (depositRepo_ListByStatus c dst n)" "stays R (checkpointRepo_Get c)" "stays R (reviewRepo_Get x)"
  "stays R (chainReviewRepo_HasOpen c)" "stays R (chainReviewRepo_ListOpen c)" "stays R (watchRepo_ListActive c)"
  "stays R (controlsRepo_Get c)" "stays R (ledgerRepo_List q)" "stays R (ledgerRepo_GetTxEntry c h m i)"
  "stays R (ledgerRepo_ListFeeOutflows c a lo hi)" "stays R (ledgerRepo_SumFeeFundingSpend c a lo hi)"
  "stays R (reconRepo_ListReports c rk n)"
  by (rule stays_unchanged, simp add: reads_unchanged)+

lemmas side_ops = repo_reads seq_reserve seq_update sw_create sw_update dep_insert dep_update
  cp_set review_open review_resolve chain_open chain_resolve watch_upsert watch_set controls_apply ledger_append
  fee_append spend_append report_save enqueue dispatch

lemma stays_list: "stays R m \<Longrightarrow> (\<And>b bs. stays R (f b bs)) \<Longrightarrow> stays R (case xs of [] \<Rightarrow> m | b # bs \<Rightarrow> f b bs)"
  by (simp split: list.split)

lemmas closed_rules = stays_rules stays_list side_ops

subsection \<open>Sequences\<close>

lemma closed_reserve: "stays R (Manager_Reserve now ch c a ref)"
  unfolding Manager_Reserve_def reserveNew_def reserveTx_def Let_def by (intro closed_rules)

lemma closed_reconcile: "stays R (Manager_ReconcileAccount now ch c a)"
proof -
  have "stays R (resolve ch r)" for r by (rule stays_unchanged) (simp add: resolve_run)
  then show ?thesis unfolding Manager_ReconcileAccount_def reconcileOne_def by (intro closed_rules)
qed

subsection \<open>Deposits\<close>

lemma closed_RecordBlock: "stays R (RecordBlock now bp pol)"
  unfolding RecordBlock_def recordTransfer_def recordFee_def recordUnattributed_def recordDeposit_def appendFresh_def
    openLedgerReview_def routeDeposit_def Let_def
  by (intro closed_rules)

lemma closed_creditPass: "stays R (creditPass E now cfg lt gate xs)"
proof (induction xs)
  case (Cons d xs)
  have "stays R (CreditDeposit E now d)"
    unfolding CreditDeposit_def LoadCreditGate_def by (intro closed_rules)
  then show ?case unfolding creditPass.simps
    by (auto intro!: stays_rules side_ops Cons split: CreditDecision.split)
qed (simp only: creditPass.simps, rule stays_ret)

lemma closed_processPending: "stays R (processPending E now cfg lt)"
  unfolding processPending_def LoadCreditGate_def resumeSuspended_def unpark_def confirmDeposit_def Let_def
  by (intro closed_rules closed_creditPass)

lemma closed_orphan:
  "stays R (openChainReviewOnce now cfg i tr a b)" "stays R (orphanFlow now cfg F i h e g)"
  "stays R (wrongChain now cfg i blk)"
  unfolding openChainReviewOnce_def orphanFlow_def wrongChain_def Let_def
  by (intro closed_rules)+

lemma closed_scanLoop: "stays R (scanLoop n K now cfg F i lt h e)"
proof (induction n arbitrary: h e)
  case (Suc n)
  show ?case unfolding scanLoop.simps fetchParse_def loadWatch_def
    by (intro closed_rules closed_orphan closed_RecordBlock Suc)
qed (simp add: stays_throw)

lemma closed_Cycle: "stays R (Cycle K E now cfg F i fb)"
  unfolding Cycle_def resolveCursor_def
  by (intro closed_rules closed_orphan closed_scanLoop closed_processPending)

lemma closed_RescanFrom: "stays R (RescanFrom now cfg h actor reason)"
  unfolding RescanFrom_def by (intro closed_rules)

subsection \<open>Sweeps\<close>

lemma closed_jobs:
  "stays R (deferJob now k)" "stays R (terminateJob now job)" "stays R (cancelJob now job)"
  "stays R (deferOrCancel now job)" "stays R (quarantineUnsigned now rsv)"
  unfolding deferOrCancel_def cancelJob_def deferJob_def terminateJob_def releaseUnsignedReservation_def
    quarantineUnsigned_def tolerateConflict_def
  by (intro closed_rules)+

lemma closed_planSources:
  assumes "\<And>rep source. stays R (one rep source)"
  shows "stays R (planSources one sources rep)"
proof (induction sources arbitrary: rep)
  case (Cons source sources)
  show ?case unfolding planSources.simps by (intro closed_rules assms Cons)
qed (simp only: planSources.simps, rule stays_ret)

lemma closed_createJob: "stays R (createJob L G now node sg source balance height ids)"
  unfolding createJob_def createJobTx_def coverDeposit_def Let_def by (intro closed_rules closed_jobs)

lemma closed_Plan: "stays R (Plan L G now node sg)"
proof -
  have "stays R (planSource L G now node sg h c p rep source)" for h c p rep source
    unfolding planSource_def custodySettle_def tolerateConflict_def by (intro closed_rules closed_createJob)
  from closed_planSources [OF this] show ?thesis
    unfolding Plan_def sweepableSources_def depositBacklog_def depositIDsByRecipient_def by (intro closed_rules)
qed

lemma closed_checkFunding: "stays R (checkFunding G now node job balance fee)"
proof -
  have "stays R (feeFundingCapExceeded G node fee)" by (rule stays_unchanged) (rule cap_unchanged)
  then show ?thesis unfolding checkFunding_def createFundingJob_def feeWallet_def Let_def
    by (intro closed_rules closed_jobs)
qed

lemma closed_Prepare: "stays R (Prepare L G now node sg k)"
  unfolding Prepare_def prepareReserved_def engine_sign_def engine_signWith_def engine_signTx_def
  by (intro closed_rules closed_jobs closed_checkFunding closed_reserve)

lemma closed_Revisit: "stays R (Revisit L G now node sg k)"
  unfolding Revisit_def replanStaleAmount_def by (intro closed_rules closed_jobs)

lemma closed_settle:
  "stays R (Engine_Broadcast G now node k)" "stays R (Engine_Confirm G now node k)" "stays R (Engine_Recover now node k)"
  unfolding Engine_Broadcast_def Engine_Confirm_def Engine_Recover_def engine_resolveUnknown_def rejectTx_def
    engine_acceptTx_def engine_quarantineReservation_def engine_advanceReservation_def engine_consumeReservation_def
    confirmTx_def failTx_def markDepositsSwept_def markSwept_def recordFeeFundingSpend_def tolerateConflict_def
  by (intro closed_rules)+

lemma closed_Pass: "stays R (Pass L G now node sg)"
proof -
  have "stays R (foldE (passStage G) stages errs)" if "\<forall>p \<in> set stages. \<forall>i. stays R (snd p i)" for stages errs
    using that
  proof (induction stages arbitrary: errs)
    case (Cons p stages)
    then have "stays R (passStage G errs p)" unfolding passStage_def passJob_def by (intro closed_rules) auto
    then show ?case using Cons unfolding foldE.simps by (intro stays_bindE) auto
  qed (simp only: foldE.simps, rule stays_ret)
  moreover have "\<forall>p \<in> set (passSteps L G now node sg). \<forall>i. stays R (snd p i)"
    unfolding passSteps_def
    by (auto intro: closed_Prepare closed_settle stays_thenE closed_Revisit stays_ret)
  ultimately have all: "stays R (foldE (passStage G) (passSteps L G now node sg) errs)" for errs by blast
  show ?thesis unfolding Pass_def by (intro all closed_rules closed_Plan)
qed

subsection \<open>Reconciliation and the monitor\<close>

lemma closed_pageLoop: "(\<And>b e. stays R (fn b e)) \<Longrightarrow> stays R (pageLoop n c a fn i acc)"
proof (induction n arbitrary: i acc)
  case (Suc n)
  show ?case unfolding pageLoop.simps ledgerPage_def by (intro closed_rules Suc)
qed (simp add: stays_throw)

lemma closed_walk: "(\<And>b e. stays R (fn b e)) \<Longrightarrow> stays R (walkFrom c a fn i acc)"
  unfolding walkFrom_def by (intro closed_rules closed_pageLoop)

lemma closed_finish: "stays R (finishReport cfg now i kind entries)"
  unfolding finishReport_def periodStart_def Let_def by (intro closed_rules)

lemma closed_tx: "stays R (ReconcileTx K cfg chain now i h kind)"
  unfolding ReconcileTx_def checkTransfer_def checkFee_def Let_def by (intro closed_rules closed_finish)

lemma closed_address: "stays R (ReconcileAddress cfg chain a)"
  unfolding ReconcileAddress_def ExpectedBalance_def walkLedger_def Let_def by (intro closed_rules closed_walk)

lemma closed_reports:
  "stays R (Run cfg chain now i kind)" "stays R (ReconcileAddressReport cfg chain now i a)"
  unfolding Run_def ReconcileAddressReport_def by (intro closed_rules closed_address closed_finish)+

lemma closed_nrt: "stays R (NearRealTimePass K cfg chain now newID cursors)"
proof -
  have "stays R (nrtWalk K cfg chain now newID ws seen cursors)" for ws seen cursors
  proof (induction ws arbitrary: seen cursors)
    case (Cons w ws)
    show ?case unfolding nrtWalk.simps nrtEntry_def by (intro closed_rules closed_walk closed_tx Cons)
  qed (simp only: nrtWalk.simps, rule stays_ret)
  then show ?thesis unfolding NearRealTimePass_def by (intro closed_rules)
qed

lemma closed_monitor: "stays R (Check cfg cmp now newID k)"
  unfolding Check_def checkRequest_def openCondition_def autoResolveTransient_def Let_def
  by (intro closed_rules)

end

section \<open>With the withdrawals\<close>

locale repo_closed = side_closed +
  assumes wd_create: "stays R (withdrawalRepo_Create now w)"
    and wd_update: "stays R (withdrawalRepo_UpdateStatus now wk wfrom wto wu)"
begin

lemma stays_orReturn: "stays R m \<Longrightarrow> (\<And>a. stays R (k a)) \<Longrightarrow> stays R (orReturn o1 m k)"
  unfolding orReturn_def by (intro stays_rules)

lemma stays_gas: "(\<And>e. stays R (f e)) \<Longrightarrow> (\<And>q. stays R (g q)) \<Longrightarrow> (\<And>a b. stays R (h a b)) \<Longrightarrow>
   stays R (case z of GasError e \<Rightarrow> f e | GasQuarantine q \<Rightarrow> g q | GasOk a b \<Rightarrow> h a b)"
  by (simp split: gasOutcome.split)

lemmas wd_rules = closed_rules stays_orReturn stays_gas wd_create wd_update

lemma closed_workflow:
  "stays R (Submit L now W req)" "stays R (ValidateAddress L now W k)" "stays R (ApproveCompliance now k)"
  "stays R (ReserveFunds now W node k)" "stays R (ReserveSequence now W node k)" "stays R (Build L now W k)"
  "stays R (Simulate L now W node sg k)" "stays R (Sign L now W sg k)" "stays R (Cancel now k)"
  unfolding Submit_def ValidateAddress_def ApproveCompliance_def ReserveFunds_def ReserveSequence_def Build_def
    Simulate_def Sign_def signWith_def signTx_def Cancel_def quarantine_def quarantinePostSignature_def Let_def
  by (intro wd_rules closed_reserve)+

lemma closed_broadcast:
  "stays R (BroadcastWd now node k)" "stays R (Confirm now W node k)" "stays R (Recover now node k)"
  unfolding BroadcastWd_def Confirm_def Recover_def resolveUnknownAfterBroadcast_def reviewTx_def acceptTx_def
    includeTx_def confirmIncluded_def confirmMissing_def advanceReservation_def consumeReservation_def
    quarantineReservation_def quarantine_def
  by (intro wd_rules)+

lemma closed_review: "stays R (resolveReviewItem now i o1 nt at)"
proof -
  have "stays R (resolveWithdrawalReview now k o1)" for k
    unfolding resolveWithdrawalReview_def disposeReservation_def by (intro wd_rules)
  moreover have "stays R (resolveDepositReview now k o1)" for k
    unfolding resolveDepositReview_def
    by (cases o1; cases "ParseInt64 k"; simp only: option.case reviewOutcome.case; intro wd_rules)
  ultimately have "stays R (case kind of ReviewKindWithdrawal \<Rightarrow> resolveWithdrawalReview now k o1
        | ReviewKindDeposit \<Rightarrow> resolveDepositReview now k o1 | ReviewKindLedgerEntry \<Rightarrow> ret ()
        | ReviewItemKindOther x \<Rightarrow> throw ErrInvalidRecord)" for kind k
    by (auto intro: stays_ret stays_throw split: ReviewItemKind.split)
  then show ?thesis unfolding resolveReviewItem_def by (intro wd_rules)
qed

lemma closed_wop: "wop L s t \<Longrightarrow> R s t"
  by (erule wop.cases) (blast intro: staysD closed_workflow closed_broadcast closed_review closed_reconcile)+

end

end
