(* ===== verification/Schema.thy ===== *)
theory Schema
  imports Store_Invariant
begin

text \<open>
  The \<open>CHECK\<close> constraints of the migrations and the fields the Go layer requires,
  as a predicate on every row of every table.  The inserts and updates of
  \<open>Sqlstore\<close> do not evaluate the constraints: every method validates its record
  before the statement, and what follows shows that this is enough, that is, no
  statement of any operation can fail on a \<open>CHECK\<close>.
\<close>

section \<open>The constraints\<close>

text \<open>One predicate per table: the \<open>CHECK\<close> clauses of \<open>0001_init.sql\<close> and \<open>0002_fee_funding_spends.sql\<close>.\<close>

definition check_ledger_entries :: "LedgerEntry \<Rightarrow> bool" where
  "check_ledger_entries e \<longleftrightarrow> enumValid (le_Kind e) AllLedgerEntryKinds \<and> enumValid (le_Direction e) AllLedgerDirections
     \<and> 0 \<le> le_AmountBaseUnits e \<and> enumValid (le_Classification e) AllClassifications
     \<and> ((le_Kind e = LedgerKindTx \<and> le_TxHash e \<noteq> []) \<or> (le_Kind e = LedgerKindBlockEvent \<and> le_TxHash e = []))"

definition check_fee_outflows :: "FeeOutflow \<Rightarrow> bool" where
  "check_fee_outflows f \<longleftrightarrow> 0 \<le> fo_FeeBaseUnits f"

definition check_fee_funding_spends :: "FeeFundingSpend \<Rightarrow> bool" where
  "check_fee_funding_spends f \<longleftrightarrow> 0 \<le> fs_AmountBaseUnits f"

definition check_deposits :: "DepositRecord \<Rightarrow> bool" where
  "check_deposits d \<longleftrightarrow> d_Denom d = BaseDenom \<and> 0 < d_AmountBaseUnits d \<and> enumValid (d_Status d) AllDepositStatuses
     \<and> (d_Status d = DepositSuspended) = (d_PriorStatus d \<noteq> None)"

definition check_withdrawals :: "WithdrawalRecord \<Rightarrow> bool" where
  "check_withdrawals w \<longleftrightarrow> w_Denom w = BaseDenom \<and> 0 < w_AmountBaseUnits w
     \<and> (case w_FeeAmountBaseUnits w of None \<Rightarrow> True | Some fee \<Rightarrow> 0 \<le> fee)
     \<and> w_SignMode w = SignModeDirect \<and> enumValid (w_Status w) AllWithdrawalStatuses"

definition check_sequence_reservations :: "SequenceReservation \<Rightarrow> bool" where
  "check_sequence_reservations r \<longleftrightarrow> enumValid (wr_Kind (r_WorkRef r)) AllWorkKinds
     \<and> enumValid (r_Status r) AllSequenceReservationStatuses"

definition check_sweep_jobs :: "SweepJob \<Rightarrow> bool" where
  "check_sweep_jobs j \<longleftrightarrow> enumValid (j_Strategy j) AllSweepStrategies \<and> 0 \<le> j_AmountBaseUnits j
     \<and> 0 \<le> j_FeeReserveBaseUnits j \<and> enumValid (j_Status j) AllSweepStatuses"

definition check_watched_addresses :: "WatchedAddress \<Rightarrow> bool" where
  "check_watched_addresses w \<longleftrightarrow> enumValid (wa_Kind w) AllWatchedAddressKinds"

definition check_chain_review_conditions :: "ChainReviewCondition \<Rightarrow> bool" where
  "check_chain_review_conditions c \<longleftrightarrow> enumValid (cr_Trigger c) AllChainReviewTriggers"

definition check_review_items :: "ReviewItem \<Rightarrow> bool" where
  "check_review_items i \<longleftrightarrow> enumValid (ri_Kind i) AllReviewItemKinds"

definition check_reconciliation_reports :: "ReconciliationReport \<Rightarrow> bool" where
  "check_reconciliation_reports r \<longleftrightarrow> enumValid (rr_Kind r) AllReconciliationKinds"

definition schema_checks :: "store \<Rightarrow> bool" where
  "schema_checks s \<longleftrightarrow>
     list_all check_ledger_entries (t_ledger s) \<and> list_all check_fee_outflows (t_fee_outflows s)
     \<and> list_all check_fee_funding_spends (t_fee_spends s) \<and> list_all check_deposits (t_deposits s)
     \<and> list_all check_withdrawals (t_withdrawals s) \<and> list_all check_sequence_reservations (t_sequences s)
     \<and> list_all check_sweep_jobs (t_sweeps s) \<and> list_all check_watched_addresses (t_watched s)
     \<and> list_all check_chain_review_conditions (t_chain_reviews s) \<and> list_all check_review_items (t_reviews s)
     \<and> list_all check_reconciliation_reports (t_reports s)"

text \<open>
  What the Go layer requires beyond the schema: the identifying fields are not
  empty, a suspended deposit remembers a real status, and a stored report holds
  no negative balance.
\<close>

definition entryOk :: "ReconciliationEntry \<Rightarrow> bool" where
  "entryOk e \<longleftrightarrow> 0 \<le> re_ExpectedBaseUnits e \<and> 0 \<le> re_ObservedBaseUnits e"

definition fields_required :: "store \<Rightarrow> bool" where
  "fields_required s \<longleftrightarrow>
     list_all (\<lambda>e. le_ChainID e \<noteq> [] \<and> le_Address e \<noteq> [] \<and> le_Denom e \<noteq> []) (t_ledger s)
     \<and> list_all (\<lambda>f. fo_ChainID f \<noteq> [] \<and> fo_TxHash f \<noteq> [] \<and> fo_PayerAddress f \<noteq> []) (t_fee_outflows s)
     \<and> list_all (\<lambda>f. fs_ChainID f \<noteq> [] \<and> fs_TxHash f \<noteq> [] \<and> fs_FeeWalletAddress f \<noteq> []) (t_fee_spends s)
     \<and> list_all (\<lambda>d. d_ChainID d \<noteq> [] \<and> d_TxHash d \<noteq> [] \<and> d_RecipientAddress d \<noteq> []
         \<and> (case d_PriorStatus d of None \<Rightarrow> True | Some p \<Rightarrow> enumValid p AllDepositStatuses)) (t_deposits s)
     \<and> list_all (\<lambda>w. w_WithdrawalID w \<noteq> [] \<and> w_IdempotencyKey w \<noteq> [] \<and> w_ChainID w \<noteq> []
         \<and> w_SourceAddress w \<noteq> [] \<and> w_DestinationAddress w \<noteq> []) (t_withdrawals s)
     \<and> list_all (\<lambda>r. r_ChainID r \<noteq> [] \<and> r_SourceAddress r \<noteq> [] \<and> wr_ID (r_WorkRef r) \<noteq> []) (t_sequences s)
     \<and> list_all (\<lambda>j. j_SweepID j \<noteq> [] \<and> j_IdempotencyKey j \<noteq> [] \<and> j_ChainID j \<noteq> []
         \<and> j_SourceAddress j \<noteq> [] \<and> j_HotWalletAddress j \<noteq> []) (t_sweeps s)
     \<and> list_all (\<lambda>c. cp_ChainID c \<noteq> []) (t_checkpoints s)
     \<and> list_all (\<lambda>w. wa_ChainID w \<noteq> [] \<and> wa_Address w \<noteq> []) (t_watched s)
     \<and> list_all (\<lambda>c. oc_ChainID c \<noteq> []) (t_controls s)
     \<and> list_all (\<lambda>c. cr_ConditionID c \<noteq> [] \<and> cr_ChainID c \<noteq> []) (t_chain_reviews s)
     \<and> list_all (\<lambda>i. ri_ChainID i \<noteq> [] \<and> ri_RefID i \<noteq> []) (t_reviews s)
     \<and> list_all (\<lambda>r. rr_ReportID r \<noteq> [] \<and> rr_ChainID r \<noteq> [] \<and> list_all entryOk (rr_Entries r)) (t_reports s)
     \<and> list_all (\<lambda>e. ob_ChainID e \<noteq> [] \<and> ob_Topic e \<noteq> []) (t_outbox s)"

definition store_typed :: "store \<Rightarrow> bool" where
  "store_typed s \<longleftrightarrow> schema_checks s \<and> fields_required s"

definition typed_rel :: "store \<Rightarrow> store \<Rightarrow> bool" where
  "typed_rel s t \<longleftrightarrow> (store_typed s \<longrightarrow> store_typed t)"

lemmas typed_defs = typed_rel_def store_typed_def schema_checks_def fields_required_def

lemmas check_defs = check_ledger_entries_def check_fee_outflows_def check_fee_funding_spends_def check_deposits_def
  check_withdrawals_def check_sequence_reservations_def check_sweep_jobs_def check_watched_addresses_def
  check_chain_review_conditions_def check_review_items_def check_reconciliation_reports_def

interpretation td: step_rel typed_rel
  by unfold_locales (auto simp: typed_rel_def)

section \<open>Every method keeps them\<close>

lemma typed_refl: "typed_rel s s"
  by (simp add: typed_rel_def)

lemma list_all_map_where:
  "list_all P rows \<Longrightarrow> (\<And>r. P r \<Longrightarrow> p r \<Longrightarrow> P (f r)) \<Longrightarrow> list_all P (map_where p f rows)"
  by (auto simp: list_all_iff elim!: map_where_inE split: if_splits)

lemma list_all_upsert:
  "list_all P rows \<Longrightarrow> P v \<Longrightarrow> list_all P (if b then map_where p (\<lambda>_. v) rows else rows @ [v])"
  by (simp add: list_all_map_where)

lemma typed_wd_update: "stays typed_rel (withdrawalRepo_UpdateStatus now k from to u)"
proof (rule stays_cases)
  fix s s' and a :: unit
  assume ok: "withdrawalRepo_UpdateStatus now k from to u s = (Inr a, s')"
  then have "enumValid to AllWithdrawalStatuses" "feeTextOk u" using wd_tab.closed by (auto simp: wd_update_ok_iff)
  then have "check_withdrawals w \<Longrightarrow> check_withdrawals (applyWithdrawalUpdate now to u w)" for w
    by (cases "wu_FeeAmountBaseUnits u") (auto simp: check_withdrawals_def feeTextOk_def applyWithdrawalUpdate_def)
  then show "typed_rel s s'" using ok by (auto simp: typed_defs wd_update_ok_iff intro!: list_all_map_where)
qed (use wd_update_err typed_refl in blast)

lemma typed_seq_update: "stays typed_rel (sequenceRepo_UpdateStatus now k from to)"
proof (rule stays_cases)
  fix s s' and a :: unit
  assume ok: "sequenceRepo_UpdateStatus now k from to s = (Inr a, s')"
  then have "enumValid to AllSequenceReservationStatuses" using seq_tab.closed by (auto simp: seq_update_ok_iff)
  then show "typed_rel s s'" using ok
    by (auto simp: typed_defs seq_update_ok_iff check_sequence_reservations_def intro!: list_all_map_where)
qed (use seq_update_err typed_refl in blast)

lemma typed_sw_update: "stays typed_rel (sweepRepo_UpdateStatus now k from to u)"
proof (rule stays_cases)
  fix s s' and a :: unit
  assume ok: "sweepRepo_UpdateStatus now k from to u s = (Inr a, s')"
  then have "enumValid to AllSweepStatuses" using sw_tab.closed by (auto simp: sw_update_ok_iff)
  then show "typed_rel s s'" using ok
    by (auto simp: typed_defs sw_update_ok_iff check_sweep_jobs_def applySweepUpdate_def intro!: list_all_map_where)
qed (use sw_update_err typed_refl in blast)

lemma typed_dep_update: "stays typed_rel (depositRepo_UpdateStatus now k from to u)"
proof (rule stays_cases)
  fix s s' and a :: unit
  assume ok: "depositRepo_UpdateStatus now k from to u s = (Inr a, s')"
  then have "enumValid to AllDepositStatuses" "enumValid from AllDepositStatuses"
    using dep_tab.closed by (auto simp: dep_update_ok_iff)
  then show "typed_rel s s'" using ok
    by (auto simp: typed_defs dep_update_ok_iff check_deposits_def applyDepositUpdate_def intro!: list_all_map_where)
qed (use dep_update_err typed_refl in blast)


lemma stays_run: "(\<And>s x t. m s = (x, t) \<Longrightarrow> R s t) \<Longrightarrow> stays R m"
  by (metis prod.collapse stays_def)

lemma typed_wd_create: "stays typed_rel (withdrawalRepo_Create now w)"
  by (rule stays_run, unfold withdrawalRepo_Create_def)
     (auto simp: run_defs Let_def typed_defs check_withdrawals_def amountText_cases amountPtrText_def
       split: if_splits option.splits)

lemma typed_seq_reserve: "stays typed_rel (sequenceRepo_Reserve now r)"
  by (rule stays_run, unfold sequenceRepo_Reserve_def)
     (auto simp: run_defs Let_def typed_defs check_sequence_reservations_def AllSequenceReservationStatuses_def
       split: if_splits option.splits intro!: list_all_map_where)

lemma typed_sw_create: "stays typed_rel (sweepRepo_Create now j)"
  by (rule stays_run, unfold sweepRepo_Create_def)
     (auto simp: run_defs Let_def typed_defs check_sweep_jobs_def AllSweepStatuses_def amountText_cases split: if_splits)

lemma typed_dep_insert: "stays typed_rel (depositRepo_Insert now d)"
  by (rule stays_run, unfold depositRepo_Insert_def)
     (auto simp: run_defs Let_def typed_defs check_deposits_def amountText_cases split: if_splits option.splits)

lemma typed_checkpoint: "stays typed_rel (checkpointRepo_Set now cp)"
  unfolding checkpointRepo_Set_def Let_def
  by (intro td.stays_rules stays_modify) (auto simp: typed_defs intro!: list_all_upsert split del: if_split)

lemma typed_review:
  "stays typed_rel (reviewRepo_Open now item)" "stays typed_rel (reviewRepo_Resolve now i txt at)"
proof -
  show "stays typed_rel (reviewRepo_Open now item)"
    by (rule stays_run, unfold reviewRepo_Open_def)
       (auto simp: run_defs Let_def typed_defs check_review_items_def split: if_splits)
  show "stays typed_rel (reviewRepo_Resolve now i txt at)"
    unfolding reviewRepo_Resolve_def
    by (intro td.stays_rules stays_execUpdate td.stays_unchanged)
       (auto simp: typed_defs check_review_items_def reads_unchanged intro!: list_all_map_where)
qed

lemma typed_chain_review:
  "stays typed_rel (chainReviewRepo_Open now c)" "stays typed_rel (chainReviewRepo_Resolve now k txt at)"
proof -
  show "stays typed_rel (chainReviewRepo_Open now c)"
    unfolding chainReviewRepo_Open_def Let_def
    by (intro td.stays_rules stays_insertRow typed_refl) (auto simp: typed_defs check_chain_review_conditions_def)
  show "stays typed_rel (chainReviewRepo_Resolve now k txt at)"
    unfolding chainReviewRepo_Resolve_def
    by (intro td.stays_rules stays_execUpdate td.stays_unchanged)
       (auto simp: typed_defs check_chain_review_conditions_def reads_unchanged intro!: list_all_map_where)
qed

lemma typed_watch:
  "stays typed_rel (watchRepo_Upsert w)" "stays typed_rel (watchRepo_SetActive c a b)"
proof -
  show "stays typed_rel (watchRepo_Upsert w)"
    unfolding watchRepo_Upsert_def
    by (intro td.stays_rules stays_modify)
       (auto simp: typed_defs check_watched_addresses_def intro!: list_all_upsert split del: if_split)
  show "stays typed_rel (watchRepo_SetActive c a b)"
    unfolding watchRepo_SetActive_def
    by (intro td.stays_rules stays_execUpdate)
       (auto simp: typed_defs check_watched_addresses_def intro!: list_all_map_where)
qed

lemma typed_controls: "stays typed_rel (controlsRepo_Apply now c u actor reason)"
proof -
  have "stays typed_rel (insertAudit now c actor reason x)" for x
    by (auto simp: stays_def insertAudit_def nextID_def typed_defs)
  then show ?thesis unfolding controlsRepo_Apply_def Let_def
    by (intro td.stays_rules stays_modify)
       (auto simp: typed_defs reads_unchanged intro!: td.stays_unchanged list_all_upsert split del: if_split)
qed

lemma typed_ledger:
  "stays typed_rel (ledgerRepo_Append now e)" "stays typed_rel (ledgerRepo_AppendFeeOutflow now f)"
  "stays typed_rel (ledgerRepo_AppendFeeFundingSpend now g)"
proof -
  show "stays typed_rel (ledgerRepo_Append now e)"
    by (rule stays_run, unfold ledgerRepo_Append_def)
       (auto simp: run_defs Let_def typed_defs check_ledger_entries_def amountText_cases AllLedgerEntryKinds_def
         split: if_splits)
  show "stays typed_rel (ledgerRepo_AppendFeeOutflow now f)"
    by (rule stays_run, unfold ledgerRepo_AppendFeeOutflow_def)
       (auto simp: run_defs Let_def typed_defs check_fee_outflows_def amountText_cases split: if_splits)
  show "stays typed_rel (ledgerRepo_AppendFeeFundingSpend now g)"
    by (rule stays_run, unfold ledgerRepo_AppendFeeFundingSpend_def)
       (auto simp: run_defs Let_def typed_defs check_fee_funding_spends_def amountText_cases split: if_splits)
qed

lemma typed_report: "stays typed_rel (reconRepo_SaveReport now rep)"
proof -
  have "stays typed_rel (saveEntry i e)" for i e
    by (rule stays_run, unfold saveEntry_def)
       (auto simp: run_defs typed_defs check_reconciliation_reports_def entryOk_def amountText_cases
         split: if_splits intro!: list_all_map_where)
  then show ?thesis unfolding reconRepo_SaveReport_def
    by (intro td.stays_rules stays_insertRow typed_refl) (auto simp: typed_defs check_reconciliation_reports_def)
qed

lemma typed_outbox:
  "stays typed_rel (outboxRepo_Enqueue now ev)" "stays typed_rel (outboxRepo_MarkDispatched now i at)"
proof -
  show "stays typed_rel (outboxRepo_Enqueue now ev)"
    by (rule stays_run, unfold outboxRepo_Enqueue_def) (auto simp: run_defs Let_def typed_defs split: if_splits)
  show "stays typed_rel (outboxRepo_MarkDispatched now i at)"
    unfolding outboxRepo_MarkDispatched_def
    by (intro td.stays_rules stays_execUpdate) (auto simp: typed_defs intro!: list_all_map_where)
qed

interpretation tc: repo_closed typed_rel
  by unfold_locales (fact typed_wd_create typed_wd_update typed_seq_reserve typed_seq_update typed_sw_create
    typed_sw_update typed_dep_insert typed_dep_update typed_checkpoint typed_review typed_chain_review typed_watch
    typed_controls typed_ledger typed_report typed_outbox)+

interpretation uc: repo_closed uniq_rel
  by unfold_locales (fact uniq_ops)+

end
