(* ===== verification/Services.thy ===== *)
theory Services
  imports Sweeps_Steps Review_Resolution Reconcile_Business Monitor
begin

text \<open>
  The service loops of \<open>go/cmd/sovren-adapter\<close>: the withdrawals service
  (\<open>withdrawals_service.go\<close>: source discovery, startup reconciliation and the
  drive pass) and the sweeper service (\<open>sweeper_service.go\<close>).  The tickers, the
  signer transports and the log lines are left out; what a pass would log as a
  warning is its result.  Each call of a pass has a clock reading, a node and a
  signer of its own.
\<close>

section \<open>Source discovery\<close>

definition sourceReconcilePageSize :: int where "sourceReconcilePageSize = 500"

text \<open>
  \<open>paginateAll\<close> with what its \<open>fetch\<close> closure accumulates.  Every round that goes on
  has seen at least \<open>limit\<close> rows and asks for 500 more, so one round per row of the
  table and one more are enough.
\<close>

primrec paginateAll :: "nat \<Rightarrow> int \<Rightarrow> (int \<Rightarrow> 'b \<Rightarrow> (store, nat \<times> 'b) prog) \<Rightarrow> 'b \<Rightarrow> (store, 'b) prog" where
  "paginateAll 0 limit fetch b = throw (ErrOther ''the loop does not end'')"
| "paginateAll (Suc n) limit fetch b =
     bindE (fetch limit b) (\<lambda>(count, b').
     if int count < limit then ret b' else paginateAll n (limit + sourceReconcilePageSize) fetch b')"

definition addSource :: "string list \<Rightarrow> string \<Rightarrow> string list" where
  "addSource out addr = (if addr \<noteq> [] \<and> addr \<notin> set out then out @ [addr] else out)"

definition withdrawalDiscoveryStatuses :: "WithdrawalStatus list" where
  "withdrawalDiscoveryStatuses = [WithdrawalSequenceReserved, WithdrawalTransactionBuilt,
     WithdrawalTransactionSimulated, WithdrawalSigned, WithdrawalBroadcast, WithdrawalReviewRequired]"

definition withdrawalSources :: "string \<Rightarrow> string list \<Rightarrow> WithdrawalStatus \<Rightarrow> (store, string list) prog" where
  "withdrawalSources chainID out status =
     bindE (gets (\<lambda>s. Suc (length (t_withdrawals s)))) (\<lambda>n.
     paginateAll n sourceReconcilePageSize (\<lambda>limit out.
       bindE (withdrawalRepo_ListByStatus chainID status limit) (\<lambda>recs.
       ret (length recs, foldl (\<lambda>o1 r. addSource o1 (w_SourceAddress r)) out recs))) out)"

definition withdrawalsSourceAddresses :: "string \<Rightarrow> (store, string list) prog" where
  "withdrawalsSourceAddresses chainID =
     bindE (watchRepo_ListActive chainID) (\<lambda>watched.
     foldE (withdrawalSources chainID) withdrawalDiscoveryStatuses
       (foldl (\<lambda>o1 w. if wa_Kind w = WatchHotWallet then addSource o1 (wa_Address w) else o1) [] watched))"

definition sweepDiscoveryStatuses :: "SweepStatus list" where
  "sweepDiscoveryStatuses = [SweepPending, SweepBuilt, SweepSigned, SweepBroadcast, SweepDeferred]"

definition sweepSources :: "string \<Rightarrow> string list \<Rightarrow> SweepStatus \<Rightarrow> (store, string list) prog" where
  "sweepSources chainID out status =
     bindE (gets (\<lambda>s. Suc (length (t_sweeps s)))) (\<lambda>n.
     paginateAll n sourceReconcilePageSize (\<lambda>limit out.
       bindE (sweepRepo_ListByStatus chainID status limit) (\<lambda>jobs.
       ret (length jobs, foldl (\<lambda>o1 j. addSource o1 (j_SourceAddress j)) out jobs))) out)"

definition sweeperSourceAddresses :: "string \<Rightarrow> (store, string list) prog" where
  "sweeperSourceAddresses chainID =
     bindE (foldE (sweepSources chainID) sweepDiscoveryStatuses []) (\<lambda>out.
     bindE (watchRepo_ListActive chainID) (\<lambda>watched.
     ret (foldl (\<lambda>o1 w. if wa_Kind w = WatchFeeWallet then addSource o1 (wa_Address w) else o1) out watched)))"

section \<open>Startup reconciliation\<close>

text \<open>The clock and the node are those of the source's turn; any error refuses the start.\<close>

definition startupReconcile :: "(string \<Rightarrow> time) \<Rightarrow> (string \<Rightarrow> chain) \<Rightarrow> string \<Rightarrow> string list \<Rightarrow> (store, unit) prog" where
  "startupReconcile now node chainID sources =
     forE sources (\<lambda>source. thenE (Manager_ReconcileAccount (now source) (node source) chainID source) (ret ()))"

definition withdrawalsStartup :: "(string \<Rightarrow> time) \<Rightarrow> (string \<Rightarrow> chain) \<Rightarrow> string \<Rightarrow> (store, unit) prog" where
  "withdrawalsStartup now node chainID =
     bindE (withdrawalsSourceAddresses chainID) (startupReconcile now node chainID)"

definition sweeperStartup :: "(string \<Rightarrow> time) \<Rightarrow> (string \<Rightarrow> chain) \<Rightarrow> string \<Rightarrow> (store, unit) prog" where
  "sweeperStartup now node chainID =
     bindE (sweeperSourceAddresses chainID) (startupReconcile now node chainID)"

section \<open>The drive pass\<close>

definition isWithdrawalHold :: "err \<Rightarrow> bool" where
  "isWithdrawalHold e \<longleftrightarrow> e \<in> {ErrPaused, ErrAwaitingCompliance, ErrSimulationUnavailable, ErrSignerUnavailable,
     ErrQuarantined, ErrStatusConflict}"

text \<open>\<open>_, err := wf.Broadcast(ctx, id); return err\<close>\<close>

definition errorOf :: "outcome_prog \<Rightarrow> (store, unit) prog" where
  "errorOf m = bindE m (\<lambda>(_, e). case e of None \<Rightarrow> ret () | Some x \<Rightarrow> throw x)"

record driveEnv =
  dv_now :: time
  dv_node :: chain
  dv_signer :: signer

definition driveSteps ::
    "lib \<Rightarrow> workflow \<Rightarrow> (WithdrawalStatus \<Rightarrow> string \<Rightarrow> driveEnv) \<Rightarrow> (WithdrawalStatus \<times> (string \<Rightarrow> (store, unit) prog)) list" where
  "driveSteps L W V =
     (let at = (\<lambda>st f. (st, \<lambda>k. f (V st k) k)) in
      [at WithdrawalRequested (\<lambda>v. ValidateAddress L (dv_now v) W),
       at WithdrawalComplianceApproved (\<lambda>v. ReserveFunds (dv_now v) W (dv_node v)),
       at WithdrawalFundsReserved (\<lambda>v. ReserveSequence (dv_now v) W (dv_node v)),
       at WithdrawalSequenceReserved (\<lambda>v. Build L (dv_now v) W),
       at WithdrawalTransactionBuilt (\<lambda>v. Simulate L (dv_now v) W (dv_node v) (dv_signer v)),
       at WithdrawalTransactionSimulated (\<lambda>v. Sign L (dv_now v) W (dv_signer v)),
       at WithdrawalSigned (\<lambda>v k. errorOf (BroadcastWd (dv_now v) (dv_node v) k)),
       at WithdrawalBroadcast (\<lambda>v k. errorOf (Confirm (dv_now v) W (dv_node v) k)),
       at WithdrawalIncluded (\<lambda>v k. errorOf (Confirm (dv_now v) W (dv_node v) k))])"

definition driveOne :: "(string \<Rightarrow> (store, unit) prog) \<Rightarrow> err list \<Rightarrow> WithdrawalRecord \<Rightarrow> (store, err list) prog" where
  "driveOne step warns rec = bindE (tryE (step (w_WithdrawalID rec))) (\<lambda>r. ret (case r of
      Inl e \<Rightarrow> if isWithdrawalHold e then warns else warns @ [e]
    | Inr _ \<Rightarrow> warns))"

definition driveStage ::
    "string \<Rightarrow> err list \<Rightarrow> WithdrawalStatus \<times> (string \<Rightarrow> (store, unit) prog) \<Rightarrow> (store, err list) prog" where
  "driveStage chainID warns stage =
     bindE (tryE (withdrawalRepo_ListByStatus chainID (fst stage) 50)) (\<lambda>r. case r of
       Inl e \<Rightarrow> ret (warns @ [e])
     | Inr recs \<Rightarrow> foldE (driveOne (snd stage)) recs warns)"

definition driveWithdrawals ::
    "lib \<Rightarrow> workflow \<Rightarrow> string \<Rightarrow> (WithdrawalStatus \<Rightarrow> string \<Rightarrow> driveEnv) \<Rightarrow> (store, err list) prog" where
  "driveWithdrawals L W chainID V = foldE (driveStage chainID) (driveSteps L W V) []"

end
