(* ===== verification/Admin.thy ===== *)
theory Admin
  imports Services
begin

text \<open>
  The admin API of the adapter (\<open>admin.go\<close>, \<open>admin_controls.go\<close>): the bearer check, the
  status page and one handler per route, over the store.  A request is its decoded
  body (or the decoding error), the \<open>X-Actor\<close> header and the path value; a response
  is the HTTP status and the body.  The text of an error message, the log lines,
  the request timeout and the JSON encoding are left out.
\<close>

section \<open>Requests and responses\<close>

datatype ControlFlow = FlowCredit | FlowSigning | FlowBroadcast | FlowSweep | ControlFlowOther string

definition AllControlFlows :: "ControlFlow list" where
  "AllControlFlows = [FlowCredit, FlowSigning, FlowBroadcast, FlowSweep]"

record controlsRequest =
  cq_Flow :: ControlFlow
  cq_Reason :: string

record scanWithoutCreditRequest =
  sw_Enabled :: bool
  sw_Reason :: string

record resumeFromRequest =
  rq_Height :: uint64
  rq_Reason :: string

record resolveRequest =
  rs_Outcome :: reviewOutcome
  rs_Resolution :: string

record statusControls =
  st_CreditPaused :: bool
  st_SigningPaused :: bool
  st_BroadcastPaused :: bool
  st_SweepPaused :: bool
  st_ScanWithoutCredit :: bool
  st_ResumeFromHeight :: "uint64 option"

record statusVersions =
  sv_Adapter :: string
  sv_Commit :: string
  sv_AppVersion :: string
  sv_SDKVersion :: string

record reviewItemView =
  iv_ID :: int
  iv_ChainID :: string
  iv_Kind :: ReviewItemKind
  iv_RefID :: string
  iv_Reason :: string
  iv_OpenedAt :: time

record statusResponse =
  sp_ChainID :: string
  sp_NetworkType :: string
  sp_Controls :: statusControls
  sp_Checkpoint :: "(uint64 \<times> string \<times> time) option"
  sp_ChainReviewOpen :: bool
  sp_ChainReviewConditions :: "(string \<times> ChainReviewTrigger \<times> time) list"
  sp_Versions :: statusVersions

datatype body = ApiError string | ControlsBody statusControls | ReportBody ReconciliationReport
  | ReviewQueueBody "reviewItemView list" | ItemResolved int reviewOutcome | ConditionResolved string
  | StatusBody statusResponse

type_synonym response = "nat \<times> body"

definition toStatusControls :: "OperationalControls \<Rightarrow> statusControls" where
  "toStatusControls c = \<lparr>st_CreditPaused = oc_CreditPaused c, st_SigningPaused = oc_SigningPaused c,
     st_BroadcastPaused = oc_BroadcastPaused c, st_SweepPaused = oc_SweepPaused c,
     st_ScanWithoutCredit = oc_ScanWithoutCredit c, st_ResumeFromHeight = oc_ResumeFromHeight c\<rparr>"

definition actorOf :: "string \<Rightarrow> string" where
  "actorOf xActor = (if xActor \<noteq> [] then xActor else ''admin-api'')"

definition storageErrStatus :: "err \<Rightarrow> response" where
  "storageErrStatus e =
     (if e = ErrNotFound then (404, ApiError ''NOT_FOUND'')
      else if e = ErrStatusConflict then (409, ApiError ''STATUS_CONFLICT'')
      else (500, ApiError ''INTERNAL''))"

definition badRequest :: "string \<Rightarrow> (store, response) prog" where
  "badRequest code = ret (400, ApiError code)"

text \<open>\<open>if err != nil { return storageErrStatus(err) }\<close>, then go on.\<close>

definition orStatus :: "(err \<Rightarrow> response) \<Rightarrow> (store, 'a) prog \<Rightarrow> ('a \<Rightarrow> response) \<Rightarrow> (store, response) prog" where
  "orStatus onErr m ok = bindE (tryE m) (\<lambda>r. ret (case r of Inl e \<Rightarrow> onErr e | Inr a \<Rightarrow> ok a))"

section \<open>Controls\<close>

definition flowUpdate :: "ControlFlow \<Rightarrow> bool \<Rightarrow> ControlsUpdate" where
  "flowUpdate flow v = (case flow of
     FlowCredit \<Rightarrow> noControlsUpdate\<lparr>cu_CreditPaused := Some v\<rparr>
   | FlowSigning \<Rightarrow> noControlsUpdate\<lparr>cu_SigningPaused := Some v\<rparr>
   | FlowBroadcast \<Rightarrow> noControlsUpdate\<lparr>cu_BroadcastPaused := Some v\<rparr>
   | FlowSweep \<Rightarrow> noControlsUpdate\<lparr>cu_SweepPaused := Some v\<rparr>
   | ControlFlowOther _ \<Rightarrow> noControlsUpdate)"

definition reasonOr :: "string \<Rightarrow> string \<Rightarrow> string" where
  "reasonOr reason dflt = (if reason = [] then dflt else reason)"

definition handleControlsPause ::
    "bool \<Rightarrow> time \<Rightarrow> string \<Rightarrow> string \<Rightarrow> err + controlsRequest \<Rightarrow> (store, response) prog" where
  "handleControlsPause pause now chainID xActor body = (case body of
     Inl e \<Rightarrow> badRequest ''INVALID_REQUEST''
   | Inr req \<Rightarrow>
       if \<not> enumValid (cq_Flow req) AllControlFlows then badRequest ''INVALID_FLOW''
       else orStatus storageErrStatus
         (controlsRepo_Apply now chainID (flowUpdate (cq_Flow req) pause) (actorOf xActor)
            (reasonOr (cq_Reason req) ''admin API request''))
         (\<lambda>controls. (200, ControlsBody (toStatusControls controls))))"

definition handleScanWithoutCredit ::
    "time \<Rightarrow> string \<Rightarrow> string \<Rightarrow> err + scanWithoutCreditRequest \<Rightarrow> (store, response) prog" where
  "handleScanWithoutCredit now chainID xActor body = (case body of
     Inl e \<Rightarrow> badRequest ''INVALID_REQUEST''
   | Inr req \<Rightarrow> orStatus storageErrStatus
       (controlsRepo_Apply now chainID (noControlsUpdate\<lparr>cu_ScanWithoutCredit := Some (sw_Enabled req)\<rparr>) (actorOf xActor)
          (reasonOr (sw_Reason req) ''admin API request''))
       (\<lambda>controls. (200, ControlsBody (toStatusControls controls))))"

definition handleScannerResumeFrom ::
    "time \<Rightarrow> string \<Rightarrow> string \<Rightarrow> err + resumeFromRequest \<Rightarrow> (store, response) prog" where
  "handleScannerResumeFrom now chainID xActor body = (case body of
     Inl e \<Rightarrow> badRequest ''INVALID_REQUEST''
   | Inr req \<Rightarrow>
       if rq_Height req = 0 then badRequest ''INVALID_HEIGHT''
       else orStatus storageErrStatus
         (controlsRepo_Apply now chainID (noControlsUpdate\<lparr>cu_ResumeFromHeight := Some (rq_Height req)\<rparr>) (actorOf xActor)
            (reasonOr (rq_Reason req) ''admin API rescan request''))
         (\<lambda>controls. (200, ControlsBody (toStatusControls controls))))"

section \<open>Reconcile now\<close>

definition buildReconciler :: "client option \<Rightarrow> string \<Rightarrow> err + ReconcileConfig" where
  "buildReconciler chain chainID = (case chain of
     None \<Rightarrow> Inl (ErrOther ''chain client unavailable'')
   | Some _ \<Rightarrow> NewReconciler \<lparr>rf_ChainID = chainID\<rparr>)"

definition handleReconcileTx ::
    "codec \<Rightarrow> client option \<Rightarrow> time \<Rightarrow> string \<Rightarrow> string \<Rightarrow> err + string \<Rightarrow> (store, response) prog" where
  "handleReconcileTx K chain now chainID newID body = (case body of
     Inl e \<Rightarrow> badRequest ''INVALID_REQUEST''
   | Inr txHash \<Rightarrow>
       if txHash = [] then badRequest ''INVALID_REQUEST''
       else case buildReconciler chain chainID of
         Inl e \<Rightarrow> ret (503, ApiError ''RECONCILE_UNAVAILABLE'')
       | Inr cfg \<Rightarrow> orStatus (\<lambda>_. (500, ApiError ''RECONCILE_FAILED''))
           (ReconcileTx K cfg chain now newID txHash ReconManual) (\<lambda>rep. (200, ReportBody rep)))"

definition handleReconcileAddress ::
    "client option \<Rightarrow> time \<Rightarrow> string \<Rightarrow> string \<Rightarrow> err + string \<Rightarrow> (store, response) prog" where
  "handleReconcileAddress chain now chainID newID body = (case body of
     Inl e \<Rightarrow> badRequest ''INVALID_REQUEST''
   | Inr address \<Rightarrow>
       if address = [] then badRequest ''INVALID_REQUEST''
       else case buildReconciler chain chainID of
         Inl e \<Rightarrow> ret (503, ApiError ''RECONCILE_UNAVAILABLE'')
       | Inr cfg \<Rightarrow> orStatus (\<lambda>_. (500, ApiError ''RECONCILE_FAILED''))
           (ReconcileAddressReport cfg chain now newID address) (\<lambda>rep. (200, ReportBody rep)))"

section \<open>Reviews\<close>

definition reviewQueueListLimit :: int where "reviewQueueListLimit = 500"

definition handleReviewQueueList :: "string \<Rightarrow> (store, response) prog" where
  "handleReviewQueueList chainID =
     orStatus storageErrStatus (reviewRepo_ListOpen chainID reviewQueueListLimit) (\<lambda>items.
       (200, ReviewQueueBody (map (\<lambda>it. \<lparr>iv_ID = ri_ID it, iv_ChainID = ri_ChainID it, iv_Kind = ri_Kind it,
          iv_RefID = ri_RefID it, iv_Reason = ri_Reason it, iv_OpenedAt = ri_OpenedAt it\<rparr>) items)))"

text \<open>
  The error mapping of \<open>resolveReviewItem\<close>: \<open>reviewResolveErrStatus\<close> for the transaction,
  and \<open>ErrInvalidRequest\<close> is the model's error for an outcome the kind does not allow.
\<close>

definition reviewResolveErrStatus :: "err \<Rightarrow> response" where
  "reviewResolveErrStatus e =
     (if e = ErrIllegalTransition then (409, ApiError ''STATUS_CONFLICT'')
      else if e = ErrInvalidRecord then (400, ApiError ''INVALID_REQUEST'')
      else if e = ErrInvalidRequest then (400, ApiError ''INVALID_REQUEST'')
      else storageErrStatus e)"

definition handleReviewQueueResolve :: "time \<Rightarrow> string \<Rightarrow> err + resolveRequest \<Rightarrow> (store, response) prog" where
  "handleReviewQueueResolve now pathID body = (case ParseInt64 pathID of
     None \<Rightarrow> badRequest ''INVALID_REQUEST''
   | Some i \<Rightarrow> (case body of
       Inl e \<Rightarrow> badRequest ''INVALID_REQUEST''
     | Inr req \<Rightarrow>
         if rs_Resolution req = [] then badRequest ''INVALID_REQUEST''
         else if rs_Outcome req = reviewOutcomeOther [] then badRequest ''INVALID_REQUEST''
         else orStatus reviewResolveErrStatus (resolveReviewItem now i (rs_Outcome req) (rs_Resolution req) now)
           (\<lambda>_. (200, ItemResolved i (rs_Outcome req)))))"

definition handleChainReviewResolve :: "time \<Rightarrow> string \<Rightarrow> err + resolveRequest \<Rightarrow> (store, response) prog" where
  "handleChainReviewResolve now conditionID body = (case body of
     Inl e \<Rightarrow> badRequest ''INVALID_REQUEST''
   | Inr req \<Rightarrow>
       if rs_Resolution req = [] then badRequest ''INVALID_REQUEST''
       else orStatus storageErrStatus (chainReviewRepo_Resolve now conditionID (rs_Resolution req) now)
         (\<lambda>_. (200, ConditionResolved conditionID)))"

section \<open>The status page and the bearer check\<close>

definition buildStatus :: "string \<Rightarrow> string \<Rightarrow> statusVersions \<Rightarrow> (store, statusResponse) prog" where
  "buildStatus chainID networkType versions =
     bindE (controlsRepo_Get chainID) (\<lambda>controls.
     bindE (tryE (checkpointRepo_Get chainID)) (\<lambda>g.
     bindE (case g of
         Inr cp \<Rightarrow> ret (Some (cp_LastFullyProcessedHeight cp, cp_LastObservedBlockHash cp, cp_UpdatedAt cp))
       | Inl e \<Rightarrow> if e = ErrNotFound then ret None else throw e) (\<lambda>cp.
     bindE (chainReviewRepo_ListOpen chainID) (\<lambda>opn.
     ret \<lparr>sp_ChainID = chainID, sp_NetworkType = networkType, sp_Controls = toStatusControls controls,
          sp_Checkpoint = cp, sp_ChainReviewOpen = (length opn > 0),
          sp_ChainReviewConditions = map (\<lambda>c. (cr_ConditionID c, cr_Trigger c, cr_OpenedAt c)) opn, sp_Versions = versions\<rparr>))))"

definition handleStatus :: "bool \<Rightarrow> string \<Rightarrow> string \<Rightarrow> statusVersions \<Rightarrow> (store, response) prog" where
  "handleStatus isGet chainID networkType versions =
     (if \<not> isGet then ret (405, ApiError ''METHOD_NOT_ALLOWED'')
      else orStatus (\<lambda>_. (500, ApiError ''STATUS_UNAVAILABLE'')) (buildStatus chainID networkType versions) (\<lambda>resp. (200, StatusBody resp)))"

definition TrimPrefix :: "string \<Rightarrow> string \<Rightarrow> string" where
  "TrimPrefix s p = (if hasPrefix s p then drop (length p) s else s)"

definition adminAuth :: "string \<Rightarrow> string \<Rightarrow> (store, response) prog \<Rightarrow> (store, response) prog" where
  "adminAuth token authorization next =
     (if token = [] then next
      else if TrimPrefix authorization ''Bearer '' \<noteq> token then ret (401, ApiError ''UNAUTHORIZED'')
      else next)"

end
