(* ===== verification/Program.thy ===== *)
theory Program
  imports Schema Admin Reconcile_Theorems
begin

text \<open>
  The program as one step relation: one call of any operation of any component,
  in any order, with any clock, node, signer, library and configuration.  The
  services and the admin handlers are runs of these steps, and the steps are
  steps of the system relation of \<open>System_Safety\<close>, so that every theorem about
  reachable stores speaks about them.
\<close>

section \<open>Steps\<close>

text \<open>
  The parameter \<open>ok\<close> says for which withdrawals the compliance team calls
  \<open>ApproveCompliance\<close>: the one operation no service performs.
\<close>

inductive appstep :: "lib \<Rightarrow> (string \<Rightarrow> bool) \<Rightarrow> store \<Rightarrow> store \<Rightarrow> bool" for L ok where
  approve: "ok k \<Longrightarrow> ApproveCompliance now k s = (r, t) \<Longrightarrow> appstep L ok s t"
| submit: "Submit L now W req s = (w, t) \<Longrightarrow> appstep L ok s t"
| validate: "ValidateAddress L now W k s = (r, t) \<Longrightarrow> appstep L ok s t"
| reserveFunds: "ReserveFunds now W ch k s = (r, t) \<Longrightarrow> appstep L ok s t"
| reserveSequence: "ReserveSequence now W ch k s = (r, t) \<Longrightarrow> appstep L ok s t"
| build: "Build L now W k s = (r, t) \<Longrightarrow> appstep L ok s t"
| simulate: "Simulate L now W ch sg k s = (r, t) \<Longrightarrow> appstep L ok s t"
| sign: "Sign L now W sg k s = (r, t) \<Longrightarrow> appstep L ok s t"
| cancel: "Cancel now k s = (r, t) \<Longrightarrow> appstep L ok s t"
| broadcast: "BroadcastWd now ch k s = (b, t) \<Longrightarrow> appstep L ok s t"
| confirm: "Confirm now W ch k s = (b, t) \<Longrightarrow> appstep L ok s t"
| recover: "Recover now ch k s = (b, t) \<Longrightarrow> appstep L ok s t"
| resolve: "resolveReviewItem now i o1 note at s = (r, t) \<Longrightarrow> appstep L ok s t"
| reconcile: "Manager_ReconcileAccount now ch c a s = (p, t) \<Longrightarrow> appstep L ok s t"
| cycle: "Cycle K E now cfg F i fb s = (cur, t) \<Longrightarrow> appstep L ok s t"
| dispatch: "outboxRepo_MarkDispatched now i at s = (r, t) \<Longrightarrow> appstep L ok s t"
| plan: "Plan L G now ch osg s = (pr, t) \<Longrightarrow> appstep L ok s t"
| prepare: "Prepare L G now ch osg k s = (r, t) \<Longrightarrow> appstep L ok s t"
| revisit: "Revisit L G now ch osg k s = (b2, t) \<Longrightarrow> appstep L ok s t"
| sweepBroadcast: "Engine_Broadcast G now ch k s = (r, t) \<Longrightarrow> appstep L ok s t"
| sweepConfirm: "Engine_Confirm G now ch k s = (r, t) \<Longrightarrow> appstep L ok s t"
| sweepRecover: "Engine_Recover now ch k s = (r, t) \<Longrightarrow> appstep L ok s t"
| pass: "Pass L G now ch osg s = (ps, t) \<Longrightarrow> appstep L ok s t"
| report: "Run rcfg cl now i2 kind s = (rep, t) \<Longrightarrow> appstep L ok s t"
| addressReport: "ReconcileAddressReport rcfg cl now i2 a s = (rep, t) \<Longrightarrow> appstep L ok s t"
| txReport: "ReconcileTx K rcfg cl now i2 h kind s = (rep, t) \<Longrightarrow> appstep L ok s t"
| nearRealTime: "NearRealTimePass K rcfg cl now newID cursors s = (nr, t) \<Longrightarrow> appstep L ok s t"
| check: "Check dcfg cmp now newID2 streak s = (cr, t) \<Longrightarrow> appstep L ok s t"
| controls: "controlsRepo_Apply now c u actor reason s = (oc, t) \<Longrightarrow> appstep L ok s t"
| chainResolve: "chainReviewRepo_Resolve now k txt at s = (r, t) \<Longrightarrow> appstep L ok s t"
| watch: "watchRepo_Upsert wa s = (r, t) \<Longrightarrow> appstep L ok s t"
| unwatch: "watchRepo_SetActive c a on s = (r, t) \<Longrightarrow> appstep L ok s t"

abbreviation appsteps :: "lib \<Rightarrow> (string \<Rightarrow> bool) \<Rightarrow> store \<Rightarrow> store \<Rightarrow> bool" where
  "appsteps L ok \<equiv> (appstep L ok)\<^sup>*\<^sup>*"

text \<open>What every repository method keeps, every step keeps.\<close>

context repo_closed
begin

lemmas closed_all = staysD closed_workflow closed_broadcast closed_review closed_reconcile closed_Cycle
  closed_Plan closed_Prepare closed_Revisit closed_settle closed_Pass closed_reports closed_tx closed_nrt closed_monitor
  dispatch controls_apply chain_resolve watch_upsert watch_set

lemma closed_step: "appstep L ok s t \<Longrightarrow> R s t"
  by (erule appstep.cases) (blast intro: closed_all)+

lemma closed_steps: "appsteps L ok s t \<Longrightarrow> R s t"
  by (induction rule: rtranclp_induct) (blast intro: R_refl R_trans closed_step)+

end

section \<open>The program steps are system steps\<close>

text \<open>The operations that touch neither funds, deposits nor events.\<close>

definition aside :: "store \<Rightarrow> store \<Rightarrow> bool" where
  "aside s t \<longleftrightarrow> dside s t \<and> t_deposits t = t_deposits s \<and> t_outbox t = t_outbox s"

interpretation ad: step_rel aside
  by unfold_locales (auto simp: aside_def dside_def)

lemma aside_observes: "observes s t \<Longrightarrow> aside s t"
  by (auto simp: observes_def aside_def dside_def)

lemma aside_chain:
  "stays aside (chainReviewRepo_Open now c)" "stays aside (chainReviewRepo_Resolve now k txt at)"
  "stays aside (chainReviewRepo_ListOpen ch)" "stays aside (checkpointRepo_Get ch)"
  by (auto simp: stays_def aside_def dside_def chainReviewRepo_Open_def chainReviewRepo_Resolve_def reads_unchanged
      chainReviewRepo_Get_def run_defs Let_def split: option.split)

lemma aside_monitor: "stays aside (Check cfg cmp now newID k)"
  unfolding Check_def checkRequest_def openCondition_def autoResolveTransient_def Let_def
  by (intro ad.stays_rules aside_chain)

lemma aside_watch: "stays aside (watchRepo_Upsert w)" "stays aside (watchRepo_SetActive c a on)"
  by (auto simp: stays_def aside_def dside_def watchRepo_Upsert_def watchRepo_SetActive_def run_defs)

lemma aside_controls: "stays aside (controlsRepo_Apply now c u actor reason)"
proof -
  have "aside s (snd (controlsRepo_Apply now c u actor reason s))" for s
  proof -
    obtain cur where "controlsRepo_Get c s = (Inr cur, s)" using controls_current by blast
    moreover obtain cur' changes where "applyControls u cur = (cur', changes)" by (cases "applyControls u cur")
    moreover obtain f where "forE changes (insertAudit now c actor reason) x = (Inr (), t_audit_update (f x) x)" for x
      using forE_audit by metis
    ultimately show ?thesis
      by (simp add: controlsRepo_Apply_def bindE_def thenE_def with_tx_def Let_def aside_def dside_def)
  qed
  then show ?thesis by (simp add: stays_def)
qed

lemma aside_reports:
  "stays aside (Run cfg chain now i kind)" "stays aside (ReconcileAddressReport cfg chain now i a)"
  "stays aside (ReconcileTx K cfg chain now i h kind)" "stays aside (NearRealTimePass K cfg chain now newID cursors)"
  using observe_reports observe_tx by (simp_all add: stays_def aside_observes)

lemmas aside_ops = aside_reports aside_monitor aside_controls aside_watch aside_chain(2)

lemma sysstep_aside: "aside s t \<Longrightarrow> store_uniq t \<Longrightarrow> sysstep L s t"
  by (simp add: aside_def sysstep.elsewhere)

lemma appstep_sysstep:
  assumes "appstep L ok s t" "store_uniq s"
  shows "sysstep L s t"
proof -
  have uq: "store_uniq t" using uc.closed_step [OF assms(1)] assms(2) by (simp add: uniq_rel_def)
  from assms(1) show ?thesis
    by cases ((rule sysstep.withdrawal, erule wop.intros) | erule sysstep.intros
      | (rule sysstep_aside [OF _ uq], erule aside_ops [THEN staysD]))+
qed

lemma appsteps_syssteps: "appsteps L ok s t \<Longrightarrow> store_uniq s \<Longrightarrow> syssteps L s t \<and> store_uniq t"
proof (induction rule: rtranclp_induct)
  case (step t u)
  then have "sysstep L t u" "store_uniq u"
    using appstep_sysstep uc.closed_step [OF step.hyps(2)] by (auto simp: uniq_rel_def)
  then show ?case using step by (auto intro: rtranclp.rtrancl_into_rtrancl)
qed simp

lemma store_uniq_empty: "store_uniq empty_store"
  using sys_inv_empty by (simp add: sys_inv_def wd_inv_def)

lemma typed_empty: "store_typed empty_store"
  by (simp add: store_typed_def schema_checks_def fields_required_def empty_store_def)

section \<open>The services are runs of the program\<close>

interpretation ap: step_rel "appsteps L ok" for L ok
  by unfold_locales auto

lemma stays_appstep: "(\<And>s r t. m s = (r, t) \<Longrightarrow> appstep L ok s t) \<Longrightarrow> stays (appsteps L ok) m"
  unfolding stays_def by (metis prod.collapse r_into_rtranclp)

named_theorems app_ops

lemma app_workflow [app_ops]:
  "stays (appsteps L ok) (ValidateAddress L now W k)" "stays (appsteps L ok) (ReserveFunds now W ch k)"
  "stays (appsteps L ok) (ReserveSequence now W ch k)" "stays (appsteps L ok) (Build L now W k)"
  "stays (appsteps L ok) (Simulate L now W ch sg k)" "stays (appsteps L ok) (Sign L now W sg k)"
  "stays (appsteps L ok) (BroadcastWd now ch k)" "stays (appsteps L ok) (Confirm now W ch k)"
  "stays (appsteps L ok) (Manager_ReconcileAccount now ch c a)" "stays (appsteps L ok) (resolveReviewItem now i o1 nt at)"
  by (rule stays_appstep, erule appstep.intros)+

lemma app_other [app_ops]:
  "stays (appsteps L ok) (controlsRepo_Apply now c u actor reason)" "stays (appsteps L ok) (chainReviewRepo_Resolve now k txt at)"
  "stays (appsteps L ok) (ReconcileTx K cfg chain now i h kind)" "stays (appsteps L ok) (ReconcileAddressReport cfg chain now i a)"
  by (rule stays_appstep, erule appstep.intros)+

lemma app_reads [app_ops]:
  "stays (appsteps L ok) (withdrawalRepo_ListByStatus c wst n)" "stays (appsteps L ok) (sweepRepo_ListByStatus c sst n)"
  "stays (appsteps L ok) (watchRepo_ListActive c)" "stays (appsteps L ok) (reviewRepo_ListOpen c n)"
  "stays (appsteps L ok) (controlsRepo_Get c)" "stays (appsteps L ok) (checkpointRepo_Get c)"
  "stays (appsteps L ok) (chainReviewRepo_ListOpen c)"
  by (rule ap.stays_unchanged, simp add: reads_unchanged)+

lemma app_drive: "stays (appsteps L ok) (driveWithdrawals L W chainID V)"
proof -
  have "stays (appsteps L ok) (foldE (driveStage chainID) stages warns)"
    if "\<forall>p \<in> set stages. \<forall>k. stays (appsteps L ok) (snd p k)" for stages warns
    using that
  proof (induction stages arbitrary: warns)
    case (Cons p stages)
    then have "stays (appsteps L ok) (driveStage chainID warns p)"
      unfolding driveStage_def driveOne_def by (intro ap.stays_rules app_ops) auto
    then show ?case using Cons unfolding foldE.simps by (intro ap.stays_bindE) auto
  qed (simp only: foldE.simps, rule ap.stays_ret)
  moreover have "\<forall>p \<in> set (driveSteps L W V). \<forall>k. stays (appsteps L ok) (snd p k)"
    unfolding driveSteps_def errorOf_def Let_def
    by (auto intro!: ap.stays_rules app_ops)
  ultimately show ?thesis unfolding driveWithdrawals_def by blast
qed

lemma app_paginate:
  "(\<And>l b. stays (appsteps L ok) (fetch l b)) \<Longrightarrow> stays (appsteps L ok) (paginateAll n limit fetch b)"
proof (induction n arbitrary: limit b)
  case (Suc n)
  show ?case unfolding paginateAll.simps by (intro ap.stays_rules Suc)
qed (simp only: paginateAll.simps, rule ap.stays_throw)

lemma app_startup:
  "stays (appsteps L ok) (withdrawalsStartup now node chainID)" "stays (appsteps L ok) (sweeperStartup now node chainID)"
  unfolding withdrawalsStartup_def sweeperStartup_def startupReconcile_def withdrawalsSourceAddresses_def
    sweeperSourceAddresses_def withdrawalSources_def sweepSources_def
  by (intro ap.stays_rules app_ops app_paginate)+

lemma app_handlers:
  "stays (appsteps L ok) (handleControlsPause p now c x creq)" "stays (appsteps L ok) (handleScanWithoutCredit now c x sreq)"
  "stays (appsteps L ok) (handleScannerResumeFrom now c x rreq)" "stays (appsteps L ok) (handleReconcileTx K cl now c i tb)"
  "stays (appsteps L ok) (handleReconcileAddress cl now c i ab)" "stays (appsteps L ok) (handleReviewQueueList c)"
  "stays (appsteps L ok) (handleReviewQueueResolve now pid vreq)" "stays (appsteps L ok) (handleChainReviewResolve now cid vreq)"
  "stays (appsteps L ok) (handleStatus g c nt vs)"
  unfolding handleControlsPause_def handleScanWithoutCredit_def handleScannerResumeFrom_def handleReconcileTx_def
    handleReconcileAddress_def handleReviewQueueList_def handleReviewQueueResolve_def handleChainReviewResolve_def
    handleStatus_def buildStatus_def orStatus_def badRequest_def
  by (intro ap.stays_rules app_ops)+

end
