(* ===== verification/Compliance.thy ===== *)
theory Compliance
  imports Program
begin

text \<open>
  No withdrawal is signed before the compliance team has approved it.  The
  statuses a withdrawal can be in without an approval are closed under every
  operation but \<open>ApproveCompliance\<close> of that very withdrawal.
\<close>

definition unapprovedStatus :: "WithdrawalStatus \<Rightarrow> bool" where
  "unapprovedStatus st \<longleftrightarrow> st \<in> {WithdrawalRequested, WithdrawalAddressValidated, WithdrawalReviewRequired,
     WithdrawalCancelled, WithdrawalConfirmed, WithdrawalFailed}"

definition unapproved :: "string \<Rightarrow> store \<Rightarrow> bool" where
  "unapproved k s \<longleftrightarrow> (\<forall>w \<in> set (t_withdrawals s). w_WithdrawalID w = k \<longrightarrow>
     w_SignedTxBytes w = [] \<and> unapprovedStatus (w_Status w))"

definition stays_unapproved :: "string \<Rightarrow> store \<Rightarrow> store \<Rightarrow> bool" where
  "stays_unapproved k s t \<longleftrightarrow> (unapproved k s \<longrightarrow> unapproved k t)"

interpretation un: step_rel "stays_unapproved k" for k
  by unfold_locales (auto simp: stays_unapproved_def)

text \<open>The operations of the other components leave the withdrawals alone.\<close>

definition same_withdrawals :: "store \<Rightarrow> store \<Rightarrow> bool" where
  "same_withdrawals s t \<longleftrightarrow> t_withdrawals t = t_withdrawals s"

interpretation swd: step_rel same_withdrawals
  by unfold_locales (auto simp: same_withdrawals_def)

lemma same_inserts:
  "stays same_withdrawals (sequenceRepo_Reserve now res)" "stays same_withdrawals (sweepRepo_Create now j)"
  "stays same_withdrawals (depositRepo_Insert now d)" "stays same_withdrawals (reviewRepo_Open now item)"
  "stays same_withdrawals (ledgerRepo_Append now e)" "stays same_withdrawals (ledgerRepo_AppendFeeOutflow now f)"
  "stays same_withdrawals (ledgerRepo_AppendFeeFundingSpend now g)" "stays same_withdrawals (outboxRepo_Enqueue now ev)"
  by (auto simp: stays_def same_withdrawals_def sequenceRepo_Reserve_def sweepRepo_Create_def depositRepo_Insert_def
      reviewRepo_Open_def ledgerRepo_Append_def ledgerRepo_AppendFeeOutflow_def ledgerRepo_AppendFeeFundingSpend_def
      outboxRepo_Enqueue_def run_defs Let_def amountText_cases split: option.split)

lemma same_updates:
  "stays same_withdrawals (sequenceRepo_UpdateStatus now i rfrom rto)" "stays same_withdrawals (sweepRepo_UpdateStatus now jk jfrom jto ju)"
  "stays same_withdrawals (depositRepo_UpdateStatus now i dfrom dto du)"
  by (rule stays_cases, auto simp: same_withdrawals_def seq_update_ok_iff sw_update_ok_iff dep_update_ok_iff
      dest: seq_update_err sw_update_err dep_update_err)+

lemma same_others:
  "stays same_withdrawals (checkpointRepo_Set now cp)" "stays same_withdrawals (reviewRepo_Resolve now i txt at)"
  "stays same_withdrawals (outboxRepo_MarkDispatched now i at)"
  by (auto simp: stays_def same_withdrawals_def checkpointRepo_Set_def reviewRepo_Resolve_def reviewRepo_Get_def
      outboxRepo_MarkDispatched_def run_defs Let_def split: option.split)

lemma same_aside: "stays aside m \<Longrightarrow> stays same_withdrawals m"
  by (simp add: stays_def aside_def dside_def same_withdrawals_def)

lemma same_observes: "stays observes m \<Longrightarrow> stays same_withdrawals m"
  using aside_observes by (auto simp: stays_def aside_def dside_def same_withdrawals_def)

interpretation sd: side_closed same_withdrawals
  by unfold_locales (fact same_inserts same_updates same_others aside_chain [THEN same_aside] aside_watch [THEN same_aside]
    aside_controls [THEN same_aside] observe_save [THEN same_observes])+

lemma unapproved_same: "stays same_withdrawals m \<Longrightarrow> stays (stays_unapproved k) m"
  by (simp add: stays_def same_withdrawals_def stays_unapproved_def unapproved_def)

section \<open>The withdrawal operations\<close>

named_theorems unapproved_ops

lemma unapproved_reads [unapproved_ops]:
  "stays (stays_unapproved k) (withdrawalRepo_Get i)" "stays (stays_unapproved k) (withdrawalRepo_GetByIdempotencyKey i)"
  "stays (stays_unapproved k) (sequenceRepo_GetByWorkRef ref)" "stays (stays_unapproved k) (controlsRepo_Get c)"
  "stays (stays_unapproved k) (withdrawalRepo_SumCommittedBySource c a)" "stays (stays_unapproved k) (reviewRepo_Get j)"
  "stays (stays_unapproved k) (depositRepo_GetByID j)"
  by (rule un.stays_unchanged, simp add: reads_unchanged)+

lemmas unapproved_side [unapproved_ops] = sd.seq_update [THEN unapproved_same] sd.review_open [THEN unapproved_same]
  sd.review_resolve [THEN unapproved_same] sd.dep_update [THEN unapproved_same] sd.closed_reserve [THEN unapproved_same]

lemma unapproved_update:
  assumes "i = k \<Longrightarrow> unapprovedStatus from \<Longrightarrow> unapprovedStatus to \<and> wu_SignedTxBytes u = None"
  shows "stays (stays_unapproved k) (withdrawalRepo_UpdateStatus now i from to u)"
proof (rule stays_cases)
  fix s s' and a :: unit
  assume ok: "withdrawalRepo_UpdateStatus now i from to u s = (Inr a, s')"
  have "w_SignedTxBytes w = [] \<and> unapprovedStatus (w_Status w)"
    if w: "unapproved k s" "w \<in> set (t_withdrawals s')" "w_WithdrawalID w = k" for w
  proof -
    obtain x where x: "x \<in> set (t_withdrawals s)"
      "w = (if w_WithdrawalID x = i \<and> w_Status x = from then applyWithdrawalUpdate now to u x else x)"
      using ok w(2) by (auto simp: wd_update_ok_iff elim: map_where_inE)
    then have "w_SignedTxBytes x = []" "unapprovedStatus (w_Status x)" "w_WithdrawalID x = k"
      using w by (auto simp: unapproved_def)
    then show ?thesis using x(2) assms by (cases "i = k \<and> w_Status x = from") auto
  qed
  then show "stays_unapproved k s s'" by (auto simp: stays_unapproved_def unapproved_def)
qed (use wd_update_err un.R_refl in blast)

lemma unapproved_create: "stays (stays_unapproved k) (withdrawalRepo_Create now (newWithdrawal W req amount))"
  by (auto simp: stays_def withdrawalRepo_Create_def newWithdrawal_def run_defs Let_def amountText_cases amountPtrText_def
      stays_unapproved_def unapproved_def unapprovedStatus_def)

lemma unapproved_to [unapproved_ops]:
  "unapprovedStatus to \<Longrightarrow> wu_SignedTxBytes u = None \<Longrightarrow>
   stays (stays_unapproved k) (withdrawalRepo_UpdateStatus now i from to u)"
  by (rule unapproved_update) simp

lemma unapproved_from:
  "\<not> unapprovedStatus from \<Longrightarrow> stays (stays_unapproved k) (withdrawalRepo_UpdateStatus now i from to u)"
  by (rule unapproved_update) simp

lemma unapproved_orReturn:
  "stays (stays_unapproved k) m \<Longrightarrow> (\<And>a. stays (stays_unapproved k) (f a)) \<Longrightarrow> stays (stays_unapproved k) (orReturn o1 m f)"
  unfolding orReturn_def by (intro un.stays_rules)

lemma unapproved_list: "stays (stays_unapproved k) m \<Longrightarrow> (\<And>b bs. stays (stays_unapproved k) (f b bs)) \<Longrightarrow>
    stays (stays_unapproved k) (case xs of [] \<Rightarrow> m | b # bs \<Rightarrow> f b bs)"
  by (simp split: list.split)

lemma unapproved_gas: "(\<And>e. stays (stays_unapproved k) (f e)) \<Longrightarrow> (\<And>q. stays (stays_unapproved k) (g q)) \<Longrightarrow>
   (\<And>a b. stays (stays_unapproved k) (h a b)) \<Longrightarrow>
   stays (stays_unapproved k) (case z of GasError e \<Rightarrow> f e | GasQuarantine q \<Rightarrow> g q | GasOk a b \<Rightarrow> h a b)"
  by (simp split: gasOutcome.split)

lemmas unapproved_rules = un.stays_rules unapproved_orReturn unapproved_list unapproved_gas unapproved_create

text \<open>The updates whose source status already needs an approval.\<close>

lemma unapproved_late [unapproved_ops]:
  "stays (stays_unapproved k) (withdrawalRepo_UpdateStatus now i WithdrawalComplianceApproved to u)"
  "stays (stays_unapproved k) (withdrawalRepo_UpdateStatus now i WithdrawalFundsReserved to u)"
  "stays (stays_unapproved k) (withdrawalRepo_UpdateStatus now i WithdrawalSequenceReserved to u)"
  "stays (stays_unapproved k) (withdrawalRepo_UpdateStatus now i WithdrawalTransactionBuilt to u)"
  "stays (stays_unapproved k) (withdrawalRepo_UpdateStatus now i WithdrawalTransactionSimulated to u)"
  "stays (stays_unapproved k) (withdrawalRepo_UpdateStatus now i WithdrawalSigned to u)"
  "stays (stays_unapproved k) (withdrawalRepo_UpdateStatus now i WithdrawalBroadcast to u)"
  "stays (stays_unapproved k) (withdrawalRepo_UpdateStatus now i WithdrawalIncluded to u)"
  by (rule unapproved_from, simp add: unapprovedStatus_def)+


lemma unapproved_quarantine [unapproved_ops]:
  "stays (stays_unapproved k) (quarantine now W i from reason)"
  "stays (stays_unapproved k) (quarantinePostSignature now W i from rid reason)"
  unfolding quarantine_def quarantinePostSignature_def
  by (intro unapproved_rules unapproved_ops, simp add: unapprovedStatus_def, simp)+

lemma unapproved_workflow:
  "stays (stays_unapproved k) (Submit L now W req)" "stays (stays_unapproved k) (ValidateAddress L now W i)"
  "stays (stays_unapproved k) (ReserveFunds now W ch i)" "stays (stays_unapproved k) (ReserveSequence now W ch i)"
  "stays (stays_unapproved k) (Build L now W i)" "stays (stays_unapproved k) (Simulate L now W ch sg i)"
  "stays (stays_unapproved k) (Sign L now W sg i)" "stays (stays_unapproved k) (Cancel now i)"
proof -
  show "stays (stays_unapproved k) (Submit L now W req)"
    unfolding Submit_def by (intro unapproved_rules unapproved_ops)
  show "stays (stays_unapproved k) (ValidateAddress L now W i)"
    unfolding ValidateAddress_def Let_def by (intro unapproved_rules unapproved_ops) (simp_all add: unapprovedStatus_def)
  show "stays (stays_unapproved k) (ReserveFunds now W ch i)"
    unfolding ReserveFunds_def Let_def by (intro unapproved_rules unapproved_late unapproved_ops)
  show "stays (stays_unapproved k) (ReserveSequence now W ch i)"
    unfolding ReserveSequence_def by (intro unapproved_rules unapproved_late unapproved_ops)
  show "stays (stays_unapproved k) (Build L now W i)"
    unfolding Build_def by (intro unapproved_rules unapproved_late unapproved_ops)
  show "stays (stays_unapproved k) (Simulate L now W ch sg i)"
    unfolding Simulate_def Let_def by (intro unapproved_rules unapproved_late unapproved_ops)
  show "stays (stays_unapproved k) (Sign L now W sg i)"
    unfolding Sign_def signWith_def signTx_def by (intro unapproved_rules unapproved_late unapproved_ops)
  show "stays (stays_unapproved k) (Cancel now i)"
    unfolding Cancel_def by (intro unapproved_rules unapproved_ops) (simp_all add: unapprovedStatus_def)
qed


lemma unapproved_reservations:
  "stays (stays_unapproved k) (advanceReservation now i rfrom rto)" "stays (stays_unapproved k) (consumeReservation now i)"
  "stays (stays_unapproved k) (quarantineReservation now i rfrom)" "stays (stays_unapproved k) (disposeReservation now i rto)"
  unfolding advanceReservation_def consumeReservation_def quarantineReservation_def disposeReservation_def
  by (intro unapproved_rules unapproved_ops)+

lemma unapproved_broadcast:
  "stays (stays_unapproved k) (BroadcastWd now ch i)" "stays (stays_unapproved k) (Confirm now W ch i)"
  unfolding BroadcastWd_def Confirm_def resolveUnknownAfterBroadcast_def reviewTx_def acceptTx_def
    includeTx_def confirmIncluded_def confirmMissing_def
  by (intro unapproved_rules unapproved_late unapproved_ops unapproved_reservations)+

text \<open>\<open>Recover\<close> moves a reviewed withdrawal on only when it holds signed bytes.\<close>

lemma unapproved_recover: "stays (stays_unapproved k) (Recover now ch i)"
proof -
  have "stays_unapproved k s (snd (Recover now ch i s))" for s
  proof (cases "i = k \<and> unapproved k s")
    case True
    then have "find (\<lambda>w. w_WithdrawalID w = i) (t_withdrawals s) = Some w \<Longrightarrow> w_SignedTxBytes w = []" for w
      by (auto simp: unapproved_def dest: find_SomeD)
    then show ?thesis
      by (auto simp: Recover_def orReturn_def bindE_def tryE_run withdrawalRepo_Get_def queryRow_run un.R_refl
          split: option.split)
  next
    case False
    then have up: "stays_unapproved k s (snd (withdrawalRepo_UpdateStatus now i from to u s))" for "from" to u
      using unapproved_update [of i k "from" to u now] by (auto simp: stays_def stays_unapproved_def)
    show ?thesis
      by (auto simp: Recover_def orReturn_def bindE_def tryE_run withdrawalRepo_Get_def queryRow_run un.R_refl up
          split: option.split sum.split)
  qed
  then show ?thesis by (simp add: stays_def)
qed

lemma unapproved_lift: "(\<And>a b. r = Inr (a, b) \<Longrightarrow> stays (stays_unapproved k) (f a b)) \<Longrightarrow>
    stays (stays_unapproved k) (bindE (liftR r) (\<lambda>(a, b). f a b))"
  by (cases r) (auto simp: un.stays_throw)

lemma reviewTarget_unapproved: "reviewTarget pre o1 = Inr (target, seqTo) \<Longrightarrow> unapprovedStatus target"
  by (auto simp: reviewTarget_def unapprovedStatus_def split: reviewOutcome.splits if_splits)

lemma unapproved_review: "stays (stays_unapproved k) (resolveReviewItem now i o1 nt at)"
proof -
  have "stays (stays_unapproved k) (resolveWithdrawalReview now j o1)" for j
    unfolding resolveWithdrawalReview_def
    by (intro unapproved_lift unapproved_rules unapproved_reservations unapproved_ops) (auto dest: reviewTarget_unapproved)
  moreover have "stays (stays_unapproved k) (resolveDepositReview now j o1)" for j
    unfolding resolveDepositReview_def
    by (cases o1; cases "ParseInt64 j"; simp only: option.case reviewOutcome.case; intro unapproved_rules unapproved_ops)
  ultimately have "stays (stays_unapproved k) (case kind of ReviewKindWithdrawal \<Rightarrow> resolveWithdrawalReview now j o1
        | ReviewKindDeposit \<Rightarrow> resolveDepositReview now j o1 | ReviewKindLedgerEntry \<Rightarrow> ret ()
        | ReviewItemKindOther x \<Rightarrow> throw ErrInvalidRecord)" for kind j
    by (auto intro: un.stays_ret un.stays_throw split: ReviewItemKind.split)
  then show ?thesis unfolding resolveReviewItem_def by (intro unapproved_rules unapproved_ops)
qed


section \<open>Every step\<close>

lemma unapproved_approve: "i \<noteq> k \<Longrightarrow> stays (stays_unapproved k) (ApproveCompliance now i)"
  unfolding ApproveCompliance_def by (rule unapproved_update) simp

lemmas unapproved_wd = unapproved_workflow unapproved_broadcast unapproved_recover unapproved_review

lemmas unapproved_others = sd.closed_reconcile sd.closed_Cycle sd.dispatch sd.closed_Plan sd.closed_Prepare
  sd.closed_Revisit sd.closed_settle sd.closed_Pass sd.closed_reports sd.closed_tx sd.closed_nrt sd.closed_monitor
  sd.controls_apply sd.chain_resolve sd.watch_upsert sd.watch_set

lemma unapproved_step:
  assumes "appstep L (\<lambda>i. i \<noteq> k) s t"
  shows "stays_unapproved k s t"
  using assms
  by cases (erule unapproved_approve [THEN staysD], assumption | erule unapproved_wd [THEN staysD]
    | erule unapproved_others [THEN unapproved_same, THEN staysD])+

lemma unapproved_steps: "appsteps L (\<lambda>i. i \<noteq> k) s t \<Longrightarrow> unapproved k s \<Longrightarrow> unapproved k t"
  by (induction rule: rtranclp_induct) (use unapproved_step in \<open>auto simp: stays_unapproved_def\<close>)

end
