(* ===== verification/Discovery.thy ===== *)
theory Discovery
  imports Program
begin

text \<open>
  Source discovery at startup is complete: the paged scans end, read every row of
  their status queues and lose no source, however many rows the queues hold.
\<close>

section \<open>The scan reads the whole queue\<close>

lemma set_addSource: "set (addSource out a) = set out \<union> ({a} - {[]})"
  by (auto simp: addSource_def)

lemma distinct_addSource: "distinct out \<Longrightarrow> distinct (addSource out a)"
  by (simp add: addSource_def)

lemma set_foldl_add: "set (foldl (\<lambda>o1 r. addSource o1 (g r)) out rows) = set out \<union> (g ` set rows - {[]})"
  by (induction rows arbitrary: out) (auto simp: set_addSource)

lemma distinct_foldl_add: "distinct out \<Longrightarrow> distinct (foldl (\<lambda>o1 r. addSource o1 (g r)) out rows)"
  by (induction rows arbitrary: out) (simp_all add: distinct_addSource)

lemma foldl_guarded:
  "foldl (\<lambda>o1 w. if p w then addSource o1 (g w) else o1) out rows = foldl (\<lambda>o1 w. addSource o1 (g w)) out (filter p rows)"
  by (induction rows arbitrary: out) auto

text \<open>
  The loop over a queue of known rows.  A round with a limit above their number
  is the last one, and the limit grows by 500 a round.
\<close>

lemma paginate_all:
  assumes "\<And>l o1. l > 0 \<Longrightarrow> fetch l o1 s = (Inr (length (limit_rows l rows), foldl (\<lambda>o2 r. addSource o2 (g r)) o1 (limit_rows l rows)), s)"
    and "0 < limit" "int (length rows) < limit + int n * sourceReconcilePageSize" "distinct out"
  shows "\<exists>out'. paginateAll (Suc n) limit fetch out s = (Inr out', s) \<and> distinct out' \<and> set out' = set out \<union> (g ` set rows - {[]})"
  using assms(2-4)
proof (induction n arbitrary: limit out)
  case 0
  then have all: "limit_rows limit rows = rows" by (simp add: limit_rows_def)
  then show ?case using assms(1) [of limit out] 0 by (simp add: bindE_def set_foldl_add distinct_foldl_add)
next
  case (Suc n)
  let ?page = "limit_rows limit rows"
  let ?out = "foldl (\<lambda>o1 r. addSource o1 (g r)) out ?page"
  show ?case
  proof (cases "int (length ?page) < limit")
    case True
    then have "?page = rows" using Suc.prems(1) by (auto simp: limit_rows_def min_def split: if_splits)
    then show ?thesis using assms(1) [of limit out] Suc.prems(1) Suc.prems(3) True
      by (simp add: bindE_def set_foldl_add distinct_foldl_add)
  next
    case False
    have "\<exists>out'. paginateAll (Suc n) (limit + sourceReconcilePageSize) fetch ?out s = (Inr out', s) \<and> distinct out' \<and>
        set out' = set ?out \<union> (g ` set rows - {[]})"
      by (rule Suc.IH) (use Suc.prems in \<open>simp_all add: sourceReconcilePageSize_def distinct_foldl_add algebra_simps\<close>)
    moreover have "set ?out \<union> (g ` set rows - {[]}) = set out \<union> (g ` set rows - {[]})"
      using limit_rows_subset [of limit rows] by (auto simp: set_foldl_add)
    ultimately show ?thesis using assms(1) [of limit out] Suc.prems(1) False by (simp add: bindE_def)
  qed
qed

lemma page_enough: "m \<le> n \<Longrightarrow> int m < sourceReconcilePageSize + int n * sourceReconcilePageSize"
  by (simp add: sourceReconcilePageSize_def)

section \<open>The two scans\<close>

lemma withdrawalSources_run:
  assumes "distinct out"
  shows "\<exists>out'. withdrawalSources chainID out st s = (Inr out', s) \<and> distinct out' \<and>
    set out' = set out \<union> (w_SourceAddress ` {w \<in> set (t_withdrawals s). w_ChainID w = chainID \<and> w_Status w = st} - {[]})"
proof -
  let ?rows = "sort_key (\<lambda>w. (w_CreatedAt w, w_WithdrawalID w))
    (filter (\<lambda>w. w_ChainID w = chainID \<and> w_Status w = st) (t_withdrawals s))"
  have le: "int (length ?rows) < sourceReconcilePageSize + int (length (t_withdrawals s)) * sourceReconcilePageSize"
    by (rule page_enough) simp
  have "\<exists>out'. paginateAll (Suc (length (t_withdrawals s))) sourceReconcilePageSize (\<lambda>limit out.
       bindE (withdrawalRepo_ListByStatus chainID st limit) (\<lambda>recs.
       ret (length recs, foldl (\<lambda>o1 r. addSource o1 (w_SourceAddress r)) out recs))) out s = (Inr out', s) \<and> distinct out' \<and>
     set out' = set out \<union> (w_SourceAddress ` set ?rows - {[]})"
    by (rule paginate_all [OF _ _ le assms]) (simp_all add: withdrawalRepo_ListByStatus_def bindE_def sourceReconcilePageSize_def)
  then show ?thesis by (simp add: withdrawalSources_def bindE_def)
qed

lemma sweepSources_run:
  assumes "distinct out"
  shows "\<exists>out'. sweepSources chainID out st s = (Inr out', s) \<and> distinct out' \<and>
    set out' = set out \<union> (j_SourceAddress ` {j \<in> set (t_sweeps s). j_ChainID j = chainID \<and> j_Status j = st} - {[]})"
proof -
  let ?rows = "sort_key (\<lambda>j. (j_CreatedAt j, j_SweepID j))
    (filter (\<lambda>j. j_ChainID j = chainID \<and> j_Status j = st) (t_sweeps s))"
  have le: "int (length ?rows) < sourceReconcilePageSize + int (length (t_sweeps s)) * sourceReconcilePageSize"
    by (rule page_enough) simp
  have "\<exists>out'. paginateAll (Suc (length (t_sweeps s))) sourceReconcilePageSize (\<lambda>limit out.
       bindE (sweepRepo_ListByStatus chainID st limit) (\<lambda>jobs.
       ret (length jobs, foldl (\<lambda>o1 j. addSource o1 (j_SourceAddress j)) out jobs))) out s = (Inr out', s) \<and> distinct out' \<and>
     set out' = set out \<union> (j_SourceAddress ` set ?rows - {[]})"
    by (rule paginate_all [OF _ _ le assms]) (simp_all add: sweepRepo_ListByStatus_def bindE_def sourceReconcilePageSize_def)
  then show ?thesis by (simp add: sweepSources_def bindE_def)
qed

lemma foldE_sources:
  assumes "\<And>st out. distinct out \<Longrightarrow> \<exists>out'. f out st s = (Inr out', s) \<and> distinct out' \<and> set out' = set out \<union> A st" "distinct out"
  shows "\<exists>out'. foldE f sts out s = (Inr out', s) \<and> distinct out' \<and> set out' = set out \<union> (\<Union>st \<in> set sts. A st)"
  using assms(2)
proof (induction sts arbitrary: out)
  case (Cons st sts)
  obtain o1 where o1: "f out st s = (Inr o1, s)" "distinct o1" "set o1 = set out \<union> A st" using assms(1) Cons.prems by blast
  from Cons.IH [OF o1(2)] obtain o2 where
    "foldE f sts o1 s = (Inr o2, s)" "distinct o2" "set o2 = set o1 \<union> (\<Union>st \<in> set sts. A st)" by blast
  then show ?case using o1 by (auto simp: bindE_def)
qed simp

lemma watched_sources:
  "set (foldl (\<lambda>o1 w. if wa_Kind w = kind then addSource o1 (wa_Address w) else o1) out
      (sort_key wa_Address (filter (\<lambda>x. wa_ChainID x = chainID \<and> wa_Active x) rows))) =
   set out \<union> (wa_Address ` {w \<in> set rows. wa_ChainID w = chainID \<and> wa_Active w \<and> wa_Kind w = kind} - {[]})"
  by (auto simp: foldl_guarded set_foldl_add)


text \<open>The sources each service must reconcile before it hands out a sequence.\<close>

definition withdrawalSourcesOf :: "string \<Rightarrow> store \<Rightarrow> string set" where
  "withdrawalSourcesOf chainID s =
     wa_Address ` {w \<in> set (t_watched s). wa_ChainID w = chainID \<and> wa_Active w \<and> wa_Kind w = WatchHotWallet}
     \<union> w_SourceAddress ` {w \<in> set (t_withdrawals s). w_ChainID w = chainID \<and> w_Status w \<in> set withdrawalDiscoveryStatuses}
     - {[]}"

definition sweepSourcesOf :: "string \<Rightarrow> store \<Rightarrow> string set" where
  "sweepSourcesOf chainID s =
     wa_Address ` {w \<in> set (t_watched s). wa_ChainID w = chainID \<and> wa_Active w \<and> wa_Kind w = WatchFeeWallet}
     \<union> j_SourceAddress ` {j \<in> set (t_sweeps s). j_ChainID j = chainID \<and> j_Status j \<in> set sweepDiscoveryStatuses}
     - {[]}"

lemma withdrawals_discovery:
  "\<exists>out. withdrawalsSourceAddresses chainID s = (Inr out, s) \<and> distinct out \<and> set out = withdrawalSourcesOf chainID s"
proof -
  let ?hot = "foldl (\<lambda>o1 w. if wa_Kind w = WatchHotWallet then addSource o1 (wa_Address w) else o1) []
      (sort_key wa_Address (filter (\<lambda>x. wa_ChainID x = chainID \<and> wa_Active x) (t_watched s)))"
  have d: "distinct ?hot" by (simp add: foldl_guarded distinct_foldl_add)
  let ?A = "\<lambda>st. w_SourceAddress ` {w \<in> set (t_withdrawals s). w_ChainID w = chainID \<and> w_Status w = st} - {[]}"
  have "\<exists>out. foldE (withdrawalSources chainID) withdrawalDiscoveryStatuses ?hot s = (Inr out, s) \<and> distinct out \<and>
      set out = set ?hot \<union> (\<Union>st \<in> set withdrawalDiscoveryStatuses. ?A st)"
    by (rule foldE_sources [OF _ d]) (rule withdrawalSources_run)
  then obtain out where run: "foldE (withdrawalSources chainID) withdrawalDiscoveryStatuses ?hot s = (Inr out, s)" "distinct out"
    and out: "set out = set ?hot \<union> (\<Union>st \<in> set withdrawalDiscoveryStatuses. ?A st)" by (elim exE conjE)
  have "set out = withdrawalSourcesOf chainID s"
    unfolding out watched_sources withdrawalSourcesOf_def by auto
  then show ?thesis using run by (simp add: withdrawalsSourceAddresses_def watchRepo_ListActive_def)
qed

lemma sweeper_discovery:
  "\<exists>out. sweeperSourceAddresses chainID s = (Inr out, s) \<and> distinct out \<and> set out = sweepSourcesOf chainID s"
proof -
  let ?A = "\<lambda>st. j_SourceAddress ` {j \<in> set (t_sweeps s). j_ChainID j = chainID \<and> j_Status j = st} - {[]}"
  have "\<exists>out. foldE (sweepSources chainID) sweepDiscoveryStatuses [] s = (Inr out, s) \<and> distinct out \<and>
      set out = set [] \<union> (\<Union>st \<in> set sweepDiscoveryStatuses. ?A st)"
    by (rule foldE_sources, rule sweepSources_run) simp_all
  then obtain out where run: "foldE (sweepSources chainID) sweepDiscoveryStatuses [] s = (Inr out, s)" "distinct out"
    and out: "set out = set [] \<union> (\<Union>st \<in> set sweepDiscoveryStatuses. ?A st)" by (elim exE conjE)
  let ?all = "foldl (\<lambda>o1 w. if wa_Kind w = WatchFeeWallet then addSource o1 (wa_Address w) else o1) out
      (sort_key wa_Address (filter (\<lambda>x. wa_ChainID x = chainID \<and> wa_Active x) (t_watched s)))"
  have "set ?all = sweepSourcesOf chainID s"
    unfolding watched_sources out sweepSourcesOf_def by auto
  moreover have "distinct ?all" using run(2) by (simp add: foldl_guarded distinct_foldl_add)
  ultimately show ?thesis using run by (simp add: sweeperSourceAddresses_def watchRepo_ListActive_def bindE_def)
qed

section \<open>Startup reconciliation\<close>

definition settledFor :: "string \<Rightarrow> string set \<Rightarrow> store \<Rightarrow> bool" where
  "settledFor chainID sources s \<longleftrightarrow> (\<forall>x \<in> set (t_sequences s).
     r_ChainID x = chainID \<and> r_SourceAddress x \<in> sources \<longrightarrow> settled (r_Status x))"

lemma settled_valid: "settled st \<Longrightarrow> enumValid st AllSequenceReservationStatuses \<and> st \<noteq> SequenceReserved"
  by (auto simp: enum_defs)

lemma startup_settled:
  assumes "store_uniq s" "seq_wf s" "\<forall>a \<in> set todo. \<exists>p. ch_Account (node a) a = Inr p" "settledFor chainID done s"
  shows "\<exists>s'. startupReconcile now node chainID todo s = (Inr (), s') \<and> settledFor chainID (done \<union> set todo) s'"
  using assms
proof (induction todo arbitrary: s "done")
  case Nil
  then show ?case by (simp add: startupReconcile_def)
next
  case (Cons a todo)
  obtain an q where acc: "ch_Account (node a) a = Inr (an, q)" using Cons.prems(3) by auto
  obtain rep s1 where run: "Manager_ReconcileAccount (now a) (node a) chainID a s = (Inr rep, s1)"
    and ws: "\<forall>ref. workState s1 ref = workState s ref"
    and rows: "\<forall>x' \<in> set (t_sequences s1). \<exists>x \<in> set (t_sequences s). slotOf x' = slotOf x \<and>
       (if r_ChainID x = chainID \<and> r_SourceAddress x = a then settled (r_Status x') else x' = x)"
    by (rule reconcile_account [OF Cons.prems(1,2) acc])
  have "store_uniq s1" using staysD [OF uniq_manager_reconcile run] Cons.prems(1) by (simp add: uniq_rel_def)
  moreover have "seq_wf s1"
    unfolding seq_wf_def
  proof
    fix x' assume "x' \<in> set (t_sequences s1)"
    then obtain x where "x \<in> set (t_sequences s)" "settled (r_Status x') \<or> x' = x" using rows by meson
    then show "enumValid (r_Status x') AllSequenceReservationStatuses \<and>
       (r_Status x' = SequenceReserved \<longrightarrow> (\<forall>h b. workState s1 (r_WorkRef x') = Inr (h, b) \<longrightarrow> h = []))"
      using Cons.prems(2) settled_valid ws unfolding seq_wf_def by metis
  qed
  moreover have "settledFor chainID (insert a done) s1"
    unfolding settledFor_def
  proof (intro ballI impI)
    fix x' assume x': "x' \<in> set (t_sequences s1)" "r_ChainID x' = chainID \<and> r_SourceAddress x' \<in> insert a done"
    then obtain x where x: "x \<in> set (t_sequences s)" "slotOf x' = slotOf x"
      "if r_ChainID x = chainID \<and> r_SourceAddress x = a then settled (r_Status x') else x' = x" using rows by blast
    have "r_ChainID x = chainID" "r_SourceAddress x \<in> insert a done" using x' x(2) by (simp_all add: slotOf_def)
    then show "settled (r_Status x')" using x Cons.prems(4) unfolding settledFor_def by (metis insert_iff)
  qed
  ultimately obtain s' where "startupReconcile now node chainID todo s1 = (Inr (), s')"
    "settledFor chainID (insert a done \<union> set todo) s'"
    using Cons.IH [of s1 "insert a done"] Cons.prems(3) by auto
  then show ?case using run by (auto simp: startupReconcile_def thenE_def bindE_def)
qed

lemma startup_from_none: "settledFor chainID {} s"
  by (simp add: settledFor_def)

end
