(* ===== verification/Controls_Audit.thy ===== *)
theory Controls_Audit
  imports Program
begin

text \<open>
  The operational controls over time.  A pause request sets one flag of one chain
  and leaves an audit row; from then on the flag can only be cleared by a change
  that leaves an audit row of its own, whatever operations run in between.  The
  second half is what the operations of a paused flow do, and which operation does
  not ask.
\<close>

section \<open>The controls in force\<close>

definition controlsOf :: "string \<Rightarrow> store \<Rightarrow> OperationalControls" where
  "controlsOf c s = (case find (\<lambda>x. oc_ChainID x = c) (t_controls s) of None \<Rightarrow> zeroControls c | Some x \<Rightarrow> x)"

lemma controlsRepo_Get_run: "controlsRepo_Get c s = (Inr (controlsOf c s), s)"
  by (simp add: controls_current controlsOf_def)

definition flowPaused :: "ControlFlow \<Rightarrow> OperationalControls \<Rightarrow> bool" where
  "flowPaused fl x = (case fl of FlowCredit \<Rightarrow> oc_CreditPaused x | FlowSigning \<Rightarrow> oc_SigningPaused x
     | FlowBroadcast \<Rightarrow> oc_BroadcastPaused x | FlowSweep \<Rightarrow> oc_SweepPaused x | ControlFlowOther _ \<Rightarrow> False)"

definition setFlow :: "ControlFlow \<Rightarrow> bool \<Rightarrow> OperationalControls \<Rightarrow> OperationalControls" where
  "setFlow fl v x = (case fl of FlowCredit \<Rightarrow> x\<lparr>oc_CreditPaused := v\<rparr> | FlowSigning \<Rightarrow> x\<lparr>oc_SigningPaused := v\<rparr>
     | FlowBroadcast \<Rightarrow> x\<lparr>oc_BroadcastPaused := v\<rparr> | FlowSweep \<Rightarrow> x\<lparr>oc_SweepPaused := v\<rparr> | ControlFlowOther _ \<Rightarrow> x)"

definition flowField :: "ControlFlow \<Rightarrow> string" where
  "flowField fl = (case fl of FlowCredit \<Rightarrow> ''credit_paused'' | FlowSigning \<Rightarrow> ''signing_paused''
     | FlowBroadcast \<Rightarrow> ''broadcast_paused'' | FlowSweep \<Rightarrow> ''sweep_paused'' | ControlFlowOther x \<Rightarrow> x)"

lemma applyControls_flow:
  assumes "fl \<in> set AllControlFlows"
  shows "applyControls (flowUpdate fl v) x = (setFlow fl v x,
    if flowPaused fl x = v then [] else [ControlChange (flowField fl) (formatBool (\<not> v)) (formatBool v)])"
  using assms
  by (cases x) (auto simp: AllControlFlows_def applyControls_def applyBool_def applyResume_def flowUpdate_def noControlsUpdate_def
      setFlow_def flowPaused_def flowField_def)

text \<open>The store after a change of one control.\<close>

definition controlStored :: "time \<Rightarrow> string \<Rightarrow> OperationalControls \<Rightarrow> store \<Rightarrow> OperationalControls list" where
  "controlStored now c x s = (if \<exists>o1 \<in> set (t_controls s). oc_ChainID o1 = c
     then map_where (\<lambda>o1. oc_ChainID o1 = c) (\<lambda>_. x\<lparr>oc_ChainID := c, oc_UpdatedAt := now\<rparr>) (t_controls s)
     else t_controls s @ [x\<lparr>oc_ChainID := c, oc_UpdatedAt := now\<rparr>])"

lemma controlsOf_stored:
  "controlsOf d (s\<lparr>t_controls := controlStored now c x s, t_audit := rows\<rparr>) =
     (if d = c then x\<lparr>oc_ChainID := c, oc_UpdatedAt := now\<rparr> else controlsOf d s)"
  by (cases "d = c") (simp_all add: controlsOf_def controlStored_def find_upsert split del: if_split)

lemma applyOne_run:
  assumes "c \<noteq> []" "applyControls u (controlsOf c s) = (x, chs)"
  shows "controlsRepo_Apply now c u actor reason s = (case chs of [] \<Rightarrow> (Inr x, s)
     | _ \<Rightarrow> (Inr (x\<lparr>oc_ChainID := c, oc_UpdatedAt := now\<rparr>),
         snd (forE chs (insertAudit now c actor reason) (s\<lparr>t_controls := controlStored now c x s\<rparr>))))"
proof -
  let ?s = "s\<lparr>t_controls := controlStored now c x s\<rparr>"
  obtain f where "forE chs (insertAudit now c actor reason) ?s = (Inr (), t_audit_update f ?s)"
    using forE_audit by blast
  moreover have "t_controls_update (\<lambda>rows. if \<exists>o1 \<in> set rows. oc_ChainID o1 = c
      then map_where (\<lambda>o1. oc_ChainID o1 = c) (\<lambda>_. x\<lparr>oc_ChainID := c, oc_UpdatedAt := now\<rparr>) rows
      else rows @ [x\<lparr>oc_ChainID := c, oc_UpdatedAt := now\<rparr>]) s = ?s"
    unfolding controlStored_def by (rule controls_update_const)
  ultimately show ?thesis using assms
    by (cases chs) (simp_all add: controlsRepo_Apply_def controlsRepo_Get_run bindE_def thenE_def with_tx_def Let_def split del: if_split)
qed


lemma pause_effect:
  assumes "c \<noteq> []" "fl \<in> set AllControlFlows"
    and run: "handleControlsPause v now c xActor (Inr \<lparr>cq_Flow = fl, cq_Reason = reason\<rparr>) s = (resp, t)"
  shows "resp = Inr (200, ControlsBody (toStatusControls (controlsOf c t)))"
    and "toStatusControls (controlsOf c t) = toStatusControls (setFlow fl v (controlsOf c s))"
    and "d \<noteq> c \<Longrightarrow> controlsOf d t = controlsOf d s"
    and "t = s\<lparr>t_controls := t_controls t, t_audit := t_audit s @ (if flowPaused fl (controlsOf c s) = v then []
      else [\<lparr>ca_ID = nextRowID (map ca_ID (t_audit s)), ca_ChainID = c, ca_Field = flowField fl,
             ca_OldValue = formatBool (\<not> v), ca_NewValue = formatBool v, ca_Actor = actorOf xActor,
             ca_Reason = reasonOr reason ''admin API request'', ca_At = now\<rparr>])\<rparr>"
proof -
  let ?x = "setFlow fl v (controlsOf c s)"
  let ?row = "\<lparr>ca_ID = nextRowID (map ca_ID (t_audit s)), ca_ChainID = c, ca_Field = flowField fl,
             ca_OldValue = formatBool (\<not> v), ca_NewValue = formatBool v, ca_Actor = actorOf xActor,
             ca_Reason = reasonOr reason ''admin API request'', ca_At = now\<rparr>"
  note ap = applyControls_flow [OF assms(2), of v "controlsOf c s"]
  have valid: "enumValid fl AllControlFlows" using assms(2) by (simp add: enumValid_iff)
  have ts: "toStatusControls (y\<lparr>oc_ChainID := c, oc_UpdatedAt := now\<rparr>) = toStatusControls y" for y
    by (simp add: toStatusControls_def)
  have "resp = Inr (200, ControlsBody (toStatusControls (controlsOf c t))) \<and>
    toStatusControls (controlsOf c t) = toStatusControls ?x \<and> (d \<noteq> c \<longrightarrow> controlsOf d t = controlsOf d s) \<and>
    t = s\<lparr>t_controls := t_controls t, t_audit := t_audit s @ (if flowPaused fl (controlsOf c s) = v then [] else [?row])\<rparr>"
  proof (cases "flowPaused fl (controlsOf c s) = v")
    case True
    then have same: "?x = controlsOf c s"
      by (cases "controlsOf c s"; cases fl) (auto simp: setFlow_def flowPaused_def)
    show ?thesis
      using run applyOne_run [OF assms(1) ap] True same
      by (auto simp: handleControlsPause_def valid orStatus_def bindE_def tryE_run)
  next
    case False
    have "t = t_audit_update (\<lambda>rows. rows @ [?row]) (s\<lparr>t_controls := controlStored now c ?x s\<rparr>)"
      and r: "resp = Inr (200, ControlsBody (toStatusControls ?x))"
      using False run applyOne_run [OF assms(1) ap]
      by (simp_all add: handleControlsPause_def valid orStatus_def bindE_def tryE_run insertAudit_def nextID_def thenE_def ts)
    then have t: "t = s\<lparr>t_controls := controlStored now c ?x s, t_audit := t_audit s @ [?row]\<rparr>" by (cases s) simp
    show ?thesis using False r by (simp add: t controlsOf_stored ts)
  qed
  then show "resp = Inr (200, ControlsBody (toStatusControls (controlsOf c t)))"
    and "toStatusControls (controlsOf c t) = toStatusControls ?x"
    and "d \<noteq> c \<Longrightarrow> controlsOf d t = controlsOf d s"
    and "t = s\<lparr>t_controls := t_controls t, t_audit := t_audit s @ (if flowPaused fl (controlsOf c s) = v then [] else [?row])\<rparr>"
    by simp_all
qed


section \<open>A pause is lifted only by an audited change\<close>

text \<open>The audit rows that record a resume of a flow of a chain.\<close>

definition resumeRow :: "ControlFlow \<Rightarrow> string \<Rightarrow> ControlsAuditEntry \<Rightarrow> bool" where
  "resumeRow fl c r \<longleftrightarrow> ca_ChainID r = c \<and> ca_Field r = flowField fl \<and> ca_NewValue r = ''false''"

text \<open>The rows the audit trail of \<open>t\<close> has beyond those of \<open>s\<close>.\<close>

definition auditSince :: "store \<Rightarrow> store \<Rightarrow> ControlsAuditEntry list" where
  "auditSince s t = drop (length (t_audit s)) (t_audit t)"

definition audited :: "ControlFlow \<Rightarrow> string \<Rightarrow> store \<Rightarrow> store \<Rightarrow> bool" where
  "audited fl c s t \<longleftrightarrow> (\<exists>rows. t_audit t = t_audit s @ rows \<and>
     (flowPaused fl (controlsOf c s) \<longrightarrow> flowPaused fl (controlsOf c t) \<or> list_ex (resumeRow fl c) rows))"

interpretation aud: step_rel "audited fl c" for fl c
proof unfold_locales
  fix s t u :: store
  show "audited fl c s s" by (simp add: audited_def)
  assume "audited fl c s t" "audited fl c t u"
  then obtain r1 r2 where "t_audit t = t_audit s @ r1" "t_audit u = t_audit t @ r2"
    "flowPaused fl (controlsOf c s) \<longrightarrow> flowPaused fl (controlsOf c t) \<or> list_ex (resumeRow fl c) r1"
    "flowPaused fl (controlsOf c t) \<longrightarrow> flowPaused fl (controlsOf c u) \<or> list_ex (resumeRow fl c) r2"
    unfolding audited_def by blast
  then show "audited fl c s u" unfolding audited_def by (intro exI [of _ "r1 @ r2"]) auto
qed

text \<open>Every method but \<open>controlsRepo.Apply\<close> leaves controls and audit trail alone.\<close>

definition same_controls :: "store \<Rightarrow> store \<Rightarrow> bool" where
  "same_controls s t \<longleftrightarrow> t_controls t = t_controls s \<and> t_audit t = t_audit s"

lemma audited_same: "stays same_controls m \<Longrightarrow> stays (audited fl c) m"
  by (simp add: stays_def same_controls_def audited_def controlsOf_def)

lemma same_controls_inserts:
  "stays same_controls (sequenceRepo_Reserve now res)" "stays same_controls (sweepRepo_Create now j)"
  "stays same_controls (depositRepo_Insert now d)" "stays same_controls (reviewRepo_Open now item)"
  "stays same_controls (ledgerRepo_Append now e)" "stays same_controls (ledgerRepo_AppendFeeOutflow now f)"
  "stays same_controls (ledgerRepo_AppendFeeFundingSpend now g)" "stays same_controls (outboxRepo_Enqueue now ev)"
  by (auto simp: stays_def same_controls_def sequenceRepo_Reserve_def sweepRepo_Create_def depositRepo_Insert_def
      reviewRepo_Open_def ledgerRepo_Append_def ledgerRepo_AppendFeeOutflow_def ledgerRepo_AppendFeeFundingSpend_def
      outboxRepo_Enqueue_def run_defs Let_def amountText_cases split: option.split)

lemma same_controls_withdrawal: "stays same_controls (withdrawalRepo_Create now w)"
  by (rule stays_run, unfold withdrawalRepo_Create_def) (auto simp: run_defs Let_def same_controls_def split: if_splits sum.splits)

lemma same_controls_updates:
  "stays same_controls (sequenceRepo_UpdateStatus now i rfrom rto)" "stays same_controls (sweepRepo_UpdateStatus now jk jfrom jto ju)"
  "stays same_controls (depositRepo_UpdateStatus now i dfrom dto du)"
  "stays same_controls (withdrawalRepo_UpdateStatus now wk wfrom wto wu)"
  by (rule stays_cases, auto simp: same_controls_def seq_update_ok_iff sw_update_ok_iff dep_update_ok_iff wd_update_ok_iff
      dest: seq_update_err sw_update_err dep_update_err wd_update_err)+

lemma same_controls_others:
  "stays same_controls (checkpointRepo_Set now cp)" "stays same_controls (reviewRepo_Resolve now i txt at)"
  "stays same_controls (outboxRepo_MarkDispatched now i at)" "stays same_controls (watchRepo_Upsert wa)"
  "stays same_controls (watchRepo_SetActive ch a b)" "stays same_controls (chainReviewRepo_Open now cr)"
  "stays same_controls (chainReviewRepo_Resolve now ck txt at)"
  by (auto simp: stays_def same_controls_def checkpointRepo_Set_def reviewRepo_Resolve_def reviewRepo_Get_def
      outboxRepo_MarkDispatched_def watchRepo_Upsert_def watchRepo_SetActive_def chainReviewRepo_Open_def
      chainReviewRepo_Resolve_def chainReviewRepo_Get_def run_defs Let_def split: option.split)

lemma same_controls_report: "stays same_controls (reconRepo_SaveReport now rep)"
proof -
  have "observes s t \<Longrightarrow> same_controls s t" for s t by (auto simp: observes_def same_controls_def)
  then show ?thesis using observe_save [of now rep] by (simp add: stays_def)
qed

text \<open>A cleared flag is among the changes, and every change gets its row.\<close>

lemma applyBool_resume: "applyBool field True src = (False, chs) \<Longrightarrow> ControlChange field ''true'' ''false'' \<in> set chs"
  by (auto simp: applyBool_def formatBool_def split: option.splits if_splits)

lemma applyControls_resume:
  assumes "applyControls u x = (y, chs)" "flowPaused fl x" "\<not> flowPaused fl y"
  shows "\<exists>old. ControlChange (flowField fl) old ''false'' \<in> set chs"
  using assms
  by (cases fl) (auto simp: applyControls_def flowPaused_def flowField_def dest!: applyBool_resume split: prod.splits)

lemma forE_audit_rows:
  "\<exists>rows. forE chs (insertAudit now c actor reason) s = (Inr (), t_audit_update (\<lambda>_. t_audit s @ rows) s) \<and>
     map (\<lambda>r. (ca_ChainID r, ca_Field r, ca_NewValue r)) rows = map (\<lambda>ch. (c, cc_field ch, cc_new ch)) chs"
proof (induction chs arbitrary: s)
  case (Cons ch chs)
  let ?row = "\<lparr>ca_ID = nextRowID (map ca_ID (t_audit s)), ca_ChainID = c, ca_Field = cc_field ch, ca_OldValue = cc_old ch,
    ca_NewValue = cc_new ch, ca_Actor = actor, ca_Reason = reason, ca_At = now\<rparr>"
  obtain row where row: "insertAudit now c actor reason ch s = (Inr (), t_audit_update (\<lambda>_. t_audit s @ [row]) s)"
    "(ca_ChainID row, ca_Field row, ca_NewValue row) = (c, cc_field ch, cc_new ch)"
  proof
    show "insertAudit now c actor reason ch s = (Inr (), t_audit_update (\<lambda>_. t_audit s @ [?row]) s)"
      by (cases s) (simp add: insertAudit_def nextID_def)
  qed simp
  obtain rows where "forE chs (insertAudit now c actor reason) (t_audit_update (\<lambda>_. t_audit s @ [row]) s) =
      (Inr (), t_audit_update (\<lambda>_. (t_audit s @ [row]) @ rows) (t_audit_update (\<lambda>_. t_audit s @ [row]) s))"
    "map (\<lambda>r. (ca_ChainID r, ca_Field r, ca_NewValue r)) rows = map (\<lambda>ch. (c, cc_field ch, cc_new ch)) chs"
    using Cons [of "t_audit_update (\<lambda>_. t_audit s @ [row]) s"] by auto
  then show ?case using row by (intro exI [of _ "row # rows"]) (simp add: thenE_def bindE_def)
qed (rule exI [of _ "[]"], simp)

lemma audited_apply: "stays (audited fl c) (controlsRepo_Apply now d u actor reason)"
proof -
  have "audited fl c s (snd (controlsRepo_Apply now d u actor reason s))" for s
  proof (cases "d = []")
    case True
    then show ?thesis by (simp add: controlsRepo_Apply_def audited_def)
  next
    case False
    obtain x chs where ap: "applyControls u (controlsOf d s) = (x, chs)" by fastforce
    show ?thesis
    proof (cases chs)
      case Nil
      then show ?thesis using applyOne_run [OF False ap] by (simp add: audited_def)
    next
      case (Cons ch rest)
      let ?s = "s\<lparr>t_controls := controlStored now d x s\<rparr>"
      obtain rows where rows: "forE chs (insertAudit now d actor reason) ?s = (Inr (), t_audit_update (\<lambda>_. t_audit ?s @ rows) ?s)"
        "map (\<lambda>r. (ca_ChainID r, ca_Field r, ca_NewValue r)) rows = map (\<lambda>ch. (d, cc_field ch, cc_new ch)) chs"
        using forE_audit_rows by blast
      have t: "snd (controlsRepo_Apply now d u actor reason s) = s\<lparr>t_controls := controlStored now d x s, t_audit := t_audit s @ rows\<rparr>"
        using applyOne_run [OF False ap, of now actor reason] rows(1) Cons by simp
      have "list_ex (resumeRow fl c) rows" if was: "flowPaused fl (controlsOf d s)" and lifted: "\<not> flowPaused fl x" and chain: "d = c"
      proof -
        obtain old where "ControlChange (flowField fl) old ''false'' \<in> set chs" using applyControls_resume [OF ap was lifted] by blast
        then have "(d, flowField fl, ''false'') \<in> set (map (\<lambda>ch. (d, cc_field ch, cc_new ch)) chs)" by force
        then show ?thesis unfolding rows(2) [symmetric] using chain by (auto simp: list_ex_iff resumeRow_def)
      qed
      moreover have "flowPaused fl (y\<lparr>oc_ChainID := d, oc_UpdatedAt := now\<rparr>) = flowPaused fl y" for y
        by (simp add: flowPaused_def split: ControlFlow.split)
      ultimately show ?thesis unfolding t audited_def by (auto simp: controlsOf_stored)
    qed
  qed
  then show ?thesis by (simp add: stays_def)
qed

interpretation ac: repo_closed "audited fl c" for fl c
  by unfold_locales (fact same_controls_inserts [THEN audited_same] same_controls_withdrawal [THEN audited_same] same_controls_updates [THEN audited_same]
    same_controls_others [THEN audited_same] same_controls_report [THEN audited_same] audited_apply)+

text \<open>So a paused flow is paused in every later store whose trail shows no resume since.\<close>

lemma pause_lasts:
  assumes "flowPaused fl (controlsOf c t)" "appsteps L ok t u" "\<not> list_ex (resumeRow fl c) (auditSince t u)"
  shows "flowPaused fl (controlsOf c u)"
  using ac.closed_steps [OF assms(2), of fl c] assms(1,3) by (auto simp: audited_def auditSince_def)

section \<open>The operations of a paused flow\<close>

lemma pause_stored:
  assumes "c \<noteq> []" "fl \<in> set AllControlFlows"
    and "handleControlsPause True now c xActor (Inr \<lparr>cq_Flow = fl, cq_Reason = reason\<rparr>) s = (resp, t)"
  shows "flowPaused fl (controlsOf c t)"
  using pause_effect(2) [OF assms] assms(2)
  by (auto simp: AllControlFlows_def flowPaused_def setFlow_def toStatusControls_def)

lemma pause_frame:
  assumes "c \<noteq> []" "fl \<in> set AllControlFlows"
    and "handleControlsPause v now c xActor (Inr \<lparr>cq_Flow = fl, cq_Reason = reason\<rparr>) s = (resp, t)"
  shows "t_withdrawals t = t_withdrawals s" "t_deposits t = t_deposits s" "t_outbox t = t_outbox s"
  by (subst pause_effect(4) [OF assms], simp)+

lemma pause_credit_inv:
  assumes "c \<noteq> []" "fl \<in> set AllControlFlows" "credit_inv s"
    and "handleControlsPause v now c xActor (Inr \<lparr>cq_Flow = fl, cq_Reason = reason\<rparr>) s = (resp, t)"
  shows "credit_inv t"
proof -
  have "store_uniq t"
    using app_handlers(1) [THEN staysD, OF assms(4)] appsteps_syssteps assms(3) by (fastforce simp: credit_inv_def)
  then show ?thesis using assms(3) unfolding credit_inv_def pause_frame [OF assms(1,2,4)] by blast
qed

definition onChain :: "string \<Rightarrow> string \<Rightarrow> store \<Rightarrow> bool" where
  "onChain k c s \<longleftrightarrow> (\<forall>w \<in> set (t_withdrawals s). w_WithdrawalID w = k \<longrightarrow> w_ChainID w = c)"

lemma onChain_find: "onChain k c s \<Longrightarrow> find (\<lambda>w. w_WithdrawalID w = k) (t_withdrawals s) = Some w \<Longrightarrow> w_ChainID w = c"
  by (auto simp: onChain_def dest: find_SomeD)

lemmas gated_run = bindE_def Get_run sweepGet_run controlsRepo_Get_run flowPaused_def tryE_run

lemma paused_sign: "flowPaused FlowSigning (controlsOf c s) \<Longrightarrow> onChain k c s \<Longrightarrow> snd (Sign L now W sg k s) = s"
  by (auto simp: Sign_def gated_run dest: onChain_find split: option.split)

lemma paused_broadcast: "flowPaused FlowBroadcast (controlsOf c s) \<Longrightarrow> onChain k c s \<Longrightarrow> snd (BroadcastWd now ch k s) = s"
  by (auto simp: BroadcastWd_def orReturn_def gated_run dest: onChain_find split: option.split list.split)

lemma paused_sweep_broadcast:
  "flowPaused FlowBroadcast (controlsOf (en_chain G) s) \<or> flowPaused FlowSweep (controlsOf (en_chain G) s) \<Longrightarrow>
   snd (Engine_Broadcast G now ch k s) = s"
  by (auto simp: Engine_Broadcast_def gated_run split: option.split list.split)

lemma paused_sweep:
  assumes "flowPaused FlowSweep (controlsOf (en_chain G) s)"
  shows "snd (Plan L G now ch sg s) = s" "snd (Prepare L G now ch sg k s) = s" "snd (Revisit L G now ch sg k s) = s"
  using assms by (auto simp: Plan_def Prepare_def Revisit_def gated_run split: option.split)

lemma paused_gate: "flowPaused FlowCredit (controlsOf c s) \<Longrightarrow> \<not> gate_open s c"
  by (auto simp: gate_open_def flowPaused_def controlsOf_def zeroControls_def split: option.splits)

lemma paused_credit: "flowPaused FlowCredit (controlsOf (d_ChainID d) s) \<Longrightarrow> snd (CreditDeposit E now d s) = s"
  by (auto simp: CreditDeposit_def LoadCreditGate_def gated_run with_tx_def split: option.split sum.split prod.split)

lemma paused_cycle:
  assumes "flowPaused FlowCredit (controlsOf c s)" "credit_inv s" "Cycle K E now cfg F i fb s = (r, t)"
    and "d' \<in> set (t_deposits t)" "d_ChainID d' = c" "credited d'"
  shows "\<exists>d \<in> set (t_deposits s). d_ID d = d_ID d' \<and> credited d"
proof (cases "fe_LatestBlock F")
  case (Inl e)
  then have "t = s" using assms(3) by (simp add: Cycle_def)
  then show ?thesis using assms(4,6) by blast
next
  case (Inr latest)
  have "credits_allowed (bk_Height latest) (sc_Confirmations cfg) s t"
    using staysD [OF cycle_Cycle [OF Inr] assms(3)] assms(2) by (simp add: inv_rel_def cycle_step_def)
  then show ?thesis using assms(4-6) paused_gate [OF assms(1)] by (auto simp: credits_allowed_def)
qed

section \<open>Sweeps while signing is paused\<close>

text \<open>
  \<open>Prepare\<close> reads the signing control after it has reserved the slot and checked the
  economics, so it still moves the job; but the job gets no signature.
\<close>

definition signsNothing :: "store \<Rightarrow> store \<Rightarrow> bool" where
  "signsNothing s t \<longleftrightarrow> (\<forall>j \<in> set (t_sweeps t). j_SignedTxBytes j \<noteq> [] \<longrightarrow>
     (\<exists>j0 \<in> set (t_sweeps s). j_SweepID j0 = j_SweepID j \<and> j_SignedTxBytes j0 = j_SignedTxBytes j))"

interpretation sno: step_rel signsNothing
proof unfold_locales
  fix s t u
  show "signsNothing s s" by (auto simp: signsNothing_def)
  show "signsNothing s t \<Longrightarrow> signsNothing t u \<Longrightarrow> signsNothing s u" unfolding signsNothing_def by metis
qed

lemma signsNothing_same: "t_sweeps t = t_sweeps s \<Longrightarrow> signsNothing s t"
  by (auto simp: signsNothing_def)

lemma signsNothing_update:
  assumes "su_SignedTxBytes u = None"
  shows "stays signsNothing (sweepRepo_UpdateStatus now k from to u)"
  by (rule stays_cases)
     (use assms in \<open>auto simp: sw_update_ok_iff signsNothing_def map_where_def applySweepUpdate_def dest: sw_update_err\<close>)

lemma signsNothing_create:
  assumes "j_SignedTxBytes j = []"
  shows "stays signsNothing (sweepRepo_Create now j)"
proof (rule stays_cases)
  fix s t e
  assume "sweepRepo_Create now j s = (Inl e, t)"
  then have "t = s" by (auto simp: sweepRepo_Create_def run_defs Let_def split: if_splits sum.splits)
  then show "signsNothing s t" by (simp add: sno.R_refl)
qed (use assms in \<open>auto simp: signsNothing_def dest!: sw_create_ok\<close>)

lemma signsNothing_sequences:
  "stays signsNothing (sequenceRepo_Reserve now res)" "stays signsNothing (sequenceRepo_UpdateStatus now i rfrom rto)"
proof -
  show "stays signsNothing (sequenceRepo_UpdateStatus now i rfrom rto)"
    by (rule stays_cases) (auto simp: seq_update_ok_iff intro: signsNothing_same dest: seq_update_err)
  show "stays signsNothing (sequenceRepo_Reserve now res)"
    by (auto simp: stays_def sequenceRepo_Reserve_def run_defs Let_def intro: signsNothing_same split: option.split)
qed

lemma signsNothing_reads:
  "stays signsNothing (sequenceRepo_GetByWorkRef ref)" "stays signsNothing (sequenceRepo_ListUnconsumed c a)"
  "stays signsNothing (sweepRepo_Get k)" "stays signsNothing (feeFundingCapExceeded G ch fee)" "stays signsNothing (controlsRepo_Get c)"
  "stays signsNothing (watchRepo_ListActive c)"
  by (rule sno.stays_unchanged, simp add: reads_unchanged cap_unchanged)+

lemmas signsNothing_ops = sno.stays_rules signsNothing_update signsNothing_sequences signsNothing_reads

lemma signsNothing_jobs:
  "stays signsNothing (deferJob now k)" "stays signsNothing (cancelJob now job)" "stays signsNothing (deferOrCancel now job)"
  unfolding deferOrCancel_def cancelJob_def deferJob_def terminateJob_def releaseUnsignedReservation_def tolerateConflict_def
  by (intro signsNothing_ops; simp add: noSweepUpdate_def)+

lemma signsNothing_checkFunding: "stays signsNothing (checkFunding G now ch job balance fee)"
  unfolding checkFunding_def createFundingJob_def feeWallet_def Let_def
  by (intro signsNothing_ops signsNothing_jobs signsNothing_create) (simp add: fundingJob_def)

lemma paused_prepareReserved:
  "oc_SigningPaused controls \<Longrightarrow> stays signsNothing (prepareReserved L G now ch g job controls res)"
  unfolding prepareReserved_def engine_sign_def
  by (intro signsNothing_ops signsNothing_jobs signsNothing_checkFunding) (simp_all add: noSweepUpdate_def sno.stays_throw)

lemma signsNothing_reserve: "stays signsNothing (Manager_Reserve now ch c a ref)"
  unfolding Manager_Reserve_def reserveNew_def reserveTx_def Let_def by (intro signsNothing_ops)

lemma paused_prepare:
  assumes "flowPaused FlowSigning (controlsOf (en_chain G) s)"
  shows "signsNothing s (snd (Prepare L G now ch sg k s))"
proof -
  have reserved: "stays signsNothing (case sg of None \<Rightarrow> throw ErrNoSigner | Some g \<Rightarrow>
      bindE (tryE (Manager_Reserve now ch (j_ChainID j) (j_SourceAddress j) (sweepRef (j_SweepID j)))) (\<lambda>r. case r of
         Inl e \<Rightarrow> if e = ErrReleasedSlotUnusable then cancelJob now j else throw e
       | Inr res \<Rightarrow> prepareReserved L G now ch g j (controlsOf (en_chain G) s) res))" for j
    using assms by (intro sno.stays_rules signsNothing_reserve signsNothing_jobs paused_prepareReserved) (simp add: flowPaused_def)
  show ?thesis
  proof (cases "find (\<lambda>j. j_SweepID j = k) (t_sweeps s)")
    case None
    then show ?thesis by (simp add: Prepare_def bindE_def sweepGet_run sno.R_refl)
  next
    case (Some j)
    then show ?thesis using reserved [of j, unfolded stays_def, rule_format, of s]
      by (simp add: Prepare_def bindE_def [of "sweepRepo_Get k"] bindE_def [of "controlsRepo_Get (en_chain G)"] sweepGet_run controlsRepo_Get_run sno.R_refl)
  qed
qed

section \<open>Recovery does not look at the controls\<close>

text \<open>
  \<open>Recover\<close> of the workflow and of the sweep engine send persisted bytes again without
  reading the controls.  No service calls them; a caller who does gets the same
  outcome and the same rows whatever is paused.
\<close>

lemma wd_update_controls:
  "withdrawalRepo_UpdateStatus now k from to u (s\<lparr>t_controls := cs\<rparr>) =
     apsnd (t_controls_update (\<lambda>_. cs)) (withdrawalRepo_UpdateStatus now k from to u s)"
  by (auto simp: withdrawalRepo_UpdateStatus_def run_defs split: sum.splits prod.splits option.splits)

lemma sw_update_controls:
  "sweepRepo_UpdateStatus now k from to u (s\<lparr>t_controls := cs\<rparr>) =
     apsnd (t_controls_update (\<lambda>_. cs)) (sweepRepo_UpdateStatus now k from to u s)"
  by (auto simp: sweepRepo_UpdateStatus_def run_defs split: sum.splits prod.splits option.splits)

lemma recover_ignores_controls:
  "Recover now ch k (s\<lparr>t_controls := cs\<rparr>) = apsnd (t_controls_update (\<lambda>_. cs)) (Recover now ch k s)"
  by (auto simp: Recover_def orReturn_def bindE_def tryE_run Get_run wd_update_controls apsnd_def split: option.split sum.split prod.split)

lemma sweep_recover_ignores_controls:
  "Engine_Recover now ch k (s\<lparr>t_controls := cs\<rparr>) = apsnd (t_controls_update (\<lambda>_. cs)) (Engine_Recover now ch k s)"
  by (auto simp: Engine_Recover_def bindE_def liftR_def sweepGet_run sw_update_controls split: option.split sum.split prod.split)

end
