(* ===== verification/Go_Text.thy ===== *)
theory Go_Text
  imports Address
begin

text \<open>
  The string functions of the Go standard library that the signer transports and
  the configuration use: \<open>strings.TrimSpace\<close>, \<open>TrimSuffix\<close>, \<open>HasSuffix\<close>, \<open>EqualFold\<close>, the
  conversions between strings and bytes, and standard base64.  A Go string is its
  bytes.
\<close>

section \<open>Bytes and strings\<close>

definition stringOf :: "bytes \<Rightarrow> string" where
  "stringOf bz = map (\<lambda>b. char_of (unat b)) bz"

definition bytesOf :: "string \<Rightarrow> bytes" where
  "bytesOf s = map (\<lambda>c. word_of_nat (of_char c)) s"

lemma stringOf_bytesOf [simp]: "stringOf (bytesOf s) = s"
proof -
  have "char_of (unat (word_of_nat (of_char c) :: 8 word)) = c" for c :: char
    by (simp add: unat_of_nat take_bit_eq_mod)
  then show ?thesis by (simp add: stringOf_def bytesOf_def comp_def)
qed

section \<open>Trimming and comparison\<close>

text \<open>The UTF-8 encodings of the code points with the property White\_Space.\<close>

definition spaceRunes :: "string list" where
  "spaceRunes = map (map char_of) ([[9], [10], [11], [12], [13], [32], [0xC2, 0x85], [0xC2, 0xA0], [0xE1, 0x9A, 0x80]]
     @ map (\<lambda>i. [0xE2, 0x80, i]) [0x80..<0x8B] @ [[0xE2, 0x80, 0xA8], [0xE2, 0x80, 0xA9], [0xE2, 0x80, 0xAF],
     [0xE2, 0x81, 0x9F], [0xE3, 0x80, 0x80 :: nat]])"

function trimRunes :: "string list \<Rightarrow> string \<Rightarrow> string" where
  "trimRunes rs s = (case find (\<lambda>r. r \<noteq> [] \<and> hasPrefix s r) rs of
     None \<Rightarrow> s | Some r \<Rightarrow> trimRunes rs (drop (length r) s))"
  by pat_completeness auto
termination
proof (relation "measure (\<lambda>(_, s). length s)")
  fix rs s r
  assume "find (\<lambda>r. r \<noteq> [] \<and> hasPrefix s r) rs = Some r"
  then have "r \<noteq> []" "take (length r) s = r" by (auto simp: find_Some_iff hasPrefix_def)
  then have "s \<noteq> []" "0 < length r" by auto
  then show "((rs, drop (length r) s), rs, s) \<in> measure (\<lambda>(_, s). length s)" by simp
qed simp

declare trimRunes.simps [simp del]

definition TrimSpace :: "string \<Rightarrow> string" where
  "TrimSpace s = rev (trimRunes (map rev spaceRunes) (rev (trimRunes spaceRunes s)))"

definition HasSuffix :: "string \<Rightarrow> string \<Rightarrow> bool" where
  "HasSuffix s p \<longleftrightarrow> hasPrefix (rev s) (rev p)"

definition TrimSuffix :: "string \<Rightarrow> string \<Rightarrow> string" where
  "TrimSuffix s p = (if HasSuffix s p then take (length s - length p) s else s)"

text \<open>Text that starts and ends with a printable ASCII character stays as it is.\<close>

definition printable :: "char \<Rightarrow> bool" where
  "printable c \<longleftrightarrow> 33 \<le> (of_char c :: nat) \<and> (of_char c :: nat) \<le> 126"

lemma trimRunes_stop:
  assumes "list_all (\<lambda>r. r \<noteq> [] \<and> \<not> printable (hd r)) rs" "s = [] \<or> printable (hd s)"
  shows "trimRunes rs s = s"
proof -
  have "\<not> (r \<noteq> [] \<and> hasPrefix s r)" if "r \<in> set rs" for r
  proof
    assume r: "r \<noteq> [] \<and> hasPrefix s r"
    then have "s \<noteq> []" "hd s = hd r" by (auto simp: hasPrefix_def) (metis hd_take length_greater_0_conv)
    then show False using that assms r by (auto simp: list_all_iff)
  qed
  then have "find (\<lambda>r. r \<noteq> [] \<and> hasPrefix s r) rs = None" by (simp add: find_None_iff)
  then show ?thesis by (subst trimRunes.simps) simp
qed

lemma TrimSpace_printable [simp]: "s = [] \<or> (printable (hd s) \<and> printable (last s)) \<Longrightarrow> TrimSpace s = s"
proof -
  assume s: "s = [] \<or> (printable (hd s) \<and> printable (last s))"
  have "list_all (\<lambda>r. r \<noteq> [] \<and> \<not> printable (hd r)) spaceRunes" "list_all (\<lambda>r. r \<noteq> [] \<and> \<not> printable (hd r)) (map rev spaceRunes)"
    by code_simp+
  then show "TrimSpace s = s" using s by (auto simp: TrimSpace_def trimRunes_stop hd_rev)
qed

text \<open>So that evaluation looks at the runes only where it has to.\<close>

lemma TrimSpace_code [code]:
  "TrimSpace s = (if s = [] \<or> (printable (hd s) \<and> printable (last s)) then s
     else rev (trimRunes (map rev spaceRunes) (rev (trimRunes spaceRunes s))))"
  by (simp add: TrimSpace_def [symmetric])

text \<open>
  \<open>strings.EqualFold\<close> against a constant without the letters k and s, whose only fold
  partners are the other ASCII case.
\<close>

definition asciiLower :: "char \<Rightarrow> char" where
  "asciiLower c = (if 65 \<le> (of_char c :: nat) \<and> (of_char c :: nat) \<le> 90 then char_of (of_char c + 32 :: nat) else c)"

definition EqualFold :: "string \<Rightarrow> string \<Rightarrow> bool" where
  "EqualFold s t \<longleftrightarrow> map asciiLower s = map asciiLower t"

lemma EqualFold_refl [simp]: "EqualFold s s"
  by (simp add: EqualFold_def)

section \<open>Standard base64\<close>

definition b64alphabet :: string where
  "b64alphabet = ''ABCDEFGHIJKLMNOPQRSTUVWXYZabcdefghijklmnopqrstuvwxyz0123456789+/''"

definition b64char :: "nat \<Rightarrow> char" where
  "b64char n = b64alphabet ! (n mod 64)"

fun b64value :: "string \<Rightarrow> char \<Rightarrow> nat option" where
  "b64value [] c = None"
| "b64value (x # xs) c = (if x = c then Some 0 else map_option Suc (b64value xs c))"

definition b64quad :: "nat \<Rightarrow> string" where
  "b64quad n = [b64char (n div 262144), b64char (n div 4096), b64char (n div 64), b64char n]"

fun EncodeToString :: "bytes \<Rightarrow> string" where
  "EncodeToString [] = []"
| "EncodeToString [a] = take 2 (b64quad (unat a * 65536)) @ ''==''"
| "EncodeToString [a, b] = take 3 (b64quad (unat a * 65536 + unat b * 256)) @ ''=''"
| "EncodeToString (a # b # c # bz) = b64quad (unat a * 65536 + unat b * 256 + unat c) @ EncodeToString bz"

text \<open>Four characters as a 24-bit number, and its three bytes.\<close>

definition b64join :: "char \<Rightarrow> char \<Rightarrow> char \<Rightarrow> char \<Rightarrow> nat option" where
  "b64join p q r t = (case (b64value b64alphabet p, b64value b64alphabet q, b64value b64alphabet r, b64value b64alphabet t) of
     (Some w, Some x, Some y, Some z) \<Rightarrow> Some (w * 262144 + x * 4096 + y * 64 + z) | _ \<Rightarrow> None)"

definition byte3 :: "nat \<Rightarrow> bytes" where
  "byte3 n = [word_of_nat (n div 65536), word_of_nat (n div 256), word_of_nat n]"

text \<open>
  \<open>DecodeString\<close> skips line breaks, reads groups of four, and accepts padding in the
  last group only; the unused bits before the padding are ignored.
\<close>

fun b64decode :: "string \<Rightarrow> bytes option" where
  "b64decode [] = Some []"
| "b64decode (p # q # r # t # cs) =
     (if t = CHR ''='' \<and> cs = [] then
        (if r = CHR ''='' then map_option (\<lambda>n. take 1 (byte3 n)) (b64join p q CHR ''A'' CHR ''A'')
         else map_option (\<lambda>n. take 2 (byte3 n)) (b64join p q r CHR ''A''))
      else case b64join p q r t of None \<Rightarrow> None | Some n \<Rightarrow> map_option ((@) (byte3 n)) (b64decode cs))"
| "b64decode cs = None"

definition DecodeString :: "string \<Rightarrow> bytes option" where
  "DecodeString s = b64decode (filter (\<lambda>c. c \<noteq> CHR 0x0A \<and> c \<noteq> CHR 0x0D) s)"

section \<open>Base64 decodes what it encodes\<close>

lemma b64value_nth: "distinct xs \<Longrightarrow> i < length xs \<Longrightarrow> b64value xs (xs ! i) = Some i"
proof (induction xs arbitrary: i)
  case (Cons x xs)
  then show ?case by (cases i) (auto simp: nth_mem)
qed simp

lemma b64alphabet_ok: "distinct b64alphabet" "length b64alphabet = 64" "CHR ''='' \<notin> set b64alphabet"
    "CHR 0x0A \<notin> set b64alphabet" "CHR 0x0D \<notin> set b64alphabet"
  by (simp_all add: b64alphabet_def)

lemma b64value_char [simp]: "b64value b64alphabet (b64char n) = Some (n mod 64)"
  by (simp add: b64char_def b64value_nth b64alphabet_ok)

lemma b64char_in: "b64char n \<in> set b64alphabet"
  by (simp add: b64char_def b64alphabet_ok)

lemma b64char_neq [simp]: "b64char n \<noteq> CHR ''=''" "b64char n \<noteq> CHR 0x0A" "b64char n \<noteq> CHR 0x0D"
  using b64char_in [of n] b64alphabet_ok by metis+

lemma quad_join: "n div 262144 * 262144 + n div 4096 mod 64 * 4096 + n div 64 mod 64 * 64 + n mod 64 = (n :: nat)"
proof -
  have "n div 64 = n div 4096 * 64 + n div 64 mod 64" "n div 4096 = n div 262144 * 64 + n div 4096 mod 64"
    using div_mult_mod_eq [of "n div 64" 64] div_mult_mod_eq [of "n div 4096" 64] by (simp_all add: div_mult2_eq [symmetric])
  then show ?thesis using div_mult_mod_eq [of n 64] by linarith
qed

lemma b64join_quad:
  assumes "n < 16777216"
  shows "b64join (b64char (n div 262144)) (b64char (n div 4096)) (b64char (n div 64)) (b64char n) = Some n"
proof -
  have "n div 262144 < 64" using assms by (simp add: div_less_iff_less_mult)
  then show ?thesis by (simp add: b64join_def quad_join)
qed

lemma b64char_pad: "64 dvd n \<Longrightarrow> b64char n = CHR ''A''"
  by (simp add: b64char_def b64alphabet_def)

lemma unat_byte [simp]: "unat (a :: 8 word) < 256"
  using unsigned_less [of a] by simp

lemma byte_of: "word_of_nat (unat (a :: 8 word) + 256 * k) = a"
proof -
  have "(word_of_nat (256 * k) :: 8 word) = 0" by (subst word_of_nat_eq_0_iff) simp
  then show ?thesis by (simp del: of_nat_mult)
qed

lemma byte3_join: "byte3 (unat a * 65536 + unat b * 256 + unat c) = [a, b, c]"
proof -
  have n: "unat a * 65536 + unat b * 256 + unat c = unat c + 256 * (unat b + 256 * unat a)" by simp
  have 2: "(unat c + 256 * (unat b + 256 * unat a)) div 256 = unat b + 256 * unat a"
    by (simp only: div_mult_self2 div_less [OF unat_byte] add_0)
  have 1: "(unat c + 256 * (unat b + 256 * unat a)) div 65536 = unat a + 256 * 0"
    using arg_cong [OF 2, of "\<lambda>x. x div 256"] by (simp add: div_mult2_eq [symmetric])
  show ?thesis unfolding byte3_def n 1 2 by (simp only: byte_of)
qed

lemma quad_bound: "unat (a :: 8 word) * 65536 + unat (b :: 8 word) * 256 + unat (c :: 8 word) < 16777216"
  using unat_byte [of a] unat_byte [of b] unat_byte [of c] by linarith

lemma encode_clean: "filter (\<lambda>c. c \<noteq> CHR 0x0A \<and> c \<noteq> CHR 0x0D) (EncodeToString bz) = EncodeToString bz"
  by (induction bz rule: EncodeToString.induct) (simp_all add: b64quad_def)

lemma decode_encode: "b64decode (EncodeToString bz) = Some bz"
proof (induction bz rule: EncodeToString.induct)
  case (2 a)
  have "unat a * 65536 div 64 = unat a * 1024" by simp
  then have "b64char (unat a * 65536 div 64) = CHR ''A''" "b64char (unat a * 65536) = CHR ''A''"
    by (simp_all only:) (rule b64char_pad, rule dvd_mult, simp)+
  then show ?case
    using b64join_quad [OF quad_bound [of a 0 0]] byte3_join [of a 0 0] by (simp add: b64quad_def)
next
  case (3 a b)
  have "b64char (unat a * 65536 + unat b * 256) = CHR ''A''"
    by (rule b64char_pad) (intro dvd_add dvd_mult, simp_all)
  then show ?case
    using b64join_quad [OF quad_bound [of a b 0]] byte3_join [of a b 0] by (simp add: b64quad_def)
next
  case (4 a b c bz)
  then show ?case using b64join_quad [OF quad_bound [of a b c]] by (simp add: b64quad_def byte3_join)
qed simp

lemma DecodeString_EncodeToString [simp]: "DecodeString (EncodeToString bz) = Some bz"
  by (simp add: DecodeString_def encode_clean decode_encode)

end
