(* ===== verification/Signers.thy ===== *)
theory Signers
  imports Withdrawals Go_Text
begin

text \<open>
  The signer boundary and its backends: the error codes (\<open>signer/errors.go\<close>), the local
  test signer (\<open>signer/local\<close>), the gRPC transport with its reference server
  (\<open>signer/grpcremote\<close>), and the subprocess transport (\<open>signer/execsigner\<close>) with the
  demo signer on its other side (\<open>cmd/sovren-exec-signer-demo\<close>).  Key derivation,
  secp256k1, the protobuf and wire decoders, JSON and the process are parameters;
  contexts, deadlines and TLS handshakes are left out, and the texts of
  details carry no lengths or names.
\<close>

section \<open>Errors, requests and responses\<close>

definition CodeKeyNotFound :: string where "CodeKeyNotFound = ''KEY_NOT_FOUND''"
definition CodeSummaryMismatch :: string where "CodeSummaryMismatch = ''SUMMARY_MISMATCH''"
definition CodePolicyRejected :: string where "CodePolicyRejected = ''POLICY_REJECTED''"
definition CodeInternal :: string where "CodeInternal = ''INTERNAL''"

text \<open>A \<open>*signer.Error\<close> with its code and detail, or any other error.\<close>

datatype sgerr = SgErr (sg_Code: string) (sg_Detail: string) | PlainErr string

definition CodeOf :: "sgerr \<Rightarrow> string" where
  "CodeOf e = (case e of SgErr c d \<Rightarrow> c | PlainErr m \<Rightarrow> CodeInternal)"

definition signerCodes :: "string list" where
  "signerCodes = [CodeKeyNotFound, CodeSummaryMismatch, CodePolicyRejected, CodeSignerUnavailable, CodeInternal]"

record PublicKeyResponse =
  kr_KeyRef :: string
  kr_Algorithm :: string
  kr_PublicKeyCompressed :: bytes

record SigningResponse =
  sn_KeyRef :: string
  sn_Signature :: bytes
  sn_PubKeyCompressed :: bytes

definition AlgorithmSecp256k1 :: string where "AlgorithmSecp256k1 = ''secp256k1''"

record backend =
  GetPublicKey :: "string \<Rightarrow> sgerr + PublicKeyResponse"
  SignDocWith :: "SigningRequest \<Rightarrow> sgerr + SigningResponse"

text \<open>
  What the workflow and the engine read of a backend: the code of an error, the key,
  and the signature with its key.
\<close>

definition asSigner :: "backend \<Rightarrow> signer" where
  "asSigner B = \<lparr>sg_GetPublicKey = (\<lambda>k. case GetPublicKey B k of Inl e \<Rightarrow> Inl (SignerErr (CodeOf e))
       | Inr r \<Rightarrow> Inr (kr_PublicKeyCompressed r)),
     sg_Sign = (\<lambda>q. case SignDocWith B q of Inl e \<Rightarrow> Inl (SignerErr (CodeOf e))
       | Inr r \<Rightarrow> Inr \<lparr>sr_Signature = sn_Signature r, sr_PubKeyCompressed = sn_PubKeyCompressed r\<rparr>)\<rparr>"

section \<open>The local signer\<close>

text \<open>
  The library functions the local signer calls: \<open>proto.Unmarshal\<close> of the parts of a sign
  doc, \<open>protowire\<close> (a negative length is \<open>None\<close>), and the private key's operations.
\<close>

record keylib =
  ProtoSignDoc :: "bytes \<Rightarrow> SignDocMsg option"
  ProtoTxBody :: "bytes \<Rightarrow> TxBody option"
  ProtoAuthInfo :: "bytes \<Rightarrow> AuthInfo option"
  ConsumeTag :: "bytes \<Rightarrow> (nat \<times> nat \<times> nat) option"
  ConsumeFieldValue :: "nat \<Rightarrow> nat \<Rightarrow> bytes \<Rightarrow> nat option"
  ConsumeBytes :: "bytes \<Rightarrow> (bytes \<times> nat) option"
  PrivPubKey :: "bytes \<Rightarrow> bytes"
  PrivSign :: "bytes \<Rightarrow> bytes \<Rightarrow> bytes option"

record Options =
  op_UnsafeTestOnly :: bool
  op_NetworkType :: string

type_synonym keyring = "string \<rightharpoonup> bytes"

definition NewLocal :: "Options \<Rightarrow> sgerr + keyring" where
  "NewLocal opts =
     (if EqualFold (op_NetworkType opts) ''mainnet'' then Inl (SgErr CodePolicyRejected ''unsafe-local signer refused: network_type is mainnet'')
      else if \<not> op_UnsafeTestOnly opts then Inl (SgErr CodePolicyRejected ''unsafe-local signer requires UnsafeTestOnly=true'')
      else Inr Map.empty)"

definition ImportKey :: "string \<Rightarrow> bytes \<Rightarrow> keyring \<Rightarrow> sgerr + keyring" where
  "ImportKey ref secret S =
     (if length secret \<noteq> 32 then Inl (SgErr CodeInternal ''secp256k1 secret must be 32 bytes'') else Inr (S(ref \<mapsto> secret)))"

definition keyFor :: "keyring \<Rightarrow> string \<Rightarrow> sgerr + bytes" where
  "keyFor S ref = (case S ref of None \<Rightarrow> Inl (SgErr CodeKeyNotFound (''no key for ref '' @ ref)) | Some k \<Rightarrow> Inr k)"

definition Local_GetPublicKey :: "keylib \<Rightarrow> keyring \<Rightarrow> string \<Rightarrow> sgerr + PublicKeyResponse" where
  "Local_GetPublicKey X S ref = (case keyFor S ref of Inl e \<Rightarrow> Inl e
     | Inr priv \<Rightarrow> Inr \<lparr>kr_KeyRef = ref, kr_Algorithm = AlgorithmSecp256k1, kr_PublicKeyCompressed = PrivPubKey X priv\<rparr>)"

text \<open>
  \<open>eachField\<close>: the callback as a fold that may fail.  A round consumes at least the tag,
  so one round per byte is enough.
\<close>

primrec eachField :: "keylib \<Rightarrow> (nat \<Rightarrow> bytes \<Rightarrow> 'a \<Rightarrow> 'a option) \<Rightarrow> nat \<Rightarrow> bytes \<Rightarrow> 'a \<Rightarrow> 'a option" where
  "eachField X f 0 b acc = (if b = [] then Some acc else None)"
| "eachField X f (Suc n) b acc =
     (if b = [] then Some acc
      else case ConsumeTag X b of None \<Rightarrow> None
      | Some (num, typ, k) \<Rightarrow>
          if typ \<noteq> 2 then (case ConsumeFieldValue X num typ (drop k b) of None \<Rightarrow> None
            | Some m \<Rightarrow> eachField X f n (drop m (drop k b)) acc)
          else (case ConsumeBytes X (drop k b) of None \<Rightarrow> None
            | Some (v, m) \<Rightarrow> (case f num v acc of None \<Rightarrow> None
              | Some acc' \<Rightarrow> eachField X f n (drop m (drop k b)) acc')))"

record wireCoin =
  wc_denom :: string
  wc_amount :: string

record msgSend =
  wm_fromAddress :: string
  wm_toAddress :: string
  wm_amount :: "wireCoin list"

definition coinField :: "nat \<Rightarrow> bytes \<Rightarrow> wireCoin \<Rightarrow> wireCoin option" where
  "coinField num v c = Some (if num = 1 then c\<lparr>wc_denom := stringOf v\<rparr>
     else if num = 2 then c\<lparr>wc_amount := stringOf v\<rparr> else c)"

definition decodeCoin :: "keylib \<Rightarrow> bytes \<Rightarrow> wireCoin option" where
  "decodeCoin X v = eachField X coinField (length v) v \<lparr>wc_denom = [], wc_amount = []\<rparr>"

definition sendField :: "keylib \<Rightarrow> nat \<Rightarrow> bytes \<Rightarrow> msgSend \<Rightarrow> msgSend option" where
  "sendField X num v m =
     (if num = 1 then Some (m\<lparr>wm_fromAddress := stringOf v\<rparr>)
      else if num = 2 then Some (m\<lparr>wm_toAddress := stringOf v\<rparr>)
      else if num = 3 then (case decodeCoin X v of None \<Rightarrow> None | Some c \<Rightarrow> Some (m\<lparr>wm_amount := wm_amount m @ [c]\<rparr>))
      else Some m)"

definition decodeMsgSend :: "keylib \<Rightarrow> bytes \<Rightarrow> msgSend option" where
  "decodeMsgSend X b = eachField X (sendField X) (length b) b \<lparr>wm_fromAddress = [], wm_toAddress = [], wm_amount = []\<rparr>"

text \<open>\<open>sdkmath.Int.String\<close>, of an unset integer too.\<close>

definition intText :: "int option \<Rightarrow> string" where
  "intText v = (case v of None \<Rightarrow> ''<nil>'' | Some n \<Rightarrow> show_int n)"

definition mismatch :: "string \<Rightarrow> sgerr + 'a" where
  "mismatch field = Inl (SgErr CodeSummaryMismatch field)"

definition feeMismatch :: "FeeMsg \<Rightarrow> SigningSummary \<Rightarrow> string option" where
  "feeMismatch fee sm = (case f_Amount fee of
       [] \<Rightarrow> if ss_FeeBaseUnits sm \<noteq> ''0'' then Some ''fee_base_units'' else None
     | [c] \<Rightarrow> if c_Denom c \<noteq> ss_Denom sm then Some ''fee denom''
             else if intText (c_Amount c) \<noteq> ss_FeeBaseUnits sm then Some ''fee_base_units'' else None
     | _ \<Rightarrow> Some ''fee coin count'')"

text \<open>The checks from the decoded message on, in the order of \<open>verifySummary\<close>.\<close>

definition verifyMessage :: "keylib \<Rightarrow> bytes \<Rightarrow> SigningSummary \<Rightarrow> string option" where
  "verifyMessage X value sm = (case decodeMsgSend X value of None \<Rightarrow> Some ''message undecodable''
     | Some msg \<Rightarrow>
         if wm_fromAddress msg \<noteq> ss_SenderAddress sm then Some ''sender_address''
         else if wm_toAddress msg \<noteq> ss_RecipientAddress sm then Some ''recipient_address''
         else (case wm_amount msg of
           [c] \<Rightarrow> if wc_denom c \<noteq> ss_Denom sm then Some ''denom''
                 else if wc_amount c \<noteq> ss_AmountBaseUnits sm then Some ''amount_base_units'' else None
         | _ \<Rightarrow> Some ''amount coin count''))"

definition verifyAuth :: "AuthInfo \<Rightarrow> SigningSummary \<Rightarrow> string option" where
  "verifyAuth ai sm = (case ai_Fee ai of None \<Rightarrow> Some ''fee missing''
     | Some fee \<Rightarrow> (case feeMismatch fee sm of Some field \<Rightarrow> Some field
       | None \<Rightarrow>
           if show_u64 (f_GasLimit fee) \<noteq> ss_GasLimit sm then Some ''gas_limit''
           else (case ai_SignerInfos ai of
             [si] \<Rightarrow> if show_u64 (si_Sequence si) \<noteq> ss_Sequence sm then Some ''sequence'' else None
           | _ \<Rightarrow> Some ''signer info count'')))"

definition verifySummary :: "keylib \<Rightarrow> bytes \<Rightarrow> SigningSummary \<Rightarrow> sgerr + unit" where
  "verifySummary X docBytes sm =
     (case ProtoSignDoc X docBytes of None \<Rightarrow> mismatch ''sign doc undecodable'' | Some doc \<Rightarrow>
      case ProtoTxBody X (sd_BodyBytes doc) of None \<Rightarrow> mismatch ''tx body undecodable'' | Some body \<Rightarrow>
      case ProtoAuthInfo X (sd_AuthInfoBytes doc) of None \<Rightarrow> mismatch ''auth info undecodable'' | Some ai \<Rightarrow>
      if sd_ChainId doc \<noteq> ss_ChainID sm then mismatch ''chain_id''
      else if show_u64 (sd_AccountNumber doc) \<noteq> ss_AccountNumber sm then mismatch ''account_number''
      else case tb_Messages body of
        [m] \<Rightarrow>
          if ss_MessageType sm \<noteq> MsgSendTypeURL \<or> any_TypeUrl m \<noteq> ss_MessageType sm then mismatch ''message_type''
          else (case verifyMessage X (any_Value m) sm of Some field \<Rightarrow> mismatch field
            | None \<Rightarrow> if tb_Memo body \<noteq> ss_Memo sm then mismatch ''memo''
                else (case verifyAuth ai sm of Some field \<Rightarrow> mismatch field | None \<Rightarrow> Inr ()))
      | _ \<Rightarrow> mismatch ''message count'')"

definition Local_Sign :: "keylib \<Rightarrow> keyring \<Rightarrow> SigningRequest \<Rightarrow> sgerr + SigningResponse" where
  "Local_Sign X S req =
     (if sq_SignMode req \<noteq> SignModeDirect then Inl (SgErr CodePolicyRejected (''unsupported sign mode '' @ sq_SignMode req))
      else case keyFor S (sq_KeyRef req) of Inl e \<Rightarrow> Inl e
      | Inr priv \<Rightarrow> (case verifySummary X (sq_SignDocBytes req) (sq_Summary req) of Inl e \<Rightarrow> Inl e
        | Inr _ \<Rightarrow> (case PrivSign X priv (sq_SignDocBytes req) of None \<Rightarrow> Inl (SgErr CodeInternal ''signing failed'')
          | Some sig \<Rightarrow> Inr \<lparr>sn_KeyRef = sq_KeyRef req, sn_Signature = sig, sn_PubKeyCompressed = PrivPubKey X priv\<rparr>)))"

definition localBackend :: "keylib \<Rightarrow> keyring \<Rightarrow> backend" where
  "localBackend X S = \<lparr>GetPublicKey = Local_GetPublicKey X S, SignDocWith = Local_Sign X S\<rparr>"

section \<open>The gRPC transport\<close>

datatype grpcCode = NotFound | InvalidArgument | PermissionDenied | FailedPrecondition | Unavailable
  | DeadlineExceeded | Canceled | Internal | GrpcOther nat

datatype SignerErrorCode = ERROR_UNSPECIFIED | ERROR_KEY_NOT_FOUND | ERROR_SUMMARY_MISMATCH | ERROR_POLICY_REJECTED
  | ERROR_SIGNER_UNAVAILABLE | ERROR_INTERNAL

record SignerErrorDetail =
  ed_Code :: SignerErrorCode
  ed_Detail :: string

record grpcStatus =
  gs_Code :: grpcCode
  gs_Message :: string
  gs_Details :: "(string \<times> bytes) list"

text \<open>The protobuf codec of the error detail.\<close>

record grpclib =
  MarshalDetail :: "SignerErrorDetail \<Rightarrow> bytes option"
  UnmarshalDetail :: "bytes \<Rightarrow> SignerErrorDetail option"

text \<open>The messages of \<open>sovren.signer.v1\<close>; the summary is absent when the field is not set.\<close>

record signRequestMsg =
  rm_KeyRef :: string
  rm_SignMode :: string
  rm_SignDocBytes :: bytes
  rm_Summary :: "SigningSummary option"

record SignerService =
  svc_GetPublicKey :: "string \<Rightarrow> grpcStatus + PublicKeyResponse"
  svc_Sign :: "signRequestMsg \<Rightarrow> grpcStatus + SigningResponse"

definition detailTypeURL :: string where
  "detailTypeURL = ''type.googleapis.com/sovren.signer.v1.SignerErrorDetail''"

definition codeToGRPC :: "string \<rightharpoonup> grpcCode" where
  "codeToGRPC = map_of [(CodeKeyNotFound, NotFound), (CodeSummaryMismatch, InvalidArgument),
     (CodePolicyRejected, PermissionDenied), (CodeSignerUnavailable, Unavailable), (CodeInternal, Internal)]"

definition codeToDetail :: "string \<rightharpoonup> SignerErrorCode" where
  "codeToDetail = map_of [(CodeKeyNotFound, ERROR_KEY_NOT_FOUND), (CodeSummaryMismatch, ERROR_SUMMARY_MISMATCH),
     (CodePolicyRejected, ERROR_POLICY_REJECTED), (CodeSignerUnavailable, ERROR_SIGNER_UNAVAILABLE), (CodeInternal, ERROR_INTERNAL)]"

definition detailToCode :: "SignerErrorCode \<rightharpoonup> string" where
  "detailToCode = map_of [(ERROR_KEY_NOT_FOUND, CodeKeyNotFound), (ERROR_SUMMARY_MISMATCH, CodeSummaryMismatch),
     (ERROR_POLICY_REJECTED, CodePolicyRejected), (ERROR_SIGNER_UNAVAILABLE, CodeSignerUnavailable), (ERROR_INTERNAL, CodeInternal)]"

definition signerErrorToStatus :: "grpclib \<Rightarrow> sgerr \<Rightarrow> grpcStatus" where
  "signerErrorToStatus G e =
     (let (grpcCode, code) = (case codeToGRPC (CodeOf e) of None \<Rightarrow> (Internal, CodeInternal) | Some g \<Rightarrow> (g, CodeOf e));
          detail = (case e of SgErr c d \<Rightarrow> d | PlainErr m \<Rightarrow> [])
      in case MarshalDetail G \<lparr>ed_Code = (case codeToDetail code of None \<Rightarrow> ERROR_UNSPECIFIED | Some x \<Rightarrow> x), ed_Detail = detail\<rparr> of
           None \<Rightarrow> \<lparr>gs_Code = grpcCode, gs_Message = code, gs_Details = []\<rparr>
         | Some raw \<Rightarrow> \<lparr>gs_Code = grpcCode, gs_Message = code, gs_Details = [(detailTypeURL, raw)]\<rparr>)"

primrec detailCode :: "grpclib \<Rightarrow> (string \<times> bytes) list \<Rightarrow> sgerr option" where
  "detailCode G [] = None"
| "detailCode G (d # ds) =
     (if \<not> HasSuffix (fst d) ''sovren.signer.v1.SignerErrorDetail'' then detailCode G ds
      else case UnmarshalDetail G (snd d) of None \<Rightarrow> detailCode G ds
      | Some detail \<Rightarrow> (case detailToCode (ed_Code detail) of None \<Rightarrow> detailCode G ds
        | Some code \<Rightarrow> Some (SgErr code (ed_Detail detail))))"

definition statusToSignerError :: "grpclib \<Rightarrow> grpcStatus \<Rightarrow> sgerr" where
  "statusToSignerError G st = (case detailCode G (gs_Details st) of Some e \<Rightarrow> e
     | None \<Rightarrow> SgErr (case gs_Code st of
         NotFound \<Rightarrow> CodeKeyNotFound
       | InvalidArgument \<Rightarrow> CodeSummaryMismatch
       | PermissionDenied \<Rightarrow> CodePolicyRejected
       | FailedPrecondition \<Rightarrow> CodePolicyRejected
       | Unavailable \<Rightarrow> CodeSignerUnavailable
       | DeadlineExceeded \<Rightarrow> CodeSignerUnavailable
       | Canceled \<Rightarrow> CodeSignerUnavailable
       | _ \<Rightarrow> CodeInternal) (gs_Message st))"

text \<open>The conversions of the summary copy every field.\<close>

definition summaryToProto :: "SigningSummary \<Rightarrow> SigningSummary option" where
  "summaryToProto s = Some \<lparr>ss_ChainID = ss_ChainID s, ss_AccountNumber = ss_AccountNumber s, ss_Sequence = ss_Sequence s,
     ss_MessageType = ss_MessageType s, ss_SenderAddress = ss_SenderAddress s, ss_RecipientAddress = ss_RecipientAddress s,
     ss_AmountBaseUnits = ss_AmountBaseUnits s, ss_Denom = ss_Denom s, ss_FeeBaseUnits = ss_FeeBaseUnits s,
     ss_GasLimit = ss_GasLimit s, ss_Memo = ss_Memo s\<rparr>"

definition zeroSummary :: SigningSummary where
  "zeroSummary = \<lparr>ss_ChainID = [], ss_AccountNumber = [], ss_Sequence = [], ss_MessageType = [], ss_SenderAddress = [],
     ss_RecipientAddress = [], ss_AmountBaseUnits = [], ss_Denom = [], ss_FeeBaseUnits = [], ss_GasLimit = [], ss_Memo = []\<rparr>"

definition summaryFromProto :: "SigningSummary option \<Rightarrow> SigningSummary" where
  "summaryFromProto m = (case m of None \<Rightarrow> zeroSummary
     | Some s \<Rightarrow> \<lparr>ss_ChainID = ss_ChainID s, ss_AccountNumber = ss_AccountNumber s, ss_Sequence = ss_Sequence s,
     ss_MessageType = ss_MessageType s, ss_SenderAddress = ss_SenderAddress s, ss_RecipientAddress = ss_RecipientAddress s,
     ss_AmountBaseUnits = ss_AmountBaseUnits s, ss_Denom = ss_Denom s, ss_FeeBaseUnits = ss_FeeBaseUnits s,
     ss_GasLimit = ss_GasLimit s, ss_Memo = ss_Memo s\<rparr>)"

definition Client_GetPublicKey :: "grpclib \<Rightarrow> SignerService \<Rightarrow> string \<Rightarrow> sgerr + PublicKeyResponse" where
  "Client_GetPublicKey G svc ref = (case svc_GetPublicKey svc ref of Inl st \<Rightarrow> Inl (statusToSignerError G st)
     | Inr resp \<Rightarrow>
         if kr_Algorithm resp \<noteq> AlgorithmSecp256k1 then Inl (SgErr CodeInternal ''remote signer returned unsupported algorithm'')
         else if length (kr_PublicKeyCompressed resp) \<noteq> 33 then Inl (SgErr CodeInternal ''remote signer returned a malformed public key'')
         else Inr \<lparr>kr_KeyRef = kr_KeyRef resp, kr_Algorithm = kr_Algorithm resp,
                   kr_PublicKeyCompressed = kr_PublicKeyCompressed resp\<rparr>)"

definition Client_Sign :: "grpclib \<Rightarrow> SignerService \<Rightarrow> SigningRequest \<Rightarrow> sgerr + SigningResponse" where
  "Client_Sign G svc req = (case svc_Sign svc \<lparr>rm_KeyRef = sq_KeyRef req, rm_SignMode = sq_SignMode req,
         rm_SignDocBytes = sq_SignDocBytes req, rm_Summary = summaryToProto (sq_Summary req)\<rparr> of
       Inl st \<Rightarrow> Inl (statusToSignerError G st)
     | Inr resp \<Rightarrow>
         if length (sn_Signature resp) \<noteq> 64 then Inl (SgErr CodeInternal ''remote signer returned a malformed signature'')
         else Inr \<lparr>sn_KeyRef = sn_KeyRef resp, sn_Signature = sn_Signature resp, sn_PubKeyCompressed = sn_PubKeyCompressed resp\<rparr>)"

definition Server_GetPublicKey :: "grpclib \<Rightarrow> backend \<Rightarrow> string \<Rightarrow> grpcStatus + PublicKeyResponse" where
  "Server_GetPublicKey G B ref = (case GetPublicKey B ref of Inl e \<Rightarrow> Inl (signerErrorToStatus G e)
     | Inr resp \<Rightarrow> Inr \<lparr>kr_KeyRef = kr_KeyRef resp, kr_Algorithm = kr_Algorithm resp,
                        kr_PublicKeyCompressed = kr_PublicKeyCompressed resp\<rparr>)"

definition Server_Sign :: "grpclib \<Rightarrow> backend \<Rightarrow> signRequestMsg \<Rightarrow> grpcStatus + SigningResponse" where
  "Server_Sign G B req = (case SignDocWith B \<lparr>sq_KeyRef = rm_KeyRef req, sq_SignMode = rm_SignMode req,
         sq_SignDocBytes = rm_SignDocBytes req, sq_Summary = summaryFromProto (rm_Summary req)\<rparr> of
       Inl e \<Rightarrow> Inl (signerErrorToStatus G e)
     | Inr resp \<Rightarrow> Inr \<lparr>sn_KeyRef = sn_KeyRef resp, sn_Signature = sn_Signature resp, sn_PubKeyCompressed = sn_PubKeyCompressed resp\<rparr>)"

text \<open>A client of a service, and the reference server over a backend.\<close>

definition grpcClient :: "grpclib \<Rightarrow> SignerService \<Rightarrow> backend" where
  "grpcClient G svc = \<lparr>GetPublicKey = Client_GetPublicKey G svc, SignDocWith = Client_Sign G svc\<rparr>"

definition grpcServer :: "grpclib \<Rightarrow> backend \<Rightarrow> SignerService" where
  "grpcServer G B = \<lparr>svc_GetPublicKey = Server_GetPublicKey G B, svc_Sign = Server_Sign G B\<rparr>"

section \<open>The subprocess transport\<close>

record execRequest =
  xr_Op :: string
  xr_KeyRef :: string
  xr_SignMode :: string
  xr_SignDocBytesB64 :: string
  xr_Summary :: "SigningSummary option"

record execResponse =
  xs_KeyRef :: string
  xs_Algorithm :: string
  xs_PublicKeyCompressedB64 :: string
  xs_SignatureB64 :: string

record ErrorResponse =
  er_ErrorCode :: string
  er_Detail :: string

definition OpGetPublicKey :: string where "OpGetPublicKey = ''get_public_key''"
definition OpSign :: string where "OpSign = ''sign''"

text \<open>
  JSON encoding and decoding of the three documents.  \<open>DecodeResponse\<close> and
  \<open>DecodeRequest\<close> fail on output that is no document of the type; \<open>DecodeError\<close> is the
  decoding of trimmed output and yields an empty code for any other object.
\<close>

record jsonlib =
  EncodeRequest :: "execRequest \<Rightarrow> bytes option"
  DecodeRequest :: "bytes \<Rightarrow> execRequest option"
  EncodeResponse :: "execResponse \<Rightarrow> bytes option"
  DecodeResponse :: "bytes \<Rightarrow> execResponse option"
  EncodeError :: "ErrorResponse \<Rightarrow> bytes option"
  DecodeError :: "bytes \<Rightarrow> ErrorResponse option"

text \<open>How a run of the subprocess ends; the two byte strings are its output and its error output.\<close>

datatype process = TimedOut | NotStarted | ExitedWith int bytes bytes | Completed bytes

definition SummaryFrom :: "SigningSummary \<Rightarrow> SigningSummary option" where
  "SummaryFrom s = Some \<lparr>ss_ChainID = ss_ChainID s, ss_AccountNumber = ss_AccountNumber s, ss_Sequence = ss_Sequence s,
     ss_MessageType = ss_MessageType s, ss_SenderAddress = ss_SenderAddress s, ss_RecipientAddress = ss_RecipientAddress s,
     ss_AmountBaseUnits = ss_AmountBaseUnits s, ss_Denom = ss_Denom s, ss_FeeBaseUnits = ss_FeeBaseUnits s,
     ss_GasLimit = ss_GasLimit s, ss_Memo = ss_Memo s\<rparr>"

definition ToSigningSummary :: "SigningSummary option \<Rightarrow> SigningSummary" where
  "ToSigningSummary m = (case m of None \<Rightarrow> zeroSummary
     | Some s \<Rightarrow> \<lparr>ss_ChainID = ss_ChainID s, ss_AccountNumber = ss_AccountNumber s, ss_Sequence = ss_Sequence s,
     ss_MessageType = ss_MessageType s, ss_SenderAddress = ss_SenderAddress s, ss_RecipientAddress = ss_RecipientAddress s,
     ss_AmountBaseUnits = ss_AmountBaseUnits s, ss_Denom = ss_Denom s, ss_FeeBaseUnits = ss_FeeBaseUnits s,
     ss_GasLimit = ss_GasLimit s, ss_Memo = ss_Memo s\<rparr>)"

primrec mapExitError :: "jsonlib \<Rightarrow> bytes list \<Rightarrow> sgerr" where
  "mapExitError J [] = SgErr CodeInternal ''exec signer exited''"
| "mapExitError J (out # outs) = (case DecodeError J out of
     None \<Rightarrow> mapExitError J outs
   | Some er \<Rightarrow> if er_ErrorCode er = [] then mapExitError J outs
       else if er_ErrorCode er \<in> set signerCodes then SgErr (er_ErrorCode er) (er_Detail er)
       else SgErr CodeInternal ''exec signer returned unknown error code'')"

definition roundTrip :: "jsonlib \<Rightarrow> (bytes \<Rightarrow> process) \<Rightarrow> execRequest \<Rightarrow> sgerr + execResponse" where
  "roundTrip J run req = (case EncodeRequest J req of None \<Rightarrow> Inl (SgErr CodeInternal ''request encoding failed'')
     | Some payload \<Rightarrow> (case run payload of
         TimedOut \<Rightarrow> Inl (SgErr CodeSignerUnavailable ''exec signer timed out'')
       | NotStarted \<Rightarrow> Inl (SgErr CodeSignerUnavailable ''exec signer failed to start'')
       | ExitedWith n out errOut \<Rightarrow> Inl (mapExitError J [out, errOut])
       | Completed out \<Rightarrow> (case DecodeResponse J out of None \<Rightarrow> Inl (SgErr CodeInternal ''exec signer produced undecodable output'')
         | Some resp \<Rightarrow> Inr resp)))"

definition Exec_GetPublicKey :: "jsonlib \<Rightarrow> (bytes \<Rightarrow> process) \<Rightarrow> string \<Rightarrow> sgerr + PublicKeyResponse" where
  "Exec_GetPublicKey J run ref =
     (case roundTrip J run \<lparr>xr_Op = OpGetPublicKey, xr_KeyRef = ref, xr_SignMode = [], xr_SignDocBytesB64 = [], xr_Summary = None\<rparr> of
        Inl e \<Rightarrow> Inl e
      | Inr resp \<Rightarrow> (case DecodeString (xs_PublicKeyCompressedB64 resp) of
          None \<Rightarrow> Inl (SgErr CodeInternal ''exec signer returned malformed public key'')
        | Some pub \<Rightarrow>
            if length pub \<noteq> 33 then Inl (SgErr CodeInternal ''exec signer returned malformed public key'')
            else let alg = (if xs_Algorithm resp = [] then AlgorithmSecp256k1 else xs_Algorithm resp) in
              if alg \<noteq> AlgorithmSecp256k1 then Inl (SgErr CodeInternal ''exec signer returned unsupported algorithm'')
              else Inr \<lparr>kr_KeyRef = xs_KeyRef resp, kr_Algorithm = alg, kr_PublicKeyCompressed = pub\<rparr>))"

definition Exec_Sign :: "jsonlib \<Rightarrow> (bytes \<Rightarrow> process) \<Rightarrow> SigningRequest \<Rightarrow> sgerr + SigningResponse" where
  "Exec_Sign J run req =
     (case roundTrip J run \<lparr>xr_Op = OpSign, xr_KeyRef = sq_KeyRef req, xr_SignMode = sq_SignMode req,
             xr_SignDocBytesB64 = EncodeToString (sq_SignDocBytes req), xr_Summary = SummaryFrom (sq_Summary req)\<rparr> of
        Inl e \<Rightarrow> Inl e
      | Inr resp \<Rightarrow> (case DecodeString (xs_SignatureB64 resp) of
          None \<Rightarrow> Inl (SgErr CodeInternal ''exec signer returned malformed signature'')
        | Some sig \<Rightarrow>
            if length sig \<noteq> 64 then Inl (SgErr CodeInternal ''exec signer returned malformed signature'')
            else (case DecodeString (xs_PublicKeyCompressedB64 resp) of
              None \<Rightarrow> Inl (SgErr CodeInternal ''exec signer returned malformed public key'')
            | Some pub \<Rightarrow>
                if length pub \<noteq> 33 then Inl (SgErr CodeInternal ''exec signer returned malformed public key'')
                else Inr \<lparr>sn_KeyRef = xs_KeyRef resp, sn_Signature = sig, sn_PubKeyCompressed = pub\<rparr>)))"

definition execClient :: "jsonlib \<Rightarrow> (bytes \<Rightarrow> process) \<Rightarrow> backend" where
  "execClient J run = \<lparr>GetPublicKey = Exec_GetPublicKey J run, SignDocWith = Exec_Sign J run\<rparr>"

text \<open>
  The demo signer from the decoded request on: \<open>dflt\<close> is the address of the derived key,
  which the empty reference and \<open>default\<close> stand for.
\<close>

definition serveRequest :: "backend \<Rightarrow> string \<Rightarrow> execRequest \<Rightarrow> sgerr + execResponse" where
  "serveRequest B dflt req =
     (let ref = (if xr_KeyRef req = [] \<or> xr_KeyRef req = ''default'' then dflt else xr_KeyRef req) in
      if xr_Op req = OpGetPublicKey then
        (case GetPublicKey B ref of Inl e \<Rightarrow> Inl e
         | Inr resp \<Rightarrow> Inr \<lparr>xs_KeyRef = xr_KeyRef req, xs_Algorithm = kr_Algorithm resp,
             xs_PublicKeyCompressedB64 = EncodeToString (kr_PublicKeyCompressed resp), xs_SignatureB64 = []\<rparr>)
      else if xr_Op req = OpSign then
        (case DecodeString (xr_SignDocBytesB64 req) of
           None \<Rightarrow> Inl (SgErr CodeInternal ''sign_doc_bytes_b64 is not valid base64'')
         | Some docBytes \<Rightarrow>
           (case SignDocWith B \<lparr>sq_KeyRef = ref, sq_SignMode = xr_SignMode req, sq_SignDocBytes = docBytes,
                   sq_Summary = ToSigningSummary (xr_Summary req)\<rparr> of Inl e \<Rightarrow> Inl e
            | Inr resp \<Rightarrow> Inr \<lparr>xs_KeyRef = xr_KeyRef req, xs_Algorithm = [],
                xs_PublicKeyCompressedB64 = EncodeToString (sn_PubKeyCompressed resp),
                xs_SignatureB64 = EncodeToString (sn_Signature resp)\<rparr>))
      else Inl (SgErr CodeInternal ''unknown op''))"

definition writeError :: "jsonlib \<Rightarrow> sgerr \<Rightarrow> bytes" where
  "writeError J e = (case EncodeError J \<lparr>er_ErrorCode = CodeOf e, er_Detail = (case e of SgErr c d \<Rightarrow> d | PlainErr m \<Rightarrow> m)\<rparr> of
     None \<Rightarrow> [] | Some out \<Rightarrow> out)"

text \<open>
  \<open>main\<close> of the demo: \<open>setup\<close> is what the environment gives, an error or the backend with the
  address of its key.  A response that cannot be encoded is reported as an error.
\<close>

definition demoProcess :: "jsonlib \<Rightarrow> sgerr + backend \<times> string \<Rightarrow> bytes \<Rightarrow> process" where
  "demoProcess J setup stdin =
     (case (case setup of Inl e \<Rightarrow> Inl e
       | Inr (B, dflt) \<Rightarrow> (case DecodeRequest J stdin of None \<Rightarrow> Inl (SgErr CodeInternal ''undecodable request JSON'')
         | Some req \<Rightarrow> (case serveRequest B dflt req of Inl e \<Rightarrow> Inl e
           | Inr resp \<Rightarrow> (case EncodeResponse J resp of None \<Rightarrow> Inl (PlainErr ''json'') | Some out \<Rightarrow> Inr out)))) of
        Inl e \<Rightarrow> ExitedWith 1 (writeError J e) []
      | Inr out \<Rightarrow> Completed out)"

text \<open>The environment of the demo and the key derivation (BIP39 and BIP32 are a parameter).\<close>

definition DefaultHDPath :: string where "DefaultHDPath = ''m/44'' @ [CHR 39] @ ''/118'' @ [CHR 39] @ ''/0'' @ [CHR 39] @ ''/0/0''"
definition requiredHDPathPrefix :: string where "requiredHDPathPrefix = ''m/44'' @ [CHR 39] @ ''/118'' @ [CHR 39] @ ''/''"

record derivedAddress =
  da_Path :: string
  da_PrivateKey :: bytes
  da_PublicKeyCompressed :: bytes
  da_AddressBytes :: bytes
  da_Bech32 :: string

definition DeriveAddress :: "lib \<Rightarrow> keylib \<Rightarrow> (string \<Rightarrow> string \<Rightarrow> bytes option) \<Rightarrow> string \<Rightarrow> string \<Rightarrow> string + derivedAddress" where
  "DeriveAddress L X derive mnemonic path =
     (if TrimSpace mnemonic = [] then Inl ''mnemonic must not be empty''
      else if \<not> hasPrefix path requiredHDPathPrefix then Inl ''derivation path''
      else case derive mnemonic path of None \<Rightarrow> Inl ''hd derivation''
      | Some priv \<Rightarrow> (let pub = PrivPubKey X priv; addr = PubKeyAddress L pub in
          case ConvertAndEncode L ''sovr'' addr of None \<Rightarrow> Inl ''bech32 encode''
          | Some enc \<Rightarrow> Inr \<lparr>da_Path = path, da_PrivateKey = priv, da_PublicKeyCompressed = pub,
              da_AddressBytes = addr, da_Bech32 = enc\<rparr>))"

definition demoSetup :: "lib \<Rightarrow> keylib \<Rightarrow> (string \<Rightarrow> string \<Rightarrow> bytes option) \<Rightarrow> (string \<Rightarrow> string) \<Rightarrow> sgerr + backend \<times> string" where
  "demoSetup L X derive getenv =
     (if getenv ''SOVREN_EXEC_SIGNER_UNSAFE'' \<noteq> ''UNSAFE_TEST_ONLY'' then Inl (SgErr CodePolicyRejected ''opt-in missing'')
      else if getenv ''SOVREN_EXEC_SIGNER_MNEMONIC'' = [] then Inl (SgErr CodePolicyRejected ''SOVREN_EXEC_SIGNER_MNEMONIC is required'')
      else let path = (if getenv ''SOVREN_EXEC_SIGNER_HD_PATH'' = [] then DefaultHDPath else getenv ''SOVREN_EXEC_SIGNER_HD_PATH'') in
        (case NewLocal \<lparr>op_UnsafeTestOnly = True, op_NetworkType = getenv ''SOVREN_EXEC_SIGNER_NETWORK_TYPE''\<rparr> of Inl e \<Rightarrow> Inl e
         | Inr S \<Rightarrow> (case DeriveAddress L X derive (getenv ''SOVREN_EXEC_SIGNER_MNEMONIC'') path of
             Inl m \<Rightarrow> Inl (SgErr CodeInternal (''derivation failed: '' @ m))
           | Inr derived \<Rightarrow> (case ImportKey (da_Bech32 derived) (da_PrivateKey derived) S of Inl e \<Rightarrow> Inl e
             | Inr S' \<Rightarrow> Inr (localBackend X S', da_Bech32 derived)))))"

end
