(* ===== verification/Go_Net.thy ===== *)
theory Go_Net
  imports Go_Text
begin

text \<open>
  The parts of the Go standard library that the adapter's configuration uses to read
  addresses and references: \<open>net.SplitHostPort\<close>, \<open>net.ParseIP\<close> with \<open>IP.IsLoopback\<close>,
  \<open>strconv.ParseUint\<close> and the regular expressions of the sources, as functions.  A Go
  string is its bytes, and every character these functions look for is ASCII.
\<close>

section \<open>Host and port\<close>

definition beforeLast :: "char \<Rightarrow> string \<Rightarrow> (string \<times> string) option" where
  "beforeLast c s = (if c \<notin> set s then None
     else Some (rev (tl (dropWhile (\<lambda>x. x \<noteq> c) (rev s))), rev (takeWhile (\<lambda>x. x \<noteq> c) (rev s))))"

text \<open>
  \<open>SplitHostPort\<close>: the port follows the last colon; a host with colons stands in square
  brackets, and no other bracket is allowed.
\<close>

definition SplitHostPort :: "string \<Rightarrow> (string \<times> string) option" where
  "SplitHostPort hostport = (case beforeLast CHR '':'' hostport of None \<Rightarrow> None
     | Some (front, port) \<Rightarrow>
         if hd hostport = CHR ''['' then
           (let host = takeWhile (\<lambda>c. c \<noteq> CHR '']'') (tl hostport) in
            if CHR '']'' \<notin> set hostport \<or> front \<noteq> CHR ''['' # host @ '']'' then None
            else if CHR ''['' \<in> set (tl hostport) \<or> CHR '']'' \<in> set port then None
            else Some (host, port))
         else if CHR '':'' \<in> set front \<or> CHR ''['' \<in> set hostport \<or> CHR '']'' \<in> set hostport then None
         else Some (front, port))"

section \<open>IP literals\<close>

text \<open>
  The octets of a dotted address: \<open>val\<close> and \<open>len\<close> are the value and the number of digits of
  the octet being read, \<open>n\<close> counts the octets before it.
\<close>

fun parseIPv4Fields :: "nat \<Rightarrow> nat \<Rightarrow> nat \<Rightarrow> string \<Rightarrow> nat list option" where
  "parseIPv4Fields n val len [] = (if n < 3 then None else Some [val])"
| "parseIPv4Fields n val len (c # cs) =
     (if is_digit c then
        (if len = 1 \<and> val = 0 then None
         else let v = val * 10 + digit_val c in if v > 255 then None else parseIPv4Fields n v (len + 1) cs)
      else if c = CHR ''.'' then
        (if len = 0 \<or> cs = [] \<or> n = 3 then None
         else map_option ((#) val) (parseIPv4Fields (n + 1) 0 0 cs))
      else None)"

definition hexVal :: "char \<Rightarrow> nat" where
  "hexVal c = (if is_digit c then digit_val c else if is_lower c then of_char c - 87 else of_char c - 55)"

definition readHex :: "string \<Rightarrow> nat" where
  "readHex s = foldl (\<lambda>a c. 16 * a + hexVal c) 0 s"

text \<open>
  The loop of \<open>parseIPv6\<close>: the bytes read so far and the position of the ellipsis.  Each
  round but the last reads two bytes, so eight rounds are all there are; \<open>k\<close> counts them
  down.  The result is the bytes, the ellipsis and the unread rest.
\<close>

primrec parseIPv6Loop :: "nat \<Rightarrow> nat list \<Rightarrow> nat option \<Rightarrow> string \<Rightarrow> (nat list \<times> nat option \<times> string) option" where
  "parseIPv6Loop 0 ip ell s = Some (ip, ell, s)"
| "parseIPv6Loop (Suc k) ip ell s =
     (let h = takeWhile is_hex s; r = dropWhile is_hex s in
      if length h > 4 \<or> h = [] then None
      else if r \<noteq> [] \<and> hd r = CHR ''.'' then
        (if ell = None \<and> length ip \<noteq> 12 then None
         else if length ip + 4 > 16 then None
         else case parseIPv4Fields 0 0 0 s of None \<Rightarrow> None | Some fs \<Rightarrow> Some (ip @ fs, ell, []))
      else let ip' = ip @ [readHex h div 256, readHex h mod 256] in
        if r = [] then Some (ip', ell, [])
        else if hd r \<noteq> CHR '':'' \<or> tl r = [] then None
        else if hd (tl r) = CHR '':'' then
          (if ell \<noteq> None then None
           else if tl (tl r) = [] then Some (ip', Some (length ip'), [])
           else parseIPv6Loop k ip' (Some (length ip')) (tl (tl r)))
        else parseIPv6Loop k ip' ell (tl r))"

definition parseIPv6 :: "string \<Rightarrow> nat list option" where
  "parseIPv6 s =
     (let (ell, r) = (if hasPrefix s ''::'' then (Some 0, drop 2 s) else (None, s)) in
      if ell = Some 0 \<and> r = [] then Some (replicate 16 0)
      else case parseIPv6Loop 8 [] ell r of None \<Rightarrow> None
      | Some (ip, ell', rest) \<Rightarrow>
          if rest \<noteq> [] then None
          else if length ip < 16 then (case ell' of None \<Rightarrow> None
            | Some e \<Rightarrow> Some (take e ip @ replicate (16 - length ip) 0 @ drop e ip))
          else if ell' \<noteq> None then None else Some ip)"

text \<open>
  \<open>ParseIP\<close>: the 16 bytes of the address.  What comes first decides: a dot means version 4,
  a colon version 6; an address with a zone is none.
\<close>

definition ParseIP :: "string \<Rightarrow> nat list option" where
  "ParseIP s = (case find (\<lambda>c. c \<in> set ''.:%'') s of
       None \<Rightarrow> None
     | Some c \<Rightarrow>
         if c = CHR ''.'' then map_option ((@) (replicate 10 0 @ [255, 255])) (parseIPv4Fields 0 0 0 s)
         else if c = CHR '':'' \<and> CHR ''%'' \<notin> set s then parseIPv6 s else None)"

definition IsLoopback :: "nat list \<Rightarrow> bool" where
  "IsLoopback ip \<longleftrightarrow> (if take 12 ip = replicate 10 0 @ [255, 255] then ip ! 12 = 127 else ip = replicate 15 0 @ [1])"

section \<open>Numbers and patterns\<close>

definition ParseUint64 :: "string \<Rightarrow> uint64 option" where
  "ParseUint64 s = (if digits_re s \<and> read_nat s < 2 ^ 64 then Some (word_of_nat (read_nat s)) else None)"

text \<open>\<open>^(0|[1-9][0-9]*)(\\.[0-9]+)?$\<close>\<close>

definition decimalRe :: "string \<Rightarrow> bool" where
  "decimalRe s \<longleftrightarrow> canonical_re (takeWhile is_digit s) \<and>
     (let r = dropWhile is_digit s in r = [] \<or> (hd r = CHR ''.'' \<and> digits_re (tl r)))"

text \<open>\<open>^[0-9a-f]{64}$\<close>\<close>

definition sha256Re :: "string \<Rightarrow> bool" where
  "sha256Re s \<longleftrightarrow> length s = 64 \<and> list_all (\<lambda>c. is_digit c \<or> (is_lower c \<and> is_hex c)) s"

text \<open>\<open>^[0-9a-fA-F]{40}@[^@\\s:]+:\\d+$\<close>\<close>

definition peerHostChar :: "char \<Rightarrow> bool" where
  "peerHostChar c \<longleftrightarrow> c \<noteq> CHR ''@'' \<and> c \<noteq> CHR '':'' \<and> c \<notin> set (map char_of [9, 10, 12, 13, 32 :: nat])"

definition peerRe :: "string \<Rightarrow> bool" where
  "peerRe s \<longleftrightarrow> length (take 40 s) = 40 \<and> list_all is_hex (take 40 s) \<and>
     (case drop 40 s of [] \<Rightarrow> False
      | at # r \<Rightarrow> at = CHR ''@'' \<and> takeWhile peerHostChar r \<noteq> [] \<and>
          (case dropWhile peerHostChar r of [] \<Rightarrow> False | colon # p \<Rightarrow> colon = CHR '':'' \<and> digits_re p))"

text \<open>\<open>\\$\\{([A-Za-z_][A-Za-z0-9_]*)\\}\<close> at the start of a string: the name and what follows the match.\<close>

definition isNameChar :: "char \<Rightarrow> bool" where
  "isNameChar c \<longleftrightarrow> is_digit c \<or> is_lower c \<or> is_upper c \<or> c = CHR ''_''"

definition envRef :: "string \<Rightarrow> (string \<times> string) option" where
  "envRef s = (if hasPrefix s ''${'' then
       (let name = takeWhile isNameChar (drop 2 s); r = dropWhile isNameChar (drop 2 s) in
        if name \<noteq> [] \<and> \<not> is_digit (hd name) \<and> r \<noteq> [] \<and> hd r = CHR ''}'' then Some (name, tl r) else None)
     else None)"

lemma envRef_shorter: "envRef s = Some (name, r) \<Longrightarrow> length r < length s"
proof -
  assume "envRef s = Some (name, r)"
  then have "r = tl (dropWhile isNameChar (drop 2 s))" "dropWhile isNameChar (drop 2 s) \<noteq> []"
    by (auto simp: envRef_def Let_def split: if_splits)
  moreover have "length (dropWhile isNameChar (drop 2 s)) \<le> length (drop 2 s)" by (rule length_dropWhile_le)
  ultimately show "length r < length s" by (cases "dropWhile isNameChar (drop 2 s)") auto
qed

end
