(* ===== verification/Network_Manifest.thy ===== *)
theory Network_Manifest
  imports Go_Net
begin

text \<open>
  The network manifest (\<open>client/config.go\<close>): its fields, its validation with the path and
  the kind of every failure, and its parsing.  The YAML decoders and the coin and
  decimal parsers of the SDK are parameters; the text of a failure is left out.
\<close>

section \<open>Parameters\<close>

text \<open>
  \<open>ProbeVersion\<close> is the tolerant decoding of \<open>schema_version\<close> alone (absent when the key is
  missing), \<open>DecSign\<close> the sign of a parsed \<open>LegacyDec\<close>, \<open>ParseDuration\<close> the
  nanoseconds of a Go duration.
\<close>

record ManifestVersions =
  mv_SDK :: string
  mv_CometBFT :: string
  mv_IBCGo :: string
  mv_CosmwasmWasmd :: string
  mv_Go :: string
  mv_App :: string

record ManifestFees =
  mf_MinimumGasPrice :: string
  mf_RecommendedGasPrice :: string
  mf_RecommendedGasAdjustment :: string

record ManifestPorts =
  mp_P2P :: int
  mp_RPC :: int
  mp_GRPC :: int
  mp_REST :: int
  mp_Metrics :: int

record ManifestGenesis =
  mg_SHA256 :: string
  mg_File :: string

record ManifestEndpoint =
  me_Kind :: string
  me_URL :: string
  me_Provider :: string

record ManifestPeers =
  mq_Seeds :: "string list"
  mq_PersistentPeers :: "string list"

record ManifestLinks =
  ml_Explorer :: string
  ml_Faucet :: "string option"
  ml_StatusPage :: "string option"
  ml_RegistryDir :: string

record NetworkManifest =
  nm_SchemaVersion :: int
  nm_NetworkName :: string
  nm_NetworkType :: string
  nm_ChainID :: string
  nm_DaemonName :: string
  nm_NodeHome :: string
  nm_AccountPrefix :: string
  nm_ValidatorOperatorPrefix :: string
  nm_ValidatorConsensusPrefix :: string
  nm_BaseDenom :: string
  nm_DisplayDenom :: string
  nm_DisplayExponent :: int
  nm_Symbol :: string
  nm_AccountKeyAlgorithm :: string
  nm_ConsensusKeyAlgorithm :: string
  nm_Slip44CoinType :: int
  nm_Versions :: ManifestVersions
  nm_Fees :: ManifestFees
  nm_Ports :: ManifestPorts
  nm_Genesis :: ManifestGenesis
  nm_Endpoints :: "ManifestEndpoint list"
  nm_Peers :: ManifestPeers
  nm_Links :: ManifestLinks
  nm_Divergences :: "string list"

record manifestlib =
  ProbeVersion :: "bytes \<Rightarrow> int option option"
  DecodeManifest :: "bytes \<Rightarrow> NetworkManifest option"
  ParseDecCoin :: "string \<Rightarrow> bool"
  DecSign :: "string \<Rightarrow> int option"
  ParseDuration :: "string \<Rightarrow> int option"

section \<open>Validation\<close>

datatype manifestErr = ErrManifestSchemaVersion | ErrManifestPlaceholder | ErrManifestMissingField | ErrManifestInvalid

datatype ManifestError = ManifestError (merr_Path: string) (merr_kind: manifestErr)

definition SupportedManifestSchemaMajor :: int where "SupportedManifestSchemaMajor = 1"

definition isPlaceholder :: "string \<Rightarrow> bool" where
  "isPlaceholder s \<longleftrightarrow> EqualFold (TrimSpace s) ''TBD'' \<or> hasPrefix (TrimSpace s) ''REPLACE_''"

definition requireString :: "string \<Rightarrow> string \<Rightarrow> ManifestError list" where
  "requireString path v = (if TrimSpace v = [] then [ManifestError path ErrManifestMissingField]
     else if isPlaceholder v then [ManifestError path ErrManifestPlaceholder] else [])"

definition optionalString :: "string \<Rightarrow> string option \<Rightarrow> ManifestError list" where
  "optionalString path v = (case v of None \<Rightarrow> []
     | Some s \<Rightarrow> if isPlaceholder s then [ManifestError path ErrManifestPlaceholder] else [])"

definition requirePositive :: "string \<Rightarrow> int \<Rightarrow> ManifestError list" where
  "requirePositive path v = (if v \<le> 0 then [ManifestError path ErrManifestMissingField] else [])"

definition failIf :: "bool \<Rightarrow> string \<Rightarrow> manifestErr \<Rightarrow> ManifestError list" where
  "failIf b path kind = (if b then [ManifestError path kind] else [])"

definition identityErrors :: "NetworkManifest \<Rightarrow> ManifestError list" where
  "identityErrors m = requireString ''network_name'' (nm_NetworkName m)
     @ requireString ''network_type'' (nm_NetworkType m)
     @ requireString ''chain_id'' (nm_ChainID m)
     @ requireString ''daemon_name'' (nm_DaemonName m)
     @ requireString ''node_home'' (nm_NodeHome m)
     @ requireString ''account_prefix'' (nm_AccountPrefix m)
     @ requireString ''validator_operator_prefix'' (nm_ValidatorOperatorPrefix m)
     @ requireString ''validator_consensus_prefix'' (nm_ValidatorConsensusPrefix m)
     @ requireString ''base_denom'' (nm_BaseDenom m)
     @ requireString ''display_denom'' (nm_DisplayDenom m)
     @ requireString ''symbol'' (nm_Symbol m)
     @ requireString ''account_key_algorithm'' (nm_AccountKeyAlgorithm m)
     @ requireString ''consensus_key_algorithm'' (nm_ConsensusKeyAlgorithm m)
     @ requirePositive ''display_exponent'' (nm_DisplayExponent m)
     @ requirePositive ''slip44_coin_type'' (nm_Slip44CoinType m)
     @ failIf (nm_NetworkType m \<noteq> [] \<and> nm_NetworkType m \<noteq> ''mainnet'' \<and> nm_NetworkType m \<noteq> ''testnet'')
         ''network_type'' ErrManifestInvalid"

definition versionErrors :: "ManifestVersions \<Rightarrow> ManifestError list" where
  "versionErrors v = requireString ''versions.sdk'' (mv_SDK v)
     @ requireString ''versions.cometbft'' (mv_CometBFT v)
     @ requireString ''versions.ibc_go'' (mv_IBCGo v)
     @ requireString ''versions.cosmwasm_wasmd'' (mv_CosmwasmWasmd v)
     @ requireString ''versions.go'' (mv_Go v)
     @ requireString ''versions.app'' (mv_App v)"

definition gasPriceErrors :: "manifestlib \<Rightarrow> string \<Rightarrow> string \<Rightarrow> ManifestError list" where
  "gasPriceErrors Y path v = failIf (v \<noteq> [] \<and> \<not> isPlaceholder v \<and> \<not> ParseDecCoin Y v) path ErrManifestInvalid"

definition feeErrors :: "manifestlib \<Rightarrow> ManifestFees \<Rightarrow> ManifestError list" where
  "feeErrors Y f = requireString ''fees.minimum_gas_price'' (mf_MinimumGasPrice f)
     @ requireString ''fees.recommended_gas_price'' (mf_RecommendedGasPrice f)
     @ requireString ''fees.recommended_gas_adjustment'' (mf_RecommendedGasAdjustment f)
     @ gasPriceErrors Y ''fees.minimum_gas_price'' (mf_MinimumGasPrice f)
     @ gasPriceErrors Y ''fees.recommended_gas_price'' (mf_RecommendedGasPrice f)
     @ failIf (mf_RecommendedGasAdjustment f \<noteq> [] \<and> \<not> isPlaceholder (mf_RecommendedGasAdjustment f) \<and>
          (case DecSign Y (mf_RecommendedGasAdjustment f) of None \<Rightarrow> True | Some sg \<Rightarrow> sg \<le> 0))
         ''fees.recommended_gas_adjustment'' ErrManifestInvalid"

definition portErrors :: "ManifestPorts \<Rightarrow> ManifestError list" where
  "portErrors p = requirePositive ''ports.p2p'' (mp_P2P p)
     @ requirePositive ''ports.rpc'' (mp_RPC p)
     @ requirePositive ''ports.grpc'' (mp_GRPC p)
     @ requirePositive ''ports.rest'' (mp_REST p)
     @ requirePositive ''ports.metrics'' (mp_Metrics p)"

definition genesisErrors :: "ManifestGenesis \<Rightarrow> ManifestError list" where
  "genesisErrors g = requireString ''genesis.sha256'' (mg_SHA256 g)
     @ requireString ''genesis.file'' (mg_File g)
     @ failIf (mg_SHA256 g \<noteq> [] \<and> \<not> isPlaceholder (mg_SHA256 g) \<and> \<not> sha256Re (mg_SHA256 g))
         ''genesis.sha256'' ErrManifestInvalid"

text \<open>The path of the \<open>i\<close>-th entry of a list.\<close>

definition indexed :: "string \<Rightarrow> nat \<Rightarrow> string" where
  "indexed p i = p @ ''['' @ show_nat i @ '']''"

definition eachEntry :: "string \<Rightarrow> (string \<Rightarrow> 'a \<Rightarrow> 'b list) \<Rightarrow> 'a list \<Rightarrow> 'b list" where
  "eachEntry p f xs = concat (map (\<lambda>(i, x). f (indexed p i) x) (enumerate 0 xs))"

definition endpointErrors :: "string \<Rightarrow> ManifestEndpoint \<Rightarrow> ManifestError list" where
  "endpointErrors p ep = requireString (p @ ''.kind'') (me_Kind ep)
     @ requireString (p @ ''.url'') (me_URL ep)
     @ requireString (p @ ''.provider'') (me_Provider ep)
     @ failIf (me_Kind ep \<notin> set [[], ''rpc'', ''rest'', ''grpc'']) (p @ ''.kind'') ErrManifestInvalid"

definition peerErrors :: "string \<Rightarrow> string \<Rightarrow> ManifestError list" where
  "peerErrors p s = requireString p s @ failIf (s \<noteq> [] \<and> \<not> isPlaceholder s \<and> \<not> peerRe s) p ErrManifestInvalid"

definition linkErrors :: "NetworkManifest \<Rightarrow> ManifestError list" where
  "linkErrors m = (let l = nm_Links m in
     (if nm_NetworkType m = ''mainnet'' \<or> ml_Explorer l \<noteq> [] then requireString ''links.explorer'' (ml_Explorer l) else [])
     @ requireString ''links.registry_dir'' (ml_RegistryDir l)
     @ optionalString ''links.faucet'' (ml_Faucet l)
     @ optionalString ''links.status_page'' (ml_StatusPage l))"

definition divergenceErrors :: "NetworkManifest \<Rightarrow> ManifestError list" where
  "divergenceErrors m = eachEntry ''divergences'' requireString (nm_Divergences m)
     @ failIf (nm_NetworkType m = ''mainnet'' \<and> nm_Divergences m \<noteq> []) ''divergences'' ErrManifestInvalid"

definition validateManifest :: "manifestlib \<Rightarrow> NetworkManifest \<Rightarrow> ManifestError list" where
  "validateManifest Y m = identityErrors m @ versionErrors (nm_Versions m) @ feeErrors Y (nm_Fees m)
     @ portErrors (nm_Ports m) @ genesisErrors (nm_Genesis m)
     @ failIf (nm_Endpoints m = []) ''endpoints'' ErrManifestMissingField
     @ eachEntry ''endpoints'' endpointErrors (nm_Endpoints m)
     @ failIf (mq_Seeds (nm_Peers m) = []) ''peers.seeds'' ErrManifestMissingField
     @ eachEntry ''peers.seeds'' peerErrors (mq_Seeds (nm_Peers m))
     @ eachEntry ''peers.persistent_peers'' peerErrors (mq_PersistentPeers (nm_Peers m))
     @ linkErrors m @ divergenceErrors m"

definition ParseManifest :: "manifestlib \<Rightarrow> bytes \<Rightarrow> ManifestError list + NetworkManifest" where
  "ParseManifest Y data = (case ProbeVersion Y data of
       None \<Rightarrow> Inl [ManifestError ''(document)'' ErrManifestInvalid]
     | Some None \<Rightarrow> Inl [ManifestError ''schema_version'' ErrManifestMissingField]
     | Some (Some v) \<Rightarrow>
         if v \<noteq> SupportedManifestSchemaMajor then Inl [ManifestError ''schema_version'' ErrManifestSchemaVersion]
         else (case DecodeManifest Y data of None \<Rightarrow> Inl [ManifestError ''(document)'' ErrManifestInvalid]
           | Some m \<Rightarrow> (case validateManifest Y m of [] \<Rightarrow> Inr m | errs \<Rightarrow> Inl errs)))"

section \<open>What an accepted manifest promises\<close>

named_theorems manifest_simps

lemmas manifest_require [manifest_simps] = requireString_def requirePositive_def failIf_def
lemmas manifest_sections [manifest_simps] = identityErrors_def versionErrors_def gasPriceErrors_def feeErrors_def portErrors_def
  endpointErrors_def linkErrors_def divergenceErrors_def eachEntry_def optionalString_def

text \<open>A simple sufficient condition for text that is no placeholder.\<close>

lemma no_placeholder:
  assumes "s \<noteq> []" "printable (hd s)" "printable (last s)" "length s \<noteq> 3" "hd s \<noteq> CHR ''R''"
  shows "\<not> isPlaceholder s"
proof -
  have "\<not> EqualFold s ''TBD''"
    using assms(4) by (auto simp: EqualFold_def dest!: arg_cong [where f = length])
  moreover have "\<not> hasPrefix s ''REPLACE_''" using assms(1,5) by (cases s) (auto simp: hasPrefix_def)
  ultimately show ?thesis using assms(1-3) by (simp add: isPlaceholder_def)
qed

lemma ParseManifest_ok: "ParseManifest Y data = Inr m \<Longrightarrow> validateManifest Y m = []"
  by (auto simp: ParseManifest_def split: option.splits if_splits list.splits)

lemma manifest_identity:
  assumes "ParseManifest Y data = Inr m"
  shows "TrimSpace (nm_ChainID m) \<noteq> []" "nm_NetworkType m \<in> {''mainnet'', ''testnet''}"
    "nm_NetworkType m = ''mainnet'' \<Longrightarrow> nm_Divergences m = []"
proof -
  have v: "identityErrors m = []" "divergenceErrors m = []" using ParseManifest_ok [OF assms] by (simp_all add: validateManifest_def)
  then show "TrimSpace (nm_ChainID m) \<noteq> []" "nm_NetworkType m = ''mainnet'' \<Longrightarrow> nm_Divergences m = []"
    by (auto simp: identityErrors_def divergenceErrors_def requireString_def failIf_def split: if_splits)
  have "requireString ''network_type'' (nm_NetworkType m) = []"
    "failIf (nm_NetworkType m \<noteq> [] \<and> nm_NetworkType m \<noteq> ''mainnet'' \<and> nm_NetworkType m \<noteq> ''testnet'') ''network_type'' ErrManifestInvalid = []"
    using v(1) unfolding identityErrors_def by simp_all
  then show "nm_NetworkType m \<in> {''mainnet'', ''testnet''}"
    by (auto simp: requireString_def failIf_def split: if_splits)
qed

end
