(* ===== verification/Adapter_Config.thy ===== *)
theory Adapter_Config
  imports Admin Signers Network_Manifest
begin

text \<open>
  The adapter's configuration (\<open>cmd/sovren-adapter/config.go\<close>): the sections of
  \<open>adapter.yaml\<close>, their validation, the expansion of environment references, the check of
  the admin binding and \<open>LoadConfig\<close>.  YAML, the duration parser and the reading of files
  are parameters; a failure is reported by the path of the field, without its text.
\<close>

section \<open>The document\<close>

record NodeEndpoints =
  ne_GRPC :: string
  ne_RPC :: string
  ne_REST :: string

record DisagreementSection =
  dy_HeightDivergenceThreshold :: int
  dy_CheckInterval :: string

record NodesConfig =
  nc_Primary :: NodeEndpoints
  nc_Secondary :: "NodeEndpoints option"
  nc_Disagreement :: "DisagreementSection option"

record StorageConfig =
  so_Backend :: string
  so_DSN :: string

record WatchEntryConfig =
  we_Address :: string
  we_Kind :: string
  we_MemoRequired :: bool
  we_CustomerRef :: string

record ScannerSection =
  sy_Confirmations :: "uint64 option"
  sy_StartHeight :: "uint64 option"
  sy_WebsocketAccelerator :: "bool option"
  sy_PollInterval :: string
  sy_MinimumDepositUsovr :: string
  sy_Watch :: "WatchEntryConfig list"

record WithdrawalsConfig =
  wy_MinimumWithdrawalUsovr :: string
  wy_MaxFeeUsovr :: string
  wy_GasAdjustment :: string
  wy_BroadcastTimeout :: string
  wy_SimulateUnavailable :: string
  wy_ProhibitedDestinations :: "string list"

record SweepsConfig =
  zy_Strategy :: string
  zy_MinimumSweepAmountUsovr :: string
  zy_MaximumFeePercentageForSweep :: string
  zy_FeeReserveUsovr :: string
  zy_HotWallet :: string
  zy_FeeWalletMaxSpendUsovr :: string
  zy_FeeWalletSpendWindowBlocks :: uint64

record SignerConfig =
  gy_Kind :: string
  gy_Endpoint :: string

record ReconcilerConfig =
  ry_WalletInterval :: string
  ry_FullAddressInterval :: string

record AdminConfig =
  ay_Listen :: string
  ay_AuthToken :: string

record AdapterConfig =
  ac_SchemaVersion :: int
  ac_NetworkManifest :: string
  ac_Nodes :: NodesConfig
  ac_Storage :: StorageConfig
  ac_Scanner :: ScannerSection
  ac_Withdrawals :: WithdrawalsConfig
  ac_Sweeps :: SweepsConfig
  ac_Signer :: SignerConfig
  ac_Reconciler :: ReconcilerConfig
  ac_Admin :: AdminConfig
  ac_MetricsListen :: string

definition SupportedConfigSchemaVersion :: int where "SupportedConfigSchemaVersion = 1"

text \<open>The conversions \<open>storage.SweepStrategy(s)\<close> and \<open>storage.WatchedAddressKind(s)\<close>.\<close>

definition sweepStrategyOf :: "string \<Rightarrow> SweepStrategy" where
  "sweepStrategyOf s = (if s = ''FEE_RESERVE'' then StrategyFeeReserve else if s = ''FEE_FUND'' then StrategyFeeFund
     else if s = ''THRESHOLD_ONLY'' then StrategyThresholdOnly else if s = ''CUSTODY_ABSTRACTED'' then StrategyCustodyAbstract
     else SweepStrategyOther s)"

definition watchedAddressKindOf :: "string \<Rightarrow> WatchedAddressKind" where
  "watchedAddressKindOf s = (if s = ''CUSTOMER_DEPOSIT'' then WatchCustomerDeposit else if s = ''HOT_WALLET'' then WatchHotWallet
     else if s = ''COLD_WALLET'' then WatchColdWallet else if s = ''FEE_WALLET'' then WatchFeeWallet
     else if s = ''OMNIBUS'' then WatchOmnibus else WatchedAddressKindOther s)"

section \<open>Validation\<close>

definition failPath :: "bool \<Rightarrow> string \<Rightarrow> string list" where
  "failPath b path = (if b then [path] else [])"

definition requireDuration :: "manifestlib \<Rightarrow> string \<Rightarrow> string \<Rightarrow> string list" where
  "requireDuration Y path v = failPath (v \<noteq> [] \<and> (case ParseDuration Y v of None \<Rightarrow> True | Some d \<Rightarrow> d \<le> 0)) path"

definition requireInteger :: "string \<Rightarrow> string \<Rightarrow> string list" where
  "requireInteger path v = failPath (v \<noteq> [] \<and> \<not> canonical_re v) path"

definition requireDecimal :: "string \<Rightarrow> string \<Rightarrow> string list" where
  "requireDecimal path v = failPath (v \<noteq> [] \<and> \<not> decimalRe v) path"

definition nodesErrors :: "manifestlib \<Rightarrow> NodesConfig \<Rightarrow> string list" where
  "nodesErrors Y n = failPath (ne_RPC (nc_Primary n) = [] \<and> ne_GRPC (nc_Primary n) = []) ''nodes.primary''
     @ (case nc_Disagreement n of None \<Rightarrow> []
        | Some d \<Rightarrow> failPath (dy_HeightDivergenceThreshold d \<le> 0) ''nodes.disagreement.height_divergence_threshold''
            @ requireDuration Y ''nodes.disagreement.check_interval'' (dy_CheckInterval d))"

definition storageErrors :: "StorageConfig \<Rightarrow> string list" where
  "storageErrors s = failPath (so_Backend s \<notin> set [''sqlite'', ''postgres'']) ''storage.backend''
     @ failPath (TrimSpace (so_DSN s) = []) ''storage.dsn''"

definition watchErrors :: "lib \<Rightarrow> string \<Rightarrow> WatchEntryConfig \<Rightarrow> string list" where
  "watchErrors L p w = failPath (\<not> vr_Valid (ValidateAccountAddress L (we_Address w))) (p @ ''.address'')
     @ failPath (\<not> enumValid (watchedAddressKindOf (we_Kind w)) AllWatchedAddressKinds) (p @ ''.kind'')"

definition scannerErrors :: "lib \<Rightarrow> manifestlib \<Rightarrow> ScannerSection \<Rightarrow> string list" where
  "scannerErrors L Y sc = requireDuration Y ''scanner.poll_interval'' (sy_PollInterval sc)
     @ requireInteger ''scanner.minimum_deposit_usovr'' (sy_MinimumDepositUsovr sc)
     @ eachEntry ''scanner.watch'' (watchErrors L) (sy_Watch sc)"

definition withdrawalsErrors :: "lib \<Rightarrow> manifestlib \<Rightarrow> WithdrawalsConfig \<Rightarrow> string list" where
  "withdrawalsErrors L Y w = requireInteger ''withdrawals.minimum_withdrawal_usovr'' (wy_MinimumWithdrawalUsovr w)
     @ requireInteger ''withdrawals.max_fee_usovr'' (wy_MaxFeeUsovr w)
     @ requireDecimal ''withdrawals.gas_adjustment'' (wy_GasAdjustment w)
     @ requireDuration Y ''withdrawals.broadcast_timeout'' (wy_BroadcastTimeout w)
     @ failPath (wy_SimulateUnavailable w \<notin> set [[], ''queue'', ''static'']) ''withdrawals.simulate_unavailable''
     @ eachEntry ''withdrawals.prohibited_destinations'' (\<lambda>p d. failPath (\<not> vr_Valid (ValidateAccountAddress L d)) p)
         (wy_ProhibitedDestinations w)"

definition sweepsErrors :: "lib \<Rightarrow> SweepsConfig \<Rightarrow> string list" where
  "sweepsErrors L z = failPath (zy_Strategy z \<noteq> [] \<and> \<not> enumValid (sweepStrategyOf (zy_Strategy z)) AllSweepStrategies) ''sweeps.strategy''
     @ requireInteger ''sweeps.minimum_sweep_amount_usovr'' (zy_MinimumSweepAmountUsovr z)
     @ requireDecimal ''sweeps.maximum_fee_percentage_for_sweep'' (zy_MaximumFeePercentageForSweep z)
     @ requireInteger ''sweeps.fee_reserve_usovr'' (zy_FeeReserveUsovr z)
     @ failPath (zy_HotWallet z \<noteq> [] \<and> \<not> vr_Valid (ValidateAccountAddress L (zy_HotWallet z))) ''sweeps.hot_wallet''"

definition validateConfig :: "lib \<Rightarrow> manifestlib \<Rightarrow> AdapterConfig \<Rightarrow> string list" where
  "validateConfig L Y c = failPath (ac_SchemaVersion c \<noteq> SupportedConfigSchemaVersion) ''schema_version''
     @ failPath (TrimSpace (ac_NetworkManifest c) = []) ''network_manifest''
     @ nodesErrors Y (ac_Nodes c) @ storageErrors (ac_Storage c) @ scannerErrors L Y (ac_Scanner c)
     @ withdrawalsErrors L Y (ac_Withdrawals c) @ sweepsErrors L (ac_Sweeps c)
     @ failPath (gy_Kind (ac_Signer c) \<notin> set [[], ''grpc-remote'', ''exec'', ''unsafe-local'']) ''signer.kind''
     @ requireDuration Y ''reconciler.wallet_interval'' (ry_WalletInterval (ac_Reconciler c))
     @ requireDuration Y ''reconciler.full_address_interval'' (ry_FullAddressInterval (ac_Reconciler c))"

section \<open>Environment references\<close>

text \<open>The unset names in order, and the text with every set reference replaced.\<close>

function expandRefs :: "(string \<Rightarrow> string option) \<Rightarrow> string \<Rightarrow> string list \<times> string" where
  "expandRefs env [] = ([], [])"
| "expandRefs env (c # cs) = (case envRef (c # cs) of
       None \<Rightarrow> (let (missing, out) = expandRefs env cs in (missing, c # out))
     | Some (name, rest) \<Rightarrow> (let (missing, out) = expandRefs env rest in
         case env name of None \<Rightarrow> (name # missing, ''${'' @ name @ ''}'' @ out) | Some v \<Rightarrow> (missing, v @ out)))"
  by pat_completeness auto
termination
  by (relation "measure (\<lambda>(_, s). length s)") (auto dest: envRef_shorter)

definition expandEnvStrict :: "(string \<Rightarrow> string option) \<Rightarrow> string \<Rightarrow> string list + string" where
  "expandEnvStrict env s = (let (missing, out) = expandRefs env s in if missing \<noteq> [] then Inl missing else Inr out)"

section \<open>The admin binding\<close>

definition isLoopbackHost :: "string \<Rightarrow> bool" where
  "isLoopbackHost host0 = (let host = TrimSpace host0 in
     if host = ''localhost'' then True
     else if host \<in> set [[], ''0.0.0.0'', ''::''] then False
     else case ParseIP host of None \<Rightarrow> False | Some ip \<Rightarrow> IsLoopback ip)"

definition validateAdminBinding :: "AdminConfig \<Rightarrow> bool" where
  "validateAdminBinding a = (let listen = TrimSpace (ay_Listen a) in
     if listen = [] \<or> ay_AuthToken a \<noteq> [] then True
     else case SplitHostPort listen of None \<Rightarrow> False | Some (host, port) \<Rightarrow> isLoopbackHost host)"

section \<open>Loading\<close>

datatype configErr = ConfigUnreadable | ConfigUndecodable | ConfigInvalid "string list" | EnvUnset string "string list"
  | AdminExposed | ManifestUnreadable | ManifestRejected "ManifestError list" | UnsafeSignerRefused

text \<open>
  \<open>LoadConfig\<close>: \<open>file\<close> is the content of the configuration file, \<open>decode\<close> its strict YAML decoding, and
  \<open>readManifest\<close> reads the manifest that the path of the document resolves to.
\<close>

definition LoadConfig :: "lib \<Rightarrow> manifestlib \<Rightarrow> (string \<Rightarrow> string option) \<Rightarrow> (bytes \<Rightarrow> AdapterConfig option) \<Rightarrow>
    (string \<Rightarrow> bytes option) \<Rightarrow> bytes option \<Rightarrow> configErr + AdapterConfig \<times> NetworkManifest" where
  "LoadConfig L Y env decode readManifest file =
     (case file of None \<Rightarrow> Inl ConfigUnreadable | Some bz \<Rightarrow>
      case decode bz of None \<Rightarrow> Inl ConfigUndecodable | Some cfg0 \<Rightarrow>
      if validateConfig L Y cfg0 \<noteq> [] then Inl (ConfigInvalid (validateConfig L Y cfg0)) else
      case expandEnvStrict env (so_DSN (ac_Storage cfg0)) of Inl names \<Rightarrow> Inl (EnvUnset ''storage.dsn'' names) | Inr dsn \<Rightarrow>
      case expandEnvStrict env (ay_AuthToken (ac_Admin cfg0)) of Inl names \<Rightarrow> Inl (EnvUnset ''admin.auth_token'' names) | Inr token \<Rightarrow>
      let cfg = cfg0\<lparr>ac_Storage := (ac_Storage cfg0)\<lparr>so_DSN := dsn\<rparr>, ac_Admin := (ac_Admin cfg0)\<lparr>ay_AuthToken := token\<rparr>\<rparr> in
      if \<not> validateAdminBinding (ac_Admin cfg) then Inl AdminExposed else
      case readManifest (ac_NetworkManifest cfg) of None \<Rightarrow> Inl ManifestUnreadable | Some md \<Rightarrow>
      case ParseManifest Y md of Inl errs \<Rightarrow> Inl (ManifestRejected errs) | Inr manifest \<Rightarrow>
      if gy_Kind (ac_Signer cfg) = ''unsafe-local'' \<and> nm_NetworkType manifest = ''mainnet'' then Inl UnsafeSignerRefused
      else Inr (cfg, manifest))"

section \<open>Runtime values of the sections\<close>

text \<open>What \<open>main\<close> hands to every service.\<close>

record Deps =
  dp_Config :: AdapterConfig
  dp_Manifest :: NetworkManifest

definition Getenv :: "(string \<Rightarrow> string option) \<Rightarrow> string \<Rightarrow> string" where
  "Getenv env k = (case env k of None \<Rightarrow> [] | Some v \<Rightarrow> v)"

text \<open>An optional duration: \<open>dflt\<close> when the text is empty.\<close>

definition durationOr :: "manifestlib \<Rightarrow> int \<Rightarrow> string \<Rightarrow> string \<Rightarrow> string + int" where
  "durationOr Y dflt path v = (if v = [] then Inr dflt
     else case ParseDuration Y v of None \<Rightarrow> Inl path | Some d \<Rightarrow> Inr d)"

definition ScannerRuntime :: "manifestlib \<Rightarrow> AdapterConfig \<Rightarrow> string + uint64 \<times> uint64 \<times> int" where
  "ScannerRuntime Y c = (let sc = ac_Scanner c in
     case sy_Confirmations sc of
       Some n \<Rightarrow> if n < 1 \<or> n > 12 then Inl ''scanner.confirmations''
         else (case durationOr Y 0 ''scanner.poll_interval'' (sy_PollInterval sc) of Inl e \<Rightarrow> Inl e
           | Inr poll \<Rightarrow> Inr (n, case sy_StartHeight sc of None \<Rightarrow> 0 | Some h \<Rightarrow> h, poll))
     | None \<Rightarrow> (case durationOr Y 0 ''scanner.poll_interval'' (sy_PollInterval sc) of Inl e \<Rightarrow> Inl e
           | Inr poll \<Rightarrow> Inr (DefaultConfirmations, case sy_StartHeight sc of None \<Rightarrow> 0 | Some h \<Rightarrow> h, poll)))"

text \<open>\<open>runScanner\<close> up to the scanner it runs.\<close>

definition scannerService :: "lib \<Rightarrow> manifestlib \<Rightarrow> Deps \<Rightarrow> string + ScannerConfig \<times> uint64" where
  "scannerService L Y deps = (let c = dp_Config deps; v = sy_MinimumDepositUsovr (ac_Scanner c) in
     case ScannerRuntime Y c of Inl e \<Rightarrow> Inl e | Inr (confirmations, startHeight, poll) \<Rightarrow>
     if v \<noteq> [] \<and> NewIntFromString L v = None then Inl ''scanner.minimum_deposit_usovr'' else
     case NewScanner \<lparr>sc_ChainID = nm_ChainID (dp_Manifest deps), sc_Confirmations = confirmations, sc_PollInterval = poll,
          sc_StartHeight = startHeight, sc_MinimumDepositUsovr = (if v = [] then None else NewIntFromString L v),
          sc_DisableHashChainVerification = False, sc_MemoRecognizer = None, sc_PendingBatchLimit = 0\<rparr> of
       Inl e \<Rightarrow> Inl ''scanner'' | Inr x \<Rightarrow> Inr x)"

primrec addProhibited :: "lib \<Rightarrow> string list \<Rightarrow> PSet \<Rightarrow> string + PSet" where
  "addProhibited L [] deny = Inr deny"
| "addProhibited L (d # ds) deny = (let res = ValidateAccountAddress L d in
     if \<not> vr_Valid res then Inl ''withdrawals.prohibited_destinations''
     else addProhibited L ds (vr_NormalizedAddress res # deny))"

definition resolveProhibitedDestinations :: "lib \<Rightarrow> string list \<Rightarrow> string + PSet" where
  "resolveProhibitedDestinations L configured = (case addProhibited L configured (DefaultProhibitedModuleAccounts L) of
     Inl e \<Rightarrow> Inl e | Inr deny \<Rightarrow> Inr (sort (remdups deny)))"

definition withdrawalsGasPrice :: "string \<Rightarrow> string \<Rightarrow> string + string" where
  "withdrawalsGasPrice v denom = (let p = TrimSuffix (TrimSpace v) denom in
     if p = [] then Inl ''recommended_gas_price'' else Inr p)"

definition resolveGasAdjustment :: "string \<Rightarrow> string \<Rightarrow> string + string" where
  "resolveGasAdjustment configured recommended =
     (if TrimSpace configured \<noteq> [] then Inr (TrimSpace configured)
      else if TrimSpace recommended \<noteq> [] then Inr (TrimSpace recommended) else Inl ''gas_adjustment'')"

definition staticGas :: "(string \<Rightarrow> string option) \<Rightarrow> string + uint64" where
  "staticGas env = (let v = Getenv env ''SOVREN_WITHDRAWALS_STATIC_GAS'' in
     if v = [] then Inr 120000
     else case ParseUint64 v of None \<Rightarrow> Inl ''SOVREN_WITHDRAWALS_STATIC_GAS'' | Some g \<Rightarrow> Inr g)"

definition withdrawalsWorkflowConfig :: "lib \<Rightarrow> manifestlib \<Rightarrow> (string \<Rightarrow> string option) \<Rightarrow> Deps \<Rightarrow> string + Config" where
  "withdrawalsWorkflowConfig L Y env deps =
     (let w = ac_Withdrawals (dp_Config deps); m = dp_Manifest deps in
      case ScannerRuntime Y (dp_Config deps) of Inl e \<Rightarrow> Inl e | Inr (confirmations, _, _) \<Rightarrow>
      case durationOr Y (15 * 10 ^ 9) ''broadcast_timeout'' (wy_BroadcastTimeout w) of Inl e \<Rightarrow> Inl e | Inr timeout \<Rightarrow>
      case staticGas env of Inl e \<Rightarrow> Inl e | Inr gas \<Rightarrow>
      case withdrawalsGasPrice (mf_RecommendedGasPrice (nm_Fees m)) (nm_BaseDenom m) of Inl e \<Rightarrow> Inl e | Inr price \<Rightarrow>
      case resolveGasAdjustment (wy_GasAdjustment w) (mf_RecommendedGasAdjustment (nm_Fees m)) of Inl e \<Rightarrow> Inl e | Inr adj \<Rightarrow>
      case resolveProhibitedDestinations L (wy_ProhibitedDestinations w) of Inl e \<Rightarrow> Inl e | Inr deny \<Rightarrow>
      Inr \<lparr>cfg_ChainID = nm_ChainID m, cfg_MinimumWithdrawalUsovr = wy_MinimumWithdrawalUsovr w, cfg_MaxFeeUsovr = wy_MaxFeeUsovr w,
           cfg_GasAdjustment = adj, cfg_GasPriceUsovr = price,
           cfg_SimulateUnavailable = (if wy_SimulateUnavailable w = ''static'' then SimulateStatic else SimulateQueue),
           cfg_StaticGasLimit = gas, cfg_BroadcastTimeout = timeout, cfg_Confirmations = confirmations,
           cfg_ProhibitedDestinations = deny, cfg_KeyRefForSource = None\<rparr>)"

definition sweeperEngineConfig :: "manifestlib \<Rightarrow> (string \<Rightarrow> string option) \<Rightarrow> Deps \<Rightarrow> SweepStrategy \<Rightarrow> string + EngineConfig" where
  "sweeperEngineConfig Y env deps strategy =
     (let w = ac_Withdrawals (dp_Config deps); z = ac_Sweeps (dp_Config deps); m = dp_Manifest deps in
      case ScannerRuntime Y (dp_Config deps) of Inl e \<Rightarrow> Inl e | Inr (confirmations, _, _) \<Rightarrow>
      case durationOr Y (15 * 10 ^ 9) ''withdrawals.broadcast_timeout'' (wy_BroadcastTimeout w) of Inl e \<Rightarrow> Inl e | Inr timeout \<Rightarrow>
      let cfg = \<lparr>ec_ChainID = nm_ChainID m, ec_Strategy = strategy, ec_HotWallet = zy_HotWallet z,
           ec_MinimumSweepAmountUsovr = zy_MinimumSweepAmountUsovr z,
           ec_MaximumFeePercentageForSweep = zy_MaximumFeePercentageForSweep z, ec_FeeReserveUsovr = zy_FeeReserveUsovr z,
           ec_FeeWalletMaxSpendUsovr = zy_FeeWalletMaxSpendUsovr z, ec_FeeWalletSpendWindowBlocks = zy_FeeWalletSpendWindowBlocks z,
           ec_GasAdjustment = [], ec_GasPriceUsovr = [], ec_SimulateUnavailable = SimulatePolicyOther [],
           ec_StaticGasLimit = 0, ec_BroadcastTimeout = timeout, ec_Confirmations = confirmations, ec_KeyRefForSource = None\<rparr> in
      if strategy = StrategyCustodyAbstract then Inr cfg else
      case resolveGasAdjustment (wy_GasAdjustment w) (mf_RecommendedGasAdjustment (nm_Fees m)) of Inl e \<Rightarrow> Inl e | Inr adj \<Rightarrow>
      case withdrawalsGasPrice (mf_RecommendedGasPrice (nm_Fees m)) (nm_BaseDenom m) of Inl e \<Rightarrow> Inl e | Inr price \<Rightarrow>
      case staticGas env of Inl e \<Rightarrow> Inl e | Inr gas \<Rightarrow>
      Inr (cfg\<lparr>ec_GasAdjustment := adj, ec_GasPriceUsovr := price,
           ec_SimulateUnavailable := (if wy_SimulateUnavailable w = ''static'' then SimulateStatic else SimulateQueue),
           ec_StaticGasLimit := gas\<rparr>))"

definition reconcilerRuntime :: "manifestlib \<Rightarrow> (string \<Rightarrow> string option) \<Rightarrow> Deps \<Rightarrow> string + Schedule \<times> DisagreementConfig" where
  "reconcilerRuntime Y env deps =
     (let r = ac_Reconciler (dp_Config deps) in
      case durationOr Y 0 ''reconciler.wallet_interval'' (ry_WalletInterval r) of Inl e \<Rightarrow> Inl e | Inr wallet \<Rightarrow>
      case durationOr Y 0 ''reconciler.full_address_interval'' (ry_FullAddressInterval r) of Inl e \<Rightarrow> Inl e | Inr full \<Rightarrow>
      case durationOr Y 0 ''SOVREN_RECONCILER_NRT_INTERVAL'' (Getenv env ''SOVREN_RECONCILER_NRT_INTERVAL'') of Inl e \<Rightarrow> Inl e | Inr nrt \<Rightarrow>
      let sched = \<lparr>sd_NearRealTimeInterval = nrt, sd_WalletInterval = wallet, sd_FullAddressInterval = full\<rparr>;
          dis = \<lparr>dc_ChainID = [], dc_Interval = 0, dc_HeightTolerance = 0, dc_SequenceAddress = [], dc_BalanceAddress = [],
                 dc_CompareHashAtCheckpoint = True\<rparr> in
      case nc_Disagreement (ac_Nodes (dp_Config deps)) of None \<Rightarrow> Inr (sched, dis)
      | Some d \<Rightarrow> (case durationOr Y 0 ''nodes.disagreement.check_interval'' (dy_CheckInterval d) of Inl e \<Rightarrow> Inl e
          | Inr i \<Rightarrow> Inr (sched, dis\<lparr>dc_HeightTolerance := word_of_int (dy_HeightDivergenceThreshold d), dc_Interval := i\<rparr>)))"

end
