(* ===== verification/Adapter_Main.thy ===== *)
theory Adapter_Main
  imports Adapter_Config
begin

text \<open>
  From the loaded configuration to running services: the signer that is wired
  (\<open>buildWithdrawalsSigner\<close>, \<open>grpcremote.New\<close>, \<open>TLSConfig.build\<close>, \<open>execsigner.New\<close>), the monitor
  and the gauges of the reconciler service, and \<open>main.go\<close>: the choice of services, the
  chain client, the check of the chain, the seeding of the watch set and the
  listeners.  Opening the database, dialling and binding are parameters.
\<close>

section \<open>The signer\<close>

record TLSConfig =
  tl_CAFile :: string
  tl_CertFile :: string
  tl_KeyFile :: string
  tl_ServerName :: string
  tl_AllowServerOnly :: bool

record grpcConfig =
  gc_Target :: string
  gc_TLS :: "TLSConfig option"
  gc_AllowInsecureDev :: bool
  gc_CallTimeout :: int

text \<open>
  What a connection is secured with: the pool of certificate authorities that must
  verify the server, and the certificates the adapter presents.
\<close>

record tlsSetup =
  tc_ServerName :: string
  tc_RootCAs :: "bytes option"
  tc_Certificates :: "bytes list"

datatype transportCreds = TLSCreds tlsSetup | InsecureCreds

text \<open>
  \<open>CertPool\<close> reads a file of authorities (\<open>None\<close> when it cannot be read or holds no certificate),
  \<open>KeyPair\<close> a certificate with its key, and \<open>DialTarget\<close> says whether a target can be dialled.
\<close>

record files =
  CertPool :: "string \<Rightarrow> bytes option"
  KeyPair :: "string \<Rightarrow> string \<Rightarrow> bytes option"
  DialTarget :: "string \<Rightarrow> bool"

definition TLSConfig_build :: "files \<Rightarrow> TLSConfig \<Rightarrow> string + tlsSetup" where
  "TLSConfig_build F t =
     (if \<not> tl_AllowServerOnly t \<and> (tl_CAFile t = [] \<or> tl_CertFile t = [] \<or> tl_KeyFile t = []) then Inl ''production mTLS requires''
      else if tl_CAFile t \<noteq> [] \<and> CertPool F (tl_CAFile t) = None then Inl ''CA file''
      else if (tl_CertFile t = []) \<noteq> (tl_KeyFile t = []) then Inl ''client cert and key must be set together''
      else let pool = (if tl_CAFile t = [] then None else CertPool F (tl_CAFile t)) in
        if tl_CertFile t = [] then Inr \<lparr>tc_ServerName = tl_ServerName t, tc_RootCAs = pool, tc_Certificates = []\<rparr>
        else (case KeyPair F (tl_CertFile t) (tl_KeyFile t) of None \<Rightarrow> Inl ''load client key pair''
          | Some cert \<Rightarrow> Inr \<lparr>tc_ServerName = tl_ServerName t, tc_RootCAs = pool, tc_Certificates = [cert]\<rparr>))"

datatype wiredSigner = GrpcSigner string transportCreds int | ExecSigner string int | LocalSigner keyring

definition grpcremote_New :: "files \<Rightarrow> grpcConfig \<Rightarrow> string + wiredSigner" where
  "grpcremote_New F cfg =
     (if gc_Target cfg = [] then Inl ''target required''
      else case (case gc_TLS cfg of
          Some t \<Rightarrow> (case TLSConfig_build F t of Inl e \<Rightarrow> Inl e | Inr tc \<Rightarrow> Inr (TLSCreds tc))
        | None \<Rightarrow> if gc_AllowInsecureDev cfg then Inr InsecureCreds else Inl ''refusing plaintext signer connection'') of
        Inl e \<Rightarrow> Inl e
      | Inr creds \<Rightarrow> if \<not> DialTarget F (gc_Target cfg) then Inl ''dial''
          else Inr (GrpcSigner (gc_Target cfg) creds (if gc_CallTimeout cfg \<le> 0 then 30 * 10 ^ 9 else gc_CallTimeout cfg)))"

definition execsigner_New :: "string \<Rightarrow> int \<Rightarrow> string + wiredSigner" where
  "execsigner_New path timeout = (if path = [] then Inl ''binary path required''
     else Inr (ExecSigner path (if timeout \<le> 0 then 30 * 10 ^ 9 else timeout)))"

definition signerGrpcConfig :: "(string \<Rightarrow> string option) \<Rightarrow> string \<Rightarrow> string \<Rightarrow> string + grpcConfig" where
  "signerGrpcConfig env endpoint networkType =
     (let caFile = Getenv env ''SOVREN_SIGNER_TLS_CA_FILE''; certFile = Getenv env ''SOVREN_SIGNER_TLS_CERT_FILE'';
          keyFile = Getenv env ''SOVREN_SIGNER_TLS_KEY_FILE'';
          cfg = \<lparr>gc_Target = endpoint, gc_TLS = None, gc_AllowInsecureDev = False, gc_CallTimeout = 0\<rparr> in
      if caFile \<noteq> [] \<or> certFile \<noteq> [] \<or> keyFile \<noteq> [] then
        Inr (cfg\<lparr>gc_TLS := Some \<lparr>tl_CAFile = caFile, tl_CertFile = certFile, tl_KeyFile = keyFile,
               tl_ServerName = Getenv env ''SOVREN_SIGNER_TLS_SERVER_NAME'', tl_AllowServerOnly = False\<rparr>\<rparr>)
      else if Getenv env ''SOVREN_SIGNER_ALLOW_INSECURE_DEV'' = ''true'' then
        (if EqualFold networkType ''mainnet'' then Inl ''SOVREN_SIGNER_ALLOW_INSECURE_DEV is refused on mainnet''
         else Inr (cfg\<lparr>gc_AllowInsecureDev := True\<rparr>))
      else Inr cfg)"

definition unsafeLocalSigner :: "lib \<Rightarrow> keylib \<Rightarrow> (string \<Rightarrow> string \<Rightarrow> bytes option) \<Rightarrow> (string \<Rightarrow> string option) \<Rightarrow>
    string \<Rightarrow> string + wiredSigner" where
  "unsafeLocalSigner L X derive env networkType =
     (if Getenv env ''SOVREN_SIGNER_UNSAFE'' \<noteq> ''UNSAFE_TEST_ONLY'' then Inl ''unsafe-local requires SOVREN_SIGNER_UNSAFE''
      else let mnemonic = Getenv env ''SOVREN_SIGNER_MNEMONIC'';
               path = (if Getenv env ''SOVREN_SIGNER_HD_PATH'' = [] then DefaultHDPath else Getenv env ''SOVREN_SIGNER_HD_PATH'') in
        if mnemonic = [] then Inl ''unsafe-local requires SOVREN_SIGNER_MNEMONIC''
        else case NewLocal \<lparr>op_UnsafeTestOnly = True, op_NetworkType = networkType\<rparr> of Inl e \<Rightarrow> Inl (CodeOf e)
        | Inr S \<Rightarrow> (case DeriveAddress L X derive mnemonic path of Inl e \<Rightarrow> Inl e
          | Inr derived \<Rightarrow> (case ImportKey (da_Bech32 derived) (da_PrivateKey derived) S of Inl e \<Rightarrow> Inl (CodeOf e)
            | Inr S' \<Rightarrow> Inr (LocalSigner S'))))"

definition buildWithdrawalsSigner :: "lib \<Rightarrow> keylib \<Rightarrow> (string \<Rightarrow> string \<Rightarrow> bytes option) \<Rightarrow> files \<Rightarrow>
    (string \<Rightarrow> string option) \<Rightarrow> Deps \<Rightarrow> string + wiredSigner" where
  "buildWithdrawalsSigner L X derive F env deps =
     (let kind = gy_Kind (ac_Signer (dp_Config deps)); endpoint = gy_Endpoint (ac_Signer (dp_Config deps));
          networkType = nm_NetworkType (dp_Manifest deps) in
      if kind = ''grpc-remote'' then
        (if endpoint = [] then Inl ''signer.endpoint required for grpc-remote''
         else case signerGrpcConfig env endpoint networkType of Inl e \<Rightarrow> Inl e | Inr cfg \<Rightarrow> grpcremote_New F cfg)
      else if kind = ''exec'' then
        (if endpoint = [] then Inl ''signer.endpoint (binary path) required for exec'' else execsigner_New endpoint 0)
      else if kind = ''unsafe-local'' then unsafeLocalSigner L X derive env networkType
      else if kind = [] then Inl ''signer.kind required'' else Inl ''unknown signer.kind'')"

section \<open>The reconciler service\<close>

definition firstHotWallet :: "string \<Rightarrow> (store, string) prog" where
  "firstHotWallet chainID = bindE (tryE (watchRepo_ListActive chainID)) (\<lambda>r. case r of Inl e \<Rightarrow> ret []
     | Inr watched \<Rightarrow> ret (case find (\<lambda>w. wa_Kind w = WatchHotWallet) watched of None \<Rightarrow> [] | Some w \<Rightarrow> wa_Address w))"

text \<open>The configuration of the monitor that \<open>runReconciler\<close> starts when there are two nodes.\<close>

definition monitorConfig :: "Deps \<Rightarrow> DisagreementConfig \<Rightarrow> (store, DisagreementConfig) prog" where
  "monitorConfig deps dis = bindE (firstHotWallet (nm_ChainID (dp_Manifest deps))) (\<lambda>hw.
     let d1 = dis\<lparr>dc_ChainID := nm_ChainID (dp_Manifest deps)\<rparr>;
         d2 = (if hw = [] then d1 else d1\<lparr>dc_SequenceAddress := hw, dc_BalanceAddress := hw\<rparr>)
     in liftR (NewMonitor d2))"

text \<open>The gauges and the values they are set to, before the conversion to a float.\<close>

datatype gauge = ControlsPaused string ControlFlow int | ReviewQueueDepth string int
  | ChainReviewConditionsOpen string ChainReviewTrigger int | DepositBacklog string int | HotWalletBalanceUsovr string string int

definition gaugeListLimit :: int where "gaugeListLimit = 10000"

definition pausedVal :: "bool \<Rightarrow> int" where
  "pausedVal b = (if b then 1 else 0)"

definition walletGauges :: "(string \<Rightarrow> string \<Rightarrow> err + int) \<Rightarrow> string \<Rightarrow> WatchedAddress list \<Rightarrow> gauge list" where
  "walletGauges balance chainID watched = concat (map (\<lambda>w.
     if wa_Kind w \<noteq> WatchHotWallet \<and> wa_Kind w \<noteq> WatchFeeWallet then []
     else case balance (wa_Address w) BaseDenom of Inl e \<Rightarrow> [] | Inr b \<Rightarrow> [HotWalletBalanceUsovr chainID (wa_Address w) b]) watched)"

definition refreshGauges :: "bool \<Rightarrow> (string \<Rightarrow> string \<Rightarrow> err + int) option \<Rightarrow> string \<Rightarrow> (store, gauge list) prog" where
  "refreshGauges metrics client chainID =
     (if \<not> metrics then ret [] else
      bindE (controlsRepo_Get chainID) (\<lambda>controls.
      bindE (reviewRepo_ListOpen chainID gaugeListLimit) (\<lambda>review.
      bindE (chainReviewRepo_ListOpen chainID) (\<lambda>opn.
      bindE (depositRepo_ListByStatus chainID DepositCreditable gaugeListLimit) (\<lambda>backlog.
      bindE (case client of None \<Rightarrow> ret []
        | Some balance \<Rightarrow> bindE (watchRepo_ListActive chainID) (\<lambda>watched. ret (walletGauges balance chainID watched))) (\<lambda>wallets.
      ret ([ControlsPaused chainID FlowCredit (pausedVal (oc_CreditPaused controls)),
            ControlsPaused chainID FlowSigning (pausedVal (oc_SigningPaused controls)),
            ControlsPaused chainID FlowBroadcast (pausedVal (oc_BroadcastPaused controls)),
            ControlsPaused chainID FlowSweep (pausedVal (oc_SweepPaused controls)),
            ReviewQueueDepth chainID (int (length review))]
         @ map (\<lambda>t. ChainReviewConditionsOpen chainID t (int (length (filter (\<lambda>c. cr_Trigger c = t) opn)))) AllChainReviewTriggers
         @ [DepositBacklog chainID (int (length backlog))] @ wallets)))))))"

section \<open>The process\<close>

definition registry :: "string list" where
  "registry = [''scanner'', ''withdrawals'', ''sweeper'', ''reconciler'']"

text \<open>The runners the arguments name: \<open>all\<close> stands for every registered service.\<close>

primrec selectServices :: "string list \<Rightarrow> string list \<Rightarrow> string list option" where
  "selectServices [] runners = Some runners"
| "selectServices (name # names) runners =
     (if name = ''all'' then selectServices names (remdups (runners @ registry))
      else if name \<notin> set registry then None else selectServices names (remdups (runners @ [name])))"

text \<open>A chain client is a node, or two with failover; dialling a node is a parameter.\<close>

datatype 'c chainClient = SingleNode 'c | FailoverNodes 'c 'c

definition nodeClient :: "(string \<Rightarrow> 'c option) \<Rightarrow> (string \<Rightarrow> 'c option) \<Rightarrow> NodeEndpoints \<Rightarrow> 'c option" where
  "nodeClient NewCometRPC NewGRPC ep = (if ne_RPC ep \<noteq> [] then NewCometRPC (ne_RPC ep) else NewGRPC (ne_GRPC ep))"

definition buildClient :: "(string \<Rightarrow> 'c option) \<Rightarrow> (string \<Rightarrow> 'c option) \<Rightarrow> AdapterConfig \<Rightarrow> 'c chainClient option" where
  "buildClient NewCometRPC NewGRPC cfg = (case nodeClient NewCometRPC NewGRPC (nc_Primary (ac_Nodes cfg)) of None \<Rightarrow> None
     | Some primary \<Rightarrow> (case nc_Secondary (ac_Nodes cfg) of None \<Rightarrow> Some (SingleNode primary)
       | Some ep \<Rightarrow> map_option (FailoverNodes primary) (nodeClient NewCometRPC NewGRPC ep)))"

definition watchRow :: "string \<Rightarrow> WatchEntryConfig \<Rightarrow> WatchedAddress" where
  "watchRow chainID w = \<lparr>wa_ChainID = chainID, wa_Address = we_Address w, wa_Kind = watchedAddressKindOf (we_Kind w),
     wa_CustomerRef = we_CustomerRef w, wa_MemoRequired = we_MemoRequired w, wa_Active = True\<rparr>"

definition seedWatchSet :: "AdapterConfig \<Rightarrow> string \<Rightarrow> (store, unit) prog" where
  "seedWatchSet cfg chainID = forE (sy_Watch (ac_Scanner cfg)) (\<lambda>w. watchRepo_Upsert (watchRow chainID w))"

text \<open>The address \<open>serveHTTP\<close> binds, or nothing when the bind fails.\<close>

definition serveHTTP :: "(string \<Rightarrow> bool) \<Rightarrow> string \<Rightarrow> string \<Rightarrow> string option" where
  "serveHTTP canBind listen fallback = (let addr = (if listen = [] then fallback else listen) in
     if canBind addr then Some addr else None)"

text \<open>What \<open>run\<close> reaches before the services: an exit code, or the services with their wiring.\<close>

datatype 'c startup = Exit int | Running "string list" Deps "'c chainClient" string

record 'c outside =
  out_OpenStore :: "string \<Rightarrow> string \<Rightarrow> bool"
  out_NewCometRPC :: "string \<Rightarrow> 'c option"
  out_NewGRPC :: "string \<Rightarrow> 'c option"
  out_NodeChainID :: "'c chainClient \<Rightarrow> err + string"
  out_CanBind :: "string \<Rightarrow> bool"

definition openStore :: "(string \<Rightarrow> string \<Rightarrow> bool) \<Rightarrow> AdapterConfig \<Rightarrow> bool" where
  "openStore opens cfg \<longleftrightarrow> so_Backend (ac_Storage cfg) \<in> set [''sqlite'', ''postgres''] \<and> opens (so_Backend (ac_Storage cfg)) (so_DSN (ac_Storage cfg))"

text \<open>From the seeded watch set on: the two listeners.\<close>

definition serveAndRun :: "'c outside \<Rightarrow> string list \<Rightarrow> Deps \<Rightarrow> 'c chainClient \<Rightarrow> 'c startup" where
  "serveAndRun O1 runners deps cl =
     (case serveHTTP (out_CanBind O1) (ac_MetricsListen (dp_Config deps)) '':9464'' of None \<Rightarrow> Exit 1
      | Some _ \<Rightarrow> (case serveHTTP (out_CanBind O1) (ay_Listen (ac_Admin (dp_Config deps))) ''127.0.0.1:9465'' of None \<Rightarrow> Exit 1
        | Some addr \<Rightarrow> Running runners deps cl addr))"

definition connectAndSeed :: "'c outside \<Rightarrow> string list \<Rightarrow> AdapterConfig \<Rightarrow> NetworkManifest \<Rightarrow> store \<Rightarrow> 'c startup \<times> store" where
  "connectAndSeed O1 runners cfg manifest s =
     (case buildClient (out_NewCometRPC O1) (out_NewGRPC O1) cfg of None \<Rightarrow> (Exit 3, s)
      | Some cl \<Rightarrow> (case out_NodeChainID O1 cl of Inl e \<Rightarrow> (Exit 3, s)
        | Inr chainID \<Rightarrow> if chainID \<noteq> nm_ChainID manifest then (Exit 3, s)
            else (case seedWatchSet cfg (nm_ChainID manifest) s of (Inl e, t) \<Rightarrow> (Exit 2, t)
              | (Inr _, t) \<Rightarrow> (serveAndRun O1 runners \<lparr>dp_Config = cfg, dp_Manifest = manifest\<rparr> cl, t))))"

definition run :: "'c outside \<Rightarrow> configErr + AdapterConfig \<times> NetworkManifest \<Rightarrow> string list \<Rightarrow> store \<Rightarrow> 'c startup \<times> store" where
  "run O1 loaded services s =
     (if services = [] then (Exit 1, s)
      else case selectServices services [] of None \<Rightarrow> (Exit 1, s)
      | Some runners \<Rightarrow> (case loaded of Inl e \<Rightarrow> (Exit 1, s)
        | Inr (cfg, manifest) \<Rightarrow> if \<not> openStore (out_OpenStore O1) cfg then (Exit 2, s)
            else connectAndSeed O1 runners cfg manifest s))"

end
