(* ===== verification/Reconciler_Service.thy ===== *)
theory Reconciler_Service
  imports Adapter_Main Program
begin

text \<open>
  The reconciler service: \<open>runReconciler\<close> of \<open>reconciler_service.go\<close> with the loops it
  starts, \<open>RunSchedules\<close> of \<open>reconcile/schedule.go\<close>, \<open>Monitor.Run\<close> of
  \<open>reconcile/disagreement.go\<close> and the gauge loop.  Its goroutines share nothing but
  the store, so a run is the sequence of their rounds in the order in which the
  tickers fire; each round has a clock, a node and identifiers of its own.  What a
  loop keeps between its rounds, the cursors of the near-real-time pass and the
  count of clean checks, is the state of the run.  A round that fails is logged and
  the loop goes on: no error of a round ends the service.
\<close>

section \<open>Starting the service\<close>

text \<open>What is started: the schedules if there is a client, the monitor if it has two nodes.\<close>

record reconcilerParts =
  rp_Schedules :: "(ReconcileConfig \<times> Schedule) option"
  rp_Monitor :: "DisagreementConfig option"
  rp_ChainID :: string

definition startReconciler :: "manifestlib \<Rightarrow> (string \<Rightarrow> string option) \<Rightarrow> Deps \<Rightarrow> 'c chainClient option \<Rightarrow> (store, reconcilerParts) prog" where
  "startReconciler Y env deps cl =
     (case reconcilerRuntime Y env deps of Inl e \<Rightarrow> throw (ErrOther e)
      | Inr (sched, dis) \<Rightarrow>
        let chainID = nm_ChainID (dp_Manifest deps) in
        bindE (case cl of None \<Rightarrow> ret None
          | Some _ \<Rightarrow> bindE (liftR (NewReconciler \<lparr>rf_ChainID = chainID\<rparr>)) (\<lambda>rec. ret (Some (rec, withDefaults sched)))) (\<lambda>schedules.
        bindE (case cl of Some (FailoverNodes _ _) \<Rightarrow> bindE (monitorConfig deps dis) (\<lambda>mon. ret (Some mon)) | _ \<Rightarrow> ret None) (\<lambda>monitor.
        ret \<lparr>rp_Schedules = schedules, rp_Monitor = monitor, rp_ChainID = chainID\<rparr>)))"

section \<open>The rounds\<close>

text \<open>
  Which ticker fired, with what the round sees of the world: the client, the clock
  and the identifiers it draws.  \<open>CheckDue\<close> carries the comparer's answers.
\<close>

datatype reconcilerRound =
    GaugesDue bool "(string \<Rightarrow> string \<Rightarrow> err + int) option"
  | NrtDue codec client time "string \<Rightarrow> string"
  | WalletDue client time string
  | FullDue client time string time
  | CheckDue "CompareRequest \<Rightarrow> err + CompareResult" time "nat \<Rightarrow> string"

record reconcilerState =
  rs_cursors :: "string \<rightharpoonup> int"
  rs_cleanStreak :: int

definition reconcilerStart :: reconcilerState where
  "reconcilerStart = \<lparr>rs_cursors = Map.empty, rs_cleanStreak = 0\<rparr>"

definition scheduleRound :: "ReconcileConfig \<Rightarrow> reconcilerState \<Rightarrow> reconcilerRound \<Rightarrow> (store, reconcilerState) prog" where
  "scheduleRound rec st d = (case d of
     NrtDue K cl now newID \<Rightarrow>
       bindE (NearRealTimePass K rec (Some cl) now newID (rs_cursors st)) (\<lambda>(cursors, _). ret (st\<lparr>rs_cursors := cursors\<rparr>))
   | WalletDue cl now newID \<Rightarrow> thenE (tryE (Run rec (Some cl) now newID ReconWalletHourly)) (ret st)
   | FullDue cl now newID now' \<Rightarrow>
       thenE (tryE (Run rec (Some cl) now newID ReconAddressDaily))
         (thenE (tryE (Business rec now')) (ret st))
   | _ \<Rightarrow> ret st)"

definition monitorRound :: "DisagreementConfig \<Rightarrow> reconcilerState \<Rightarrow> reconcilerRound \<Rightarrow> (store, reconcilerState) prog" where
  "monitorRound cfg st d = (case d of
     CheckDue cmp now newID \<Rightarrow>
       bindE (Check cfg cmp now newID (rs_cleanStreak st)) (\<lambda>(streak, _). ret (st\<lparr>rs_cleanStreak := streak\<rparr>))
   | _ \<Rightarrow> ret st)"

definition gaugeRound :: "string \<Rightarrow> reconcilerState \<Rightarrow> reconcilerRound \<Rightarrow> (store, reconcilerState) prog" where
  "gaugeRound chainID st d = (case d of
     GaugesDue metrics balance \<Rightarrow> thenE (tryE (refreshGauges metrics balance chainID)) (ret st)
   | _ \<Rightarrow> ret st)"

text \<open>A round of the part whose ticker fired; a part that was not started has no ticker.\<close>

definition reconcilerTurn :: "reconcilerParts \<Rightarrow> reconcilerState \<Rightarrow> reconcilerRound \<Rightarrow> (store, reconcilerState) prog" where
  "reconcilerTurn P st d =
     bindE (gaugeRound (rp_ChainID P) st d) (\<lambda>st1.
     bindE (case rp_Schedules P of None \<Rightarrow> ret st1 | Some (rec, _) \<Rightarrow> scheduleRound rec st1 d) (\<lambda>st2.
     case rp_Monitor P of None \<Rightarrow> ret st2 | Some cfg \<Rightarrow> monitorRound cfg st2 d))"

text \<open>The rounds until the context is done, from any state of the loops on.\<close>

definition reconcilerLoop :: "reconcilerParts \<Rightarrow> reconcilerRound list \<Rightarrow> reconcilerState \<Rightarrow> (store, reconcilerState) prog" where
  "reconcilerLoop P rounds = foldE (reconcilerTurn P) rounds"

definition runReconciler :: "manifestlib \<Rightarrow> (string \<Rightarrow> string option) \<Rightarrow> Deps \<Rightarrow> 'c chainClient option \<Rightarrow> reconcilerRound list \<Rightarrow> (store, unit) prog" where
  "runReconciler Y env deps cl rounds =
     bindE (startReconciler Y env deps cl) (\<lambda>P. thenE (reconcilerLoop P rounds reconcilerStart) (ret ()))"

section \<open>The service is a run of the program\<close>

lemma app_reports [app_ops]:
  "stays (appsteps L ok) (Run cfg chain now i kind)" "stays (appsteps L ok) (NearRealTimePass K cfg chain now newID cursors)"
  "stays (appsteps L ok) (Check dcfg cmp now newID2 streak)"
  by (rule stays_appstep, erule appstep.intros)+

lemma app_more_reads [app_ops]:
  "stays (appsteps L ok) (depositRepo_ListByStatus c dst n)" "stays (appsteps L ok) (ledgerRepo_List q)"
  by (rule ap.stays_unchanged, simp add: reads_unchanged)+

lemma app_pageLoop:
  "(\<And>b e. stays (appsteps L ok) (fn b e)) \<Longrightarrow> stays (appsteps L ok) (pageLoop n c a fn i acc)"
proof (induction n arbitrary: i acc)
  case (Suc n)
  show ?case unfolding pageLoop.simps ledgerPage_def by (intro ap.stays_rules app_ops Suc)
qed (simp only: pageLoop.simps, rule ap.stays_throw)

lemma app_business [app_ops]: "stays (appsteps L ok) (Business cfg now)"
  unfolding Business_def bz_deposits_def bz_withdrawals_def walkLedger_def walkFrom_def Let_def
  by (intro ap.stays_rules app_ops app_pageLoop)

lemma app_gauges [app_ops]: "stays (appsteps L ok) (refreshGauges metrics balance c)"
  unfolding refreshGauges_def by (intro ap.stays_rules app_ops)

lemma stays_chainClient:
  "(\<And>a. stays R (f a)) \<Longrightarrow> (\<And>a b. stays R (g a b)) \<Longrightarrow>
   stays R (case x of SingleNode a \<Rightarrow> f a | FailoverNodes a b \<Rightarrow> g a b)"
  by (cases x) simp_all

lemma stays_round:
  "(\<And>m b. stays R (f1 m b)) \<Longrightarrow> (\<And>K cl now i. stays R (f2 K cl now i)) \<Longrightarrow> (\<And>cl now i. stays R (f3 cl now i)) \<Longrightarrow>
   (\<And>cl now i now'. stays R (f4 cl now i now')) \<Longrightarrow> (\<And>cmp now i. stays R (f5 cmp now i)) \<Longrightarrow>
   stays R (case d of GaugesDue m b \<Rightarrow> f1 m b | NrtDue K cl now i \<Rightarrow> f2 K cl now i | WalletDue cl now i \<Rightarrow> f3 cl now i
     | FullDue cl now i now' \<Rightarrow> f4 cl now i now' | CheckDue cmp now i \<Rightarrow> f5 cmp now i)"
  by (cases d) simp_all

lemma app_reconciler_start [app_ops]: "stays (appsteps L ok) (startReconciler Y env deps cl)"
  unfolding startReconciler_def monitorConfig_def firstHotWallet_def Let_def
  by (intro ap.stays_rules app_ops stays_chainClient)

lemma app_reconciler_turn: "stays (appsteps L ok) (reconcilerTurn P st d)"
  unfolding reconcilerTurn_def gaugeRound_def scheduleRound_def monitorRound_def
  by (intro ap.stays_rules app_ops stays_round)

lemma app_reconciler_loop [app_ops]: "stays (appsteps L ok) (reconcilerLoop P rounds st)"
  unfolding reconcilerLoop_def
proof (induction rounds arbitrary: st)
  case (Cons d rounds)
  then show ?case unfolding foldE.simps by (intro ap.stays_bindE app_reconciler_turn)
qed (simp only: foldE.simps, rule ap.stays_ret)

lemma app_reconciler: "stays (appsteps L ok) (runReconciler Y env deps cl rounds)"
  unfolding runReconciler_def by (intro ap.stays_rules app_ops)

end
