(* ===== verification/Program_Theorems.thy ===== *)
theory Program_Theorems
  imports Compliance Discovery Controls_Audit Reconciler_Service Sweep_Fixtures
begin

text \<open>
  What the library gives for the program as a whole: the schema's checks hold in
  every reachable store, the adapter's services and handlers are runs of the
  operations the other theorems are about, nothing is signed without an approval,
  a pause changes its flow and no other and lasts until it is resumed, and startup
  settles every source it has to.
\<close>

section \<open>Every reachable store satisfies the schema\<close>

text \<open>
  C5.  In every store the program can reach from the empty one, by any operations in
  any order, every row satisfies the \<open>CHECK\<close> constraints of the schema and the
  required fields: enum columns hold known values, amounts are not negative (and
  positive for deposits and withdrawals), identifiers are not empty, a deposit is
  suspended exactly when it remembers its prior status.
\<close>

theorem program_typed:
  assumes "appsteps L ok empty_store s"
  shows "schema_checks s \<and> fields_required s"
  using tc.closed_steps [OF assms] typed_empty by (simp add: typed_rel_def store_typed_def)

lemma appsteps_step: "appstep L ok s t \<Longrightarrow> appsteps L ok t u \<Longrightarrow> appsteps L ok s u"
  by (rule converse_rtranclp_into_rtranclp)

lemma ex_watch_step:
  "watchRepo_Upsert ex_watch (ex_st (ex_wd WithdrawalSigned [10, 1, 2]) [ex_slot SequenceSigned]) = (Inr (), ex_sys [] [])"
  by (simp add: watchRepo_Upsert_def ex_watch_def ex_sys_def ex_st_def enum_defs empty_store_def)

lemma ex_app_signed: "ok ''w1'' \<Longrightarrow> appsteps ex_lib ok empty_store (ex_st (ex_wd WithdrawalSigned [10, 1, 2]) [ex_slot SequenceSigned])"
  by (rule appsteps_step [OF appstep.submit [OF run_submit]], rule appsteps_step [OF appstep.validate [OF run_validate]],
      rule appsteps_step [OF appstep.approve [OF _ run_approve]], assumption,
      rule appsteps_step [OF appstep.reserveFunds [OF run_reserveFunds]],
      rule appsteps_step [OF appstep.reserveSequence [OF run_reserveSequence]], rule appsteps_step [OF appstep.build [OF run_build]],
      rule appsteps_step [OF appstep.simulate [OF run_simulate]], rule appsteps_step [OF appstep.sign [OF run_sign]]) simp

lemma ex_app_reachable:
  "appsteps ex_lib (\<lambda>_. True) empty_store (ex_sys [ex_job SweepSigned 50 [10, 11, 12]] [ex_slot6 SequenceSigned])"
proof -
  have "appsteps ex_lib (\<lambda>_. True) (ex_st (ex_wd WithdrawalSigned [10, 1, 2]) [ex_slot SequenceSigned])
      (ex_sys [ex_job SweepSigned 50 [10, 11, 12]] [ex_slot6 SequenceSigned])"
    by (rule appsteps_step [OF appstep.watch [OF ex_watch_step]], rule appsteps_step [OF appstep.plan [OF run_plan]],
        rule appsteps_step [OF appstep.prepare [OF run_prepare]]) simp
  then show ?thesis using ex_app_signed [of "\<lambda>_. True"] by simp
qed

theorem program_typed_witness:
  "list_all check_sweep_jobs [ex_job SweepSigned 50 [10, 11, 12]] \<and>
   list_all check_withdrawals (t_withdrawals (ex_sys [ex_job SweepSigned 50 [10, 11, 12]] [ex_slot6 SequenceSigned]))"
  using program_typed [OF ex_app_reachable] by (simp add: schema_checks_def ex_sys_def)


section \<open>The adapter performs operations of the library and nothing else\<close>

text \<open>
  The services and the admin API, whatever the clock, the nodes and the signer
  answer: the seeding of the watch set, the startup of a service, a pass of the
  scanner, the withdrawal worker or the sweeper, any run of the reconciler's loops,
  or an admin request.
\<close>

inductive adapter :: "lib \<Rightarrow> store \<Rightarrow> store \<Rightarrow> bool" for L where
  seed: "seedWatchSet cfg c s = (r, t) \<Longrightarrow> adapter L s t"
| withdrawalsStart: "withdrawalsStartup now node c s = (r, t) \<Longrightarrow> adapter L s t"
| sweeperStart: "sweeperStartup now node c s = (r, t) \<Longrightarrow> adapter L s t"
| drive: "driveWithdrawals L W c V s = (ws, t) \<Longrightarrow> adapter L s t"
| sweep: "Pass L G n ch osg s = (ps, t) \<Longrightarrow> adapter L s t"
| scan: "Cycle K E n cfg F i fb s = (cur, t) \<Longrightarrow> adapter L s t"
| reconcilerStart: "startReconciler Y env deps (nodes :: client chainClient option) s = (parts, t) \<Longrightarrow> adapter L s t"
| reconcilerLoop: "reconcilerLoop parts rounds st s = (st', t) \<Longrightarrow> adapter L s t"
| pause: "handleControlsPause p n c x creq s = (rs, t) \<Longrightarrow> adapter L s t"
| scanOnly: "handleScanWithoutCredit n c x sreq s = (rs, t) \<Longrightarrow> adapter L s t"
| resume: "handleScannerResumeFrom n c x rreq s = (rs, t) \<Longrightarrow> adapter L s t"
| reconcileTx: "handleReconcileTx K cl n c i tb s = (rs, t) \<Longrightarrow> adapter L s t"
| reconcileAddress: "handleReconcileAddress cl n c i ab s = (rs, t) \<Longrightarrow> adapter L s t"
| reviewQueue: "handleReviewQueueList c s = (rs, t) \<Longrightarrow> adapter L s t"
| resolveItem: "handleReviewQueueResolve n pid vreq s = (rs, t) \<Longrightarrow> adapter L s t"
| resolveCondition: "handleChainReviewResolve n cid vreq s = (rs, t) \<Longrightarrow> adapter L s t"
| status: "handleStatus g c nt vs s = (rs, t) \<Longrightarrow> adapter L s t"

lemma app_seed: "stays (appsteps L ok) (seedWatchSet cfg c)"
  unfolding seedWatchSet_def by (rule ap.stays_forE) (rule stays_appstep, erule appstep.watch)

lemma adapter_appsteps:
  assumes "adapter L s t"
  shows "appsteps L ok s t"
  using assms
proof cases
  case (sweep G n ch osg ps)
  then show ?thesis by (blast intro: appstep.pass)
next
  case (scan K E n cfg F i fb cur)
  then show ?thesis by (blast intro: appstep.cycle)
next
  case (reconcilerStart Y env deps nodes parts)
  then show ?thesis by (rule app_reconciler_start [THEN staysD])
next
  case (reconcilerLoop parts rounds st st')
  then show ?thesis by (rule app_reconciler_loop [THEN staysD])
qed (erule app_seed [THEN staysD] app_drive [THEN staysD] app_startup [THEN staysD] app_handlers [THEN staysD])+

text \<open>
  C6.  Refinement: whatever one of the four services does (the scanner's cycle, the
  withdrawal worker's and the sweeper's startup and pass, the reconciler's startup
  and any sequence of rounds of its schedules, monitor and gauges), the seeding of
  the watch set, and every admin request, started in a store that satisfies the
  schema, is a run of the system steps the safety theorems range over, leaves such
  a store again, and contains no compliance approval.
\<close>

theorem adapter_refines_system:
  assumes "adapter L s t" "store_uniq s"
  shows "appsteps L (\<lambda>_. False) s t \<and> syssteps L s t \<and> store_uniq t"
  using adapter_appsteps [OF assms(1), of "\<lambda>_. False"] appsteps_syssteps [OF _ assms(2)] by blast

theorem adapter_refines_system_witness:
  "syssteps ex_lib empty_store
     (snd (handleControlsPause True 5 ''sovr-1'' [] (Inr \<lparr>cq_Flow = FlowSigning, cq_Reason = []\<rparr>) empty_store))"
  using adapter_refines_system [OF adapter.pause [OF prod.collapse [symmetric]] store_uniq_empty] by blast

text \<open>
  C4.  No withdrawal is signed without an approval of its own: in every run in which
  \<open>ApproveCompliance\<close> is not called for the withdrawal, whatever is approved for the
  others and whatever the services and operators do, it has no signed bytes and has
  reserved no funds.
\<close>

theorem approval_required:
  assumes "appsteps L (\<lambda>i. i \<noteq> k) empty_store s" "w \<in> set (t_withdrawals s)" "w_WithdrawalID w = k"
  shows "w_SignedTxBytes w = [] \<and> w_Status w \<notin> {WithdrawalComplianceApproved, WithdrawalFundsReserved,
    WithdrawalSequenceReserved, WithdrawalTransactionBuilt, WithdrawalTransactionSimulated, WithdrawalSigned,
    WithdrawalBroadcast, WithdrawalIncluded}"
proof -
  have "unapproved k empty_store" by (simp add: unapproved_def empty_store_def)
  then have "unapproved k s" by (rule unapproved_steps [OF assms(1)])
  then show ?thesis using assms(2,3) by (auto simp: unapproved_def unapprovedStatus_def)
qed

theorem approval_required_witness:
  "w_SignedTxBytes (ex_at WithdrawalAddressValidated) = [] \<and>
   appsteps ex_lib (\<lambda>i. i \<noteq> ''w1'') empty_store (ex_st (ex_at WithdrawalAddressValidated) [])"
proof -
  have run: "appsteps ex_lib (\<lambda>i. i \<noteq> ''w1'') empty_store (ex_st (ex_at WithdrawalAddressValidated) [])"
    by (rule appsteps_step [OF appstep.submit [OF run_submit]], rule appsteps_step [OF appstep.validate [OF run_validate]]) simp
  have id: "w_WithdrawalID (ex_at WithdrawalAddressValidated) = ''w1''" by (simp add: ex_at_def ex_w0_def ex_wd_def)
  show ?thesis using approval_required [OF run _ id] run by (simp add: ex_st_def)
qed


section \<open>A pause takes effect at once, on its flow only\<close>

text \<open>
  C8.  A pause or resume request for a known flow answers 200 with the controls now in
  force.  They differ from the ones before in that flow only, no other chain's
  controls change, and the audit trail gains exactly one row, with the actor and
  the reason, if the flag changed and none if it did not; nothing else of the store
  is touched.
\<close>

theorem pause_exact:
  assumes "c \<noteq> []" "fl \<in> set AllControlFlows"
    and run: "handleControlsPause v now c xActor (Inr \<lparr>cq_Flow = fl, cq_Reason = reason\<rparr>) s = (resp, t)"
  shows "resp = Inr (200, ControlsBody (toStatusControls (controlsOf c t))) \<and>
    toStatusControls (controlsOf c t) = toStatusControls (setFlow fl v (controlsOf c s)) \<and>
    (\<forall>d. d \<noteq> c \<longrightarrow> controlsOf d t = controlsOf d s) \<and>
    t = s\<lparr>t_controls := t_controls t, t_audit := t_audit s @ (if flowPaused fl (controlsOf c s) = v then []
      else [\<lparr>ca_ID = nextRowID (map ca_ID (t_audit s)), ca_ChainID = c, ca_Field = flowField fl,
             ca_OldValue = formatBool (\<not> v), ca_NewValue = formatBool v, ca_Actor = actorOf xActor,
             ca_Reason = reasonOr reason ''admin API request'', ca_At = now\<rparr>])\<rparr>"
  using pause_effect [OF assms] by blast

theorem pause_exact_witness:
  "controlsOf ''sovr-2'' (snd (handleControlsPause True 5 ''sovr-1'' ''ops'' (Inr \<lparr>cq_Flow = FlowSigning, cq_Reason = []\<rparr>) empty_store))
     = zeroControls ''sovr-2'' \<and>
   fst (handleControlsPause True 5 ''sovr-1'' ''ops'' (Inr \<lparr>cq_Flow = FlowSigning, cq_Reason = []\<rparr>) empty_store)
     = Inr (200, ControlsBody \<lparr>st_CreditPaused = False, st_SigningPaused = True, st_BroadcastPaused = False,
         st_SweepPaused = False, st_ScanWithoutCredit = False, st_ResumeFromHeight = None\<rparr>)"
  using pause_exact [OF _ _ prod.collapse [symmetric], of "''sovr-1''" FlowSigning True 5 "''ops''" "[]" empty_store]
  by (simp add: AllControlFlows_def controlsOf_def empty_store_def zeroControls_def setFlow_def toStatusControls_def)

text \<open>
  C7.  A pause lasts until it is resumed.  After a pause request for a flow of a chain
  has been answered, the flow is still paused in every store any further operations
  lead to, as long as the audit trail shows no resume of it since; and in each of
  these stores, whatever the nodes and the signer say: no withdrawal and no sweep
  is signed (signing); neither \<open>Broadcast\<close> sends a withdrawal or a sweep or
  changes the store (broadcast); no sweep is planned, prepared, revisited or
  broadcast (sweep); no deposit is credited directly, and a whole scanner cycle
  credits no deposit that was not already credited (credit).  The exception is
  stated too: \<open>Recover\<close> of the workflow and of the sweep engine do not read the
  controls, so their result and the rows they write are the same under any pause.
\<close>

theorem pause_stops_flow:
  assumes "raw_ok L" "appsteps L ok empty_store s" "c \<noteq> []" "fl \<in> set AllControlFlows"
    and "handleControlsPause True now c xActor (Inr \<lparr>cq_Flow = fl, cq_Reason = reason\<rparr>) s = (resp, t)"
    and "appsteps L ok t u" "\<not> list_ex (resumeRow fl c) (auditSince t u)"
  shows "flowPaused fl (controlsOf c u) \<and> (case fl of
      FlowSigning \<Rightarrow> (\<forall>n W sg k. onChain k c u \<longrightarrow> snd (Sign L n W sg k u) = u) \<and>
        (\<forall>G n ch sg k. en_chain G = c \<longrightarrow> signsNothing u (snd (Prepare L G n ch sg k u)))
    | FlowBroadcast \<Rightarrow> (\<forall>n ch k. onChain k c u \<longrightarrow> snd (BroadcastWd n ch k u) = u) \<and>
        (\<forall>G n ch k. en_chain G = c \<longrightarrow> snd (Engine_Broadcast G n ch k u) = u) \<and>
        (\<forall>n ch k cs. Recover n ch k (u\<lparr>t_controls := cs\<rparr>) = apsnd (t_controls_update (\<lambda>_. cs)) (Recover n ch k u) \<and>
           Engine_Recover n ch k (u\<lparr>t_controls := cs\<rparr>) = apsnd (t_controls_update (\<lambda>_. cs)) (Engine_Recover n ch k u))
    | FlowSweep \<Rightarrow> (\<forall>G n ch sg k. en_chain G = c \<longrightarrow> snd (Plan L G n ch sg u) = u \<and> snd (Prepare L G n ch sg k u) = u \<and>
        snd (Revisit L G n ch sg k u) = u \<and> snd (Engine_Broadcast G n ch k u) = u)
    | FlowCredit \<Rightarrow> (\<forall>E n d. d_ChainID d = c \<longrightarrow> snd (CreditDeposit E n d u) = u) \<and>
        (\<forall>K E n cfg F i fb d'. d' \<in> set (t_deposits (snd (Cycle K E n cfg F i fb u))) \<and> d_ChainID d' = c \<and> credited d' \<longrightarrow>
           (\<exists>d \<in> set (t_deposits u). d_ID d = d_ID d' \<and> credited d))
    | ControlFlowOther _ \<Rightarrow> False)"
proof -
  have paused: "flowPaused fl (controlsOf c u)" by (rule pause_lasts [OF pause_stored [OF assms(3-5)] assms(6,7)])
  have "appsteps L ok s t" by (rule app_handlers(1) [THEN staysD, OF assms(5)])
  then have "appsteps L ok empty_store u" using assms(2,6) by (blast intro: rtranclp_trans)
  then have "sys_inv u" using appsteps_syssteps store_uniq_empty reachable_sys_inv [OF assms(1)] by blast
  then have inv: "credit_inv u" by (simp add: sys_inv_def)
  show ?thesis
    using paused assms(4)
    by (auto simp: AllControlFlows_def paused_sign paused_broadcast paused_sweep_broadcast paused_sweep paused_credit
        paused_prepare recover_ignores_controls sweep_recover_ignores_controls intro: paused_cycle [OF _ inv prod.collapse [symmetric]])
qed

text \<open>
  A simulated withdrawal, a pause on signing, a deposit address added meanwhile, and
  then an attempt to sign.
\<close>

lemma ex_app_simulated: "appsteps ex_lib (\<lambda>_. True) empty_store (ex_st (ex_wd WithdrawalTransactionSimulated []) [ex_slot SequenceReserved])"
  by (rule appsteps_step [OF appstep.submit [OF run_submit]], rule appsteps_step [OF appstep.validate [OF run_validate]],
      rule appsteps_step [OF appstep.approve [OF _ run_approve]], rule TrueI,
      rule appsteps_step [OF appstep.reserveFunds [OF run_reserveFunds]],
      rule appsteps_step [OF appstep.reserveSequence [OF run_reserveSequence]], rule appsteps_step [OF appstep.build [OF run_build]],
      rule appsteps_step [OF appstep.simulate [OF run_simulate]]) simp

theorem pause_stops_flow_witness:
  "let s = ex_st (ex_wd WithdrawalTransactionSimulated []) [ex_slot SequenceReserved];
       t = snd (handleControlsPause True 5 ''sovr-1'' [] (Inr \<lparr>cq_Flow = FlowSigning, cq_Reason = []\<rparr>) s);
       u = snd (watchRepo_Upsert ex_watch t)
   in flowPaused FlowSigning (controlsOf ''sovr-1'' u) \<and> snd (Sign ex_lib 50 ex_W ex_signer ''w1'' u) = u"
proof -
  let ?s = "ex_st (ex_wd WithdrawalTransactionSimulated []) [ex_slot SequenceReserved]"
  let ?t = "snd (handleControlsPause True 5 ''sovr-1'' [] (Inr \<lparr>cq_Flow = FlowSigning, cq_Reason = []\<rparr>) ?s)"
  let ?u = "snd (watchRepo_Upsert ex_watch ?t)"
  have frame: "t_audit (snd (watchRepo_Upsert w x)) = t_audit x" "t_withdrawals (snd (watchRepo_Upsert w x)) = t_withdrawals x" for w x
    by (simp_all add: watchRepo_Upsert_def)
  have "appsteps ex_lib (\<lambda>_. True) ?t ?u" by (rule r_into_rtranclp, rule appstep.watch, rule prod.collapse [symmetric])
  moreover have "\<not> list_ex (resumeRow FlowSigning ''sovr-1'') (auditSince ?t ?u)" by (simp add: auditSince_def frame)
  moreover have "onChain ''w1'' ''sovr-1'' ?u"
    by (simp add: onChain_def frame pause_frame [OF _ _ prod.collapse [symmetric]] AllControlFlows_def ex_st_def ex_wd_def)
  ultimately show ?thesis
    using pause_stops_flow [OF ex_raw_ok ex_app_simulated _ _ prod.collapse [symmetric], of "''sovr-1''" FlowSigning 5 "[]" "[]" ?u]
    by (simp add: AllControlFlows_def Let_def)
qed

section \<open>Startup\<close>







end
