(* ===== verification/Signer_Theorems.thy ===== *)
theory Signer_Theorems
  imports Signers Withdrawal_Fixtures
begin

text \<open>
  The signer backends.  The contract of a transport is the locale \<open>signer_transport\<close>:
  what the caller sees of a backend through it is what the backend answers.  It is
  interpreted on the gRPC client over the reference server and on the subprocess
  client over the demo signer.  The local signer's own check of the summary is
  compared with that of the transaction builder.
\<close>

section \<open>The contract of a transport\<close>

text \<open>A backend that answers with keys and signatures of the right size and with the five codes.\<close>

definition wf_backend :: "backend \<Rightarrow> bool" where
  "wf_backend B \<longleftrightarrow>
     (\<forall>ref. case GetPublicKey B ref of Inl e \<Rightarrow> CodeOf e \<in> set signerCodes
        | Inr r \<Rightarrow> kr_Algorithm r = AlgorithmSecp256k1 \<and> length (kr_PublicKeyCompressed r) = 33) \<and>
     (\<forall>q. case SignDocWith B q of Inl e \<Rightarrow> CodeOf e \<in> set signerCodes
        | Inr r \<Rightarrow> length (sn_Signature r) = 64 \<and> length (sn_PubKeyCompressed r) = 33)"

text \<open>Two answers a caller cannot tell apart.\<close>

definition sameKey :: "sgerr + PublicKeyResponse \<Rightarrow> sgerr + PublicKeyResponse \<Rightarrow> bool" where
  "sameKey a b \<longleftrightarrow> (case (a, b) of (Inl e, Inl e') \<Rightarrow> CodeOf e' = CodeOf e
     | (Inr r, Inr r') \<Rightarrow> kr_PublicKeyCompressed r' = kr_PublicKeyCompressed r | _ \<Rightarrow> False)"

definition sameSignature :: "sgerr + SigningResponse \<Rightarrow> sgerr + SigningResponse \<Rightarrow> bool" where
  "sameSignature a b \<longleftrightarrow> (case (a, b) of (Inl e, Inl e') \<Rightarrow> CodeOf e' = CodeOf e
     | (Inr r, Inr r') \<Rightarrow> sn_Signature r' = sn_Signature r \<and> sn_PubKeyCompressed r' = sn_PubKeyCompressed r | _ \<Rightarrow> False)"

locale signer_transport =
  fixes wrap :: "'c \<Rightarrow> backend \<Rightarrow> backend"
    and good :: "'c \<Rightarrow> bool"
    and refOk :: "string \<Rightarrow> bool"
    and requestOk :: "SigningRequest \<Rightarrow> bool"
  assumes key_kept: "good c \<Longrightarrow> wf_backend B \<Longrightarrow> refOk ref \<Longrightarrow> sameKey (GetPublicKey B ref) (GetPublicKey (wrap c B) ref)"
    and sign_kept: "good c \<Longrightarrow> wf_backend B \<Longrightarrow> requestOk q \<Longrightarrow> sameSignature (SignDocWith B q) (SignDocWith (wrap c B) q)"
begin

lemma key_same: "good c \<Longrightarrow> wf_backend B \<Longrightarrow> refOk ref \<Longrightarrow> sg_GetPublicKey (asSigner (wrap c B)) ref = sg_GetPublicKey (asSigner B) ref"
  using key_kept [of c B ref] by (auto simp: asSigner_def sameKey_def split: sum.splits)

lemma sign_same: "good c \<Longrightarrow> wf_backend B \<Longrightarrow> requestOk q \<Longrightarrow> sg_Sign (asSigner (wrap c B)) q = sg_Sign (asSigner B) q"
  using sign_kept [of c B q] by (auto simp: asSigner_def sameSignature_def split: sum.splits)

text \<open>The withdrawal workflow cannot tell whether its signer is behind the transport.\<close>

lemma workflow_same:
  assumes "good c" "wf_backend B" "\<And>source. refOk (keyRef W source)" "\<And>q. requestOk q"
  shows "Sign L now W (asSigner (wrap c B)) k s = Sign L now W (asSigner B) k s"
    and "Simulate L now W ch (asSigner (wrap c B)) k s = Simulate L now W ch (asSigner B) k s"
proof -
  have key: "senderPubKey W (asSigner (wrap c B)) src = senderPubKey W (asSigner B) src" for src
    by (simp add: senderPubKey_def key_same assms)
  have sig: "sg_Sign (asSigner (wrap c B)) q = sg_Sign (asSigner B) q" for q
    by (rule sign_same) (fact assms)+
  show "Sign L now W (asSigner (wrap c B)) k s = Sign L now W (asSigner B) k s"
    unfolding Sign_def signWith_def key sig ..
  show "Simulate L now W ch (asSigner (wrap c B)) k s = Simulate L now W ch (asSigner B) k s"
    unfolding Simulate_def simulationTxBytes_def key ..
qed

end

section \<open>The gRPC transport\<close>

definition detail_codec_ok :: "grpclib \<Rightarrow> bool" where
  "detail_codec_ok G \<longleftrightarrow> (\<forall>d raw. MarshalDetail G d = Some raw \<longrightarrow> UnmarshalDetail G raw = Some d)"

lemmas code_defs = signerCodes_def CodeKeyNotFound_def CodeSummaryMismatch_def CodePolicyRejected_def
  CodeSignerUnavailable_def CodeInternal_def

lemma detail_suffix: "HasSuffix detailTypeURL ''sovren.signer.v1.SignerErrorDetail''"
  by code_simp

definition bareCode :: "grpcCode \<Rightarrow> string" where
  "bareCode g = CodeOf (statusToSignerError \<lparr>MarshalDetail = \<lambda>_. None, UnmarshalDetail = \<lambda>_. None\<rparr> \<lparr>gs_Code = g, gs_Message = [], gs_Details = []\<rparr>)"

lemma bare_status: "CodeOf (statusToSignerError G \<lparr>gs_Code = g, gs_Message = m, gs_Details = []\<rparr>) = bareCode g"
  by (simp add: bareCode_def statusToSignerError_def CodeOf_def)

text \<open>Each code maps to a status that maps back to it, by the detail and by the bare code.\<close>

lemma code_maps:
  assumes "c \<in> set signerCodes"
  shows "\<exists>g x. codeToGRPC c = Some g \<and> codeToDetail c = Some x \<and> detailToCode x = Some c \<and> bareCode g = c"
proof -
  have "list_all (\<lambda>c. case (codeToGRPC c, codeToDetail c) of
      (Some g, Some x) \<Rightarrow> detailToCode x = Some c \<and> bareCode g = c | _ \<Rightarrow> False) signerCodes"
    by code_simp
  then have "case (codeToGRPC c, codeToDetail c) of
      (Some g, Some x) \<Rightarrow> detailToCode x = Some c \<and> bareCode g = c | _ \<Rightarrow> False" using assms by (simp add: list_all_iff)
  then show ?thesis by (cases "codeToGRPC c"; cases "codeToDetail c") simp_all
qed

lemma status_roundtrip:
  assumes "detail_codec_ok G" "CodeOf e \<in> set signerCodes"
  shows "CodeOf (statusToSignerError G (signerErrorToStatus G e)) = CodeOf e"
proof -
  obtain g x where m: "codeToGRPC (CodeOf e) = Some g" "codeToDetail (CodeOf e) = Some x" "detailToCode x = Some (CodeOf e)" "bareCode g = CodeOf e"
    using code_maps [OF assms(2)] by blast
  let ?d = "\<lparr>ed_Code = x, ed_Detail = (case e of SgErr c d \<Rightarrow> d | PlainErr m \<Rightarrow> [])\<rparr>"
  show ?thesis
  proof (cases "MarshalDetail G ?d")
    case None
    then show ?thesis by (simp add: signerErrorToStatus_def m bare_status)
  next
    case (Some raw)
    then have "UnmarshalDetail G raw = Some ?d" using assms(1) by (simp add: detail_codec_ok_def)
    then show ?thesis using Some by (simp add: signerErrorToStatus_def statusToSignerError_def m detail_suffix CodeOf_def [of "SgErr _ _"])
  qed
qed

lemma summary_proto [simp]: "summaryFromProto (summaryToProto s) = s"
  by (simp add: summaryFromProto_def summaryToProto_def)

interpretation gr: signer_transport "\<lambda>G B. grpcClient G (grpcServer G B)" detail_codec_ok "\<lambda>_. True" "\<lambda>_. True"
proof
  fix G B ref and q :: SigningRequest
  assume G: "detail_codec_ok G" and B: "wf_backend B"
  show "sameKey (GetPublicKey B ref) (GetPublicKey (grpcClient G (grpcServer G B)) ref)"
    using B [unfolded wf_backend_def, THEN conjunct1, THEN spec, of ref] status_roundtrip [OF G]
    by (auto simp: sameKey_def grpcClient_def grpcServer_def Client_GetPublicKey_def Server_GetPublicKey_def split: sum.splits)
  have same: "\<lparr>sq_KeyRef = sq_KeyRef q, sq_SignMode = sq_SignMode q, sq_SignDocBytes = sq_SignDocBytes q, sq_Summary = sq_Summary q\<rparr> = q"
    by simp
  show "sameSignature (SignDocWith B q) (SignDocWith (grpcClient G (grpcServer G B)) q)"
    using B [unfolded wf_backend_def, THEN conjunct2, THEN spec, of q] status_roundtrip [OF G]
    by (auto simp: sameSignature_def grpcClient_def grpcServer_def Client_Sign_def Server_Sign_def same split: sum.splits)
qed

section \<open>The subprocess transport\<close>

text \<open>Well-formed UTF-8, the strings JSON carries unchanged.\<close>

definition cont :: "char \<Rightarrow> bool" where
  "cont c \<longleftrightarrow> 128 \<le> (of_char c :: nat) \<and> (of_char c :: nat) < 192"

fun utf8 :: "string \<Rightarrow> bool" where
  "utf8 [] \<longleftrightarrow> True"
| "utf8 (a # s) \<longleftrightarrow>
     (let n = (of_char a :: nat); second = (\<lambda>lo hi c. lo \<le> (of_char c :: nat) \<and> (of_char c :: nat) \<le> hi) in
      if n < 128 then utf8 s
      else if 194 \<le> n \<and> n < 224 then (case s of b # s' \<Rightarrow> cont b \<and> utf8 s' | _ \<Rightarrow> False)
      else if 224 \<le> n \<and> n < 240 then (case s of b # c # s' \<Rightarrow>
        second (if n = 224 then 160 else 128) (if n = 237 then 159 else 191) b \<and> cont c \<and> utf8 s' | _ \<Rightarrow> False)
      else if 240 \<le> n \<and> n < 245 then (case s of b # c # d # s' \<Rightarrow>
        second (if n = 240 then 144 else 128) (if n = 244 then 143 else 191) b \<and> cont c \<and> cont d \<and> utf8 s' | _ \<Rightarrow> False)
      else False)"

definition summaryText :: "SigningSummary \<Rightarrow> bool" where
  "summaryText s \<longleftrightarrow> list_all utf8 [ss_ChainID s, ss_AccountNumber s, ss_Sequence s, ss_MessageType s, ss_SenderAddress s,
     ss_RecipientAddress s, ss_AmountBaseUnits s, ss_Denom s, ss_FeeBaseUnits s, ss_GasLimit s, ss_Memo s]"

definition requestText :: "execRequest \<Rightarrow> bool" where
  "requestText r \<longleftrightarrow> list_all utf8 [xr_Op r, xr_KeyRef r, xr_SignMode r, xr_SignDocBytesB64 r] \<and>
     (case xr_Summary r of None \<Rightarrow> True | Some s \<Rightarrow> summaryText s)"

text \<open>
  What \<open>encoding/json\<close> promises: a document of well-formed strings is written and read
  back as it was; of an error the code survives whatever the detail holds.
\<close>

definition json_ok :: "jsonlib \<Rightarrow> bool" where
  "json_ok J \<longleftrightarrow>
     (\<forall>r. requestText r \<longrightarrow> (\<exists>b. EncodeRequest J r = Some b \<and> DecodeRequest J b = Some r)) \<and>
     (\<forall>r. list_all utf8 [xs_KeyRef r, xs_Algorithm r, xs_PublicKeyCompressedB64 r, xs_SignatureB64 r] \<longrightarrow>
        (\<exists>b. EncodeResponse J r = Some b \<and> DecodeResponse J b = Some r)) \<and>
     (\<forall>r. utf8 (er_ErrorCode r) \<longrightarrow>
        (\<exists>b r'. EncodeError J r = Some b \<and> DecodeError J b = Some r' \<and> er_ErrorCode r' = er_ErrorCode r))"

definition refText :: "string \<Rightarrow> bool" where
  "refText ref \<longleftrightarrow> utf8 ref \<and> ref \<noteq> [] \<and> ref \<noteq> ''default''"

definition signText :: "SigningRequest \<Rightarrow> bool" where
  "signText q \<longleftrightarrow> refText (sq_KeyRef q) \<and> utf8 (sq_SignMode q) \<and> summaryText (sq_Summary q)"

lemma utf8_ascii: "list_all (\<lambda>c. (of_char c :: nat) < 128) s \<Longrightarrow> utf8 s"
  by (induction s) (simp_all add: Let_def)

lemma alphabet_ascii: "list_all (\<lambda>c. (of_char c :: nat) < 128) b64alphabet"
  by (simp add: b64alphabet_def)

lemma utf8_base64 [simp]: "utf8 (EncodeToString bz)"
proof (rule utf8_ascii)
  have "(of_char (b64char n) :: nat) < 128" for n
    using b64char_in [of n] alphabet_ascii by (auto simp: list_all_iff)
  then show "list_all (\<lambda>c. (of_char c :: nat) < 128) (EncodeToString bz)"
    by (induction bz rule: EncodeToString.induct) (simp_all add: b64quad_def)
qed

lemma utf8_consts [simp]: "utf8 OpSign" "utf8 OpGetPublicKey" "utf8 AlgorithmSecp256k1" "c \<in> set signerCodes \<Longrightarrow> utf8 c"
  by (auto intro!: utf8_ascii simp: OpSign_def OpGetPublicKey_def AlgorithmSecp256k1_def code_defs)

lemma summary_wire [simp]: "ToSigningSummary (SummaryFrom s) = s" "SummaryFrom s = Some s"
  by (simp_all add: ToSigningSummary_def SummaryFrom_def)

lemma exit_code:
  assumes "json_ok J" "CodeOf e \<in> set signerCodes"
  shows "CodeOf (mapExitError J [writeError J e, out]) = CodeOf e"
proof -
  let ?r = "\<lparr>er_ErrorCode = CodeOf e, er_Detail = (case e of SgErr c d \<Rightarrow> d | PlainErr m \<Rightarrow> m)\<rparr>"
  obtain b r' where "EncodeError J ?r = Some b" "DecodeError J b = Some r'" "er_ErrorCode r' = CodeOf e"
    using assms unfolding json_ok_def by (metis ErrorResponse.select_convs(1) utf8_consts(4))
  moreover have "CodeOf e \<noteq> []" using assms(2) by (auto simp: code_defs)
  ultimately show ?thesis using assms(2) by (simp add: writeError_def CodeOf_def [of "SgErr _ _"])
qed

text \<open>One exchange with the demo process.\<close>

lemma demo_exchange:
  assumes "json_ok J" "requestText req"
    and "\<And>r. serveRequest B dflt req = Inr r \<Longrightarrow> list_all utf8 [xs_KeyRef r, xs_Algorithm r, xs_PublicKeyCompressedB64 r, xs_SignatureB64 r]"
    and "\<And>e. serveRequest B dflt req = Inl e \<Longrightarrow> CodeOf e \<in> set signerCodes"
  shows "case (serveRequest B dflt req, roundTrip J (demoProcess J (Inr (B, dflt))) req) of
    (Inl e, Inl e') \<Rightarrow> CodeOf e' = CodeOf e | (Inr r, Inr r') \<Rightarrow> r' = r | _ \<Rightarrow> False"
proof -
  obtain b where b: "EncodeRequest J req = Some b" "DecodeRequest J b = Some req"
    using assms(1,2) unfolding json_ok_def by blast
  show ?thesis
  proof (cases "serveRequest B dflt req")
    case (Inl e)
    then show ?thesis using b exit_code [OF assms(1) assms(4) [OF Inl]] by (simp add: roundTrip_def demoProcess_def)
  next
    case (Inr r)
    obtain out where "EncodeResponse J r = Some out" "DecodeResponse J out = Some r"
      using assms(1) assms(3) [OF Inr] unfolding json_ok_def by blast
    then show ?thesis using b Inr by (simp add: roundTrip_def demoProcess_def)
  qed
qed

definition execTransport :: "jsonlib \<times> string \<Rightarrow> backend \<Rightarrow> backend" where
  "execTransport c B = execClient (fst c) (demoProcess (fst c) (Inr (B, snd c)))"

interpretation ex: signer_transport execTransport "\<lambda>c. json_ok (fst c)" refText signText
proof
  fix c :: "jsonlib \<times> string" and B ref and q :: SigningRequest
  assume J: "json_ok (fst c)" and B: "wf_backend B"
  show "sameKey (GetPublicKey B ref) (GetPublicKey (execTransport c B) ref)"
    if ref: "refText ref"
  proof -
    let ?req = "\<lparr>xr_Op = OpGetPublicKey, xr_KeyRef = ref, xr_SignMode = [], xr_SignDocBytesB64 = [], xr_Summary = None\<rparr>"
    have "requestText ?req" using ref by (simp add: requestText_def refText_def)
    note x = demo_exchange [OF J this, of B "snd c"]
    show ?thesis
      using x ref B [unfolded wf_backend_def, THEN conjunct1, THEN spec, of ref]
      by (auto simp: execTransport_def sameKey_def execClient_def Exec_GetPublicKey_def serveRequest_def refText_def Let_def split: sum.splits)
  qed
  show "sameSignature (SignDocWith B q) (SignDocWith (execTransport c B) q)"
    if q: "signText q"
  proof -
    let ?req = "\<lparr>xr_Op = OpSign, xr_KeyRef = sq_KeyRef q, xr_SignMode = sq_SignMode q,
             xr_SignDocBytesB64 = EncodeToString (sq_SignDocBytes q), xr_Summary = Some (sq_Summary q)\<rparr>"
    have "requestText ?req" using q by (simp add: requestText_def signText_def refText_def)
    note x = demo_exchange [OF J this, of B "snd c"]
    have op: "OpSign \<noteq> OpGetPublicKey" by (simp add: OpSign_def OpGetPublicKey_def)
    have same: "\<lparr>sq_KeyRef = sq_KeyRef q, sq_SignMode = sq_SignMode q, sq_SignDocBytes = sq_SignDocBytes q, sq_Summary = sq_Summary q\<rparr> = q"
      by simp
    have ts: "ToSigningSummary (Some (sq_Summary q)) = sq_Summary q" using summary_wire(1) [of "sq_Summary q"] by simp
    show ?thesis
      using x q B [unfolded wf_backend_def, THEN conjunct2, THEN spec, of q]
      by (auto simp: execTransport_def sameSignature_def execClient_def Exec_Sign_def serveRequest_def refText_def signText_def Let_def op same ts
          split: sum.splits)
  qed
qed

section \<open>The local signer behind either transport\<close>

text \<open>Documented sizes of secp256k1: compressed keys of 33 bytes, signatures of 64.\<close>

definition key_sizes :: "keylib \<Rightarrow> bool" where
  "key_sizes X \<longleftrightarrow> (\<forall>k. length (PrivPubKey X k) = 33) \<and> (\<forall>k d g. PrivSign X k d = Some g \<longrightarrow> length g = 64)"

lemma verifySummary_code: "verifySummary X d s = Inl e \<Longrightarrow> CodeOf e = CodeSummaryMismatch"
  by (auto simp: verifySummary_def mismatch_def CodeOf_def split: option.splits if_splits list.splits)

lemma codes [simp]: "CodeKeyNotFound \<in> set signerCodes" "CodeSummaryMismatch \<in> set signerCodes"
    "CodePolicyRejected \<in> set signerCodes" "CodeInternal \<in> set signerCodes"
  by (simp_all add: signerCodes_def)

lemma local_wf: "key_sizes X \<Longrightarrow> wf_backend (localBackend X S)"
  by (auto simp: wf_backend_def localBackend_def Local_GetPublicKey_def Local_Sign_def keyFor_def key_sizes_def
      CodeOf_def [of "SgErr _ _"] dest: verifySummary_code split: sum.splits option.splits if_splits)

text \<open>
  A concrete JSON-like codec and a concrete codec of error details, to run the
  transports on: a document is the list of its strings, each byte marked.
\<close>

definition pack1 :: "string \<Rightarrow> bytes" where
  "pack1 s = concat (map (\<lambda>c. [1, word_of_nat (of_char c)]) s) @ [0]"

definition pack :: "string list \<Rightarrow> bytes" where
  "pack ss = concat (map pack1 ss)"

fun unpack :: "string \<Rightarrow> bytes \<Rightarrow> string list option" where
  "unpack cur [] = Some []"
| "unpack cur (x # bz) = (if x = 0 then map_option ((#) cur) (unpack [] bz)
     else case bz of [] \<Rightarrow> None | c # bz' \<Rightarrow> unpack (cur @ stringOf [c]) bz')"

lemma unpack_pack1: "unpack cur (pack1 s @ bz) = map_option ((#) (cur @ s)) (unpack [] bz)"
proof (induction s arbitrary: cur)
  case (Cons c s)
  have "stringOf [word_of_nat (of_char c)] = [c]" using stringOf_bytesOf [of "[c]"] by (simp add: bytesOf_def)
  then show ?case using Cons by (simp add: pack1_def)
qed (simp add: pack1_def)

lemma unpack_pack [simp]: "unpack [] (pack ss) = Some ss"
  by (induction ss) (simp_all add: pack_def unpack_pack1)

definition summaryList :: "SigningSummary \<Rightarrow> string list" where
  "summaryList s = [ss_ChainID s, ss_AccountNumber s, ss_Sequence s, ss_MessageType s, ss_SenderAddress s,
     ss_RecipientAddress s, ss_AmountBaseUnits s, ss_Denom s, ss_FeeBaseUnits s, ss_GasLimit s, ss_Memo s]"

definition ex_json :: jsonlib where
  "ex_json = \<lparr>
     EncodeRequest = (\<lambda>r. Some (pack ([xr_Op r, xr_KeyRef r, xr_SignMode r, xr_SignDocBytesB64 r] @
        (case xr_Summary r of None \<Rightarrow> [] | Some s \<Rightarrow> summaryList s)))),
     DecodeRequest = (\<lambda>b. case unpack [] b of
         Some [o1, k, m, d] \<Rightarrow> Some \<lparr>xr_Op = o1, xr_KeyRef = k, xr_SignMode = m, xr_SignDocBytesB64 = d, xr_Summary = None\<rparr>
       | Some [o1, k, m, d, c, a, sq, mt, sa, ra, am, dn, f, g, mm] \<Rightarrow> Some \<lparr>xr_Op = o1, xr_KeyRef = k, xr_SignMode = m,
           xr_SignDocBytesB64 = d, xr_Summary = Some \<lparr>ss_ChainID = c, ss_AccountNumber = a, ss_Sequence = sq, ss_MessageType = mt,
           ss_SenderAddress = sa, ss_RecipientAddress = ra, ss_AmountBaseUnits = am, ss_Denom = dn, ss_FeeBaseUnits = f,
           ss_GasLimit = g, ss_Memo = mm\<rparr>\<rparr>
       | _ \<Rightarrow> None),
     EncodeResponse = (\<lambda>r. Some (pack [xs_KeyRef r, xs_Algorithm r, xs_PublicKeyCompressedB64 r, xs_SignatureB64 r])),
     DecodeResponse = (\<lambda>b. case unpack [] b of Some [k, a, p, g] \<Rightarrow>
         Some \<lparr>xs_KeyRef = k, xs_Algorithm = a, xs_PublicKeyCompressedB64 = p, xs_SignatureB64 = g\<rparr> | _ \<Rightarrow> None),
     EncodeError = (\<lambda>r. Some (pack [er_ErrorCode r, er_Detail r])),
     DecodeError = (\<lambda>b. case unpack [] b of Some [c, d] \<Rightarrow> Some \<lparr>er_ErrorCode = c, er_Detail = d\<rparr> | _ \<Rightarrow> None)\<rparr>"

lemma ex_json_ok: "json_ok ex_json"
  by (auto simp: json_ok_def ex_json_def summaryList_def split: option.split)

definition ex_grpc :: grpclib where
  "ex_grpc = \<lparr>MarshalDetail = (\<lambda>d. map_option (\<lambda>c. pack [c, ed_Detail d]) (detailToCode (ed_Code d))),
     UnmarshalDetail = (\<lambda>b. case unpack [] b of Some [c, d] \<Rightarrow> map_option (\<lambda>x. \<lparr>ed_Code = x, ed_Detail = d\<rparr>) (codeToDetail c) | _ \<Rightarrow> None)\<rparr>"

lemma ex_grpc_ok: "detail_codec_ok ex_grpc"
proof -
  have "detailToCode x = Some c \<Longrightarrow> codeToDetail c = Some x" for x c
    by (auto simp: detailToCode_def codeToDetail_def code_defs split: if_splits)
  then show ?thesis by (auto simp: detail_codec_ok_def ex_grpc_def)
qed

text \<open>
  C13.  A caller cannot tell a backend from the same backend behind a transport: through
  the gRPC client and the reference server every key, every signature and every error
  code is the one the backend gives, and so it is through the subprocess client and
  the demo signer for requests of well-formed text that name a key.  In particular
  the withdrawal workflow signs and simulates alike through gRPC.
\<close>

theorem transports_invisible:
  assumes "wf_backend B" "detail_codec_ok G" "json_ok J"
  shows "asSigner (grpcClient G (grpcServer G B)) = asSigner B \<and>
    Sign L now W (asSigner (grpcClient G (grpcServer G B))) k s = Sign L now W (asSigner B) k s \<and>
    (refText ref \<longrightarrow> sg_GetPublicKey (asSigner (execClient J (demoProcess J (Inr (B, dflt))))) ref = sg_GetPublicKey (asSigner B) ref) \<and>
    (signText q \<longrightarrow> sg_Sign (asSigner (execClient J (demoProcess J (Inr (B, dflt))))) q = sg_Sign (asSigner B) q)"
proof -
  have "asSigner (grpcClient G (grpcServer G B)) = asSigner B"
    by (rule signer.equality) (use gr.key_same gr.sign_same assms in auto)
  then show ?thesis
    using gr.workflow_same(1) ex.key_same [of "(J, dflt)"] ex.sign_same [of "(J, dflt)"] assms
    by (simp add: execTransport_def)
qed

definition ex_keylib :: keylib where
  "ex_keylib = \<lparr>ProtoSignDoc = ex_doc, ProtoTxBody = (\<lambda>b. None), ProtoAuthInfo = (\<lambda>a. None),
     ConsumeTag = (\<lambda>b. None), ConsumeFieldValue = (\<lambda>n t b. None), ConsumeBytes = (\<lambda>b. None),
     PrivPubKey = (\<lambda>k. ex_key), PrivSign = (\<lambda>k d. Some ex_sig)\<rparr>"

lemma ex_key_sizes: "key_sizes ex_keylib"
  by (simp add: key_sizes_def ex_keylib_def ex_key_def ex_sig_def)

theorem transports_invisible_witness:
  "sg_GetPublicKey (asSigner (execClient ex_json (demoProcess ex_json (Inr (localBackend ex_keylib [''hot'' \<mapsto> [9]], ''hot''))))) ''hot'' = Inr ex_key \<and>
   sg_GetPublicKey (asSigner (grpcClient ex_grpc (grpcServer ex_grpc (localBackend ex_keylib [''hot'' \<mapsto> [9]])))) ''cold'' =
     Inl (SignerErr CodeKeyNotFound)"
  using transports_invisible [OF local_wf [OF ex_key_sizes, of "[''hot'' \<mapsto> [9]]"] ex_grpc_ok ex_json_ok, where ref = "''hot''"]
  by (simp add: refText_def asSigner_def localBackend_def Local_GetPublicKey_def keyFor_def ex_keylib_def CodeOf_def)

section \<open>The local signer's check and the builder's\<close>

text \<open>The length-delimited fields a wire message holds, as \<open>protowire\<close> reads them one by one.\<close>

inductive carries :: "keylib \<Rightarrow> bytes \<Rightarrow> (nat \<times> bytes) list \<Rightarrow> bool" for X where
  carries_Nil: "carries X [] []"
| carries_Cons: "b \<noteq> [] \<Longrightarrow> ConsumeTag X b = Some (num, 2, k) \<Longrightarrow> 0 < k \<Longrightarrow> ConsumeBytes X (drop k b) = Some (v, m) \<Longrightarrow>
    carries X (drop m (drop k b)) fs \<Longrightarrow> carries X b ((num, v) # fs)"

primrec foldFields :: "(nat \<Rightarrow> bytes \<Rightarrow> 'a \<Rightarrow> 'a option) \<Rightarrow> (nat \<times> bytes) list \<Rightarrow> 'a \<Rightarrow> 'a option" where
  "foldFields f [] acc = Some acc"
| "foldFields f (x # fs) acc = (case f (fst x) (snd x) acc of None \<Rightarrow> None | Some acc' \<Rightarrow> foldFields f fs acc')"

text \<open>The walk ends within one round per byte and visits exactly the fields.\<close>

lemma eachField_carries: "carries X b fs \<Longrightarrow> length b \<le> n \<Longrightarrow> eachField X f n b acc = foldFields f fs acc"
proof (induction arbitrary: n acc rule: carries.induct)
  case carries_Nil
  then show ?case by (cases n) simp_all
next
  case (carries_Cons b num k v m fs)
  obtain n' where n: "n = Suc n'" using carries_Cons.hyps(1) carries_Cons.prems by (cases n) auto
  have "length (drop m (drop k b)) \<le> n'" using carries_Cons.hyps(1,3) carries_Cons.prems n by auto
  then show ?case using carries_Cons.hyps carries_Cons.IH n by (simp split: option.split)
qed

text \<open>
  What the codec promises about an encoded transfer: the plain decoders read what the
  strict ones read, and the message value holds the sender, the recipient and the
  coins in this order, amounts in decimal.
\<close>

definition wire_ok :: "lib \<Rightarrow> keylib \<Rightarrow> bool" where
  "wire_ok L X \<longleftrightarrow>
     (\<forall>b x. StrictSignDoc L b = Some x \<longrightarrow> ProtoSignDoc X b = Some x) \<and>
     (\<forall>b x. StrictTxBody L b = Some x \<longrightarrow> ProtoTxBody X b = Some x) \<and>
     (\<forall>b x. StrictAuthInfo L b = Some x \<longrightarrow> ProtoAuthInfo X b = Some x) \<and>
     (\<forall>v send coin. UnmarshalMsgSend L v = Some send \<longrightarrow> ms_FromAddress send \<noteq> [] \<longrightarrow> ms_ToAddress send \<noteq> [] \<longrightarrow>
        ms_Amount send = [coin] \<longrightarrow> (\<exists>memo gas coins key sq b a body. EncodeTx L send memo gas coins key sq = Some (b, a) \<and>
          StrictTxBody L b = Some body \<and> (\<exists>u. tb_Messages body = [\<lparr>any_TypeUrl = u, any_Value = v\<rparr>])) \<longrightarrow>
        (\<exists>c. carries X v [(1, bytesOf (ms_FromAddress send)), (2, bytesOf (ms_ToAddress send)), (3, c)] \<and>
             carries X c [(1, bytesOf (c_Denom coin)), (2, bytesOf (intText (c_Amount coin)))]))"

lemma decode_wire:
  assumes "carries X v [(1, bytesOf from), (2, bytesOf to), (3, c)]" "carries X c [(1, bytesOf dn), (2, bytesOf amt)]"
  shows "decodeMsgSend X v = Some \<lparr>wm_fromAddress = from, wm_toAddress = to, wm_amount = [\<lparr>wc_denom = dn, wc_amount = amt\<rparr>]\<rparr>"
proof -
  have "decodeCoin X c = Some \<lparr>wc_denom = dn, wc_amount = amt\<rparr>"
    by (simp add: decodeCoin_def eachField_carries [OF assms(2)] coinField_def)
  then show ?thesis by (simp add: decodeMsgSend_def eachField_carries [OF assms(1)] sendField_def)
qed

abbreviation sendOf :: "UnsignedTx \<Rightarrow> MsgSend" where
  "sendOf u \<equiv> \<lparr>ms_FromAddress = u_from u, ms_ToAddress = u_to u, ms_Amount = [\<lparr>c_Denom = Denom, c_Amount = Some (u_amount u)\<rparr>]\<rparr>"

text \<open>The parts of a built sign doc, as both checks decode them.\<close>

lemma built_doc:
  assumes "codec_ok L" "SignDoc L u c n q fee pk = Inr (d, sm, u')"
  obtains bb ab v pkv feeAmount where
    "StrictSignDoc L d = Some \<lparr>sd_BodyBytes = bb, sd_AuthInfoBytes = ab, sd_ChainId = c, sd_AccountNumber = n\<rparr>"
    "StrictTxBody L bb = Some \<lparr>tb_Messages = [\<lparr>any_TypeUrl = MsgSendTypeURL, any_Value = v\<rparr>], tb_Memo = u_memo u,
       tb_TimeoutHeight = 0, tb_Unordered = False, tb_TimeoutTimestamp = None, tb_ExtensionOptions = [],
       tb_NonCriticalExtensionOptions = []\<rparr>"
    "UnmarshalMsgSend L v = Some (sendOf u)"
    "StrictAuthInfo L ab = Some \<lparr>ai_SignerInfos = [\<lparr>si_PublicKey = Some \<lparr>any_TypeUrl = secp256k1PubKeyTypeURL, any_Value = pkv\<rparr>,
         si_ModeInfo = Some (ModeSingle ''SIGN_MODE_DIRECT''), si_Sequence = q\<rparr>],
       ai_Fee = Some \<lparr>f_Amount = (if feeAmount = 0 then [] else [\<lparr>c_Denom = Denom, c_Amount = Some feeAmount\<rparr>]),
         f_GasLimit = fee_GasLimit fee, f_Payer = [], f_Granter = []\<rparr>, ai_Tip = False\<rparr>"
    "\<exists>memo gas coins key sq a. EncodeTx L (sendOf u) memo gas coins key sq = Some (bb, a)"
proof -
  obtain feeAmount where p: "parseBaseUnits_tx L (fee_AmountBaseUnits fee) True = Inr feeAmount"
    using assms(2) by (auto simp: SignDoc_def split: sum.splits if_splits)
  define coins where "coins = (if feeAmount = 0 then [] else [\<lparr>c_Denom = Denom, c_Amount = Some feeAmount\<rparr>])"
  from assms(2) [unfolded SignDoc_def p sum.case, folded coins_def] obtain bb ab where
    "EncodeTx L (sendOf u) (u_memo u) (fee_GasLimit fee) coins pk q = Some (bb, ab)"
    and g: "GetSignBytes L c n bb ab = Some d"
    by (auto split: sum.splits option.splits if_splits prod.splits)
  then have e: "EncodeTx L (sendOf u) (u_memo u) (fee_GasLimit fee)
      (if feeAmount = 0 then [] else [\<lparr>c_Denom = Denom, c_Amount = Some feeAmount\<rparr>]) pk q = Some (bb, ab)"
    by (simp only: coins_def)
  show thesis
    using assms(1) [unfolded codec_ok_def, THEN conjunct1, rule_format, OF e]
      assms(1) [unfolded codec_ok_def, THEN conjunct2, rule_format, OF g] e
    by (elim exE conjE) (rule that, assumption+, blast)
qed

lemma verify_built:
  assumes "codec_ok L" "wire_ok L X" "SignDoc L u c n q fee pk = Inr (d, sm, u')" "u_from u \<noteq> []" "u_to u \<noteq> []"
  shows "verifySummary X d s = Inr () \<longleftrightarrow> s = sm"
proof -
  obtain bb ab v pkv feeAmount where doc: "StrictSignDoc L d = Some \<lparr>sd_BodyBytes = bb, sd_AuthInfoBytes = ab, sd_ChainId = c, sd_AccountNumber = n\<rparr>"
    and body: "StrictTxBody L bb = Some \<lparr>tb_Messages = [\<lparr>any_TypeUrl = MsgSendTypeURL, any_Value = v\<rparr>], tb_Memo = u_memo u,
       tb_TimeoutHeight = 0, tb_Unordered = False, tb_TimeoutTimestamp = None, tb_ExtensionOptions = [],
       tb_NonCriticalExtensionOptions = []\<rparr>"
    and send: "UnmarshalMsgSend L v = Some (sendOf u)"
    and ai: "StrictAuthInfo L ab = Some \<lparr>ai_SignerInfos = [\<lparr>si_PublicKey = Some \<lparr>any_TypeUrl = secp256k1PubKeyTypeURL, any_Value = pkv\<rparr>,
         si_ModeInfo = Some (ModeSingle ''SIGN_MODE_DIRECT''), si_Sequence = q\<rparr>],
       ai_Fee = Some \<lparr>f_Amount = (if feeAmount = 0 then [] else [\<lparr>c_Denom = Denom, c_Amount = Some feeAmount\<rparr>]),
         f_GasLimit = fee_GasLimit fee, f_Payer = [], f_Granter = []\<rparr>, ai_Tip = False\<rparr>"
    and enc: "\<exists>memo gas coins key sq a. EncodeTx L (sendOf u) memo gas coins key sq = Some (bb, a)"
    by (rule built_doc [OF assms(1,3)])
  have plain: "ProtoSignDoc X d = StrictSignDoc L d" "ProtoTxBody X bb = StrictTxBody L bb" "ProtoAuthInfo X ab = StrictAuthInfo L ab"
    using assms(2) doc body ai by (simp_all add: wire_ok_def)
  obtain w where "carries X v [(1, bytesOf (u_from u)), (2, bytesOf (u_to u)), (3, w)]"
      "carries X w [(1, bytesOf Denom), (2, bytesOf (show_int (u_amount u)))]"
    using assms(2) [unfolded wire_ok_def, THEN conjunct2, THEN conjunct2, THEN conjunct2, rule_format, OF send] assms(4,5) enc body
    by (fastforce simp: intText_def)
  note msg = decode_wire [OF this]
  have sm: "DeriveSummary L d = Inr sm" using SignDoc_ok [OF assms(3)] by simp
  have "sm = \<lparr>ss_ChainID = c, ss_AccountNumber = show_u64 n, ss_Sequence = show_u64 q, ss_MessageType = MsgSendTypeURL,
      ss_SenderAddress = u_from u, ss_RecipientAddress = u_to u, ss_AmountBaseUnits = show_int (u_amount u), ss_Denom = Denom,
      ss_FeeBaseUnits = (if feeAmount = 0 then ''0'' else show_int feeAmount), ss_GasLimit = show_u64 (fee_GasLimit fee), ss_Memo = u_memo u\<rparr>"
    using sm by (auto simp: DeriveSummary_def doc body ai send summaryMessage_def bodyOptions_def summaryFee_def malformed_def
        summarySigner_def split: if_splits option.splits)
  then show ?thesis
    by (cases s) (auto simp: verifySummary_def plain doc body ai verifyMessage_def msg verifyAuth_def feeMismatch_def mismatch_def intText_def
        split: if_splits)
qed

text \<open>
  C14.  The two independent checks of a summary agree: for every sign doc the builder makes,
  the local signer, which decodes the bytes by itself, signs if and only if the summary
  is the one the builder derived, the same condition as \<open>VerifySummary\<close>; any other
  summary is refused as a mismatch, and the signature is over exactly those bytes.
\<close>

theorem local_signer_exact:
  assumes "codec_ok L" "wire_ok L X" "SignDoc L u c n q fee pk = Inr (d, sm, u')" "u_from u \<noteq> []" "u_to u \<noteq> []"
    and "S ref = Some priv" "PrivSign X priv d = Some g"
  shows "(VerifySummary L d s = Inr () \<longleftrightarrow> s = sm) \<and>
    (case Local_Sign X S \<lparr>sq_KeyRef = ref, sq_SignMode = SignModeDirect, sq_SignDocBytes = d, sq_Summary = s\<rparr> of
       Inr r \<Rightarrow> s = sm \<and> sn_Signature r = g \<and> sn_PubKeyCompressed r = PrivPubKey X priv
     | Inl e \<Rightarrow> s \<noteq> sm \<and> CodeOf e = CodeSummaryMismatch)"
proof -
  note v = verify_built [OF assms(1-5), of s]
  have "DeriveSummary L d = Inr sm" using SignDoc_ok [OF assms(3)] by simp
  then have "VerifySummary L d s = Inr () \<longleftrightarrow> s = sm" by (auto simp: VerifySummary_def)
  then show ?thesis
    using v by (auto simp: Local_Sign_def keyFor_def assms(6,7) dest: verifySummary_code split: sum.split)
qed

text \<open>A wire encoding of the transfer of the withdrawal fixture.\<close>

definition ex_wire :: bytes where "ex_wire = [1, 2, 3]"

definition ex_sl :: lib where
  "ex_sl = ex_lib\<lparr>
     StrictTxBody := (\<lambda>b. if b = [1] then Some (ex_body\<lparr>tb_Messages := [\<lparr>any_TypeUrl = MsgSendTypeURL, any_Value = ex_wire\<rparr>]\<rparr>) else None),
     StrictAuthInfo := (\<lambda>a. if a = [2] then Some (ex_auth ex_coins 13 5) else None),
     UnmarshalMsgSend := (\<lambda>v. if v = ex_wire then Some ex_send else None),
     EncodeTx := (\<lambda>send memo gas coins key sq. if send = ex_send \<and> memo = ''m'' \<and> gas = 13 \<and> coins = ex_coins \<and> key = ex_key \<and> sq = 5
        then Some ([1], [2]) else None),
     GetSignBytes := (\<lambda>c n b a. if c = ''sovr-1'' \<and> n = 7 \<and> b = [1] \<and> a = [2] then Some [3] else None)\<rparr>"

definition ex_xl :: keylib where
  "ex_xl = ex_keylib\<lparr>ProtoTxBody := StrictTxBody ex_sl, ProtoAuthInfo := StrictAuthInfo ex_sl,
     ConsumeTag := (\<lambda>b. Some (unat (hd b), 2, 1)),
     ConsumeBytes := (\<lambda>b. if b = [2, 3] then Some (bytesOf ''hot'', 0) else if b = [3] then Some (bytesOf ''dest'', 0)
        else if b = [] then Some ([1, 2, 9], 0) else if b = [2, 9] then Some (bytesOf ''usovr'', 0)
        else if b = [9] then Some (bytesOf ''100'', 1) else None)\<rparr>"

lemma ex_codec: "codec_ok ex_sl"
  by (auto simp: codec_ok_def ex_sl_def ex_lib_def ex_doc_def ex_body_def ex_auth_def split: if_splits)

lemma ex_carries:
  "carries ex_xl ex_wire [(1, bytesOf ''hot''), (2, bytesOf ''dest''), (3, [1, 2, 9])]"
  "carries ex_xl [1, 2, 9] [(1, bytesOf ''usovr''), (2, bytesOf ''100'')]"
  by (auto simp: ex_wire_def ex_xl_def intro!: carries.intros)

lemma ex_wire_ok: "wire_ok ex_sl ex_xl"
proof -
  have "intText (Some 100) = ''100''" by code_simp
  then show ?thesis using ex_carries
    by (auto simp: wire_ok_def ex_xl_def ex_sl_def ex_keylib_def ex_send_def ex_lib_def split: if_splits)
qed

lemma ex_signdoc:
  "SignDoc ex_sl ex_utx ''sovr-1'' 7 5 \<lparr>fee_AmountBaseUnits = ''33'', fee_GasLimit = 13\<rparr> ex_key =
     Inr ([3], ex_summary, ex_utx\<lparr>u_pubKeyCompressed := ex_key, u_bodyBytes := [1], u_authInfoBytes := [2], u_signDocBytes := [3]\<rparr>)"
  by code_simp

theorem local_signer_exact_witness:
  "case Local_Sign ex_xl [''hot'' \<mapsto> [9]] \<lparr>sq_KeyRef = ''hot'', sq_SignMode = SignModeDirect, sq_SignDocBytes = [3], sq_Summary = ex_summary\<rparr> of
     Inr r \<Rightarrow> sn_Signature r = ex_sig | Inl e \<Rightarrow> False"
  using local_signer_exact [OF ex_codec ex_wire_ok ex_signdoc, of "[''hot'' \<mapsto> [9]]" "''hot''" "[9]" ex_sig ex_summary]
  by (simp add: ex_utx_def ex_xl_def ex_keylib_def split: sum.splits)

end
