(* ===== verification/Adapter_Theorems.thy ===== *)
theory Adapter_Theorems
  imports Adapter_Main Withdrawal_Fixtures
begin

text \<open>
  What a configuration that the adapter accepts guarantees: which signer may be wired
  on which network, what holds when the services start, and that the configured
  blocklist reaches the withdrawal workflow.
\<close>

section \<open>A configuration\<close>

definition ex_manifest :: NetworkManifest where
  "ex_manifest = \<lparr>nm_SchemaVersion = 1, nm_NetworkName = ''sovr'', nm_NetworkType = ''mainnet'', nm_ChainID = ''sovr-1'',
     nm_DaemonName = ''sovrd'', nm_NodeHome = ''/sovr'', nm_AccountPrefix = ''sovr'', nm_ValidatorOperatorPrefix = ''sovrvaloper'',
     nm_ValidatorConsensusPrefix = ''sovrvalcons'', nm_BaseDenom = ''usovr'', nm_DisplayDenom = ''sovr'', nm_DisplayExponent = 6,
     nm_Symbol = ''SOVR'', nm_AccountKeyAlgorithm = ''secp256k1'', nm_ConsensusKeyAlgorithm = ''ed25519'', nm_Slip44CoinType = 118,
     nm_Versions = \<lparr>mv_SDK = ''1'', mv_CometBFT = ''1'', mv_IBCGo = ''1'', mv_CosmwasmWasmd = ''1'', mv_Go = ''1'', mv_App = ''1''\<rparr>,
     nm_Fees = \<lparr>mf_MinimumGasPrice = ''0.025usovr'', mf_RecommendedGasPrice = ''2.5usovr'', mf_RecommendedGasAdjustment = ''1.30''\<rparr>,
     nm_Ports = \<lparr>mp_P2P = 1, mp_RPC = 2, mp_GRPC = 3, mp_REST = 4, mp_Metrics = 5\<rparr>,
     nm_Genesis = \<lparr>mg_SHA256 = replicate 64 CHR ''a'', mg_File = ''genesis.json''\<rparr>,
     nm_Endpoints = [\<lparr>me_Kind = ''grpc'', me_URL = ''u'', me_Provider = ''p''\<rparr>],
     nm_Peers = \<lparr>mq_Seeds = [replicate 40 CHR ''a'' @ ''@host:26656''], mq_PersistentPeers = []\<rparr>,
     nm_Links = \<lparr>ml_Explorer = ''e'', ml_Faucet = None, ml_StatusPage = None, ml_RegistryDir = ''r''\<rparr>, nm_Divergences = []\<rparr>"

definition ex_yaml :: manifestlib where
  "ex_yaml = \<lparr>ProbeVersion = (\<lambda>d. Some (Some 1)), DecodeManifest = (\<lambda>d. Some ex_manifest), ParseDecCoin = (\<lambda>v. True),
     DecSign = (\<lambda>v. Some 1), ParseDuration = (\<lambda>v. Some 1000000000)\<rparr>"

definition ex_adapter :: "string \<Rightarrow> AdapterConfig" where
  "ex_adapter token = \<lparr>ac_SchemaVersion = 1, ac_NetworkManifest = ''network.yaml'',
     ac_Nodes = \<lparr>nc_Primary = \<lparr>ne_GRPC = [], ne_RPC = ''node'', ne_REST = []\<rparr>, nc_Secondary = None, nc_Disagreement = None\<rparr>,
     ac_Storage = \<lparr>so_Backend = ''sqlite'', so_DSN = ''db''\<rparr>,
     ac_Scanner = \<lparr>sy_Confirmations = Some 3, sy_StartHeight = None, sy_WebsocketAccelerator = None, sy_PollInterval = ''2s'',
       sy_MinimumDepositUsovr = ''10'',
       sy_Watch = [\<lparr>we_Address = ''hot'', we_Kind = ''HOT_WALLET'', we_MemoRequired = False, we_CustomerRef = []\<rparr>]\<rparr>,
     ac_Withdrawals = \<lparr>wy_MinimumWithdrawalUsovr = ''1'', wy_MaxFeeUsovr = ''50'', wy_GasAdjustment = [], wy_BroadcastTimeout = [],
       wy_SimulateUnavailable = ''queue'', wy_ProhibitedDestinations = [''dest'']\<rparr>,
     ac_Sweeps = \<lparr>zy_Strategy = [], zy_MinimumSweepAmountUsovr = [], zy_MaximumFeePercentageForSweep = [], zy_FeeReserveUsovr = [],
       zy_HotWallet = ''hot'', zy_FeeWalletMaxSpendUsovr = [], zy_FeeWalletSpendWindowBlocks = 0\<rparr>,
     ac_Signer = \<lparr>gy_Kind = ''grpc-remote'', gy_Endpoint = ''signer:443''\<rparr>,
     ac_Reconciler = \<lparr>ry_WalletInterval = [], ry_FullAddressInterval = []\<rparr>,
     ac_Admin = \<lparr>ay_Listen = ''0.0.0.0:9465'', ay_AuthToken = token\<rparr>, ac_MetricsListen = []\<rparr>"

definition ex_env :: "string \<Rightarrow> string option" where
  "ex_env = map_of [(''TOKEN'', ''secret''), (''SOVREN_SIGNER_TLS_CA_FILE'', ''ca''), (''SOVREN_SIGNER_TLS_CERT_FILE'', ''cert''),
     (''SOVREN_SIGNER_TLS_KEY_FILE'', ''key'')]"

definition ex_files :: files where
  "ex_files = \<lparr>CertPool = (\<lambda>f. Some [1]), KeyPair = (\<lambda>c k. Some [2]), DialTarget = (\<lambda>t. True)\<rparr>"

definition ex_outside :: "unit outside" where
  "ex_outside = \<lparr>out_OpenStore = (\<lambda>b d. True), out_NewCometRPC = Some \<circ> (\<lambda>_. ()), out_NewGRPC = (\<lambda>_. None),
     out_NodeChainID = (\<lambda>c. Inr ''sovr-1''), out_CanBind = (\<lambda>a. SplitHostPort a \<noteq> None)\<rparr>"

abbreviation ex_load :: "configErr + AdapterConfig \<times> NetworkManifest" where
  "ex_load \<equiv> LoadConfig ex_lib ex_yaml ex_env (\<lambda>d. Some (ex_adapter ''${TOKEN}'')) (\<lambda>p. Some []) (Some [])"

lemma ex_sections:
  "identityErrors ex_manifest = []" "versionErrors (nm_Versions ex_manifest) = []" "feeErrors ex_yaml (nm_Fees ex_manifest) = []"
  "portErrors (nm_Ports ex_manifest) = []" "eachEntry ''endpoints'' endpointErrors (nm_Endpoints ex_manifest) = []"
  "linkErrors ex_manifest = []" "divergenceErrors ex_manifest = []"
  by (simp_all add: ex_manifest_def ex_yaml_def manifest_simps printable_def no_placeholder)

lemma ex_genesis: "genesisErrors (nm_Genesis ex_manifest) = []"
proof -
  have "sha256Re (replicate 64 CHR ''a'')" by code_simp
  then show ?thesis by (simp add: ex_manifest_def genesisErrors_def requireString_def failIf_def printable_def no_placeholder)
qed

lemma ex_peers: "eachEntry ''peers.seeds'' peerErrors (mq_Seeds (nm_Peers ex_manifest)) = []"
proof -
  have "peerRe (replicate 40 CHR ''a'' @ ''@host:26656'')" by code_simp
  then show ?thesis
    by (simp add: ex_manifest_def eachEntry_def peerErrors_def requireString_def failIf_def printable_def no_placeholder hd_append)
qed

lemma ex_manifest_valid: "validateManifest ex_yaml ex_manifest = []"
proof -
  have "eachEntry ''peers.persistent_peers'' peerErrors (mq_PersistentPeers (nm_Peers ex_manifest)) = []"
    "nm_Endpoints ex_manifest \<noteq> []" "mq_Seeds (nm_Peers ex_manifest) \<noteq> []"
    by (simp_all add: ex_manifest_def eachEntry_def)
  then show ?thesis using ex_sections ex_genesis ex_peers by (simp add: validateManifest_def failIf_def)
qed

lemma ex_config_valid: "validateConfig ex_lib ex_yaml (ex_adapter t) = []"
  by code_simp

lemma ex_expanded: "expandEnvStrict ex_env ''${TOKEN}'' = Inr ''secret''" "expandEnvStrict ex_env ''db'' = Inr ''db''"
  by code_simp+

lemma ex_fields [simp]:
  "ac_Nodes (ex_adapter t) = \<lparr>nc_Primary = \<lparr>ne_GRPC = [], ne_RPC = ''node'', ne_REST = []\<rparr>, nc_Secondary = None, nc_Disagreement = None\<rparr>"
  "ac_Storage (ex_adapter t) = \<lparr>so_Backend = ''sqlite'', so_DSN = ''db''\<rparr>"
  "ac_Admin (ex_adapter t) = \<lparr>ay_Listen = ''0.0.0.0:9465'', ay_AuthToken = t\<rparr>" "ac_MetricsListen (ex_adapter t) = []"
  "ac_Signer (ex_adapter t) = \<lparr>gy_Kind = ''grpc-remote'', gy_Endpoint = ''signer:443''\<rparr>"
  "sy_Watch (ac_Scanner (ex_adapter t)) = [\<lparr>we_Address = ''hot'', we_Kind = ''HOT_WALLET'', we_MemoRequired = False, we_CustomerRef = []\<rparr>]"
  "wy_ProhibitedDestinations (ac_Withdrawals (ex_adapter t)) = [''dest'']"
  "nm_ChainID ex_manifest = ''sovr-1''" "nm_NetworkType ex_manifest = ''mainnet''"
  by (simp_all add: ex_adapter_def ex_manifest_def)

lemma ex_loaded: "ex_load = Inr (ex_adapter ''secret'', ex_manifest)"
proof -
  have "ParseManifest ex_yaml [] = Inr ex_manifest"
    using ex_manifest_valid by (simp add: ParseManifest_def SupportedManifestSchemaMajor_def ex_yaml_def [THEN arg_cong [of _ _ ProbeVersion]]
        ex_yaml_def [THEN arg_cong [of _ _ DecodeManifest]])
  moreover have "(ex_adapter t)\<lparr>ac_Storage := (ac_Storage (ex_adapter t))\<lparr>so_DSN := ''db''\<rparr>,
       ac_Admin := (ac_Admin (ex_adapter t))\<lparr>ay_AuthToken := u\<rparr>\<rparr> = ex_adapter u" for t u
    by (simp_all add: ex_adapter_def)
  ultimately show ?thesis
    using ex_config_valid ex_expanded by (simp add: LoadConfig_def validateAdminBinding_def Let_def)
qed

section \<open>What loading has checked\<close>

lemma LoadConfig_ok:
  assumes "LoadConfig L Y env decode rd file = Inr (cfg, m)"
  shows "validateAdminBinding (ac_Admin cfg)" "\<exists>md. ParseManifest Y md = Inr m"
    "gy_Kind (ac_Signer cfg) = ''unsafe-local'' \<Longrightarrow> nm_NetworkType m \<noteq> ''mainnet''"
  using assms by (auto simp: LoadConfig_def Let_def split: option.splits sum.splits if_splits)

lemma network_type: "LoadConfig L Y env decode rd file = Inr (cfg, m) \<Longrightarrow> nm_NetworkType m \<in> {''mainnet'', ''testnet''}"
  using LoadConfig_ok(2) manifest_identity(2) by metis

section \<open>The signer\<close>

lemma TLSConfig_build_mutual:
  "TLSConfig_build F t = Inr tc \<Longrightarrow> \<not> tl_AllowServerOnly t \<Longrightarrow> tc_RootCAs tc \<noteq> None \<and> tc_Certificates tc \<noteq> []"
  by (auto simp: TLSConfig_build_def Let_def split: if_splits option.splits)

text \<open>What may be wired: the conditions on the network and the environment for every kind.\<close>

definition wiringAllowed :: "(string \<Rightarrow> string option) \<Rightarrow> string \<Rightarrow> wiredSigner \<Rightarrow> bool" where
  "wiringAllowed env networkType sg = (case sg of
       GrpcSigner target (TLSCreds tc) timeout \<Rightarrow> target \<noteq> [] \<and> 0 < timeout \<and> tc_RootCAs tc \<noteq> None \<and> tc_Certificates tc \<noteq> []
     | GrpcSigner target InsecureCreds timeout \<Rightarrow> networkType = ''testnet'' \<and> Getenv env ''SOVREN_SIGNER_ALLOW_INSECURE_DEV'' = ''true''
     | ExecSigner path timeout \<Rightarrow> path \<noteq> [] \<and> 0 < timeout
     | LocalSigner S \<Rightarrow> networkType = ''testnet'' \<and> Getenv env ''SOVREN_SIGNER_UNSAFE'' = ''UNSAFE_TEST_ONLY'' \<and>
         (\<exists>addr secret. S = [addr \<mapsto> secret] \<and> length secret = 32))"

lemma grpc_allowed:
  assumes "signerGrpcConfig env endpoint network = Inr c" "grpcremote_New F c = Inr sg" "network \<in> {''mainnet'', ''testnet''}"
  shows "wiringAllowed env network sg"
  using assms TLSConfig_build_mutual [of F]
  by (auto simp: signerGrpcConfig_def grpcremote_New_def wiringAllowed_def Let_def split: if_splits sum.splits)

lemma one_key: "length b = 32 \<Longrightarrow> \<exists>addr secret. [a \<mapsto> b] = [addr \<mapsto> secret] \<and> length secret = 32"
  by (rule exI [of _ a], rule exI [of _ b]) simp

lemma local_allowed:
  assumes "unsafeLocalSigner L X derive env network = Inr sg" "network \<in> {''mainnet'', ''testnet''}"
  shows "wiringAllowed env network sg"
  using assms
  by (auto simp: unsafeLocalSigner_def NewLocal_def ImportKey_def wiringAllowed_def Let_def intro: one_key split: if_splits sum.splits)

text \<open>
  C15.  Which signer runs where.  From every configuration that loads, the signer that is
  wired is a gRPC connection secured in both directions (the adapter presents a
  certificate and the server is verified against the configured authority), a
  subprocess with a path, or, on a test network and only with the explicit
  environment variable, a plaintext connection or the local test signer with one
  32-byte key.  In particular on the main network no plaintext connection and no
  key in the process is possible, whatever the environment holds.
\<close>

theorem signer_wiring_safe:
  assumes "LoadConfig L Y env decode rd file = Inr (cfg, m)"
    and "buildWithdrawalsSigner L X derive F env \<lparr>dp_Config = cfg, dp_Manifest = m\<rparr> = Inr sg"
  shows "wiringAllowed env (nm_NetworkType m) sg \<and>
    (nm_NetworkType m = ''mainnet'' \<longrightarrow>
       (\<exists>target tc timeout. sg = GrpcSigner target (TLSCreds tc) timeout \<and> tc_RootCAs tc \<noteq> None \<and> tc_Certificates tc \<noteq> []) \<or>
       (\<exists>path timeout. sg = ExecSigner path timeout \<and> path \<noteq> []))"
proof -
  note n = network_type [OF assms(1)]
  have "wiringAllowed env (nm_NetworkType m) sg"
    using assms(2) grpc_allowed [OF _ _ n] local_allowed [OF _ n]
    by (auto simp: buildWithdrawalsSigner_def execsigner_New_def wiringAllowed_def [of _ _ "ExecSigner _ _"] Let_def
        split: if_splits sum.splits)
  then show ?thesis by (auto simp: wiringAllowed_def split: wiredSigner.splits transportCreds.splits)
qed

theorem signer_wiring_safe_witness:
  "nm_NetworkType ex_manifest = ''mainnet'' \<and>
   (\<forall>X derive. \<exists>sg. buildWithdrawalsSigner ex_lib X derive ex_files ex_env \<lparr>dp_Config = ex_adapter ''secret'', dp_Manifest = ex_manifest\<rparr> = Inr sg \<and>
      wiringAllowed ex_env ''mainnet'' sg)"
proof -
  have "buildWithdrawalsSigner ex_lib X derive ex_files ex_env \<lparr>dp_Config = ex_adapter ''secret'', dp_Manifest = ex_manifest\<rparr> =
    Inr (GrpcSigner ''signer:443'' (TLSCreds \<lparr>tc_ServerName = [], tc_RootCAs = Some [1], tc_Certificates = [[2]]\<rparr>) 30000000000)" for X derive
    by (simp add: buildWithdrawalsSigner_def signerGrpcConfig_def Getenv_def ex_env_def grpcremote_New_def
        TLSConfig_build_def ex_files_def)
  then show ?thesis using signer_wiring_safe [OF ex_loaded, where F = ex_files] by (metis ex_fields(9))
qed

section \<open>The watch set\<close>

lemma watched_same: "\<exists>rows. s = s\<lparr>t_watched := rows\<rparr>"
  by (rule exI [of _ "t_watched s"]) simp

lemma upsert_run:
  assumes "watchRepo_Upsert w s = (r, t)"
  shows "\<exists>rows. t = s\<lparr>t_watched := rows\<rparr>" "r = Inr () \<Longrightarrow> w \<in> set (t_watched t)"
    "\<And>x. (wa_ChainID x, wa_Address x) \<noteq> (wa_ChainID w, wa_Address w) \<Longrightarrow> x \<in> set (t_watched t) \<longleftrightarrow> x \<in> set (t_watched s)"
proof -
  have "\<exists>rows. t = s\<lparr>t_watched := rows\<rparr>" if "t = t_watched_update f s" for f
    unfolding that by (rule exI [of _ "f (t_watched s)"]) simp
  then show "\<exists>rows. t = s\<lparr>t_watched := rows\<rparr>"
    using assms by (auto simp: watchRepo_Upsert_def watched_same split: if_splits)
qed (use assms in \<open>auto simp: watchRepo_Upsert_def map_where_def split: if_splits\<close>)

text \<open>Seeding: the row of an entry of every configured address is there, and no other row is touched.\<close>

lemma seed_run:
  assumes "forE ws (\<lambda>w. watchRepo_Upsert (watchRow chainID w)) s = (r, t)"
  shows "\<exists>rows. t = s\<lparr>t_watched := rows\<rparr>"
    "r = Inr () \<Longrightarrow> w \<in> set ws \<Longrightarrow> \<exists>v \<in> set ws. we_Address v = we_Address w \<and> watchRow chainID v \<in> set (t_watched t)"
    "wa_ChainID x \<noteq> chainID \<or> wa_Address x \<notin> we_Address ` set ws \<Longrightarrow> x \<in> set (t_watched t) \<longleftrightarrow> x \<in> set (t_watched s)"
proof -
  have "(\<exists>rows. t = s\<lparr>t_watched := rows\<rparr>) \<and>
    (r = Inr () \<longrightarrow> (\<forall>w \<in> set ws. \<exists>v \<in> set ws. we_Address v = we_Address w \<and> watchRow chainID v \<in> set (t_watched t))) \<and>
    (\<forall>x. wa_ChainID x \<noteq> chainID \<or> wa_Address x \<notin> we_Address ` set ws \<longrightarrow> (x \<in> set (t_watched t) \<longleftrightarrow> x \<in> set (t_watched s)))"
    using assms
  proof (induction ws arbitrary: s)
    case (Cons w ws)
    obtain r1 s1 where u: "watchRepo_Upsert (watchRow chainID w) s = (r1, s1)" by fastforce
    note up = upsert_run [OF u]
    have key: "wa_ChainID (watchRow chainID w) = chainID" "wa_Address (watchRow chainID w) = we_Address w"
      by (simp_all add: watchRow_def)
    show ?case
    proof (cases r1)
      case (Inl e)
      then have "r = Inl e" "t = s1" using Cons.prems u by (simp_all add: thenE_def bindE_def)
      then show ?thesis using up key by auto
    next
      case (Inr x)
      then have run: "forE ws (\<lambda>w. watchRepo_Upsert (watchRow chainID w)) s1 = (r, t)"
        using Cons.prems u by (simp add: thenE_def bindE_def)
      note IH = Cons.IH [OF run]
      have "watchRow chainID w \<in> set (t_watched s1)" using up(2) Inr by simp
      then have "r = Inr () \<Longrightarrow> \<exists>v \<in> set (w # ws). we_Address v = we_Address w \<and> watchRow chainID v \<in> set (t_watched t)"
        using IH key by (cases "we_Address w \<in> we_Address ` set ws") force+
      moreover have "\<exists>rows. t = s\<lparr>t_watched := rows\<rparr>" using IH up(1) by auto
      ultimately show ?thesis using IH up(3) key by auto
    qed
  qed (simp add: watched_same)
  then show "\<exists>rows. t = s\<lparr>t_watched := rows\<rparr>"
    "r = Inr () \<Longrightarrow> w \<in> set ws \<Longrightarrow> \<exists>v \<in> set ws. we_Address v = we_Address w \<and> watchRow chainID v \<in> set (t_watched t)"
    "wa_ChainID x \<noteq> chainID \<or> wa_Address x \<notin> we_Address ` set ws \<Longrightarrow> x \<in> set (t_watched t) \<longleftrightarrow> x \<in> set (t_watched s)"
    by blast+
qed

section \<open>The admin listener\<close>

text \<open>Documented behaviour of \<open>net.Listen\<close>: an address is a host and a port.\<close>

definition bind_needs_port :: "'c outside \<Rightarrow> bool" where
  "bind_needs_port O1 \<longleftrightarrow> (\<forall>a. out_CanBind O1 a \<longrightarrow> SplitHostPort a \<noteq> None)"

lemma trimRunes_keeps: "set s \<subseteq> set (trimRunes rs s) \<union> \<Union> (set ` set rs)"
proof (induction rs s rule: trimRunes.induct)
  case (1 rs s)
  show ?case
  proof (cases "find (\<lambda>r. r \<noteq> [] \<and> hasPrefix s r) rs")
    case (Some r)
    then have r: "r \<in> set rs" "take (length r) s = r" by (auto simp: find_Some_iff hasPrefix_def)
    have "set s = set (take (length r) s @ drop (length r) s)" by simp
    also have "\<dots> = set r \<union> set (drop (length r) s)" using r(2) by (simp only: set_append)
    finally show ?thesis using 1 [OF Some] Some r(1) by (auto simp: trimRunes.simps [of rs s])
  qed (simp add: trimRunes.simps [of rs s])
qed

lemma colon_no_space: "CHR '':'' \<notin> \<Union> (set ` set spaceRunes)" "CHR '':'' \<notin> \<Union> (set ` set (map rev spaceRunes))"
proof -
  have "list_all (\<lambda>r. CHR '':'' \<notin> set r) spaceRunes" by code_simp
  then show "CHR '':'' \<notin> \<Union> (set ` set spaceRunes)" "CHR '':'' \<notin> \<Union> (set ` set (map rev spaceRunes))"
    by (auto simp: list_all_iff)
qed

lemma blank_no_port: "TrimSpace a = [] \<Longrightarrow> SplitHostPort a = None"
  using trimRunes_keeps [of a spaceRunes] trimRunes_keeps [of "rev (trimRunes spaceRunes a)" "map rev spaceRunes"] colon_no_space
  by (auto simp: TrimSpace_def SplitHostPort_def beforeLast_def)

text \<open>A host that only this machine reaches.\<close>

definition loopbackAddress :: "string \<Rightarrow> bool" where
  "loopbackAddress a \<longleftrightarrow> (\<exists>host port. SplitHostPort (TrimSpace a) = Some (host, port) \<and>
     (TrimSpace host = ''localhost'' \<or> (\<exists>ip. ParseIP (TrimSpace host) = Some ip \<and> IsLoopback ip)))"

lemma isLoopbackHost_meaning:
  "isLoopbackHost h \<Longrightarrow> TrimSpace h = ''localhost'' \<or> (\<exists>ip. ParseIP (TrimSpace h) = Some ip \<and> IsLoopback ip)"
  by (auto simp: isLoopbackHost_def Let_def split: if_splits option.splits)

lemma default_loopback: "loopbackAddress ''127.0.0.1:9465''"
proof -
  have "SplitHostPort ''127.0.0.1:9465'' = Some (''127.0.0.1'', ''9465'')" "map_option IsLoopback (ParseIP ''127.0.0.1'') = Some True"
    by code_simp+
  then show ?thesis by (simp add: loopbackAddress_def printable_def)
qed

lemma admin_guarded:
  assumes "validateAdminBinding a" "serveHTTP (out_CanBind O1) (ay_Listen a) ''127.0.0.1:9465'' = Some addr" "bind_needs_port O1"
  shows "ay_AuthToken a \<noteq> [] \<or> loopbackAddress addr"
proof (cases "ay_Listen a = []")
  case True
  then show ?thesis using assms(2) default_loopback by (simp add: serveHTTP_def Let_def split: if_splits)
next
  case False
  then have "addr = ay_Listen a" "SplitHostPort addr \<noteq> None"
    using assms(2,3) by (auto simp: serveHTTP_def bind_needs_port_def Let_def split: if_splits)
  then show ?thesis
    using assms(1) blank_no_port [of addr] isLoopbackHost_meaning
    by (fastforce simp: validateAdminBinding_def loopbackAddress_def Let_def split: option.splits if_splits)
qed

section \<open>Startup\<close>

lemma selectServices_ok:
  "selectServices names runners = Some rs \<Longrightarrow> set runners \<subseteq> set registry \<Longrightarrow>
     set runners \<subseteq> set rs \<and> set rs \<subseteq> set registry \<and> (names \<noteq> [] \<longrightarrow> rs \<noteq> [])"
proof (induction names arbitrary: runners)
  case (Cons n ns)
  define more where "more = remdups (runners @ (if n = ''all'' then registry else [n]))"
  have "selectServices ns more = Some rs" "n = ''all'' \<or> n \<in> set registry"
    using Cons.prems(1) by (auto simp: more_def split: if_splits)
  moreover have "more \<noteq> []" by (simp add: more_def registry_def)
  ultimately show ?case using Cons.IH [of more] Cons.prems(2) by (auto simp: more_def split: if_splits)
qed simp

text \<open>The stages of a startup that reaches the services.\<close>

lemma serveAndRun_cases:
  obtains "serveAndRun O1 runners deps cl = Exit 1"
  | addr where "serveHTTP (out_CanBind O1) (ay_Listen (ac_Admin (dp_Config deps))) ''127.0.0.1:9465'' = Some addr"
      "serveAndRun O1 runners deps cl = Running runners deps cl addr"
  by (cases "serveHTTP (out_CanBind O1) (ac_MetricsListen (dp_Config deps)) '':9464''";
      cases "serveHTTP (out_CanBind O1) (ay_Listen (ac_Admin (dp_Config deps))) ''127.0.0.1:9465''")
    (auto simp: serveAndRun_def)

lemma connect_cases:
  assumes "connectAndSeed O1 runners cfg m s = (r, t)"
  obtains n where "r = Exit n" "n \<in> {2, 3}" "\<exists>rows. t = s\<lparr>t_watched := rows\<rparr>"
  | cl where "out_NodeChainID O1 cl = Inr (nm_ChainID m)" "seedWatchSet cfg (nm_ChainID m) s = (Inr (), t)"
      "r = serveAndRun O1 runners \<lparr>dp_Config = cfg, dp_Manifest = m\<rparr> cl"
  using assms seed_run(1) [of "sy_Watch (ac_Scanner cfg)" "nm_ChainID m" s]
  by (auto simp: connectAndSeed_def seedWatchSet_def watched_same split: option.splits sum.splits if_splits prod.splits)

text \<open>
  C16.  What holds when the services start.  Before a service runs, the node has
  reported exactly the chain of the manifest, every configured address is in the
  watch set of that chain as an active row of its entry, the admin API either
  demands a token (and answers 401 to a request without it, leaving the store as it
  is) or listens on a loopback address only, and the services are registered ones.
  Every other start ends with the exit code 1, 2 or 3; and in all cases nothing
  but the watch set has been written, and there no row of another chain or
  address.
\<close>

theorem startup_guarded:
  assumes "bind_needs_port O1" "run O1 (LoadConfig L Y env decode rd file) services s = (r, t)"
  shows "(\<exists>rows. t = s\<lparr>t_watched := rows\<rparr>) \<and>
    (case r of Exit n \<Rightarrow> n \<in> {1, 2, 3}
     | Running runners deps cl addr \<Rightarrow>
         let chainID = nm_ChainID (dp_Manifest deps); watch = sy_Watch (ac_Scanner (dp_Config deps));
             token = ay_AuthToken (ac_Admin (dp_Config deps)) in
         out_NodeChainID O1 cl = Inr chainID \<and> runners \<noteq> [] \<and> set runners \<subseteq> set registry \<and>
         (token = [] \<longrightarrow> loopbackAddress addr) \<and>
         (token \<noteq> [] \<longrightarrow> (\<forall>h answer u. TrimPrefix h ''Bearer '' \<noteq> token \<longrightarrow>
            adminAuth token h answer u = (Inr (401, ApiError ''UNAUTHORIZED''), u))) \<and>
         (\<forall>w \<in> set watch. \<exists>v \<in> set watch. we_Address v = we_Address w \<and> watchRow chainID v \<in> set (t_watched t)) \<and>
         (\<forall>x. wa_ChainID x \<noteq> chainID \<or> wa_Address x \<notin> we_Address ` set watch \<longrightarrow>
            (x \<in> set (t_watched t) \<longleftrightarrow> x \<in> set (t_watched s))))"
proof -
  consider n where "r = Exit n" "n \<in> {1, 2}" "t = s"
    | runners cfg m where "LoadConfig L Y env decode rd file = Inr (cfg, m)" "services \<noteq> []"
        "selectServices services [] = Some runners" "connectAndSeed O1 runners cfg m s = (r, t)"
    using assms(2) by (auto simp: run_def split: if_splits option.splits sum.splits)
  then show ?thesis
  proof cases
    case (2 runners cfg m)
    note rs = selectServices_ok [OF 2(3)]
    from 2(4) show ?thesis
    proof (cases rule: connect_cases)
      case (2 cl)
      note seed = seed_run [OF 2(2) [unfolded seedWatchSet_def]]
      show ?thesis
      proof (cases rule: serveAndRun_cases [of O1 runners "\<lparr>dp_Config = cfg, dp_Manifest = m\<rparr>" cl])
        case (2 addr)
        have "ay_AuthToken (ac_Admin cfg) \<noteq> [] \<or> loopbackAddress addr"
          using admin_guarded [OF LoadConfig_ok(1) _ assms(1)] \<open>LoadConfig L Y env decode rd file = Inr (cfg, m)\<close> 2(1) by simp
        then show ?thesis
          using rs seed 2(2) \<open>services \<noteq> []\<close> \<open>out_NodeChainID O1 cl = Inr (nm_ChainID m)\<close> \<open>r = serveAndRun _ _ _ _\<close>
          by (simp add: Let_def adminAuth_def)
      qed (use seed(1) \<open>r = serveAndRun _ _ _ _\<close> in simp)
    qed auto
  qed (auto simp: watched_same)
qed

theorem startup_guarded_witness:
  "\<exists>addr t. run ex_outside ex_load [''all''] empty_store =
      (Running registry \<lparr>dp_Config = ex_adapter ''secret'', dp_Manifest = ex_manifest\<rparr> (SingleNode ()) addr, t) \<and>
    (\<exists>x \<in> set (t_watched t). wa_Address x = ''hot'' \<and> wa_Active x) \<and>
    adminAuth ''secret'' ''Bearer guess'' (ret (200, ApiError [])) t = (Inr (401, ApiError ''UNAUTHORIZED''), t)"
proof -
  have bp: "bind_needs_port ex_outside" by (simp add: bind_needs_port_def ex_outside_def)
  have ports: "SplitHostPort ''0.0.0.0:9465'' = Some (''0.0.0.0'', ''9465'')" "SplitHostPort '':9464'' = Some ([], ''9464'')"
    "TrimPrefix ''Bearer guess'' ''Bearer '' = ''guess''" by code_simp+
  have "selectServices [''all''] [] = Some registry" by (simp add: registry_def)
  moreover have "fst (seedWatchSet (ex_adapter ''secret'') ''sovr-1'' empty_store) = Inr ()"
    by (simp add: seedWatchSet_def watchRow_def watchRepo_Upsert_def watchedAddressKindOf_def enum_defs thenE_def bindE_def)
  ultimately obtain t where run: "run ex_outside ex_load [''all''] empty_store =
      (Running registry \<lparr>dp_Config = ex_adapter ''secret'', dp_Manifest = ex_manifest\<rparr> (SingleNode ()) ''0.0.0.0:9465'', t)"
    using ports by (cases "seedWatchSet (ex_adapter ''secret'') ''sovr-1'' empty_store")
      (simp add: run_def ex_loaded openStore_def connectAndSeed_def buildClient_def nodeClient_def serveAndRun_def serveHTTP_def
        ex_outside_def)
  note g = startup_guarded [OF bp run]
  have "watchRow ''sovr-1'' \<lparr>we_Address = ''hot'', we_Kind = ''HOT_WALLET'', we_MemoRequired = False, we_CustomerRef = []\<rparr> \<in> set (t_watched t)"
    using g by (simp add: Let_def)
  then have "\<exists>x \<in> set (t_watched t). wa_Address x = ''hot'' \<and> wa_Active x" by (rule bexI [rotated]) (simp add: watchRow_def)
  moreover have "adminAuth ''secret'' ''Bearer guess'' (ret (200, ApiError [])) t = (Inr (401, ApiError ''UNAUTHORIZED''), t)"
    using g ports(3) by (simp add: Let_def)
  ultimately show ?thesis using run by blast
qed

section \<open>The blocklist\<close>

lemma addProhibited_ok:
  "addProhibited L ds deny = Inr out \<Longrightarrow>
     set out = set deny \<union> (\<lambda>d. vr_NormalizedAddress (ValidateAccountAddress L d)) ` set ds"
  by (induction ds arbitrary: deny) (auto simp: Let_def split: if_splits)

lemma deny_of_config:
  assumes "withdrawalsWorkflowConfig L Y env deps = Inr cfg" "newWorkflow L cfg = Inr W"
  shows "set (wf_deny W) = set (DefaultProhibitedModuleAccounts L) \<union>
    (\<lambda>d. vr_NormalizedAddress (ValidateAccountAddress L d)) ` set (wy_ProhibitedDestinations (ac_Withdrawals (dp_Config deps)))"
proof -
  have "resolveProhibitedDestinations L (wy_ProhibitedDestinations (ac_Withdrawals (dp_Config deps))) = Inr (cfg_ProhibitedDestinations cfg)"
    using assms(1) by (auto simp: withdrawalsWorkflowConfig_def Let_def split: sum.splits)
  moreover have "wf_deny W = cfg_ProhibitedDestinations cfg"
    using assms(2) by (auto simp: newWorkflow_def Let_def split: sum.splits if_splits)
  moreover obtain out where "addProhibited L (wy_ProhibitedDestinations (ac_Withdrawals (dp_Config deps)))
      (DefaultProhibitedModuleAccounts L) = Inr out" "cfg_ProhibitedDestinations cfg = sort (remdups out)"
    using calculation(1) by (auto simp: resolveProhibitedDestinations_def split: sum.splits)
  ultimately show ?thesis by (simp add: addProhibited_ok)
qed

lemma reviewOpen_withdrawals: "reviewRepo_Open now it s = (r, t) \<Longrightarrow> t_withdrawals t = t_withdrawals s"
  by (auto simp: reviewRepo_Open_def run_defs Let_def split: if_splits)

lemma quarantine_effect:
  assumes "quarantine now W k from reason s = (r, t)"
  shows "(\<exists>e. r = Inl e) \<and> (\<forall>w \<in> set (t_withdrawals t). w \<in> set (t_withdrawals s) \<or> w_Status w = WithdrawalReviewRequired)"
proof -
  let ?m = "with_tx (thenE (withdrawalRepo_UpdateStatus now k from WithdrawalReviewRequired noWithdrawalUpdate)
     (reviewRepo_Open now (reviewItem (cfg_ChainID (wf_cfg W)) k reason)))"
  have r: "\<exists>e. r = Inl e" and t: "t = snd (?m s)"
    using assms by (auto simp: quarantine_def thenE_def bindE_def split: prod.splits sum.splits)
  have "w \<in> set (t_withdrawals s) \<or> w_Status w = WithdrawalReviewRequired" if "w \<in> set (t_withdrawals t)" for w
  proof (cases "?m s")
    case (Pair q u)
    show ?thesis
    proof (cases q)
      case (Inr it)
      then obtain s1 where "withdrawalRepo_UpdateStatus now k from WithdrawalReviewRequired noWithdrawalUpdate s = (Inr (), s1)"
        "t_withdrawals u = t_withdrawals s1"
        using Pair by (auto simp: with_tx_ok_iff thenE_ok_iff dest: reviewOpen_withdrawals)
      then show ?thesis
        using that t Pair by (auto simp: wd_update_ok_iff map_where_def applyWithdrawalUpdate_def split: if_splits)
    qed (use Pair t that in \<open>auto simp: with_tx_def split: prod.splits sum.splits\<close>)
  qed
  with r show ?thesis by blast
qed

text \<open>
  C17.  The blocklist reaches the workflow.  In the workflow that the service builds from
  the configuration, a withdrawal whose destination, however it is written, is a
  module account or the account of a configured entry, however that is written,
  never passes the address validation: the call fails, and the withdrawal is left
  as it was or put under review.
\<close>

theorem blocklist_enforced:
  assumes "withdrawalsWorkflowConfig L Y env deps = Inr cfg" "newWorkflow L cfg = Inr W"
    and "withdrawalRepo_Get k s = (Inr wd, s)"
    and "vr_NormalizedAddress (ValidateAccountAddress L (w_DestinationAddress wd)) \<in> set (DefaultProhibitedModuleAccounts L) \<union>
      (\<lambda>d. vr_NormalizedAddress (ValidateAccountAddress L d)) ` set (wy_ProhibitedDestinations (ac_Withdrawals (dp_Config deps)))"
    and "ValidateAddress L now W k s = (r, t)"
  shows "(\<exists>e. r = Inl e) \<and> (\<forall>w \<in> set (t_withdrawals t). w \<in> set (t_withdrawals s) \<or> w_Status w = WithdrawalReviewRequired)"
proof (rule quarantine_effect)
  have "\<not> vr_Valid (ValidateAccountAddressStrict L (w_DestinationAddress wd) (wf_deny W))"
    using assms(4) deny_of_config [OF assms(1,2)] by (simp add: ValidateAccountAddressStrict_def Let_def)
  then show "quarantine now W (w_WithdrawalID wd) (w_Status wd) ''destination rejected'' s = (r, t)"
    using assms(3,5) by (simp add: ValidateAddress_def bindE_Inr Let_def)
qed

theorem blocklist_enforced_witness:
  "\<exists>cfg W e t. withdrawalsWorkflowConfig ex_lib ex_yaml ex_env \<lparr>dp_Config = ex_adapter ''secret'', dp_Manifest = ex_manifest\<rparr> = Inr cfg \<and>
     newWorkflow ex_lib cfg = Inr W \<and> ValidateAddress ex_lib 20 W ''w1'' (ex_st ex_w0 []) = (Inl e, t) \<and>
     (\<forall>w \<in> set (t_withdrawals t). w_Status w \<noteq> WithdrawalAddressValidated)"
proof -
  let ?deps = "\<lparr>dp_Config = ex_adapter ''secret'', dp_Manifest = ex_manifest\<rparr>"
  have "\<not> isl (withdrawalsWorkflowConfig ex_lib ex_yaml ex_env ?deps) \<and>
    \<not> isl (newWorkflow ex_lib (projr (withdrawalsWorkflowConfig ex_lib ex_yaml ex_env ?deps)))"
    by code_simp
  then obtain cfg W where cfg: "withdrawalsWorkflowConfig ex_lib ex_yaml ex_env ?deps = Inr cfg" and W: "newWorkflow ex_lib cfg = Inr W"
    by (metis sum.collapse(2) sum.sel(2))
  obtain r t where v: "ValidateAddress ex_lib 20 W ''w1'' (ex_st ex_w0 []) = (r, t)" by fastforce
  have g: "withdrawalRepo_Get ''w1'' (ex_st ex_w0 []) = (Inr ex_w0, ex_st ex_w0 [])" by code_simp
  have "w_DestinationAddress ex_w0 = ''dest''" "w_Status ex_w0 = WithdrawalRequested" "t_withdrawals (ex_st ex_w0 []) = [ex_w0]"
    by (simp_all add: ex_w0_def ex_wd_def ex_st_def)
  then show ?thesis using blocklist_enforced [OF cfg W g _ v] cfg W v by fastforce
qed

end
