(* ===== verification/Transports.thy ===== *)
theory Transports
  imports Failover Go_Net
begin

text \<open>
  The two chain transports: service queries tunnelled through \<open>abci_query\<close> and native
  routes of CometBFT (\<open>client/cometrpc.go\<close>), and gRPC (\<open>client/grpc.go\<close>), with the
  conversions of \<open>client/client.go\<close>.  The HTTP exchange, the JSON and protobuf codecs and
  the gRPC stubs are parameters.  Deadlines, metrics and log lines are left out;
  the text of an error is kept where the code reads it.
\<close>

section \<open>Shared conversions (\<open>client/client.go\<close>)\<close>

text \<open>What the last probe found.\<close>

record probeState =
  pb_probed :: bool
  pb_routable :: bool

definition probe_set :: "bool \<Rightarrow> probeState \<Rightarrow> probeState" where
  "probe_set routable p = p\<lparr>pb_probed := True, pb_routable := routable\<rparr>"

definition simulateBlocked :: "probeState \<Rightarrow> bool" where
  "simulateBlocked p \<longleftrightarrow> pb_probed p \<and> \<not> pb_routable p"

record BaseAccount =
  ba_AccountNumber :: uint64
  ba_Sequence :: uint64

text \<open>
  Decoding of the account flavours: a module account holds a base account, a vesting
  account a base vesting account, which holds a base account; either may be missing.
\<close>

record acctlib =
  UnmarshalBaseAccount :: "bytes \<Rightarrow> BaseAccount option"
  UnmarshalModuleAccount :: "bytes \<Rightarrow> BaseAccount option option"
  UnmarshalBaseVesting :: "bytes \<Rightarrow> BaseAccount option option"
  UnmarshalVesting :: "string \<Rightarrow> bytes \<Rightarrow> BaseAccount option option option"

definition vestingTypes :: "string list" where
  "vestingTypes = [''cosmos.vesting.v1beta1.ContinuousVestingAccount'', ''cosmos.vesting.v1beta1.DelayedVestingAccount'',
     ''cosmos.vesting.v1beta1.PeriodicVestingAccount'', ''cosmos.vesting.v1beta1.PermanentLockedAccount'']"

definition messageName :: "string \<Rightarrow> string" where
  "messageName url = (case beforeLast CHR ''/'' url of None \<Rightarrow> url | Some (_, name) \<Rightarrow> name)"

definition fromBase :: "BaseAccount option \<Rightarrow> err + uint64 \<times> uint64" where
  "fromBase b = (case b of None \<Rightarrow> Inl (ErrOther ''missing embedded base account'')
     | Some a \<Rightarrow> Inr (ba_AccountNumber a, ba_Sequence a))"

definition fromVesting :: "BaseAccount option option \<Rightarrow> err + uint64 \<times> uint64" where
  "fromVesting v = (case v of None \<Rightarrow> Inl (ErrOther ''missing embedded base vesting account'') | Some b \<Rightarrow> fromBase b)"

definition accountFromAny :: "acctlib \<Rightarrow> AnyMsg option \<Rightarrow> err + uint64 \<times> uint64" where
  "accountFromAny D a = (case a of None \<Rightarrow> Inl ClientErrNotFound
     | Some m \<Rightarrow> let name = messageName (any_TypeUrl m); v = any_Value m in
         if name = ''cosmos.auth.v1beta1.BaseAccount'' then
           (case UnmarshalBaseAccount D v of None \<Rightarrow> Inl (ErrOther ''unmarshal'') | Some b \<Rightarrow> fromBase (Some b))
         else if name = ''cosmos.auth.v1beta1.ModuleAccount'' then
           (case UnmarshalModuleAccount D v of None \<Rightarrow> Inl (ErrOther ''unmarshal'') | Some b \<Rightarrow> fromBase b)
         else if name = ''cosmos.vesting.v1beta1.BaseVestingAccount'' then
           (case UnmarshalBaseVesting D v of None \<Rightarrow> Inl (ErrOther ''unmarshal'') | Some b \<Rightarrow> fromVesting (Some b))
         else if name \<in> set vestingTypes then
           (case UnmarshalVesting D name v of None \<Rightarrow> Inl (ErrOther ''unmarshal'') | Some b \<Rightarrow> fromVesting b)
         else Inl ClientErrUnsupported)"

definition intFromCoinAmount :: "lib \<Rightarrow> string \<Rightarrow> err + int" where
  "intFromCoinAmount L amount = (if amount = [] then Inr 0
     else case NewIntFromString L amount of None \<Rightarrow> Inl (ErrOther ''invalid coin amount'') | Some v \<Rightarrow> Inr v)"

primrec coinsFromPulsar :: "lib \<Rightarrow> (string \<times> string) list \<Rightarrow> err + RawCoin list" where
  "coinsFromPulsar L [] = Inr []"
| "coinsFromPulsar L (c # cs) = (case intFromCoinAmount L (snd c) of Inl e \<Rightarrow> Inl e
     | Inr amt \<Rightarrow> (case coinsFromPulsar L cs of Inl e \<Rightarrow> Inl e | Inr out \<Rightarrow> Inr (\<lparr>rc_Denom = fst c, rc_Amount = amt\<rparr> # out)))"

text \<open>An event of the consensus engine: its type and its attributes with their index flag.\<close>

type_synonym abciEvent = "string \<times> (string \<times> string \<times> bool) list"

definition eventsFromABCI :: "abciEvent list \<Rightarrow> Event list" where
  "eventsFromABCI evs = map (\<lambda>(t, attrs). \<lparr>ev_Type = t, ev_Attributes = map (\<lambda>(k, v, _). \<lparr>at_Key = k, at_Value = v\<rparr>) attrs\<rparr>) evs"

definition noTxsOptions :: TxsByAddressOptions where
  "noTxsOptions = \<lparr>to_OrderBy = 0, to_StartDate = [], to_EndDate = []\<rparr>"

definition txsByAddressRequest :: "string \<Rightarrow> bytes \<Rightarrow> TxsByAddressOptions list \<Rightarrow> string \<times> bytes \<times> TxsByAddressOptions" where
  "txsByAddressRequest addr page opts = (case opts of [] \<Rightarrow> (addr, page, noTxsOptions)
     | o1 # _ \<Rightarrow> (addr, page, \<lparr>to_OrderBy = to_OrderBy o1, to_StartDate = to_StartDate o1, to_EndDate = to_EndDate o1\<rparr>))"

section \<open>Text\<close>

text \<open>
  \<open>strings.ToLower\<close> as far as it yields ASCII: the ASCII capitals, and the two other code
  points whose lower case is an ASCII letter (the Kelvin sign and the dotted I).
\<close>

fun ToLower :: "string \<Rightarrow> string" where
  "ToLower [] = []"
| "ToLower (c # cs) =
     (if hasPrefix (c # cs) [CHR 0xE2, CHR 0x84, CHR 0xAA] then CHR ''k'' # ToLower (drop 2 cs)
      else if hasPrefix (c # cs) [CHR 0xC4, CHR 0xB0] then CHR ''i'' # ToLower (drop 1 cs)
      else asciiLower c # ToLower cs)"

declare ToLower.simps [simp del]

definition Contains :: "string \<Rightarrow> string \<Rightarrow> bool" where
  "Contains s p \<longleftrightarrow> list_ex (\<lambda>i. hasPrefix (drop i s) p) [0..<Suc (length s)]"

definition ToUpperASCII :: "string \<Rightarrow> string" where
  "ToUpperASCII s = map (\<lambda>c. if is_lower c then char_of (of_char c - 32 :: nat) else c) s"

text \<open>\<open>hex.DecodeString\<close>\<close>

fun hexDecode :: "string \<Rightarrow> bytes option" where
  "hexDecode [] = Some []"
| "hexDecode (a # b # cs) = (if is_hex a \<and> is_hex b then map_option ((#) (word_of_nat (16 * hexVal a + hexVal b))) (hexDecode cs) else None)"
| "hexDecode [a] = None"

section \<open>The CometBFT transport\<close>

record abciResponse =
  ar_Code :: uint32
  ar_Codespace :: string
  ar_Log :: string
  ar_Value :: bytes

record resultTx =
  rt_Height :: int64
  rt_Code :: uint32
  rt_Log :: string
  rt_Events :: "abciEvent list"
  rt_Tx :: bytes

record blockHeader =
  bh_ChainID :: string
  bh_Height :: int64
  bh_Time :: "time option"
  bh_LastBlockHash :: bytes

type_synonym blockBody = "blockHeader \<times> bytes list"

record resultStatus =
  rs_Network :: string
  rs_LatestBlockHeight :: int64
  rs_CatchingUp :: bool

datatype rpcParams = AbciParams string bytes | TxParams bytes | BlockParams "int64 option" | HeightParam int64 | NoParams | TxBytes bytes

type_synonym execResult = "uint32 \<times> string \<times> abciEvent list"

text \<open>
  The HTTP exchange of a request with a method (the body, or the text of the error),
  the JSON envelope (an error with code, message and data, or the result), and the
  decoders of the results.
\<close>

record comet =
  cm_Post :: "string \<Rightarrow> rpcParams \<Rightarrow> string + bytes"
  cm_Envelope :: "bytes \<Rightarrow> string + (int \<times> string \<times> string) option \<times> bytes"
  cm_ABCI :: "bytes \<Rightarrow> string + abciResponse"
  cm_Tx :: "bytes \<Rightarrow> string + resultTx"
  cm_Block :: "bytes \<Rightarrow> string + bytes \<times> blockBody option"
  cm_BlockResults :: "bytes \<Rightarrow> string + int64 \<times> execResult option list \<times> abciEvent list"
  cm_Status :: "bytes \<Rightarrow> string + resultStatus"
  cm_Broadcast :: "bytes \<Rightarrow> string + bytes \<times> uint32 \<times> string"

text \<open>The protobuf requests and responses of the tunnelled queries.\<close>

record querylib =
  EncAccount :: "string \<Rightarrow> bytes option"
  DecAccount :: "bytes \<Rightarrow> AnyMsg option option"
  EncBalance :: "string \<Rightarrow> string \<Rightarrow> bytes option"
  DecBalance :: "bytes \<Rightarrow> string option option"
  EncAllBalances :: "string \<Rightarrow> bytes option"
  DecAllBalances :: "bytes \<Rightarrow> (string \<times> string) list option"
  EncDenomMetadata :: "string \<Rightarrow> bytes option"
  DecDenomMetadata :: "bytes \<Rightarrow> bytes option"
  EncSimulate :: "bytes \<Rightarrow> bytes option"
  DecSimulate :: "bytes \<Rightarrow> (uint64 \<times> uint64) option option"
  EncParams :: "bytes option"
  DecParams :: "bytes \<Rightarrow> bytes option"
  EncTxsByAddress :: "string \<times> bytes \<times> TxsByAddressOptions \<Rightarrow> bytes option"
  DecTxsByAddress :: "bytes \<Rightarrow> bytes option"

definition pathAuthAccount :: string where "pathAuthAccount = ''/cosmos.auth.v1beta1.Query/Account''"
definition pathBankBalance :: string where "pathBankBalance = ''/cosmos.bank.v1beta1.Query/Balance''"
definition pathBankAllBalances :: string where "pathBankAllBalances = ''/cosmos.bank.v1beta1.Query/AllBalances''"
definition pathBankDenomMetadata :: string where "pathBankDenomMetadata = ''/cosmos.bank.v1beta1.Query/DenomMetadata''"
definition pathTxSimulate :: string where "pathTxSimulate = ''/cosmos.tx.v1beta1.Service/Simulate''"
definition pathGlobalFeeParams :: string where "pathGlobalFeeParams = ''/sovr.globalfee.v1.Query/Params''"
definition pathTxsByAddress :: string where "pathTxsByAddress = ''/sovr.txquery.v1.Query/GetTxsByAddress''"

definition envelopeText :: "string \<Rightarrow> int \<times> string \<times> string \<Rightarrow> string" where
  "envelopeText method e = (case e of (code, message, data) \<Rightarrow>
     ''rpc '' @ method @ '': code='' @ show_int code @ '' message='' @ message @ '' data='' @ data)"

definition rpcCall :: "comet \<Rightarrow> string \<Rightarrow> rpcParams \<Rightarrow> (bytes \<Rightarrow> string + 'r) \<Rightarrow> string + 'r" where
  "rpcCall H method params dec =
     (case cm_Post H method params of Inl e \<Rightarrow> Inl (''rpc '' @ method @ '': '' @ e)
      | Inr body \<Rightarrow> (case cm_Envelope H body of Inl e \<Rightarrow> Inl (''rpc '' @ method @ '': decode response: '' @ e)
        | Inr (Some e, _) \<Rightarrow> Inl (envelopeText method e)
        | Inr (None, raw) \<Rightarrow> (case dec raw of Inl e \<Rightarrow> Inl (''rpc '' @ method @ '': decode result: '' @ e) | Inr r \<Rightarrow> Inr r)))"

definition isRouteMissing :: "uint32 \<Rightarrow> string \<Rightarrow> string \<Rightarrow> bool" where
  "isRouteMissing code codespace log \<longleftrightarrow> (codespace = ''sdk'' \<and> code = 6) \<or>
     Contains (ToLower log) ''no route for query'' \<or> Contains (ToLower log) ''unknown query path''"

definition abciQueryRaw :: "comet \<Rightarrow> string \<Rightarrow> bytes \<Rightarrow> err + bytes" where
  "abciQueryRaw H path data =
     (case rpcCall H ''abci_query'' (AbciParams path data) (cm_ABCI H) of Inl e \<Rightarrow> Inl (ErrOther (''abci_query '' @ path @ '': '' @ e))
      | Inr r \<Rightarrow> if ar_Code r = 0 then Inr (ar_Value r)
          else if isRouteMissing (ar_Code r) (ar_Codespace r) (ar_Log r) then Inl ClientErrUnsupported
          else if Contains (ToLower (ar_Log r)) ''not found'' then Inl ClientErrNotFound
          else Inl (ErrOther (''abci_query '' @ path @ '' failed: '' @ ar_Log r)))"

text \<open>\<open>abciQuery\<close> and \<open>abciQueryV2\<close>: the request encoded and the response decoded.\<close>

definition abciQuery :: "comet \<Rightarrow> string \<Rightarrow> bytes option \<Rightarrow> (bytes \<Rightarrow> 'r option) \<Rightarrow> err + 'r" where
  "abciQuery H path req dec = (case req of None \<Rightarrow> Inl (ErrOther (''marshal '' @ path))
     | Some data \<Rightarrow> (case abciQueryRaw H path data of Inl e \<Rightarrow> Inl e
       | Inr value \<Rightarrow> (case dec value of None \<Rightarrow> Inl (ErrOther (''unmarshal '' @ path)) | Some r \<Rightarrow> Inr r)))"

definition comet_Account :: "acctlib \<Rightarrow> querylib \<Rightarrow> comet \<Rightarrow> string \<Rightarrow> err + uint64 \<times> uint64" where
  "comet_Account D Q H addr = (case abciQuery H pathAuthAccount (EncAccount Q addr) (DecAccount Q) of Inl e \<Rightarrow> Inl e
     | Inr a \<Rightarrow> accountFromAny D a)"

definition comet_Balance :: "lib \<Rightarrow> querylib \<Rightarrow> comet \<Rightarrow> string \<Rightarrow> string \<Rightarrow> err + int" where
  "comet_Balance L Q H addr denom = (case abciQuery H pathBankBalance (EncBalance Q addr denom) (DecBalance Q) of Inl e \<Rightarrow> Inl e
     | Inr None \<Rightarrow> Inr 0 | Inr (Some amount) \<Rightarrow> intFromCoinAmount L amount)"

definition comet_AllBalances :: "lib \<Rightarrow> querylib \<Rightarrow> comet \<Rightarrow> string \<Rightarrow> err + RawCoin list" where
  "comet_AllBalances L Q H addr = (case abciQuery H pathBankAllBalances (EncAllBalances Q addr) (DecAllBalances Q) of Inl e \<Rightarrow> Inl e
     | Inr cs \<Rightarrow> coinsFromPulsar L cs)"

definition comet_DenomMetadata :: "querylib \<Rightarrow> comet \<Rightarrow> string \<Rightarrow> err + bytes" where
  "comet_DenomMetadata Q H denom = abciQuery H pathBankDenomMetadata (EncDenomMetadata Q denom) (DecDenomMetadata Q)"

definition comet_GlobalFeeParams :: "querylib \<Rightarrow> comet \<Rightarrow> err + bytes" where
  "comet_GlobalFeeParams Q H = abciQuery H pathGlobalFeeParams (EncParams Q) (DecParams Q)"

definition comet_TxsByAddress :: "querylib \<Rightarrow> comet \<Rightarrow> string \<Rightarrow> bytes \<Rightarrow> TxsByAddressOptions list \<Rightarrow> err + bytes" where
  "comet_TxsByAddress Q H addr page opts =
     abciQuery H pathTxsByAddress (EncTxsByAddress Q (txsByAddressRequest addr page opts)) (DecTxsByAddress Q)"

definition comet_Tx :: "comet \<Rightarrow> string \<Rightarrow> err + TxDetail" where
  "comet_Tx H hash =
     (let h = ToUpperASCII hash; digits = (if hasPrefix h ''0X'' then drop 2 h else h) in
      case hexDecode digits of None \<Rightarrow> Inl (ErrOther ''invalid tx hash'')
      | Some bz \<Rightarrow> (case rpcCall H ''tx'' (TxParams bz) (cm_Tx H) of
          Inl e \<Rightarrow> if Contains (ToLower e) ''not found'' then Inl ClientErrNotFound else Inl (ErrOther e)
        | Inr r \<Rightarrow> Inr \<lparr>ti_Height = rt_Height r, ti_Code = rt_Code r, ti_RawLog = rt_Log r, ti_TxBytes = rt_Tx r,
                       ti_Events = eventsFromABCI (rt_Events r)\<rparr>))"

definition blockOf :: "bytes \<Rightarrow> blockBody option \<Rightarrow> Block" where
  "blockOf hash b = (case b of
       None \<Rightarrow> \<lparr>bk_ChainID = [], bk_Height = 0, bk_Hash = hash, bk_Time = 0, bk_LastBlockHash = [], bk_Txs = []\<rparr>
     | Some (h, txs) \<Rightarrow> \<lparr>bk_ChainID = bh_ChainID h, bk_Height = bh_Height h, bk_Hash = hash,
         bk_Time = (case bh_Time h of None \<Rightarrow> 0 | Some t \<Rightarrow> t), bk_LastBlockHash = bh_LastBlockHash h, bk_Txs = txs\<rparr>)"

definition comet_block :: "comet \<Rightarrow> int64 option \<Rightarrow> err + Block" where
  "comet_block H height = (case rpcCall H ''block'' (BlockParams height) (cm_Block H) of Inl e \<Rightarrow> Inl (ErrOther e)
     | Inr (hash, b) \<Rightarrow> Inr (blockOf hash b))"

definition comet_BlockResults :: "comet \<Rightarrow> int64 \<Rightarrow> err + BlockResults" where
  "comet_BlockResults H height = (case rpcCall H ''block_results'' (HeightParam height) (cm_BlockResults H) of Inl e \<Rightarrow> Inl (ErrOther e)
     | Inr (ht, txs, evs) \<Rightarrow> Inr \<lparr>bs_Height = ht,
         bs_TxResults = map (\<lambda>r. case r of None \<Rightarrow> \<lparr>te_Code = 0, te_Log = [], te_Events = []\<rparr>
           | Some (code, log, es) \<Rightarrow> \<lparr>te_Code = code, te_Log = log, te_Events = eventsFromABCI es\<rparr>) txs,
         bs_FinalizeBlockEvents = eventsFromABCI evs\<rparr>)"

definition comet_NodeStatus :: "comet \<Rightarrow> err + NodeStatus" where
  "comet_NodeStatus H = (case rpcCall H ''status'' NoParams (cm_Status H) of Inl e \<Rightarrow> Inl (ErrOther e)
     | Inr r \<Rightarrow> Inr \<lparr>ns_LatestHeight = rs_LatestBlockHeight r, ns_CatchingUp = rs_CatchingUp r\<rparr>)"

definition simulateResult :: "(uint64 \<times> uint64) option \<Rightarrow> SimulateResult" where
  "simulateResult g = (case g of None \<Rightarrow> \<lparr>sm_GasWanted = 0, sm_GasUsed = 0\<rparr>
     | Some (wanted, used) \<Rightarrow> \<lparr>sm_GasWanted = wanted, sm_GasUsed = used\<rparr>)"

definition comet_Simulate :: "querylib \<Rightarrow> comet \<Rightarrow> bytes \<Rightarrow> probeState \<Rightarrow> (err + SimulateResult) \<times> probeState" where
  "comet_Simulate Q H txBytes p =
     (if simulateBlocked p then (Inl ClientErrSimulateUnavailable, p)
      else case abciQuery H pathTxSimulate (EncSimulate Q txBytes) (DecSimulate Q) of
        Inl e \<Rightarrow> if e = ClientErrUnsupported then (Inl ClientErrSimulateUnavailable, probe_set False p) else (Inl e, p)
      | Inr g \<Rightarrow> (Inr (simulateResult g), p))"

definition comet_Broadcast :: "comet \<Rightarrow> bytes \<Rightarrow> BroadcastMode \<Rightarrow> err + BroadcastResult" where
  "comet_Broadcast H txBytes mode =
     (case (case mode of BroadcastSync \<Rightarrow> Some ''broadcast_tx_sync'' | BroadcastAsync \<Rightarrow> Some ''broadcast_tx_async''
              | BroadcastModeOther m \<Rightarrow> if m = [] then Some ''broadcast_tx_sync'' else None) of
        None \<Rightarrow> Inl (ErrOther ''unknown broadcast mode'')
      | Some method \<Rightarrow> (case rpcCall H method (TxBytes txBytes) (cm_Broadcast H) of Inl e \<Rightarrow> Inl (ErrOther e)
        | Inr (hash, code, log) \<Rightarrow> Inr \<lparr>br_TxHash = hexUpper hash, br_Code = code, br_RawLog = log, br_Accepted = (code = 0)\<rparr>))"

definition comet_Probe :: "querylib \<Rightarrow> comet \<Rightarrow> probeState \<Rightarrow> (err + ProbeResult) \<times> probeState" where
  "comet_Probe Q H p = (case rpcCall H ''status'' NoParams (cm_Status H) of
       Inl e \<Rightarrow> (Inl (ErrOther (''probe: node unreachable: '' @ e)), probe_set False p)
     | Inr _ \<Rightarrow> (let routable = (case abciQuery H pathTxSimulate (EncSimulate Q []) (DecSimulate Q) of
                     Inr _ \<Rightarrow> True | Inl e \<Rightarrow> e \<noteq> ClientErrUnsupported)
                in (Inr \<lparr>pr_NodeReachable = True, pr_TxServiceRoutable = routable\<rparr>, probe_set routable p)))"

section \<open>The gRPC transport\<close>

text \<open>The status of a failed call: only two codes matter to the client, and its text.\<close>

datatype statusCode = Unimplemented | NotFound | OtherCode nat

type_synonym rpcStatus = "statusCode \<times> string"

record txResponse =
  xp_TxHash :: string
  xp_Height :: int64
  xp_Code :: uint32
  xp_RawLog :: string
  xp_Events :: "abciEvent list"
  xp_Tx :: "bytes option"

text \<open>The answer to a block query: the block identifier's hash and the two renderings of the block.\<close>

type_synonym blockAnswer = "bytes \<times> blockBody option \<times> blockBody option"

record grpcNode =
  gn_Account :: "string \<Rightarrow> rpcStatus + AnyMsg option"
  gn_Balance :: "string \<Rightarrow> string \<Rightarrow> rpcStatus + string option"
  gn_AllBalances :: "string \<Rightarrow> rpcStatus + (string \<times> string) list"
  gn_DenomMetadata :: "string \<Rightarrow> rpcStatus + bytes"
  gn_GetTx :: "string \<Rightarrow> rpcStatus + txResponse option"
  gn_GetBlock :: "int64 option \<Rightarrow> rpcStatus + blockAnswer"
  gn_GetSyncing :: "rpcStatus + bool"
  gn_Simulate :: "bytes \<Rightarrow> rpcStatus + (uint64 \<times> uint64) option"
  gn_BroadcastTx :: "bytes \<Rightarrow> bool \<Rightarrow> rpcStatus + txResponse option"
  gn_Params :: "rpcStatus + bytes"
  gn_GetTxsByAddress :: "string \<times> bytes \<times> TxsByAddressOptions \<Rightarrow> rpcStatus + bytes"

definition mapErr :: "rpcStatus \<Rightarrow> err" where
  "mapErr st = (case fst st of Unimplemented \<Rightarrow> ClientErrUnsupported | NotFound \<Rightarrow> ClientErrNotFound | OtherCode n \<Rightarrow> ErrOther (snd st))"

text \<open>A call whose failure is mapped and whose response goes on.\<close>

definition called :: "rpcStatus + 'r \<Rightarrow> ('r \<Rightarrow> err + 'a) \<Rightarrow> err + 'a" where
  "called r f = (case r of Inl st \<Rightarrow> Inl (mapErr st) | Inr x \<Rightarrow> f x)"

definition grpc_Account :: "acctlib \<Rightarrow> grpcNode \<Rightarrow> string \<Rightarrow> err + uint64 \<times> uint64" where
  "grpc_Account D N addr = called (gn_Account N addr) (accountFromAny D)"

definition grpc_Balance :: "lib \<Rightarrow> grpcNode \<Rightarrow> string \<Rightarrow> string \<Rightarrow> err + int" where
  "grpc_Balance L N addr denom = called (gn_Balance N addr denom)
     (\<lambda>b. case b of None \<Rightarrow> Inr 0 | Some amount \<Rightarrow> intFromCoinAmount L amount)"

definition grpc_AllBalances :: "lib \<Rightarrow> grpcNode \<Rightarrow> string \<Rightarrow> err + RawCoin list" where
  "grpc_AllBalances L N addr = called (gn_AllBalances N addr) (coinsFromPulsar L)"

definition grpc_DenomMetadata :: "grpcNode \<Rightarrow> string \<Rightarrow> err + bytes" where
  "grpc_DenomMetadata N denom = called (gn_DenomMetadata N denom) Inr"

definition grpc_GlobalFeeParams :: "grpcNode \<Rightarrow> err + bytes" where
  "grpc_GlobalFeeParams N = called (gn_Params N) Inr"

definition grpc_TxsByAddress :: "grpcNode \<Rightarrow> string \<Rightarrow> bytes \<Rightarrow> TxsByAddressOptions list \<Rightarrow> err + bytes" where
  "grpc_TxsByAddress N addr page opts = called (gn_GetTxsByAddress N (txsByAddressRequest addr page opts)) Inr"

definition grpc_Tx :: "grpcNode \<Rightarrow> string \<Rightarrow> err + TxDetail" where
  "grpc_Tx N hash = called (gn_GetTx N hash) (\<lambda>r. case r of None \<Rightarrow> Inl ClientErrNotFound
     | Some x \<Rightarrow> Inr \<lparr>ti_Height = xp_Height x, ti_Code = xp_Code x, ti_RawLog = xp_RawLog x,
         ti_TxBytes = (case xp_Tx x of None \<Rightarrow> [] | Some bz \<Rightarrow> bz), ti_Events = eventsFromABCI (xp_Events x)\<rparr>)"

definition blockFromCmtService :: "blockAnswer \<Rightarrow> Block" where
  "blockFromCmtService a = (case a of (hash, sdkBlock, protoBlock) \<Rightarrow>
     blockOf hash (case sdkBlock of Some b \<Rightarrow> Some b | None \<Rightarrow> protoBlock))"

definition grpc_block :: "grpcNode \<Rightarrow> int64 option \<Rightarrow> err + Block" where
  "grpc_block N height = called (gn_GetBlock N height) (\<lambda>a. Inr (blockFromCmtService a))"

definition grpc_BlockResults :: "grpcNode \<Rightarrow> int64 \<Rightarrow> err + BlockResults" where
  "grpc_BlockResults N height = Inl ClientErrUnsupported"

definition grpc_NodeStatus :: "grpcNode \<Rightarrow> err + NodeStatus" where
  "grpc_NodeStatus N = called (gn_GetBlock N None) (\<lambda>a. called (gn_GetSyncing N) (\<lambda>syncing.
     Inr \<lparr>ns_LatestHeight = bk_Height (blockFromCmtService a), ns_CatchingUp = syncing\<rparr>))"

definition grpc_Simulate :: "grpcNode \<Rightarrow> bytes \<Rightarrow> probeState \<Rightarrow> (err + SimulateResult) \<times> probeState" where
  "grpc_Simulate N txBytes p =
     (if simulateBlocked p then (Inl ClientErrSimulateUnavailable, p)
      else case gn_Simulate N txBytes of
        Inl st \<Rightarrow> if fst st = Unimplemented then (Inl ClientErrSimulateUnavailable, probe_set False p) else (Inl (mapErr st), p)
      | Inr g \<Rightarrow> (Inr (simulateResult g), p))"

definition grpc_Broadcast :: "grpcNode \<Rightarrow> bytes \<Rightarrow> BroadcastMode \<Rightarrow> err + BroadcastResult" where
  "grpc_Broadcast N txBytes mode =
     (case (case mode of BroadcastSync \<Rightarrow> Some False | BroadcastAsync \<Rightarrow> Some True
              | BroadcastModeOther m \<Rightarrow> if m = [] then Some False else None) of
        None \<Rightarrow> Inl (ErrOther ''unknown broadcast mode'')
      | Some async \<Rightarrow> called (gn_BroadcastTx N txBytes async) (\<lambda>r. case r of
          None \<Rightarrow> Inl (ErrOther ''broadcast: empty tx_response'')
        | Some x \<Rightarrow> Inr \<lparr>br_TxHash = xp_TxHash x, br_Code = xp_Code x, br_RawLog = xp_RawLog x, br_Accepted = (xp_Code x = 0)\<rparr>))"

definition grpc_Probe :: "grpcNode \<Rightarrow> probeState \<Rightarrow> (err + ProbeResult) \<times> probeState" where
  "grpc_Probe N p = (case gn_GetBlock N None of
       Inl st \<Rightarrow> (Inl (ErrOther (''probe: node unreachable: '' @ snd st)), probe_set False p)
     | Inr _ \<Rightarrow> (let routable = (case gn_Simulate N [] of Inr _ \<Rightarrow> True | Inl st \<Rightarrow> fst st \<noteq> Unimplemented)
                in (Inr \<lparr>pr_NodeReachable = True, pr_TxServiceRoutable = routable\<rparr>, probe_set routable p)))"

section \<open>Clients\<close>

text \<open>The client a node gives over each transport, in a state of the probe.\<close>

definition cometClient :: "lib \<Rightarrow> acctlib \<Rightarrow> querylib \<Rightarrow> comet \<Rightarrow> probeState \<Rightarrow> client" where
  "cometClient L D Q H p = \<lparr>cl_Account = comet_Account D Q H, cl_Balance = comet_Balance L Q H, cl_AllBalances = comet_AllBalances L Q H,
     cl_DenomMetadata = comet_DenomMetadata Q H, cl_Tx = comet_Tx H, cl_BlockByHeight = (\<lambda>h. comet_block H (Some h)),
     cl_LatestBlock = comet_block H None, cl_BlockResults = comet_BlockResults H, cl_NodeStatus = comet_NodeStatus H,
     cl_Simulate = (\<lambda>bz. fst (comet_Simulate Q H bz p)), cl_Broadcast = comet_Broadcast H,
     cl_GlobalFeeParams = comet_GlobalFeeParams Q H, cl_TxsByAddress = comet_TxsByAddress Q H, cl_Probe = fst (comet_Probe Q H p),
     cl_Close = Inr ()\<rparr>"

definition grpcNodeClient :: "lib \<Rightarrow> acctlib \<Rightarrow> grpcNode \<Rightarrow> probeState \<Rightarrow> client" where
  "grpcNodeClient L D N p = \<lparr>cl_Account = grpc_Account D N, cl_Balance = grpc_Balance L N, cl_AllBalances = grpc_AllBalances L N,
     cl_DenomMetadata = grpc_DenomMetadata N, cl_Tx = grpc_Tx N, cl_BlockByHeight = (\<lambda>h. grpc_block N (Some h)),
     cl_LatestBlock = grpc_block N None, cl_BlockResults = grpc_BlockResults N, cl_NodeStatus = grpc_NodeStatus N,
     cl_Simulate = (\<lambda>bz. fst (grpc_Simulate N bz p)), cl_Broadcast = grpc_Broadcast N,
     cl_GlobalFeeParams = grpc_GlobalFeeParams N, cl_TxsByAddress = grpc_TxsByAddress N, cl_Probe = fst (grpc_Probe N p),
     cl_Close = Inr ()\<rparr>"

end
