(* ===== verification/Transport_Theorems.thy ===== *)
theory Transport_Theorems
  imports Transports "HOL-Library.Sublist"
begin

text \<open>
  The two transports give the same client: what a node answers to a query, a
  transaction lookup, a simulation, a broadcast and a probe is the same through the
  CometBFT tunnel and through gRPC, up to the text of an error that no caller reads
  and the bytes of a transaction, which gRPC encodes again.  What a node puts on the
  wire of each transport is stated as the node documents it, error code by error
  code, not as the client tests it; where the client's reading of the tunnel goes
  wrong is stated too.
\<close>

section \<open>Texts\<close>

definition ascii :: "string \<Rightarrow> bool" where
  "ascii s \<longleftrightarrow> (\<forall>c \<in> set s. (of_char c :: nat) < 128)"


lemma ascii_append [simp]: "ascii (s @ t) \<longleftrightarrow> ascii s \<and> ascii t" and ascii_Nil [simp]: "ascii []"
  by (auto simp: ascii_def)





lemma colon_lower [simp]: "asciiLower CHR '':'' = CHR '':''"
  by (simp add: asciiLower_def)


section \<open>One node behind two transports\<close>

text \<open>A result without the text of an error that wraps no sentinel.\<close>

definition untext :: "err + 'a \<Rightarrow> err + 'a" where
  "untext r = (case r of Inl (ErrOther m) \<Rightarrow> Inl (ErrOther []) | _ \<Rightarrow> r)"

lemma untext_simps [simp]:
  "untext (Inr x) = Inr x" "untext (Inl (ErrOther m)) = Inl (ErrOther [])"
  "untext (Inl ClientErrUnsupported) = Inl ClientErrUnsupported" "untext (Inl ClientErrNotFound) = Inl ClientErrNotFound"
  by (simp_all add: untext_def)

text \<open>
  Documented behaviour of the node's base application: \<open>abci_query\<close> on the path of a
  service method runs the method.  A response comes back with code 0 and its
  encoding.  A status becomes the SDK error registered for it, in codespace \<open>sdk\<close>,
  with the status text before the error's own in the log: \<open>NotFound\<close> is \<open>key not
  found\<close> (30), \<open>InvalidArgument\<close> (3) and \<open>FailedPrecondition\<close> (9) are \<open>invalid request\<close>
  (18), \<open>Unauthenticated\<close> (16) is \<open>unauthorized\<close> (4), and any other status is
  \<open>unknown request\<close> (6), which is also the answer on a path that is not routed.
\<close>

definition sdkError :: "statusCode \<Rightarrow> uint32 \<times> string" where
  "sdkError code = (case code of NotFound \<Rightarrow> (30, ''key not found'')
     | Unimplemented \<Rightarrow> (6, ''unknown request'')
     | OtherCode n \<Rightarrow> if n = 3 \<or> n = 9 then (18, ''invalid request'') else if n = 16 then (4, ''unauthorized'')
         else (6, ''unknown request''))"

definition tunnelled :: "comet \<Rightarrow> string \<Rightarrow> bytes option \<Rightarrow> (bytes \<Rightarrow> 'r option) \<Rightarrow> rpcStatus + 'r \<Rightarrow> bool" where
  "tunnelled H path req dec answer \<longleftrightarrow> (case req of None \<Rightarrow> False | Some data \<Rightarrow>
     case rpcCall H ''abci_query'' (AbciParams path data) (cm_ABCI H) of Inl e \<Rightarrow> False | Inr r \<Rightarrow>
     case answer of Inr x \<Rightarrow> ar_Code r = 0 \<and> dec (ar_Value r) = Some x
     | Inl (code, text) \<Rightarrow> ar_Code r = fst (sdkError code) \<and> ar_Codespace r = ''sdk'' \<and>
         (code \<noteq> Unimplemented \<longrightarrow> ar_Log r = text @ '': '' @ snd (sdkError code)))"















section \<open>Hashes\<close>

lemma hex_digit_back:
  assumes "n < 16"
  shows "is_hex (hex_digit_upper n)" "hexVal (hex_digit_upper n) = n" "\<not> is_lower (hex_digit_upper n)" "hex_digit_upper n \<noteq> CHR ''X''"
proof -
  have c: "of_char (hex_digit_upper n) = (if n < 10 then 48 + n else 55 + n)"
    using assms by (simp add: hex_digit_upper_def of_char_mod_256)
  show "is_hex (hex_digit_upper n)" "hexVal (hex_digit_upper n) = n" "\<not> is_lower (hex_digit_upper n)"
    using assms by (auto simp: is_hex_def hexVal_def is_digit_def is_lower_def digit_val_def c)
  show "hex_digit_upper n \<noteq> CHR ''X''"
  proof
    assume "hex_digit_upper n = CHR ''X''"
    then have "of_char (hex_digit_upper n) = (88 :: nat)" by simp
    then show False using assms c by (simp split: if_splits)
  qed
qed

lemma hexUpper_Cons: "hexUpper (b # bz) = hex_digit_upper (unat b div 16) # hex_digit_upper (unat b mod 16) # hexUpper bz"
  by (simp add: hexUpper_def)

lemma byte_nibbles: "unat (b :: 8 word) div 16 < 16" "unat b mod 16 < 16"
proof -
  have "unat b < 2 ^ LENGTH(8)" by (rule unsigned_less)
  then show "unat b div 16 < 16" "unat b mod 16 < 16" by (simp_all add: less_mult_imp_div_less)
qed

lemma hexDecode_hexUpper [simp]: "hexDecode (hexUpper bz) = Some bz"
proof (induction bz)
  case (Cons b bz)
  have "16 * (unat b div 16) + unat b mod 16 = unat b" by simp
  then show ?case using Cons by (simp add: hexUpper_Cons hex_digit_back byte_nibbles)
qed (simp add: hexUpper_def)

lemma ToUpper_hexUpper [simp]: "ToUpperASCII (hexUpper bz) = hexUpper bz"
  by (induction bz) (auto simp: hexUpper_Cons ToUpperASCII_def hex_digit_back byte_nibbles, simp add: hexUpper_def)

lemma no_0X [simp]: "\<not> hasPrefix (hexUpper bz) ''0X''"
  by (cases bz) (simp_all add: hexUpper_Cons hasPrefix_def hex_digit_back(4) byte_nibbles, simp add: hexUpper_def)

section \<open>Agreement\<close>








text \<open>
  Outside these conditions the tunnel misleads the client: a status without an SDK
  error of its own comes back as code 6, the answer of a path that is not routed, so
  that one failed simulation is taken for a missing service and shuts the simulation
  gate.
\<close>

lemma unmapped_status_shuts_gate:
  assumes "tunnelled H pathTxSimulate (EncSimulate Q bz) (DecSimulate Q) (Inl (OtherCode n, msg))"
    and "n \<notin> {3, 9, 16}" "\<not> simulateBlocked p"
  shows "comet_Simulate Q H bz p = (Inl ClientErrSimulateUnavailable, probe_set False p)"
  using assms
  by (auto simp: comet_Simulate_def abciQuery_def abciQueryRaw_def tunnelled_def sdkError_def isRouteMissing_def
      split: option.splits sum.splits)








section \<open>The probe and its gate\<close>

text \<open>
  Once a probe or a simulation has found the service unroutable, every simulation is
  refused without asking the node, until a probe finds it routable again.
\<close>

lemma simulate_gate:
  assumes "simulateBlocked p"
  shows "comet_Simulate Q H bz p = (Inl ClientErrSimulateUnavailable, p)" "grpc_Simulate N bz p = (Inl ClientErrSimulateUnavailable, p)"
  using assms by (simp_all add: comet_Simulate_def grpc_Simulate_def)

lemma probe_gate:
  "comet_Probe Q H p = (r, p') \<Longrightarrow> simulateBlocked p' \<longleftrightarrow> (case r of Inl e \<Rightarrow> True | Inr x \<Rightarrow> \<not> pr_TxServiceRoutable x)"
  "grpc_Probe N p = (r, p') \<Longrightarrow> simulateBlocked p' \<longleftrightarrow> (case r of Inl e \<Rightarrow> True | Inr x \<Rightarrow> \<not> pr_TxServiceRoutable x)"
  by (auto simp: comet_Probe_def grpc_Probe_def simulateBlocked_def probe_set_def Let_def split: sum.splits)

text \<open>
  A failed exchange whose text happens to contain \<open>not found\<close>, the status line of a proxy for
  instance, is reported as a transaction that does not exist.
\<close>

lemma exchange_error_reads_as_absent:
  assumes "cm_Post H ''tx'' (TxParams bz) = Inl ''Not Found''"
  shows "comet_Tx H (hexUpper bz) = Inl ClientErrNotFound"
proof -
  have "Contains (ToLower (''rpc '' @ ''tx'' @ '': '' @ ''Not Found'')) ''not found''" by code_simp
  then show ?thesis using assms by (simp add: comet_Tx_def rpcCall_def Let_def)
qed

end
