(* ===== verification/Spec2Isabelle.thy ===== *)
theory Spec2Isabelle
  imports Deposit_Theorems Sweep_Theorems Sweep_Economics Sweep_Settlement Amounts Reconcile_Theorems Monitor_Theorems
    Program_Theorems Signer_Theorems Adapter_Theorems Transport_Theorems
begin

text \<open>
  Verification of the exchange integration kit, the Go sources under
  \<open>src/go\<close>: the library an exchange uses to detect and credit deposits, to pay
  withdrawals, and to consolidate customer funds on a Cosmos chain.

  \<^bold>\<open>The program and how its parts interact.\<close>  A relational store
  (\<open>storage/repo.go\<close>, \<open>storage/internal/sqlstore\<close>) keeps every record; each
  record has a status that moves along a table (\<open>storage/transitions.go\<close>) by a
  compare-and-swap \<open>UpdateStatus\<close>.  The deposit scanner
  (\<open>deposits/scanner.go\<close>) walks the chain block by block, parses each block
  (\<open>deposits/parse.go\<close>), records it in one transaction and credits confirmed
  deposits through an outbox (\<open>deposits/state.go\<close>).  The withdrawal workflow
  (\<open>withdrawals/workflow.go\<close>, \<open>broadcast.go\<close>) takes a request through address
  validation (\<open>address\<close>), fund and sequence reservation
  (\<open>sequences/manager.go\<close>), building and signing (\<open>tx\<close>, \<open>signer\<close>), broadcast
  and confirmation; an operator settles what needs review
  (\<open>cmd/sovren-adapter/review_resolution.go\<close>).  The sweep engine
  (\<open>sweeps\<close>) plans consolidating transfers of credited deposits, funds their
  fees when the strategy asks for it, and runs them through the same sequence
  manager and signing path.  Reconciliation (\<open>reconcile\<close>) compares the ledger
  with the chain, and its monitor compares two nodes (\<open>client/failover.go\<close>) and
  closes the credit gate when they disagree.  \<open>amounts\<close> converts what users type.
  The adapter (\<open>cmd/sovren-adapter\<close>) runs all of this as services: at startup it
  discovers the source accounts of the work in flight and reconciles them, then it
  drives every withdrawal one step per pass; its admin API pauses flows and settles
  reviews.  A signature comes from a backend of \<open>signer\<close>: the local test signer, a
  gRPC service or a subprocess.

  \<^bold>\<open>How it is modelled.\<close>  A stateful operation is a program
  \<open>('s, 'a) prog\<close> of \<open>Prelude\<close>: from a store to a result or an error and the
  store after it; \<open>with_tx\<close> restores the store when its body fails, as a
  database transaction does.  The transactions are SQLite's: after a rejected
  statement the body may go on.  PostgreSQL aborts the transaction there, which
  matters to bodies that swallow \<open>ErrDuplicate\<close>; \<open>RecordBlock\<close> is modelled for
  that backend as well (\<open>Postgres\<close>), where whatever commits is what the SQLite model
  commits and whatever fails changes nothing, so that the safety theorems hold there
  too, while a replay, and with it a rescan or the revival of an orphaned deposit,
  fails.  The store is a record with one list of rows per
  table.  Structs are records, enums are datatypes, \<open>uint64\<close> and \<open>uint32\<close> are
  words, amounts (\<open>sdkmath.Int\<close>) are \<open>int\<close>, times are nanoseconds.  What is not
  under \<open>src\<close> is an argument: the node's answers (\<open>chain\<close>, \<open>feed\<close>), the signer,
  bech32, the protobuf codec and secp256k1, the JSON encoder, the clock and fresh
  identifiers.  SHA-256, which the Go standard library provides, is defined.

  \<^bold>\<open>The theories.\<close>
  \<^item> \<open>Prelude\<close>: errors, programs, the locale \<open>step_rel\<close> (a preorder on stores and
    the rules by which programs stay inside it) and the locale \<open>cas_repo\<close> (the
    contract of every \<open>UpdateStatus\<close>).
  \<^item> \<open>Storage_Types\<close>, \<open>Transitions\<close>: \<open>storage/repo.go\<close>, \<open>storage/transitions.go\<close>.
  \<^item> \<open>Sqlstore\<close>, \<open>Store_Laws\<close>: every repository method, the schema's unique
    keys as an invariant that all methods keep, and the interpretations of
    \<open>cas_repo\<close> on the four status repositories.
  \<^item> \<open>Decimal\<close>, \<open>Sha256\<close>: printing and reading of numbers, hashes and hex.
  \<^item> \<open>Address\<close>, \<open>Tx\<close>, \<open>Chain\<close>: validation of recipients, building, summarising
    and assembling transactions, the node's answers.
  \<^item> \<open>Sequences_Manager\<close>: reservation and reconciliation of sequence numbers.
  \<^item> \<open>Fees\<close>, \<open>Withdrawals\<close>, \<open>Broadcast\<close>, \<open>Review_Resolution\<close>: the withdrawal
    workflow and the settlement of reviews.  \<open>Withdrawal_Safety\<close> is the safety
    argument over all of its steps; \<open>Withdrawal_Theorems\<close> and
    \<open>Lifecycle_Theorems\<close> hold the properties, \<open>Withdrawal_Fixtures\<close> and
    \<open>Fixtures\<close> the concrete runs their witnesses use.
  \<^item> \<open>Deposits_Parse\<close>, \<open>Deposits_State\<close>, \<open>Deposits_Scanner\<close>: the deposit side.
    \<open>Deposit_Rows\<close> is about the parser, \<open>Deposit_Safety\<close> about crediting over all
    steps, \<open>Deposit_Replay\<close> about recording twice and about the walk, \<open>Postgres\<close> about
    recording on that backend;
    \<open>Deposit_Theorems\<close> holds the properties and \<open>Deposit_Fixtures\<close> a concrete
    scan.
  \<^item> \<open>Sweeps_Plan\<close>, \<open>Sweeps_Steps\<close>: the sweep engine.  \<open>Sweep_Safety\<close> is its
    safety argument and \<open>System_Safety\<close> the one over all components: the step
    relation \<open>sysstep\<close> interleaves withdrawals, deposits, sweeps and the
    dispatcher, and each component's invariant survives the others.
    \<open>Sweep_Theorems\<close>, \<open>Sweep_Economics\<close> and \<open>Sweep_Settlement\<close> hold the
    properties, \<open>Sweep_Fixtures\<close> a run of the whole system.
  \<^item> \<open>Amounts\<close>: display amounts and base units, and their round trips.
  \<^item> \<open>Failover\<close>: the two-node client and its comparison.  \<open>Transports\<close>,
    \<open>Transport_Theorems\<close>: the clients of \<open>client/cometrpc.go\<close> and \<open>client/grpc.go\<close>.
  \<^item> \<open>Reconcile\<close>, \<open>Reconcile_Business\<close>, \<open>Reconcile_Theorems\<close>: the ledger walk, the
    reports and the near-real-time pass.
  \<^item> \<open>Monitor\<close>, \<open>Monitor_Theorems\<close>: the disagreement monitor and the credit gate.
  \<^item> \<open>Store_Invariant\<close>: the locales \<open>side_closed\<close> and \<open>repo_closed\<close>, the contract
    between the store and its clients: what every repository method keeps, every
    operation of every component keeps.  \<open>Schema\<close> interprets them on the \<open>CHECK\<close>
    constraints of \<open>storage/migrations\<close>, \<open>Compliance\<close> on the statuses a withdrawal
    can have without an approval.
  \<^item> \<open>Services\<close>, \<open>Admin\<close>: the service passes and the admin handlers of
    \<open>cmd/sovren-adapter\<close>.  \<open>Program\<close> is the step relation of the whole program and
    its refinement to \<open>sysstep\<close>, \<open>Discovery\<close> is about the startup scans,
    \<open>Controls_Audit\<close> about the controls over time and what a paused flow does,
    \<open>Reconciler_Service\<close> is the fourth service, the rounds of its schedules, monitor
    and gauges, and \<open>Program_Theorems\<close> holds the properties.
  \<^item> \<open>Go_Net\<close>, \<open>Network_Manifest\<close>, \<open>Adapter_Config\<close>: what the Go library says about hosts
    and IP addresses, \<open>client/config.go\<close>, and \<open>adapter.yaml\<close> with the runtime values the
    services take from it.  \<open>Adapter_Main\<close> wires the signer and models \<open>main.go\<close> up to the
    running services; \<open>Adapter_Theorems\<close> holds the properties.
  \<^item> \<open>Go_Text\<close>, \<open>Signers\<close>: what the Go library says about text and base64; the
    backends and transports of \<open>signer\<close>, the demo signer and \<open>address/derive.go\<close>.
    \<open>Signer_Theorems\<close> has the locale \<open>signer_transport\<close>, interpreted on both
    transports, and the properties.

  \<^bold>\<open>What is shown.\<close>  For withdrawals: two signed withdrawals never share a
  sequence number, signed bytes never change, a slot a signature may redeem is
  never re-issued, commitments stay within the balance, and the bytes signed
  say what was approved.  For deposits: each credited deposit has exactly one
  credit event, a credit is final and happens only under the documented
  conditions, replaying a block adds nothing on either backend, a successful cycle
  missed no block, and the rows of a block never collide.  For sequences: reconciliation
  ends, leaves nothing open and justifies every action.  For sweeps and the
  whole system: two signed work items of any kind never share a slot, signed
  sweep bytes never change and say what was planned, a plan without a deferral
  executes, funding stays within its cap, and a deposit is marked as swept only
  on the evidence of its transaction.  For reconciliation: the paged walk
  computes the formula of the data model and nothing but reports is written; a
  disagreement of the nodes stops crediting.  Amounts convert without loss, and
  the failover client answers queries while one node is up; the CometBFT and the gRPC
  transport give the same client of a node whose tunnel answers with the documented
  SDK errors.  For the whole program: every
  row of every reachable store satisfies the schema, the services and handlers only
  do what the system steps do, no withdrawal is signed without its approval, a pause
  changes one flag and stops its flow until an audited resume (\<open>Recover\<close>, which no
  service calls, does not ask), and startup finds and settles every
  source it is meant to.  For signers: a transport cannot be told from the backend
  behind it, and the local signer's own check of a summary accepts exactly what the
  builder derives.  For the configuration: no signer is wired that the network does
  not allow, the services start only on the right chain behind a guarded admin API
  with every configured address watched, and the configured blocklist reaches the
  withdrawal workflow.  The theorems
  \<open>confirm_behind_node\<close>, \<open>sweep_confirm_behind_node\<close>, \<open>cancel_uncommits_signed\<close>,
  \<open>revived_height_stale\<close>, \<open>parked_survive_orphan_flow\<close>, \<open>lag_blocks_credit\<close>,
  \<open>outflow_report_rejected\<close>, \<open>replay_adds_nothing\<close> (its PostgreSQL part),
  \<open>recover_ignores_controls\<close> and \<open>unmapped_status_shuts_gate\<close> pin down behaviour that differs from what a comment
  or a guide says.

  \<^bold>\<open>Bounds and fuel.\<close>  Four loops have no structural bound.  The block walk
  \<open>scanLoop\<close> has the reported height plus two as fuel; \<open>scanRounds\<close> is the same loop
  with \<open>None\<close> for a loop that has not returned, and \<open>scan_terminates\<close> shows that with
  that fuel it returns, with the result \<open>scanLoop\<close> has; the one height left out is
  the greatest \<open>uint64\<close>, where the loop variable of the code wraps.  The page loop
  \<open>pageLoop\<close> has one round per ledger row and one more, and \<open>pageLoop_fold\<close> shows
  that it then is the fold over all rows, so it never runs out.  \<open>paginateAll\<close> has
  one round per row of its queue and one more, enough by \<open>paginate_all\<close>, and
  \<open>eachField\<close> one round per byte, enough by \<open>eachField_carries\<close>.  The eight
  rounds of \<open>planFeeLoop\<close> are the code's own bound \<open>planFeeMaxRounds\<close>.

  \<^bold>\<open>Not modelled.\<close>  Interleaving inside one operation (locks are implicit: an
  operation is one step, and the step relations interleave operations freely),
  driver and network failures of the database, logs, metrics and gauges, context
  cancellation inside an operation, the time between the rounds of the poll and ticker
  loops, dialling and HTTP,
  process start and deadlines of the signer transports, flag parsing, goroutines and
  shutdown of the adapter, message texts, the command-line tools around the library
  (certification, manifest and test-vector generation: file and network access),
  generated code and test suites.
\<close>

end
